(* ===== verification/Manager_Prelude.thy ===== *)
theory Manager_Prelude
  imports Main
begin

section \<open>Prelude: results, effects and lists of records\<close>

text \<open>
  What the component theories share: the state and exception monad in which the
  stateful Go functions are written (a Go function that returns \<open>(T, error)\<close> and
  works on shared state is a function from the state to a result and the next state;
  the state changes made before an early return stay), the preservation calculus for
  invariants of that state, the operations on slices of records addressed by a key, and
  the decimal and hexadecimal text of numbers.
\<close>

named_theorems preserves_intros \<open>rules that push an invariant through a program\<close>
named_theorems slice_simps \<open>equations on slices addressed by a key\<close>

subsection \<open>The state and exception monad\<close>

type_synonym ('s, 'e, 'a) prog = "'s \<Rightarrow> ('e + 'a) \<times> 's"

definition m_return :: "'a \<Rightarrow> ('s, 'e, 'a) prog" where
  "m_return x = (\<lambda>s. (Inr x, s))"

definition m_throw :: "'e \<Rightarrow> ('s, 'e, 'a) prog" where
  "m_throw e = (\<lambda>s. (Inl e, s))"

text \<open>\<open>x, err := m; if err != nil { return err }; f(x)\<close>\<close>

definition m_bind :: "('s, 'e, 'a) prog \<Rightarrow> ('a \<Rightarrow> ('s, 'e, 'b) prog) \<Rightarrow> ('s, 'e, 'b) prog" where
  "m_bind m f = (\<lambda>s. case m s of (Inl e, s') \<Rightarrow> (Inl e, s') | (Inr x, s') \<Rightarrow> f x s')"

text \<open>\<open>x, err := m\<close>, with the error looked at by the code that follows.\<close>

definition m_try :: "('s, 'e, 'a) prog \<Rightarrow> ('s, 'e, 'e + 'a) prog" where
  "m_try m = (\<lambda>s. case m s of (r, s') \<Rightarrow> (Inr r, s'))"

definition m_lift :: "'e + 'a \<Rightarrow> ('s, 'e, 'a) prog" where
  "m_lift r = (\<lambda>s. (r, s))"

definition m_gets :: "('s \<Rightarrow> 'e + 'a) \<Rightarrow> ('s, 'e, 'a) prog" where
  "m_gets f = (\<lambda>s. (f s, s))"

definition m_modify :: "('s \<Rightarrow> 's) \<Rightarrow> ('s, 'e, unit) prog" where
  "m_modify f = (\<lambda>s. (Inr (), f s))"

fun m_each :: "('a \<Rightarrow> ('s, 'e, 'b) prog) \<Rightarrow> 'a list \<Rightarrow> ('s, 'e, 'b list) prog" where
  "m_each f [] = m_return []"
| "m_each f (x # xs) =
     m_bind (f x) (\<lambda>y. m_bind (m_each f xs) (\<lambda>ys. m_return (y # ys)))"

text \<open>
  A sequence of calls whose errors are the callers' business: each call runs on the state
  the one before left. It stands for interleaved callers of an operation that is atomic.
\<close>

fun run_all :: "('a \<Rightarrow> ('s, 'e, 'b) prog) \<Rightarrow> 'a list \<Rightarrow> 's \<Rightarrow> ('e + 'b) list \<times> 's" where
  "run_all f [] s = ([], s)"
| "run_all f (x # xs) s =
     (case f x s of (r, s1) \<Rightarrow> (case run_all f xs s1 of (rs, s2) \<Rightarrow> (r # rs, s2)))"

fun successes :: "('e + 'b) list \<Rightarrow> 'b list" where
  "successes [] = []"
| "successes (Inl e # rs) = successes rs"
| "successes (Inr x # rs) = x # successes rs"

text \<open>Running the monad on a state: the equations evaluation rests on.\<close>

lemma run_return [simp]: "m_return x s = (Inr x, s)"
  by (simp add: m_return_def)

lemma run_throw [simp]: "m_throw e s = (Inl e, s)"
  by (simp add: m_throw_def)

lemma run_bind:
  "m_bind m f s = (case fst (m s) of Inl e \<Rightarrow> (Inl e, snd (m s)) | Inr x \<Rightarrow> f x (snd (m s)))"
  by (simp add: m_bind_def split: prod.split sum.split)

lemma run_bind_Inr [simp]: "m s = (Inr x, s') \<Longrightarrow> m_bind m f s = f x s'"
  by (simp add: m_bind_def)

lemma run_bind_Inl [simp]: "m s = (Inl e, s') \<Longrightarrow> m_bind m f s = (Inl e, s')"
  by (simp add: m_bind_def)

lemma run_try [simp]: "m_try m s = (Inr (fst (m s)), snd (m s))"
  by (simp add: m_try_def split: prod.split)

lemma run_lift [simp]: "m_lift r s = (r, s)"
  by (simp add: m_lift_def)

lemma run_gets [simp]: "m_gets f s = (f s, s)"
  by (simp add: m_gets_def)

lemma run_modify [simp]: "m_modify f s = (Inr (), f s)"
  by (simp add: m_modify_def)

lemma bind_return_left [simp]: "m_bind (m_return x) f = f x"
  by (simp add: fun_eq_iff)

lemma bind_throw_left [simp]: "m_bind (m_throw e) f = m_throw e"
  by (simp add: fun_eq_iff)

lemma bind_assoc: "m_bind (m_bind m f) g = m_bind m (\<lambda>x. m_bind (f x) g)"
  by (auto simp: fun_eq_iff m_bind_def split: prod.split sum.split)

text \<open>A run that returned a value went through both halves of a sequence.\<close>

lemma bind_InrE:
  assumes "m_bind m f s = (Inr y, s')"
  obtains x t where "m s = (Inr x, t)" and "f x t = (Inr y, s')"
  using assms by (auto simp: m_bind_def split: prod.splits sum.splits)

subsection \<open>Invariants through programs\<close>

definition preserves :: "('s \<Rightarrow> bool) \<Rightarrow> ('s, 'e, 'a) prog \<Rightarrow> bool" where
  "preserves I m \<longleftrightarrow> (\<forall>s. I s \<longrightarrow> I (snd (m s)))"

lemma preservesI: "(\<And>s. I s \<Longrightarrow> I (snd (m s))) \<Longrightarrow> preserves I m"
  by (simp add: preserves_def)

lemma preservesD: "preserves I m \<Longrightarrow> I s \<Longrightarrow> I (snd (m s))"
  by (simp add: preserves_def)

lemma preserves_return [preserves_intros]: "preserves I (m_return x)"
  by (simp add: preserves_def)

lemma preserves_throw [preserves_intros]: "preserves I (m_throw e)"
  by (simp add: preserves_def)

lemma preserves_lift [preserves_intros]: "preserves I (m_lift r)"
  by (simp add: preserves_def)

lemma preserves_gets [preserves_intros]: "preserves I (m_gets f)"
  by (simp add: preserves_def)

lemma preserves_modify: "(\<And>s. I s \<Longrightarrow> I (f s)) \<Longrightarrow> preserves I (m_modify f)"
  by (simp add: preserves_def)

lemma preserves_bind [preserves_intros]:
  "preserves I m \<Longrightarrow> (\<And>x. preserves I (f x)) \<Longrightarrow> preserves I (m_bind m f)"
  by (auto simp: preserves_def run_bind split: sum.split)

lemma preserves_try [preserves_intros]: "preserves I m \<Longrightarrow> preserves I (m_try m)"
  by (simp add: preserves_def)

lemma preserves_if [preserves_intros]:
  "(c \<Longrightarrow> preserves I m) \<Longrightarrow> (\<not> c \<Longrightarrow> preserves I n) \<Longrightarrow> preserves I (if c then m else n)"
  by simp

lemma preserves_case_option [preserves_intros]:
  "(x = None \<Longrightarrow> preserves I m) \<Longrightarrow> (\<And>y. x = Some y \<Longrightarrow> preserves I (f y)) \<Longrightarrow>
   preserves I (case x of None \<Rightarrow> m | Some y \<Rightarrow> f y)"
  by (cases x) auto

lemma preserves_case_sum [preserves_intros]:
  "(\<And>y. x = Inl y \<Longrightarrow> preserves I (f y)) \<Longrightarrow> (\<And>y. x = Inr y \<Longrightarrow> preserves I (g y)) \<Longrightarrow>
   preserves I (case x of Inl y \<Rightarrow> f y | Inr y \<Rightarrow> g y)"
  by (cases x) auto

lemma preserves_case_prod [preserves_intros]:
  "(\<And>a b. x = (a, b) \<Longrightarrow> preserves I (f a b)) \<Longrightarrow> preserves I (case x of (a, b) \<Rightarrow> f a b)"
  by (cases x) auto

lemma preserves_each [preserves_intros]:
  "(\<And>x. preserves I (f x)) \<Longrightarrow> preserves I (m_each f xs)"
  by (induction xs) (auto intro!: preserves_intros)

subsection \<open>What holds when a program returns\<close>

definition ensures :: "('s, 'e, 'a) prog \<Rightarrow> ('a \<Rightarrow> 's \<Rightarrow> bool) \<Rightarrow> bool" where
  "ensures m Q \<longleftrightarrow> (\<forall>s x s'. m s = (Inr x, s') \<longrightarrow> Q x s')"

lemma ensuresD: "ensures m Q \<Longrightarrow> m s = (Inr x, s') \<Longrightarrow> Q x s'"
  by (simp add: ensures_def)

lemma ensures_bind: "(\<And>x. ensures (f x) Q) \<Longrightarrow> ensures (m_bind m f) Q"
  unfolding ensures_def by (blast elim: bind_InrE)

lemma ensures_if:
  "(c \<Longrightarrow> ensures m Q) \<Longrightarrow> (\<not> c \<Longrightarrow> ensures n Q) \<Longrightarrow> ensures (if c then m else n) Q"
  by simp

lemma ensures_return: "(\<And>s. Q x s) \<Longrightarrow> ensures (m_return x) Q"
  by (simp add: ensures_def)

lemma ensures_mono: "ensures m P \<Longrightarrow> (\<And>x s. P x s \<Longrightarrow> Q x s) \<Longrightarrow> ensures m Q"
  by (simp add: ensures_def)

lemma bind_ensuresD:
  "m_bind m f s = (Inr y, s') \<Longrightarrow> (\<And>x t. m s = (Inr x, t) \<Longrightarrow> ensures (f x) Q) \<Longrightarrow> Q y s'"
  by (erule bind_InrE) (blast dest: ensuresD)

subsection \<open>Slices of records addressed by a predicate\<close>

text \<open>
  \<open>for _, x := range xs { if p(x) { mutate x; return } }\<close> over a slice of pointers
  changes the first element with \<open>p\<close>; \<open>slices.Delete(xs, i, i+1)\<close> at the first match
  drops it. The lookup of the first match is \<open>List.find\<close>.
\<close>

fun update_first :: "('a \<Rightarrow> bool) \<Rightarrow> ('a \<Rightarrow> 'a) \<Rightarrow> 'a list \<Rightarrow> 'a list" where
  "update_first p f [] = []"
| "update_first p f (x # xs) = (if p x then f x # xs else x # update_first p f xs)"

fun delete_first :: "('a \<Rightarrow> bool) \<Rightarrow> 'a list \<Rightarrow> 'a list" where
  "delete_first p [] = []"
| "delete_first p (x # xs) = (if p x then xs else x # delete_first p xs)"

lemma length_update_first [simp]: "length (update_first p f xs) = length xs"
  by (induction xs) auto

lemma map_update_first [slice_simps]:
  "(\<And>x. p x \<Longrightarrow> k (f x) = k x) \<Longrightarrow> map k (update_first p f xs) = map k xs"
  by (induction xs) auto

lemma update_first_absent [slice_simps]: "List.find p xs = None \<Longrightarrow> update_first p f xs = xs"
  by (induction xs) auto

lemma set_update_first:
  "set (update_first p f xs) \<subseteq> set xs \<union> {f x | x. x \<in> set xs \<and> p x}"
  by (induction xs) auto

lemma find_update_first:
  "(\<And>x. p x \<Longrightarrow> p (f x)) \<Longrightarrow> List.find p (update_first p f xs) = map_option f (List.find p xs)"
  by (induction xs) auto

lemma find_update_first_other:
  "(\<And>x. p x \<Longrightarrow> q x = q (f x)) \<Longrightarrow> (\<And>x. p x \<Longrightarrow> \<not> q x) \<Longrightarrow>
   List.find q (update_first p f xs) = List.find q xs"
  by (induction xs) auto

lemma find_SomeD: "List.find p xs = Some x \<Longrightarrow> x \<in> set xs \<and> p x"
  by (induction xs) (auto split: if_splits)

lemma find_NoneD: "List.find p xs = None \<Longrightarrow> x \<in> set xs \<Longrightarrow> \<not> p x"
  by (induction xs) (auto split: if_splits)

lemma find_append:
  "List.find p (xs @ ys) = (case List.find p xs of None \<Rightarrow> List.find p ys | Some x \<Rightarrow> Some x)"
  by (induction xs) auto

lemma find_cong_key:
  "distinct (map k xs) \<Longrightarrow> x \<in> set xs \<Longrightarrow> List.find (\<lambda>y. k y = k x) xs = Some x"
  by (induction xs) (auto simp: image_iff dest: sym)

lemma ball_update_first:
  "(\<forall>x \<in> set xs. P x) \<Longrightarrow> (\<And>x. x \<in> set xs \<Longrightarrow> p x \<Longrightarrow> P (f x)) \<Longrightarrow>
   \<forall>x \<in> set (update_first p f xs). P x"
  by (induction xs) auto

lemma ball_update_find:
  "(\<forall>x \<in> set xs. P x) \<Longrightarrow> (\<And>x. List.find p xs = Some x \<Longrightarrow> P (f x)) \<Longrightarrow>
   \<forall>x \<in> set (update_first p f xs). P x"
  by (induction xs) auto

lemma filter_update_first_same:
  "(\<And>x. p x \<Longrightarrow> q (f x) = q x \<and> g (f x) = g x) \<Longrightarrow>
   map g (filter q (update_first p f xs)) = map g (filter q xs)"
  by (induction xs) auto

lemma set_delete_first: "set (delete_first p xs) \<subseteq> set xs"
  by (induction xs) auto

lemma distinct_map_delete_first: "distinct (map k xs) \<Longrightarrow> distinct (map k (delete_first p xs))"
  by (induction xs) (use set_delete_first in fastforce)+

text \<open>How many elements satisfy \<open>q\<close>, across an update of the first \<open>p\<close>.\<close>

lemma count_update_first:
  assumes "List.find p xs = Some x"
  shows "length (filter q (update_first p f xs)) + (if q x then 1 else 0) =
         length (filter q xs) + (if q (f x) then 1 else 0)"
  using assms by (induction xs) (auto split: if_splits)

subsection \<open>Decimal and hexadecimal text\<close>

text \<open>The digits of a number in base \<open>b\<close>, most significant first (\<open>0\<close> is one digit).\<close>

fun digits_of :: "nat \<Rightarrow> nat \<Rightarrow> nat list" where
  "digits_of b n = (if b < 2 \<or> n < b then [n] else digits_of b (n div b) @ [n mod b])"

declare digits_of.simps [simp del]

abbreviation hex_digits :: string where
  "hex_digits \<equiv> ''0123456789abcdef''"

definition digit_char :: "nat \<Rightarrow> char" where
  "digit_char d = hex_digits ! d"

definition dec_of_nat :: "nat \<Rightarrow> string" where
  "dec_of_nat n = map digit_char (digits_of 10 n)"

text \<open>\<open>%d\<close>\<close>

definition dec_of_int :: "int \<Rightarrow> string" where
  "dec_of_int i = (if i < 0 then CHR ''-'' # dec_of_nat (nat (- i)) else dec_of_nat (nat i))"

text \<open>\<open>%0<w>x\<close>\<close>

definition pad_left :: "nat \<Rightarrow> char \<Rightarrow> string \<Rightarrow> string" where
  "pad_left w c s = replicate (w - length s) c @ s"

definition hex_padded :: "nat \<Rightarrow> nat \<Rightarrow> string" where
  "hex_padded w n = pad_left w (CHR ''0'') (map digit_char (digits_of 16 n))"

definition value_of :: "nat \<Rightarrow> nat list \<Rightarrow> nat" where
  "value_of b ds = foldl (\<lambda>acc d. acc * b + d) 0 ds"

lemma value_of_snoc [simp]: "value_of b (ds @ [d]) = value_of b ds * b + d"
  by (simp add: value_of_def)

lemma value_of_zeros [simp]: "value_of b (replicate k 0 @ ds) = value_of b ds"
proof -
  have "foldl (\<lambda>acc d. acc * b + d) 0 (replicate k 0) = 0" by (induction k) auto
  then show ?thesis by (simp add: value_of_def)
qed

lemma value_digits: "2 \<le> b \<Longrightarrow> value_of b (digits_of b n) = n"
proof (induction b n rule: digits_of.induct)
  case (1 b n)
  show ?case
  proof (cases "n < b")
    case True
    then show ?thesis by (simp add: digits_of.simps [of b n] value_of_def)
  next
    case False
    with 1 have "value_of b (digits_of b (n div b)) = n div b" by simp
    with False "1.prems" show ?thesis by (simp add: digits_of.simps [of b n] del: div_mult_self1)
  qed
qed

lemma digits_less: "2 \<le> b \<Longrightarrow> d \<in> set (digits_of b n) \<Longrightarrow> d < b"
proof (induction b n rule: digits_of.induct)
  case (1 b n)
  then show ?case
    by (cases "n < b") (auto simp: digits_of.simps [of b n])
qed

lemma digits_nonempty [simp]: "digits_of b n \<noteq> []"
  by (subst digits_of.simps) simp

lemma length_digits_le:
  "2 \<le> b \<Longrightarrow> 0 < w \<Longrightarrow> n < b ^ w \<Longrightarrow> length (digits_of b n) \<le> w"
proof (induction w arbitrary: n)
  case 0
  then show ?case by simp
next
  case (Suc w)
  show ?case
  proof (cases "n < b")
    case True
    then show ?thesis by (simp add: digits_of.simps [of b n])
  next
    case False
    with Suc.prems have w: "0 < w" by (cases w) auto
    from Suc.prems have "n div b < b ^ w" by (simp add: div_less_iff_less_mult mult.commute)
    with Suc.IH Suc.prems w have "length (digits_of b (n div b)) \<le> w" by blast
    with False Suc.prems show ?thesis by (simp add: digits_of.simps [of b n])
  qed
qed

lemma digit_char_inj: "d < 16 \<Longrightarrow> d' < 16 \<Longrightarrow> digit_char d = digit_char d' \<Longrightarrow> d = d'"
proof -
  have "distinct hex_digits" by simp
  moreover assume "d < 16" "d' < 16" "digit_char d = digit_char d'"
  ultimately show "d = d'" by (simp add: digit_char_def nth_eq_iff_index_eq)
qed

lemma map_digit_char_inj:
  assumes "\<forall>d \<in> set ds. d < 16" and "\<forall>d \<in> set es. d < 16"
    and "map digit_char ds = map digit_char es"
  shows "ds = es"
proof -
  have "inj_on digit_char {d. d < 16}" by (auto intro!: inj_onI dest: digit_char_inj)
  then have "inj_on digit_char (set ds \<union> set es)"
    by (rule inj_on_subset) (use assms in auto)
  then show ?thesis using assms(3) by (rule map_inj_on [rotated])
qed

lemma digits_less_16: "2 \<le> b \<Longrightarrow> b \<le> 16 \<Longrightarrow> \<forall>d \<in> set (digits_of b n). d < 16"
  using digits_less [of b _ n] by fastforce

lemma dec_of_nat_inj:
  assumes "dec_of_nat m = dec_of_nat n"
  shows "m = n"
proof -
  have "digits_of 10 m = digits_of 10 n"
    using assms unfolding dec_of_nat_def
    by (intro map_digit_char_inj [OF digits_less_16 digits_less_16]) auto
  then have "value_of 10 (digits_of 10 m) = value_of 10 (digits_of 10 n)" by simp
  then show ?thesis by (simp add: value_digits)
qed

lemma hex_padded_inj: "hex_padded w m = hex_padded w n \<Longrightarrow> m = n"
proof -
  define ds where "ds k = replicate (w - length (digits_of 16 k)) 0 @ digits_of 16 k" for k
  have hex: "hex_padded w k = map digit_char (ds k)" for k
    by (simp add: hex_padded_def pad_left_def ds_def digit_char_def)
  have lt: "\<forall>d \<in> set (ds k). d < 16" for k
    using digits_less_16 [of 16 k] by (auto simp: ds_def)
  assume "hex_padded w m = hex_padded w n"
  then have "ds m = ds n" unfolding hex by (rule map_digit_char_inj [OF lt lt])
  then have "value_of 16 (ds m) = value_of 16 (ds n)" by simp
  then show "m = n" by (simp add: ds_def value_digits)
qed

text \<open>No separator occurs in a decimal number: composite keys can be taken apart.\<close>

lemma dec_of_nat_chars: "set (dec_of_nat n) \<subseteq> set ''0123456789''"
proof
  fix c assume "c \<in> set (dec_of_nat n)"
  then obtain d where d: "d \<in> set (digits_of 10 n)" "c = digit_char d"
    by (auto simp: dec_of_nat_def)
  then have "d < 10" using digits_less [of 10 d n] by simp
  then have "d \<in> set [0..<10]" by simp
  then show "c \<in> set ''0123456789''" using d(2) by (auto simp: digit_char_def upt_rec)
qed

lemma colon_not_in_dec [simp]: "CHR '':'' \<notin> set (dec_of_int i)"
  using dec_of_nat_chars [of "nat i"] dec_of_nat_chars [of "nat (- i)"]
  by (auto simp: dec_of_int_def)

lemma minus_not_in_dec_of_nat: "CHR ''-'' \<notin> set (dec_of_nat n)"
  using dec_of_nat_chars [of n] by fastforce

lemma dec_of_int_inj: "dec_of_int i = dec_of_int j \<Longrightarrow> i = j"
proof -
  assume eq: "dec_of_int i = dec_of_int j"
  have ne: "dec_of_nat m \<noteq> CHR ''-'' # s" for m s
    using minus_not_in_dec_of_nat [of m] by auto
  have "CHR ''-'' # dec_of_nat m \<noteq> dec_of_nat k" for m k using ne [of k] by metis
  with eq ne show "i = j"
    by (auto simp: dec_of_int_def split: if_splits dest!: dec_of_nat_inj)
qed

lemma split_at_last_sep:
  assumes "c \<notin> set s" and "c \<notin> set t" and "a @ c # s = b @ c # t"
  shows "a = b \<and> s = t"
proof -
  have rt: "takeWhile (\<lambda>x. x \<noteq> c) (rev (u @ c # v)) = rev v" if "c \<notin> set v" for u v
    proof -
    have "takeWhile (\<lambda>x. x \<noteq> c) (rev v @ c # rev u) = rev v @ takeWhile (\<lambda>x. x \<noteq> c) (c # rev u)"
      using that by (intro takeWhile_append2) auto
    then show ?thesis by simp
  qed
  from rt [OF assms(1), of a] rt [OF assms(2), of b] assms(3) have "rev s = rev t" by simp
  with assms(3) show ?thesis by simp
qed

end
