(* ===== verification/Go_Strings.thy ===== *)
theory Go_Strings
  imports Manager_Prelude
begin

section \<open>Go strings: bytes, UTF-8 runes, trimming and integers\<close>

text \<open>
  A Go string is a sequence of bytes, here an Isabelle \<open>string\<close> (a \<open>char\<close> is one byte), so
  \<open>len(s)\<close> is \<open>length s\<close>. Ranging over a string decodes UTF-8 as \<open>unicode/utf8\<close> does:
  an ill-formed byte is the rune U+FFFD of width one. The functions of \<open>strings\<close>,
  \<open>strconv\<close> and \<open>unicode/utf8\<close> that the repository calls are modelled here.
\<close>

type_synonym rune = nat

definition rune_error :: rune where
  "rune_error = 65533"

definition byte :: "char \<Rightarrow> nat" where
  "byte c = of_char c"

definition is_cont :: "nat \<Rightarrow> bool" where
  "is_cont b \<longleftrightarrow> 128 \<le> b \<and> b \<le> 191"

text \<open>The range of the second byte after a given first byte of three or four.\<close>

definition second_ok :: "nat \<Rightarrow> nat \<Rightarrow> bool" where
  "second_ok a b \<longleftrightarrow>
     (if a = 224 then 160 \<le> b \<and> b \<le> 191
      else if a = 237 then 128 \<le> b \<and> b \<le> 159
      else if a = 240 then 144 \<le> b \<and> b \<le> 191
      else if a = 244 then 128 \<le> b \<and> b \<le> 143
      else is_cont b)"

text \<open>\<open>utf8.DecodeRuneInString\<close> on the bytes of a string: the rune and its width.\<close>

definition decode_rune :: "nat list \<Rightarrow> rune \<times> nat" where
  "decode_rune bs = (case bs of
     [] \<Rightarrow> (rune_error, 0)
   | a # r \<Rightarrow>
       if a < 128 then (a, 1)
       else if 194 \<le> a \<and> a \<le> 223 then
         (case r of b # _ \<Rightarrow> if is_cont b then ((a - 192) * 64 + (b - 128), 2) else (rune_error, 1)
          | _ \<Rightarrow> (rune_error, 1))
       else if 224 \<le> a \<and> a \<le> 239 then
         (case r of b # c # _ \<Rightarrow>
            if second_ok a b \<and> is_cont c
            then ((a - 224) * 4096 + (b - 128) * 64 + (c - 128), 3) else (rune_error, 1)
          | _ \<Rightarrow> (rune_error, 1))
       else if 240 \<le> a \<and> a \<le> 244 then
         (case r of b # c # d # _ \<Rightarrow>
            if second_ok a b \<and> is_cont c \<and> is_cont d
            then ((a - 240) * 262144 + (b - 128) * 4096 + (c - 128) * 64 + (d - 128), 4)
            else (rune_error, 1)
          | _ \<Rightarrow> (rune_error, 1))
       else (rune_error, 1))"

lemma decode_rune_width:
  "bs \<noteq> [] \<Longrightarrow> 1 \<le> snd (decode_rune bs) \<and> snd (decode_rune bs) \<le> length bs"
  by (auto simp: decode_rune_def split: list.split)

text \<open>\<open>for _, r := range s\<close>: the runes of a string, each with the bytes it came from.\<close>

function rune_chunks :: "string \<Rightarrow> (rune \<times> string) list" where
  "rune_chunks [] = []"
| "rune_chunks (c # s) =
     (let d = decode_rune (map byte (c # s))
      in (fst d, take (snd d) (c # s)) # rune_chunks (drop (snd d) (c # s)))"
  by pat_completeness auto
termination
proof (relation "measure length", simp)
  fix c :: char and s x
  assume "x = decode_rune (map byte (c # s))"
  then show "(drop (snd x) (c # s), c # s) \<in> measure length"
    using decode_rune_width [of "map byte (c # s)"] by auto
qed

definition runes_of :: "string \<Rightarrow> rune list" where
  "runes_of s = map fst (rune_chunks s)"

text \<open>\<open>utf8.RuneCountInString\<close>\<close>

definition rune_count :: "string \<Rightarrow> nat" where
  "rune_count s = length (rune_chunks s)"

lemma concat_rune_chunks [simp]: "concat (map snd (rune_chunks s)) = s"
  by (induction s rule: rune_chunks.induct) (auto simp: Let_def)

lemma rune_count_le_length: "rune_count s \<le> length s"
proof (induction s rule: rune_chunks.induct)
  case 1
  then show ?case by (simp add: rune_count_def)
next
  case (2 c s)
  then show ?case
    using decode_rune_width [of "map byte (c # s)"]
    by (auto simp: rune_count_def Let_def)
qed

lemma rune_count_Nil [simp]: "rune_count [] = 0"
  by (simp add: rune_count_def)

lemma rune_count_pos: "s \<noteq> [] \<Longrightarrow> 0 < rune_count s"
  by (cases s) (auto simp: rune_count_def Let_def)

subsection \<open>strings.TrimSpace\<close>

text \<open>\<open>unicode.IsSpace\<close>: the code points with the White_Space property.\<close>

definition is_space :: "rune \<Rightarrow> bool" where
  "is_space r \<longleftrightarrow> (9 \<le> r \<and> r \<le> 13) \<or> r = 32 \<or> r = 133 \<or> r = 160 \<or> r = 5760 \<or>
     (8192 \<le> r \<and> r \<le> 8202) \<or> r = 8232 \<or> r = 8233 \<or> r = 8239 \<or> r = 8287 \<or> r = 12288"

definition trim_chunks :: "(rune \<times> string) list \<Rightarrow> (rune \<times> string) list" where
  "trim_chunks cs =
     rev (dropWhile (\<lambda>c. is_space (fst c)) (rev (dropWhile (\<lambda>c. is_space (fst c)) cs)))"

definition trim_space :: "string \<Rightarrow> string" where
  "trim_space s = concat (map snd (trim_chunks (rune_chunks s)))"

lemma dropWhile_suffix: "\<exists>ys. xs = ys @ dropWhile p xs"
  by (metis takeWhile_dropWhile_id)

lemma length_trim_space: "length (trim_space s) \<le> length s"
proof -
  let ?p = "\<lambda>c :: rune \<times> string. is_space (fst c)"
  let ?l = "\<lambda>cs :: (rune \<times> string) list. length (concat (map snd cs))"
  obtain a where a: "rune_chunks s = a @ dropWhile ?p (rune_chunks s)"
    using dropWhile_suffix by blast
  obtain b where b: "rev (dropWhile ?p (rune_chunks s)) =
      b @ dropWhile ?p (rev (dropWhile ?p (rune_chunks s)))"
    using dropWhile_suffix by blast
  from b have "dropWhile ?p (rune_chunks s) = trim_chunks (rune_chunks s) @ rev b"
    unfolding trim_chunks_def by (metis rev_append rev_rev_ident)
  with a have "rune_chunks s = a @ trim_chunks (rune_chunks s) @ rev b" by simp
  then have "?l (rune_chunks s) = ?l a + length (trim_space s) + ?l (rev b)"
    unfolding trim_space_def by (metis append.assoc concat_append length_append map_append)
  then show ?thesis by simp
qed

lemma trim_space_Nil [simp]: "trim_space [] = []"
  by (simp add: trim_space_def trim_chunks_def)

subsection \<open>Splitting and integers\<close>

text \<open>\<open>strings.Split(s, sep)\<close> for a one-byte separator.\<close>

fun split_on :: "char \<Rightarrow> string \<Rightarrow> string list" where
  "split_on c [] = [[]]"
| "split_on c (x # xs) =
     (if x = c then [] # split_on c xs
      else (case split_on c xs of [] \<Rightarrow> [[x]] | p # ps \<Rightarrow> (x # p) # ps))"

lemma split_on_nonempty [simp]: "split_on c s \<noteq> []"
  by (cases s) (auto split: list.split)

lemma split_on_no_sep: "c \<notin> set s \<Longrightarrow> split_on c s = [s]"
  by (induction s) auto

lemma split_on_append: "c \<notin> set s \<Longrightarrow> split_on c (s @ c # t) = s # split_on c t"
  by (induction s) auto

definition is_digit :: "char \<Rightarrow> bool" where
  "is_digit c \<longleftrightarrow> 48 \<le> byte c \<and> byte c \<le> 57"

definition dec_value :: "string \<Rightarrow> nat" where
  "dec_value s = foldl (\<lambda>acc c. acc * 10 + (byte c - 48)) 0 s"

text \<open>
  \<open>strconv.Atoi\<close> on a 64-bit platform: an optional sign, then digits, within the range
  of \<open>int64\<close>; \<open>None\<close> is the error.
\<close>

definition atoi :: "string \<Rightarrow> int option" where
  "atoi s =
     (let neg = (case s of c # _ \<Rightarrow> c = CHR ''-'' | [] \<Rightarrow> False);
          ds = (case s of c # r \<Rightarrow> if c = CHR ''-'' \<or> c = CHR ''+'' then r else s | [] \<Rightarrow> []);
          v = (if neg then - int (dec_value ds) else int (dec_value ds))
      in if ds = [] \<or> \<not> list_all is_digit ds \<or> v < - (2 ^ 63) \<or> 2 ^ 63 \<le> v then None else Some v)"

lemma byte_digit: "d < 10 \<Longrightarrow> byte (digit_char d) = d + 48"
proof -
  assume "d < 10"
  then have "d \<in> set [0..<10]" by simp
  then show ?thesis by (auto simp: digit_char_def byte_def upt_rec)
qed

text \<open>Reading a printed number back.\<close>

lemma dec_value_of_nat: "dec_value (dec_of_nat n) = n"
proof -
  have "foldl (\<lambda>acc c. acc * 10 + (byte c - 48)) a (map digit_char ds) =
        foldl (\<lambda>acc d. acc * 10 + d) a ds" if "\<forall>d \<in> set ds. d < 10" for a ds
    using that by (induction ds arbitrary: a) (auto simp: byte_digit)
  moreover have "\<forall>d \<in> set (digits_of 10 n). d < 10" using digits_less [of 10 _ n] by auto
  ultimately have "dec_value (dec_of_nat n) = value_of 10 (digits_of 10 n)"
    by (simp add: dec_value_def dec_of_nat_def value_of_def)
  then show ?thesis by (simp add: value_digits)
qed

lemma dec_of_nat_digits: "list_all is_digit (dec_of_nat n)" "dec_of_nat n \<noteq> []"
proof -
  have "byte (digit_char d) = d + 48 \<and> d < 10" if "d \<in> set (digits_of 10 n)" for d
    using digits_less [of 10 d n] that by (simp add: byte_digit)
  then show "list_all is_digit (dec_of_nat n)"
    by (fastforce simp: dec_of_nat_def list_all_iff is_digit_def)
qed (simp add: dec_of_nat_def)

lemma not_sign_dec_of_nat:
  "dec_of_nat n = c # s \<Longrightarrow> c \<noteq> CHR ''-'' \<and> c \<noteq> CHR ''+''"
  using dec_of_nat_digits(1) [of n] by (auto simp: is_digit_def byte_def)

lemma atoi_dec_of_int:
  assumes "- (2 ^ 63) \<le> i" and "i < 2 ^ 63"
  shows "atoi (dec_of_int i) = Some i"
proof (cases "i < 0")
  case True
  then show ?thesis
    using assms dec_of_nat_digits [of "nat (- i)"]
    by (simp add: atoi_def dec_of_int_def dec_value_of_nat)
next
  case False
  obtain c r where cr: "dec_of_nat (nat i) = c # r"
    using dec_of_nat_digits(2) [of "nat i"] by (cases "dec_of_nat (nat i)") auto
  have "list_all is_digit (c # r)" "dec_value (c # r) = nat i"
    using dec_of_nat_digits(1) [of "nat i"] dec_value_of_nat [of "nat i"] cr by simp_all
  with False assms cr not_sign_dec_of_nat [OF cr] show ?thesis
    by (simp add: atoi_def dec_of_int_def)
qed

text \<open>\<open>%02d\<close> of a non-negative number.\<close>

definition pad2 :: "int \<Rightarrow> string" where
  "pad2 i = pad_left 2 (CHR ''0'') (dec_of_int i)"

end
