(* ===== verification/Go_Time.thy ===== *)
theory Go_Time
  imports Manager_Prelude
begin

section \<open>Go's time package: instants, locations and the calendar\<close>

text \<open>
  A \<open>time.Time\<close> is its instant, in nanoseconds since 1970-01-01T00:00:00Z: the code
  compares instants only (\<open>After\<close>, \<open>Before\<close>, \<open>Equal\<close>, \<open>Compare\<close>), stores them in UTC and
  passes the location explicitly wherever it reads a calendar field, so \<open>t.UTC()\<close> is the
  identity here. A \<open>time.Duration\<close> is a number of nanoseconds; the durations the code
  adds are far below the 292 years at which \<open>int64\<close> wraps, and both are \<open>int\<close>.
  A \<open>time.Location\<close> is its table of zone transitions, and \<open>time.Date\<close>, \<open>AddDate\<close> and the
  calendar fields follow the standard library's own algorithms on it.
\<close>

type_synonym time = int
type_synonym duration = int

abbreviation second :: duration where "second \<equiv> 1000000000"
abbreviation minute :: duration where "minute \<equiv> 60000000000"
abbreviation hour :: duration where "hour \<equiv> 3600000000000"
abbreviation day :: duration where "day \<equiv> 86400000000000"

text \<open>\<open>time.Time{}\<close>, the first instant of year one, for which \<open>IsZero\<close> holds.\<close>

definition zero_time :: time where
  "zero_time = - 62135596800000000000"

subsection \<open>Locations\<close>

record location =
  loc_first :: int
  loc_trans :: "(int \<times> int) list"

definition alpha :: int where "alpha = - (2 ^ 63)"
definition omega :: int where "omega = 2 ^ 63 - 1"

definition utc :: location where
  "utc = \<lparr>loc_first = 0, loc_trans = []\<rparr>"

definition fixed_zone :: "int \<Rightarrow> location" where
  "fixed_zone off = \<lparr>loc_first = off, loc_trans = []\<rparr>"

text \<open>
  \<open>Location.lookup\<close>: the offset (in seconds) in force at a Unix second, with the start
  and the end of the period it is in force.
\<close>

fun lookup_from :: "int \<Rightarrow> int \<Rightarrow> (int \<times> int) list \<Rightarrow> int \<Rightarrow> int \<times> int \<times> int" where
  "lookup_from off start [] sec = (off, start, omega)"
| "lookup_from off start ((t, off') # ts) sec =
     (if sec < t then (off, start, t) else lookup_from off' t ts sec)"

definition zone_lookup :: "location \<Rightarrow> int \<Rightarrow> int \<times> int \<times> int" where
  "zone_lookup loc sec = lookup_from (loc_first loc) alpha (loc_trans loc) sec"

definition offset_at :: "location \<Rightarrow> int \<Rightarrow> int" where
  "offset_at loc sec = fst (zone_lookup loc sec)"

definition loc_offsets :: "location \<Rightarrow> int set" where
  "loc_offsets loc = insert (loc_first loc) (set (map snd (loc_trans loc)))"

lemma lookup_from_in: "fst (lookup_from off start ts sec) \<in> insert off (set (map snd ts))"
  by (induction off start ts sec rule: lookup_from.induct) auto

lemma offset_at_in: "offset_at loc sec \<in> loc_offsets loc"
  using lookup_from_in by (simp add: offset_at_def zone_lookup_def loc_offsets_def)

lemma offset_at_fixed [simp]: "offset_at (fixed_zone off) sec = off"
  by (simp add: offset_at_def zone_lookup_def fixed_zone_def)

subsection \<open>The civil calendar\<close>

definition is_leap :: "int \<Rightarrow> bool" where
  "is_leap y \<longleftrightarrow> y mod 4 = 0 \<and> (y mod 100 \<noteq> 0 \<or> y mod 400 = 0)"

text \<open>Days from 0001-01-01 to the first of January of year \<open>y\<close> (proleptic Gregorian).\<close>

definition days_before_year :: "int \<Rightarrow> int" where
  "days_before_year y = 365 * (y - 1) + (y - 1) div 4 - (y - 1) div 100 + (y - 1) div 400"

text \<open>Days of the year before month \<open>m\<close> (1 to 12).\<close>

definition days_before_month :: "bool \<Rightarrow> int \<Rightarrow> int" where
  "days_before_month leap m =
     [0, 31, 59, 90, 120, 151, 181, 212, 243, 273, 304, 334] ! nat (m - 1) +
     (if leap \<and> 2 < m then 1 else 0)"

definition epoch_days :: int where
  "epoch_days = 719162"

text \<open>
  Days since 1970-01-01 of a date given as year, month and day. As in \<open>time.Date\<close> the
  month may lie outside 1 to 12 and the day outside the month: both carry over.
\<close>

definition days_from_civil :: "int \<Rightarrow> int \<Rightarrow> int \<Rightarrow> int" where
  "days_from_civil y m d =
     (let y' = y + (m - 1) div 12; m' = (m - 1) mod 12 + 1
      in days_before_year y' + days_before_month (is_leap y') m' + (d - 1) - epoch_days)"

definition year_of_days :: "int \<Rightarrow> int" where
  "year_of_days n =
     (let y = 400 * n div 146097 + 1
      in if n < days_before_year y then y - 1
         else if days_before_year (y + 1) \<le> n then y + 1 else y)"

fun month_search :: "bool \<Rightarrow> int \<Rightarrow> int list \<Rightarrow> int" where
  "month_search leap n [] = 1"
| "month_search leap n (m # ms) = (if days_before_month leap m \<le> n then m else month_search leap n ms)"

text \<open>\<open>Time.Date()\<close> of the day \<open>n\<close> days after 1970-01-01.\<close>

definition civil_from_days :: "int \<Rightarrow> int \<times> int \<times> int" where
  "civil_from_days n =
     (let z = n + epoch_days; y = year_of_days z; r = z - days_before_year y;
          m = month_search (is_leap y) r [12, 11, 10, 9, 8, 7, 6, 5, 4, 3, 2, 1]
      in (y, m, r - days_before_month (is_leap y) m + 1))"

lemma month_search_in: "month_search leap n [12,11,10,9,8,7,6,5,4,3,2,1] \<in> {1..12}"
  by simp

lemma div_bounds: "0 < b \<Longrightarrow> b * (k div b) \<le> k \<and> k < b * (k div b) + b" for b k :: int
  using mult_div_mod_eq [of b k] pos_mod_sign [of b k] pos_mod_bound [of b k] by linarith

lemma days_before_year_bounds:
  "146097 * k - 800 < 400 * days_before_year (k + 1) \<and>
   400 * days_before_year (k + 1) < 146097 * k + 400"
proof -
  define a b c where "a = k div 4" and "b = k div 100" and "c = k div 400"
  have "4 * a \<le> k \<and> k < 4 * a + 4" "100 * b \<le> k \<and> k < 100 * b + 100"
    "400 * c \<le> k \<and> k < 400 * c + 400"
    using div_bounds [of 4 k] div_bounds [of 100 k] div_bounds [of 400 k]
    by (simp_all add: a_def b_def c_def)
  moreover have "days_before_year (k + 1) = 365 * k + a - b + c"
    by (simp add: days_before_year_def a_def b_def c_def)
  ultimately show ?thesis by linarith
qed

lemma year_of_days_correct:
  "days_before_year (year_of_days n) \<le> n \<and> n < days_before_year (year_of_days n + 1)"
proof -
  define y where "y = 400 * n div 146097"
  have y: "146097 * y \<le> 400 * n" "400 * n < 146097 * y + 146097"
    using div_bounds [of 146097 "400 * n"] by (simp_all add: y_def)
  have low: "days_before_year y \<le> n"
    using days_before_year_bounds [of "y - 1"] y(1) by simp
  have high: "n < days_before_year (y + 3)"
    using days_before_year_bounds [of "y + 2"] y(2) by (simp add: add.commute)
  have "year_of_days n =
     (if n < days_before_year (y + 1) then y
      else if days_before_year (y + 2) \<le> n then y + 2 else y + 1)"
    by (simp add: year_of_days_def y_def Let_def add.commute)
  then show ?thesis using low high by (simp add: add.commute add.left_commute)
qed

text \<open>Decomposing a day and recomposing it is the identity.\<close>

lemma days_from_civil_from_days:
  "(case civil_from_days n of (y, m, d) \<Rightarrow> days_from_civil y m (d + k)) = n + k"
proof -
  define y where "y = year_of_days (n + epoch_days)"
  define m where "m = month_search (is_leap y) (n + epoch_days - days_before_year y)
      [12,11,10,9,8,7,6,5,4,3,2,1]"
  have m: "1 \<le> m" "m \<le> 12" using month_search_in by (auto simp: m_def)
  then have "(m - 1) div 12 = 0" "(m - 1) mod 12 = m - 1" by auto
  moreover have "civil_from_days n =
      (y, m, n + epoch_days - days_before_year y - days_before_month (is_leap y) m + 1)"
    by (simp add: civil_from_days_def Let_def y_def m_def)
  ultimately show ?thesis by (simp add: days_from_civil_def)
qed

subsection \<open>Dates in a location\<close>

definition wall :: "location \<Rightarrow> time \<Rightarrow> int" where
  "wall loc t = t + offset_at loc (t div second) * second"

definition time_year :: "location \<Rightarrow> time \<Rightarrow> int" where
  "time_year loc t = fst (civil_from_days (wall loc t div day))"

definition time_month :: "location \<Rightarrow> time \<Rightarrow> int" where
  "time_month loc t = fst (snd (civil_from_days (wall loc t div day)))"

definition time_day :: "location \<Rightarrow> time \<Rightarrow> int" where
  "time_day loc t = snd (snd (civil_from_days (wall loc t div day)))"

text \<open>
  The Unix second a wall-clock second stands for: the offset found at the wall-clock
  reading taken as UTC, corrected once when the instant it gives lies outside the period
  of that offset.
\<close>

definition resolve_local :: "location \<Rightarrow> int \<Rightarrow> int" where
  "resolve_local loc sec =
     (case zone_lookup loc sec of (off, start, stop) \<Rightarrow>
        if off = 0 then sec
        else let u = sec - off
             in if u < start \<or> stop \<le> u then sec - offset_at loc u else u)"

definition go_date ::
  "location \<Rightarrow> int \<Rightarrow> int \<Rightarrow> int \<Rightarrow> int \<Rightarrow> int \<Rightarrow> int \<Rightarrow> int \<Rightarrow> time" where
  "go_date loc y m d hh mi ss ns =
     resolve_local loc
       (days_from_civil y m d * 86400 + hh * 3600 + mi * 60 + ss + ns div second) * second
     + ns mod second"

text \<open>\<open>t.In(loc).AddDate(years, months, days)\<close>\<close>

definition add_date :: "location \<Rightarrow> time \<Rightarrow> int \<Rightarrow> int \<Rightarrow> int \<Rightarrow> time" where
  "add_date loc t years months days =
     (let w = wall loc t; s = w mod day
      in go_date loc (time_year loc t + years) (time_month loc t + months)
           (time_day loc t + days)
           (s div hour) (s mod hour div minute) (s mod minute div second) (s mod second))"

lemma resolve_local_offset:
  "\<exists>off \<in> loc_offsets loc. resolve_local loc sec = sec - off"
proof -
  obtain off start stop where z: "zone_lookup loc sec = (off, start, stop)"
    by (cases "zone_lookup loc sec")
  then have "off \<in> loc_offsets loc" using offset_at_in [of loc sec] by (simp add: offset_at_def)
  then show ?thesis
    using z offset_at_in [of loc "sec - off"] by (force simp: resolve_local_def Let_def)
qed

lemma resolve_local_fixed [simp]: "resolve_local (fixed_zone off) sec = sec - off"
  by (auto simp: resolve_local_def zone_lookup_def fixed_zone_def offset_at_def Let_def)

lemma go_date_civil:
  "go_date loc (time_year loc t) (time_month loc t) (time_day loc t + k) hh mi ss ns =
   resolve_local loc ((wall loc t div day + k) * 86400 + hh * 3600 + mi * 60 + ss + ns div second)
     * second + ns mod second"
  using days_from_civil_from_days [where n = "wall loc t div day" and k = k]
  by (simp add: go_date_def time_year_def time_month_def time_day_def split_beta)

lemma clock_recombine:
  fixes h m c :: int
  shows "h * hour + r1 = s \<Longrightarrow> m * minute + r2 = r1 \<Longrightarrow> c * second + r3 = r2 \<Longrightarrow>
    (h * 3600 + m * 60 + c) * second + r3 = s"
  by (auto simp: algebra_simps)

lemma clock_fields:
  fixes s :: int
  shows "(s div hour * 3600 + s mod hour div minute * 60 + s mod minute div second) * second
     + s mod second = s"
proof (rule clock_recombine)
  show "s div hour * hour + s mod hour = s" by (rule div_mult_mod_eq)
  have "s mod hour mod minute = s mod minute" by (rule mod_mod_cancel) simp
  then show "s mod hour div minute * minute + s mod minute = s mod hour"
    using div_mult_mod_eq [of "s mod hour" minute] by simp
  have "s mod minute mod second = s mod second" by (rule mod_mod_cancel) simp
  then show "s mod minute div second * second + s mod second = s mod minute"
    using div_mult_mod_eq [of "s mod minute" second] by simp
qed

text \<open>
  Moving by whole calendar days keeps the wall clock: the new instant is the wall-clock
  reading moved by that many days, read back with an offset of the location.
\<close>

lemma add_date_days:
  "\<exists>off \<in> loc_offsets loc.
     add_date loc t 0 0 n = wall loc t + n * day - off * second"
proof -
  define w where "w = wall loc t"
  define s where "s = w mod day"
  define c where "c = s div hour * 3600 + s mod hour div minute * 60 + s mod minute div second"
  have s: "c * second + s mod second = s" unfolding c_def by (rule clock_fields)
  have b: "s mod second div second = 0" "s mod second mod second = s mod second" by simp_all
  obtain off where off: "off \<in> loc_offsets loc"
    and r: "resolve_local loc ((w div day + n) * 86400 + c) = (w div day + n) * 86400 + c - off"
    using resolve_local_offset by blast
  have "add_date loc t 0 0 n =
      resolve_local loc ((w div day + n) * 86400 + c) * second + s mod second"
    using go_date_civil [of loc t n] b
    by (simp add: add_date_def Let_def w_def [symmetric] s_def [symmetric] c_def add.assoc)
  also have "\<dots> = (w div day + n) * day + (c * second + s mod second) - off * second"
    unfolding r by (simp add: algebra_simps)
  also have "\<dots> = w + n * day - off * second"
    unfolding s by (simp add: s_def algebra_simps)
  finally show ?thesis using off w_def by blast
qed

text \<open>
  In a location whose offsets span less than twelve hours, adding calendar days moves
  forward by more than half a day.
\<close>

definition narrow_zone :: "location \<Rightarrow> bool" where
  "narrow_zone loc \<longleftrightarrow>
     (\<forall>a \<in> loc_offsets loc. \<forall>b \<in> loc_offsets loc. a - b < 43200)"

lemma narrow_zoneD: "narrow_zone loc \<Longrightarrow> a \<in> loc_offsets loc \<Longrightarrow> b \<in> loc_offsets loc \<Longrightarrow> a - b < 43200"
  by (simp add: narrow_zone_def)

lemma add_date_days_fixed [simp]: "add_date (fixed_zone off) t 0 0 n = t + n * day"
  using add_date_days [of "fixed_zone off" t n] by (simp add: loc_offsets_def wall_def fixed_zone_def)
    (simp add: offset_at_def zone_lookup_def)

lemma add_date_forward:
  assumes "narrow_zone loc" and "1 \<le> n"
  shows "t + 12 * hour < add_date loc t 0 0 n"
proof -
  obtain off where off: "off \<in> loc_offsets loc"
    and d: "add_date loc t 0 0 n = wall loc t + n * day - off * second"
    using add_date_days by blast
  have "off - offset_at loc (t div second) < 43200"
    using assms(1) off offset_at_in by (rule narrow_zoneD)
  with assms(2) show ?thesis by (simp add: d wall_def)
qed

lemma narrow_fixed [simp]: "narrow_zone (fixed_zone off)"
  by (simp add: narrow_zone_def loc_offsets_def fixed_zone_def)

end
