(* ===== verification/Domain_Errors.thy ===== *)
theory Domain_Errors
  imports Go_Strings Go_Time
begin

section \<open>Errors and identifiers of the domain layer\<close>

text \<open>
  \<open>internal/manager/domain/errors.go\<close> and \<open>ids.go\<close>, with the port errors of
  \<open>usecase/errors.go\<close>, the gRPC status errors of \<open>shared/rpcerr\<close> and the worker's
  \<open>ErrRescheduled\<close>: every error value the manager passes around is one datatype. A
  message built by \<open>fmt.Sprintf\<close> is kept as its format and arguments. \<open>ErrWrapped s e\<close> is
  \<open>fmt.Errorf("s: %w", e)\<close>, \<open>ErrJoined\<close> is \<open>errors.Join\<close>. \<open>ErrDiverged\<close> is no error of the code: it marks a run that
  does not return (see the reminder schedule), so that no theorem can pass it over.
\<close>

datatype grpc_code =
    OK | Canceled | Unknown | InvalidArgument | DeadlineExceeded | NotFound | AlreadyExists
  | PermissionDenied | ResourceExhausted | FailedPrecondition | Aborted | OutOfRange
  | Unimplemented | Internal | Unavailable | DataLoss | Unauthenticated

record error_info =
  ei_reason :: string
  ei_domain :: string
  ei_metadata :: "(string \<times> string) list"

datatype err =
    ErrNotFound
  | ErrAlreadyExists
  | ErrEventClosed
  | ErrForbidden
  | ErrIdentityRequired
  | ErrIdentityLinkedElsewhere
  | ErrProviderUnavailable
  | ErrLinkTokenExpired
  | ErrLinkTokenConsumed
  | ErrOrganizerCannotLeave
  | ErrPermanent
  | ErrProviderKindMismatch
  | ErrNameTaken
  | ErrBotPermission
  | ErrRateLimited
  | ErrPinLimit
  | ErrDMBlocked
  | ErrUnsupported
  | ErrRescheduled
  | ErrContextCanceled
  | ErrContextDeadline
  | ErrStatus grpc_code "error_info list"
  | ErrText string
  | ErrValidation "field_error list"
  | ErrWrapped string err
  | ErrJoined err err
  | ErrDiverged
and field_error = FieldError (fe_field: string) (fe_message: message_text)
and message_text =
    MustNotBeEmpty
  | MustNotExceedCharacters nat
  | MustNotExceedEntries nat
  | MustBePositive
  | MustBePositiveGot duration
  | DuplicatedEntry duration
  | MustBeAtLeast duration
  | MustBeHHMM
  | MustNotBeNegative
  | MustBeObjectId
  | MustBeInTheFuture
  | MustBeAfterStartsAt
  | PrefixCharacters
  | UnknownValue string string
  | GeneratesReminders nat nat
  | TextOf err

type_synonym 'a result = "err + 'a"

text \<open>\<open>errors.Is\<close>: the error itself or one it wraps is the target.\<close>

fun errors_is :: "err \<Rightarrow> err \<Rightarrow> bool" where
  "errors_is (ErrWrapped s e) t = (ErrWrapped s e = t \<or> errors_is e t)"
| "errors_is (ErrJoined a b) t = (ErrJoined a b = t \<or> errors_is a t \<or> errors_is b t)"
| "errors_is e t = (e = t)"

text \<open>\<open>errors.As\<close> with a \<open>*ValidationError\<close> target.\<close>

fun as_validation :: "err \<Rightarrow> field_error list option" where
  "as_validation (ErrWrapped s e) = as_validation e"
| "as_validation (ErrJoined a b) =
     (case as_validation a of None \<Rightarrow> as_validation b | Some fs \<Rightarrow> Some fs)"
| "as_validation (ErrValidation fs) = Some fs"
| "as_validation _ = None"

subsection \<open>ValidationError\<close>

text \<open>The collected field errors, in the order \<open>addf\<close> appended them.\<close>

type_synonym validation = "field_error list"

definition addf :: "validation \<Rightarrow> string \<Rightarrow> message_text \<Rightarrow> validation" where
  "addf v field m = v @ [FieldError field m]"

definition verr_has :: "validation \<Rightarrow> string \<Rightarrow> bool" where
  "verr_has v field = list_ex (\<lambda>f. fe_field f = field) v"

definition verr_err :: "validation \<Rightarrow> err option" where
  "verr_err v = (if v = [] then None else Some (ErrValidation v))"

definition merge :: "validation \<Rightarrow> string \<Rightarrow> err option \<Rightarrow> validation" where
  "merge v field e =
     (case e of
        None \<Rightarrow> v
      | Some e' \<Rightarrow> (case as_validation e' of
            Some fs \<Rightarrow> v @ fs
          | None \<Rightarrow> addf v field (TextOf e')))"

lemma verr_err_None [simp]: "verr_err v = None \<longleftrightarrow> v = []"
  by (simp add: verr_err_def)

lemma addf_not_Nil [simp]: "addf v f m \<noteq> []"
  by (simp add: addf_def)

lemma merge_verr_err [simp]: "merge v field (verr_err w) = v @ w"
  by (simp add: merge_def verr_err_def)

lemma merge_Nil: "merge v field e = [] \<Longrightarrow> v = []"
  by (auto simp: merge_def addf_def split: option.splits)

lemma errors_is_wrapped [simp]: "t \<noteq> ErrWrapped s e \<Longrightarrow> errors_is (ErrWrapped s e) t = errors_is e t"
  by auto

subsection \<open>Identifiers\<close>

definition id_length :: nat where
  "id_length = 24"

definition is_hex_rune :: "rune \<Rightarrow> bool" where
  "is_hex_rune r \<longleftrightarrow> (48 \<le> r \<and> r \<le> 57) \<or> (97 \<le> r \<and> r \<le> 102) \<or> (65 \<le> r \<and> r \<le> 70)"

definition is_id :: "string \<Rightarrow> bool" where
  "is_id s \<longleftrightarrow> length s = id_length \<and> list_all is_hex_rune (runes_of s)"

lemma runes_of_ascii: "\<forall>c \<in> set s. byte c < 128 \<Longrightarrow> runes_of s = map byte s"
proof (induction s)
  case Nil
  then show ?case by (simp add: runes_of_def)
next
  case (Cons c s)
  then have "decode_rune (map byte (c # s)) = (byte c, 1)" by (simp add: decode_rune_def)
  with Cons show ?case by (simp add: runes_of_def Let_def)
qed

lemma hex_padded_is_id:
  assumes "n < 16 ^ 24"
  shows "is_id (hex_padded 24 n)"
proof -
  let ?ok = "\<lambda>c. byte c < 128 \<and> is_hex_rune (byte c)"
  have digit: "?ok (digit_char d)" if "d < 16" for d
  proof -
    have "d \<in> set [0..<16]" using that by simp
    then show ?thesis by (auto simp: digit_char_def is_hex_rune_def byte_def upt_rec)
  qed
  have "length (digits_of 16 n) \<le> 24" using length_digits_le [of 16 24 n] assms by simp
  then have len: "length (hex_padded 24 n) = 24" by (simp add: hex_padded_def pad_left_def)
  have all: "\<forall>c \<in> set (hex_padded 24 n). ?ok c"
    using digits_less [of 16] digit
    by (auto simp: hex_padded_def pad_left_def is_hex_rune_def byte_def)
  then have "runes_of (hex_padded 24 n) = map byte (hex_padded 24 n)"
    by (intro runes_of_ascii) auto
  with len all show ?thesis by (auto simp: is_id_def id_length_def list_all_iff)
qed

text \<open>A rune below 128 was decoded from the one byte of that value.\<close>

lemma decode_rune_ascii:
  assumes "fst (decode_rune (b # bs)) < 128"
  shows "b < 128"
proof (rule ccontr)
  assume "\<not> b < 128"
  then have "128 \<le> fst (decode_rune (b # bs))"
    by (auto simp: decode_rune_def rune_error_def second_ok_def is_cont_def
        split: list.split if_splits)
  with assms show False by simp
qed

lemma ascii_chunk:
  "c \<in> set (rune_chunks t) \<Longrightarrow> fst c < 128 \<Longrightarrow> \<exists>x. snd c = [x] \<and> byte x = fst c"
proof (induction t rule: rune_chunks.induct)
  case 1
  then show ?case by simp
next
  case (2 x t)
  let ?d = "decode_rune (map byte (x # t))"
  show ?case
  proof (cases "c = (fst ?d, take (snd ?d) (x # t))")
    case True
    with "2.prems"(2) have "byte x < 128" using decode_rune_ascii by simp
    with True show ?thesis by (simp add: decode_rune_def)
  next
    case False
    with "2.prems"(1) have "c \<in> set (rune_chunks (drop (snd ?d) (x # t)))" by (simp add: Let_def)
    with 2 show ?thesis by blast
  qed
qed

lemma is_id_no_colon: "is_id s \<Longrightarrow> CHR '':'' \<notin> set s"
proof
  assume id: "is_id s" and "CHR '':'' \<in> set s"
  then have "CHR '':'' \<in> set (concat (map snd (rune_chunks s)))"
    by (simp only: concat_rune_chunks)
  then obtain ch where ch: "ch \<in> set (rune_chunks s)" "CHR '':'' \<in> set (snd ch)"
    by (auto simp del: concat_rune_chunks)
  have "is_hex_rune (fst ch)" using id ch(1) by (auto simp: is_id_def runes_of_def list_all_iff)
  with ascii_chunk [OF ch(1)] ch(2) show False by (fastforce simp: is_hex_rune_def byte_def)
qed

end
