(* ===== verification/Domain_Reminder.thy ===== *)
theory Domain_Reminder
  imports Domain_Errors
begin

section \<open>Times of day and reminder policies\<close>

text \<open>
  \<open>internal/manager/domain/timeofday.go\<close> and \<open>reminder.go\<close>: parsing and printing of
  \<open>HH:MM\<close>, the validation of a reminder policy, and the schedule of reminder times it
  generates. The loop of the interval mode carries fuel and returns \<open>None\<close> when it runs
  out; in a location whose offsets span less than twelve hours it always returns.
\<close>

subsection \<open>TimeOfDay\<close>

record time_of_day =
  tod_hour :: int
  tod_minute :: int

definition max_hour :: int where "max_hour = 23"
definition max_minute :: int where "max_minute = 59"

definition tod_valid :: "time_of_day \<Rightarrow> bool" where
  "tod_valid t \<longleftrightarrow> 0 \<le> tod_hour t \<and> tod_hour t \<le> max_hour \<and>
     0 \<le> tod_minute t \<and> tod_minute t \<le> max_minute"

text \<open>\<open>ParseTimeOfDay\<close>; \<open>None\<close> is the error, whose text only quotes the input.\<close>

definition parse_time_of_day :: "string \<Rightarrow> time_of_day option" where
  "parse_time_of_day s =
     (case split_on (CHR '':'') (trim_space s) of
        [h, m] \<Rightarrow>
          if length h \<noteq> 2 \<or> length m \<noteq> 2 then None
          else (case atoi h of
              None \<Rightarrow> None
            | Some hh \<Rightarrow> (case atoi m of
                  None \<Rightarrow> None
                | Some mm \<Rightarrow>
                    (let tod = \<lparr>tod_hour = hh, tod_minute = mm\<rparr>
                     in if tod_valid tod then Some tod else None)))
      | _ \<Rightarrow> None)"

definition tod_string :: "time_of_day \<Rightarrow> string" where
  "tod_string t = pad2 (tod_hour t) @ '':'' @ pad2 (tod_minute t)"

text \<open>\<open>TimeOfDay.On\<close>: this time on the calendar day of an instant in a location.\<close>

definition tod_on :: "time_of_day \<Rightarrow> time \<Rightarrow> location \<Rightarrow> time" where
  "tod_on t at loc =
     go_date loc (time_year loc at) (time_month loc at) (time_day loc at)
       (tod_hour t) (tod_minute t) 0 0"

lemma parse_time_of_day_valid: "parse_time_of_day s = Some t \<Longrightarrow> tod_valid t"
  by (auto simp: parse_time_of_day_def Let_def split: list.splits option.splits if_splits)

lemma tod_on_fixed:
  "tod_on t at (fixed_zone off) =
   ((at + off * second) div day) * day + tod_hour t * hour + tod_minute t * minute - off * second"
  using go_date_civil [of "fixed_zone off" at 0 "tod_hour t" "tod_minute t" 0 0]
  by (simp add: tod_on_def wall_def algebra_simps)

subsection \<open>Policies\<close>

datatype reminder_mode = ModeOffsets | ModeInterval | ModeNone | ModeOther string

definition max_reminders :: nat where "max_reminders = 30"
definition min_reminder_interval :: duration where "min_reminder_interval = hour"
definition default_final_offset :: duration where "default_final_offset = 3 * hour"

record reminder_policy =
  rp_mode :: reminder_mode
  rp_offsets :: "duration list"
  rp_every :: duration
  rp_at :: time_of_day
  rp_final_offset :: duration

definition zero_time_of_day :: time_of_day where
  "zero_time_of_day = \<lparr>tod_hour = 0, tod_minute = 0\<rparr>"

definition default_reminder_policy :: reminder_policy where
  "default_reminder_policy =
     \<lparr>rp_mode = ModeOffsets, rp_offsets = [7 * day, day, 3 * hour], rp_every = 0,
      rp_at = zero_time_of_day, rp_final_offset = 0\<rparr>"

text \<open>The loop of \<open>validateOffsets\<close>, with the entries seen so far.\<close>

fun check_offsets :: "string \<Rightarrow> duration list \<Rightarrow> duration list \<Rightarrow> validation \<Rightarrow> validation" where
  "check_offsets field seen [] v = v"
| "check_offsets field seen (off # offs) v =
     (let v1 = (if off \<le> 0 then addf v field (MustBePositiveGot off) else v);
          v2 = (if off \<in> set seen then addf v1 field (DuplicatedEntry off) else v1)
      in check_offsets field (off # seen) offs v2)"

definition validate_offsets :: "reminder_policy \<Rightarrow> validation \<Rightarrow> string \<Rightarrow> validation" where
  "validate_offsets p v field =
     (let f = field @ ''.offsets''
      in if rp_offsets p = [] then addf v f MustNotBeEmpty
         else check_offsets f [] (rp_offsets p)
           (if max_reminders < length (rp_offsets p)
            then addf v f (MustNotExceedEntries max_reminders) else v))"

definition validate_interval :: "reminder_policy \<Rightarrow> validation \<Rightarrow> string \<Rightarrow> validation" where
  "validate_interval p v field =
     (let v1 = (if rp_every p < min_reminder_interval
                then addf v (field @ ''.every'') (MustBeAtLeast min_reminder_interval) else v);
          v2 = (if \<not> tod_valid (rp_at p) then addf v1 (field @ ''.at'') MustBeHHMM else v1)
      in if rp_final_offset p < 0 then addf v2 (field @ ''.final_offset'') MustNotBeNegative else v2)"

text \<open>The field errors \<open>ReminderPolicy.Validate\<close> collects, and its result.\<close>

definition policy_errors :: "reminder_policy \<Rightarrow> string \<Rightarrow> validation" where
  "policy_errors p field =
     (case rp_mode p of
        ModeNone \<Rightarrow> []
      | ModeOffsets \<Rightarrow> validate_offsets p [] field
      | ModeInterval \<Rightarrow> validate_interval p [] field
      | ModeOther m \<Rightarrow> addf [] (field @ ''.mode'') (UnknownValue ''mode'' m))"

definition policy_validate :: "reminder_policy \<Rightarrow> string \<Rightarrow> err option" where
  "policy_validate p field = verr_err (policy_errors p field)"

text \<open>The invariant of a valid policy, stated on its own.\<close>

definition policy_ok :: "reminder_policy \<Rightarrow> bool" where
  "policy_ok p \<longleftrightarrow>
     (case rp_mode p of
        ModeNone \<Rightarrow> True
      | ModeOffsets \<Rightarrow> rp_offsets p \<noteq> [] \<and> length (rp_offsets p) \<le> max_reminders \<and>
          (\<forall>off \<in> set (rp_offsets p). 0 < off) \<and> distinct (rp_offsets p)
      | ModeInterval \<Rightarrow> min_reminder_interval \<le> rp_every p \<and> tod_valid (rp_at p) \<and>
          0 \<le> rp_final_offset p
      | ModeOther _ \<Rightarrow> False)"

lemma check_offsets_Nil:
  "check_offsets f seen offs v = [] \<longleftrightarrow>
   v = [] \<and> (\<forall>off \<in> set offs. 0 < off) \<and> distinct offs \<and> set offs \<inter> set seen = {}"
  by (induction f seen offs v rule: check_offsets.induct) (auto simp: Let_def)

lemma policy_errors_Nil: "policy_errors p field = [] \<longleftrightarrow> policy_ok p"
  by (auto simp: policy_errors_def policy_ok_def validate_offsets_def validate_interval_def
      Let_def check_offsets_Nil not_less split: reminder_mode.splits)

lemma policy_validate_None: "policy_validate p field = None \<longleftrightarrow> policy_ok p"
  by (simp add: policy_validate_def policy_errors_Nil)

lemma policy_validate_Some:
  "policy_validate p field = Some e \<Longrightarrow> \<exists>fs. e = ErrValidation fs \<and> fs \<noteq> []"
  by (auto simp: policy_validate_def verr_err_def split: if_splits)

subsection \<open>The schedule\<close>

definition offset_times :: "reminder_policy \<Rightarrow> time \<Rightarrow> time \<Rightarrow> time list" where
  "offset_times p now starts_at =
     filter (\<lambda>t. now < t) (map (\<lambda>off. starts_at + (- off)) (rp_offsets p))"

text \<open>\<open>advance\<close>: whole days move by the calendar, other intervals by elapsed time.\<close>

definition advance :: "time \<Rightarrow> duration \<Rightarrow> location \<Rightarrow> time" where
  "advance t every loc =
     (if every mod day = 0 then add_date loc t 0 0 (every div day) else t + every)"

definition first_interval :: "reminder_policy \<Rightarrow> time \<Rightarrow> location \<Rightarrow> time" where
  "first_interval p now loc =
     (let candidate = tod_on (rp_at p) now loc
      in if candidate < now then add_date loc candidate 0 0 1 else candidate)"

fun interval_loop ::
  "nat \<Rightarrow> duration \<Rightarrow> location \<Rightarrow> time \<Rightarrow> time \<Rightarrow> time \<Rightarrow> time list \<Rightarrow> time list option" where
  "interval_loop 0 every loc now final t acc = None"
| "interval_loop (Suc n) every loc now final t acc =
     (if t < final then
        (let acc' = (if now < t then acc @ [t] else acc)
         in if max_reminders < length acc' then Some acc'
            else interval_loop n every loc now final (advance t every loc) acc')
      else Some acc)"

definition interval_fuel :: nat where
  "interval_fuel = 64"

definition interval_times ::
  "reminder_policy \<Rightarrow> time \<Rightarrow> time \<Rightarrow> location \<Rightarrow> time list option" where
  "interval_times p now starts_at loc =
     (let final = starts_at + (- rp_final_offset p)
      in case interval_loop interval_fuel (rp_every p) loc now final (first_interval p now loc) [] of
           None \<Rightarrow> None
         | Some acc \<Rightarrow> Some (if now < final then acc @ [final] else acc))"

text \<open>
  \<open>slices.SortFunc\<close> by \<open>Compare\<close> then \<open>slices.CompactFunc\<close> by \<open>Equal\<close>, and the limit.
\<close>

definition finish_schedule :: "time list \<Rightarrow> time list result" where
  "finish_schedule acc =
     (let ts = remdups_adj (sort acc)
      in if max_reminders < length ts
         then Inl (ErrValidation
           (addf [] ''reminder_policy'' (GeneratesReminders (length ts) max_reminders)))
         else Inr ts)"

definition schedule ::
  "reminder_policy \<Rightarrow> time \<Rightarrow> time \<Rightarrow> location \<Rightarrow> time list result option" where
  "schedule p now starts_at loc =
     (case policy_validate p ''reminder_policy'' of
        Some e \<Rightarrow> Some (Inl e)
      | None \<Rightarrow> (case rp_mode p of
            ModeNone \<Rightarrow> Some (Inr [])
          | ModeOffsets \<Rightarrow> Some (finish_schedule (offset_times p now starts_at))
          | ModeInterval \<Rightarrow> map_option finish_schedule (interval_times p now starts_at loc)
          | ModeOther _ \<Rightarrow> Some (finish_schedule [])))"

subsection \<open>What the schedule promises\<close>

lemma advance_forward:
  assumes "narrow_zone loc" and "hour \<le> every"
  shows "t + hour \<le> advance t every loc"
proof (cases "every mod day = 0")
  case True
  then have "every = day * (every div day)" using mult_div_mod_eq [of day every] by simp
  then have "1 \<le> every div day" using assms(2) by linarith
  then have "t + 12 * hour < add_date loc t 0 0 (every div day)"
    by (rule add_date_forward [OF assms(1)])
  with True show ?thesis by (simp add: advance_def)
next
  case False
  with assms(2) show ?thesis by (simp add: advance_def)
qed

lemma tod_on_bounds:
  assumes "tod_valid tod"
  shows "\<exists>off \<in> loc_offsets loc. wall loc at - day < tod_on tod at loc + off * second"
proof -
  obtain off where off: "off \<in> loc_offsets loc"
    and r: "resolve_local loc (wall loc at div day * 86400 + tod_hour tod * 3600 + tod_minute tod * 60) =
      wall loc at div day * 86400 + tod_hour tod * 3600 + tod_minute tod * 60 - off"
    using resolve_local_offset by blast
  have "tod_on tod at loc =
      (wall loc at div day * 86400 + tod_hour tod * 3600 + tod_minute tod * 60 - off) * second"
    using go_date_civil [of loc at 0 "tod_hour tod" "tod_minute tod" 0 0] r
    by (simp add: tod_on_def)
  moreover have "wall loc at < day * (wall loc at div day) + day"
    using div_bounds [of day "wall loc at"] by simp
  ultimately have "wall loc at - day < tod_on tod at loc + off * second"
    using assms by (simp add: tod_valid_def algebra_simps)
  with off show ?thesis by blast
qed

lemma first_interval_recent:
  assumes "narrow_zone loc" and "tod_valid (rp_at p)"
  shows "now - 24 * hour < first_interval p now loc"
proof -
  define c where "c = tod_on (rp_at p) now loc"
  obtain off where off: "off \<in> loc_offsets loc" and c: "wall loc now - day < c + off * second"
    using tod_on_bounds [OF assms(2)] unfolding c_def by blast
  have "off - offset_at loc (now div second) < 43200"
    using assms(1) off offset_at_in by (rule narrow_zoneD)
  with c have "now - 36 * hour < c" by (simp add: wall_def)
  with add_date_forward [OF assms(1), of 1 c] show ?thesis
    by (simp add: first_interval_def Let_def c_def [symmetric])
qed

text \<open>Enough fuel: past reminders are skipped an hour at a time, future ones are counted.\<close>

lemma interval_loop_returns:
  assumes "narrow_zone loc" and "hour \<le> every"
  shows "length acc \<le> max_reminders \<Longrightarrow> now - int k * hour < t \<Longrightarrow>
    k + 31 \<le> fuel + length acc \<Longrightarrow> \<exists>ts. interval_loop fuel every loc now final t acc = Some ts"
proof (induction fuel arbitrary: k t acc)
  case 0
  then show ?case by (simp add: max_reminders_def)
next
  case (Suc fuel)
  have step: "t + hour \<le> advance t every loc" by (rule advance_forward [OF assms])
  show ?case
  proof (cases "now < t")
    case True
    show ?thesis
    proof (cases "max_reminders < length (acc @ [t])")
      case False
      with Suc.IH [of "acc @ [t]" 0 "advance t every loc"] Suc.prems True step
      show ?thesis by (auto simp: not_less)
    qed (simp add: True)
  next
    case False
    with Suc.prems(2) obtain j where k: "k = Suc j" by (cases k) auto
    have "now - int j * hour < advance t every loc"
      using Suc.prems(2) step by (simp add: k algebra_simps)
    with Suc.IH [of acc j "advance t every loc"] Suc.prems False k
    show ?thesis by (simp add: Let_def)
  qed
qed

lemma interval_times_returns:
  assumes "narrow_zone loc" and "policy_ok p" and "rp_mode p = ModeInterval"
  shows "\<exists>ts. interval_times p now starts_at loc = Some ts"
proof -
  have h: "hour \<le> rp_every p" "tod_valid (rp_at p)"
    using assms(2,3) by (simp_all add: policy_ok_def min_reminder_interval_def)
  have "\<exists>ts. interval_loop interval_fuel (rp_every p) loc now (starts_at + (- rp_final_offset p))
      (first_interval p now loc) [] = Some ts"
    using first_interval_recent [OF assms(1) h(2)]
    by (intro interval_loop_returns [OF assms(1) h(1), where k = 24])
      (simp_all add: interval_fuel_def)
  then show ?thesis by (auto simp: interval_times_def Let_def)
qed

lemma interval_loop_range:
  "interval_loop fuel every loc now final t acc = Some ts \<Longrightarrow>
   (\<forall>x \<in> set acc. now < x \<and> x < final) \<Longrightarrow> \<forall>x \<in> set ts. now < x \<and> x < final"
proof (induction fuel arbitrary: t acc)
  case 0
  then show ?case by simp
next
  case (Suc fuel)
  show ?case
  proof (cases "t < final")
    case False
    with Suc.prems show ?thesis by simp
  next
    case True
    define acc' where "acc' = (if now < t then acc @ [t] else acc)"
    have acc': "\<forall>x \<in> set acc'. now < x \<and> x < final" using Suc.prems(2) True by (simp add: acc'_def)
    have "(if max_reminders < length acc' then Some acc'
        else interval_loop fuel every loc now final (advance t every loc) acc') = Some ts"
      using Suc.prems(1) True by (simp only: interval_loop.simps Let_def acc'_def if_True)
    then show ?thesis using acc' Suc.IH by (auto split: if_splits)
  qed
qed

lemma interval_times_range:
  assumes "interval_times p now starts_at loc = Some ts"
  shows "\<forall>x \<in> set ts. now < x \<and> x \<le> starts_at - rp_final_offset p"
    and "now < starts_at - rp_final_offset p \<Longrightarrow> starts_at - rp_final_offset p \<in> set ts"
proof -
  define final where "final = starts_at - rp_final_offset p"
  obtain acc where
    loop: "interval_loop interval_fuel (rp_every p) loc now final (first_interval p now loc) [] = Some acc"
    and ts: "ts = (if now < final then acc @ [final] else acc)"
    using assms by (auto simp: interval_times_def Let_def final_def split: option.splits)
  have acc: "\<forall>x \<in> set acc. now < x \<and> x < final"
    by (rule interval_loop_range [OF loop]) simp
  show "\<forall>x \<in> set ts. now < x \<and> x \<le> starts_at - rp_final_offset p"
    using acc by (auto simp: ts final_def [symmetric] less_imp_le)
  show "now < starts_at - rp_final_offset p \<Longrightarrow> starts_at - rp_final_offset p \<in> set ts"
    by (simp add: ts final_def [symmetric])
qed

lemma sorted_distinct_adj: "sorted xs \<Longrightarrow> distinct_adj xs \<Longrightarrow> distinct xs" for xs :: "int list"
proof (induction xs)
  case Nil
  then show ?case by simp
next
  case (Cons x xs)
  then show ?case by (cases xs) (auto simp: distinct_adj_Cons)
qed

lemma finish_schedule_Inr:
  assumes "finish_schedule acc = Inr ts"
  shows "set ts = set acc" "sorted ts" "distinct ts" "length ts \<le> max_reminders"
proof -
  have ts: "ts = remdups_adj (sort acc)" "length ts \<le> max_reminders"
    using assms by (auto simp: finish_schedule_def Let_def split: if_splits)
  then show "set ts = set acc" "sorted ts" "length ts \<le> max_reminders" by (simp_all add: sorted_remdups_adj)
  show "distinct ts" unfolding ts(1) by (rule sorted_distinct_adj) simp_all
qed

lemma finish_schedule_Inl:
  "finish_schedule acc = Inl e \<Longrightarrow> \<exists>fs. e = ErrValidation fs"
  by (auto simp: finish_schedule_def Let_def split: if_splits)

text \<open>The cases of a schedule that returned times.\<close>

lemma schedule_cases:
  assumes "schedule p now starts_at loc = Some (Inr ts)"
  shows "policy_ok p"
    and "rp_mode p = ModeNone \<and> ts = [] \<or>
      rp_mode p = ModeOffsets \<and> finish_schedule (offset_times p now starts_at) = Inr ts \<or>
      rp_mode p = ModeInterval \<and>
        (\<exists>acc. interval_times p now starts_at loc = Some acc \<and> finish_schedule acc = Inr ts)"
proof -
  have "policy_validate p ''reminder_policy'' = None"
    using assms by (auto simp: schedule_def split: option.splits)
  then show ok: "policy_ok p" by (simp add: policy_validate_None)
  then show "rp_mode p = ModeNone \<and> ts = [] \<or>
      rp_mode p = ModeOffsets \<and> finish_schedule (offset_times p now starts_at) = Inr ts \<or>
      rp_mode p = ModeInterval \<and>
        (\<exists>acc. interval_times p now starts_at loc = Some acc \<and> finish_schedule acc = Inr ts)"
    using assms by (auto simp: schedule_def policy_ok_def split: option.splits reminder_mode.splits)
qed

lemma schedule_range:
  assumes "schedule p now starts_at loc = Some (Inr ts)" and "x \<in> set ts"
  shows "now < x \<and> x \<le> starts_at"
  using schedule_cases [OF assms(1)] assms(2) interval_times_range(1)
  by (fastforce simp: policy_ok_def offset_times_def dest: finish_schedule_Inr(1))

end
