(* ===== verification/Domain_Event.thy ===== *)
theory Domain_Event
  imports Domain_Reminder
begin

section \<open>Events\<close>

text \<open>
  \<open>internal/manager/domain/event.go\<close>: creating an event from its input, editing it, and
  the closing transitions \<open>open \<rightarrow> ended\<close> and \<open>open \<rightarrow> canceled\<close>. A method that mutates its
  receiver returns the new event.
\<close>

datatype event_status = EventStatusOpen | EventStatusEnded | EventStatusCanceled

text \<open>\<open>NoEndReason\<close> is the empty string of an event that is not closed.\<close>

datatype end_reason = NoEndReason | EndReasonManual | EndReasonAuto | EndReasonCanceled
  | EndReasonProvisionFailed | EndReasonChannelLost

datatype created_via = CreatedViaChat | CreatedViaConsole | CreatedViaOther string

definition title_max_len :: nat where "title_max_len = 80"
definition description_max_len :: nat where "description_max_len = 1000"
definition location_max_len :: nat where "location_max_len = 200"

record chat_user_ref =
  cu_user_id :: string
  cu_display_name :: string

record channel_ref =
  ch_channel_id :: string
  ch_name :: string
  ch_archived :: bool

record message_ref =
  mr_channel_id :: string
  mr_message_id :: string

record message_refs =
  ms_announcement :: "message_ref option"
  ms_recruit_announcement :: "message_ref option"
  ms_summary :: "message_ref option"

definition no_channel :: channel_ref where
  "no_channel = \<lparr>ch_channel_id = '''', ch_name = '''', ch_archived = False\<rparr>"

definition no_messages :: message_refs where
  "no_messages = \<lparr>ms_announcement = None, ms_recruit_announcement = None, ms_summary = None\<rparr>"

record event =
  ev_id :: string
  ev_workspace_id :: string
  ev_title :: string
  ev_description :: string
  ev_location :: string
  ev_starts_at :: time
  ev_ends_at :: "time option"
  ev_status :: event_status
  ev_organizer :: chat_user_ref
  ev_origin_channel_id :: string
  ev_channel :: channel_ref
  ev_messages :: message_refs
  ev_reminder_policy :: reminder_policy
  ev_participant_count :: int
  ev_ended_at :: "time option"
  ev_end_reason :: end_reason
  ev_created_via :: created_via
  ev_created_by :: string
  ev_created_at :: time
  ev_updated_at :: time

record new_event_params =
  ne_workspace_id :: string
  ne_title :: string
  ne_description :: string
  ne_location :: string
  ne_starts_at :: time
  ne_ends_at :: "time option"
  ne_organizer :: chat_user_ref
  ne_origin_channel_id :: string
  ne_reminder_policy :: reminder_policy
  ne_created_via :: created_via
  ne_created_by :: string

record event_update =
  eu_title :: "string option"
  eu_description :: "string option"
  eu_location :: "string option"
  eu_starts_at :: "time option"
  eu_ends_at :: "time option"
  eu_clear_ends_at :: bool
  eu_reminder_policy :: "reminder_policy option"

subsection \<open>Validation\<close>

definition validate_title :: "validation \<Rightarrow> string \<Rightarrow> validation" where
  "validate_title v title =
     (if title = '''' then addf v ''title'' MustNotBeEmpty
      else if title_max_len < rune_count title
      then addf v ''title'' (MustNotExceedCharacters title_max_len)
      else v)"

definition validate_description :: "validation \<Rightarrow> string \<Rightarrow> validation" where
  "validate_description v description =
     (if description_max_len < rune_count description
      then addf v ''description'' (MustNotExceedCharacters description_max_len) else v)"

definition validate_location :: "validation \<Rightarrow> string \<Rightarrow> validation" where
  "validate_location v location =
     (if location_max_len < rune_count location
      then addf v ''location'' (MustNotExceedCharacters location_max_len) else v)"

definition validate_ends_at :: "validation \<Rightarrow> time \<Rightarrow> time option \<Rightarrow> validation" where
  "validate_ends_at v starts_at ends_at =
     (case ends_at of
        None \<Rightarrow> v
      | Some e \<Rightarrow> if \<not> starts_at < e then addf v ''ends_at'' MustBeAfterStartsAt else v)"

lemma validate_Nil [simp]:
  "validate_title v s = [] \<longleftrightarrow> v = [] \<and> s \<noteq> '''' \<and> rune_count s \<le> title_max_len"
  "validate_description v s = [] \<longleftrightarrow> v = [] \<and> rune_count s \<le> description_max_len"
  "validate_location v s = [] \<longleftrightarrow> v = [] \<and> rune_count s \<le> location_max_len"
  "validate_ends_at v st e = [] \<longleftrightarrow> v = [] \<and> (case e of None \<Rightarrow> True | Some t \<Rightarrow> st < t)"
  by (auto simp: validate_title_def validate_description_def validate_location_def
      validate_ends_at_def not_less split: option.splits)

subsection \<open>NewEvent\<close>

definition new_event_errors :: "new_event_params \<Rightarrow> time \<Rightarrow> validation" where
  "new_event_errors p now =
     (let v1 = validate_title [] (trim_space (ne_title p));
          v2 = validate_description v1 (trim_space (ne_description p));
          v3 = validate_location v2 (trim_space (ne_location p));
          v4 = (if \<not> is_id (ne_workspace_id p) then addf v3 ''workspace_id'' MustBeObjectId else v3);
          v5 = (if cu_user_id (ne_organizer p) = ''''
                then addf v4 ''organizer'' MustNotBeEmpty else v4);
          v6 = (if \<not> now < ne_starts_at p then addf v5 ''starts_at'' MustBeInTheFuture else v5);
          v7 = validate_ends_at v6 (ne_starts_at p) (ne_ends_at p);
          v8 = merge v7 ''reminder_policy''
                 (policy_validate (ne_reminder_policy p) ''reminder_policy'')
      in (case ne_created_via p of
            CreatedViaOther s \<Rightarrow> addf v8 ''created_via'' (UnknownValue ''origin'' s)
          | _ \<Rightarrow> v8))"

definition new_event :: "new_event_params \<Rightarrow> time \<Rightarrow> event result" where
  "new_event p now =
     (case verr_err (new_event_errors p now) of
        Some e \<Rightarrow> Inl e
      | None \<Rightarrow> Inr
          \<lparr>ev_id = '''',
           ev_workspace_id = ne_workspace_id p,
           ev_title = trim_space (ne_title p),
           ev_description = trim_space (ne_description p),
           ev_location = trim_space (ne_location p),
           ev_starts_at = ne_starts_at p,
           ev_ends_at = ne_ends_at p,
           ev_status = EventStatusOpen,
           ev_organizer = ne_organizer p,
           ev_origin_channel_id = ne_origin_channel_id p,
           ev_channel = no_channel,
           ev_messages = no_messages,
           ev_reminder_policy = ne_reminder_policy p,
           ev_participant_count = 0,
           ev_ended_at = None,
           ev_end_reason = NoEndReason,
           ev_created_via = ne_created_via p,
           ev_created_by = ne_created_by p,
           ev_created_at = now,
           ev_updated_at = now\<rparr>)"

subsection \<open>Operations\<close>

definition ev_is_open :: "event \<Rightarrow> bool" where
  "ev_is_open e \<longleftrightarrow> ev_status e = EventStatusOpen"

text \<open>
  \<open>Apply\<close> builds the edited copy \<open>next\<close> field by field, collecting field errors, and
  assigns it to the receiver only when there are none. \<open>edited\<close> is \<open>next\<close> after all the
  edits, \<open>edit_errors\<close> the errors collected on the way: each check looks at the field just
  written, which no later edit touches.
\<close>

definition edited :: "event \<Rightarrow> event_update \<Rightarrow> event" where
  "edited e u = e
     \<lparr>ev_title := (case eu_title u of None \<Rightarrow> ev_title e | Some s \<Rightarrow> trim_space s),
      ev_description :=
        (case eu_description u of None \<Rightarrow> ev_description e | Some s \<Rightarrow> trim_space s),
      ev_location := (case eu_location u of None \<Rightarrow> ev_location e | Some s \<Rightarrow> trim_space s),
      ev_starts_at := (case eu_starts_at u of None \<Rightarrow> ev_starts_at e | Some t \<Rightarrow> t),
      ev_ends_at := (if eu_clear_ends_at u then None
                     else (case eu_ends_at u of None \<Rightarrow> ev_ends_at e | Some t \<Rightarrow> Some t)),
      ev_reminder_policy :=
        (case eu_reminder_policy u of None \<Rightarrow> ev_reminder_policy e | Some p \<Rightarrow> p)\<rparr>"

definition edit_errors :: "event \<Rightarrow> event_update \<Rightarrow> validation" where
  "edit_errors e u =
     (let n = edited e u;
          v1 = (case eu_title u of None \<Rightarrow> [] | Some _ \<Rightarrow> validate_title [] (ev_title n));
          v2 = (case eu_description u of None \<Rightarrow> v1
                | Some _ \<Rightarrow> validate_description v1 (ev_description n));
          v3 = (case eu_location u of None \<Rightarrow> v2 | Some _ \<Rightarrow> validate_location v2 (ev_location n));
          v4 = validate_ends_at v3 (ev_starts_at n) (ev_ends_at n)
      in (case eu_reminder_policy u of None \<Rightarrow> v4
          | Some p \<Rightarrow> merge v4 ''reminder_policy'' (policy_validate p ''reminder_policy'')))"

definition event_apply :: "event \<Rightarrow> event_update \<Rightarrow> time \<Rightarrow> event result" where
  "event_apply e u now =
     (if \<not> ev_is_open e then Inl ErrEventClosed
      else (case verr_err (edit_errors e u) of
              Some er \<Rightarrow> Inl er
            | None \<Rightarrow> Inr ((edited e u)\<lparr>ev_updated_at := now\<rparr>)))"

definition event_close :: "event_status \<Rightarrow> end_reason \<Rightarrow> time \<Rightarrow> event \<Rightarrow> bool \<times> event" where
  "event_close status reason now e =
     (if \<not> ev_is_open e then (False, e)
      else (True, e\<lparr>ev_status := status, ev_end_reason := reason, ev_ended_at := Some now,
                    ev_updated_at := now\<rparr>))"

definition event_end :: "end_reason \<Rightarrow> time \<Rightarrow> event \<Rightarrow> bool \<times> event" where
  "event_end reason now e = event_close EventStatusEnded reason now e"

definition event_cancel :: "end_reason \<Rightarrow> time \<Rightarrow> event \<Rightarrow> bool \<times> event" where
  "event_cancel reason now e = event_close EventStatusCanceled reason now e"

definition auto_end_at :: "event \<Rightarrow> duration \<Rightarrow> time" where
  "auto_end_at e grace = (case ev_ends_at e of Some t \<Rightarrow> t | None \<Rightarrow> ev_starts_at e + grace)"

subsection \<open>The invariant of an event\<close>

definition event_ok :: "event \<Rightarrow> bool" where
  "event_ok e \<longleftrightarrow>
     ev_title e \<noteq> '''' \<and> rune_count (ev_title e) \<le> title_max_len \<and>
     rune_count (ev_description e) \<le> description_max_len \<and>
     rune_count (ev_location e) \<le> location_max_len \<and>
     (case ev_ends_at e of None \<Rightarrow> True | Some t \<Rightarrow> ev_starts_at e < t) \<and>
     policy_ok (ev_reminder_policy e) \<and>
     (ev_is_open e \<longleftrightarrow> ev_ended_at e = None)"

lemma new_event_errors_Nil:
  "new_event_errors p now = [] \<longleftrightarrow>
     trim_space (ne_title p) \<noteq> '''' \<and>
     rune_count (trim_space (ne_title p)) \<le> title_max_len \<and>
     rune_count (trim_space (ne_description p)) \<le> description_max_len \<and>
     rune_count (trim_space (ne_location p)) \<le> location_max_len \<and>
     is_id (ne_workspace_id p) \<and> cu_user_id (ne_organizer p) \<noteq> '''' \<and>
     now < ne_starts_at p \<and>
     (case ne_ends_at p of None \<Rightarrow> True | Some t \<Rightarrow> ne_starts_at p < t) \<and>
     policy_ok (ne_reminder_policy p) \<and>
     (ne_created_via p = CreatedViaChat \<or> ne_created_via p = CreatedViaConsole)"
  by (cases "ne_created_via p")
    (simp_all add: new_event_errors_def Let_def policy_validate_def policy_errors_Nil conj_ac)

lemma new_event_Inr: "new_event p now = Inr e \<Longrightarrow> new_event_errors p now = []"
  by (auto simp: new_event_def split: option.splits)

lemma new_event_fields:
  assumes "new_event p now = Inr e"
  shows "ev_id e = ''''" "ev_workspace_id e = ne_workspace_id p"
    "ev_title e = trim_space (ne_title p)" "ev_description e = trim_space (ne_description p)"
    "ev_location e = trim_space (ne_location p)" "ev_starts_at e = ne_starts_at p"
    "ev_ends_at e = ne_ends_at p" "ev_status e = EventStatusOpen"
    "ev_organizer e = ne_organizer p" "ev_channel e = no_channel"
    "ev_reminder_policy e = ne_reminder_policy p" "ev_participant_count e = 0"
    "ev_ended_at e = None" "ev_updated_at e = now"
  using assms by (auto simp: new_event_def split: option.splits)

lemma new_event_ok: "new_event p now = Inr e \<Longrightarrow> event_ok e"
  using new_event_Inr [of p now e]
  by (simp add: new_event_errors_Nil event_ok_def ev_is_open_def new_event_fields
      cong: option.case_cong)

lemma event_apply_InrD:
  assumes "event_apply e u now = Inr e'"
  shows "ev_is_open e" "edit_errors e u = []" "e' = (edited e u)\<lparr>ev_updated_at := now\<rparr>"
  using assms by (auto simp: event_apply_def verr_err_def split: if_splits option.splits)

text \<open>The fields an edit never changes.\<close>

lemma event_apply_frame:
  assumes "event_apply e u now = Inr e'"
  shows "ev_id e' = ev_id e" "ev_workspace_id e' = ev_workspace_id e"
    "ev_status e' = ev_status e" "ev_organizer e' = ev_organizer e"
    "ev_channel e' = ev_channel e" "ev_messages e' = ev_messages e"
    "ev_participant_count e' = ev_participant_count e" "ev_ended_at e' = ev_ended_at e"
    "ev_end_reason e' = ev_end_reason e" "ev_updated_at e' = now"
  unfolding event_apply_InrD(3) [OF assms] by (simp_all add: edited_def)

lemma event_close_frame:
  "event_close st r now e = (c, e') \<Longrightarrow>
   ev_id e' = ev_id e \<and> ev_workspace_id e' = ev_workspace_id e \<and> ev_channel e' = ev_channel e \<and>
   ev_participant_count e' = ev_participant_count e \<and> ev_starts_at e' = ev_starts_at e \<and>
   ev_messages e' = ev_messages e \<and> ev_reminder_policy e' = ev_reminder_policy e"
  by (auto simp: event_close_def split: if_splits)

lemma event_close_changed: "event_close st r now e = (c, e') \<Longrightarrow> c \<longleftrightarrow> ev_is_open e"
  by (auto simp: event_close_def split: if_splits)

lemma event_close_ok:
  "event_ok e \<Longrightarrow> st \<noteq> EventStatusOpen \<Longrightarrow> event_close st r now e = (c, e') \<Longrightarrow> event_ok e'"
  by (cases "ev_ends_at e")
    (auto simp: event_close_def event_ok_def ev_is_open_def split: if_splits)

lemma edit_errors_Nil:
  "edit_errors e u = [] \<longleftrightarrow>
     (eu_title u \<noteq> None \<longrightarrow> ev_title (edited e u) \<noteq> '''' \<and>
        rune_count (ev_title (edited e u)) \<le> title_max_len) \<and>
     (eu_description u \<noteq> None \<longrightarrow>
        rune_count (ev_description (edited e u)) \<le> description_max_len) \<and>
     (eu_location u \<noteq> None \<longrightarrow> rune_count (ev_location (edited e u)) \<le> location_max_len) \<and>
     (case ev_ends_at (edited e u) of None \<Rightarrow> True | Some t \<Rightarrow> ev_starts_at (edited e u) < t) \<and>
     (case eu_reminder_policy u of None \<Rightarrow> True | Some p \<Rightarrow> policy_ok p)"
  by (cases "eu_title u"; cases "eu_description u"; cases "eu_location u";
      cases "eu_reminder_policy u")
    (simp_all add: edit_errors_def Let_def policy_validate_def policy_errors_Nil)

lemma event_apply_ok:
  assumes "event_ok e" and "event_apply e u now = Inr e'"
  shows "event_ok e'"
proof -
  note e' = event_apply_InrD [OF assms(2)]
  show ?thesis
    using assms(1) e'(2) unfolding e'(3) edit_errors_Nil
    by (cases "eu_title u"; cases "eu_description u"; cases "eu_location u";
        cases "eu_reminder_policy u")
      (simp_all add: event_ok_def ev_is_open_def edited_def cong: option.case_cong)
qed

end
