(* ===== verification/Domain_Participation.thy ===== *)
theory Domain_Participation
  imports Domain_Errors
begin

section \<open>Participation records and transitions\<close>

text \<open>
  \<open>internal/manager/domain/participation.go\<close>: what pressing "join" or "peek" does to a
  participation record. Go's string enumerations are datatypes; where the code has a
  default branch for other strings, a constructor carries that string.
\<close>

datatype participation_role = RoleParticipant | RolePeeker | RoleOther string

datatype participation_status =
  ParticipationActive | ParticipationExpired | ParticipationRemoved | ParticipationLeft

datatype participation_action = ActionJoin | ActionPeek | ActionOther string

datatype transition_kind =
    TransitionJoined | TransitionPeeked | TransitionPromoted
  | TransitionAlreadyParticipant | TransitionAlreadyPeeking

record transition =
  tr_kind :: transition_kind
  tr_role :: participation_role
  tr_add_to_channel :: bool
  tr_cancel_peek_job :: bool

record participation =
  pt_id :: string
  pt_event_id :: string
  pt_workspace_id :: string
  pt_chat_user_id :: string
  pt_display_name :: string
  pt_role :: participation_role
  pt_status :: participation_status
  pt_joined_at :: time
  pt_expires_at :: "time option"
  pt_peek_count :: int
  pt_updated_at :: time

definition new_entry_transition :: "participation_action \<Rightarrow> transition" where
  "new_entry_transition action =
     (if action = ActionPeek
      then \<lparr>tr_kind = TransitionPeeked, tr_role = RolePeeker,
            tr_add_to_channel = True, tr_cancel_peek_job = False\<rparr>
      else \<lparr>tr_kind = TransitionJoined, tr_role = RoleParticipant,
            tr_add_to_channel = True, tr_cancel_peek_job = False\<rparr>)"

definition decide_transition :: "participation option \<Rightarrow> participation_action \<Rightarrow> transition" where
  "decide_transition prev action =
     (case prev of
        None \<Rightarrow> new_entry_transition action
      | Some p \<Rightarrow>
          if pt_status p \<noteq> ParticipationActive then new_entry_transition action
          else (case pt_role p of
              RoleParticipant \<Rightarrow>
                \<lparr>tr_kind = TransitionAlreadyParticipant, tr_role = RoleParticipant,
                 tr_add_to_channel = False, tr_cancel_peek_job = False\<rparr>
            | RolePeeker \<Rightarrow>
                if action = ActionJoin
                then \<lparr>tr_kind = TransitionPromoted, tr_role = RoleParticipant,
                      tr_add_to_channel = False, tr_cancel_peek_job = True\<rparr>
                else \<lparr>tr_kind = TransitionAlreadyPeeking, tr_role = RolePeeker,
                      tr_add_to_channel = False, tr_cancel_peek_job = False\<rparr>
            | RoleOther _ \<Rightarrow> new_entry_transition action))"

definition pt_is_active :: "participation \<Rightarrow> bool" where
  "pt_is_active p \<longleftrightarrow> pt_status p = ParticipationActive"

definition peek_expired :: "participation \<Rightarrow> time \<Rightarrow> bool" where
  "peek_expired p now \<longleftrightarrow>
     pt_role p = RolePeeker \<and>
     (case pt_expires_at p of None \<Rightarrow> False | Some at \<Rightarrow> \<not> now < at)"

text \<open>An active participant, the records \<open>ParticipantCount\<close> counts.\<close>

definition counted :: "participation \<Rightarrow> bool" where
  "counted p \<longleftrightarrow> pt_status p = ParticipationActive \<and> pt_role p = RoleParticipant"

lemma decide_transition_new_entry:
  "decide_transition prev action = new_entry_transition action \<longleftrightarrow>
   (case prev of None \<Rightarrow> True
    | Some p \<Rightarrow> \<not> pt_is_active p \<or> (\<exists>s. pt_role p = RoleOther s))"
  by (auto simp: decide_transition_def new_entry_transition_def pt_is_active_def
      split: option.splits participation_role.splits)

text \<open>A transition with a side effect ends in a role and counts the user exactly once.\<close>

lemma effective_transition:
  assumes "tr = decide_transition prev action" and "tr_add_to_channel tr \<or> tr_cancel_peek_job tr"
  shows "tr_role tr = RoleParticipant \<longleftrightarrow> tr_kind tr \<in> {TransitionJoined, TransitionPromoted}"
    and "tr_role tr = RolePeeker \<longleftrightarrow> tr_kind tr = TransitionPeeked"
    and "case prev of None \<Rightarrow> True | Some p \<Rightarrow> \<not> counted p"
  using assms
  by (auto simp: decide_transition_def new_entry_transition_def counted_def
      split: option.splits participation_role.splits if_splits)

end
