(* ===== verification/Domain_Job.thy ===== *)
theory Domain_Job
  imports Domain_Errors
begin

section \<open>Jobs of the persistent queue\<close>

text \<open>
  \<open>internal/manager/domain/job.go\<close>: the four kinds of job, their deduplication keys and
  the retry delay.
\<close>

datatype job_kind = JobReminder | JobPeekExpire | JobEventAutoEnd | JobArchiveChannel
  | JobKindOther string

datatype job_status = JobPending | JobRunning | JobDone | JobFailed | JobCanceled

record job_payload =
  jp_event_id :: string
  jp_participation_id :: string
  jp_sequence :: int
  jp_scheduled_for :: time

text \<open>\<open>LastError\<close>, a text in the code, is the error whose text it is (\<open>None\<close> for empty).\<close>

record job =
  jb_id :: string
  jb_kind :: job_kind
  jb_run_at :: time
  jb_dedupe_key :: string
  jb_event_id :: string
  jb_payload :: job_payload
  jb_status :: job_status
  jb_attempts :: int
  jb_max_attempts :: int
  jb_lease_until :: "time option"
  jb_last_error :: "err option"
  jb_created_at :: time
  jb_updated_at :: time
  jb_finished_at :: "time option"

definition default_max_attempts :: int where "default_max_attempts = 5"
definition base_backoff :: duration where "base_backoff = 30 * second"
definition max_backoff :: duration where "max_backoff = 30 * minute"
definition backoff_factor :: int where "backoff_factor = 2"

definition new_job :: "job_kind \<Rightarrow> string \<Rightarrow> time \<Rightarrow> string \<Rightarrow> job_payload \<Rightarrow> job" where
  "new_job kind event_id run_at dedupe_key payload =
     \<lparr>jb_id = '''', jb_kind = kind, jb_run_at = run_at, jb_dedupe_key = dedupe_key,
      jb_event_id = event_id, jb_payload = payload, jb_status = JobPending, jb_attempts = 0,
      jb_max_attempts = default_max_attempts, jb_lease_until = None, jb_last_error = None,
      jb_created_at = zero_time, jb_updated_at = zero_time, jb_finished_at = None\<rparr>"

definition reminder_key :: "string \<Rightarrow> int \<Rightarrow> string" where
  "reminder_key event_id sequence = ''reminder:'' @ event_id @ '':'' @ dec_of_int sequence"

definition peek_key :: "string \<Rightarrow> int \<Rightarrow> string" where
  "peek_key participation_id peek_count =
     ''peek:'' @ participation_id @ '':'' @ dec_of_int peek_count"

definition new_reminder_job :: "string \<Rightarrow> int \<Rightarrow> time \<Rightarrow> job" where
  "new_reminder_job event_id sequence run_at =
     new_job JobReminder event_id run_at (reminder_key event_id sequence)
       \<lparr>jp_event_id = event_id, jp_participation_id = '''', jp_sequence = sequence,
        jp_scheduled_for = run_at\<rparr>"

definition new_peek_expire_job :: "string \<Rightarrow> string \<Rightarrow> int \<Rightarrow> time \<Rightarrow> job" where
  "new_peek_expire_job event_id participation_id peek_count run_at =
     new_job JobPeekExpire event_id run_at (peek_key participation_id peek_count)
       \<lparr>jp_event_id = event_id, jp_participation_id = participation_id, jp_sequence = 0,
        jp_scheduled_for = zero_time\<rparr>"

definition new_auto_end_job :: "string \<Rightarrow> time \<Rightarrow> job" where
  "new_auto_end_job event_id run_at =
     new_job JobEventAutoEnd event_id run_at (''auto_end:'' @ event_id)
       \<lparr>jp_event_id = event_id, jp_participation_id = '''', jp_sequence = 0,
        jp_scheduled_for = zero_time\<rparr>"

definition new_archive_channel_job :: "string \<Rightarrow> time \<Rightarrow> job" where
  "new_archive_channel_job event_id run_at =
     new_job JobArchiveChannel event_id run_at (''archive:'' @ event_id)
       \<lparr>jp_event_id = event_id, jp_participation_id = '''', jp_sequence = 0,
        jp_scheduled_for = zero_time\<rparr>"

text \<open>The loop of \<open>Backoff\<close>: \<open>n\<close> rounds are left.\<close>

fun backoff_loop :: "nat \<Rightarrow> duration \<Rightarrow> duration" where
  "backoff_loop 0 d = d"
| "backoff_loop (Suc n) d =
     (let d' = d * backoff_factor in if max_backoff \<le> d' then max_backoff else backoff_loop n d')"

definition backoff :: "int \<Rightarrow> duration" where
  "backoff attempts = backoff_loop (nat (max (attempts - 1) 0)) base_backoff"

definition exhausted :: "job \<Rightarrow> bool" where
  "exhausted j \<longleftrightarrow> jb_max_attempts j \<le> jb_attempts j"

lemma backoff_loop_closed:
  "0 < d \<Longrightarrow> d < max_backoff \<Longrightarrow> backoff_loop n d = min (d * 2 ^ n) max_backoff"
proof (induction n arbitrary: d)
  case 0
  then show ?case by simp
next
  case (Suc n)
  show ?case
  proof (cases "max_backoff \<le> d * 2")
    case True
    have "d * 2 * 1 \<le> d * 2 * 2 ^ n" using Suc.prems by (intro mult_left_mono) auto
    with True have "max_backoff \<le> d * 2 ^ Suc n" by (simp add: mult.assoc)
    with True show ?thesis by (simp add: backoff_factor_def Let_def min_absorb2)
  next
    case False
    with Suc show ?thesis by (simp add: backoff_factor_def Let_def mult.assoc)
  qed
qed

lemma backoff_closed: "backoff n = min (base_backoff * 2 ^ nat (max (n - 1) 0)) max_backoff"
  unfolding backoff_def
  by (rule backoff_loop_closed) (simp_all add: base_backoff_def max_backoff_def)

subsection \<open>Deduplication keys\<close>

lemma reminder_key_inj: "reminder_key e m = reminder_key e' n \<longleftrightarrow> e = e' \<and> m = n"
proof
  assume "reminder_key e m = reminder_key e' n"
  then have "e @ CHR '':'' # dec_of_int m = e' @ CHR '':'' # dec_of_int n"
    by (simp add: reminder_key_def)
  from split_at_last_sep [OF _ _ this] show "e = e' \<and> m = n" by (auto dest: dec_of_int_inj)
qed simp

lemma peek_key_inj: "peek_key e m = peek_key e' n \<longleftrightarrow> e = e' \<and> m = n"
proof
  assume "peek_key e m = peek_key e' n"
  then have "e @ CHR '':'' # dec_of_int m = e' @ CHR '':'' # dec_of_int n"
    by (simp add: peek_key_def)
  from split_at_last_sep [OF _ _ this] show "e = e' \<and> m = n" by (auto dest: dec_of_int_inj)
qed simp

lemma keys_disjoint [simp]:
  "reminder_key e n \<noteq> peek_key p k" "peek_key p k \<noteq> reminder_key e n"
  "reminder_key e n \<noteq> ''auto_end:'' @ a" "reminder_key e n \<noteq> ''archive:'' @ a"
  "peek_key p k \<noteq> ''auto_end:'' @ a" "peek_key p k \<noteq> ''archive:'' @ a"
  "reminder_key e n \<noteq> []" "peek_key p k \<noteq> []"
  by (simp_all add: reminder_key_def peek_key_def)

lemmas job_constructor_defs =
  new_reminder_job_def new_peek_expire_job_def new_auto_end_job_def new_archive_channel_job_def
  new_job_def

end
