(* ===== verification/Domain_Workspace.thy ===== *)
theory Domain_Workspace
  imports Domain_Reminder
begin

section \<open>Workspaces, their settings and the provider\<close>

text \<open>
  \<open>internal/manager/domain/workspace.go\<close> and \<open>provider.go\<close>. \<open>time.LoadLocation\<close> reads the
  time zone database of the system: it is the argument \<open>load\<close> of the definitions that
  call it.
\<close>

subsection \<open>Provider\<close>

datatype provider_kind = ProviderKindSlack | ProviderKindDiscord | ProviderKindOther string

datatype provider_status = ProviderStatusOffline | ProviderStatusOnline

instantiation provider_status :: linorder
begin

definition less_eq_provider_status :: "provider_status \<Rightarrow> provider_status \<Rightarrow> bool" where
  "less_eq_provider_status a b \<longleftrightarrow> a = ProviderStatusOffline \<or> b = ProviderStatusOnline"

definition less_provider_status :: "provider_status \<Rightarrow> provider_status \<Rightarrow> bool" where
  "less_provider_status a b \<longleftrightarrow> a = ProviderStatusOffline \<and> b = ProviderStatusOnline"

instance
proof
  fix a b c :: provider_status
  show "a < b \<longleftrightarrow> a \<le> b \<and> \<not> b \<le> a" and "a \<le> a" and "a \<le> b \<or> b \<le> a"
    by (cases a; cases b; simp add: less_eq_provider_status_def less_provider_status_def)+
  show "a \<le> b \<Longrightarrow> b \<le> c \<Longrightarrow> a \<le> c" and "a \<le> b \<Longrightarrow> b \<le> a \<Longrightarrow> a = b"
    by (auto simp: less_eq_provider_status_def)
qed

end

definition default_offline_after_failures :: int where
  "default_offline_after_failures = 3"

record capabilities =
  cap_forms :: bool
  cap_ephemeral :: bool
  cap_direct_message :: bool

record provider_state =
  ps_kind :: provider_kind
  ps_address :: string
  ps_capabilities :: capabilities
  ps_version :: string
  ps_bot_user_id :: string
  ps_connected :: bool
  ps_status :: provider_status
  ps_failures :: int
  ps_first_seen_at :: time
  ps_last_seen_at :: time
  ps_updated_at :: time

definition provider_kind_valid :: "provider_kind \<Rightarrow> bool" where
  "provider_kind_valid k \<longleftrightarrow>
     (case k of ProviderKindSlack \<Rightarrow> True | ProviderKindDiscord \<Rightarrow> True | ProviderKindOther _ \<Rightarrow> False)"

definition decide_provider_status :: "bool \<Rightarrow> int \<Rightarrow> int \<Rightarrow> provider_status" where
  "decide_provider_status connected failures threshold =
     (if \<not> connected \<or> threshold \<le> failures then ProviderStatusOffline else ProviderStatusOnline)"

subsection \<open>Workspace settings\<close>

definition default_timezone :: string where "default_timezone = ''Asia/Tokyo''"
definition default_peek_duration :: duration where "default_peek_duration = hour"
definition default_auto_end_grace :: duration where "default_auto_end_grace = day"
definition default_channel_name_prefix :: string where "default_channel_name_prefix = ''ev-''"
definition channel_name_prefix_max_len :: nat where "channel_name_prefix_max_len = 16"
definition default_start_hour :: int where "default_start_hour = 19"

record discord_settings =
  ds_event_category_id :: string
  ds_archive_category_id :: string

record workspace_settings =
  wss_recruit_channel_id :: string
  wss_timezone :: string
  wss_default_reminder_policy :: reminder_policy
  wss_peek_duration :: duration
  wss_auto_end_grace :: duration
  wss_channel_name_prefix :: string
  wss_default_start_time :: time_of_day
  wss_discord :: discord_settings

record workspace =
  ws_id :: string
  ws_provider :: provider_kind
  ws_external_id :: string
  ws_name :: string
  ws_settings :: workspace_settings
  ws_created_at :: time
  ws_updated_at :: time

definition default_workspace_settings :: workspace_settings where
  "default_workspace_settings =
     \<lparr>wss_recruit_channel_id = '''', wss_timezone = default_timezone,
      wss_default_reminder_policy = default_reminder_policy,
      wss_peek_duration = default_peek_duration, wss_auto_end_grace = default_auto_end_grace,
      wss_channel_name_prefix = default_channel_name_prefix,
      wss_default_start_time = \<lparr>tod_hour = default_start_hour, tod_minute = 0\<rparr>,
      wss_discord = \<lparr>ds_event_category_id = '''', ds_archive_category_id = ''''\<rparr>\<rparr>"

text \<open>\<open>WorkspaceSettings.Location\<close>\<close>

definition settings_location ::
  "(string \<Rightarrow> location option) \<Rightarrow> workspace_settings \<Rightarrow> location result" where
  "settings_location load s =
     (case load (wss_timezone s) of
        None \<Rightarrow> Inl (ErrText ''unknown time zone'')
      | Some loc \<Rightarrow> Inr loc)"

text \<open>\<open>^[a-z0-9_-]*$\<close>\<close>

definition is_prefix_char :: "char \<Rightarrow> bool" where
  "is_prefix_char c \<longleftrightarrow>
     (97 \<le> byte c \<and> byte c \<le> 122) \<or> (48 \<le> byte c \<and> byte c \<le> 57) \<or>
     c = CHR ''_'' \<or> c = CHR ''-''"

definition settings_errors ::
  "(string \<Rightarrow> location option) \<Rightarrow> workspace_settings \<Rightarrow> validation" where
  "settings_errors load s =
     (let v1 = (if wss_timezone s = '''' then addf [] ''settings.timezone'' MustNotBeEmpty
                else if load (wss_timezone s) = None
                then addf [] ''settings.timezone'' (UnknownValue ''timezone'' (wss_timezone s))
                else []);
          v2 = (if wss_peek_duration s \<le> 0
                then addf v1 ''settings.peek_duration'' MustBePositive else v1);
          v3 = (if wss_auto_end_grace s \<le> 0
                then addf v2 ''settings.auto_end_grace'' MustBePositive else v2);
          v4 = (if channel_name_prefix_max_len < length (wss_channel_name_prefix s)
                then addf v3 ''settings.channel_name_prefix''
                  (MustNotExceedCharacters channel_name_prefix_max_len) else v3);
          v5 = (if \<not> list_all is_prefix_char (wss_channel_name_prefix s)
                then addf v4 ''settings.channel_name_prefix'' PrefixCharacters else v4);
          v6 = (if \<not> tod_valid (wss_default_start_time s)
                then addf v5 ''settings.default_start_time'' MustBeHHMM else v5)
      in merge v6 ''settings.default_reminder_policy''
           (policy_validate (wss_default_reminder_policy s) ''settings.default_reminder_policy''))"

definition settings_validate ::
  "(string \<Rightarrow> location option) \<Rightarrow> workspace_settings \<Rightarrow> err option" where
  "settings_validate load s = verr_err (settings_errors load s)"

definition settings_normalize :: "workspace_settings \<Rightarrow> workspace_settings" where
  "settings_normalize s0 =
     (let defaults = default_workspace_settings;
          s1 = (if wss_timezone s0 = '''' then s0\<lparr>wss_timezone := wss_timezone defaults\<rparr> else s0);
          s2 = (if wss_peek_duration s1 = 0
                then s1\<lparr>wss_peek_duration := wss_peek_duration defaults\<rparr> else s1);
          s3 = (if wss_auto_end_grace s2 = 0
                then s2\<lparr>wss_auto_end_grace := wss_auto_end_grace defaults\<rparr> else s2);
          s4 = (if wss_channel_name_prefix s3 = ''''
                then s3\<lparr>wss_channel_name_prefix := wss_channel_name_prefix defaults\<rparr> else s3);
          s5 = (if wss_default_start_time s4 = zero_time_of_day
                then s4\<lparr>wss_default_start_time := wss_default_start_time defaults\<rparr> else s4)
      in if rp_mode (wss_default_reminder_policy s5) = ModeOther ''''
         then s5\<lparr>wss_default_reminder_policy := wss_default_reminder_policy defaults\<rparr> else s5)"

definition workspace_errors :: "(string \<Rightarrow> location option) \<Rightarrow> workspace \<Rightarrow> validation" where
  "workspace_errors load w =
     (let v1 = (case ws_provider w of
                  ProviderKindOther k \<Rightarrow> addf [] ''provider'' (UnknownValue ''provider'' k) | _ \<Rightarrow> []);
          v2 = (if ws_external_id w = '''' then addf v1 ''external_id'' MustNotBeEmpty else v1);
          v3 = (if ws_name w = '''' then addf v2 ''name'' MustNotBeEmpty else v2)
      in merge v3 ''settings'' (settings_validate load (ws_settings w)))"

definition workspace_validate :: "(string \<Rightarrow> location option) \<Rightarrow> workspace \<Rightarrow> err option" where
  "workspace_validate load w = verr_err (workspace_errors load w)"

text \<open>The invariant of stored settings, stated on its own.\<close>

definition settings_ok :: "(string \<Rightarrow> location option) \<Rightarrow> workspace_settings \<Rightarrow> bool" where
  "settings_ok load s \<longleftrightarrow>
     wss_timezone s \<noteq> '''' \<and> load (wss_timezone s) \<noteq> None \<and>
     0 < wss_peek_duration s \<and> 0 < wss_auto_end_grace s \<and>
     length (wss_channel_name_prefix s) \<le> channel_name_prefix_max_len \<and>
     list_all is_prefix_char (wss_channel_name_prefix s) \<and>
     tod_valid (wss_default_start_time s) \<and> policy_ok (wss_default_reminder_policy s)"

lemma settings_errors_Nil: "settings_errors load s = [] \<longleftrightarrow> settings_ok load s"
  by (auto simp: settings_errors_def settings_ok_def Let_def policy_validate_def policy_errors_Nil
      not_less not_le)

lemma settings_validate_None: "settings_validate load s = None \<longleftrightarrow> settings_ok load s"
  by (simp add: settings_validate_def settings_errors_Nil)

lemma default_policy_ok: "policy_ok default_reminder_policy"
  by (simp add: policy_ok_def default_reminder_policy_def max_reminders_def)

lemma default_settings_ok: "load default_timezone \<noteq> None \<Longrightarrow> settings_ok load default_workspace_settings"
  by (simp add: settings_ok_def default_workspace_settings_def default_policy_ok
      default_peek_duration_def default_auto_end_grace_def default_channel_name_prefix_def
      channel_name_prefix_max_len_def is_prefix_char_def byte_def default_timezone_def
      tod_valid_def max_hour_def max_minute_def default_start_hour_def)

end
