(* ===== verification/Domain_Account.thy ===== *)
theory Domain_Account
  imports Domain_Workspace
begin

section \<open>Console accounts, link tokens and sessions\<close>

text \<open>
  \<open>internal/manager/domain/account.go\<close>. The bytes of \<open>crypto/rand\<close> and the SHA-256 digest
  are arguments of the definitions that use them: \<open>random\<close>, the 32 bytes read (or the
  error of the read), and \<open>sha256\<close>, from the bytes of a text to the bytes of its digest.
\<close>

definition token_bytes :: nat where "token_bytes = 32"
definition default_link_token_ttl :: duration where "default_link_token_ttl = 10 * minute"

datatype account_origin = AccountOriginLink | AccountOriginAllowlist

record console_user =
  us_id :: string
  us_google_sub :: string
  us_email :: string
  us_name :: string
  us_picture :: string
  us_created_via :: account_origin
  us_created_at :: time
  us_last_login_at :: time

record chat_identity =
  ci_id :: string
  ci_console_user_id :: string
  ci_workspace_id :: string
  ci_provider :: provider_kind
  ci_workspace_external_id :: string
  ci_chat_user_id :: string
  ci_display_name :: string
  ci_linked_at :: time

record link_token =
  lt_id :: string
  lt_workspace_id :: string
  lt_chat_user_id :: string
  lt_display_name :: string
  lt_expires_at :: time
  lt_consumed_at :: "time option"

record session =
  se_id :: string
  se_user_id :: string
  se_csrf_token :: string
  se_created_at :: time
  se_expires_at :: time
  se_last_seen_at :: time

record oauth_state =
  oa_state :: string
  oa_code_verifier :: string
  oa_redirect_to :: string
  oa_expires_at :: time

subsection \<open>Tokens\<close>

definition b64url_char :: "nat \<Rightarrow> char" where
  "b64url_char n =
     ''ABCDEFGHIJKLMNOPQRSTUVWXYZabcdefghijklmnopqrstuvwxyz0123456789-_'' ! n"

text \<open>\<open>base64.RawURLEncoding.EncodeToString\<close>\<close>

fun b64url_encode :: "nat list \<Rightarrow> string" where
  "b64url_encode [] = []"
| "b64url_encode [a] = [b64url_char (a div 4), b64url_char (a mod 4 * 16)]"
| "b64url_encode [a, b] =
     [b64url_char (a div 4), b64url_char (a mod 4 * 16 + b div 16), b64url_char (b mod 16 * 4)]"
| "b64url_encode (a # b # c # r) =
     [b64url_char (a div 4), b64url_char (a mod 4 * 16 + b div 16),
      b64url_char (b mod 16 * 4 + c div 64), b64url_char (c mod 64)] @ b64url_encode r"

text \<open>\<open>hex.EncodeToString\<close>\<close>

definition hex_encode :: "nat list \<Rightarrow> string" where
  "hex_encode bs = concat (map (\<lambda>b. [digit_char (b div 16), digit_char (b mod 16)]) bs)"

definition generate_token :: "nat list result \<Rightarrow> string result" where
  "generate_token random =
     (case random of
        Inl e \<Rightarrow> Inl (ErrWrapped ''generate token'' e)
      | Inr buf \<Rightarrow> Inr (b64url_encode buf))"

definition hash_token :: "(string \<Rightarrow> nat list) \<Rightarrow> string \<Rightarrow> string" where
  "hash_token sha256 token = hex_encode (sha256 token)"

definition new_link_token ::
  "(string \<Rightarrow> nat list) \<Rightarrow> nat list result \<Rightarrow> string \<Rightarrow> string \<Rightarrow> string \<Rightarrow> time \<Rightarrow> duration
   \<Rightarrow> (string \<times> link_token) result" where
  "new_link_token sha256 random workspace_id chat_user_id display_name now ttl =
     (case generate_token random of
        Inl e \<Rightarrow> Inl e
      | Inr token \<Rightarrow> Inr (token,
          \<lparr>lt_id = hash_token sha256 token, lt_workspace_id = workspace_id,
           lt_chat_user_id = chat_user_id, lt_display_name = display_name,
           lt_expires_at = now + ttl, lt_consumed_at = None\<rparr>))"

text \<open>\<open>LinkToken.Usable\<close>; \<open>None\<close> is the nil error.\<close>

definition token_usable :: "link_token \<Rightarrow> time \<Rightarrow> err option" where
  "token_usable t now =
     (if lt_consumed_at t \<noteq> None then Some ErrLinkTokenConsumed
      else if \<not> now < lt_expires_at t then Some ErrLinkTokenExpired
      else None)"

definition session_expired :: "session \<Rightarrow> time \<Rightarrow> bool" where
  "session_expired s now \<longleftrightarrow> \<not> now < se_expires_at s"

subsection \<open>Facts about the encodings\<close>

lemma length_b64url_encode: "length (b64url_encode bs) = (4 * length bs + 2) div 3"
  by (induction bs rule: b64url_encode.induct) auto

lemma b64url_char_inj: "m < 64 \<Longrightarrow> n < 64 \<Longrightarrow> b64url_char m = b64url_char n \<longleftrightarrow> m = n"
  unfolding b64url_char_def by (subst nth_eq_iff_index_eq) auto

lemma sextet_bounds:
  fixes a b :: nat
  assumes "a < 256" and "b < 256"
  shows "a div 4 < 64" "a mod 4 * 16 + b div 16 < 64" "b mod 16 * 4 + a div 64 < 64"
    "a mod 64 < 64" "a mod 4 * 16 < 64" "b mod 16 * 4 < 64"
  using assms by (auto simp: div_less_iff_less_mult)

lemma hex_pair_inj:
  assumes "a < 256" and "b < 256" and "digit_char (a div 16) = digit_char (b div 16)"
    and "digit_char (a mod 16) = digit_char (b mod 16)"
  shows "a = b"
proof -
  have "a div 16 = b div 16" "a mod 16 = b mod 16"
    using assms by (auto intro!: digit_char_inj simp: div_less_iff_less_mult)
  then show ?thesis by (metis div_mult_mod_eq)
qed

lemma hex_encode_inj:
  "\<lbrakk>\<forall>b \<in> set bs. b < 256; \<forall>b \<in> set cs. b < 256; hex_encode bs = hex_encode cs\<rbrakk> \<Longrightarrow> bs = cs"
proof (induction bs arbitrary: cs)
  case Nil
  then show ?case by (cases cs) (auto simp: hex_encode_def)
next
  case (Cons b bs)
  then show ?case by (cases cs) (auto simp: hex_encode_def intro: hex_pair_inj)
qed

end
