(* ===== verification/Store.thy ===== *)
theory Store
  imports Domain_Event Domain_Participation Domain_Job Domain_Account
    "HOL-Library.List_Lexorder" "HOL-Library.Char_ord" "HOL-Library.Product_Lexorder"
begin

section \<open>The repository: its state, meta data and workspaces\<close>

text \<open>
  \<open>internal/manager/memstore/memstore.go\<close>, the implementation of \<open>usecase.Repository\<close> that
  shares the contract tests of the MongoDB one. The \<open>Store\<close> struct is the record \<open>store\<close>;
  a slice of pointers is the list of the records pointed to (every method copies on the
  way in and out, so no pointer escapes), a Go map is a map. The mutex makes each method
  one step. \<open>t.UTC()\<close> keeps the instant, so it is the identity on \<open>time\<close>.
  \<open>slices.SortFunc\<close> leaves the order of equal keys open; here they keep their order.
\<close>

datatype reminder_target_kind = ReminderTargetEvent | ReminderTargetRecruit

record reminder_target =
  rt_kind :: reminder_target_kind
  rt_channel_id :: string
  rt_message_id :: string
  rt_ok :: bool
  rt_error :: "err option"

record reminder_log =
  rl_id :: string
  rl_event_id :: string
  rl_sequence :: int
  rl_scheduled_for :: time
  rl_sent_at :: time
  rl_targets :: "reminder_target list"

record store =
  st_seq :: nat
  st_provider :: "provider_state option"
  st_schema_version :: int
  st_workspaces :: "workspace list"
  st_events :: "event list"
  st_participations :: "participation list"
  st_jobs :: "job list"
  st_reminder_logs :: "reminder_log list"
  st_console_users :: "console_user list"
  st_chat_identities :: "chat_identity list"
  st_link_tokens :: "string \<rightharpoonup> link_token"
  st_sessions :: "string \<rightharpoonup> session"
  st_oauth_states :: "string \<rightharpoonup> oauth_state"

type_synonym 'a store_op = "(store, err, 'a) prog"

definition new_store :: store where
  "new_store = \<lparr>st_seq = 0, st_provider = None, st_schema_version = 0, st_workspaces = [],
     st_events = [], st_participations = [], st_jobs = [], st_reminder_logs = [],
     st_console_users = [], st_chat_identities = [], st_link_tokens = Map.empty,
     st_sessions = Map.empty, st_oauth_states = Map.empty\<rparr>"

subsection \<open>Identifiers\<close>

text \<open>\<open>nextID\<close>: the counter, then its 24 hexadecimal digits.\<close>

definition id_of_seq :: "nat \<Rightarrow> string" where
  "id_of_seq n = hex_padded 24 n"

definition next_id :: "store \<Rightarrow> string \<times> store" where
  "next_id s = (let n = Suc (st_seq s) in (id_of_seq n, s\<lparr>st_seq := n\<rparr>))"

definition ids_ok :: "nat \<Rightarrow> string list \<Rightarrow> bool" where
  "ids_ok n ids \<longleftrightarrow> distinct ids \<and> set ids \<subseteq> id_of_seq ` {1..n}"

lemma id_of_seq_inj [simp]: "id_of_seq m = id_of_seq n \<longleftrightarrow> m = n"
  by (auto simp: id_of_seq_def dest: hex_padded_inj)

lemma id_of_seq_is_id: "n < 16 ^ 24 \<Longrightarrow> is_id (id_of_seq n)"
  by (simp add: id_of_seq_def hex_padded_is_id)

lemma ids_ok_Nil [simp]: "ids_ok n []"
  by (simp add: ids_ok_def)

lemma ids_ok_mono: "ids_ok m ids \<Longrightarrow> m \<le> n \<Longrightarrow> ids_ok n ids"
  unfolding ids_ok_def by (meson atLeastatMost_subset_iff image_mono order_trans order_refl)

lemma ids_ok_Suc [simp]: "ids_ok n ids \<Longrightarrow> ids_ok (Suc n) ids"
  by (rule ids_ok_mono) auto

lemma ids_ok_fresh: "ids_ok n ids \<Longrightarrow> id_of_seq (Suc n) \<notin> set ids"
  by (auto simp: ids_ok_def)

lemma ids_ok_find_fresh:
  "ids_ok n (map k xs) \<Longrightarrow> List.find (\<lambda>x. k x = id_of_seq (Suc n)) xs = None"
  using ids_ok_fresh [of n "map k xs"] by (auto simp: find_None_iff) (metis image_eqI)

lemma ids_ok_find:
  "ids_ok n (map k xs) \<Longrightarrow> x \<in> set xs \<Longrightarrow> List.find (\<lambda>y. k y = k x) xs = Some x"
  by (simp add: ids_ok_def find_cong_key)

lemma ids_ok_append [simp]: "ids_ok n ids \<Longrightarrow> ids_ok (Suc n) (ids @ [id_of_seq (Suc n)])"
  using ids_ok_fresh [of n ids] ids_ok_Suc [of n ids] by (auto simp: ids_ok_def)

lemma ids_ok_delete: "ids_ok n (map k xs) \<Longrightarrow> ids_ok n (map k (delete_first p xs))"
  using set_delete_first [of p xs] distinct_map_delete_first [of k xs p]
  by (auto simp: ids_ok_def)

text \<open>
  What holds of the slice of a collection. Each collection has its own condition, all of
  the form: identifiers are fresh draws of the counter, and the unique index holds.
\<close>

definition unique_on :: "('a \<Rightarrow> 'k) \<Rightarrow> 'a list \<Rightarrow> bool" where
  "unique_on k xs \<longleftrightarrow> distinct (map k xs)"

lemma unique_on_Nil [simp]: "unique_on k []"
  by (simp add: unique_on_def)

lemma unique_on_append:
  "unique_on k xs \<Longrightarrow> List.find (\<lambda>y. k y = k x) xs = None \<Longrightarrow> unique_on k (xs @ [x])"
  by (auto simp: unique_on_def dest: find_NoneD)

lemma unique_on_update [simp]:
  "(\<And>x. p x \<Longrightarrow> k (f x) = k x) \<Longrightarrow> unique_on k (update_first p f xs) = unique_on k xs"
  by (simp add: unique_on_def map_update_first)

lemma unique_on_delete: "unique_on k xs \<Longrightarrow> unique_on k (delete_first p xs)"
  by (simp add: unique_on_def distinct_map_delete_first)

subsection \<open>Meta\<close>

definition meta_get_provider :: "provider_state store_op" where
  "meta_get_provider = m_gets (\<lambda>s. case st_provider s of None \<Rightarrow> Inl ErrNotFound | Some p \<Rightarrow> Inr p)"

definition meta_save_provider :: "provider_state \<Rightarrow> unit store_op" where
  "meta_save_provider state = m_modify (\<lambda>s. s\<lparr>st_provider := Some
     (case st_provider s of
        None \<Rightarrow> state
      | Some old \<Rightarrow> state\<lparr>ps_first_seen_at := ps_first_seen_at old\<rparr>)\<rparr>)"

definition meta_schema_version :: "int store_op" where
  "meta_schema_version = m_gets (\<lambda>s. Inr (st_schema_version s))"

definition meta_set_schema_version :: "int \<Rightarrow> unit store_op" where
  "meta_set_schema_version version = m_modify (\<lambda>s. s\<lparr>st_schema_version := version\<rparr>)"

subsection \<open>Workspaces\<close>

definition workspace_key :: "workspace \<Rightarrow> provider_kind \<times> string" where
  "workspace_key w = (ws_provider w, ws_external_id w)"

definition find_workspace :: "store \<Rightarrow> provider_kind \<Rightarrow> string \<Rightarrow> workspace option" where
  "find_workspace s provider external_id =
     List.find (\<lambda>w. workspace_key w = (provider, external_id)) (st_workspaces s)"

text \<open>A lookup that returns the record or \<open>domain.ErrNotFound\<close>.\<close>

definition found :: "'a option \<Rightarrow> 'a result" where
  "found x = (case x of None \<Rightarrow> Inl ErrNotFound | Some y \<Rightarrow> Inr y)"

lemma found_simps [simp]:
  "found None = Inl ErrNotFound" "found (Some y) = Inr y" "found x = Inr y \<longleftrightarrow> x = Some y"
  "found x = Inl e \<longleftrightarrow> x = None \<and> e = ErrNotFound"
  by (auto simp: found_def split: option.splits)

definition workspaces_get :: "string \<Rightarrow> workspace store_op" where
  "workspaces_get i = m_gets (\<lambda>s. found (List.find (\<lambda>w. ws_id w = i) (st_workspaces s)))"

definition workspaces_get_by_external_id :: "provider_kind \<Rightarrow> string \<Rightarrow> workspace store_op" where
  "workspaces_get_by_external_id provider external_id =
     m_gets (\<lambda>s. found (find_workspace s provider external_id))"

definition workspaces_list :: "workspace list store_op" where
  "workspaces_list = m_gets (\<lambda>s. Inr (sort_key ws_name (st_workspaces s)))"

definition workspaces_upsert :: "workspace \<Rightarrow> time \<Rightarrow> workspace store_op" where
  "workspaces_upsert w now = (\<lambda>s.
     (case find_workspace s (ws_provider w) (ws_external_id w) of
        Some old \<Rightarrow>
          let change = (\<lambda>x. x\<lparr>ws_name := ws_name w, ws_updated_at := now\<rparr>)
          in (Inr (change old),
              s\<lparr>st_workspaces := update_first (\<lambda>x. workspace_key x = workspace_key w) change
                  (st_workspaces s)\<rparr>)
      | None \<Rightarrow>
          let (new_id, s') = next_id s;
              created = w\<lparr>ws_id := new_id, ws_created_at := now, ws_updated_at := now\<rparr>
          in (Inr created, s'\<lparr>st_workspaces := st_workspaces s' @ [created]\<rparr>)))"

definition workspaces_update_settings ::
  "string \<Rightarrow> workspace_settings \<Rightarrow> time \<Rightarrow> workspace store_op" where
  "workspaces_update_settings i settings now = (\<lambda>s.
     (case List.find (\<lambda>w. ws_id w = i) (st_workspaces s) of
        None \<Rightarrow> (Inl ErrNotFound, s)
      | Some w \<Rightarrow>
          let change = (\<lambda>x. x\<lparr>ws_settings := settings, ws_updated_at := now\<rparr>)
          in (Inr (change w),
              s\<lparr>st_workspaces := update_first (\<lambda>w. ws_id w = i) change (st_workspaces s)\<rparr>)))"

definition workspaces_ok :: "store \<Rightarrow> bool" where
  "workspaces_ok s \<longleftrightarrow>
     ids_ok (st_seq s) (map ws_id (st_workspaces s)) \<and>
     unique_on workspace_key (st_workspaces s)"

lemma workspaces_upsert_ok:
  assumes "workspaces_ok s"
  shows "workspaces_ok (snd (workspaces_upsert w now s))"
proof (cases "find_workspace s (ws_provider w) (ws_external_id w)")
  case None
  then show ?thesis
    using assms
    by (auto simp: workspaces_upsert_def workspaces_ok_def next_id_def find_workspace_def Let_def
        workspace_key_def intro!: unique_on_append)
next
  case (Some old)
  then show ?thesis
    using assms
    by (auto simp: workspaces_upsert_def workspaces_ok_def Let_def workspace_key_def
        map_update_first)
qed

lemma workspaces_update_settings_ok:
  "workspaces_ok s \<Longrightarrow> workspaces_ok (snd (workspaces_update_settings i st now s))"
  by (auto simp: workspaces_update_settings_def workspaces_ok_def workspace_key_def Let_def
      map_update_first split: option.split)

end
