(* ===== verification/Store_Participations.thy ===== *)
theory Store_Participations
  imports Store
begin

section \<open>The participations collection\<close>

text \<open>
  \<open>participationsRepo\<close> of \<open>memstore.go\<close>. The contract the use cases rely on is the locale
  \<open>participation_repo\<close>: one record per event and user, an upsert that reports the record
  it replaced, and a status change. Its client lemmas are about the number of active
  participants of an event; the interpretation is on the store.
\<close>

record participation_upsert =
  pu_event_id :: string
  pu_workspace_id :: string
  pu_chat_user_id :: string
  pu_display_name :: string
  pu_role :: participation_role
  pu_expires_at :: "time option"
  pu_now :: time

record participation_change =
  pc_before :: "participation option"
  pc_after :: participation

definition participation_key :: "participation \<Rightarrow> string \<times> string" where
  "participation_key p = (pt_event_id p, pt_chat_user_id p)"

definition find_participation :: "store \<Rightarrow> string \<Rightarrow> string \<Rightarrow> participation option" where
  "find_participation s event_id chat_user_id =
     List.find (\<lambda>p. participation_key p = (event_id, chat_user_id)) (st_participations s)"

definition peek_increment :: "participation_role \<Rightarrow> int" where
  "peek_increment role = (if role = RolePeeker then 1 else 0)"

definition created_participation :: "string \<Rightarrow> participation_upsert \<Rightarrow> participation" where
  "created_participation new_id u =
     \<lparr>pt_id = new_id, pt_event_id = pu_event_id u, pt_workspace_id = pu_workspace_id u,
      pt_chat_user_id = pu_chat_user_id u, pt_display_name = pu_display_name u,
      pt_role = pu_role u, pt_status = ParticipationActive, pt_joined_at = pu_now u,
      pt_expires_at = pu_expires_at u, pt_peek_count = peek_increment (pu_role u),
      pt_updated_at = pu_now u\<rparr>"

definition upserted :: "participation_upsert \<Rightarrow> participation \<Rightarrow> participation" where
  "upserted u stored =
     (let keeps = (pt_role stored = RoleParticipant \<and> pt_status stored = ParticipationActive);
          p = stored\<lparr>pt_display_name := pu_display_name u, pt_status := ParticipationActive,
                     pt_updated_at := pu_now u\<rparr>
      in if keeps then p
         else p\<lparr>pt_role := pu_role u, pt_expires_at := pu_expires_at u,
                pt_peek_count := pt_peek_count p + peek_increment (pu_role u)\<rparr>)"

definition participations_upsert :: "participation_upsert \<Rightarrow> participation_change store_op" where
  "participations_upsert u = (\<lambda>s.
     (case find_participation s (pu_event_id u) (pu_chat_user_id u) of
        None \<Rightarrow>
          let (new_id, s') = next_id s; created = created_participation new_id u
          in (Inr \<lparr>pc_before = None, pc_after = created\<rparr>,
              s'\<lparr>st_participations := st_participations s' @ [created]\<rparr>)
      | Some stored \<Rightarrow>
          (Inr \<lparr>pc_before = Some stored, pc_after = upserted u stored\<rparr>,
           s\<lparr>st_participations :=
               update_first (\<lambda>p. participation_key p = (pu_event_id u, pu_chat_user_id u))
                 (upserted u) (st_participations s)\<rparr>)))"

definition participations_get :: "string \<Rightarrow> participation store_op" where
  "participations_get i = m_gets (\<lambda>s. found (List.find (\<lambda>p. pt_id p = i) (st_participations s)))"

definition participations_get_by_user :: "string \<Rightarrow> string \<Rightarrow> participation store_op" where
  "participations_get_by_user event_id chat_user_id =
     m_gets (\<lambda>s. found (find_participation s event_id chat_user_id))"

definition with_status :: "participation_status \<Rightarrow> time \<Rightarrow> participation \<Rightarrow> participation" where
  "with_status status now p =
     (let q = p\<lparr>pt_status := status, pt_updated_at := now\<rparr>
      in if status \<noteq> ParticipationActive then q\<lparr>pt_expires_at := None\<rparr> else q)"

definition participations_set_status ::
  "string \<Rightarrow> participation_status \<Rightarrow> time \<Rightarrow> unit store_op" where
  "participations_set_status i status now = (\<lambda>s.
     (case List.find (\<lambda>p. pt_id p = i) (st_participations s) of
        None \<Rightarrow> (Inl ErrNotFound, s)
      | Some _ \<Rightarrow> (Inr (), s\<lparr>st_participations :=
          update_first (\<lambda>p. pt_id p = i) (with_status status now) (st_participations s)\<rparr>)))"

definition participations_list_by_event ::
  "string \<Rightarrow> participation_status list \<Rightarrow> participation list store_op" where
  "participations_list_by_event event_id statuses = m_gets (\<lambda>s. Inr (sort_key pt_joined_at
     (filter (\<lambda>p. pt_event_id p = event_id \<and> (statuses = [] \<or> pt_status p \<in> set statuses))
       (st_participations s))))"

text \<open>A role of \<open>None\<close> is the empty string: every role is counted.\<close>

definition participations_count_active :: "string \<Rightarrow> participation_role option \<Rightarrow> int store_op" where
  "participations_count_active event_id role = m_gets (\<lambda>s. Inr (int (length
     (filter (\<lambda>p. pt_event_id p = event_id \<and> pt_status p = ParticipationActive \<and>
         (case role of None \<Rightarrow> True | Some r \<Rightarrow> pt_role p = r)) (st_participations s)))))"

subsection \<open>Invariant\<close>

definition participation_ok :: "participation \<Rightarrow> bool" where
  "participation_ok p \<longleftrightarrow>
     0 \<le> pt_peek_count p \<and> (\<not> pt_is_active p \<longrightarrow> pt_expires_at p = None)"

definition participations_ok :: "store \<Rightarrow> bool" where
  "participations_ok s \<longleftrightarrow>
     ids_ok (st_seq s) (map pt_id (st_participations s)) \<and>
     unique_on participation_key (st_participations s) \<and>
     (\<forall>p \<in> set (st_participations s). participation_ok p)"

lemma upserted_simps [simp]:
  "pt_id (upserted u p) = pt_id p" "pt_event_id (upserted u p) = pt_event_id p"
  "pt_chat_user_id (upserted u p) = pt_chat_user_id p"
  "participation_key (upserted u p) = participation_key p"
  "pt_status (upserted u p) = ParticipationActive"
  "counted (upserted u p) \<longleftrightarrow> counted p \<or> pu_role u = RoleParticipant"
  by (auto simp: upserted_def Let_def participation_key_def counted_def)

lemma with_status_simps [simp]:
  "pt_id (with_status st now p) = pt_id p" "pt_event_id (with_status st now p) = pt_event_id p"
  "pt_chat_user_id (with_status st now p) = pt_chat_user_id p"
  "participation_key (with_status st now p) = participation_key p"
  "pt_status (with_status st now p) = st" "pt_role (with_status st now p) = pt_role p"
  "counted (with_status st now p) \<longleftrightarrow> st = ParticipationActive \<and> pt_role p = RoleParticipant"
  by (auto simp: with_status_def Let_def participation_key_def counted_def)

lemma created_participation_simps [simp]:
  "pt_id (created_participation i u) = i"
  "pt_event_id (created_participation i u) = pu_event_id u"
  "participation_key (created_participation i u) = (pu_event_id u, pu_chat_user_id u)"
  "counted (created_participation i u) \<longleftrightarrow> pu_role u = RoleParticipant"
  "participation_ok (created_participation i u)"
  by (auto simp: created_participation_def participation_key_def counted_def participation_ok_def
      peek_increment_def pt_is_active_def)

lemma participation_ok_upserted: "participation_ok p \<Longrightarrow> participation_ok (upserted u p)"
  by (auto simp: participation_ok_def upserted_def Let_def pt_is_active_def peek_increment_def)

lemma participation_ok_with_status: "participation_ok p \<Longrightarrow> participation_ok (with_status st now p)"
  by (auto simp: participation_ok_def with_status_def Let_def pt_is_active_def)

lemma participations_upsert_ok:
  assumes "participations_ok s"
  shows "participations_ok (snd (participations_upsert u s))"
proof (cases "find_participation s (pu_event_id u) (pu_chat_user_id u)")
  case None
  then show ?thesis
    using assms
    by (auto simp: participations_upsert_def participations_ok_def next_id_def Let_def
        find_participation_def intro!: unique_on_append)
next
  case (Some p)
  then show ?thesis
    using assms
    by (auto simp: participations_upsert_def participations_ok_def map_update_first
        intro!: ball_update_first participation_ok_upserted simp del: set_simps
        dest: subsetD [OF set_update_first])
qed

lemma participations_set_status_ok:
  "participations_ok s \<Longrightarrow> participations_ok (snd (participations_set_status i st now s))"
  by (auto simp: participations_set_status_def participations_ok_def map_update_first
      participation_ok_with_status split: option.split dest!: subsetD [OF set_update_first])

subsection \<open>The number of active participants\<close>

definition participant_count :: "store \<Rightarrow> string \<Rightarrow> int" where
  "participant_count s event_id =
     int (length (filter (\<lambda>p. pt_event_id p = event_id \<and> counted p) (st_participations s)))"

lemma participant_count_count_active:
  "fst (participations_count_active e (Some RoleParticipant) s) = Inr (participant_count s e)"
  by (simp add: participations_count_active_def participant_count_def counted_def conj_ac)

subsection \<open>The contract of the repository\<close>

definition was_counted :: "participation option \<Rightarrow> bool" where
  "was_counted p = (case p of None \<Rightarrow> False | Some q \<Rightarrow> counted q)"

lemma was_counted_simps [simp]: "\<not> was_counted None" "was_counted (Some q) = counted q"
  by (simp_all add: was_counted_def)

definition find_participation_id :: "store \<Rightarrow> string \<Rightarrow> participation option" where
  "find_participation_id s i = List.find (\<lambda>p. pt_id p = i) (st_participations s)"

locale participation_repo =
  fixes accepts :: "participation_upsert \<Rightarrow> bool"
    and inv :: "'s \<Rightarrow> bool"
    and lookup :: "'s \<Rightarrow> string \<Rightarrow> string \<Rightarrow> participation option"
    and by_id :: "'s \<Rightarrow> string \<Rightarrow> participation option"
    and count :: "'s \<Rightarrow> string \<Rightarrow> int"
    and upsert :: "participation_upsert \<Rightarrow> ('s, err, participation_change) prog"
    and set_status :: "string \<Rightarrow> participation_status \<Rightarrow> time \<Rightarrow> ('s, err, unit) prog"
  assumes upsert_returns: "inv s \<Longrightarrow> accepts u \<Longrightarrow> \<exists>c s'. upsert u s = (Inr c, s')"
    and upsert_inv: "inv s \<Longrightarrow> accepts u \<Longrightarrow> upsert u s = (Inr c, s') \<Longrightarrow> inv s'"
    and upsert_before: "inv s \<Longrightarrow> accepts u \<Longrightarrow> upsert u s = (Inr c, s') \<Longrightarrow>
      pc_before c = lookup s (pu_event_id u) (pu_chat_user_id u)"
    and upsert_lookup: "inv s \<Longrightarrow> accepts u \<Longrightarrow> upsert u s = (Inr c, s') \<Longrightarrow>
      lookup s' e v =
        (if e = pu_event_id u \<and> v = pu_chat_user_id u then Some (pc_after c) else lookup s e v)"
    and upsert_counted: "inv s \<Longrightarrow> accepts u \<Longrightarrow> upsert u s = (Inr c, s') \<Longrightarrow>
      counted (pc_after c) \<longleftrightarrow> was_counted (pc_before c) \<or> pu_role u = RoleParticipant"
    and upsert_count: "inv s \<Longrightarrow> accepts u \<Longrightarrow> upsert u s = (Inr c, s') \<Longrightarrow>
      count s' e = count s e +
        (if e = pu_event_id u \<and> counted (pc_after c) \<and> \<not> was_counted (pc_before c) then 1 else 0)"
    and set_status_inv: "inv s \<Longrightarrow> inv (snd (set_status i st now s))"
    and set_status_returns: "inv s \<Longrightarrow> by_id s i = Some p \<Longrightarrow> fst (set_status i st now s) = Inr ()"
    and set_status_count: "inv s \<Longrightarrow> by_id s i = Some p \<Longrightarrow> st \<noteq> ParticipationActive \<Longrightarrow>
      count (snd (set_status i st now s)) e =
        count s e - (if e = pt_event_id p \<and> counted p then 1 else 0)"
begin

lemma joins_effect_once:
  assumes "inv s" and "\<forall>u \<in> set us. accepts u \<and> pu_event_id u = e \<and> pu_chat_user_id u = v \<and>
    pu_role u = RoleParticipant"
  shows "\<exists>cs s'. m_each upsert us s = (Inr cs, s') \<and> inv s' \<and>
    length (filter (\<lambda>c. \<not> was_counted (pc_before c)) cs) =
      (if us = [] \<or> was_counted (lookup s e v) then 0 else 1) \<and>
    count s' e = count s e + (if us = [] \<or> was_counted (lookup s e v) then 0 else 1)"
  using assms
proof (induction us arbitrary: s)
  case Nil
  then show ?case by simp
next
  case (Cons u us)
  have ok: "accepts u" using Cons.prems(2) by auto
  obtain c t where u: "upsert u s = (Inr c, t)" using upsert_returns [OF Cons.prems(1) ok] by blast
  note facts = upsert_inv [OF Cons.prems(1) ok u] upsert_before [OF Cons.prems(1) ok u]
    upsert_lookup [OF Cons.prems(1) ok u] upsert_counted [OF Cons.prems(1) ok u]
    upsert_count [OF Cons.prems(1) ok u]
  obtain cs s' where cs: "m_each upsert us t = (Inr cs, s')" "inv s'"
    "length (filter (\<lambda>c. \<not> was_counted (pc_before c)) cs) =
      (if us = [] \<or> was_counted (lookup t e v) then 0 else 1)"
    "count s' e = count t e + (if us = [] \<or> was_counted (lookup t e v) then 0 else 1)"
    using Cons.IH [OF facts(1)] Cons.prems(2) by fastforce
  have key: "pu_event_id u = e" "pu_chat_user_id u = v" "pu_role u = RoleParticipant"
    using Cons.prems(2) by auto
  then have "was_counted (lookup t e v)" using facts(3,4) by simp
  with cs u key facts show ?case by simp
qed

end

lemma find_participation_key:
  "find_participation s e v = Some p \<Longrightarrow> pt_event_id p = e \<and> pt_chat_user_id p = v"
  by (auto simp: find_participation_def participation_key_def dest: find_SomeD)

lemma participant_count_update:
  assumes "List.find q (st_participations s) = Some p" and "\<And>p. pt_event_id (f p) = pt_event_id p"
  shows "participant_count (s\<lparr>st_participations := update_first q f (st_participations s)\<rparr>) e =
    participant_count s e - (if pt_event_id p = e \<and> counted p then 1 else 0) +
    (if pt_event_id p = e \<and> counted (f p) then 1 else 0)"
  using count_update_first [OF assms(1), of "\<lambda>p. pt_event_id p = e \<and> counted p" f] assms(2)
  by (auto simp: participant_count_def)

lemma participations_upsert_effect:
  assumes "participations_ok s" and "participations_upsert u s = (Inr c, s')"
  shows "pc_before c = find_participation s (pu_event_id u) (pu_chat_user_id u)"
    and "find_participation s' e v =
      (if e = pu_event_id u \<and> v = pu_chat_user_id u then Some (pc_after c)
       else find_participation s e v)"
    and "counted (pc_after c) \<longleftrightarrow> was_counted (pc_before c) \<or> pu_role u = RoleParticipant"
    and "participant_count s' e = participant_count s e +
      (if e = pu_event_id u \<and> counted (pc_after c) \<and> \<not> was_counted (pc_before c) then 1 else 0)"
proof -
  let ?k = "(pu_event_id u, pu_chat_user_id u)"
  have *: "pc_before c = find_participation s (pu_event_id u) (pu_chat_user_id u) \<and>
    find_participation s' e v = (if (e, v) = ?k then Some (pc_after c) else find_participation s e v) \<and>
    (counted (pc_after c) \<longleftrightarrow> was_counted (pc_before c) \<or> pu_role u = RoleParticipant) \<and>
    participant_count s' e = participant_count s e +
      (if e = pu_event_id u \<and> counted (pc_after c) \<and> \<not> was_counted (pc_before c) then 1 else 0)"
  proof (cases "find_participation s (pu_event_id u) (pu_chat_user_id u)")
    case None
    then show ?thesis
      using assms(2)
      by (auto simp: participations_upsert_def next_id_def Let_def find_participation_def
          find_append participant_count_def split: option.splits)
  next
    case (Some p)
    note pe = find_participation_key [OF Some]
    have q: "List.find (\<lambda>p. participation_key p = ?k) (st_participations s) = Some p"
      using Some by (simp add: find_participation_def)
    show ?thesis
      using Some pe assms(2) participant_count_update [OF q, of "upserted u" e]
        find_update_first [of "\<lambda>p. participation_key p = ?k" "upserted u" "st_participations s"]
        find_update_first_other [of "\<lambda>p. participation_key p = ?k"
          "\<lambda>p. participation_key p = (e, v)" "upserted u" "st_participations s"]
      by (auto simp: participations_upsert_def find_participation_def)
  qed
  then show "pc_before c = find_participation s (pu_event_id u) (pu_chat_user_id u)"
    and "find_participation s' e v =
      (if e = pu_event_id u \<and> v = pu_chat_user_id u then Some (pc_after c)
       else find_participation s e v)"
    and "counted (pc_after c) \<longleftrightarrow> was_counted (pc_before c) \<or> pu_role u = RoleParticipant"
    and "participant_count s' e = participant_count s e +
      (if e = pu_event_id u \<and> counted (pc_after c) \<and> \<not> was_counted (pc_before c) then 1 else 0)"
    by auto
qed

lemma participations_set_status_count:
  "find_participation_id s i = Some p \<Longrightarrow> st \<noteq> ParticipationActive \<Longrightarrow>
   participant_count (snd (participations_set_status i st now s)) e =
     participant_count s e - (if e = pt_event_id p \<and> counted p then 1 else 0)"
  using participant_count_update [of "\<lambda>p. pt_id p = i" s p "with_status st now" e]
  by (auto simp: participations_set_status_def find_participation_id_def)

interpretation parts: participation_repo "\<lambda>_. True" participations_ok find_participation
  find_participation_id participant_count participations_upsert participations_set_status
proof unfold_locales
  show "\<exists>c s'. participations_upsert u s = (Inr c, s')" for u s
    by (auto simp: participations_upsert_def Let_def next_id_def split: option.split)
  show "participations_ok s'" if "participations_ok s" "participations_upsert u s = (Inr c, s')"
    for u s c s'
    using participations_upsert_ok [OF that(1), of u] that(2) by simp
  show "fst (participations_set_status i st now s) = Inr ()"
    if "find_participation_id s i = Some p" for i st now s p
    using that by (simp add: participations_set_status_def find_participation_id_def)
qed (rule participations_upsert_effect participations_set_status_ok
      participations_set_status_count; assumption)+

end
