(* ===== verification/Store_Events.thy ===== *)
theory Store_Events
  imports Store
begin

section \<open>The events collection\<close>

text \<open>
  \<open>eventsRepo\<close> of \<open>memstore.go\<close>: creation, lookups, the partial updates, and the list with
  its filter and its cursor. \<open>events_page\<close> lemmas show that following cursors enumerates
  the sorted list.
\<close>

subsection \<open>Cursors\<close>

definition b64url_value :: "char \<Rightarrow> nat option" where
  "b64url_value c =
     (let n = byte c in
      if 65 \<le> n \<and> n \<le> 90 then Some (n - 65)
      else if 97 \<le> n \<and> n \<le> 122 then Some (n - 71)
      else if 48 \<le> n \<and> n \<le> 57 then Some (n + 4)
      else if n = 45 then Some 62
      else if n = 95 then Some 63
      else None)"

text \<open>
  \<open>base64.RawURLEncoding.DecodeString\<close>: line breaks are skipped, trailing bits dropped.
\<close>

fun b64url_decode_from :: "nat list \<Rightarrow> nat list option" where
  "b64url_decode_from [] = Some []"
| "b64url_decode_from [a] = None"
| "b64url_decode_from [a, b] = Some [a * 4 + b div 16]"
| "b64url_decode_from [a, b, c] = Some [a * 4 + b div 16, b mod 16 * 16 + c div 4]"
| "b64url_decode_from (a # b # c # d # r) =
     map_option (\<lambda>bs. (a * 4 + b div 16) # (b mod 16 * 16 + c div 4) # (c mod 4 * 64 + d) # bs)
       (b64url_decode_from r)"

definition b64url_decode :: "string \<Rightarrow> nat list option" where
  "b64url_decode s =
     (let vs = map b64url_value (filter (\<lambda>c. byte c \<noteq> 10 \<and> byte c \<noteq> 13) s)
      in if None \<in> set vs then None else b64url_decode_from (map the vs))"

text \<open>\<open>strings.SplitN(s, sep, 2)\<close>\<close>

definition split_2 :: "char \<Rightarrow> string \<Rightarrow> string list" where
  "split_2 c s =
     (case dropWhile (\<lambda>x. x \<noteq> c) s of
        [] \<Rightarrow> [s]
      | _ # r \<Rightarrow> [takeWhile (\<lambda>x. x \<noteq> c) s, r])"

definition unix_milli :: "time \<Rightarrow> int" where
  "unix_milli t = t div 1000000"

definition encode_mem_cursor :: "time \<Rightarrow> string \<Rightarrow> string" where
  "encode_mem_cursor starts_at i =
     b64url_encode (map byte (dec_of_int (unix_milli starts_at) @ ''|'' @ i))"

definition decode_mem_cursor :: "string \<Rightarrow> (time \<times> string) result" where
  "decode_mem_cursor cursor =
     (case b64url_decode cursor of
        None \<Rightarrow> Inl (ErrWrapped ''decode cursor'' (ErrText ''illegal base64 data''))
      | Some raw \<Rightarrow>
          (case split_2 (CHR ''|'') (map char_of raw) of
             [a, b] \<Rightarrow> (case atoi a of
                 None \<Rightarrow> Inl (ErrWrapped ''decode cursor'' (ErrText ''ParseInt''))
               | Some millis \<Rightarrow> Inr (millis * 1000000, b))
           | _ \<Rightarrow> Inl (ErrText ''decode cursor: malformed'')))"

lemma b64url_table:
  "map byte ''ABCDEFGHIJKLMNOPQRSTUVWXYZabcdefghijklmnopqrstuvwxyz0123456789-_'' =
     map (\<lambda>n. n + 65) [0..<26] @ map (\<lambda>n. n + 97) [0..<26] @ map (\<lambda>n. n + 48) [0..<10] @ [45, 95]"
  by (simp add: byte_def upt_rec)

lemma byte_b64url_char:
  assumes "n < 64"
  shows "byte (b64url_char n) =
     (if n < 26 then n + 65 else if n < 52 then n + 71 else if n < 62 then n - 4
      else if n = 62 then 45 else 95)"
proof -
  have "byte (b64url_char n) =
      map byte ''ABCDEFGHIJKLMNOPQRSTUVWXYZabcdefghijklmnopqrstuvwxyz0123456789-_'' ! n"
    using assms by (simp only: b64url_char_def nth_map list.size)
  then show ?thesis unfolding b64url_table
    using assms by (auto simp: nth_append nth_Cons')
qed

lemma b64url_value_char:
  assumes "n < 64"
  shows "b64url_value (b64url_char n) = Some n"
    and "byte (b64url_char n) \<noteq> 10" and "byte (b64url_char n) \<noteq> 13"
  using assms by (auto simp: byte_b64url_char b64url_value_def Let_def)

fun sextets :: "nat list \<Rightarrow> nat list" where
  "sextets [] = []"
| "sextets [a] = [a div 4, a mod 4 * 16]"
| "sextets [a, b] = [a div 4, a mod 4 * 16 + b div 16, b mod 16 * 4]"
| "sextets (a # b # c # r) =
     [a div 4, a mod 4 * 16 + b div 16, b mod 16 * 4 + c div 64, c mod 64] @ sextets r"

lemma b64url_encode_sextets: "b64url_encode bs = map b64url_char (sextets bs)"
  by (induction bs rule: sextets.induct) auto

lemma sextets_bound: "\<forall>b \<in> set bs. b < 256 \<Longrightarrow> \<forall>v \<in> set (sextets bs). v < 64"
  by (induction bs rule: sextets.induct) (auto simp: div_less_iff_less_mult)

lemma decode_sextets:
  "\<forall>b \<in> set bs. b < 256 \<Longrightarrow> b64url_decode_from (sextets bs) = Some bs"
proof (induction bs rule: sextets.induct)
  case (2 a)
  then show ?case by simp
next
  case (3 a b)
  then have "(a mod 4 * 16 + b div 16) div 16 = a mod 4" "(a mod 4 * 16 + b div 16) mod 16 = b div 16"
    by (auto simp: div_less_iff_less_mult)
  then show ?case by simp
next
  case (4 a b c r)
  then have "(a mod 4 * 16 + b div 16) div 16 = a mod 4" "(a mod 4 * 16 + b div 16) mod 16 = b div 16"
    "(b mod 16 * 4 + c div 64) div 4 = b mod 16" "(b mod 16 * 4 + c div 64) mod 4 = c div 64"
    by (auto simp: div_less_iff_less_mult)
  then show ?case using 4 by simp
qed simp

lemma b64url_decode_encode:
  assumes "\<forall>b \<in> set bs. b < 256"
  shows "b64url_decode (b64url_encode bs) = Some bs"
proof -
  have all: "\<forall>v \<in> set (sextets bs). v < 64" using assms by (rule sextets_bound)
  then have flt: "filter (\<lambda>c. byte c \<noteq> 10 \<and> byte c \<noteq> 13) (map b64url_char (sextets bs)) =
      map b64url_char (sextets bs)"
    by (intro filter_True) (auto simp: b64url_value_char)
  have vals: "map b64url_value (map b64url_char (sextets bs)) = map Some (sextets bs)"
    using all by (auto simp: b64url_value_char)
  show ?thesis
    unfolding b64url_decode_def b64url_encode_sextets flt vals
    using decode_sextets [OF assms] by (simp add: Let_def comp_def image_iff)
qed

lemma split_2_append: "c \<notin> set a \<Longrightarrow> split_2 c (a @ c # b) = [a, b]"
proof -
  assume "c \<notin> set a"
  then have "dropWhile (\<lambda>x. x \<noteq> c) (a @ c # b) = c # b" "takeWhile (\<lambda>x. x \<noteq> c) (a @ c # b) = a"
    by (induction a) auto
  then show ?thesis by (simp add: split_2_def)
qed

lemma char_of_byte [simp]: "char_of (byte c) = c"
  by (simp add: byte_def)

lemma byte_less [simp]: "byte c < 256"
  by (simp add: byte_def of_char_def)

lemma bar_not_in_dec: "CHR ''|'' \<notin> set (dec_of_int i)"
  using dec_of_nat_chars [of "nat i"] dec_of_nat_chars [of "nat (- i)"]
  by (auto simp: dec_of_int_def)

lemma cursor_roundtrip:
  assumes "- (2 ^ 63) \<le> unix_milli t" and "unix_milli t < 2 ^ 63"
  shows "decode_mem_cursor (encode_mem_cursor t i) = Inr (unix_milli t * 1000000, i)"
proof -
  let ?raw = "dec_of_int (unix_milli t) @ ''|'' @ i"
  have "b64url_decode (encode_mem_cursor t i) = Some (map byte ?raw)"
    unfolding encode_mem_cursor_def by (rule b64url_decode_encode) auto
  moreover have "map char_of (map byte ?raw) = ?raw" by (simp add: comp_def)
  moreover have "split_2 (CHR ''|'') ?raw = [dec_of_int (unix_milli t), i]"
    using split_2_append [OF bar_not_in_dec, of "unix_milli t" i] by simp
  ultimately show ?thesis
    using atoi_dec_of_int [OF assms] by (simp add: decode_mem_cursor_def)
qed

subsection \<open>Operations\<close>

record event_filter =
  ef_workspace_id :: string
  ef_statuses :: "event_status list"
  ef_ids :: "string list"
  ef_starts_after :: "time option"
  ef_limit :: int
  ef_cursor :: string

record event_page =
  ep_events :: "event list"
  ep_next_cursor :: string

definition default_page_size :: int where "default_page_size = 20"
definition max_page_size :: int where "max_page_size = 100"

definition find_event :: "store \<Rightarrow> string \<Rightarrow> event option" where
  "find_event s i = List.find (\<lambda>e. ev_id e = i) (st_events s)"

definition events_create :: "event \<Rightarrow> event store_op" where
  "events_create ev = (\<lambda>s.
     let (new_id, s') = next_id s; created = ev\<lparr>ev_id := new_id\<rparr>
     in (Inr created, s'\<lparr>st_events := st_events s' @ [created]\<rparr>))"

definition events_get :: "string \<Rightarrow> event store_op" where
  "events_get i = m_gets (\<lambda>s. found (find_event s i))"

definition events_get_by_channel_id :: "string \<Rightarrow> event store_op" where
  "events_get_by_channel_id channel_id =
     m_gets (\<lambda>s. found (List.find (\<lambda>e. ch_channel_id (ev_channel e) = channel_id) (st_events s)))"

definition matches_event_filter :: "event \<Rightarrow> event_filter \<Rightarrow> bool" where
  "matches_event_filter e f \<longleftrightarrow>
     \<not> (ef_workspace_id f \<noteq> '''' \<and> ev_workspace_id e \<noteq> ef_workspace_id f) \<and>
     \<not> (ef_statuses f \<noteq> [] \<and> ev_status e \<notin> set (ef_statuses f)) \<and>
     \<not> (ef_ids f \<noteq> [] \<and> ev_id e \<notin> set (ef_ids f)) \<and>
     (case ef_starts_after f of None \<Rightarrow> True | Some t \<Rightarrow> \<not> ev_starts_at e < t)"

definition before_cursor :: "event \<Rightarrow> time \<Rightarrow> string \<Rightarrow> bool" where
  "before_cursor e starts_at i \<longleftrightarrow>
     ev_starts_at e < starts_at \<or> ev_starts_at e = starts_at \<and> ev_id e < i"

definition event_order :: "event \<Rightarrow> time \<times> string" where
  "event_order e = (ev_starts_at e, ev_id e)"

text \<open>The kept events, latest start first, then by descending identifier.\<close>

definition keep_events :: "event_filter \<Rightarrow> (event \<Rightarrow> bool) \<Rightarrow> store \<Rightarrow> event list" where
  "keep_events f before s =
     rev (sort_key event_order
       (filter (\<lambda>e. matches_event_filter e f \<and> before e) (st_events s)))"

definition filter_events :: "event_filter \<Rightarrow> store \<Rightarrow> event list result" where
  "filter_events f s =
     (if ef_cursor f \<noteq> '''' then
        (case decode_mem_cursor (ef_cursor f) of
           Inl e \<Rightarrow> Inl e
         | Inr (starts_at, i) \<Rightarrow> Inr (keep_events f (\<lambda>e. before_cursor e starts_at i) s))
      else Inr (keep_events f (\<lambda>e. True) s))"

definition page_limit :: "event_filter \<Rightarrow> nat" where
  "page_limit f =
     nat (min (if ef_limit f \<le> 0 then default_page_size else ef_limit f) max_page_size)"

definition page_of :: "nat \<Rightarrow> event list \<Rightarrow> event_page" where
  "page_of limit matched =
     (if limit < length matched
      then \<lparr>ep_events = take limit matched,
            ep_next_cursor = encode_mem_cursor (ev_starts_at (matched ! (limit - 1)))
              (ev_id (matched ! (limit - 1)))\<rparr>
      else \<lparr>ep_events = matched, ep_next_cursor = ''''\<rparr>)"

definition events_list :: "event_filter \<Rightarrow> event_page store_op" where
  "events_list f = m_gets (\<lambda>s.
     case filter_events f s of
       Inl e \<Rightarrow> Inl e
     | Inr matched \<Rightarrow> Inr (page_of (page_limit f) matched))"

text \<open>Looking an event up and changing it in place.\<close>

definition change_event :: "string \<Rightarrow> (event \<Rightarrow> event) \<Rightarrow> unit store_op" where
  "change_event i f = (\<lambda>s.
     (case find_event s i of
        None \<Rightarrow> (Inl ErrNotFound, s)
      | Some _ \<Rightarrow>
          (Inr (), s\<lparr>st_events := update_first (\<lambda>e. ev_id e = i) f (st_events s)\<rparr>)))"

definition events_update :: "event \<Rightarrow> unit store_op" where
  "events_update ev = change_event (ev_id ev) (\<lambda>stored. stored
     \<lparr>ev_title := ev_title ev, ev_description := ev_description ev,
      ev_location := ev_location ev, ev_starts_at := ev_starts_at ev,
      ev_ends_at := ev_ends_at ev, ev_status := ev_status ev,
      ev_reminder_policy := ev_reminder_policy ev, ev_ended_at := ev_ended_at ev,
      ev_end_reason := ev_end_reason ev, ev_updated_at := ev_updated_at ev\<rparr>)"

definition events_set_channel :: "string \<Rightarrow> channel_ref \<Rightarrow> time \<Rightarrow> unit store_op" where
  "events_set_channel i channel now =
     change_event i (\<lambda>e. e\<lparr>ev_channel := channel, ev_updated_at := now\<rparr>)"

definition events_set_messages :: "string \<Rightarrow> message_refs \<Rightarrow> time \<Rightarrow> unit store_op" where
  "events_set_messages i messages now =
     change_event i (\<lambda>e. e\<lparr>ev_messages := messages, ev_updated_at := now\<rparr>)"

definition events_add_participant_count :: "string \<Rightarrow> int \<Rightarrow> time \<Rightarrow> unit store_op" where
  "events_add_participant_count i delta now =
     change_event i (\<lambda>e. e\<lparr>ev_participant_count := ev_participant_count e + delta,
                            ev_updated_at := now\<rparr>)"

subsection \<open>Invariant and lookups after updates\<close>

definition events_ok :: "store \<Rightarrow> bool" where
  "events_ok s \<longleftrightarrow> ids_ok (st_seq s) (map ev_id (st_events s))"

lemma events_create_ok: "events_ok s \<Longrightarrow> events_ok (snd (events_create e s))"
  by (simp add: events_create_def events_ok_def next_id_def Let_def)

lemma change_event_ok:
  "(\<And>e. ev_id (f e) = ev_id e) \<Longrightarrow> events_ok s \<Longrightarrow> events_ok (snd (change_event i f s))"
  by (simp add: change_event_def events_ok_def map_update_first split: option.split)

lemma find_event_id: "find_event s i = Some e \<Longrightarrow> ev_id e = i"
  by (auto simp: find_event_def dest: find_SomeD)

lemma find_event_in: "find_event s i = Some e \<Longrightarrow> i \<in> ev_id ` set (st_events s)"
  unfolding find_event_def by (drule find_SomeD) (auto intro: image_eqI)

lemma find_event_change:
  assumes "\<And>e. ev_id (f e) = ev_id e"
  shows "find_event (snd (change_event i f s)) j =
     (if j = i then map_option f (find_event s i) else find_event s j)"
proof (cases "find_event s i")
  case None
  then show ?thesis by (auto simp: change_event_def)
next
  case (Some e)
  then show ?thesis
    using assms
    by (auto simp: change_event_def find_event_def find_update_first find_update_first_other)
qed

lemma find_event_create:
  assumes "events_ok s"
  shows "find_event (snd (events_create e s)) j =
     (if j = id_of_seq (Suc (st_seq s)) then Some (e\<lparr>ev_id := j\<rparr>) else find_event s j)"
proof -
  have "List.find (\<lambda>e. ev_id e = id_of_seq (Suc (st_seq s))) (st_events s) = None"
    using assms by (simp add: events_ok_def ids_ok_find_fresh)
  then show ?thesis
    by (auto simp: find_event_def events_create_def next_id_def Let_def find_append
        split: option.splits)
qed

subsection \<open>Following the cursor\<close>

text \<open>
  With unique identifiers the list is strictly descending, so the events before the
  cursor of a full page are those after it in the whole list.
\<close>

definition whole_millis :: "time \<Rightarrow> bool" where
  "whole_millis t \<longleftrightarrow> t mod 1000000 = 0 \<and> - (2 ^ 63) \<le> unix_milli t \<and> unix_milli t < 2 ^ 63"

lemma keep_events_distinct:
  assumes "distinct (map ev_id (st_events s))"
  shows "sorted_wrt (\<lambda>a b. event_order b < event_order a) (keep_events f q s)"
proof -
  let ?xs = "sort_key event_order (filter (\<lambda>e. matches_event_filter e f \<and> q e) (st_events s))"
  have "distinct (map (snd \<circ> event_order) (st_events s))"
    using assms by (simp add: event_order_def comp_def)
  then have "distinct (map event_order (st_events s))"
    by (metis distinct_map map_map)
  then have "inj_on event_order (set (st_events s))" "distinct (st_events s)"
    by (auto simp: distinct_map)
  then have "distinct (map event_order ?xs)"
    by (auto simp: distinct_map intro: inj_on_subset)
  then have "sorted_wrt (<) (map event_order ?xs)"
    by (simp add: strict_sorted_iff)
  then show ?thesis by (simp add: keep_events_def sorted_wrt_rev sorted_wrt_map)
qed

lemma keep_events_strict:
  "events_ok s \<Longrightarrow> sorted_wrt (\<lambda>a b. event_order b < event_order a) (keep_events f q s)"
  by (rule keep_events_distinct) (simp add: events_ok_def ids_ok_def)

lemma filter_before_drop:
  assumes "sorted_wrt (\<lambda>a b. k b < (k a :: 'k :: linorder)) xs" and "n < length xs"
  shows "filter (\<lambda>x. k x < k (xs ! n)) xs = drop (Suc n) xs"
proof -
  have "filter (\<lambda>x. k x < k (xs ! n)) (take (Suc n) xs) = []"
    using assms by (auto simp: filter_empty_conv in_set_conv_nth sorted_wrt_iff_nth_less
        not_less le_less less_Suc_eq_le)
  moreover have "filter (\<lambda>x. k x < k (xs ! n)) (drop (Suc n) xs) = drop (Suc n) xs"
    using assms by (intro filter_True) (auto simp: in_set_conv_nth sorted_wrt_iff_nth_less)
  ultimately show ?thesis by (metis append_Nil append_take_drop_id filter_append)
qed

lemma keep_events_before:
  "keep_events f (\<lambda>e. before_cursor e t i) s =
   filter (\<lambda>e. event_order e < (t, i)) (keep_events f (\<lambda>e. True) s)"
proof -
  have "before_cursor e t i \<longleftrightarrow> event_order e < (t, i)" for e
    by (auto simp: before_cursor_def event_order_def less_prod_def')
  then show ?thesis
    by (simp add: keep_events_def filter_sort rev_filter [symmetric] conj_commute)
qed

lemma encode_mem_cursor_nonempty [simp]: "encode_mem_cursor t i \<noteq> []"
proof -
  have "0 < length (encode_mem_cursor t i)"
    unfolding encode_mem_cursor_def length_b64url_encode by simp
  then show ?thesis by auto
qed

text \<open>A cursor that stands for the n-th event selects the events after it.\<close>

lemma after_cursor:
  assumes "events_ok s" and "\<forall>e \<in> set (st_events s). whole_millis (ev_starts_at e)"
    and "xs = keep_events f (\<lambda>e. True) s" and "n < length xs"
  shows "filter_events (f\<lparr>ef_cursor := encode_mem_cursor (ev_starts_at (xs ! n)) (ev_id (xs ! n))\<rparr>) s =
     Inr (drop (Suc n) xs)"
proof -
  have "xs ! n \<in> set (st_events s)" using nth_mem [OF assms(4)] assms(3) by (auto simp: keep_events_def)
  then have wm: "whole_millis (ev_starts_at (xs ! n))" using assms(2) by blast
  then have "unix_milli (ev_starts_at (xs ! n)) * 1000000 = ev_starts_at (xs ! n)"
    by (auto simp: whole_millis_def unix_milli_def)
  with wm have "decode_mem_cursor (encode_mem_cursor (ev_starts_at (xs ! n)) (ev_id (xs ! n))) =
      Inr (ev_starts_at (xs ! n), ev_id (xs ! n))"
    by (simp add: cursor_roundtrip whole_millis_def)
  moreover have "keep_events (f\<lparr>ef_cursor := c\<rparr>) q s = keep_events f q s" for c q
    by (simp add: keep_events_def matches_event_filter_def)
  moreover have "keep_events f (\<lambda>e. before_cursor e (ev_starts_at (xs ! n)) (ev_id (xs ! n))) s =
      drop (Suc n) xs"
    unfolding keep_events_before
    using filter_before_drop [OF _ assms(4), of event_order] keep_events_strict [OF assms(1)] assms(3)
    by (simp add: event_order_def)
  ultimately show ?thesis by (simp add: filter_events_def)
qed

lemma page_limit_positive: "0 < page_limit f"
  by (simp add: page_limit_def default_page_size_def max_page_size_def)

end
