(* ===== verification/Channel_Name.thy ===== *)
theory Channel_Name
  imports Go_Strings Go_Time
begin

section \<open>Channel names\<close>

text \<open>
  \<open>internal/shared/channelname/channelname.go\<close>: the name of an event's channel, made from a
  prefix, the date and the title. The Unicode tables (NFKC of \<open>golang.org/x/text\<close>, case
  mapping, the letter and digit classes) are the record \<open>unicode\<close>. UTF-8 encoding is here;
  decoding is in \<open>Go_Strings\<close>.
\<close>

record unicode =
  un_nfkc :: "string \<Rightarrow> string"
  un_to_lower :: "string \<Rightarrow> string"
  un_is_letter :: "rune \<Rightarrow> bool"
  un_is_digit :: "rune \<Rightarrow> bool"

subsection \<open>Encoding runes\<close>

definition valid_rune :: "rune \<Rightarrow> bool" where
  "valid_rune r \<longleftrightarrow> r < 55296 \<or> (57344 \<le> r \<and> r \<le> 1114111)"

text \<open>\<open>utf8.AppendRune\<close>: an invalid rune is written as U+FFFD.\<close>

definition rune_bytes :: "rune \<Rightarrow> nat list" where
  "rune_bytes r =
     (if \<not> valid_rune r then [239, 191, 189]
      else if r < 128 then [r]
      else if r < 2048 then [192 + r div 64, 128 + r mod 64]
      else if r < 65536 then [224 + r div 4096, 128 + r div 64 mod 64, 128 + r mod 64]
      else [240 + r div 262144, 128 + r div 4096 mod 64, 128 + r div 64 mod 64, 128 + r mod 64])"

definition string_of_runes :: "rune list \<Rightarrow> string" where
  "string_of_runes rs = concat (map (\<lambda>r. map char_of (rune_bytes r)) rs)"

subsection \<open>The functions\<close>

definition separator :: rune where "separator = 45"

text \<open>\<open>strings.TrimRight(s, "-")\<close>\<close>

definition trim_right :: "string \<Rightarrow> string" where
  "trim_right s = rev (dropWhile (\<lambda>c. byte c = separator) (rev s))"

fun collapse_runes :: "bool \<Rightarrow> rune list \<Rightarrow> rune list" where
  "collapse_runes prev_sep [] = []"
| "collapse_runes prev_sep (r # rs) =
     (if r = separator
      then (if prev_sep then collapse_runes True rs else r # collapse_runes True rs)
      else r # collapse_runes False rs)"

definition collapse :: "string \<Rightarrow> string" where
  "collapse s = trim_right (string_of_runes (collapse_runes True (runes_of s)))"

definition slug_rune :: "unicode \<Rightarrow> rune \<Rightarrow> rune" where
  "slug_rune u r = (if un_is_letter u r \<or> un_is_digit u r \<or> r = 95 then r else separator)"

definition slug :: "unicode \<Rightarrow> string \<Rightarrow> string" where
  "slug u title =
     collapse (string_of_runes (map (slug_rune u) (runes_of (un_to_lower u (un_nfkc u title)))))"

definition truncate_name :: "string \<Rightarrow> int \<Rightarrow> string" where
  "truncate_name s max_len =
     (let runes = runes_of s
      in if int (length runes) \<le> max_len then trim_right s
         else trim_right (string_of_runes (take (nat max_len) runes)))"

text \<open>\<open>startsAt.Format("0102")\<close> in the workspace's time zone.\<close>

definition month_day :: "time \<Rightarrow> location \<Rightarrow> string" where
  "month_day t loc = pad2 (time_month loc t) @ pad2 (time_day loc t)"

definition build_name :: "unicode \<Rightarrow> string \<Rightarrow> string \<Rightarrow> time \<Rightarrow> location \<Rightarrow> int \<Rightarrow> string" where
  "build_name u prefix title starts_at loc max_len =
     (let head = prefix @ month_day starts_at loc; s = slug u title
      in if s = '''' then truncate_name head max_len
         else truncate_name (head @ ''-'' @ s) max_len)"

definition with_suffix :: "string \<Rightarrow> int \<Rightarrow> int \<Rightarrow> string" where
  "with_suffix name n max_len =
     (let suffix = CHR ''-'' # dec_of_int n;
          room = max_len - int (length (runes_of suffix))
      in if room < 1 then truncate_name suffix max_len
         else truncate_name name room @ suffix)"

subsection \<open>Encoding and decoding\<close>

lemma decode_rune_valid: "valid_rune (fst (decode_rune bs))"
proof -
  have three: "valid_rune ((a - 224) * 4096 + (b - 128) * 64 + (c - 128))"
    if "224 \<le> a" "a \<le> 239" "second_ok a b" "is_cont c" for a b c :: nat
  proof (cases "a = 237")
    case True
    with that show ?thesis by (auto simp: valid_rune_def second_ok_def is_cont_def)
  next
    case False
    then have "a \<le> 236 \<or> 238 \<le> a" by auto
    with that show ?thesis
      by (auto simp: valid_rune_def second_ok_def is_cont_def split: if_splits)
  qed
  have four: "valid_rune ((a - 240) * 262144 + (b - 128) * 4096 + (c - 128) * 64 + (d - 128))"
    if "240 \<le> a" "a \<le> 244" "second_ok a b" "is_cont c" "is_cont d" for a b c d :: nat
    using that by (auto simp: valid_rune_def second_ok_def is_cont_def split: if_splits)
  have two: "valid_rune ((a - 192) * 64 + (b - 128))" if "a \<le> 223" "is_cont b" for a b :: nat
    using that by (auto simp: valid_rune_def is_cont_def)
  have err: "valid_rune rune_error" by (simp add: valid_rune_def rune_error_def)
  show ?thesis
  proof (cases bs)
    case Nil
    with err show ?thesis by (simp add: decode_rune_def)
  next
    case (Cons a r)
    consider "a < 128" | "194 \<le> a" "a \<le> 223" | "224 \<le> a" "a \<le> 239" | "240 \<le> a" "a \<le> 244"
      | "128 \<le> a" "a < 194 \<or> 244 < a" by linarith
    then show ?thesis
    proof cases
      case 1
      with Cons show ?thesis by (simp add: decode_rune_def valid_rune_def)
    next
      case 2
      then have "decode_rune bs = (case r of b # _ \<Rightarrow>
          if is_cont b then ((a - 192) * 64 + (b - 128), 2) else (rune_error, 1) | _ \<Rightarrow> (rune_error, 1))"
        using Cons by (simp add: decode_rune_def)
      with two [OF 2(2)] err show ?thesis by (cases r) simp_all
    next
      case 3
      then have "decode_rune bs = (case r of b # c # _ \<Rightarrow>
          if second_ok a b \<and> is_cont c
          then ((a - 224) * 4096 + (b - 128) * 64 + (c - 128), 3) else (rune_error, 1)
        | _ \<Rightarrow> (rune_error, 1))"
        using Cons by (simp add: decode_rune_def)
      with three [OF 3] err show ?thesis by (cases r; cases "tl r") simp_all
    next
      case 4
      then have "decode_rune bs = (case r of b # c # d # _ \<Rightarrow>
          if second_ok a b \<and> is_cont c \<and> is_cont d
          then ((a - 240) * 262144 + (b - 128) * 4096 + (c - 128) * 64 + (d - 128), 4)
          else (rune_error, 1)
        | _ \<Rightarrow> (rune_error, 1))"
        using Cons by (simp add: decode_rune_def)
      with four [OF 4] err show ?thesis by (cases r; cases "tl r"; cases "tl (tl r)") simp_all
    next
      case 5
      then have "decode_rune bs = (rune_error, 1)" using Cons by (auto simp: decode_rune_def)
      with err show ?thesis by simp
    qed
  qed
qed

lemma runes_of_valid: "\<forall>r \<in> set (runes_of s). valid_rune r"
  by (induction s rule: rune_chunks.induct) (auto simp: runes_of_def Let_def decode_rune_valid)

lemma rune_bytes_bounds: "r' \<in> set (rune_bytes r) \<Longrightarrow> r' < 256"
  by (auto simp: rune_bytes_def valid_rune_def split: if_splits)

lemma decode_rune_two:
  assumes "128 \<le> r" and "r < 2048"
  shows "decode_rune ((192 + r div 64) # (128 + r mod 64) # bs) = (r, 2)"
proof -
  have "2 \<le> r div 64" "r div 64 \<le> 31" using assms by linarith+
  then show ?thesis by (simp add: decode_rune_def is_cont_def)
qed

lemma div_mod_three: "r div 4096 * 4096 + r div 64 mod 64 * 64 + r mod 64 = (r :: nat)"
proof -
  have "r div 64 = r div 4096 * 64 + r div 64 mod 64"
    using div_mult_mod_eq [of "r div 64" 64] by (simp add: div_mult2_eq [symmetric])
  then show ?thesis using div_mult_mod_eq [of r 64] by linarith
qed

lemma div_mod_four:
  "r div 262144 * 262144 + r div 4096 mod 64 * 4096 + r div 64 mod 64 * 64 + r mod 64 = (r :: nat)"
proof -
  have "r div 4096 = r div 262144 * 64 + r div 4096 mod 64"
    using div_mult_mod_eq [of "r div 4096" 64] by (simp add: div_mult2_eq [symmetric])
  then show ?thesis using div_mod_three [of r] by linarith
qed

lemma decode_rune_three:
  assumes "2048 \<le> r" and "r < 65536" and "valid_rune r"
  shows "decode_rune ((224 + r div 4096) # (128 + r div 64 mod 64) # (128 + r mod 64) # bs) = (r, 3)"
proof -
  have le: "r div 4096 \<le> 15" using assms by linarith
  have "second_ok (224 + r div 4096) (128 + r div 64 mod 64)"
  proof -
    have m: "r div 64 mod 64 < 64" by simp
    have eq: "r div 64 = r div 4096 * 64 + r div 64 mod 64"
      using div_mult_mod_eq [of "r div 64" 64] by (simp add: div_mult2_eq [symmetric])
    have "32 \<le> r div 64 mod 64" if "r div 4096 = 0" using that eq assms by linarith
    moreover have "r div 64 mod 64 < 32" if "r div 4096 = 13"
    proof -
      have "r < 55296 \<or> 57344 \<le> r" using assms(3) by (auto simp: valid_rune_def)
      then have "r < 55296" using that by linarith
      then have "r div 64 < 864" by linarith
      then show ?thesis using eq that by linarith
    qed
    ultimately show ?thesis using m le by (auto simp: second_ok_def is_cont_def)
  qed
  moreover have "is_cont (128 + r mod 64)" by (simp add: is_cont_def)
  ultimately show ?thesis using le div_mod_three [of r] by (simp add: decode_rune_def)
qed

lemma decode_rune_four:
  assumes "65536 \<le> r" and "r \<le> 1114111"
  shows "decode_rune ((240 + r div 262144) # (128 + r div 4096 mod 64) # (128 + r div 64 mod 64) #
    (128 + r mod 64) # bs) = (r, 4)"
proof -
  have le: "r div 262144 \<le> 4" using assms by linarith
  have "second_ok (240 + r div 262144) (128 + r div 4096 mod 64)"
  proof -
    have m: "r div 4096 mod 64 < 64" by simp
    have eq: "r div 4096 = r div 262144 * 64 + r div 4096 mod 64"
      using div_mult_mod_eq [of "r div 4096" 64] by (simp add: div_mult2_eq [symmetric])
    have "16 \<le> r div 4096 mod 64" if "r div 262144 = 0" using that eq assms by linarith
    moreover have "r div 4096 mod 64 < 16" if "r div 262144 = 4" using that eq assms by linarith
    ultimately show ?thesis using m le by (auto simp: second_ok_def is_cont_def)
  qed
  moreover have "is_cont (128 + r div 64 mod 64)" "is_cont (128 + r mod 64)" by (simp_all add: is_cont_def)
  ultimately show ?thesis using le div_mod_four [of r] by (simp add: decode_rune_def)
qed

lemma decode_rune_encoded:
  assumes "valid_rune r"
  shows "decode_rune (rune_bytes r @ bs) = (r, length (rune_bytes r))"
proof -
  consider "r < 128" | "128 \<le> r" "r < 2048" | "2048 \<le> r" "r < 65536" | "65536 \<le> r" by linarith
  then show ?thesis
  proof cases
    case 1
    with assms show ?thesis by (simp add: rune_bytes_def decode_rune_def)
  next
    case 2
    with assms decode_rune_two [of r bs] show ?thesis by (simp add: rune_bytes_def)
  next
    case 3
    with assms decode_rune_three [of r bs] show ?thesis by (simp add: rune_bytes_def)
  next
    case 4
    then have "r \<le> 1114111" using assms by (auto simp: valid_rune_def)
    with 4 assms decode_rune_four [of r bs] show ?thesis by (simp add: rune_bytes_def)
  qed
qed

lemma byte_char_of: "n < 256 \<Longrightarrow> byte (char_of n) = n"
  by (simp add: byte_def)

lemma runes_of_string_of_runes: "\<forall>r \<in> set rs. valid_rune r \<Longrightarrow> runes_of (string_of_runes rs) = rs"
proof (induction rs)
  case Nil
  then show ?case by (simp add: string_of_runes_def runes_of_def)
next
  case (Cons r rs)
  let ?e = "map char_of (rune_bytes r) :: string"
  have bytes: "map byte (?e @ string_of_runes rs) = rune_bytes r @ map byte (string_of_runes rs)"
    using rune_bytes_bounds by (auto simp: byte_char_of intro!: map_idI)
  then have dec: "decode_rune (map byte (?e @ string_of_runes rs)) = (r, length ?e)"
    using decode_rune_encoded [of r] Cons.prems by simp
  have "?e \<noteq> []" by (simp add: rune_bytes_def)
  then obtain c cs where cs: "?e @ string_of_runes rs = c # cs" by (cases ?e) auto
  have "runes_of (?e @ string_of_runes rs) = r # runes_of (drop (length ?e) (?e @ string_of_runes rs))"
    using dec unfolding cs runes_of_def by (simp add: Let_def)
  then show ?case using Cons by (simp add: string_of_runes_def)
qed

subsection \<open>ASCII at the end of a string\<close>

lemma decode_rune_append_ascii:
  assumes "bs \<noteq> []" and "b < 128"
  shows "decode_rune (bs @ [b]) = decode_rune bs"
proof -
  have nc: "\<not> is_cont b" using assms(2) by (simp add: is_cont_def)
  have ns: "\<not> second_ok a b" for a using assms(2) by (auto simp: second_ok_def is_cont_def)
  obtain a r where a: "bs = a # r" using assms(1) by (cases bs) auto
  show ?thesis
  proof (cases r)
    case Nil
    then show ?thesis using a nc ns by (simp add: decode_rune_def)
  next
    case (Cons x r1)
    note r = this
    show ?thesis
    proof (cases r1)
      case Nil
      then show ?thesis using a r nc ns by (simp add: decode_rune_def)
    next
      case (Cons y r2)
      then show ?thesis using a r nc ns by (cases r2) (simp_all add: decode_rune_def)
    qed
  qed
qed

lemma rune_chunks_snoc_ascii:
  "byte c < 128 \<Longrightarrow> rune_chunks (s @ [c]) = rune_chunks s @ [(byte c, [c])]"
proof (induction s rule: rune_chunks.induct)
  case 1
  then show ?case by (simp add: decode_rune_def)
next
  case (2 x s)
  have d: "decode_rune (map byte ((x # s) @ [c])) = decode_rune (map byte (x # s))"
    using decode_rune_append_ascii [of "map byte (x # s)" "byte c"] 2(2) by simp
  have w: "snd (decode_rune (map byte (x # s))) \<le> length (x # s)"
    using decode_rune_width [of "map byte (x # s)"] by simp
  have "k \<le> length xs \<Longrightarrow> drop k (xs @ [c]) = drop k xs @ [c] \<and> take k (xs @ [c]) = take k xs"
    for k and xs :: string by simp
  from this [OF w] 2(1) [OF refl 2(2)] d show ?case by (simp add: Let_def)
qed

lemma runes_of_append_ascii:
  "\<forall>c \<in> set t. byte c < 128 \<Longrightarrow> runes_of (s @ t) = runes_of s @ map byte t"
proof (induction t rule: rev_induct)
  case Nil
  then show ?case by simp
next
  case (snoc c t)
  then show ?case
    using rune_chunks_snoc_ascii [of c "s @ t"] by (simp add: runes_of_def)
qed

lemma length_runes_trim_right: "length (runes_of (trim_right s)) \<le> length (runes_of s)"
proof (induction s rule: rev_induct)
  case Nil
  then show ?case by (simp add: trim_right_def)
next
  case (snoc c s)
  show ?case
  proof (cases "byte c = separator")
    case True
    then have "runes_of (s @ [c]) = runes_of s @ [byte c]"
      by (intro runes_of_append_ascii [of "[c]", simplified]) (simp add: separator_def)
    with snoc True show ?thesis by (simp add: trim_right_def)
  qed (simp add: trim_right_def)
qed

lemma trim_right_ends: "trim_right s = [] \<or> byte (last (trim_right s)) \<noteq> separator"
proof (induction s rule: rev_induct)
  case (snoc c s)
  then show ?case by (cases "byte c = separator") (simp_all add: trim_right_def)
qed (simp add: trim_right_def)

lemma length_truncate:
  assumes "0 \<le> n"
  shows "int (length (runes_of (truncate_name s n))) \<le> n"
proof (cases "int (length (runes_of s)) \<le> n")
  case True
  then show ?thesis using length_runes_trim_right [of s] by (simp add: truncate_name_def Let_def)
next
  case False
  let ?rs = "take (nat n) (runes_of s)"
  have "\<forall>r \<in> set ?rs. valid_rune r" using runes_of_valid by (meson in_set_takeD)
  then have "runes_of (string_of_runes ?rs) = ?rs" by (rule runes_of_string_of_runes)
  then have "length (runes_of (trim_right (string_of_runes ?rs))) \<le> nat n"
    using length_runes_trim_right [of "string_of_runes ?rs"] by simp
  with False assms show ?thesis by (simp add: truncate_name_def Let_def)
qed

lemma dec_of_int_ascii: "c \<in> set (dec_of_int i) \<Longrightarrow> byte c < 128"
proof -
  have "byte c < 128" if "c \<in> set (dec_of_nat n)" for n
    using dec_of_nat_chars [of n] that by (auto simp: byte_def)
  then show "c \<in> set (dec_of_int i) \<Longrightarrow> byte c < 128"
    by (auto simp: dec_of_int_def byte_def split: if_splits)
qed

lemma suffix_runes: "runes_of (s @ CHR ''-'' # dec_of_int n) = runes_of s @ map byte (CHR ''-'' # dec_of_int n)"
proof (rule runes_of_append_ascii)
  have "byte (CHR ''-'') < 128" by (simp add: byte_def)
  then show "\<forall>c \<in> set (CHR ''-'' # dec_of_int n). byte c < 128" using dec_of_int_ascii by simp
qed

subsection \<open>What a slug looks like\<close>

text \<open>No separator at the start, at the end or doubled.\<close>

definition tidy :: "rune list \<Rightarrow> bool" where
  "tidy rs \<longleftrightarrow> (rs = [] \<or> hd rs \<noteq> separator \<and> last rs \<noteq> separator) \<and>
     (\<forall>i. Suc i < length rs \<longrightarrow> \<not> (rs ! i = separator \<and> rs ! Suc i = separator))"

fun no_double :: "bool \<Rightarrow> rune list \<Rightarrow> bool" where
  "no_double prev_sep [] = True"
| "no_double prev_sep (r # rs) =
     (if r = separator then \<not> prev_sep \<and> no_double True rs else no_double False rs)"

lemma collapse_runes_no_double: "no_double b (collapse_runes b rs)"
  by (induction b rs rule: collapse_runes.induct) auto

lemma set_collapse_runes: "set (collapse_runes b rs) \<subseteq> set rs"
  by (induction b rs rule: collapse_runes.induct) auto

lemma no_double_append: "no_double b (xs @ ys) \<Longrightarrow> no_double b xs"
  by (induction b xs rule: no_double.induct) (auto split: if_splits)

lemma no_double_nth:
  "no_double b rs \<Longrightarrow> Suc i < length rs \<Longrightarrow> \<not> (rs ! i = separator \<and> rs ! Suc i = separator)"
proof (induction b rs arbitrary: i rule: no_double.induct)
  case (2 b r rs)
  then show ?case by (cases i; cases rs) (auto split: if_splits)
qed simp

lemma no_double_hd: "no_double True rs \<Longrightarrow> rs \<noteq> [] \<Longrightarrow> hd rs \<noteq> separator"
  by (cases rs) auto

lemma runes_trim_right:
  "\<forall>r \<in> set rs. valid_rune r \<Longrightarrow>
   \<exists>ys. rs = runes_of (trim_right (string_of_runes rs)) @ ys"
proof (induction rs rule: rev_induct)
  case Nil
  then show ?case by (simp add: string_of_runes_def trim_right_def runes_of_def)
next
  case (snoc r rs)
  show ?case
  proof (cases "r = separator")
    case True
    then have "trim_right (string_of_runes (rs @ [r])) = trim_right (string_of_runes rs)"
      by (simp add: string_of_runes_def trim_right_def rune_bytes_def valid_rune_def
          separator_def byte_char_of)
    moreover obtain ys where "rs = runes_of (trim_right (string_of_runes rs)) @ ys"
      using snoc by auto
    ultimately show ?thesis by (metis append.assoc)
  next
    case False
    obtain bs b where b: "rune_bytes r = bs @ [b]" by (metis rev_exhaust rune_bytes_def list.distinct(1))
    have "b \<noteq> separator"
      using b False by (auto simp: rune_bytes_def separator_def valid_rune_def split: if_splits)
    moreover have "b < 256" using rune_bytes_bounds [of b r] b by simp
    ultimately have "trim_right (string_of_runes (rs @ [r])) = string_of_runes (rs @ [r])"
      by (simp add: string_of_runes_def trim_right_def b byte_char_of)
    then show ?thesis using runes_of_string_of_runes [OF snoc.prems] by simp
  qed
qed

lemma trim_right_string_last:
  assumes "\<forall>r \<in> set rs. valid_rune r" and "runes_of (trim_right (string_of_runes rs)) \<noteq> []"
  shows "last (runes_of (trim_right (string_of_runes rs))) \<noteq> separator"
  using assms
proof (induction rs rule: rev_induct)
  case Nil
  then show ?case by (simp add: string_of_runes_def trim_right_def runes_of_def)
next
  case (snoc r rs)
  show ?case
  proof (cases "r = separator")
    case True
    then have "trim_right (string_of_runes (rs @ [r])) = trim_right (string_of_runes rs)"
      by (simp add: string_of_runes_def trim_right_def rune_bytes_def valid_rune_def
          separator_def byte_char_of)
    with snoc show ?thesis by auto
  next
    case False
    obtain bs b where b: "rune_bytes r = bs @ [b]" by (metis rev_exhaust rune_bytes_def list.distinct(1))
    have "b \<noteq> separator"
      using b False by (auto simp: rune_bytes_def separator_def valid_rune_def split: if_splits)
    moreover have "b < 256" using rune_bytes_bounds [of b r] b by simp
    ultimately have "trim_right (string_of_runes (rs @ [r])) = string_of_runes (rs @ [r])"
      by (simp add: string_of_runes_def trim_right_def b byte_char_of)
    then show ?thesis using runes_of_string_of_runes [OF snoc.prems(1)] False by simp
  qed
qed

lemma collapse_tidy: "tidy (runes_of (collapse s))"
proof -
  let ?rs = "collapse_runes True (runes_of s)"
  have valid: "\<forall>r \<in> set ?rs. valid_rune r"
    using set_collapse_runes [of True "runes_of s"] runes_of_valid [of s] by blast
  obtain ys where ys: "?rs = runes_of (collapse s) @ ys"
    using runes_trim_right [OF valid] by (auto simp: collapse_def)
  then have nd: "no_double True (runes_of (collapse s))"
    using collapse_runes_no_double [of True "runes_of s"] no_double_append by metis
  show ?thesis
    unfolding tidy_def
    using no_double_nth [OF nd] no_double_hd [OF nd] trim_right_string_last [OF valid]
    by (auto simp: collapse_def)
qed

end
