(* ===== verification/Go_Text.thy ===== *)
theory Go_Text
  imports Channel_Name "HOL-Library.Sublist"
begin

section \<open>Searching, cutting and joining Go strings\<close>

text \<open>
  More of the package \<open>strings\<close>, for the parsers of chat input and message bodies:
  \<open>Index\<close>, \<open>Cut\<close>, \<open>ReplaceAll\<close>, \<open>Fields\<close>, \<open>Join\<close>. Searches are on bytes, as in Go.
\<close>

text \<open>\<open>strings.Index(s, sub)\<close>, \<open>None\<close> for -1.\<close>

fun index_of :: "string \<Rightarrow> string \<Rightarrow> nat option" where
  "index_of sub [] = (if sub = [] then Some 0 else None)"
| "index_of sub (c # s) =
     (if prefix sub (c # s) then Some 0 else map_option Suc (index_of sub s))"

definition contains :: "string \<Rightarrow> string \<Rightarrow> bool" where
  "contains sub s \<longleftrightarrow> index_of sub s \<noteq> None"

text \<open>\<open>strings.Cut(s, sep)\<close>: what is before and after the first separator, if there is one.\<close>

definition cut_at :: "string \<Rightarrow> string \<Rightarrow> string \<times> string \<times> bool" where
  "cut_at sep s =
     (case index_of sep s of
        None \<Rightarrow> (s, [], False)
      | Some i \<Rightarrow> (take i s, drop (i + length sep) s, True))"

text \<open>\<open>strings.ReplaceAll(s, old, new)\<close> for a non-empty \<open>old\<close>, from left to right.\<close>

function replace_all :: "string \<Rightarrow> string \<Rightarrow> string \<Rightarrow> string" where
  "replace_all old new [] = []"
| "replace_all old new (c # s) =
     (if old \<noteq> [] \<and> prefix old (c # s) then new @ replace_all old new (drop (length old) (c # s))
      else c # replace_all old new s)"
  by pat_completeness auto
termination
  by (relation "measure (\<lambda>(old, new, s). length s)") (auto simp: neq_Nil_conv)

text \<open>\<open>strings.Join(parts, sep)\<close>\<close>

fun join_with :: "string \<Rightarrow> string list \<Rightarrow> string" where
  "join_with sep [] = []"
| "join_with sep [p] = p"
| "join_with sep (p # q # ps) = p @ sep @ join_with sep (q # ps)"

text \<open>\<open>strings.Fields(s)\<close>: the words between runs of white space.\<close>

fun words_of :: "(rune \<Rightarrow> bool) \<Rightarrow> string \<Rightarrow> (rune \<times> string) list \<Rightarrow> string list" where
  "words_of sep w [] = (if w = [] then [] else [w])"
| "words_of sep w ((r, bs) # cs) =
     (if sep r then (if w = [] then words_of sep [] cs else w # words_of sep [] cs)
      else words_of sep (w @ bs) cs)"

definition split_fields :: "string \<Rightarrow> string list" where
  "split_fields s = words_of is_space [] (rune_chunks s)"

subsection \<open>Searching\<close>

lemma index_of_Some:
  "index_of sub s = Some i \<Longrightarrow>
     i + length sub \<le> length s \<and> prefix sub (drop i s) \<and> (\<forall>j < i. \<not> prefix sub (drop j s))"
proof (induction s arbitrary: i)
  case Nil
  then show ?case by (simp split: if_splits)
next
  case (Cons c s)
  show ?case
  proof (cases "prefix sub (c # s)")
    case True
    then show ?thesis using Cons.prems prefix_length_le [OF True] by simp
  next
    case False
    then obtain k where k: "i = Suc k" "index_of sub s = Some k" using Cons.prems by auto
    have "\<not> prefix sub (drop j (c # s))" if "j < i" for j
      using that k(1) False Cons.IH [OF k(2)] by (cases j) auto
    then show ?thesis using Cons.IH [OF k(2)] k(1) by simp
  qed
qed

lemma index_of_split:
  "index_of sub s = Some i \<Longrightarrow> s = take i s @ sub @ drop (i + length sub) s"
  using index_of_Some [of sub s i]
  by (metis add.commute append_eq_conv_conj append_take_drop_id drop_drop prefix_def)

lemma contains_Cons: "sub \<noteq> [] \<Longrightarrow> contains sub (c # s) \<longleftrightarrow> prefix sub (c # s) \<or> contains sub s"
  by (auto simp: contains_def)

lemma contains_Nil [simp]: "contains sub [] \<longleftrightarrow> sub = []"
  by (simp add: contains_def)

lemma contains_empty [simp]: "contains [] s"
  by (cases s) (simp_all add: contains_def)

lemma contains_sublist: "contains sub s \<longleftrightarrow> (\<exists>a b. s = a @ sub @ b)"
proof
  assume "contains sub s"
  then show "\<exists>a b. s = a @ sub @ b" by (metis contains_def index_of_split not_None_eq)
next
  have "index_of sub (a @ sub @ b) \<noteq> None" for a b
    by (induction a) (cases "sub @ b", auto dest: prefixI [OF sym])
  moreover assume "\<exists>a b. s = a @ sub @ b"
  ultimately show "contains sub s" by (auto simp: contains_def)
qed

lemma contains_append_left: "\<not> contains sub (a @ b) \<Longrightarrow> \<not> contains sub a \<and> \<not> contains sub b"
  by (metis append.assoc contains_sublist)

text \<open>The first occurrence is at the first place where one can start.\<close>

lemma index_of_first:
  assumes "\<forall>j < length a. \<not> prefix sub (drop j (a @ sub @ b))"
  shows "index_of sub (a @ sub @ b) = Some (length a)"
  using assms
proof (induction a)
  case Nil
  then show ?case by (cases "sub @ b") (auto intro: prefixI [OF sym])
next
  case (Cons c a)
  have "\<not> prefix sub (drop j (a @ sub @ b))" if "j < length a" for j
    using Cons.prems [rule_format, of "Suc j"] that by simp
  moreover have "\<not> prefix sub (c # a @ sub @ b)" using Cons.prems [rule_format, of 0] by simp
  ultimately show ?case using Cons.IH by simp
qed

lemma index_of_char:
  "c \<notin> set a \<Longrightarrow> index_of [c] (a @ c # b) = Some (length a)"
  by (induction a) (auto simp: prefix_Cons)

lemma index_of_char_None: "index_of [c] s = None \<longleftrightarrow> c \<notin> set s"
  by (induction s) (auto simp: prefix_Cons)

lemma cut_at_char: "c \<notin> set a \<Longrightarrow> cut_at [c] (a @ c # b) = (a, b, True)"
  by (simp add: cut_at_def index_of_char)

lemma cut_at_found: "cut_at sep s = (a, b, True) \<Longrightarrow> s = a @ sep @ b"
  using index_of_split by (auto simp: cut_at_def split: option.splits)

subsection \<open>Replacing, joining and splitting\<close>

lemma replace_all_char: "replace_all [c] [] s = filter (\<lambda>x. x \<noteq> c) s"
  by (induction s) (auto simp: prefix_Cons)

lemma replace_all_none: "\<not> contains old s \<Longrightarrow> replace_all old new s = s"
proof (induction s)
  case (Cons c s)
  then show ?case by (cases "old = []") (auto simp: contains_Cons)
qed simp

lemma join_split_on: "join_with [c] (split_on c s) = s"
proof (induction s)
  case (Cons x s)
  obtain p ps where p: "split_on c s = p # ps" by (cases "split_on c s") simp_all
  with Cons show ?case by (cases ps) auto
qed simp

lemma split_on_parts: "p \<in> set (split_on c s) \<Longrightarrow> c \<notin> set p"
proof (induction s arbitrary: p)
  case (Cons x s)
  obtain q qs where "split_on c s = q # qs" by (cases "split_on c s") simp_all
  with Cons show ?case by (auto split: if_splits)
qed simp

subsection \<open>ASCII text and two digits\<close>

lemma pad2_digits:
  assumes "0 \<le> i" and "i < 100"
  shows "pad2 i = [digit_char (nat i div 10), digit_char (nat i mod 10)]"
proof -
  have d: "digits_of 10 n = (if n < 10 then [n] else [n div 10, n mod 10])" if "n < 100" for n
  proof -
    have "n div 10 < 10" using that by linarith
    then show ?thesis by (simp add: digits_of.simps [of 10 n] digits_of.simps [of 10 "n div 10"])
  qed
  have "digit_char 0 = CHR ''0''" by (simp add: digit_char_def)
  then show ?thesis using assms d [of "nat i"]
    by (auto simp: pad2_def pad_left_def dec_of_int_def dec_of_nat_def numeral_2_eq_2)
qed

lemma digit_byte_facts:
  assumes "d < 10"
  shows "byte (digit_char d) < 128" "\<not> is_space (byte (digit_char d))" "is_digit (digit_char d)"
    "digit_char d \<noteq> CHR '':''" "digit_char d \<noteq> CHR ''-''" "digit_char d \<noteq> CHR ''+''"
proof -
  have "byte c \<noteq> byte (digit_char d) \<Longrightarrow> digit_char d \<noteq> c" for c by auto
  then show "digit_char d \<noteq> CHR '':''" "digit_char d \<noteq> CHR ''-''" "digit_char d \<noteq> CHR ''+''"
    using assms by (simp_all add: byte_digit) (simp_all add: byte_def)
qed (use assms in \<open>simp_all add: byte_digit is_space_def is_digit_def\<close>)

lemma two_digits:
  assumes "0 \<le> i" and "i < 100"
  obtains a b where "pad2 i = [a, b]" "atoi [a, b] = Some i" "a \<noteq> CHR '':''" "b \<noteq> CHR '':''"
    "byte a < 128" "byte b < 128" "\<not> is_space (byte a)" "\<not> is_space (byte b)"
proof -
  let ?a = "digit_char (nat i div 10)" and ?b = "digit_char (nat i mod 10)"
  have d: "nat i div 10 < 10" "nat i mod 10 < 10" using assms by linarith+
  have "dec_value [?a, ?b] = nat i"
    using d by (simp add: dec_value_def byte_digit)
  then have "atoi [?a, ?b] = Some i"
    using digit_byte_facts [OF d(1)] digit_byte_facts [OF d(2)] assms by (simp add: atoi_def Let_def)
  then show ?thesis
    using that [OF pad2_digits [OF assms]] digit_byte_facts [OF d(1)] digit_byte_facts [OF d(2)] by blast
qed

lemma rune_chunks_ascii: "\<forall>c \<in> set s. byte c < 128 \<Longrightarrow> rune_chunks s = map (\<lambda>c. (byte c, [c])) s"
proof (induction s rule: rev_induct)
  case (snoc c s)
  then show ?case using rune_chunks_snoc_ascii [of c s] by simp
qed simp

lemma trim_space_ascii:
  assumes "\<forall>c \<in> set s. byte c < 128" and "s \<noteq> []" and "\<not> is_space (byte (hd s))"
    and "\<not> is_space (byte (last s))"
  shows "trim_space s = s"
proof -
  let ?cs = "map (\<lambda>c. (byte c, [c])) s"
  have "dropWhile (\<lambda>c. is_space (fst c)) ?cs = ?cs"
    using assms(2,3) by (cases s) simp_all
  moreover have "dropWhile (\<lambda>c. is_space (fst c)) (rev ?cs) = rev ?cs"
    using assms(2,4) by (cases s rule: rev_cases) simp_all
  ultimately have "trim_chunks ?cs = ?cs" by (simp add: trim_chunks_def)
  moreover have "concat (map snd ?cs) = s" by (induction s) simp_all
  ultimately show ?thesis by (simp add: trim_space_def rune_chunks_ascii [OF assms(1)])
qed

end
