(* ===== verification/Go_Duration.thy ===== *)
theory Go_Duration
  imports Go_Text Go_Time "HOL-Library.Log_Nat"
begin

section \<open>Durations as text\<close>

text \<open>
  \<open>time.ParseDuration\<close> and \<open>Duration.String\<close>, with the float64 arithmetic that fractions go
  through, and on top of them \<open>internal/manager/domain/duration.go\<close>, which adds a unit for days.
\<close>

subsection \<open>float64\<close>

text \<open>
  A non-negative float64 is the rational it stands for. \<open>f64\<close> rounds a rational to 53 bits,
  ties to even, with the subnormal spacing at the bottom. Values from \<open>2 ^ 1024\<close> on, which are
  infinite in the format, keep their rounding here; where that can be seen it is tested.
\<close>

definition round_even :: "rat \<Rightarrow> int" where
  "round_even x =
     (let f = \<lfloor>x\<rfloor>; r = x - of_int f
      in if r < 1 / 2 then f else if 1 / 2 < r then f + 1 else if even f then f else f + 1)"

definition binary_exponent :: "rat \<Rightarrow> int" where
  "binary_exponent x =
     (case quotient_of x of (a, b) \<Rightarrow>
        let e = bitlen a - bitlen b
        in if 2 powi e \<le> x then e else e - 1)"

definition f64 :: "rat \<Rightarrow> rat" where
  "f64 x =
     (if x \<le> 0 then 0
      else let q = max (binary_exponent x - 52) (- 1074)
           in of_int (round_even (x / 2 powi q)) * 2 powi q)"

lemma round_even_int [simp]: "round_even (of_int n) = n"
  by (simp add: round_even_def)

lemma binary_exponent_le:
  assumes "0 < x"
  shows "2 powi binary_exponent x \<le> x"
proof -
  obtain a b where q: "quotient_of x = (a, b)" by (cases "quotient_of x")
  then have b: "0 < b" and x: "x = of_int a / of_int b"
    using quotient_of_denom_pos quotient_of_div by blast+
  with assms have a: "0 < a" by (simp add: zero_less_divide_iff)
  define m n where "m = nat (bitlen a - 1)" and "n = nat (bitlen b)"
  have l: "2 ^ m \<le> a" "b \<le> 2 ^ n"
    using bitlen_bounds [OF a] bitlen_bounds [OF b] by (simp_all add: m_def n_def)
  have "(of_int (2 ^ m) :: rat) \<le> of_int a" "of_int b \<le> (of_int (2 ^ n) :: rat)"
    using l by (simp_all only: of_int_le_iff)
  then have "(2 ^ m :: rat) / 2 ^ n \<le> x"
    unfolding x using a b by (intro frac_le) simp_all
  moreover have "(2 :: rat) powi (bitlen a - bitlen b - 1) = 2 ^ m / 2 ^ n"
  proof -
    have "bitlen a - bitlen b - 1 = int m - int n"
      using a bitlen_nonneg [of b] by (simp add: m_def n_def bitlen_alt_def)
    then show ?thesis by (simp add: power_int_diff)
  qed
  ultimately show ?thesis
    by (simp add: binary_exponent_def q Let_def)
qed

text \<open>Integers of at most 53 bits, times a power of two, are floats already.\<close>

lemma f64_exact:
  assumes "0 \<le> m" and "m < 2 ^ 53"
  shows "f64 (of_int (m * 2 ^ k)) = of_int (m * 2 ^ k)"
proof (cases "m = 0")
  case True
  then show ?thesis by (simp add: f64_def)
next
  case False
  define x :: rat where "x = of_int (m * 2 ^ k)"
  define q where "q = max (binary_exponent x - 52) (- 1074)"
  have pos: "0 < x" using False assms by (simp add: x_def)
  have "x = of_int m * 2 ^ k" by (simp add: x_def)
  also have "\<dots> < 2 ^ 53 * 2 ^ k"
  proof (rule mult_strict_right_mono)
    have "(of_int m :: rat) < of_int (2 ^ 53)" using assms(2) by (simp only: of_int_less_iff)
    then show "(of_int m :: rat) < 2 ^ 53" by simp
  qed simp
  finally have "x < 2 powi (53 + int k)" by (simp add: power_int_add)
  then have "(2 :: rat) powi binary_exponent x < 2 powi (53 + int k)"
    using binary_exponent_le [OF pos] by simp
  then have "binary_exponent x < 53 + int k"
    using power_int_increasing [of "53 + int k" "binary_exponent x" "2 :: rat"] by linarith
  then have "q \<le> int k" by (simp add: q_def)
  then obtain j where j: "int k = q + int j" using zle_iff_zadd by auto
  have "x = of_int m * 2 powi (q + int j)" by (simp add: x_def j [symmetric])
  then have x: "x = of_int (m * 2 ^ j) * 2 powi q" by (simp add: power_int_add)
  then have "x / 2 powi q = of_int (m * 2 ^ j)" by simp
  moreover have "f64 x = of_int (round_even (x / 2 powi q)) * 2 powi q"
    using pos by (simp add: f64_def Let_def q_def)
  ultimately have "f64 x = of_int (m * 2 ^ j) * 2 powi q" by (simp only: round_even_int)
  then show ?thesis using x unfolding x_def by (simp only:)
qed

lemma f64_nat: "0 \<le> m \<Longrightarrow> m < 2 ^ 53 \<Longrightarrow> f64 (of_int m) = of_int m"
  using f64_exact [of m 0] by simp

subsection \<open>time.ParseDuration\<close>

text \<open>\<open>leadingInt\<close>: the digits at the start, \<open>None\<close> when they overflow.\<close>

fun leading_int :: "int \<Rightarrow> string \<Rightarrow> (int \<times> string) option" where
  "leading_int x [] = Some (x, [])"
| "leading_int x (c # s) =
     (if \<not> is_digit c then Some (x, c # s)
      else if 2 ^ 63 div 10 < x then None
      else let x' = x * 10 + int (byte c) - 48
           in if 2 ^ 63 < x' then None else leading_int x' s)"

text \<open>\<open>leadingFraction\<close>: digits beyond the width are skipped.\<close>

fun leading_fraction :: "int \<Rightarrow> rat \<Rightarrow> bool \<Rightarrow> string \<Rightarrow> int \<times> rat \<times> string" where
  "leading_fraction x scale overflow [] = (x, scale, [])"
| "leading_fraction x scale overflow (c # s) =
     (if \<not> is_digit c then (x, scale, c # s)
      else if overflow then leading_fraction x scale True s
      else if (2 ^ 63 - 1) div 10 < x then leading_fraction x scale True s
      else let y = x * 10 + int (byte c) - 48
           in if 2 ^ 63 < y then leading_fraction x scale True s
              else leading_fraction y (f64 (scale * 10)) False s)"

text \<open>The units; the two spellings of microseconds are U+00B5 and U+03BC.\<close>

definition unit_of :: "string \<Rightarrow> int option" where
  "unit_of u =
     (if u = ''ns'' then Some 1
      else if u = ''us'' \<or> u = [CHR 0xC2, CHR 0xB5, CHR ''s''] \<or> u = [CHR 0xCE, CHR 0xBC, CHR ''s'']
        then Some 1000
      else if u = ''ms'' then Some 1000000
      else if u = ''s'' then Some second
      else if u = ''m'' then Some minute
      else if u = ''h'' then Some hour
      else None)"

definition is_number_char :: "char \<Rightarrow> bool" where
  "is_number_char c \<longleftrightarrow> c = CHR ''.'' \<or> is_digit c"

text \<open>A number: its integer and fractional digits, the scale of the fraction, and what is left.\<close>

definition duration_number :: "string \<Rightarrow> (int \<times> int \<times> rat \<times> string) option" where
  "duration_number s =
     (if s = [] \<or> \<not> is_number_char (hd s) then None
      else case leading_int 0 s of
        None \<Rightarrow> None
      | Some (v, s1) \<Rightarrow>
          let pre = length s \<noteq> length s1
          in if s1 \<noteq> [] \<and> hd s1 = CHR ''.''
             then (case leading_fraction 0 1 False (tl s1) of (f, scale, s2) \<Rightarrow>
                     let post = length (tl s1) \<noteq> length s2
                     in if \<not> pre \<and> \<not> post then None else Some (v, f, scale, s2))
             else if \<not> pre then None else Some (v, 0, 1, s1))"

text \<open>A number with its unit: the nanoseconds (a \<open>uint64\<close>) and what is left.\<close>

definition duration_part :: "string \<Rightarrow> (int \<times> string) option" where
  "duration_part s =
     (case duration_number s of
        None \<Rightarrow> None
      | Some (v, f, scale, s2) \<Rightarrow>
          let u = takeWhile (\<lambda>c. \<not> is_number_char c) s2;
              s3 = dropWhile (\<lambda>c. \<not> is_number_char c) s2
          in if u = [] then None
             else case unit_of u of
               None \<Rightarrow> None
             | Some unit \<Rightarrow>
                 if 2 ^ 63 div unit < v then None
                 else if 0 < f then
                   (let w = v * unit + \<lfloor>f64 (f64 (of_int f) * f64 (of_int unit / scale))\<rfloor>
                    in if 2 ^ 63 < w then None else Some (w, s3))
                 else Some (v * unit, s3))"

lemma leading_int_shorter: "leading_int x s = Some (v, r) \<Longrightarrow> length r \<le> length s"
proof (induction x s rule: leading_int.induct)
  case (2 x c s)
  show ?case
  proof (cases "is_digit c \<and> x \<le> 2 ^ 63 div 10 \<and> x * 10 + int (byte c) - 48 \<le> 2 ^ 63")
    case True
    then have "leading_int (x * 10 + int (byte c) - 48) s = Some (v, r)" using 2(2) by simp
    then show ?thesis using 2(1) True by simp
  next
    case False
    then show ?thesis using 2(2) by (auto simp: Let_def split: if_splits)
  qed
qed simp

lemma leading_fraction_shorter: "length (snd (snd (leading_fraction x scale b s))) \<le> length s"
  by (induction x scale b s rule: leading_fraction.induct) (auto simp: Let_def le_SucI)

lemma duration_number_shorter:
  assumes "duration_number s = Some (v, f, scale, r)"
  shows "length r \<le> length s"
proof -
  obtain n s1 where l: "leading_int 0 s = Some (n, s1)"
    using assms by (auto simp: duration_number_def split: if_splits option.splits)
  then have "r = s1 \<or> r = snd (snd (leading_fraction 0 1 False (tl s1)))"
    using assms by (auto simp: duration_number_def Let_def split: if_splits prod.splits)
  moreover have "length (snd (snd (leading_fraction 0 1 False (tl s1)))) \<le> length s1"
    using leading_fraction_shorter [of 0 1 False "tl s1"] by simp
  ultimately show ?thesis using leading_int_shorter [OF l] by auto
qed

lemma duration_part_shorter:
  assumes "duration_part s = Some (v, r)"
  shows "length r < length s"
proof -
  let ?p = "\<lambda>c. \<not> is_number_char c"
  obtain n f scale s2 where n: "duration_number s = Some (n, f, scale, s2)"
    using assms by (auto simp: duration_part_def split: option.splits)
  with assms have "takeWhile ?p s2 \<noteq> []" "r = dropWhile ?p s2"
    by (auto simp: duration_part_def Let_def split: if_splits option.splits)
  moreover have "length (takeWhile ?p s2) + length (dropWhile ?p s2) = length s2"
    by (metis length_append takeWhile_dropWhile_id)
  moreover have "length s2 \<le> length s" using duration_number_shorter [OF n] .
  ultimately show ?thesis by (cases "takeWhile ?p s2") simp_all
qed

text \<open>The sum is a \<open>uint64\<close> and wraps before it is compared with the limit.\<close>

function duration_sum :: "int \<Rightarrow> string \<Rightarrow> int option" where
  "duration_sum d s =
     (if s = [] then Some d
      else case duration_part s of
        None \<Rightarrow> None
      | Some (v, r) \<Rightarrow>
          (let d' = (d + v) mod 2 ^ 64 in if 2 ^ 63 < d' then None else duration_sum d' r))"
  by auto
termination
  by (relation "measure (\<lambda>(d, s). length s)") (auto dest: duration_part_shorter)

declare duration_sum.simps [simp del]

definition go_parse_duration :: "string \<Rightarrow> duration option" where
  "go_parse_duration s =
     (let neg = (s \<noteq> [] \<and> hd s = CHR ''-'');
          r = (if s \<noteq> [] \<and> (hd s = CHR ''-'' \<or> hd s = CHR ''+'') then tl s else s)
      in if r = ''0'' then Some 0
         else if r = [] then None
         else case duration_sum 0 r of
           None \<Rightarrow> None
         | Some d \<Rightarrow> if neg then Some (- d) else if 2 ^ 63 - 1 < d then None else Some d)"


subsection \<open>Duration.String\<close>

text \<open>\<open>fmtFrac\<close>: the last digits of a number after a point, without trailing zeros.\<close>

fun fmt_frac :: "nat \<Rightarrow> int \<Rightarrow> bool \<Rightarrow> string \<Rightarrow> string \<times> int" where
  "fmt_frac 0 v print acc = (if print then CHR ''.'' # acc else acc, v)"
| "fmt_frac (Suc n) v print acc =
     (let d = v mod 10; print' = (print \<or> d \<noteq> 0)
      in fmt_frac n (v div 10) print' (if print' then digit_char (nat d) # acc else acc))"

definition small_duration :: "nat \<Rightarrow> string \<Rightarrow> int \<Rightarrow> string" where
  "small_duration prec unit u =
     (case fmt_frac prec u False [] of (fr, whole) \<Rightarrow> dec_of_int whole @ fr @ unit)"

definition micro_sign :: string where
  "micro_sign = [CHR 0xC2, CHR 0xB5, CHR ''s'']"

definition duration_string :: "duration \<Rightarrow> string" where
  "duration_string d =
     (let u = \<bar>d\<bar>;
          body = (if u < 1000 then small_duration 0 ''ns'' u
                  else if u < 1000000 then small_duration 3 micro_sign u
                  else if u < second then small_duration 6 ''ms'' u
                  else case fmt_frac 9 u False [] of (fr, secs) \<Rightarrow>
                    let mins = secs div 60; hours = mins div 60
                    in (if 0 < hours then dec_of_int hours @ ''h'' else []) @
                       (if 0 < mins then dec_of_int (mins mod 60) @ ''m'' else []) @
                       dec_of_int (secs mod 60) @ fr @ ''s'')
      in if d = 0 then ''0s'' else if d < 0 then CHR ''-'' # body else body)"

subsection \<open>duration.go\<close>

text \<open>
  \<open>strconv.ParseFloat\<close> on digits with an optional fraction, and the conversion of a
  non-negative float64 to \<open>int64\<close>, which the language leaves to the platform out of range.
\<close>

definition decimal_value :: "string \<Rightarrow> rat" where
  "decimal_value s =
     (let a = takeWhile is_digit s; b = drop 1 (dropWhile is_digit s)
      in of_nat (dec_value (a @ b)) / 10 ^ length b)"

definition parse_float :: "string \<Rightarrow> rat option" where
  "parse_float s = (let x = f64 (decimal_value s) in if 2 ^ 1024 \<le> x then None else Some x)"

definition to_int64 :: "int \<Rightarrow> rat \<Rightarrow> int" where
  "to_int64 beyond x = (if x < 2 ^ 63 then \<lfloor>x\<rfloor> else beyond)"

text \<open>A match of \<open>([0-9]+(?:\.[0-9]+)?)d\<close> at the start of a text, without the unit.\<close>

definition day_match :: "string \<Rightarrow> string option" where
  "day_match s =
     (let a = takeWhile is_digit s
      in if a = [] then None
         else case dropWhile is_digit s of
           [] \<Rightarrow> None
         | c # t \<Rightarrow>
             if c = CHR ''d'' then Some a
             else if c = CHR ''.'' then
               (let b = takeWhile is_digit t; r = dropWhile is_digit t
                in if b \<noteq> [] \<and> r \<noteq> [] \<and> hd r = CHR ''d'' then Some (a @ CHR ''.'' # b) else None)
             else None)"

text \<open>The replacement of one match: nanoseconds, to avoid the rounding of hours.\<close>

definition day_nanoseconds :: "int \<Rightarrow> string \<Rightarrow> string option" where
  "day_nanoseconds beyond m =
     map_option (\<lambda>days. dec_of_int (to_int64 beyond (f64 (f64 (days * 24) * of_int hour))) @ ''ns'')
       (parse_float m)"

function expand_day_unit :: "int \<Rightarrow> string \<Rightarrow> string option" where
  "expand_day_unit beyond [] = Some []"
| "expand_day_unit beyond (c # s) =
     (case day_match (c # s) of
        None \<Rightarrow> map_option ((#) c) (expand_day_unit beyond s)
      | Some m \<Rightarrow>
          (case (day_nanoseconds beyond m, expand_day_unit beyond (drop (length m) s)) of
             (Some t, Some r) \<Rightarrow> Some (t @ r)
           | _ \<Rightarrow> None))"
  by pat_completeness auto
termination
  by (relation "measure (\<lambda>(b, s). length s)") auto

definition parse_duration :: "int \<Rightarrow> string \<Rightarrow> duration option" where
  "parse_duration beyond s =
     (let trimmed = trim_space s
      in if trimmed = [] then None
         else case expand_day_unit beyond trimmed of
           None \<Rightarrow> None
         | Some converted \<Rightarrow> go_parse_duration converted)"

definition format_duration :: "duration \<Rightarrow> string" where
  "format_duration d = duration_string d"

end
