(* ===== verification/Error_Text.thy ===== *)
theory Error_Text
  imports Domain_Errors Go_Duration
begin

section \<open>The text of validation errors\<close>

text \<open>
  \<open>ValidationError.Error\<close> of \<open>internal/manager/domain/errors.go\<close>: the text a user sees when an
  input is refused. The messages are kept as their formats with arguments (\<open>message_text\<close>)
  and printed here, \<open>%q\<close> as \<open>strconv.Quote\<close>. Which runes are printable is the table of the
  package \<open>unicode\<close>, a parameter; so is the text of an error that is no validation error.
\<close>

record error_texts =
  et_is_print :: "rune \<Rightarrow> bool"
  et_error :: "err \<Rightarrow> string"

definition escape_letter :: "rune \<Rightarrow> char option" where
  "escape_letter r =
     map_of [(7, CHR ''a''), (8, CHR ''b''), (9, CHR ''t''), (10, CHR ''n''), (11, CHR ''v''),
       (12, CHR ''f''), (13, CHR ''r'')] r"

definition quote_rune :: "(rune \<Rightarrow> bool) \<Rightarrow> rune \<times> string \<Rightarrow> string" where
  "quote_rune is_print chunk =
     (case chunk of (r, bs) \<Rightarrow>
        if r = rune_error \<and> length bs = 1 then CHR 0x5C # ''x'' @ hex_padded 2 (byte (hd bs))
        else if r = 34 \<or> r = 92 then CHR 0x5C # bs
        else if is_print r then bs
        else case escape_letter r of
          Some c \<Rightarrow> [CHR 0x5C, c]
        | None \<Rightarrow>
            if r < 32 \<or> r = 127 then CHR 0x5C # ''x'' @ hex_padded 2 r
            else if r < 65536 then CHR 0x5C # ''u'' @ hex_padded 4 r
            else CHR 0x5C # ''U'' @ hex_padded 8 r)"

definition quote_string :: "(rune \<Rightarrow> bool) \<Rightarrow> string \<Rightarrow> string" where
  "quote_string is_print s =
     CHR 0x22 # concat (map (quote_rune is_print) (rune_chunks s)) @ [CHR 0x22]"

fun message_string :: "error_texts \<Rightarrow> message_text \<Rightarrow> string" where
  "message_string t MustNotBeEmpty = ''must not be empty''"
| "message_string t (MustNotExceedCharacters n) =
     ''must not exceed '' @ dec_of_nat n @ '' characters''"
| "message_string t (MustNotExceedEntries n) = ''must not exceed '' @ dec_of_nat n @ '' entries''"
| "message_string t MustBePositive = ''must be positive''"
| "message_string t (MustBePositiveGot d) = ''must be positive, got '' @ duration_string d"
| "message_string t (DuplicatedEntry d) = ''duplicated entry '' @ duration_string d"
| "message_string t (MustBeAtLeast d) = ''must be at least '' @ duration_string d"
| "message_string t MustBeHHMM = ''must be HH:MM''"
| "message_string t MustNotBeNegative = ''must not be negative''"
| "message_string t MustBeObjectId = ''must be an object id''"
| "message_string t MustBeInTheFuture = ''must be in the future''"
| "message_string t MustBeAfterStartsAt = ''must be after starts_at''"
| "message_string t PrefixCharacters =
     ''must consist of lowercase letters, digits, '' @ [CHR 0x27, CHR ''-'', CHR 0x27] @
     '' and '' @ [CHR 0x27, CHR ''_'', CHR 0x27]"
| "message_string t (UnknownValue what v) =
     ''unknown '' @ what @ '' '' @ quote_string (et_is_print t) v"
| "message_string t (GeneratesReminders n limit) =
     ''generates '' @ dec_of_nat n @ '' reminders, limit is '' @ dec_of_nat limit"
| "message_string t (TextOf e) = et_error t e"

definition validation_text :: "error_texts \<Rightarrow> field_error list \<Rightarrow> string" where
  "validation_text t fs =
     ''validation failed: '' @
     join_with '', '' (map (\<lambda>f. fe_field f @ '': '' @ message_string t (fe_message f)) fs)"

end
