(* ===== verification/Mongo_Documents.thy ===== *)
theory Mongo_Documents
  imports Store_Participations Store_Events Error_Text
begin

section \<open>The documents of the MongoDB repository\<close>

text \<open>
  \<open>internal/manager/store/mongo/docs.go\<close> and \<open>convert.go\<close>. A document struct is the list of its
  fields under the names of their tags, without those that are \<open>omitempty\<close> and empty; its dates
  are instants in nanoseconds as in Go, and \<open>marshal\<close>, what the driver does on the way out, cuts them
  to the millisecond a BSON date has. A field that is missing or null is read as the zero
  value. \<open>bson.ObjectID\<close> is its hexadecimal text; \<open>bson.ObjectIDFromHex\<close> is the parameter \<open>from_hex\<close>.

  The strings of the types whose datatype has no constructor for other values are those the code
  stores; a foreign string, which the code would carry along, is read as the last of them.
\<close>

datatype bson =
    BNull
  | BBool bool
  | BInt int
  | BStr string
  | BDate time
  | BOid string
  | BArr "bson list"
  | BDoc "(string \<times> bson) list"

type_synonym document = "(string \<times> bson) list"

definition in_millis :: "time \<Rightarrow> time" where
  "in_millis t = t div 1000000 * 1000000"

primrec marshal :: "bson \<Rightarrow> bson" where
  "marshal BNull = BNull"
| "marshal (BBool b) = BBool b"
| "marshal (BInt i) = BInt i"
| "marshal (BStr s) = BStr s"
| "marshal (BDate t) = BDate (in_millis t)"
| "marshal (BOid i) = BOid i"
| "marshal (BArr xs) = BArr (map marshal xs)"
| "marshal (BDoc kvs) = BDoc (map (map_prod id marshal) kvs)"

definition stored :: "document \<Rightarrow> document" where
  "stored d = map (map_prod id marshal) d"

subsection \<open>Fields\<close>

definition nil_object_id :: string where "nil_object_id = replicate 24 (CHR ''0'')"

definition str_field :: "document \<Rightarrow> string \<Rightarrow> string" where
  "str_field d k = (case map_of d k of Some (BStr s) \<Rightarrow> s | _ \<Rightarrow> [])"

definition int_field :: "document \<Rightarrow> string \<Rightarrow> int" where
  "int_field d k = (case map_of d k of Some (BInt i) \<Rightarrow> i | _ \<Rightarrow> 0)"

definition bool_field :: "document \<Rightarrow> string \<Rightarrow> bool" where
  "bool_field d k = (case map_of d k of Some (BBool b) \<Rightarrow> b | _ \<Rightarrow> False)"

definition opt_date_field :: "document \<Rightarrow> string \<Rightarrow> time option" where
  "opt_date_field d k = (case map_of d k of Some (BDate t) \<Rightarrow> Some t | _ \<Rightarrow> None)"

definition date_field :: "document \<Rightarrow> string \<Rightarrow> time" where
  "date_field d k = (case opt_date_field d k of Some t \<Rightarrow> t | None \<Rightarrow> zero_time)"

definition opt_oid_field :: "document \<Rightarrow> string \<Rightarrow> string option" where
  "opt_oid_field d k = (case map_of d k of Some (BOid i) \<Rightarrow> Some i | _ \<Rightarrow> None)"

definition oid_field :: "document \<Rightarrow> string \<Rightarrow> string" where
  "oid_field d k = (case opt_oid_field d k of Some i \<Rightarrow> i | None \<Rightarrow> nil_object_id)"

definition opt_doc_field :: "document \<Rightarrow> string \<Rightarrow> document option" where
  "opt_doc_field d k = (case map_of d k of Some (BDoc e) \<Rightarrow> Some e | _ \<Rightarrow> None)"

definition doc_field :: "document \<Rightarrow> string \<Rightarrow> document" where
  "doc_field d k = (case opt_doc_field d k of Some e \<Rightarrow> e | None \<Rightarrow> [])"

definition array_field :: "document \<Rightarrow> string \<Rightarrow> bson list" where
  "array_field d k = (case map_of d k of Some (BArr xs) \<Rightarrow> xs | _ \<Rightarrow> [])"

definition opt_date :: "time option \<Rightarrow> bson" where
  "opt_date t = (case t of None \<Rightarrow> BNull | Some t \<Rightarrow> BDate t)"

text \<open>An \<open>omitempty\<close> string, and a pointer to a document that is.\<close>

definition omit_empty :: "string \<Rightarrow> string \<Rightarrow> document" where
  "omit_empty k s = (if s = [] then [] else [(k, BStr s)])"

definition omit_nil :: "string \<Rightarrow> document option \<Rightarrow> document" where
  "omit_nil k d = (case d of None \<Rightarrow> [] | Some e \<Rightarrow> [(k, BDoc e)])"

definition object_id :: "(string \<Rightarrow> string option) \<Rightarrow> string \<Rightarrow> string result" where
  "object_id from_hex i =
     (case from_hex i of
        None \<Rightarrow> Inl (ErrWrapped ''invalid id'' ErrNotFound)
      | Some oid \<Rightarrow> Inr oid)"

fun object_ids :: "(string \<Rightarrow> string option) \<Rightarrow> string list \<Rightarrow> string list result" where
  "object_ids from_hex [] = Inr []"
| "object_ids from_hex (i # rest) =
     (case object_id from_hex i of
        Inl e \<Rightarrow> Inl e
      | Inr oid \<Rightarrow> (case object_ids from_hex rest of Inl e \<Rightarrow> Inl e | Inr oids \<Rightarrow> Inr (oid # oids)))"

subsection \<open>The strings of enumerated values\<close>

fun mode_text :: "reminder_mode \<Rightarrow> string" where
  "mode_text ModeOffsets = ''offsets''"
| "mode_text ModeInterval = ''interval''"
| "mode_text ModeNone = ''none''"
| "mode_text (ModeOther s) = s"

definition mode_of :: "string \<Rightarrow> reminder_mode" where
  "mode_of s = (if s = ''offsets'' then ModeOffsets else if s = ''interval'' then ModeInterval
     else if s = ''none'' then ModeNone else ModeOther s)"

fun provider_text :: "provider_kind \<Rightarrow> string" where
  "provider_text ProviderKindSlack = ''slack''"
| "provider_text ProviderKindDiscord = ''discord''"
| "provider_text (ProviderKindOther s) = s"

definition provider_of :: "string \<Rightarrow> provider_kind" where
  "provider_of s = (if s = ''slack'' then ProviderKindSlack
     else if s = ''discord'' then ProviderKindDiscord else ProviderKindOther s)"

fun provider_status_text :: "provider_status \<Rightarrow> string" where
  "provider_status_text ProviderStatusOnline = ''online''"
| "provider_status_text ProviderStatusOffline = ''offline''"

definition provider_status_of :: "string \<Rightarrow> provider_status" where
  "provider_status_of s = (if s = ''online'' then ProviderStatusOnline else ProviderStatusOffline)"

fun event_status_text :: "event_status \<Rightarrow> string" where
  "event_status_text EventStatusOpen = ''open''"
| "event_status_text EventStatusEnded = ''ended''"
| "event_status_text EventStatusCanceled = ''canceled''"

definition event_status_of :: "string \<Rightarrow> event_status" where
  "event_status_of s = (if s = ''open'' then EventStatusOpen
     else if s = ''ended'' then EventStatusEnded else EventStatusCanceled)"

fun end_reason_text :: "end_reason \<Rightarrow> string" where
  "end_reason_text NoEndReason = []"
| "end_reason_text EndReasonManual = ''manual''"
| "end_reason_text EndReasonAuto = ''auto''"
| "end_reason_text EndReasonCanceled = ''canceled''"
| "end_reason_text EndReasonProvisionFailed = ''provision_failed''"
| "end_reason_text EndReasonChannelLost = ''channel_lost''"

definition end_reason_of :: "string \<Rightarrow> end_reason" where
  "end_reason_of s = (if s = [] then NoEndReason else if s = ''manual'' then EndReasonManual
     else if s = ''auto'' then EndReasonAuto else if s = ''canceled'' then EndReasonCanceled
     else if s = ''provision_failed'' then EndReasonProvisionFailed else EndReasonChannelLost)"

fun created_via_text :: "created_via \<Rightarrow> string" where
  "created_via_text CreatedViaChat = ''chat''"
| "created_via_text CreatedViaConsole = ''console''"
| "created_via_text (CreatedViaOther s) = s"

definition created_via_of :: "string \<Rightarrow> created_via" where
  "created_via_of s = (if s = ''chat'' then CreatedViaChat
     else if s = ''console'' then CreatedViaConsole else CreatedViaOther s)"

fun role_text :: "participation_role \<Rightarrow> string" where
  "role_text RoleParticipant = ''participant''"
| "role_text RolePeeker = ''peeker''"
| "role_text (RoleOther s) = s"

definition role_of :: "string \<Rightarrow> participation_role" where
  "role_of s = (if s = ''participant'' then RoleParticipant
     else if s = ''peeker'' then RolePeeker else RoleOther s)"

fun participation_status_text :: "participation_status \<Rightarrow> string" where
  "participation_status_text ParticipationActive = ''active''"
| "participation_status_text ParticipationExpired = ''expired''"
| "participation_status_text ParticipationRemoved = ''removed''"
| "participation_status_text ParticipationLeft = ''left''"

definition participation_status_of :: "string \<Rightarrow> participation_status" where
  "participation_status_of s = (if s = ''active'' then ParticipationActive
     else if s = ''expired'' then ParticipationExpired
     else if s = ''removed'' then ParticipationRemoved else ParticipationLeft)"

fun job_kind_text :: "job_kind \<Rightarrow> string" where
  "job_kind_text JobReminder = ''reminder''"
| "job_kind_text JobPeekExpire = ''peek_expire''"
| "job_kind_text JobEventAutoEnd = ''event_auto_end''"
| "job_kind_text JobArchiveChannel = ''archive_channel''"
| "job_kind_text (JobKindOther s) = s"

definition job_kind_of :: "string \<Rightarrow> job_kind" where
  "job_kind_of s = (if s = ''reminder'' then JobReminder else if s = ''peek_expire'' then JobPeekExpire
     else if s = ''event_auto_end'' then JobEventAutoEnd
     else if s = ''archive_channel'' then JobArchiveChannel else JobKindOther s)"

fun job_status_text :: "job_status \<Rightarrow> string" where
  "job_status_text JobPending = ''pending''"
| "job_status_text JobRunning = ''running''"
| "job_status_text JobDone = ''done''"
| "job_status_text JobFailed = ''failed''"
| "job_status_text JobCanceled = ''canceled''"

definition job_status_of :: "string \<Rightarrow> job_status" where
  "job_status_of s = (if s = ''pending'' then JobPending else if s = ''running'' then JobRunning
     else if s = ''done'' then JobDone else if s = ''failed'' then JobFailed else JobCanceled)"

fun target_kind_text :: "reminder_target_kind \<Rightarrow> string" where
  "target_kind_text ReminderTargetEvent = ''event''"
| "target_kind_text ReminderTargetRecruit = ''recruit''"

definition target_kind_of :: "string \<Rightarrow> reminder_target_kind" where
  "target_kind_of s = (if s = ''event'' then ReminderTargetEvent else ReminderTargetRecruit)"

fun origin_text :: "account_origin \<Rightarrow> string" where
  "origin_text AccountOriginLink = ''link''"
| "origin_text AccountOriginAllowlist = ''allowlist''"

definition origin_of :: "string \<Rightarrow> account_origin" where
  "origin_of s = (if s = ''link'' then AccountOriginLink else AccountOriginAllowlist)"

subsection \<open>Reminder policies and settings\<close>

definition encode_reminder_policy :: "reminder_policy \<Rightarrow> document" where
  "encode_reminder_policy p =
     [(''mode'', BStr (mode_text (rp_mode p)))] @
     (if rp_offsets p = [] then []
      else [(''offsets'', BArr (map (\<lambda>d. BStr (format_duration d)) (rp_offsets p)))]) @
     (if rp_mode p = ModeInterval then
        omit_empty ''every'' (format_duration (rp_every p)) @
        omit_empty ''at'' (tod_string (rp_at p)) @
        omit_empty ''finalOffset'' (format_duration (rp_final_offset p))
      else [])"

definition decode_duration :: "string \<Rightarrow> string \<Rightarrow> duration result" where
  "decode_duration what s =
     (case go_parse_duration s of
        None \<Rightarrow> Inl (ErrWrapped what (ErrText s))
      | Some d \<Rightarrow> Inr d)"

fun decode_offsets :: "bson list \<Rightarrow> duration list result" where
  "decode_offsets [] = Inr []"
| "decode_offsets (x # xs) =
     (case decode_duration ''decode reminder offset'' (case x of BStr s \<Rightarrow> s | _ \<Rightarrow> []) of
        Inl e \<Rightarrow> Inl e
      | Inr d \<Rightarrow> (case decode_offsets xs of Inl e \<Rightarrow> Inl e | Inr ds \<Rightarrow> Inr (d # ds)))"

definition decode_optional :: "string \<Rightarrow> string \<Rightarrow> duration result" where
  "decode_optional what s = (if s = [] then Inr 0 else decode_duration what s)"

definition decode_time_of_day :: "string \<Rightarrow> string \<Rightarrow> time_of_day result" where
  "decode_time_of_day what s =
     (case parse_time_of_day s of
        None \<Rightarrow> Inl (ErrWrapped what (ErrText s))
      | Some t \<Rightarrow> Inr t)"

definition decode_reminder_policy :: "document \<Rightarrow> reminder_policy result" where
  "decode_reminder_policy d =
     (case decode_offsets (array_field d ''offsets'') of Inl e \<Rightarrow> Inl e | Inr offsets \<Rightarrow>
      case decode_optional ''decode reminder interval'' (str_field d ''every'') of
        Inl e \<Rightarrow> Inl e | Inr every \<Rightarrow>
      case decode_optional ''decode reminder final offset'' (str_field d ''finalOffset'') of
        Inl e \<Rightarrow> Inl e | Inr final_offset \<Rightarrow>
      case (if str_field d ''at'' = [] then Inr zero_time_of_day
            else decode_time_of_day ''decode reminder time'' (str_field d ''at'')) of
        Inl e \<Rightarrow> Inl e | Inr tod \<Rightarrow>
      Inr \<lparr>rp_mode = mode_of (str_field d ''mode''), rp_offsets = offsets, rp_every = every,
           rp_at = tod, rp_final_offset = final_offset\<rparr>)"

definition encode_workspace_settings :: "workspace_settings \<Rightarrow> document" where
  "encode_workspace_settings s =
     [(''recruitChannelId'', BStr (wss_recruit_channel_id s)),
      (''timezone'', BStr (wss_timezone s)),
      (''defaultReminderPolicy'', BDoc (encode_reminder_policy (wss_default_reminder_policy s))),
      (''peekDuration'', BStr (format_duration (wss_peek_duration s))),
      (''autoEndGrace'', BStr (format_duration (wss_auto_end_grace s))),
      (''channelNamePrefix'', BStr (wss_channel_name_prefix s)),
      (''defaultStartTime'', BStr (tod_string (wss_default_start_time s))),
      (''discord'', BDoc [(''eventCategoryId'', BStr (ds_event_category_id (wss_discord s))),
                        (''archiveCategoryId'', BStr (ds_archive_category_id (wss_discord s)))])]"

definition decode_workspace_settings :: "document \<Rightarrow> workspace_settings result" where
  "decode_workspace_settings d =
     (case decode_reminder_policy (doc_field d ''defaultReminderPolicy'') of
        Inl e \<Rightarrow> Inl e | Inr policy \<Rightarrow>
      case decode_duration ''decode peek duration'' (str_field d ''peekDuration'') of
        Inl e \<Rightarrow> Inl e | Inr peek \<Rightarrow>
      case decode_duration ''decode auto end grace'' (str_field d ''autoEndGrace'') of
        Inl e \<Rightarrow> Inl e | Inr grace \<Rightarrow>
      case decode_time_of_day ''decode default start time'' (str_field d ''defaultStartTime'') of
        Inl e \<Rightarrow> Inl e | Inr start_time \<Rightarrow>
      Inr \<lparr>wss_recruit_channel_id = str_field d ''recruitChannelId'',
           wss_timezone = str_field d ''timezone'', wss_default_reminder_policy = policy,
           wss_peek_duration = peek, wss_auto_end_grace = grace,
           wss_channel_name_prefix = str_field d ''channelNamePrefix'',
           wss_default_start_time = start_time,
           wss_discord =
             \<lparr>ds_event_category_id = str_field (doc_field d ''discord'') ''eventCategoryId'',
              ds_archive_category_id = str_field (doc_field d ''discord'') ''archiveCategoryId''\<rparr>\<rparr>)"

definition decode_workspace :: "document \<Rightarrow> workspace result" where
  "decode_workspace d =
     (case decode_workspace_settings (doc_field d ''settings'') of
        Inl e \<Rightarrow> Inl e
      | Inr settings \<Rightarrow>
          Inr \<lparr>ws_id = oid_field d ''_id'', ws_provider = provider_of (str_field d ''provider''),
               ws_external_id = str_field d ''externalId'', ws_name = str_field d ''name'',
               ws_settings = settings, ws_created_at = date_field d ''createdAt'',
               ws_updated_at = date_field d ''updatedAt''\<rparr>)"

subsection \<open>Events\<close>

definition encode_message_ref :: "message_ref \<Rightarrow> document" where
  "encode_message_ref r =
     [(''channelId'', BStr (mr_channel_id r)), (''messageId'', BStr (mr_message_id r))]"

definition decode_message_ref :: "document \<Rightarrow> message_ref" where
  "decode_message_ref d =
     \<lparr>mr_channel_id = str_field d ''channelId'', mr_message_id = str_field d ''messageId''\<rparr>"

definition encode_message_refs :: "message_refs \<Rightarrow> document" where
  "encode_message_refs r =
     omit_nil ''announcement'' (map_option encode_message_ref (ms_announcement r)) @
     omit_nil ''recruitAnnouncement'' (map_option encode_message_ref (ms_recruit_announcement r)) @
     omit_nil ''summary'' (map_option encode_message_ref (ms_summary r))"

definition decode_message_refs :: "document \<Rightarrow> message_refs" where
  "decode_message_refs d =
     \<lparr>ms_announcement = map_option decode_message_ref (opt_doc_field d ''announcement''),
      ms_recruit_announcement =
        map_option decode_message_ref (opt_doc_field d ''recruitAnnouncement''),
      ms_summary = map_option decode_message_ref (opt_doc_field d ''summary'')\<rparr>"

definition encode_channel :: "channel_ref \<Rightarrow> document" where
  "encode_channel c =
     [(''channelId'', BStr (ch_channel_id c)), (''name'', BStr (ch_name c)),
      (''archived'', BBool (ch_archived c))]"

text \<open>The fields after \<open>_id\<close>; the caller puts that one in front.\<close>

definition event_fields :: "string \<Rightarrow> event \<Rightarrow> document" where
  "event_fields workspace_id ev =
     [(''workspaceId'', BOid workspace_id), (''title'', BStr (ev_title ev)),
      (''description'', BStr (ev_description ev)), (''location'', BStr (ev_location ev)),
      (''startsAt'', BDate (ev_starts_at ev)), (''endsAt'', opt_date (ev_ends_at ev)),
      (''status'', BStr (event_status_text (ev_status ev))),
      (''organizer'', BDoc [(''userId'', BStr (cu_user_id (ev_organizer ev))),
                          (''displayName'', BStr (cu_display_name (ev_organizer ev)))]),
      (''originChannelId'', BStr (ev_origin_channel_id ev)),
      (''channel'', BDoc (encode_channel (ev_channel ev))),
      (''messages'', BDoc (encode_message_refs (ev_messages ev))),
      (''reminderPolicy'', BDoc (encode_reminder_policy (ev_reminder_policy ev))),
      (''participantCount'', BInt (ev_participant_count ev)),
      (''endedAt'', opt_date (ev_ended_at ev)),
      (''endReason'', BStr (end_reason_text (ev_end_reason ev))),
      (''createdVia'', BStr (created_via_text (ev_created_via ev))),
      (''createdBy'', BStr (ev_created_by ev)), (''createdAt'', BDate (ev_created_at ev)),
      (''updatedAt'', BDate (ev_updated_at ev))]"

definition encode_event :: "(string \<Rightarrow> string option) \<Rightarrow> event \<Rightarrow> document result" where
  "encode_event from_hex ev =
     (case object_id from_hex (ev_workspace_id ev) of
        Inl e \<Rightarrow> Inl e
      | Inr workspace_id \<Rightarrow>
          if ev_id ev = [] then Inr (event_fields workspace_id ev)
          else case object_id from_hex (ev_id ev) of
            Inl e \<Rightarrow> Inl e
          | Inr i \<Rightarrow> Inr ((''_id'', BOid i) # event_fields workspace_id ev))"

definition decode_event :: "document \<Rightarrow> event result" where
  "decode_event d =
     (case decode_reminder_policy (doc_field d ''reminderPolicy'') of
        Inl e \<Rightarrow> Inl e
      | Inr policy \<Rightarrow>
          Inr \<lparr>ev_id = oid_field d ''_id'', ev_workspace_id = oid_field d ''workspaceId'',
               ev_title = str_field d ''title'', ev_description = str_field d ''description'',
               ev_location = str_field d ''location'', ev_starts_at = date_field d ''startsAt'',
               ev_ends_at = opt_date_field d ''endsAt'',
               ev_status = event_status_of (str_field d ''status''),
               ev_organizer =
                 \<lparr>cu_user_id = str_field (doc_field d ''organizer'') ''userId'',
                  cu_display_name = str_field (doc_field d ''organizer'') ''displayName''\<rparr>,
               ev_origin_channel_id = str_field d ''originChannelId'',
               ev_channel =
                 \<lparr>ch_channel_id = str_field (doc_field d ''channel'') ''channelId'',
                  ch_name = str_field (doc_field d ''channel'') ''name'',
                  ch_archived = bool_field (doc_field d ''channel'') ''archived''\<rparr>,
               ev_messages = decode_message_refs (doc_field d ''messages''),
               ev_reminder_policy = policy,
               ev_participant_count = int_field d ''participantCount'',
               ev_ended_at = opt_date_field d ''endedAt'',
               ev_end_reason = end_reason_of (str_field d ''endReason''),
               ev_created_via = created_via_of (str_field d ''createdVia''),
               ev_created_by = str_field d ''createdBy'',
               ev_created_at = date_field d ''createdAt'',
               ev_updated_at = date_field d ''updatedAt''\<rparr>)"

subsection \<open>The other collections\<close>

definition decode_participation :: "document \<Rightarrow> participation" where
  "decode_participation d =
     \<lparr>pt_id = oid_field d ''_id'', pt_event_id = oid_field d ''eventId'',
      pt_workspace_id = oid_field d ''workspaceId'', pt_chat_user_id = str_field d ''chatUserId'',
      pt_display_name = str_field d ''displayName'', pt_role = role_of (str_field d ''role''),
      pt_status = participation_status_of (str_field d ''status''),
      pt_joined_at = date_field d ''joinedAt'', pt_expires_at = opt_date_field d ''expiresAt'',
      pt_peek_count = int_field d ''peekCount'', pt_updated_at = date_field d ''updatedAt''\<rparr>"

text \<open>The text of the last error; an empty one is no error.\<close>

definition decode_error :: "string \<Rightarrow> err option" where
  "decode_error s = (if s = [] then None else Some (ErrText s))"

definition decode_job :: "document \<Rightarrow> job" where
  "decode_job d =
     (let payload = doc_field d ''payload''
      in \<lparr>jb_id = oid_field d ''_id'', jb_kind = job_kind_of (str_field d ''kind''),
          jb_run_at = date_field d ''runAt'', jb_dedupe_key = str_field d ''dedupeKey'',
          jb_event_id = (case opt_oid_field d ''eventId'' of None \<Rightarrow> [] | Some i \<Rightarrow> i),
          jb_payload =
            \<lparr>jp_event_id = str_field payload ''eventId'',
             jp_participation_id = str_field payload ''participationId'',
             jp_sequence = int_field payload ''sequence'',
             jp_scheduled_for = date_field payload ''scheduledFor''\<rparr>,
          jb_status = job_status_of (str_field d ''status''),
          jb_attempts = int_field d ''attempts'', jb_max_attempts = int_field d ''maxAttempts'',
          jb_lease_until = opt_date_field d ''leaseUntil'',
          jb_last_error = decode_error (str_field d ''lastError''),
          jb_created_at = date_field d ''createdAt'', jb_updated_at = date_field d ''updatedAt'',
          jb_finished_at = opt_date_field d ''finishedAt''\<rparr>)"

definition encode_target :: "error_texts \<Rightarrow> reminder_target \<Rightarrow> document" where
  "encode_target texts t =
     [(''kind'', BStr (target_kind_text (rt_kind t))), (''channelId'', BStr (rt_channel_id t)),
      (''messageId'', BStr (rt_message_id t)), (''ok'', BBool (rt_ok t))] @
     omit_empty ''error'' (case rt_error t of None \<Rightarrow> [] | Some e \<Rightarrow> et_error texts e)"

definition decode_target :: "document \<Rightarrow> reminder_target" where
  "decode_target d =
     \<lparr>rt_kind = target_kind_of (str_field d ''kind''), rt_channel_id = str_field d ''channelId'',
      rt_message_id = str_field d ''messageId'', rt_ok = bool_field d ''ok'',
      rt_error = decode_error (str_field d ''error'')\<rparr>"

definition decode_reminder_log :: "document \<Rightarrow> reminder_log" where
  "decode_reminder_log d =
     \<lparr>rl_id = oid_field d ''_id'', rl_event_id = oid_field d ''eventId'',
      rl_sequence = int_field d ''sequence'', rl_scheduled_for = date_field d ''scheduledFor'',
      rl_sent_at = date_field d ''sentAt'',
      rl_targets = map (\<lambda>x. decode_target (case x of BDoc e \<Rightarrow> e | _ \<Rightarrow> []))
        (array_field d ''targets'')\<rparr>"

definition decode_console_user :: "document \<Rightarrow> console_user" where
  "decode_console_user d =
     \<lparr>us_id = oid_field d ''_id'', us_google_sub = str_field d ''googleSub'',
      us_email = str_field d ''email'', us_name = str_field d ''name'',
      us_picture = str_field d ''picture'', us_created_via = origin_of (str_field d ''createdVia''),
      us_created_at = date_field d ''createdAt'', us_last_login_at = date_field d ''lastLoginAt''\<rparr>"

definition decode_chat_identity :: "document \<Rightarrow> chat_identity" where
  "decode_chat_identity d =
     \<lparr>ci_id = oid_field d ''_id'', ci_console_user_id = oid_field d ''consoleUserId'',
      ci_workspace_id = oid_field d ''workspaceId'', ci_provider = provider_of (str_field d ''provider''),
      ci_workspace_external_id = str_field d ''workspaceExternalId'',
      ci_chat_user_id = str_field d ''chatUserId'', ci_display_name = str_field d ''displayName'',
      ci_linked_at = date_field d ''linkedAt''\<rparr>"

definition decode_link_token :: "document \<Rightarrow> link_token" where
  "decode_link_token d =
     \<lparr>lt_id = str_field d ''_id'', lt_workspace_id = oid_field d ''workspaceId'',
      lt_chat_user_id = str_field d ''chatUserId'', lt_display_name = str_field d ''displayName'',
      lt_expires_at = date_field d ''expiresAt'', lt_consumed_at = opt_date_field d ''consumedAt''\<rparr>"

definition decode_provider :: "document \<Rightarrow> provider_state" where
  "decode_provider d =
     (let caps = doc_field d ''capabilities''
      in \<lparr>ps_kind = provider_of (str_field d ''kind''), ps_address = str_field d ''address'',
          ps_capabilities =
            \<lparr>cap_forms = bool_field caps ''forms'', cap_ephemeral = bool_field caps ''ephemeral'',
             cap_direct_message = bool_field caps ''directMessage''\<rparr>,
          ps_version = str_field d ''version'', ps_bot_user_id = str_field d ''botUserId'',
          ps_connected = bool_field d ''connected'',
          ps_status = provider_status_of (str_field d ''status''),
          ps_failures = int_field d ''failures'', ps_first_seen_at = date_field d ''firstSeenAt'',
          ps_last_seen_at = date_field d ''lastSeenAt'', ps_updated_at = date_field d ''updatedAt''\<rparr>)"

end
