(* ===== verification/Bot_Input.thy ===== *)
theory Bot_Input
  imports Go_Duration Domain_Participation Domain_Errors
begin

section \<open>What users send: buttons and commands\<close>

text \<open>
  \<open>internal/manager/bot/action.go\<close> and \<open>command.go\<close>. A string type with constants is a
  \<open>string\<close> here, as in the code. The arguments of a command come as a Go map, whose order of
  iteration is not fixed: the model takes them as a list in some order.
\<close>

record bot_unicode = unicode +
  un_equal_fold :: "string \<Rightarrow> string \<Rightarrow> bool"

text \<open>The errors of the package; each quotes the input it was given.\<close>

datatype bot_err =
    ErrUnknownAction string
  | ErrUnknownCommand string
  | ErrInvalidDateTime string
  | ErrInvalidPace string "err option"

subsection \<open>action.go\<close>

definition action_prefix :: string where "action_prefix = ''asobell''"
definition action_id_parts :: nat where "action_id_parts = 3"

fun action_text :: "participation_action \<Rightarrow> string" where
  "action_text ActionJoin = ''join''"
| "action_text ActionPeek = ''peek''"
| "action_text (ActionOther s) = s"

definition action_of :: "string \<Rightarrow> participation_action" where
  "action_of s =
     (if s = ''join'' then ActionJoin else if s = ''peek'' then ActionPeek else ActionOther s)"

definition action_id :: "participation_action \<Rightarrow> string \<Rightarrow> string" where
  "action_id action event_id = join_with '':'' [action_prefix, action_text action, event_id]"

definition parse_action_id :: "string \<Rightarrow> bot_err + (participation_action \<times> string)" where
  "parse_action_id s =
     (let parts = split_on (CHR '':'') (trim_space s)
      in if length parts \<noteq> action_id_parts \<or> parts ! 0 \<noteq> action_prefix \<or> parts ! 2 = []
         then Inl (ErrUnknownAction s)
         else let action = action_of (parts ! 1)
              in if action \<noteq> ActionJoin \<and> action \<noteq> ActionPeek then Inl (ErrUnknownAction s)
                 else Inr (action, parts ! 2))"

subsection \<open>command.go\<close>

type_synonym subcommand = string

abbreviation sub_new :: subcommand where "sub_new \<equiv> ''new''"
abbreviation sub_edit :: subcommand where "sub_edit \<equiv> ''edit''"
abbreviation sub_remind :: subcommand where "sub_remind \<equiv> ''remind''"
abbreviation sub_end :: subcommand where "sub_end \<equiv> ''end''"
abbreviation sub_cancel :: subcommand where "sub_cancel \<equiv> ''cancel''"
abbreviation sub_leave :: subcommand where "sub_leave \<equiv> ''leave''"
abbreviation sub_info :: subcommand where "sub_info \<equiv> ''info''"
abbreviation sub_list :: subcommand where "sub_list \<equiv> ''list''"
abbreviation sub_recruit :: subcommand where "sub_recruit \<equiv> ''recruit''"
abbreviation sub_login :: subcommand where "sub_login \<equiv> ''login''"
abbreviation sub_unlink :: subcommand where "sub_unlink \<equiv> ''unlink''"
abbreviation sub_help :: subcommand where "sub_help \<equiv> ''help''"

abbreviation arg_title :: string where "arg_title \<equiv> ''title''"
abbreviation arg_when :: string where "arg_when \<equiv> ''when''"
abbreviation arg_ends :: string where "arg_ends \<equiv> ''ends''"
abbreviation arg_description :: string where "arg_description \<equiv> ''description''"
abbreviation arg_remind :: string where "arg_remind \<equiv> ''remind''"
abbreviation arg_pace :: string where "arg_pace \<equiv> ''pace''"
abbreviation arg_action :: string where "arg_action \<equiv> ''action''"

text \<open>The message from the provider (a generated type) and the normalized command.\<close>

record wire_command =
  wc_name :: string
  wc_args :: "(string \<times> string) list"
  wc_raw_text :: string
  wc_workspace_id :: string
  wc_external_id :: string
  wc_channel_id :: string
  wc_user_id :: string

record command =
  cmd_sub :: subcommand
  cmd_args :: "string \<Rightarrow> string option"
  cmd_workspace_id :: string
  cmd_external_id :: string
  cmd_channel_id :: string
  cmd_user_id :: string
  cmd_raw_text :: string

definition sub_valid :: "subcommand \<Rightarrow> bool" where
  "sub_valid s \<longleftrightarrow> s \<in> {sub_new, sub_edit, sub_remind, sub_end, sub_cancel, sub_leave, sub_info,
     sub_list, sub_recruit, sub_login, sub_unlink, sub_help}"

definition needs_event_channel :: "subcommand \<Rightarrow> bool" where
  "needs_event_channel s \<longleftrightarrow> s \<in> {sub_edit, sub_remind, sub_end, sub_cancel, sub_leave, sub_info}"

definition organizer_only :: "subcommand \<Rightarrow> bool" where
  "organizer_only s \<longleftrightarrow> s \<in> {sub_edit, sub_remind, sub_end, sub_cancel}"

definition cmd_arg :: "command \<Rightarrow> string \<Rightarrow> string" where
  "cmd_arg c key = (case cmd_args c key of None \<Rightarrow> [] | Some v \<Rightarrow> v)"

text \<open>\<open>normalizeInput\<close> of \<open>datetime.go\<close>\<close>

definition normalize_input :: "bot_unicode \<Rightarrow> string \<Rightarrow> string" where
  "normalize_input u s = join_with '' '' (split_fields (un_nfkc u s))"

definition split_subcommand :: "bot_unicode \<Rightarrow> string \<Rightarrow> string \<times> string" where
  "split_subcommand u raw =
     (let t = trim_space raw;
          t' = (if prefix ''/asobell'' t then trim_space (drop (length ''/asobell'') t) else t)
      in (case cut_at '' '' t' of (name, rest, _) \<Rightarrow> (un_to_lower u name, trim_space rest)))"

definition set_if_absent ::
  "(string \<Rightarrow> string option) \<Rightarrow> string \<Rightarrow> string \<Rightarrow> string \<Rightarrow> string option" where
  "set_if_absent args key v = (if args key = None then args(key \<mapsto> v) else args)"

definition merge_positional_args ::
  "bot_unicode \<Rightarrow> (string \<Rightarrow> string option) \<Rightarrow> subcommand \<Rightarrow> string \<Rightarrow> string \<Rightarrow> string option" where
  "merge_positional_args u args sub rest =
     (if rest = [] then args
      else if sub = sub_remind then set_if_absent args arg_pace rest
      else if sub = sub_recruit then
        (case cut_at '' '' rest of (action, _) \<Rightarrow> set_if_absent args arg_action (un_to_lower u action))
      else args)"

definition collect_arg ::
  "bot_unicode \<Rightarrow> (string \<Rightarrow> string option) \<Rightarrow> string \<times> string \<Rightarrow> string \<Rightarrow> string option" where
  "collect_arg u args kv =
     (case kv of (k, v) \<Rightarrow>
        let v' = trim_space v
        in if v' = [] then args else args(un_to_lower u (trim_space k) \<mapsto> v'))"

definition parse_command :: "bot_unicode \<Rightarrow> wire_command \<Rightarrow> bot_err + command" where
  "parse_command u cmd =
     (let args = foldl (collect_arg u) Map.empty (wc_args cmd);
          name = un_to_lower u (trim_space (wc_name cmd));
          raw = normalize_input u (wc_raw_text cmd);
          (name', args') =
            (if name = [] then
               (case split_subcommand u raw of (n, rest) \<Rightarrow> (n, merge_positional_args u args n rest))
             else (name, args))
      in if name' \<noteq> [] \<and> \<not> sub_valid name' then Inl (ErrUnknownCommand name')
         else Inr \<lparr>cmd_sub = (if name' = [] then sub_help else name'), cmd_args = args',
           cmd_workspace_id = wc_workspace_id cmd, cmd_external_id = wc_external_id cmd,
           cmd_channel_id = wc_channel_id cmd, cmd_user_id = wc_user_id cmd, cmd_raw_text = raw\<rparr>)"

end
