(* ===== verification/Bot_Times.thy ===== *)
theory Bot_Times
  imports Bot_Input Domain_Reminder
begin

section \<open>Dates, times and reminder paces in chat input\<close>

text \<open>
  \<open>internal/manager/bot/datetime.go\<close> and \<open>pace.go\<close>. The regular expressions are written out as
  the matchers they are; words outside ASCII are given by their code points. Calendar
  fields are read in a location with \<open>Go_Time\<close>.
\<close>

subsection \<open>datetime.go\<close>

text \<open>\<open>^(\d{1,2}):(\d{2})$\<close>\<close>

definition match_time :: "string \<Rightarrow> (string \<times> string) option" where
  "match_time s =
     (let h = takeWhile is_digit s; r = dropWhile is_digit s
      in if length h \<in> {1, 2} \<and> r \<noteq> [] \<and> hd r = CHR '':'' \<and> length r = 3 \<and> list_all is_digit (tl r)
         then Some (h, tl r) else None)"

text \<open>\<open>^(\d{1,2})[-/](\d{1,2})$\<close>, the part of the date pattern after the year\<close>

definition is_date_sep :: "char \<Rightarrow> bool" where
  "is_date_sep c \<longleftrightarrow> c = CHR ''-'' \<or> c = CHR ''/''"

definition match_month_day :: "string \<Rightarrow> (string \<times> string) option" where
  "match_month_day s =
     (let m = takeWhile is_digit s; r = dropWhile is_digit s
      in if length m \<in> {1, 2} \<and> r \<noteq> [] \<and> is_date_sep (hd r) \<and> length (tl r) \<in> {1, 2} \<and>
           list_all is_digit (tl r)
         then Some (m, tl r) else None)"

text \<open>\<open>^(?:(\d{4})[-/])?(\d{1,2})[-/](\d{1,2})$\<close>; the year is empty when it is left out.\<close>

definition match_date :: "string \<Rightarrow> (string \<times> string \<times> string) option" where
  "match_date s =
     (let y = takeWhile is_digit s; r = dropWhile is_digit s
      in if length y = 4 \<and> r \<noteq> [] \<and> is_date_sep (hd r)
         then map_option (\<lambda>(m, d). (y, m, d)) (match_month_day (tl r))
         else map_option (\<lambda>(m, d). ([], m, d)) (match_month_day s))"

text \<open>\<open>^\+(.+)$\<close>; the point does not match a newline.\<close>

definition match_delta :: "string \<Rightarrow> string option" where
  "match_delta s =
     (if s \<noteq> [] \<and> hd s = CHR ''+'' \<and> tl s \<noteq> [] \<and> CHR 0x0A \<notin> set (tl s) then Some (tl s) else None)"

definition bot_parse_time_of_day :: "string \<Rightarrow> time_of_day option" where
  "bot_parse_time_of_day s =
     (case match_time s of
        None \<Rightarrow> None
      | Some (h, m) \<Rightarrow>
          (case atoi h of
             None \<Rightarrow> None
           | Some hh \<Rightarrow>
               (case atoi m of
                  None \<Rightarrow> None
                | Some mm \<Rightarrow>
                    (let tod = \<lparr>tod_hour = hh, tod_minute = mm\<rparr>
                     in if tod_valid tod then Some tod else None))))"

definition time_or_default :: "string \<Rightarrow> time_of_day \<Rightarrow> time_of_day option" where
  "time_or_default s default_time = (if s = [] then Some default_time else bot_parse_time_of_day s)"

text \<open>\<open>time.Date\<close> carries over dates that do not exist; those are refused.\<close>

definition date_at :: "int \<Rightarrow> int \<Rightarrow> int \<Rightarrow> time_of_day \<Rightarrow> location \<Rightarrow> time option" where
  "date_at y m d tod loc =
     (let t = go_date loc y m d (tod_hour tod) (tod_minute tod) 0 0
      in if time_month loc t \<noteq> m \<or> time_day loc t \<noteq> d then None else Some t)"

text \<open>\<open>strings.SplitN(s, " ", 2)\<close>\<close>

definition split_space :: "string \<Rightarrow> string \<times> string" where
  "split_space s = (case cut_at '' '' s of (a, b, _) \<Rightarrow> (a, b))"

definition parse_absolute :: "string \<Rightarrow> time \<Rightarrow> location \<Rightarrow> time_of_day \<Rightarrow> time option" where
  "parse_absolute s base loc default_time =
     (case split_space s of (first, rest) \<Rightarrow>
        (case match_date first of
           None \<Rightarrow> None
         | Some (ys, ms, ds) \<Rightarrow>
             (case time_or_default rest default_time of
                None \<Rightarrow> None
              | Some tod \<Rightarrow>
                  (case (atoi ms, atoi ds) of
                     (Some m, Some d) \<Rightarrow>
                       if ys \<noteq> [] then
                         (case atoi ys of None \<Rightarrow> None | Some y \<Rightarrow> date_at y m d tod loc)
                       else
                         (case date_at (time_year loc base) m d tod loc of
                            None \<Rightarrow> None
                          | Some t \<Rightarrow>
                              if t < base then date_at (time_year loc base + 1) m d tod loc
                              else Some t)
                   | _ \<Rightarrow> None))))"

definition cut_prefix_fold :: "bot_unicode \<Rightarrow> string \<Rightarrow> string \<Rightarrow> string option" where
  "cut_prefix_fold u s p =
     (if length s < length p \<or> \<not> un_equal_fold u (take (length p) s) p then None
      else Some (trim_space (drop (length p) s)))"

definition relative_words :: "(string \<times> int) list" where
  "relative_words =
    [(string_of_runes [26126, 24460, 26085], 2),
     (string_of_runes [12354, 12373, 12387, 12390], 2),
     (''day after tomorrow'', 2),
     (''tomorrow'', 1),
     (string_of_runes [26126, 26085], 1),
     (string_of_runes [12354, 12375, 12383], 1),
     (''today'', 0),
     (string_of_runes [20170, 26085], 0),
     (string_of_runes [26412, 26085], 0)]"

fun find_relative :: "bot_unicode \<Rightarrow> string \<Rightarrow> (string \<times> int) list \<Rightarrow> (int \<times> string) option" where
  "find_relative u s [] = None"
| "find_relative u s ((w, n) # ws) =
     (case cut_prefix_fold u s w of Some rest \<Rightarrow> Some (n, rest) | None \<Rightarrow> find_relative u s ws)"

definition relative_days :: "bot_unicode \<Rightarrow> string \<Rightarrow> (int \<times> string) option" where
  "relative_days u s = find_relative u s relative_words"

definition parse_start_time ::
  "bot_unicode \<Rightarrow> string \<Rightarrow> time \<Rightarrow> location \<Rightarrow> time_of_day \<Rightarrow> bot_err + time" where
  "parse_start_time u input now loc default_time =
     (let s = normalize_input u input
      in if s = [] then Inl (ErrInvalidDateTime input)
         else case relative_days u s of
           Some (n, rest) \<Rightarrow>
             (case time_or_default rest default_time of
                None \<Rightarrow> Inl (ErrInvalidDateTime input)
              | Some tod \<Rightarrow> Inr (tod_on tod (add_date loc now 0 0 n) loc))
         | None \<Rightarrow>
             (case parse_absolute s now loc default_time of
                None \<Rightarrow> Inl (ErrInvalidDateTime input)
              | Some t \<Rightarrow> Inr t))"

definition parse_end_time ::
  "bot_unicode \<Rightarrow> int \<Rightarrow> string \<Rightarrow> time \<Rightarrow> location \<Rightarrow> bot_err + time" where
  "parse_end_time u beyond input starts_at loc =
     (let s = normalize_input u input
      in if s = [] then Inl (ErrInvalidDateTime input)
         else case match_delta s of
           Some m \<Rightarrow>
             (case parse_duration beyond m of
                None \<Rightarrow> Inl (ErrInvalidDateTime input)
              | Some d \<Rightarrow> if d \<le> 0 then Inl (ErrInvalidDateTime input) else Inr (starts_at + d))
         | None \<Rightarrow>
             (case bot_parse_time_of_day s of
                Some tod \<Rightarrow>
                  (let stop = tod_on tod starts_at loc
                   in if stop \<le> starts_at then Inr (tod_on tod (add_date loc starts_at 0 0 1) loc)
                      else Inr stop)
              | None \<Rightarrow>
                  (case parse_absolute s starts_at loc zero_time_of_day of
                     None \<Rightarrow> Inl (ErrInvalidDateTime input)
                   | Some t \<Rightarrow> Inr t)))"

subsection \<open>pace.go\<close>

definition interval_keyword :: string where "interval_keyword = ''every''"
definition interval_keyword_ja :: string where "interval_keyword_ja = string_of_runes [27598]"

definition is_none_pace :: "bot_unicode \<Rightarrow> string \<Rightarrow> bool" where
  "is_none_pace u s \<longleftrightarrow>
     un_to_lower u s \<in> {''off'', ''none'', string_of_runes [12394, 12375], ''no'',
       string_of_runes [12458, 12501]}"

definition zero_policy :: reminder_policy where
  "zero_policy = \<lparr>rp_mode = ModeOther [], rp_offsets = [], rp_every = 0,
     rp_at = zero_time_of_day, rp_final_offset = 0\<rparr>"

definition parse_interval :: "int \<Rightarrow> string \<Rightarrow> reminder_policy option" where
  "parse_interval beyond rest =
     (let fs = split_fields rest
      in if fs = [] \<or> 2 < length fs then None
         else case parse_duration beyond (fs ! 0) of
           None \<Rightarrow> None
         | Some every \<Rightarrow>
             (let policy = zero_policy\<lparr>rp_mode := ModeInterval, rp_every := every,
                    rp_final_offset := default_final_offset\<rparr>
              in if length fs = 2 then
                   (case bot_parse_time_of_day (fs ! 1) of
                      None \<Rightarrow> None
                    | Some tod \<Rightarrow> Some (policy\<lparr>rp_at := tod\<rparr>))
                 else Some policy))"

text \<open>The separators are a comma, the ideographic comma U+3001 and a space.\<close>

definition is_offset_sep :: "rune \<Rightarrow> bool" where
  "is_offset_sep r \<longleftrightarrow> r = 44 \<or> r = 12289 \<or> r = 32"

fun parse_all :: "int \<Rightarrow> string list \<Rightarrow> duration list option" where
  "parse_all beyond [] = Some []"
| "parse_all beyond (f # fs) =
     (case parse_duration beyond f of
        None \<Rightarrow> None
      | Some d \<Rightarrow> map_option ((#) d) (parse_all beyond fs))"

definition parse_offsets :: "int \<Rightarrow> string \<Rightarrow> reminder_policy option" where
  "parse_offsets beyond s =
     (let fs = words_of is_offset_sep [] (rune_chunks s)
      in if fs = [] then None
         else map_option (\<lambda>ds. zero_policy\<lparr>rp_mode := ModeOffsets, rp_offsets := ds\<rparr>)
           (parse_all beyond fs))"

definition parse_pace :: "bot_unicode \<Rightarrow> int \<Rightarrow> string \<Rightarrow> reminder_policy option" where
  "parse_pace u beyond s =
     (case cut_prefix_fold u s interval_keyword of
        Some rest \<Rightarrow> parse_interval beyond rest
      | None \<Rightarrow>
          (case cut_prefix_fold u s interval_keyword_ja of
             Some rest \<Rightarrow> parse_interval beyond rest
           | None \<Rightarrow> parse_offsets beyond s))"

definition parse_reminder_pace :: "bot_unicode \<Rightarrow> int \<Rightarrow> string \<Rightarrow> bot_err + reminder_policy" where
  "parse_reminder_pace u beyond input =
     (let s = normalize_input u input
      in if s = [] then Inl (ErrInvalidPace input None)
         else if is_none_pace u s then Inr (zero_policy\<lparr>rp_mode := ModeNone\<rparr>)
         else case parse_pace u beyond s of
           None \<Rightarrow> Inl (ErrInvalidPace input None)
         | Some policy \<Rightarrow>
             (case policy_validate policy ''reminder_policy'' of
                Some e \<Rightarrow> Inl (ErrInvalidPace input (Some e))
              | None \<Rightarrow> Inr policy))"

text \<open>Go's \<open>%\<close> and \<open>/\<close> truncate; a divisible duration gives the same quotient either way.\<close>

definition format_offset :: "duration \<Rightarrow> string" where
  "format_offset d =
     (if day \<le> d \<and> d mod day = 0 then dec_of_int (d div day) @ ''d''
      else if d mod hour = 0 then dec_of_int (d div hour) @ ''h''
      else if d mod minute = 0 then dec_of_int (d div minute) @ ''m''
      else duration_string d)"

definition format_reminder_pace :: "reminder_policy \<Rightarrow> string" where
  "format_reminder_pace p =
     (case rp_mode p of
        ModeNone \<Rightarrow> ''off''
      | ModeInterval \<Rightarrow> ''every '' @ format_offset (rp_every p) @ '' '' @ tod_string (rp_at p)
      | ModeOffsets \<Rightarrow> join_with '','' (map format_offset (rp_offsets p))
      | ModeOther _ \<Rightarrow> [])"

end
