(* ===== verification/Duration_Facts.thy ===== *)
theory Duration_Facts
  imports Go_Duration
begin

section \<open>Facts about duration texts\<close>

text \<open>A duration that is written is read back, nanosecond for nanosecond.\<close>

subsection \<open>Digits\<close>

definition digits_value :: "int \<Rightarrow> string \<Rightarrow> int" where
  "digits_value x s = foldl (\<lambda>acc c. acc * 10 + (int (byte c) - 48)) x s"

lemma digits_value_simps [simp]:
  "digits_value x [] = x"
  "digits_value x (c # s) = digits_value (x * 10 + (int (byte c) - 48)) s"
  "digits_value x (s @ [c]) = digits_value x s * 10 + (int (byte c) - 48)"
  by (simp_all add: digits_value_def)

lemma is_digit_bounds: "is_digit c \<Longrightarrow> 48 \<le> int (byte c) \<and> int (byte c) \<le> 57"
  by (simp add: is_digit_def)

lemma digits_value_mono: "list_all is_digit s \<Longrightarrow> 0 \<le> x \<Longrightarrow> x \<le> digits_value x s"
proof (induction s arbitrary: x)
  case (Cons c s)
  let ?y = "x * 10 + (int (byte c) - 48)"
  have "x \<le> ?y" using Cons.prems is_digit_bounds [of c] by simp
  moreover have "?y \<le> digits_value ?y s" using Cons.IH [of ?y] Cons.prems \<open>x \<le> ?y\<close> by simp
  ultimately have "x \<le> digits_value ?y s" by linarith
  then show ?case by simp
qed simp

lemma digits_value_bound: "list_all is_digit s \<Longrightarrow> digits_value 0 s < 10 ^ length s"
proof (induction s rule: rev_induct)
  case (snoc c s)
  then show ?case using is_digit_bounds [of c] by simp
qed simp

lemma dec_value_digits: "list_all is_digit s \<Longrightarrow> int (dec_value s) = digits_value 0 s"
proof (induction s rule: rev_induct)
  case Nil
  then show ?case by (simp add: dec_value_def)
next
  case (snoc c s)
  then have "int (dec_value (s @ [c])) = int (dec_value s) * 10 + (int (byte c) - 48)"
    by (simp add: dec_value_def is_digit_def of_nat_diff)
  with snoc show ?case by simp
qed

lemma digits_value_dec: "0 \<le> n \<Longrightarrow> digits_value 0 (dec_of_int n) = n"
  using dec_value_digits [of "dec_of_int n"] dec_of_nat_digits(1) [of "nat n"] dec_value_of_nat [of "nat n"]
  by (simp add: dec_of_int_def)

lemma dec_of_int_digits: "0 \<le> n \<Longrightarrow> list_all is_digit (dec_of_int n) \<and> dec_of_int n \<noteq> []"
  using dec_of_nat_digits [of "nat n"] by (simp add: dec_of_int_def)

definition no_digit_first :: "string \<Rightarrow> bool" where
  "no_digit_first s \<longleftrightarrow> s = [] \<or> \<not> is_digit (hd s)"

lemma leading_int_digits:
  assumes "list_all is_digit s" and "no_digit_first r" and "0 \<le> x" and "digits_value x s \<le> 2 ^ 63"
  shows "leading_int x (s @ r) = Some (digits_value x s, r)"
  using assms
proof (induction s arbitrary: x)
  case Nil
  then show ?case by (cases r) (auto simp: no_digit_first_def)
next
  case (Cons c s)
  let ?y = "x * 10 + (int (byte c) - 48)"
  have c: "is_digit c" "0 \<le> ?y" using Cons.prems is_digit_bounds [of c] by auto
  then have "?y \<le> 2 ^ 63" using Cons.prems digits_value_mono [of s ?y] by simp
  moreover have "x \<le> 2 ^ 63 div 10" using \<open>?y \<le> 2 ^ 63\<close> is_digit_bounds [OF c(1)] by simp
  ultimately show ?case using Cons c by (simp add: Let_def add_diff_eq)
qed

lemma leading_fraction_digits:
  assumes "list_all is_digit s" and "no_digit_first r" and "0 \<le> x"
    and "k + length s \<le> 15" and "x < 10 ^ k"
  shows "leading_fraction x (of_int (10 ^ k)) False (s @ r) =
    (digits_value x s, of_int (10 ^ (k + length s)), r)"
  using assms
proof (induction s arbitrary: x k)
  case Nil
  then show ?case by (cases r) (auto simp: no_digit_first_def)
next
  case (Cons c s)
  let ?y = "x * 10 + (int (byte c) - 48)"
  have c: "is_digit c" "0 \<le> ?y" "?y < 10 ^ Suc k"
    using Cons.prems is_digit_bounds [of c] by auto
  have k: "Suc k \<le> 15" using Cons.prems by simp
  have "(10 :: int) ^ Suc k \<le> 10 ^ 15" using k by (rule power_increasing) simp
  then have f: "f64 (of_int (10 ^ Suc k)) = of_int (10 ^ Suc k)" by (intro f64_nat) simp_all
  have y: "?y \<le> 10 ^ 15" using c(3) \<open>10 ^ Suc k \<le> 10 ^ 15\<close> by linarith
  have "f64 (of_int (10 ^ k) * 10) = of_int (10 ^ Suc k)" using f by (simp add: mult.commute)
  moreover have "x \<le> (2 ^ 63 - 1) div 10" using y is_digit_bounds [OF c(1)] by simp
  moreover have "leading_fraction ?y (of_int (10 ^ Suc k)) False (s @ r) =
      (digits_value ?y s, of_int (10 ^ (Suc k + length s)), r)"
    using Cons.IH [of ?y "Suc k"] Cons.prems c k by simp
  ultimately show ?case using c(1) y by (simp add: Let_def add_diff_eq)
qed


subsection \<open>The fraction\<close>

lemma fmt_frac_spec:
  assumes "0 \<le> v"
  shows "\<exists>ds. fmt_frac n v print acc =
      ((if print \<or> ds \<noteq> [] then CHR ''.'' # ds @ acc else acc), v div 10 ^ n) \<and>
    list_all is_digit ds \<and> length ds \<le> n \<and> (print \<longrightarrow> length ds = n) \<and>
    digits_value 0 ds * 10 ^ (n - length ds) = v mod 10 ^ n"
  using assms
proof (induction n arbitrary: v print acc)
  case 0
  show ?case by (intro exI [of _ "[]"]) simp
next
  case (Suc n)
  define d where "d = v mod 10"
  define print' where "print' \<longleftrightarrow> print \<or> d \<noteq> 0"
  define acc' where "acc' = (if print' then digit_char (nat d) # acc else acc)"
  have d: "0 \<le> d" "d < 10" by (simp_all add: d_def)
  have step: "fmt_frac (Suc n) v print acc = fmt_frac n (v div 10) print' acc'"
    by (simp add: Let_def d_def print'_def acc'_def)
  obtain ds where ds: "fmt_frac n (v div 10) print' acc' =
      ((if print' \<or> ds \<noteq> [] then CHR ''.'' # ds @ acc' else acc'), v div 10 div 10 ^ n)"
    "list_all is_digit ds" "length ds \<le> n" "print' \<longrightarrow> length ds = n"
    "digits_value 0 ds * 10 ^ (n - length ds) = v div 10 mod 10 ^ n"
    using Suc.IH [of "v div 10" print' acc'] Suc.prems by (auto simp: pos_imp_zdiv_nonneg_iff simp del: div_mult_self1)
  have m: "v mod 10 ^ Suc n = 10 * (v div 10 mod 10 ^ n) + d"
    by (simp add: d_def zmod_zmult2_eq)
  have q: "v div 10 div 10 ^ n = v div 10 ^ Suc n" by (simp add: zdiv_zmult2_eq)
  show ?case
  proof (cases print')
    case True
    have "byte (digit_char (nat d)) = nat d + 48" using d by (intro byte_digit) simp
    then have "list_all is_digit (ds @ [digit_char (nat d)])"
      "digits_value 0 (ds @ [digit_char (nat d)]) = v mod 10 ^ Suc n"
      using d ds(2-5) True m by (simp_all add: is_digit_def)
    then show ?thesis
      using True ds(1,4) by (intro exI [of _ "ds @ [digit_char (nat d)]"]) (simp add: step q acc'_def del: fmt_frac.simps)
  next
    case False
    then have "d = 0" "\<not> print" by (simp_all add: print'_def)
    moreover have "Suc n - length ds = Suc (n - length ds)" using ds(3) by simp
    moreover have "fmt_frac (Suc n) v print acc =
        ((if print \<or> ds \<noteq> [] then CHR ''.'' # ds @ acc else acc), v div 10 ^ Suc n)"
      unfolding step ds(1) q using False \<open>\<not> print\<close> by (simp add: acc'_def)
    ultimately show ?thesis
      using ds(2,3,5) m by (intro exI [of _ ds]) (simp del: fmt_frac.simps)
  qed
qed

lemma fmt_frac_zero:
  assumes "0 \<le> v"
  obtains ds where "fmt_frac n v False [] = ((if ds = [] then [] else CHR ''.'' # ds), v div 10 ^ n)"
    "list_all is_digit ds" "length ds \<le> n" "digits_value 0 ds * 10 ^ (n - length ds) = v mod 10 ^ n"
proof -
  obtain ds where "fmt_frac n v False [] = ((if False \<or> ds \<noteq> [] then CHR ''.'' # ds @ [] else []), v div 10 ^ n)"
    "list_all is_digit ds" "length ds \<le> n" "digits_value 0 ds * 10 ^ (n - length ds) = v mod 10 ^ n"
    using fmt_frac_spec [OF assms, of n False "[]"] by blast
  then show thesis by (intro that [of ds]) simp_all
qed

text \<open>A number, an optional fraction and a unit, as they are printed, in front of anything that
  does not continue the unit.\<close>

definition starts_number :: "string \<Rightarrow> bool" where
  "starts_number s \<longleftrightarrow> s = [] \<or> is_number_char (hd s)"

definition unit_text :: "string \<Rightarrow> bool" where
  "unit_text u \<longleftrightarrow> u \<noteq> [] \<and> list_all (\<lambda>c. \<not> is_number_char c) u"

lemma unit_split:
  assumes "unit_text u" and "starts_number r"
  shows "takeWhile (\<lambda>c. \<not> is_number_char c) (u @ r) = u"
    and "dropWhile (\<lambda>c. \<not> is_number_char c) (u @ r) = r"
proof -
  have u: "\<forall>c \<in> set u. \<not> is_number_char c" using assms(1) by (simp add: unit_text_def list_all_iff)
  show "takeWhile (\<lambda>c. \<not> is_number_char c) (u @ r) = u"
    using u assms(2) by (cases r) (simp_all add: starts_number_def)
  show "dropWhile (\<lambda>c. \<not> is_number_char c) (u @ r) = r"
    using u assms(2) by (cases r) (simp_all add: starts_number_def)
qed

lemma digit_is_number: "is_digit c \<Longrightarrow> is_number_char c"
  by (simp add: is_number_char_def)

lemma unit_no_digit: "unit_text u \<Longrightarrow> no_digit_first (u @ r) \<and> hd (u @ r) \<noteq> CHR ''.'' \<and> u @ r \<noteq> []"
  by (cases u) (auto simp: unit_text_def no_digit_first_def is_number_char_def)

lemma duration_number_text:
  assumes "0 \<le> n" and "n \<le> 2 ^ 63" and "unit_text u"
    and "list_all is_digit ds" and "length ds \<le> 15"
  shows "duration_number (dec_of_int n @ (if ds = [] then [] else CHR ''.'' # ds) @ u @ r) =
    Some (n, digits_value 0 ds, of_int (10 ^ length ds), u @ r)"
proof -
  let ?f = "if ds = [] then [] else CHR ''.'' # ds"
  have n: "list_all is_digit (dec_of_int n)" "dec_of_int n \<noteq> []" using dec_of_int_digits assms(1) by auto
  have u: "no_digit_first (u @ r)" "hd (u @ r) \<noteq> CHR ''.''" "u @ r \<noteq> []"
    using unit_no_digit [OF assms(3)] by auto
  have "no_digit_first (?f @ u @ r)"
    using u by (auto simp: no_digit_first_def is_digit_def byte_def)
  then have l: "leading_int 0 (dec_of_int n @ ?f @ u @ r) = Some (n, ?f @ u @ r)"
    using leading_int_digits [OF n(1)] assms digits_value_dec by simp
  have h: "is_number_char (hd (dec_of_int n @ ?f @ u @ r))"
    using n by (cases "dec_of_int n") (auto intro: digit_is_number)
  have "leading_fraction 0 1 False (ds @ u @ r) = (digits_value 0 ds, of_int (10 ^ length ds), u @ r)"
    using leading_fraction_digits [OF assms(4) u(1), of 0 0] assms(5) by simp
  then show ?thesis
    using l h n(2) u by (cases "ds = []") (simp_all add: duration_number_def Let_def)
qed


definition fraction_text :: "string \<Rightarrow> string" where
  "fraction_text ds = (if ds = [] then [] else CHR ''.'' # ds)"

lemma fraction_exact:
  assumes "list_all is_digit ds" and "length ds \<le> p" and "p \<le> 9"
  shows "\<lfloor>f64 (f64 (of_int (digits_value 0 ds)) * f64 (of_int (10 ^ p) / of_int (10 ^ length ds)))\<rfloor> =
    digits_value 0 ds * 10 ^ (p - length ds)"
    and "digits_value 0 ds * 10 ^ (p - length ds) < 10 ^ p" and "0 \<le> digits_value 0 ds"
proof -
  let ?f = "digits_value 0 ds" and ?k = "p - length ds"
  have f: "0 \<le> ?f" "?f < 10 ^ length ds"
    using digits_value_mono [OF assms(1), of 0] digits_value_bound [OF assms(1)] by auto
  show "0 \<le> ?f" by (rule f)
  have p: "p = length ds + ?k" using assms(2) by simp
  have split: "(10 :: int) ^ p = 10 ^ length ds * 10 ^ ?k" by (subst p) (simp only: power_add)
  then show lt: "?f * 10 ^ ?k < 10 ^ p" using f(2) by simp
  have "(10 :: int) ^ n \<le> 10 ^ 9" if "n \<le> 9" for n using that by (intro power_increasing) simp_all
  then have b: "(10 :: int) ^ length ds \<le> 10 ^ 9" "(10 :: int) ^ ?k \<le> 10 ^ 9" "(10 :: int) ^ p \<le> 10 ^ 9"
    using assms by auto
  have "of_int (10 ^ p) / of_int (10 ^ length ds) = (of_int (10 ^ ?k) :: rat)"
    unfolding split by simp
  moreover have "f64 (of_int (10 ^ ?k)) = of_int (10 ^ ?k)" using b by (intro f64_nat) simp_all
  moreover have "f64 (of_int ?f) = of_int ?f" using b f by (intro f64_nat) simp_all
  moreover have "f64 (of_int (?f * 10 ^ ?k)) = of_int (?f * 10 ^ ?k)"
    using b f lt by (intro f64_nat) simp_all
  ultimately show "\<lfloor>f64 (f64 (of_int ?f) * f64 (of_int (10 ^ p) / of_int (10 ^ length ds)))\<rfloor> =
      ?f * 10 ^ ?k"
    by (simp only: of_int_mult [symmetric] floor_of_int)
qed

lemma unit_limit:
  assumes "0 < unit" and "0 \<le> (n :: int)" and "n * unit \<le> 2 ^ 63"
  shows "n \<le> 2 ^ 63" and "n \<le> 2 ^ 63 div unit"
proof -
  have "n * 1 \<le> n * unit" using assms by (intro mult_left_mono) simp_all
  then show "n \<le> 2 ^ 63" using assms by simp
  show "n \<le> 2 ^ 63 div unit"
    using zdiv_mono1 [OF assms(3) assms(1)] assms(1) by simp
qed

lemma duration_part_text:
  assumes "0 \<le> n" and "unit_text u" and "unit_of u = Some (10 ^ p)" and "starts_number r"
    and "list_all is_digit ds" and "length ds \<le> p" and "p \<le> 9"
    and "n * 10 ^ p + digits_value 0 ds * 10 ^ (p - length ds) \<le> 2 ^ 63"
  shows "duration_part (dec_of_int n @ fraction_text ds @ u @ r) =
    Some (n * 10 ^ p + digits_value 0 ds * 10 ^ (p - length ds), r)"
proof -
  note fr = fraction_exact [OF assms(5-7)]
  have "n * 10 ^ p \<le> 2 ^ 63" using assms(8) fr(3) by (smt (verit) mult_nonneg_nonneg zero_le_power)
  from unit_limit [OF _ assms(1) this] have n: "n \<le> 2 ^ 63" "n \<le> 2 ^ 63 div 10 ^ p" by simp_all
  have num: "duration_number (dec_of_int n @ fraction_text ds @ u @ r) =
      Some (n, digits_value 0 ds, of_int (10 ^ length ds), u @ r)"
    using duration_number_text [OF assms(1) n(1) assms(2,5)] assms(6,7) by (simp add: fraction_text_def)
  have u: "u \<noteq> []" using assms(2) by (simp add: unit_text_def)
  show ?thesis
    using assms(3,8) n(2) fr u
    by (auto simp: duration_part_def num unit_split [OF assms(2,4)] Let_def
        simp del: of_int_power of_int_numeral)
qed

text \<open>Units that are no power of ten come with whole numbers only.\<close>

lemma duration_part_whole:
  assumes "0 \<le> n" and "unit_text u" and "unit_of u = Some unit" and "0 < unit" and "starts_number r"
    and "n * unit \<le> 2 ^ 63"
  shows "duration_part (dec_of_int n @ u @ r) = Some (n * unit, r)"
proof -
  note n = unit_limit [OF assms(4,1,6)]
  have "duration_number (dec_of_int n @ u @ r) = Some (n, 0, 1, u @ r)"
    using duration_number_text [OF assms(1) n(1) assms(2), of "[]" r] by simp
  moreover have "u \<noteq> []" using assms(2) by (simp add: unit_text_def)
  ultimately show ?thesis
    using assms(3) n(2) by (simp add: duration_part_def unit_split [OF assms(2,5)])
qed


subsection \<open>The round trip\<close>

lemma duration_sum_Nil [simp]: "duration_sum d [] = Some d"
  by (simp add: duration_sum.simps)

lemma duration_sum_step:
  assumes "duration_part s = Some (v, r)" and "0 \<le> d" and "0 \<le> v" and "d + v \<le> 2 ^ 63"
  shows "duration_sum d s = duration_sum (d + v) r"
proof -
  have "s \<noteq> []" using duration_part_shorter [OF assms(1)] by auto
  moreover have "(d + v) mod 2 ^ 64 = d + v" using assms(2-4) by simp
  ultimately show ?thesis using assms by (simp add: duration_sum.simps [of d s] Let_def)
qed

lemma starts_number_dec: "0 \<le> n \<Longrightarrow> starts_number (dec_of_int n @ r)"
  using dec_of_int_digits [of n] by (cases "dec_of_int n") (auto simp: starts_number_def intro: digit_is_number)

lemma unit_texts [simp]:
  "unit_text ''ns''" "unit_text micro_sign" "unit_text ''ms''" "unit_text ''s''"
  "unit_text ''m''" "unit_text ''h''"
  by (simp_all add: unit_text_def micro_sign_def is_number_char_def is_digit_def byte_def)

lemma unit_of_texts [simp]:
  "unit_of ''ns'' = Some 1" "unit_of micro_sign = Some 1000" "unit_of ''ms'' = Some 1000000"
  "unit_of ''s'' = Some second" "unit_of ''m'' = Some minute" "unit_of ''h'' = Some hour"
  by (simp_all add: unit_of_def micro_sign_def)

lemma starts_number_Nil [simp]: "starts_number []"
  by (simp add: starts_number_def)

lemma fraction_sum:
  assumes "0 \<le> n" and "0 \<le> u" and "n * 10 ^ p + u mod 10 ^ p \<le> 2 ^ 63"
    and "unit_text t" and "unit_of t = Some (10 ^ p)" and "p \<le> 9"
    and "0 \<le> d" and "d + (n * 10 ^ p + u mod 10 ^ p) \<le> 2 ^ 63"
  shows "duration_sum d (dec_of_int n @ fst (fmt_frac p u False []) @ t) =
    Some (d + (n * 10 ^ p + u mod 10 ^ p))"
proof -
  obtain ds where ds: "fmt_frac p u False [] = ((if ds = [] then [] else CHR ''.'' # ds), u div 10 ^ p)"
    "list_all is_digit ds" "length ds \<le> p" "digits_value 0 ds * 10 ^ (p - length ds) = u mod 10 ^ p"
    using fmt_frac_zero [OF assms(2)] by blast
  then have "duration_part (dec_of_int n @ fst (fmt_frac p u False []) @ t) =
      Some (n * 10 ^ p + u mod 10 ^ p, [])"
    using duration_part_text [OF assms(1,4,5) starts_number_Nil ds(2,3) assms(6)] assms(3)
    by (simp add: fraction_text_def)
  moreover have "0 \<le> n * 10 ^ p + u mod 10 ^ p" using assms(1) by simp
  ultimately show ?thesis using duration_sum_step assms(7,8) by simp
qed

lemma fmt_frac_whole: "0 \<le> u \<Longrightarrow> snd (fmt_frac p u False []) = u div 10 ^ p"
  using fmt_frac_zero [of u p] by (metis snd_conv)

lemma small_duration_sum:
  assumes "0 \<le> u" and "u \<le> 2 ^ 63" and "unit_text t" and "unit_of t = Some (10 ^ p)" and "p \<le> 9"
  shows "duration_sum 0 (small_duration p t u) = Some u"
proof -
  have "u div 10 ^ p * 10 ^ p + u mod 10 ^ p = u" by (rule div_mult_mod_eq)
  then show ?thesis
    using fraction_sum [of "u div 10 ^ p" u p t 0] assms
    by (simp add: small_duration_def split_beta fmt_frac_whole pos_imp_zdiv_nonneg_iff)
qed

lemma whole_sum:
  assumes "0 \<le> n" and "unit_text t" and "unit_of t = Some unit" and "0 < unit"
    and "starts_number r" and "0 \<le> d" and "d + n * unit \<le> 2 ^ 63"
  shows "duration_sum d (dec_of_int n @ t @ r) = duration_sum (d + n * unit) r"
  using duration_part_whole [OF assms(1-5)] duration_sum_step [of _ "n * unit" r d] assms by simp

definition duration_body :: "int \<Rightarrow> string" where
  "duration_body u =
     (if u < 1000 then small_duration 0 ''ns'' u
      else if u < 1000000 then small_duration 3 micro_sign u
      else if u < second then small_duration 6 ''ms'' u
      else let secs = u div second; mins = secs div 60; hours = mins div 60
           in (if 0 < hours then dec_of_int hours @ ''h'' else []) @
              (if 0 < mins then dec_of_int (mins mod 60) @ ''m'' else []) @
              dec_of_int (secs mod 60) @ fst (fmt_frac 9 u False []) @ ''s'')"

lemma duration_string_body:
  "duration_string d =
    (if d = 0 then ''0s'' else if d < 0 then CHR ''-'' # duration_body (- d) else duration_body d)"
  using fmt_frac_whole [of "- d" 9] fmt_frac_whole [of d 9]
  by (simp add: duration_string_def duration_body_def Let_def split_beta abs_if)

lemma duration_body_sum:
  assumes "0 < u" and "u \<le> 2 ^ 63"
  shows "duration_sum 0 (duration_body u) = Some u"
proof (cases "u < second")
  case True
  then show ?thesis
    using small_duration_sum [of u "''ns''" 0] small_duration_sum [of u micro_sign 3]
      small_duration_sum [of u "''ms''" 6] assms
    by (simp add: duration_body_def)
next
  case False
  define secs mins hours where "secs = u div second" and "mins = secs div 60" and "hours = mins div 60"
  have pos: "0 \<le> hours" "0 \<le> mins" "0 \<le> secs"
    using assms by (simp_all add: secs_def mins_def hours_def pos_imp_zdiv_nonneg_iff)
  have sum: "hours * hour + (mins mod 60) * minute + ((secs mod 60) * second + u mod second) = u"
    unfolding hours_def mins_def secs_def by presburger
  have "0 \<le> (mins mod 60) * minute" "0 \<le> (secs mod 60) * second + u mod second" "0 \<le> hours * hour"
    using pos by simp_all
  note le = this sum assms(2)
  have last: "duration_sum (hours * hour + (mins mod 60) * minute)
      (dec_of_int (secs mod 60) @ fst (fmt_frac 9 u False []) @ ''s'') = Some u"
    using fraction_sum [of "secs mod 60" u 9 "''s''" "hours * hour + (mins mod 60) * minute"] le assms
    by simp
  let ?t = "dec_of_int (secs mod 60) @ fst (fmt_frac 9 u False []) @ ''s''"
  have st: "starts_number ?t" by (intro starts_number_dec) simp
  have mid: "duration_sum (hours * hour)
      ((if 0 < mins then dec_of_int (mins mod 60) @ ''m'' else []) @ ?t) = Some u"
    using whole_sum [of "mins mod 60" "''m''" minute ?t "hours * hour"] last st le pos by auto
  have "starts_number ((if 0 < mins then dec_of_int (mins mod 60) @ ''m'' else []) @ ?t)"
    using st starts_number_dec [of "mins mod 60"] by simp
  then have "duration_sum 0 ((if 0 < hours then dec_of_int hours @ ''h'' else []) @
      (if 0 < mins then dec_of_int (mins mod 60) @ ''m'' else []) @ ?t) = Some u"
    using whole_sum [of hours "''h''" hour _ 0] mid le pos by auto
  moreover have "duration_body u = (if 0 < hours then dec_of_int hours @ ''h'' else []) @
      (if 0 < mins then dec_of_int (mins mod 60) @ ''m'' else []) @ ?t"
    unfolding duration_body_def Let_def secs_def [symmetric] mins_def [symmetric] hours_def [symmetric]
    using False by simp
  ultimately show ?thesis by simp
qed


lemma fmt_frac_shape:
  assumes "0 \<le> u"
  obtains ds where "fst (fmt_frac p u False []) = fraction_text ds" "list_all is_digit ds"
proof -
  obtain ds where "fmt_frac p u False [] = ((if ds = [] then [] else CHR ''.'' # ds), u div 10 ^ p)"
    "list_all is_digit ds"
    using fmt_frac_zero [OF assms] by blast
  then show thesis by (intro that [of ds]) (simp_all add: fraction_text_def)
qed

lemma no_d: "list_all is_digit s \<Longrightarrow> CHR ''d'' \<notin> set s"
  by (induction s) (auto simp: is_digit_def byte_def)

text \<open>The characters of a duration: digits, a point, letters of units.\<close>

lemma duration_body_chars:
  assumes "0 < u"
  shows "\<exists>c r. duration_body u = c # r \<and> is_digit c \<and> r \<noteq> [] \<and> last r = CHR ''s''"
    and "CHR ''d'' \<notin> set (duration_body u)"
proof -
  have dec: "\<exists>c r. dec_of_int n = c # r \<and> is_digit c" "CHR ''d'' \<notin> set (dec_of_int n)" if "0 \<le> n" for n
    using dec_of_int_digits [OF that] no_d [of "dec_of_int n"] by (cases "dec_of_int n"; simp)+
  have fr: "CHR ''d'' \<notin> set (fst (fmt_frac p u False []))" for p
  proof -
    obtain ds where "fst (fmt_frac p u False []) = fraction_text ds" "list_all is_digit ds"
      using fmt_frac_shape assms by (metis less_imp_le)
    then show ?thesis using no_d by (simp add: fraction_text_def)
  qed
  have pos: "0 \<le> u div k" if "0 < k" for k using assms that by (simp add: pos_imp_zdiv_nonneg_iff)
  have small: "(\<exists>c r. small_duration p t u = c # r \<and> is_digit c \<and> r \<noteq> [] \<and> last r = CHR ''s'') \<and>
      CHR ''d'' \<notin> set (small_duration p t u)"
    if "t \<noteq> []" "last t = CHR ''s''" "CHR ''d'' \<notin> set t" for p t
    using that dec [of "u div 10 ^ p"] fr [of p] pos [of "10 ^ p"] assms
    by (auto simp: small_duration_def split_beta fmt_frac_whole)
  have micro: "micro_sign \<noteq> []" "last micro_sign = CHR ''s''" "CHR ''d'' \<notin> set micro_sign"
    by (simp_all add: micro_sign_def)
  have head: "\<exists>c r. dec_of_int n @ t = c # r \<and> is_digit c \<and> r \<noteq> [] \<and> last r = CHR ''s''"
    if n: "0 \<le> n" and t: "t \<noteq> []" "last t = CHR ''s''" for n t
    using dec(1) [OF n] t by auto
  show "\<exists>c r. duration_body u = c # r \<and> is_digit c \<and> r \<noteq> [] \<and> last r = CHR ''s''"
  proof (cases "u < second")
    case True
    then show ?thesis
      using small [of "''ns''" 0] small [of micro_sign 3] small [of "''ms''" 6] micro
      by (simp add: duration_body_def)
  next
    case False
    define m h t where "m = u div second div 60" and "h = m div 60"
      and "t = dec_of_int (u div second mod 60) @ fst (fmt_frac 9 u False []) @ ''s''"
    have pos: "0 \<le> h" "0 \<le> m" using assms by (simp_all add: m_def h_def pos_imp_zdiv_nonneg_iff)
    have t: "t \<noteq> []" "last t = CHR ''s''" "\<exists>c r. t = c # r \<and> is_digit c \<and> r \<noteq> [] \<and> last r = CHR ''s''"
      using head [of "u div second mod 60" "fst (fmt_frac 9 u False []) @ ''s''"] by (simp_all add: t_def)
    define mt where "mt = (if 0 < m then dec_of_int (m mod 60) @ ''m'' else []) @ t"
    have mt: "mt \<noteq> []" "last mt = CHR ''s''" "\<exists>c r. mt = c # r \<and> is_digit c \<and> r \<noteq> [] \<and> last r = CHR ''s''"
      using head [of "m mod 60" "''m'' @ t"] t by (simp_all add: mt_def)
    have "duration_body u = (if 0 < h then dec_of_int h @ ''h'' else []) @ mt"
      using False by (simp add: duration_body_def Let_def m_def h_def t_def mt_def)
    then show ?thesis using head [OF pos(1), of "''h'' @ mt"] mt by simp
  qed
  show "CHR ''d'' \<notin> set (duration_body u)"
    using small [of "''ns''" 0] small [of micro_sign 3] small [of "''ms''" 6] micro dec(2) fr pos
    by (simp add: duration_body_def Let_def)
qed

subsection \<open>ParseDuration\<close>

lemma day_match_d: "day_match s = Some m \<Longrightarrow> CHR ''d'' \<in> set s"
proof -
  assume some: "day_match s = Some m"
  then obtain c t where t: "dropWhile is_digit s = c # t"
    by (auto simp: day_match_def Let_def split: if_splits list.splits)
  then have sub: "set (c # t) \<subseteq> set s" by (metis set_dropWhileD subsetI)
  consider "c = CHR ''d''" | "dropWhile is_digit t \<noteq> []" "hd (dropWhile is_digit t) = CHR ''d''"
    using some t by (auto simp: day_match_def Let_def split: if_splits)
  then show "CHR ''d'' \<in> set s"
  proof cases
    case 2
    then have "CHR ''d'' \<in> set t" by (metis hd_in_set set_dropWhileD)
    then show ?thesis using sub by auto
  qed (use sub in auto)
qed

lemma expand_day_unit_none: "CHR ''d'' \<notin> set s \<Longrightarrow> expand_day_unit b s = Some s"
proof (induction s)
  case (Cons c s)
  then have "day_match (c # s) = None" using day_match_d [of "c # s"] by fastforce
  then show ?case using Cons by simp
qed simp

text \<open>Trimming leaves a text alone that starts and ends with visible ASCII.\<close>

definition visible :: "char \<Rightarrow> bool" where
  "visible c \<longleftrightarrow> 33 \<le> byte c \<and> byte c < 128"

lemma visible_space: "visible c \<Longrightarrow> \<not> is_space (byte c)"
  by (auto simp: visible_def is_space_def)

lemma rune_chunks_ascii_Cons: "byte c < 128 \<Longrightarrow> rune_chunks (c # s) = (byte c, [c]) # rune_chunks s"
  by (simp add: decode_rune_def)

lemma trim_space_visible:
  assumes "visible c" and "visible d"
  shows "trim_space (c # s @ [d]) = c # s @ [d]"
proof -
  have ch: "rune_chunks (c # s @ [d]) = (byte c, [c]) # rune_chunks s @ [(byte d, [d])]"
    using assms rune_chunks_ascii_Cons [of c "s @ [d]"] rune_chunks_snoc_ascii [of d s]
    by (simp add: visible_def del: rune_chunks.simps)
  have "trim_chunks (rune_chunks (c # s @ [d])) = rune_chunks (c # s @ [d])"
    unfolding ch using assms visible_space by (simp add: trim_chunks_def)
  then show ?thesis unfolding trim_space_def by (simp del: rune_chunks.simps)
qed

lemma trim_space_one: "visible c \<Longrightarrow> trim_space [c] = [c]"
  using visible_space [of c] by (simp add: trim_space_def trim_chunks_def visible_def decode_rune_def)

lemma visible_text:
  assumes "s \<noteq> []" and "visible (hd s)" and "visible (last s)"
  shows "trim_space s = s"
proof (cases "tl s = []")
  case True
  then show ?thesis using assms trim_space_one by (cases s) auto
next
  case False
  then have "s = hd s # butlast (tl s) @ [last s]" using assms(1)
    by (metis append_butlast_last_id last_tl list.collapse)
  then show ?thesis using trim_space_visible assms by metis
qed

lemma digit_visible: "is_digit c \<Longrightarrow> visible c"
  by (simp add: is_digit_def visible_def)

lemma go_parse_body:
  assumes "0 < u" and "u \<le> 2 ^ 63"
  shows "go_parse_duration (CHR ''-'' # duration_body u) = Some (- u)"
    and "u < 2 ^ 63 \<Longrightarrow> go_parse_duration (duration_body u) = Some u"
proof -
  obtain c r where b: "duration_body u = c # r" "is_digit c" "r \<noteq> []"
    using duration_body_chars(1) [OF assms(1)] by blast
  have c: "c \<noteq> CHR ''-''" "c \<noteq> CHR ''+''" using b(2) by (auto simp: is_digit_def byte_def)
  note sum = duration_body_sum [OF assms, unfolded b(1)]
  show "go_parse_duration (CHR ''-'' # duration_body u) = Some (- u)"
    using sum b by (simp add: go_parse_duration_def Let_def)
  show "u < 2 ^ 63 \<Longrightarrow> go_parse_duration (duration_body u) = Some u"
    using sum b c by (simp add: go_parse_duration_def Let_def)
qed

lemma duration_string_read:
  assumes "- (2 ^ 63) \<le> d" and "d < 2 ^ 63"
  defines "s \<equiv> duration_string d"
  shows "s \<noteq> [] \<and> visible (hd s) \<and> visible (last s) \<and> CHR ''d'' \<notin> set s \<and> go_parse_duration s = Some d"
proof (cases "d = 0")
  case True
  then show ?thesis
    by (simp add: s_def duration_string_body visible_def byte_def go_parse_duration_def
      duration_sum.simps duration_part_def) code_simp
next
  case False
  define u where "u = \<bar>d\<bar>"
  have u: "0 < u" "u \<le> 2 ^ 63" using assms(1,2) False by (auto simp: u_def)
  obtain c r where b: "duration_body u = c # r" "is_digit c" "r \<noteq> []" "last r = CHR ''s''"
    using duration_body_chars(1) [OF u(1)] by blast
  have v: "visible c" "visible (CHR ''s'')" "visible (CHR ''-'')"
    using digit_visible [OF b(2)] by (simp_all add: visible_def byte_def)
  have "s = duration_body u \<and> d = u \<and> u < 2 ^ 63 \<or> s = CHR ''-'' # duration_body u \<and> d = - u"
    using False assms(1,2) by (auto simp: s_def u_def duration_string_body)
  then show ?thesis
    using v b go_parse_body [OF u] duration_body_chars(2) [OF u(1)] by auto
qed

lemma parse_format_duration:
  assumes "- (2 ^ 63) \<le> d" and "d < 2 ^ 63"
  shows "parse_duration b (format_duration d) = Some d"
  using duration_string_read [OF assms] visible_text [of "duration_string d"]
    expand_day_unit_none [of "duration_string d" b]
  by (simp add: parse_duration_def format_duration_def)

text \<open>\<open>time.ParseDuration\<close> alone reads it too.\<close>

lemma go_parse_format:
  assumes "- (2 ^ 63) \<le> d" and "d < 2 ^ 63"
  shows "format_duration d \<noteq> []" and "go_parse_duration (format_duration d) = Some d"
  using duration_string_read [OF assms] by (simp_all add: format_duration_def)

end
