(* ===== verification/Text_Facts.thy ===== *)
theory Text_Facts
  imports Bot_Times Duration_Facts
begin

section \<open>ASCII text\<close>

text \<open>
  On ASCII every byte is a rune, so words, trimming and normalization are operations on
  characters. \<open>unicode_documented\<close> is what the documentation of the Unicode packages says of them
  on ASCII and of case folding in general.
\<close>

definition ascii :: "string \<Rightarrow> bool" where
  "ascii s \<longleftrightarrow> list_all (\<lambda>c. byte c < 128) s"

definition ascii_lower :: "char \<Rightarrow> char" where
  "ascii_lower c = (if 65 \<le> byte c \<and> byte c \<le> 90 then char_of (byte c + 32) else c)"

definition unicode_documented :: "bot_unicode \<Rightarrow> bool" where
  "unicode_documented u \<longleftrightarrow>
     (\<forall>s. ascii s \<longrightarrow> un_nfkc u s = s) \<and>
     (\<forall>s. ascii s \<longrightarrow> un_to_lower u s = map ascii_lower s) \<and>
     (\<forall>a b. ascii a \<longrightarrow> ascii b \<longrightarrow> un_equal_fold u a b = (map ascii_lower a = map ascii_lower b)) \<and>
     (\<forall>a b. un_equal_fold u a b \<longrightarrow> rune_count a = rune_count b)"

lemma ascii_simps [simp]:
  "ascii []" "ascii (c # s) \<longleftrightarrow> byte c < 128 \<and> ascii s" "ascii (s @ t) \<longleftrightarrow> ascii s \<and> ascii t"
  by (simp_all add: ascii_def)

lemma rune_chunks_of_ascii: "ascii s \<Longrightarrow> rune_chunks s = map (\<lambda>c. (byte c, [c])) s"
  by (rule rune_chunks_ascii) (simp add: ascii_def list_all_iff)

lemma words_of_char:
  "list_all (\<lambda>c. \<not> sep (byte c)) w \<Longrightarrow>
   words_of sep v (map (\<lambda>c. (byte c, [c])) w @ cs) = words_of sep (v @ w) cs"
  by (induction w arbitrary: v) auto

definition word :: "(rune \<Rightarrow> bool) \<Rightarrow> string \<Rightarrow> bool" where
  "word sep w \<longleftrightarrow> w \<noteq> [] \<and> ascii w \<and> list_all (\<lambda>c. \<not> sep (byte c)) w"

lemma ascii_join: "ascii sep \<Longrightarrow> list_all ascii ws \<Longrightarrow> ascii (join_with sep ws)"
  by (induction sep ws rule: join_with.induct) auto

text \<open>Words joined with a separator are found again.\<close>

lemma words_of_join:
  assumes "sep (byte c)" and "byte c < 128" and "list_all (word sep) ws"
  shows "words_of sep [] (rune_chunks (join_with [c] ws)) = ws"
proof -
  have "ascii (join_with [c] ws)"
    using assms by (intro ascii_join) (auto simp: word_def list_all_iff)
  moreover have "words_of sep [] (map (\<lambda>c. (byte c, [c])) (join_with [c] ws)) = ws"
    using assms(3)
  proof (induction "[c]" ws rule: join_with.induct)
    case (2 p)
    then show ?case using words_of_char [of sep p "[]" "[]"] by (auto simp: word_def)
  next
    case (3 p q ps)
    then show ?case
      using words_of_char [of sep p "[]" "map (\<lambda>c. (byte c, [c])) ([c] @ join_with [c] (q # ps))"] assms(1)
      by (auto simp: word_def)
  qed simp
  ultimately show ?thesis by (simp add: rune_chunks_of_ascii)
qed

lemma split_fields_join: "list_all (word is_space) ws \<Longrightarrow> split_fields (join_with '' '' ws) = ws"
  using words_of_join [of is_space "CHR '' ''" ws]
  by (simp add: split_fields_def is_space_def byte_def)

lemma normalize_words:
  assumes "unicode_documented u" and "list_all (word is_space) ws"
  shows "normalize_input u (join_with '' '' ws) = join_with '' '' ws"
proof -
  have "ascii (join_with '' '' ws)"
    using assms(2) by (intro ascii_join) (auto simp: word_def list_all_iff byte_def)
  then have "un_nfkc u (join_with '' '' ws) = join_with '' '' ws"
    using assms(1) by (simp add: unicode_documented_def)
  then show ?thesis using split_fields_join [OF assms(2)] by (simp add: normalize_input_def)
qed

lemma visible_ascii: "visible c \<Longrightarrow> byte c < 128"
  by (simp add: visible_def)

lemma visible_word: "w \<noteq> [] \<Longrightarrow> list_all visible w \<Longrightarrow> word is_space w"
  using visible_space by (auto simp: word_def ascii_def list_all_iff visible_def)

text \<open>A leading space is trimmed.\<close>

lemma trim_space_lead: "trim_space (CHR '' '' # s) = trim_space s"
proof -
  have "rune_chunks (CHR '' '' # s) = (32, '' '') # rune_chunks s"
    using rune_chunks_ascii_Cons [of "CHR '' ''" s] by (simp add: byte_def del: rune_chunks.simps)
  then show ?thesis by (simp add: trim_space_def trim_chunks_def is_space_def)
qed

end
