(* ===== verification/Mongo_Driver.thy ===== *)
theory Mongo_Driver
  imports Mongo_Documents Text_Facts "HOL-Library.AList"
begin

section \<open>The MongoDB driver and what the repository relies on\<close>

text \<open>
  The calls of \<open>go.mongodb.org/mongo-driver\<close> the repository makes, as a record of functions over
  a state of any type, and the documented behaviour of those calls as \<open>mongo_documented\<close>, over a
  view of the state as collections that map identifiers to documents. A filter and an update
  are the documents the code builds; of the query language, the operators it uses are written
  out. What the documentation leaves open stays open: which of several matching documents a
  call picks, and what an update does that would change an identifier or violate a unique
  index. The calls are those that reach the server, and the purges of the TTL indexes are
  between them. The indexes of \<open>indexes.go\<close> and the helpers of \<open>store.go\<close> are here as well.
\<close>

type_synonym sort_order = "(string \<times> int) list"

record 's mongo_driver =
  md_from_hex :: "string \<Rightarrow> string option"
  md_new_id :: "'s \<Rightarrow> string \<times> 's"
  md_insert_one :: "string \<Rightarrow> document \<Rightarrow> ('s, err, unit) prog"
  md_find_one :: "string \<Rightarrow> document \<Rightarrow> ('s, err, document) prog"
  md_find :: "string \<Rightarrow> document \<Rightarrow> sort_order \<Rightarrow> int option \<Rightarrow> ('s, err, document list) prog"
  md_find_one_and_update ::
    "string \<Rightarrow> document \<Rightarrow> bson \<Rightarrow> sort_order \<Rightarrow> bool \<Rightarrow> bool \<Rightarrow> ('s, err, document) prog"
  md_find_one_and_delete :: "string \<Rightarrow> document \<Rightarrow> ('s, err, document) prog"
  md_update_one :: "string \<Rightarrow> document \<Rightarrow> bson \<Rightarrow> bool \<Rightarrow> ('s, err, int) prog"
  md_update_many :: "string \<Rightarrow> document \<Rightarrow> bson \<Rightarrow> ('s, err, int) prog"
  md_delete_one :: "string \<Rightarrow> document \<Rightarrow> ('s, err, int) prog"
  md_delete_many :: "string \<Rightarrow> document \<Rightarrow> ('s, err, int) prog"
  md_count :: "string \<Rightarrow> document \<Rightarrow> int option \<Rightarrow> ('s, err, int) prog"
  md_is_duplicate_key :: "err \<Rightarrow> bool"
  md_no_documents :: err

subsection \<open>Filters\<close>

fun path_get :: "document \<Rightarrow> string list \<Rightarrow> bson option" where
  "path_get d [] = None"
| "path_get d [k] = map_of d k"
| "path_get d (k # ks) = (case map_of d k of Some (BDoc e) \<Rightarrow> path_get e ks | _ \<Rightarrow> None)"

definition at_path :: "document \<Rightarrow> string \<Rightarrow> bson option" where
  "at_path d k = path_get d (split_on (CHR ''.'') k)"

text \<open>Values of different types are not compared.\<close>

fun bson_less :: "bson \<Rightarrow> bson \<Rightarrow> bool" where
  "bson_less (BInt a) (BInt b) = (a < b)"
| "bson_less (BStr a) (BStr b) = (a < b)"
| "bson_less (BDate a) (BDate b) = (a < b)"
| "bson_less (BOid a) (BOid b) = (a < b)"
| "bson_less _ _ = False"

definition equals :: "bson option \<Rightarrow> bson \<Rightarrow> bool" where
  "equals v x \<longleftrightarrow> v = Some x \<or> x = BNull \<and> v = None"

definition operator_matches :: "bson option \<Rightarrow> string \<times> bson \<Rightarrow> bool" where
  "operator_matches v c =
     (case c of (op, x) \<Rightarrow>
        if op = ''$in'' then (case x of BArr xs \<Rightarrow> list_ex (equals v) xs | _ \<Rightarrow> False)
        else case v of
          None \<Rightarrow> False
        | Some y \<Rightarrow>
            if op = ''$gt'' then bson_less x y
            else if op = ''$gte'' then bson_less x y \<or> x = y
            else if op = ''$lt'' then bson_less y x
            else op = ''$lte'' \<and> (bson_less y x \<or> x = y))"

definition field_matches :: "bson option \<Rightarrow> bson \<Rightarrow> bool" where
  "field_matches v c =
     (case c of
        BDoc ops \<Rightarrow>
          if ops \<noteq> [] \<and> list_all (\<lambda>(op, _). prefix ''$'' op) ops then list_all (operator_matches v) ops
          else equals v c
      | _ \<Rightarrow> equals v c)"

definition fields_match :: "document \<Rightarrow> document \<Rightarrow> bool" where
  "fields_match f d = list_all (\<lambda>(k, c). field_matches (at_path d k) c) f"

definition matches :: "document \<Rightarrow> document \<Rightarrow> bool" where
  "matches f d = list_all (\<lambda>(k, c).
     if k = ''$or''
     then (case c of
             BArr alts \<Rightarrow> list_ex (\<lambda>a. case a of BDoc g \<Rightarrow> fields_match g d | _ \<Rightarrow> False) alts
           | _ \<Rightarrow> False)
     else field_matches (at_path d k) c) f"

subsection \<open>Updates\<close>

definition set_field :: "string \<Rightarrow> bson \<Rightarrow> document \<Rightarrow> document" where
  "set_field = AList.update"

definition set_fields :: "document \<Rightarrow> document \<Rightarrow> document" where
  "set_fields = fold (\<lambda>(k, v). set_field k v)"

definition add_value :: "bson option \<Rightarrow> bson \<Rightarrow> bson" where
  "add_value v x =
     (case x of
        BInt n \<Rightarrow> BInt (n + (case v of Some (BInt m) \<Rightarrow> m | _ \<Rightarrow> 0))
      | _ \<Rightarrow> x)"

text \<open>The update operators; \<open>$setOnInsert\<close> counts when the document is new.\<close>

definition apply_operators :: "bool \<Rightarrow> document \<Rightarrow> document \<Rightarrow> document" where
  "apply_operators new ops d =
     (let d1 = set_fields (doc_field ops ''$set'') d;
          d2 = fold (\<lambda>(k, n) e. set_field k (add_value (map_of e k) n) e) (doc_field ops ''$inc'') d1
      in if new then set_fields (doc_field ops ''$setOnInsert'') d2 else d2)"

text \<open>
  Expressions of an aggregation pipeline. A string that begins with a dollar sign is a path
  into the document as it was; \<open>None\<close> is a missing value, which leaves its field out.
\<close>

fun eval_expr :: "document \<Rightarrow> bson \<Rightarrow> bson option" where
  "eval_expr d (BStr s) =
     (if prefix ''$'' s then at_path d (tl s) else Some (BStr s))"
| "eval_expr d (BDoc [(op, BArr [x, y])]) =
     (let a = eval_expr d x; b = eval_expr d y
      in if op = ''$eq'' then Some (BBool (a = b))
         else if op = ''$and'' then Some (BBool (a = Some (BBool True) \<and> b = Some (BBool True)))
         else if op = ''$ifNull'' then (if a = None \<or> a = Some BNull then b else a)
         else if op = ''$add'' then map_option (add_value a) b
         else None)"
| "eval_expr d (BDoc [(op, BArr [c, x, y])]) =
     (if op = ''$cond'' then
        (if eval_expr d c = Some (BBool True) then eval_expr d x else eval_expr d y)
      else None)"
| "eval_expr d v = Some v"

definition put_field :: "string \<Rightarrow> bson option \<Rightarrow> document \<Rightarrow> document" where
  "put_field k v d = (case v of None \<Rightarrow> AList.delete k d | Some x \<Rightarrow> set_field k x d)"

definition apply_pipeline :: "document \<Rightarrow> document \<Rightarrow> document" where
  "apply_pipeline exprs d = fold (\<lambda>(k, e). put_field k (eval_expr d e)) exprs d"

definition apply_update :: "bool \<Rightarrow> bson \<Rightarrow> document \<Rightarrow> document" where
  "apply_update new u d =
     (case u of
        BDoc ops \<Rightarrow> apply_operators new ops d
      | BArr [BDoc [(op, BDoc exprs)]] \<Rightarrow> if op = ''$set'' then apply_pipeline exprs d else d
      | _ \<Rightarrow> d)"

text \<open>
  What the documentation says of a pipeline is about well-formed expressions: a dollar sign begins
  the name of a field. One alone is an error, and two begin a variable, of which the code uses none.
\<close>

primrec expr_ok :: "bson \<Rightarrow> bool" where
  "expr_ok BNull = True"
| "expr_ok (BBool b) = True"
| "expr_ok (BInt i) = True"
| "expr_ok (BStr s) = (prefix ''$'' s \<longrightarrow> tl s \<noteq> [] \<and> \<not> prefix ''$'' (tl s))"
| "expr_ok (BDate t) = True"
| "expr_ok (BOid i) = True"
| "expr_ok (BArr xs) = list_all id (map expr_ok xs)"
| "expr_ok (BDoc kvs) = list_all snd (map (map_prod id expr_ok) kvs)"

definition update_ok :: "bson \<Rightarrow> bool" where
  "update_ok u = (case u of BArr stages \<Rightarrow> expr_ok u | _ \<Rightarrow> True)"

text \<open>A new document of an upsert begins with the fields its filter gives a value.\<close>

definition given_fields :: "document \<Rightarrow> document" where
  "given_fields f = filter (\<lambda>(k, c). \<not> prefix ''$'' k \<and> (case c of BDoc _ \<Rightarrow> False | _ \<Rightarrow> True)) f"

subsection \<open>Indexes\<close>

text \<open>\<open>EnsureIndexes\<close>: the fields of an index, whether it is unique, whether it is sparse.\<close>

definition indexes :: "string \<Rightarrow> (string list \<times> bool \<times> bool) list" where
  "indexes c =
     (if c = ''workspaces'' then [([''provider'', ''externalId''], True, False)]
      else if c = ''events'' then
        [([''workspaceId'', ''status'', ''startsAt''], False, False), ([''startsAt'', ''_id''], False, False),
         ([''channel.channelId''], False, False), ([''messages.announcement.messageId''], False, False)]
      else if c = ''participations'' then
        [([''eventId'', ''chatUserId''], True, False), ([''eventId'', ''status''], False, False)]
      else if c = ''jobs'' then
        [([''status'', ''runAt''], False, False), ([''dedupeKey''], True, True),
         ([''eventId'', ''status''], False, False), ([''finishedAt''], False, False)]
      else if c = ''reminder_logs'' then
        [([''eventId'', ''sequence''], False, False), ([''eventId'', ''scheduledFor''], False, False)]
      else if c = ''console_users'' then [([''googleSub''], True, False), ([''email''], False, False)]
      else if c = ''chat_identities'' then
        [([''workspaceId'', ''chatUserId''], True, False), ([''consoleUserId''], False, False)]
      else if c = ''link_tokens'' then [([''expiresAt''], False, False)]
      else if c = ''sessions'' then [([''expiresAt''], False, False), ([''userId''], False, False)]
      else if c = ''oauth_states'' then [([''expiresAt''], False, False)]
      else [])"

definition index_key :: "bool \<Rightarrow> string list \<Rightarrow> document \<Rightarrow> bson list option" where
  "index_key sparse ks d =
     (if sparse \<and> list_all (\<lambda>k. at_path d k = None) ks then None
      else Some (map (\<lambda>k. case at_path d k of None \<Rightarrow> BNull | Some v \<Rightarrow> v) ks))"

definition same_key :: "string \<Rightarrow> document \<Rightarrow> document \<Rightarrow> bool" where
  "same_key c d e = list_ex (\<lambda>(ks, unique, sparse).
     unique \<and> index_key sparse ks d \<noteq> None \<and> index_key sparse ks d = index_key sparse ks e) (indexes c)"

subsection \<open>The documented behaviour\<close>

type_synonym collection = "bson \<rightharpoonup> document"
type_synonym 's view = "'s \<Rightarrow> string \<Rightarrow> collection"

definition allowed :: "string \<Rightarrow> collection \<Rightarrow> bson \<Rightarrow> document \<Rightarrow> bool" where
  "allowed c M i d \<longleftrightarrow>
     map_of d ''_id'' = Some i \<and> (\<forall>j e. M j = Some e \<longrightarrow> j \<noteq> i \<longrightarrow> \<not> same_key c d e)"

definition found_in :: "collection \<Rightarrow> document \<Rightarrow> bson set" where
  "found_in M f = {i. \<exists>d. M i = Some d \<and> matches (stored f) d}"

definition value_less :: "bson option \<Rightarrow> bson option \<Rightarrow> bool" where
  "value_less a b =
     (case b of None \<Rightarrow> False | Some y \<Rightarrow> (case a of None \<Rightarrow> True | Some x \<Rightarrow> bson_less x y))"

fun precedes :: "sort_order \<Rightarrow> document \<Rightarrow> document \<Rightarrow> bool" where
  "precedes [] d e = False"
| "precedes ((k, dir) # order) d e =
     (if at_path d k = at_path e k then precedes order d e
      else if 0 < dir then value_less (at_path d k) (at_path e k)
      else value_less (at_path e k) (at_path d k))"

definition picks :: "collection \<Rightarrow> document \<Rightarrow> sort_order \<Rightarrow> bson \<Rightarrow> document \<Rightarrow> bool" where
  "picks M f order i d \<longleftrightarrow> M i = Some d \<and> i \<in> found_in M f \<and>
     (\<forall>j e. M j = Some e \<longrightarrow> j \<in> found_in M f \<longrightarrow> \<not> precedes order e d)"

text \<open>The state after a call whose only effect is on one document.\<close>

definition replaced :: "'s view \<Rightarrow> 's \<Rightarrow> string \<Rightarrow> bson \<Rightarrow> document option \<Rightarrow> 's \<Rightarrow> bool" where
  "replaced V s c i d s' \<longleftrightarrow> V s' = (V s)(c := (V s c)(i := d))"

text \<open>The new document of an upsert: the fields of the filter, an identifier, the update.\<close>

definition upsert_document :: "document \<Rightarrow> bson \<Rightarrow> bson \<Rightarrow> document" where
  "upsert_document f u i =
     apply_update True (marshal u)
       (if map_of (given_fields f) ''_id'' = Some i then stored (given_fields f)
        else (''_id'', i) # stored (given_fields f))"

definition upsert_id :: "collection \<Rightarrow> document \<Rightarrow> bson \<Rightarrow> bool" where
  "upsert_id M f i \<longleftrightarrow> M i = None \<and>
     (case map_of (given_fields f) ''_id'' of Some j \<Rightarrow> i = j | None \<Rightarrow> \<exists>oid. i = BOid oid)"

text \<open>
  Identifiers have a canonical text. That a new one is never in use is the promise of the
  driver's generator; 24 digits could run out, so the law leaves open how long the texts of
  the identifiers are that the driver reads beside those.
\<close>

definition ids_law :: "'s mongo_driver \<Rightarrow> 's view \<Rightarrow> bool" where
  "ids_law D V \<longleftrightarrow>
     (\<forall>i. is_id i \<longrightarrow> md_from_hex D i = Some (map ascii_lower i)) \<and>
     (\<forall>i oid. md_from_hex D i = Some oid \<longrightarrow> md_from_hex D oid = Some oid) \<and>
     (\<forall>s. case md_new_id D s of (oid, s') \<Rightarrow>
        md_from_hex D oid = Some oid \<and> V s' = V s \<and> (\<forall>c. V s c (BOid oid) = None)) \<and>
     (\<forall>s c. finite (dom (V s c))) \<and>
     (\<forall>s c i d. V s c i = Some d \<longrightarrow> map_of d ''_id'' = Some i)"

definition insert_law :: "'s mongo_driver \<Rightarrow> 's view \<Rightarrow> bool" where
  "insert_law D V \<longleftrightarrow> (\<forall>s c d i. map_of (stored d) ''_id'' = Some i \<longrightarrow>
     (if V s c i = None \<and> allowed c (V s c) i (stored d)
      then \<exists>s'. md_insert_one D c d s = (Inr (), s') \<and> replaced V s c i (Some (stored d)) s'
      else \<exists>e. md_insert_one D c d s = (Inl e, s) \<and> md_is_duplicate_key D e))"

definition find_one_law :: "'s mongo_driver \<Rightarrow> 's view \<Rightarrow> bool" where
  "find_one_law D V \<longleftrightarrow> (\<forall>s c f.
     if found_in (V s c) f = {} then md_find_one D c f s = (Inl (md_no_documents D), s)
     else \<exists>i d. picks (V s c) f [] i d \<and> md_find_one D c f s = (Inr d, s))"

definition find_law :: "'s mongo_driver \<Rightarrow> 's view \<Rightarrow> bool" where
  "find_law D V \<longleftrightarrow> (\<forall>s c f order limit. \<exists>ids.
     distinct ids \<and> set ids = found_in (V s c) f \<and>
     sorted_wrt (\<lambda>d e. \<not> precedes order e d) (map (\<lambda>i. the (V s c i)) ids) \<and>
     md_find D c f order limit s =
       (Inr (map (\<lambda>i. the (V s c i)) (case limit of None \<Rightarrow> ids | Some n \<Rightarrow> take (nat n) ids)), s))"

definition find_one_and_update_law :: "'s mongo_driver \<Rightarrow> 's view \<Rightarrow> bool" where
  "find_one_and_update_law D V \<longleftrightarrow>
     (\<forall>s c f u order upsert after.
        if found_in (V s c) f \<noteq> {} then
          \<exists>i d. picks (V s c) f order i d \<and>
            (let d' = apply_update False (marshal u) d
             in update_ok u \<and> allowed c (V s c) i d' \<longrightarrow>
                (\<exists>s'. md_find_one_and_update D c f u order upsert after s =
                    (Inr (if after then d' else d), s') \<and> replaced V s c i (Some d') s'))
        else if \<not> upsert then
          md_find_one_and_update D c f u order upsert after s = (Inl (md_no_documents D), s)
        else if \<exists>i. upsert_id (V s c) f i then
          \<exists>i. upsert_id (V s c) f i \<and>
            (let d' = upsert_document f u i
             in update_ok u \<and> allowed c (V s c) i d' \<longrightarrow>
                (\<exists>s'. md_find_one_and_update D c f u order upsert after s =
                    (if after then Inr d' else Inl (md_no_documents D), s') \<and>
                  replaced V s c i (Some d') s'))
        else True)"

definition find_one_and_delete_law :: "'s mongo_driver \<Rightarrow> 's view \<Rightarrow> bool" where
  "find_one_and_delete_law D V \<longleftrightarrow> (\<forall>s c f.
     if found_in (V s c) f = {} then md_find_one_and_delete D c f s = (Inl (md_no_documents D), s)
     else \<exists>i d s'. picks (V s c) f [] i d \<and> md_find_one_and_delete D c f s = (Inr d, s') \<and>
       replaced V s c i None s')"

definition update_one_law :: "'s mongo_driver \<Rightarrow> 's view \<Rightarrow> bool" where
  "update_one_law D V \<longleftrightarrow>
     (\<forall>s c f u upsert.
        if found_in (V s c) f \<noteq> {} then
          \<exists>i d. picks (V s c) f [] i d \<and>
            (let d' = apply_update False (marshal u) d
             in update_ok u \<and> allowed c (V s c) i d' \<longrightarrow>
                (\<exists>s'. md_update_one D c f u upsert s = (Inr 1, s') \<and> replaced V s c i (Some d') s'))
        else if \<not> upsert then md_update_one D c f u upsert s = (Inr 0, s)
        else if \<exists>i. upsert_id (V s c) f i then
          \<exists>i. upsert_id (V s c) f i \<and>
            (let d' = upsert_document f u i
             in update_ok u \<and> allowed c (V s c) i d' \<longrightarrow>
                (\<exists>s'. md_update_one D c f u upsert s = (Inr 0, s') \<and>
                  replaced V s c i (Some d') s'))
        else True)"

definition many_law :: "'s mongo_driver \<Rightarrow> 's view \<Rightarrow> bool" where
  "many_law D V \<longleftrightarrow>
     (\<forall>s c f u.
        let M = V s c; change = (\<lambda>i. map_option (\<lambda>d.
              if i \<in> found_in M f then apply_update False (marshal u) d else d) (M i))
        in update_ok u \<and> (\<forall>i d. change i = Some d \<longrightarrow> allowed c change i d) \<longrightarrow>
           (\<exists>s'. md_update_many D c f u s =
               (Inr (int (card {i \<in> found_in M f. change i \<noteq> M i})), s') \<and>
             V s' = (V s)(c := change)))"

definition delete_law :: "'s mongo_driver \<Rightarrow> 's view \<Rightarrow> bool" where
  "delete_law D V \<longleftrightarrow>
     (\<forall>s c f.
        (if found_in (V s c) f = {} then md_delete_one D c f s = (Inr 0, s)
         else \<exists>i d s'. picks (V s c) f [] i d \<and> md_delete_one D c f s = (Inr 1, s') \<and>
           replaced V s c i None s') \<and>
        (\<exists>s'. md_delete_many D c f s = (Inr (int (card (found_in (V s c) f))), s') \<and>
           V s' = (V s)(c := (V s c) |` (- found_in (V s c) f))))"

definition count_law :: "'s mongo_driver \<Rightarrow> 's view \<Rightarrow> bool" where
  "count_law D V \<longleftrightarrow> (\<forall>s c f limit.
     let n = int (card (found_in (V s c) f))
     in md_count D c f limit s = (Inr (case limit of None \<Rightarrow> n | Some m \<Rightarrow> min m n), s))"

text \<open>The error for no documents is none of the errors of the domain, and not wrapped.\<close>

definition errors_law :: "'s mongo_driver \<Rightarrow> bool" where
  "errors_law D \<longleftrightarrow> \<not> md_is_duplicate_key D (md_no_documents D)"

definition mongo_documented :: "'s mongo_driver \<Rightarrow> 's view \<Rightarrow> bool" where
  "mongo_documented D V \<longleftrightarrow>
     ids_law D V \<and> insert_law D V \<and> find_one_law D V \<and> find_law D V \<and>
     find_one_and_update_law D V \<and> find_one_and_delete_law D V \<and> update_one_law D V \<and>
     many_law D V \<and> delete_law D V \<and> count_law D V \<and> errors_law D"

subsection \<open>store.go: errors and shared helpers\<close>

definition map_not_found :: "'s mongo_driver \<Rightarrow> string \<Rightarrow> err \<Rightarrow> err" where
  "map_not_found D op e = (if errors_is e (md_no_documents D) then ErrNotFound else ErrWrapped op e)"

definition map_write_error :: "'s mongo_driver \<Rightarrow> string \<Rightarrow> err \<Rightarrow> err" where
  "map_write_error D op e = (if md_is_duplicate_key D e then ErrAlreadyExists else ErrWrapped op e)"

text \<open>A call whose error is replaced.\<close>

definition with_error :: "(err \<Rightarrow> err) \<Rightarrow> ('s, err, 'a) prog \<Rightarrow> ('s, err, 'a) prog" where
  "with_error h m = m_bind (m_try m) (\<lambda>r. case r of Inl e \<Rightarrow> m_throw (h e) | Inr x \<Rightarrow> m_return x)"

definition oid_of :: "'s mongo_driver \<Rightarrow> string \<Rightarrow> ('s, err, string) prog" where
  "oid_of D i = m_lift (object_id (md_from_hex D) i)"

definition new_oid :: "'s mongo_driver \<Rightarrow> ('s, err, string) prog" where
  "new_oid D = (\<lambda>s. case md_new_id D s of (oid, s') \<Rightarrow> (Inr oid, s'))"

definition list_by_event ::
  "'s mongo_driver \<Rightarrow> string \<Rightarrow> string \<Rightarrow> string list \<Rightarrow> string \<Rightarrow> (document \<Rightarrow> 'a) \<Rightarrow> string
   \<Rightarrow> ('s, err, 'a list) prog" where
  "list_by_event D coll event_id statuses sort_by decode op =
     m_bind (oid_of D event_id) (\<lambda>oid.
     m_bind (with_error (ErrWrapped op)
        (md_find D coll
           ((''eventId'', BOid oid) #
            (if statuses = [] then []
             else [(''status'', BDoc [(''$in'', BArr (map BStr statuses))])]))
           [(sort_by, 1)] None)) (\<lambda>docs.
       m_return (map decode docs)))"

text \<open>An update of one document that is an error when there is none.\<close>

definition update_matched ::
  "'s mongo_driver \<Rightarrow> string \<Rightarrow> document \<Rightarrow> bson \<Rightarrow> string \<Rightarrow> ('s, err, unit) prog" where
  "update_matched D coll f u op =
     m_bind (with_error (ErrWrapped op) (md_update_one D coll f u False)) (\<lambda>n.
       if n = 0 then m_throw ErrNotFound else m_return ())"

end
