(* ===== verification/Mongo_Jobs.thy ===== *)
theory Mongo_Jobs
  imports Mongo_Driver
begin

section \<open>The job queue in MongoDB\<close>

text \<open>
  \<open>internal/manager/store/mongo/jobs.go\<close>: every method of \<open>jobRepo\<close> over the driver. The error
  texts of a job are strings; as in the queue in memory an error is handed over and its text
  is stored.
\<close>

definition job_fields :: "string \<Rightarrow> job \<Rightarrow> string option \<Rightarrow> time \<Rightarrow> document" where
  "job_fields new_id job event_id now =
     [(''_id'', BOid new_id), (''kind'', BStr (job_kind_text (jb_kind job))),
      (''runAt'', BDate (jb_run_at job))] @
     omit_empty ''dedupeKey'' (jb_dedupe_key job) @
     [(''eventId'', (case event_id of None \<Rightarrow> BNull | Some i \<Rightarrow> BOid i)),
      (''payload'', BDoc
        (omit_empty ''eventId'' (jp_event_id (jb_payload job)) @
         omit_empty ''participationId'' (jp_participation_id (jb_payload job)) @
         (if jp_sequence (jb_payload job) = 0 then []
          else [(''sequence'', BInt (jp_sequence (jb_payload job)))]) @
         (if jp_scheduled_for (jb_payload job) = zero_time then []
          else [(''scheduledFor'', BDate (jp_scheduled_for (jb_payload job)))]))),
      (''status'', BStr (job_status_text JobPending)), (''attempts'', BInt 0),
      (''maxAttempts'', BInt (if jb_max_attempts job \<le> 0 then default_max_attempts
                            else jb_max_attempts job)),
      (''leaseUntil'', BNull), (''lastError'', BStr []), (''createdAt'', BDate now),
      (''updatedAt'', BDate now), (''finishedAt'', BNull)]"

definition mongo_jobs_enqueue :: "'s mongo_driver \<Rightarrow> job \<Rightarrow> time \<Rightarrow> ('s, err, job) prog" where
  "mongo_jobs_enqueue D job now =
     m_bind (new_oid D) (\<lambda>new_id.
     m_bind (if jb_event_id job = [] then m_return None
             else m_bind (oid_of D (jb_event_id job)) (\<lambda>i. m_return (Some i))) (\<lambda>event_id.
     let doc = job_fields new_id job event_id now
     in m_bind (with_error (map_write_error D ''enqueue job'') (md_insert_one D ''jobs'' doc)) (\<lambda>_.
          m_return (decode_job doc))))"

definition mongo_jobs_get :: "'s mongo_driver \<Rightarrow> string \<Rightarrow> ('s, err, job) prog" where
  "mongo_jobs_get D i =
     m_bind (oid_of D i) (\<lambda>oid.
     m_bind (with_error (map_not_found D ''get job'')
        (md_find_one D ''jobs'' [(''_id'', BOid oid)])) (\<lambda>doc.
       m_return (decode_job doc)))"

definition claim_filter :: "time \<Rightarrow> document" where
  "claim_filter now =
     [(''$or'', BArr
        [BDoc [(''status'', BStr (job_status_text JobPending)), (''runAt'', BDoc [(''$lte'', BDate now)])],
         BDoc [(''status'', BStr (job_status_text JobRunning)),
               (''leaseUntil'', BDoc [(''$lte'', BDate now)])]])]"

definition claim_update :: "time \<Rightarrow> duration \<Rightarrow> bson" where
  "claim_update now lease = BDoc
     [(''$set'', BDoc [(''status'', BStr (job_status_text JobRunning)),
                     (''leaseUntil'', BDate (now + lease)), (''updatedAt'', BDate now)]),
      (''$inc'', BDoc [(''attempts'', BInt 1)])]"

definition mongo_jobs_claim :: "'s mongo_driver \<Rightarrow> time \<Rightarrow> duration \<Rightarrow> ('s, err, job) prog" where
  "mongo_jobs_claim D now lease =
     m_bind (with_error (map_not_found D ''claim job'')
       (md_find_one_and_update D ''jobs'' (claim_filter now) (claim_update now lease)
          [(''runAt'', 1)] False True)) (\<lambda>doc.
       m_return (decode_job doc))"

text \<open>\<open>jobRepo.update\<close>\<close>

definition mongo_jobs_update ::
  "'s mongo_driver \<Rightarrow> string \<Rightarrow> bson \<Rightarrow> string \<Rightarrow> ('s, err, unit) prog" where
  "mongo_jobs_update D i u op =
     m_bind (oid_of D i) (\<lambda>oid. update_matched D ''jobs'' [(''_id'', BOid oid)] u op)"

definition complete_update :: "time \<Rightarrow> bson" where
  "complete_update now = BDoc [(''$set'', BDoc
     [(''status'', BStr (job_status_text JobDone)), (''finishedAt'', BDate now),
      (''leaseUntil'', BNull), (''updatedAt'', BDate now)])]"

definition retry_update :: "time \<Rightarrow> string \<Rightarrow> time \<Rightarrow> bson" where
  "retry_update run_at last_err now = BDoc [(''$set'', BDoc
     [(''status'', BStr (job_status_text JobPending)), (''runAt'', BDate run_at),
      (''lastError'', BStr last_err), (''leaseUntil'', BNull), (''updatedAt'', BDate now)])]"

definition fail_update :: "string \<Rightarrow> time \<Rightarrow> bson" where
  "fail_update last_err now = BDoc [(''$set'', BDoc
     [(''status'', BStr (job_status_text JobFailed)), (''finishedAt'', BDate now),
      (''lastError'', BStr last_err), (''leaseUntil'', BNull), (''updatedAt'', BDate now)])]"

definition reschedule_update :: "time \<Rightarrow> time \<Rightarrow> bson" where
  "reschedule_update run_at now = BDoc
     [(''$set'', BDoc [(''status'', BStr (job_status_text JobPending)), (''runAt'', BDate run_at),
                     (''leaseUntil'', BNull), (''updatedAt'', BDate now)]),
      (''$inc'', BDoc [(''attempts'', BInt (- 1))])]"

definition mongo_jobs_complete :: "'s mongo_driver \<Rightarrow> string \<Rightarrow> time \<Rightarrow> ('s, err, unit) prog" where
  "mongo_jobs_complete D i now = mongo_jobs_update D i (complete_update now) ''complete job''"

definition mongo_jobs_retry ::
  "'s mongo_driver \<Rightarrow> error_texts \<Rightarrow> string \<Rightarrow> time \<Rightarrow> err \<Rightarrow> time \<Rightarrow> ('s, err, unit) prog" where
  "mongo_jobs_retry D texts i run_at last_err now =
     mongo_jobs_update D i (retry_update run_at (et_error texts last_err) now) ''retry job''"

definition mongo_jobs_fail ::
  "'s mongo_driver \<Rightarrow> error_texts \<Rightarrow> string \<Rightarrow> err \<Rightarrow> time \<Rightarrow> ('s, err, unit) prog" where
  "mongo_jobs_fail D texts i last_err now =
     mongo_jobs_update D i (fail_update (et_error texts last_err) now) ''fail job''"

definition mongo_jobs_reschedule ::
  "'s mongo_driver \<Rightarrow> string \<Rightarrow> time \<Rightarrow> time \<Rightarrow> ('s, err, unit) prog" where
  "mongo_jobs_reschedule D i run_at now =
     mongo_jobs_update D i (reschedule_update run_at now) ''reschedule job''"

definition mongo_jobs_extend_lease ::
  "'s mongo_driver \<Rightarrow> string \<Rightarrow> time \<Rightarrow> time \<Rightarrow> ('s, err, unit) prog" where
  "mongo_jobs_extend_lease D i until now =
     m_bind (oid_of D i) (\<lambda>oid.
       update_matched D ''jobs''
         [(''_id'', BOid oid), (''status'', BStr (job_status_text JobRunning))]
         (BDoc [(''$set'', BDoc [(''leaseUntil'', BDate until), (''updatedAt'', BDate now)])])
         ''extend job lease'')"

definition cancel_filter :: "string \<Rightarrow> job_kind list \<Rightarrow> document" where
  "cancel_filter event_id kinds =
     [(''eventId'', BOid event_id), (''status'', BStr (job_status_text JobPending))] @
     (if kinds = [] then []
      else [(''kind'', BDoc [(''$in'', BArr (map (\<lambda>k. BStr (job_kind_text k)) kinds))])])"

definition cancel_update :: "time \<Rightarrow> bson" where
  "cancel_update now = BDoc [(''$set'', BDoc
     [(''status'', BStr (job_status_text JobCanceled)), (''finishedAt'', BDate now),
      (''updatedAt'', BDate now)])]"

definition mongo_jobs_cancel_by_event ::
  "'s mongo_driver \<Rightarrow> string \<Rightarrow> job_kind list \<Rightarrow> time \<Rightarrow> ('s, err, int) prog" where
  "mongo_jobs_cancel_by_event D event_id kinds now =
     m_bind (oid_of D event_id) (\<lambda>oid.
       with_error (ErrWrapped ''cancel jobs by event'')
         (md_update_many D ''jobs'' (cancel_filter oid kinds) (cancel_update now)))"

definition mongo_jobs_list_by_event ::
  "'s mongo_driver \<Rightarrow> string \<Rightarrow> job_status list \<Rightarrow> ('s, err, job list) prog" where
  "mongo_jobs_list_by_event D event_id statuses =
     list_by_event D ''jobs'' event_id (map job_status_text statuses) ''runAt'' decode_job
       ''list jobs by event''"

end
