(* ===== verification/Domain_Properties.thy ===== *)
theory Domain_Properties
  imports Domain_Event Domain_Job Domain_Participation Domain_Workspace Domain_Account Go_Text
begin

section \<open>Properties of the domain package and of the channel names\<close>

text \<open>
  The properties of \<open>internal/manager/domain\<close> and \<open>internal/shared/channelname\<close>, each with
  the claim it settles.
\<close>

subsection \<open>Reminder policies\<close>

text \<open>
  C12. An accepted schedule is a strictly increasing list of at most 30 instants, all
  after now and none after the start of the event, and it comes from a valid policy. So no
  reminder is ever scheduled in the past or after the event, and none twice.
\<close>
theorem schedule_sound:
  assumes "schedule p now starts_at loc = Some (Inr ts)"
  shows "policy_ok p \<and> sorted ts \<and> distinct ts \<and> length ts \<le> max_reminders \<and>
    (\<forall>t \<in> set ts. now < t \<and> t \<le> starts_at)"
proof -
  have "sorted ts \<and> distinct ts \<and> length ts \<le> max_reminders"
    using schedule_cases(2) [OF assms] finish_schedule_Inr by (auto simp: max_reminders_def)
  then show ?thesis using schedule_cases(1) [OF assms] schedule_range [OF assms] by blast
qed

theorem schedule_sound_witness:
  "\<exists>ts. schedule default_reminder_policy 0 (100 * hour) utc = Some (Inr ts) \<and> length ts = 2 \<and>
     (\<forall>t \<in> set ts. 0 < t \<and> t \<le> 100 * hour)"
proof -
  have "schedule default_reminder_policy 0 (100 * hour) utc = Some (Inr [76 * hour, 97 * hour])"
    by code_simp
  from schedule_sound [OF this] this show ?thesis by auto
qed



text \<open>
  In the offsets mode the schedule is exactly the set of instants
  \<open>starts_at - offset\<close> that are still to come; a valid policy never exceeds the limit.
\<close>
theorem schedule_offsets_exact:
  assumes "policy_ok p" and "rp_mode p = ModeOffsets"
  shows "\<exists>ts. schedule p now starts_at loc = Some (Inr ts) \<and>
    set ts = {starts_at - off | off. off \<in> set (rp_offsets p) \<and> now < starts_at - off}"
proof -
  have times: "set (offset_times p now starts_at) =
      {starts_at - off | off. off \<in> set (rp_offsets p) \<and> now < starts_at - off}"
    by (auto simp: offset_times_def)
  have "length (remdups_adj (sort (offset_times p now starts_at))) \<le> length (offset_times p now starts_at)"
    using remdups_adj_length [of "sort (offset_times p now starts_at)"] by simp
  also have "\<dots> \<le> length (rp_offsets p)" by (simp add: offset_times_def)
  also have "\<dots> \<le> max_reminders" using assms by (simp add: policy_ok_def)
  finally have "finish_schedule (offset_times p now starts_at) =
      Inr (remdups_adj (sort (offset_times p now starts_at)))"
    by (simp add: finish_schedule_def Let_def)
  moreover have "policy_validate p ''reminder_policy'' = None"
    using assms(1) by (simp add: policy_validate_None)
  ultimately show ?thesis using assms(2) times by (simp add: schedule_def)
qed

theorem schedule_offsets_exact_witness:
  "\<exists>ts. schedule default_reminder_policy 0 (100 * hour) utc = Some (Inr ts) \<and>
     set ts = {100 * hour - off | off. off \<in> set [7 * day, day, 3 * hour] \<and> 0 < 100 * hour - off}"
  using schedule_offsets_exact [of default_reminder_policy 0 "100 * hour" utc]
    default_policy_ok by (simp add: default_reminder_policy_def)

text \<open>
  In the interval mode the final reminder, \<open>final_offset\<close> before the start, is
  in every accepted schedule as long as it is still to come, and nothing comes after it.
\<close>
theorem interval_keeps_final:
  assumes "schedule p now starts_at loc = Some (Inr ts)" and "rp_mode p = ModeInterval"
    and "now < starts_at - rp_final_offset p"
  shows "starts_at - rp_final_offset p \<in> set ts \<and> (\<forall>t \<in> set ts. t \<le> starts_at - rp_final_offset p)"
proof -
  obtain acc where "interval_times p now starts_at loc = Some acc" "finish_schedule acc = Inr ts"
    using schedule_cases(2) [OF assms(1)] assms(2) by auto
  then show ?thesis
    using interval_times_range [of p now starts_at loc acc] finish_schedule_Inr(1) assms(3) by auto
qed

theorem interval_keeps_final_witness:
  "\<exists>p ts. rp_mode p = ModeInterval \<and> schedule p 0 (100 * hour) utc = Some (Inr ts) \<and>
     97 * hour \<in> set ts"
proof -
  let ?p = "\<lparr>rp_mode = ModeInterval, rp_offsets = [], rp_every = day,
             rp_at = \<lparr>tod_hour = 9, tod_minute = 0\<rparr>, rp_final_offset = 3 * hour\<rparr>"
  have "schedule ?p 0 (100 * hour) utc \<noteq> None \<and>
      (case schedule ?p 0 (100 * hour) utc of Some (Inr ts) \<Rightarrow> True | _ \<Rightarrow> False)"
    by code_simp
  then obtain ts where "schedule ?p 0 (100 * hour) utc = Some (Inr ts)"
    by (auto split: option.splits sum.splits)
  with interval_keeps_final [OF this] show ?thesis by (intro exI [of _ ?p] exI [of _ ts]) simp
qed

text \<open>
  \<open>Validate\<close> accepts a policy exactly when it is valid: offsets non-empty,
  positive, distinct and at most 30; an interval of at least an hour with a valid time of day
  and a final offset that is not negative; an unknown mode never.
\<close>
theorem policy_validate_exact: "policy_validate p field = None \<longleftrightarrow> policy_ok p"
  by (rule policy_validate_None)

text \<open>A valid time of day is read back from its text.\<close>
theorem time_of_day_roundtrip:
  assumes "tod_valid t"
  shows "parse_time_of_day (tod_string t) = Some t"
proof -
  have r: "0 \<le> tod_hour t" "tod_hour t < 100" "0 \<le> tod_minute t" "tod_minute t < 100"
    using assms by (auto simp: tod_valid_def max_hour_def max_minute_def)
  obtain a b where h: "pad2 (tod_hour t) = [a, b]" "atoi [a, b] = Some (tod_hour t)"
    "a \<noteq> CHR '':''" "b \<noteq> CHR '':''" "byte a < 128" "byte b < 128" "\<not> is_space (byte a)"
    using two_digits [OF r(1,2)] .
  obtain c e where m: "pad2 (tod_minute t) = [c, e]" "atoi [c, e] = Some (tod_minute t)"
    "c \<noteq> CHR '':''" "e \<noteq> CHR '':''" "byte c < 128" "byte e < 128" "\<not> is_space (byte e)"
    using two_digits [OF r(3,4)] .
  have "trim_space [a, b, CHR '':'', c, e] = [a, b, CHR '':'', c, e]"
    using h m by (intro trim_space_ascii) (simp_all add: byte_def)
  then show ?thesis using h m assms by (simp add: parse_time_of_day_def tod_string_def tod_valid_def Let_def)
qed

theorem time_of_day_roundtrip_witness:
  "parse_time_of_day (tod_string \<lparr>tod_hour = 19, tod_minute = 5\<rparr>) = Some \<lparr>tod_hour = 19, tod_minute = 5\<rparr>"
  by (rule time_of_day_roundtrip) (simp add: tod_valid_def max_hour_def max_minute_def)

subsection \<open>Events and settings\<close>

text \<open>
  \<open>NewEvent\<close> accepts its parameters exactly when the trimmed title is not empty, the
  texts are within their limits (in characters), the workspace identifier is well-formed, there
  is an organizer, the start is in the future, the end after the start, the reminder policy
  valid and the origin known; the event it makes is open, valid and has nobody in it.
\<close>
theorem new_event_exact:
  "(\<exists>e. new_event p now = Inr e \<and> event_ok e \<and> ev_is_open e \<and> ev_participant_count e = 0 \<and>
      ev_title e = trim_space (ne_title p) \<and> ev_channel e = no_channel) =
   (trim_space (ne_title p) \<noteq> '''' \<and> rune_count (trim_space (ne_title p)) \<le> title_max_len \<and>
    rune_count (trim_space (ne_description p)) \<le> description_max_len \<and>
    rune_count (trim_space (ne_location p)) \<le> location_max_len \<and>
    is_id (ne_workspace_id p) \<and> cu_user_id (ne_organizer p) \<noteq> '''' \<and> now < ne_starts_at p \<and>
    (case ne_ends_at p of None \<Rightarrow> True | Some t \<Rightarrow> ne_starts_at p < t) \<and>
    policy_ok (ne_reminder_policy p) \<and>
    ne_created_via p \<in> {CreatedViaChat, CreatedViaConsole})"
  (is "?made = ?valid")
proof
  assume ?made
  then show ?valid using new_event_Inr new_event_errors_Nil [of p now] by auto
next
  assume ?valid
  then have "new_event_errors p now = []" by (simp add: new_event_errors_Nil)
  then obtain e where e: "new_event p now = Inr e"
    by (auto simp: new_event_def verr_err_def)
  with new_event_ok [OF e] new_event_fields [OF e] show ?made by (auto simp: ev_is_open_def)
qed

text \<open>
  A successful edit needs an open event, keeps a valid event valid and never changes its
  identity, workspace, status, organizer, channel, messages or participant count; a closed event
  is left alone with \<open>ErrEventClosed\<close>.
\<close>
theorem event_apply_valid:
  assumes "event_ok e"
  shows "(\<not> ev_is_open e \<longrightarrow> event_apply e u now = Inl ErrEventClosed) \<and>
    (\<forall>e'. event_apply e u now = Inr e' \<longrightarrow>
       event_ok e' \<and> ev_id e' = ev_id e \<and> ev_workspace_id e' = ev_workspace_id e \<and>
       ev_status e' = ev_status e \<and> ev_organizer e' = ev_organizer e \<and>
       ev_channel e' = ev_channel e \<and> ev_messages e' = ev_messages e \<and>
       ev_participant_count e' = ev_participant_count e)"
proof
  show "\<not> ev_is_open e \<longrightarrow> event_apply e u now = Inl ErrEventClosed" by (simp add: event_apply_def)
qed (use event_apply_ok [OF assms] event_apply_frame [of e u now] in blast)

theorem event_apply_valid_witness:
  "\<exists>e u e'. event_apply e u 5 = Inr e' \<and> ev_starts_at e' = 20 \<and> event_ok e'"
proof -
  define e where "e = \<lparr>ev_id = ''a'', ev_workspace_id = ''w'', ev_title = ''Lunch'', ev_description = '''',
    ev_location = '''', ev_starts_at = 10, ev_ends_at = None, ev_status = EventStatusOpen,
    ev_organizer = \<lparr>cu_user_id = ''U'', cu_display_name = ''U''\<rparr>, ev_origin_channel_id = ''C'',
    ev_channel = no_channel, ev_messages = no_messages, ev_reminder_policy = default_reminder_policy,
    ev_participant_count = 0, ev_ended_at = None, ev_end_reason = NoEndReason,
    ev_created_via = CreatedViaChat, ev_created_by = ''U'', ev_created_at = 0, ev_updated_at = 0\<rparr>"
  define u where "u = \<lparr>eu_title = None, eu_description = None, eu_location = None,
    eu_starts_at = Some 20, eu_ends_at = None, eu_clear_ends_at = False, eu_reminder_policy = None\<rparr>"
  have "event_apply e u 5 = Inr (e\<lparr>ev_starts_at := 20, ev_updated_at := 5\<rparr>)"
    unfolding e_def u_def by code_simp
  moreover have "rune_count ''Lunch'' = 5" "rune_count '''' = 0"
    unfolding rune_count_def by (subst rune_chunks_ascii; simp add: byte_def)+
  then have "event_ok e"
    using default_policy_ok
    by (simp add: e_def event_ok_def title_max_len_def description_max_len_def location_max_len_def
        ev_is_open_def)
  ultimately show ?thesis using event_apply_valid [of e u 5] by force
qed

lemmas default_settings_defs = default_workspace_settings_def default_timezone_def
  default_peek_duration_def default_auto_end_grace_def default_channel_name_prefix_def
  default_start_hour_def zero_time_of_day_def default_reminder_policy_def

lemma normalize_fixed:
  "wss_timezone s \<noteq> '''' \<Longrightarrow> wss_peek_duration s \<noteq> 0 \<Longrightarrow> wss_auto_end_grace s \<noteq> 0 \<Longrightarrow>
   wss_channel_name_prefix s \<noteq> '''' \<Longrightarrow> wss_default_start_time s \<noteq> zero_time_of_day \<Longrightarrow>
   rp_mode (wss_default_reminder_policy s) \<noteq> ModeOther '''' \<Longrightarrow> settings_normalize s = s"
  by (simp add: settings_normalize_def Let_def)

lemma normalize_fields:
  "wss_timezone (settings_normalize s) \<noteq> ''''" "wss_peek_duration (settings_normalize s) \<noteq> 0"
  "wss_auto_end_grace (settings_normalize s) \<noteq> 0" "wss_channel_name_prefix (settings_normalize s) \<noteq> ''''"
  "wss_default_start_time (settings_normalize s) \<noteq> zero_time_of_day"
  "rp_mode (wss_default_reminder_policy (settings_normalize s)) \<noteq> ModeOther ''''"
  unfolding settings_normalize_def Let_def by (simp_all add: default_settings_defs)

text \<open>
  \<open>Validate\<close> accepts workspace settings exactly when the time zone loads, both durations
  are positive, the channel prefix is short and of the allowed characters, the default time
  exists and the default policy is valid; normalizing twice is normalizing once.
\<close>
theorem settings_validate_exact:
  "(settings_validate load s = None \<longleftrightarrow> settings_ok load s) \<and>
   settings_normalize (settings_normalize s) = settings_normalize s"
proof
  show "settings_validate load s = None \<longleftrightarrow> settings_ok load s" by (rule settings_validate_None)
  show "settings_normalize (settings_normalize s) = settings_normalize s"
    by (rule normalize_fixed) (rule normalize_fields)+
qed

subsection \<open>Jobs\<close>

text \<open>
  The wait before the n-th retry is 30 seconds doubled n - 1 times, capped at 30 minutes: the
  closed form of the loop, its bounds, and it never shrinks.
\<close>
theorem backoff_bounds:
  "backoff n = min (base_backoff * 2 ^ nat (max (n - 1) 0)) max_backoff \<and>
   base_backoff \<le> backoff n \<and> backoff n \<le> max_backoff \<and> backoff n \<le> backoff (n + 1)"
proof -
  have m: "(2 :: int) ^ nat (max (n - 1) 0) \<le> 2 ^ nat (max n 0)"
    by (rule power_increasing) simp_all
  have "base_backoff * 2 ^ nat (max (n - 1) 0) \<le> base_backoff * 2 ^ nat (max n 0)"
    using m by (simp add: base_backoff_def)
  moreover have "base_backoff * 1 \<le> base_backoff * 2 ^ nat (max (n - 1) 0)"
    by (rule mult_left_mono) (simp_all add: base_backoff_def)
  moreover have "base_backoff \<le> max_backoff" by (simp add: base_backoff_def max_backoff_def)
  ultimately show ?thesis by (simp add: backoff_closed) (auto simp: min_def)
qed

text \<open>
  Deduplication keys identify what they are for: the keys of two jobs the constructors build
  are equal only when the jobs are of one kind and about the same reminder, peek or event.
\<close>
theorem dedupe_keys_distinct:
  "(jb_dedupe_key (new_reminder_job e m t) = jb_dedupe_key (new_reminder_job e' n t') \<longleftrightarrow> e = e' \<and> m = n) \<and>
   (jb_dedupe_key (new_peek_expire_job e p m t) = jb_dedupe_key (new_peek_expire_job e' q n t') \<longleftrightarrow>
      p = q \<and> m = n) \<and>
   (jb_dedupe_key (new_auto_end_job e t) = jb_dedupe_key (new_auto_end_job e' t') \<longleftrightarrow> e = e') \<and>
   jb_dedupe_key (new_reminder_job e m t) \<notin> {jb_dedupe_key (new_peek_expire_job e' q n t'),
      jb_dedupe_key (new_auto_end_job e' t'), jb_dedupe_key (new_archive_channel_job e' t')} \<and>
   jb_dedupe_key (new_peek_expire_job e' q n t') \<notin> {jb_dedupe_key (new_auto_end_job e t),
      jb_dedupe_key (new_archive_channel_job e t)}"
proof -
  have "reminder_key i k \<noteq> CHR ''a'' # xs" "peek_key i k \<noteq> CHR ''a'' # xs" for i k xs
    by (simp_all add: reminder_key_def peek_key_def)
  then show ?thesis by (simp add: job_constructor_defs reminder_key_inj peek_key_inj)
qed

subsection \<open>Channel names\<close>

text \<open>
  C38. A channel name never exceeds the limit of the platform, counted in characters, with or
  without the suffix of a retry; the slug in it starts and ends with a letter, a digit or an
  underscore and never has two separators in a row.
\<close>
theorem channel_name_bounded:
  assumes "0 \<le> max_len"
  shows "int (length (runes_of (build_name u pre title t loc max_len))) \<le> max_len \<and>
    int (length (runes_of (with_suffix name n max_len))) \<le> max_len \<and> tidy (runes_of (slug u title))"
proof (intro conjI)
  show "tidy (runes_of (slug u title))" unfolding slug_def by (rule collapse_tidy)
  show "int (length (runes_of (build_name u pre title t loc max_len))) \<le> max_len"
    using length_truncate [OF assms] by (simp add: build_name_def Let_def)
  let ?s = "CHR ''-'' # dec_of_int n"
  let ?room = "max_len - int (length (runes_of ?s))"
  show "int (length (runes_of (with_suffix name n max_len))) \<le> max_len"
  proof (cases "?room < 1")
    case True
    then show ?thesis using length_truncate [OF assms, of ?s] by (simp add: with_suffix_def Let_def)
  next
    case False
    have "length (runes_of ?s) = length ?s" using suffix_runes [of "[]" n] by (simp add: runes_of_def)
    then have "int (length (runes_of (truncate_name name ?room @ ?s))) \<le> max_len"
      using length_truncate [of ?room name] False by (simp add: suffix_runes)
    then show ?thesis using False by (simp add: with_suffix_def Let_def)
  qed
qed

theorem channel_name_bounded_witness:
  "int (length (runes_of (with_suffix ''ev-0105-lunch'' 2 10))) \<le> 10"
  using channel_name_bounded [of 10 _ _ _ _ _ "''ev-0105-lunch''" 2] by simp

text \<open>
  Two attempts at a name never try the same one: while the suffix fits, names with different
  numbers differ.
\<close>
theorem suffix_distinguishes:
  assumes "int (length (CHR ''-'' # dec_of_int m)) < max_len"
    and "int (length (CHR ''-'' # dec_of_int n)) < max_len" and "0 \<le> m" and "0 \<le> n"
    and "with_suffix name m max_len = with_suffix name n max_len"
  shows "m = n"
proof -
  have runes: "length (runes_of (CHR ''-'' # dec_of_int k)) = length (CHR ''-'' # dec_of_int k)" for k
    using suffix_runes [of "[]" k] by (simp add: runes_of_def)
  have form: "\<exists>a. with_suffix name k max_len = a @ CHR ''-'' # dec_of_int k"
    if "int (length (CHR ''-'' # dec_of_int k)) < max_len" for k
    using that runes [of k] by (simp add: with_suffix_def Let_def)
  obtain a b where "with_suffix name m max_len = a @ CHR ''-'' # dec_of_int m"
    "with_suffix name n max_len = b @ CHR ''-'' # dec_of_int n"
    using form [OF assms(1)] form [OF assms(2)] by blast
  then have same: "a @ CHR ''-'' # dec_of_int m = b @ CHR ''-'' # dec_of_int n" using assms(5) by simp
  have dash: "CHR ''-'' \<notin> set (dec_of_int k)" if k: "0 \<le> k" for k
  proof
    assume "CHR ''-'' \<in> set (dec_of_int k)"
    then obtain d where "d \<in> set (digits_of 10 (nat k))" "digit_char d = CHR ''-''"
      using k by (force simp: dec_of_int_def dec_of_nat_def)
    then show False using digits_less [of 10 d "nat k"] digit_byte_facts(5) by simp
  qed
  have "dec_of_int m = dec_of_int n"
    using split_at_last_sep [OF dash [OF assms(3)] dash [OF assms(4)] same] by blast
  then show ?thesis by (rule dec_of_int_inj)
qed

theorem suffix_distinguishes_witness: "with_suffix ''lunch'' 2 80 \<noteq> with_suffix ''lunch'' 3 80"
proof
  assume same: "with_suffix ''lunch'' 2 80 = with_suffix ''lunch'' 3 80"
  have "dec_of_int 2 = ''2''" "dec_of_int 3 = ''3''" by code_simp+
  then show False using suffix_distinguishes [OF _ _ _ _ same] by simp
qed

end
