(* ===== verification/Mongo_Codec.thy ===== *)
theory Mongo_Codec
  imports Mongo_Documents Duration_Facts Domain_Properties
begin

section \<open>Documents read as they were written\<close>

text \<open>
  What is stored and read again is the value with its dates cut to milliseconds. A reminder
  policy comes back as it is when it keeps the fields of the interval mode for that mode.
\<close>

lemma in_millis_idem [simp]: "in_millis (in_millis t) = in_millis t"
  by (simp add: in_millis_def)

lemma in_millis_zero_time [simp]: "in_millis zero_time = zero_time"
  by code_simp

lemma in_millis_le: "in_millis t \<le> t"
  unfolding in_millis_def by (metis mult.commute mult_div_mod_eq le_add_same_cancel1 pos_mod_sign zero_less_numeral)

lemma in_millis_mono: "s \<le> t \<Longrightarrow> in_millis s \<le> in_millis t"
  by (simp add: in_millis_def zdiv_mono1)

subsection \<open>Fields of stored documents\<close>

lemma map_of_stored [simp]: "map_of (stored d) k = map_option marshal (map_of d k)"
  by (induction d) (auto simp: stored_def)

lemma marshal_idem [simp]: "marshal (marshal v) = marshal v"
  by (induction v) (auto simp: map_idI)

lemma stored_idem [simp]: "stored (stored d) = stored d"
  by (simp add: stored_def prod.map_comp comp_def id_def)

lemma stored_append [simp]: "stored (d @ e) = stored d @ stored e"
  by (simp add: stored_def)

lemma stored_Nil [simp]: "stored [] = []"
  by (simp add: stored_def)

lemma stored_Cons [simp]: "stored ((k, v) # d) = (k, marshal v) # stored d"
  by (simp add: stored_def)

lemma marshal_BDoc [simp]: "marshal (BDoc d) = BDoc (stored d)"
  by (simp add: stored_def id_def)

declare marshal.simps(8) [simp del]

lemma marshal_opt_date [simp]: "marshal (opt_date t) = opt_date (map_option in_millis t)"
  by (cases t) (simp_all add: opt_date_def)

lemmas field_defs = str_field_def int_field_def bool_field_def opt_date_field_def date_field_def
  opt_oid_field_def oid_field_def opt_doc_field_def doc_field_def array_field_def

lemma field_stored [simp]:
  "str_field (stored d) k = str_field d k" "int_field (stored d) k = int_field d k"
  "bool_field (stored d) k = bool_field d k"
  "opt_date_field (stored d) k = map_option in_millis (opt_date_field d k)"
  "date_field (stored d) k = in_millis (date_field d k)"
  "opt_oid_field (stored d) k = opt_oid_field d k" "oid_field (stored d) k = oid_field d k"
  "opt_doc_field (stored d) k = map_option stored (opt_doc_field d k)"
  "doc_field (stored d) k = stored (doc_field d k)"
  by (cases "map_of d k"; cases "the (map_of d k)"; simp add: field_defs)+

lemma array_field_stored [simp]: "array_field (stored d) k = map marshal (array_field d k)"
  by (cases "map_of d k"; cases "the (map_of d k)"; simp add: array_field_def)

text \<open>A date that was there or was not.\<close>

lemma opt_date_cases [simp]:
  "(case opt_date t of BDate x \<Rightarrow> Some x | _ \<Rightarrow> None) = t"
  by (cases t) (simp_all add: opt_date_def)

subsection \<open>Enumerated values\<close>

lemma provider_status_of_text [simp]: "provider_status_of (provider_status_text s) = s"
  by (cases s) (simp_all add: provider_status_of_def)

lemma event_status_of_text [simp]: "event_status_of (event_status_text s) = s"
  by (cases s) (simp_all add: event_status_of_def)

lemma end_reason_of_text [simp]: "end_reason_of (end_reason_text r) = r"
  by (cases r) (simp_all add: end_reason_of_def)

lemma participation_status_of_text [simp]: "participation_status_of (participation_status_text s) = s"
  by (cases s) (simp_all add: participation_status_of_def)

lemma job_status_of_text [simp]: "job_status_of (job_status_text s) = s"
  by (cases s) (simp_all add: job_status_of_def)

lemma target_kind_of_text [simp]: "target_kind_of (target_kind_text k) = k"
  by (cases k) (simp_all add: target_kind_of_def)

lemma origin_of_text [simp]: "origin_of (origin_text r) = r"
  by (cases r) (simp_all add: origin_of_def)

text \<open>The open ones: any string but those of the other constructors.\<close>

lemma mode_of_text [simp]: "mode_of (mode_text m) = m \<longleftrightarrow> m \<notin> ModeOther ` {''offsets'', ''interval'', ''none''}"
  by (cases m) (auto simp: mode_of_def)

lemma provider_of_text [simp]:
  "provider_of (provider_text k) = k \<longleftrightarrow> k \<notin> ProviderKindOther ` {''slack'', ''discord''}"
  by (cases k) (auto simp: provider_of_def)

lemma created_via_of_text [simp]:
  "created_via_of (created_via_text v) = v \<longleftrightarrow> v \<notin> CreatedViaOther ` {''chat'', ''console''}"
  by (cases v) (auto simp: created_via_of_def)

lemma role_of_text [simp]:
  "role_of (role_text r) = r \<longleftrightarrow> r \<notin> RoleOther ` {''participant'', ''peeker''}"
  by (cases r) (auto simp: role_of_def)

lemma job_kind_of_text [simp]:
  "job_kind_of (job_kind_text k) = k \<longleftrightarrow>
     k \<notin> JobKindOther ` {''reminder'', ''peek_expire'', ''event_auto_end'', ''archive_channel''}"
  by (cases k) (auto simp: job_kind_of_def)

subsection \<open>Policies and settings\<close>

definition int64 :: "int \<Rightarrow> bool" where
  "int64 d \<longleftrightarrow> - (2 ^ 63) \<le> d \<and> d < 2 ^ 63"

text \<open>What a document keeps of a policy: the fields its mode uses.\<close>

definition policy_storable :: "reminder_policy \<Rightarrow> bool" where
  "policy_storable p \<longleftrightarrow>
     rp_mode p \<notin> ModeOther ` {''offsets'', ''interval'', ''none''} \<and> list_all int64 (rp_offsets p) \<and>
     int64 (rp_every p) \<and> int64 (rp_final_offset p) \<and> tod_valid (rp_at p)"

definition kept_policy :: "reminder_policy \<Rightarrow> reminder_policy" where
  "kept_policy p =
     (if rp_mode p = ModeInterval then p
      else p\<lparr>rp_every := 0, rp_at := zero_time_of_day, rp_final_offset := 0\<rparr>)"

lemma decode_format [simp]:
  "int64 d \<Longrightarrow> format_duration d \<noteq> []" "int64 d \<Longrightarrow> decode_duration what (format_duration d) = Inr d"
  "int64 d \<Longrightarrow> decode_optional what (format_duration d) = Inr d"
  using go_parse_format [of d] by (simp_all add: int64_def decode_duration_def decode_optional_def)

lemma tod_string_read [simp]:
  "tod_valid t \<Longrightarrow> tod_string t \<noteq> []" "tod_valid t \<Longrightarrow> decode_time_of_day what (tod_string t) = Inr t"
  using time_of_day_roundtrip [of t] by (auto simp: decode_time_of_day_def tod_string_def)

lemma decode_offsets_read [simp]:
  "list_all int64 ds \<Longrightarrow> decode_offsets (map (\<lambda>d. BStr (format_duration d)) ds) = Inr ds"
  by (induction ds) simp_all

lemma policy_roundtrip:
  assumes "policy_storable p"
  shows "decode_reminder_policy (stored (encode_reminder_policy p)) = Inr (kept_policy p)"
proof -
  let ?d = "encode_reminder_policy p"
  have offsets: "array_field ?d ''offsets'' = map (\<lambda>d. BStr (format_duration d)) (rp_offsets p)"
    by (simp add: encode_reminder_policy_def array_field_def omit_empty_def)
  have mode: "mode_of (str_field ?d ''mode'') = rp_mode p"
    using assms by (simp add: encode_reminder_policy_def str_field_def policy_storable_def)
  have rest: "str_field ?d ''every'' = (if rp_mode p = ModeInterval then format_duration (rp_every p) else [])"
    "str_field ?d ''at'' = (if rp_mode p = ModeInterval then tod_string (rp_at p) else [])"
    "str_field ?d ''finalOffset'' =
      (if rp_mode p = ModeInterval then format_duration (rp_final_offset p) else [])"
    using assms by (simp_all add: encode_reminder_policy_def str_field_def omit_empty_def policy_storable_def)
  have "map marshal (map (\<lambda>d. BStr (format_duration d)) ds) = map (\<lambda>d. BStr (format_duration d)) ds" for ds
    by simp
  then show ?thesis
    using assms
    by (simp add: decode_reminder_policy_def policy_storable_def kept_policy_def mode offsets rest
        decode_optional_def [of _ "[]"] del: map_map)
qed

definition settings_storable :: "workspace_settings \<Rightarrow> bool" where
  "settings_storable s \<longleftrightarrow>
     policy_storable (wss_default_reminder_policy s) \<and> int64 (wss_peek_duration s) \<and>
     int64 (wss_auto_end_grace s) \<and> tod_valid (wss_default_start_time s)"

lemma settings_roundtrip:
  assumes "settings_storable s"
  shows "decode_workspace_settings (stored (encode_workspace_settings s)) =
    Inr (s\<lparr>wss_default_reminder_policy := kept_policy (wss_default_reminder_policy s)\<rparr>)"
proof -
  have "decode_reminder_policy (stored (encode_reminder_policy (wss_default_reminder_policy s))) =
      Inr (kept_policy (wss_default_reminder_policy s))"
    using assms by (intro policy_roundtrip) (simp add: settings_storable_def)
  then show ?thesis
    using assms
    by (simp add: settings_storable_def decode_workspace_settings_def encode_workspace_settings_def
        doc_field_def opt_doc_field_def str_field_def)
qed

subsection \<open>Events\<close>

lemma message_ref_roundtrip [simp]: "decode_message_ref (stored (encode_message_ref r)) = r"
  by (simp add: decode_message_ref_def encode_message_ref_def str_field_def)

lemma message_refs_roundtrip [simp]: "decode_message_refs (stored (encode_message_refs r)) = r"
  by (cases "ms_announcement r"; cases "ms_recruit_announcement r"; cases "ms_summary r")
    (simp_all add: decode_message_refs_def encode_message_refs_def opt_doc_field_def omit_nil_def)

definition event_storable :: "event \<Rightarrow> bool" where
  "event_storable ev \<longleftrightarrow>
     policy_storable (ev_reminder_policy ev) \<and>
     ev_created_via ev \<notin> CreatedViaOther ` {''chat'', ''console''}"

definition stored_event :: "event \<Rightarrow> event" where
  "stored_event ev = ev
     \<lparr>ev_starts_at := in_millis (ev_starts_at ev), ev_ends_at := map_option in_millis (ev_ends_at ev),
      ev_ended_at := map_option in_millis (ev_ended_at ev),
      ev_reminder_policy := kept_policy (ev_reminder_policy ev),
      ev_created_at := in_millis (ev_created_at ev), ev_updated_at := in_millis (ev_updated_at ev)\<rparr>"

lemma event_fields_roundtrip:
  assumes "event_storable ev"
  shows "decode_event (stored ((''_id'', BOid (ev_id ev)) # event_fields (ev_workspace_id ev) ev)) =
    Inr (stored_event ev)"
proof -
  have "decode_reminder_policy (stored (encode_reminder_policy (ev_reminder_policy ev))) =
      Inr (kept_policy (ev_reminder_policy ev))"
    using assms by (intro policy_roundtrip) (simp add: event_storable_def)
  then show ?thesis
    using assms
    by (simp add: event_storable_def decode_event_def event_fields_def stored_event_def encode_channel_def
        field_defs)
qed

end
