(* ===== verification/Store_Jobs.thy ===== *)
theory Store_Jobs
  imports Store
begin

section \<open>The job queue\<close>

text \<open>
  \<open>jobsRepo\<close> of \<open>memstore.go\<close>, the persistent queue the scheduler polls. The contract is the
  locale \<open>job_queue\<close>: what a claim takes and leaves, and deduplication, for instants of the clock's
  granularity (\<open>fits\<close>) and jobs the queue takes (\<open>accepts\<close>). Its client lemmas say that claims within one lease never
  give the same job twice and that a deduplication key enters the queue once.
\<close>

definition find_job :: "store \<Rightarrow> string \<Rightarrow> job option" where
  "find_job s i = List.find (\<lambda>j. jb_id j = i) (st_jobs s)"

definition enqueued :: "string \<Rightarrow> job \<Rightarrow> time \<Rightarrow> job" where
  "enqueued new_id j now = j
     \<lparr>jb_id := new_id, jb_status := JobPending, jb_attempts := 0, jb_lease_until := None,
      jb_last_error := None, jb_created_at := now, jb_updated_at := now,
      jb_max_attempts := (if jb_max_attempts j \<le> 0 then default_max_attempts
                          else jb_max_attempts j)\<rparr>"

definition has_key :: "string \<Rightarrow> store \<Rightarrow> bool" where
  "has_key key s \<longleftrightarrow> List.find (\<lambda>j. jb_dedupe_key j = key) (st_jobs s) \<noteq> None"

definition jobs_enqueue :: "job \<Rightarrow> time \<Rightarrow> job store_op" where
  "jobs_enqueue j now = (\<lambda>s.
     if jb_dedupe_key j \<noteq> '''' \<and> has_key (jb_dedupe_key j) s then (Inl ErrAlreadyExists, s)
     else let (new_id, s') = next_id s; created = enqueued new_id j now
          in (Inr created, s'\<lparr>st_jobs := st_jobs s' @ [created]\<rparr>))"

definition jobs_get :: "string \<Rightarrow> job store_op" where
  "jobs_get i = m_gets (\<lambda>s. found (find_job s i))"

definition claimable :: "job \<Rightarrow> time \<Rightarrow> bool" where
  "claimable j at =
     (if jb_status j = JobPending then \<not> at < jb_run_at j
      else jb_status j = JobRunning \<and>
           (case jb_lease_until j of None \<Rightarrow> False | Some l \<Rightarrow> \<not> at < l))"

text \<open>The loop of \<open>Claim\<close>: \<open>target\<close> is the best candidate so far.\<close>

fun claim_target :: "time \<Rightarrow> job option \<Rightarrow> job list \<Rightarrow> job option" where
  "claim_target at target [] = target"
| "claim_target at target (j # js) =
     (if \<not> claimable j at then claim_target at target js
      else case target of
          None \<Rightarrow> claim_target at (Some j) js
        | Some t \<Rightarrow> claim_target at (if jb_run_at j < jb_run_at t then Some j else Some t) js)"

definition claimed :: "time \<Rightarrow> duration \<Rightarrow> job \<Rightarrow> job" where
  "claimed at lease j = j\<lparr>jb_status := JobRunning, jb_lease_until := Some (at + lease),
     jb_attempts := jb_attempts j + 1, jb_updated_at := at\<rparr>"

definition change_job :: "string \<Rightarrow> (job \<Rightarrow> job) \<Rightarrow> store \<Rightarrow> store" where
  "change_job i f s = s\<lparr>st_jobs := update_first (\<lambda>j. jb_id j = i) f (st_jobs s)\<rparr>"

definition jobs_claim :: "time \<Rightarrow> duration \<Rightarrow> job store_op" where
  "jobs_claim now lease = (\<lambda>s.
     (case claim_target now None (st_jobs s) of
        None \<Rightarrow> (Inl ErrNotFound, s)
      | Some t \<Rightarrow> (Inr (claimed now lease t), change_job (jb_id t) (claimed now lease) s)))"

definition update_job :: "string \<Rightarrow> (job \<Rightarrow> job) \<Rightarrow> unit store_op" where
  "update_job i f = (\<lambda>s.
     (case find_job s i of
        None \<Rightarrow> (Inl ErrNotFound, s)
      | Some _ \<Rightarrow> (Inr (), change_job i f s)))"

definition completed_job :: "time \<Rightarrow> job \<Rightarrow> job" where
  "completed_job now j = j\<lparr>jb_status := JobDone, jb_finished_at := Some now,
     jb_lease_until := None, jb_updated_at := now\<rparr>"

definition retried_job :: "time \<Rightarrow> err \<Rightarrow> time \<Rightarrow> job \<Rightarrow> job" where
  "retried_job run_at last_err now j = j\<lparr>jb_status := JobPending, jb_run_at := run_at,
     jb_last_error := Some last_err, jb_lease_until := None, jb_updated_at := now\<rparr>"

definition failed_job :: "err \<Rightarrow> time \<Rightarrow> job \<Rightarrow> job" where
  "failed_job last_err now j = j\<lparr>jb_status := JobFailed, jb_finished_at := Some now,
     jb_last_error := Some last_err, jb_lease_until := None, jb_updated_at := now\<rparr>"

definition rescheduled_job :: "time \<Rightarrow> time \<Rightarrow> job \<Rightarrow> job" where
  "rescheduled_job run_at now j = j\<lparr>jb_status := JobPending, jb_run_at := run_at,
     jb_lease_until := None, jb_updated_at := now, jb_attempts := jb_attempts j - 1\<rparr>"

definition jobs_complete :: "string \<Rightarrow> time \<Rightarrow> unit store_op" where
  "jobs_complete i now = update_job i (completed_job now)"

definition jobs_retry :: "string \<Rightarrow> time \<Rightarrow> err \<Rightarrow> time \<Rightarrow> unit store_op" where
  "jobs_retry i run_at last_err now = update_job i (retried_job run_at last_err now)"

definition jobs_fail :: "string \<Rightarrow> err \<Rightarrow> time \<Rightarrow> unit store_op" where
  "jobs_fail i last_err now = update_job i (failed_job last_err now)"

definition jobs_reschedule :: "string \<Rightarrow> time \<Rightarrow> time \<Rightarrow> unit store_op" where
  "jobs_reschedule i run_at now = update_job i (rescheduled_job run_at now)"

definition jobs_extend_lease :: "string \<Rightarrow> time \<Rightarrow> time \<Rightarrow> unit store_op" where
  "jobs_extend_lease i until now = (\<lambda>s.
     (case find_job s i of
        None \<Rightarrow> (Inl ErrNotFound, s)
      | Some j \<Rightarrow>
          if jb_status j \<noteq> JobRunning then (Inl ErrNotFound, s)
          else (Inr (), change_job i
                  (\<lambda>j. j\<lparr>jb_lease_until := Some until, jb_updated_at := now\<rparr>) s)))"

definition cancels :: "string \<Rightarrow> job_kind list \<Rightarrow> job \<Rightarrow> bool" where
  "cancels event_id kinds j \<longleftrightarrow>
     jb_event_id j = event_id \<and> jb_status j = JobPending \<and> (kinds = [] \<or> jb_kind j \<in> set kinds)"

definition canceled_job :: "time \<Rightarrow> job \<Rightarrow> job" where
  "canceled_job now j =
     j\<lparr>jb_status := JobCanceled, jb_finished_at := Some now, jb_updated_at := now\<rparr>"

definition jobs_cancel_by_event :: "string \<Rightarrow> job_kind list \<Rightarrow> time \<Rightarrow> int store_op" where
  "jobs_cancel_by_event event_id kinds now = (\<lambda>s.
     (Inr (int (length (filter (cancels event_id kinds) (st_jobs s)))),
      s\<lparr>st_jobs := map (\<lambda>j. if cancels event_id kinds j then canceled_job now j else j)
          (st_jobs s)\<rparr>))"

definition jobs_list_by_event :: "string \<Rightarrow> job_status list \<Rightarrow> job list store_op" where
  "jobs_list_by_event event_id statuses = m_gets (\<lambda>s. Inr (sort_key jb_run_at
     (filter (\<lambda>j. jb_event_id j = event_id \<and> (statuses = [] \<or> jb_status j \<in> set statuses))
       (st_jobs s))))"

subsection \<open>Claiming\<close>

lemma claim_target_spec:
  assumes "case target of None \<Rightarrow> True | Some t \<Rightarrow> claimable t at"
  shows "case claim_target at target js of
      None \<Rightarrow> target = None \<and> (\<forall>j \<in> set js. \<not> claimable j at)
    | Some t \<Rightarrow> claimable t at \<and> (t \<in> set js \<or> target = Some t) \<and>
        (\<forall>j \<in> set js. claimable j at \<longrightarrow> jb_run_at t \<le> jb_run_at j) \<and>
        (\<forall>u. target = Some u \<longrightarrow> jb_run_at t \<le> jb_run_at u)"
  using assms
proof (induction at target js rule: claim_target.induct)
  case (1 at target)
  then show ?case by (auto split: option.splits)
next
  case (2 at target j js)
  show ?case
  proof (cases "claimable j at")
    case False
    then show ?thesis using 2 by (auto split: option.splits)
  next
    case True
    show ?thesis
    proof (cases target)
      case None
      then show ?thesis using 2(2) [OF _ None] True by (auto split: option.splits)
    next
      case (Some t)
      let ?t = "if jb_run_at j < jb_run_at t then Some j else Some t"
      have "case claim_target at ?t js of
          None \<Rightarrow> ?t = None \<and> (\<forall>j \<in> set js. \<not> claimable j at)
        | Some u \<Rightarrow> claimable u at \<and> (u \<in> set js \<or> ?t = Some u) \<and>
            (\<forall>j \<in> set js. claimable j at \<longrightarrow> jb_run_at u \<le> jb_run_at j) \<and>
            (\<forall>v. ?t = Some v \<longrightarrow> jb_run_at u \<le> jb_run_at v)"
        using 2(3) [OF _ Some] 2(4) True Some by simp
      then show ?thesis using True Some by (auto split: option.splits if_splits)
    qed
  qed
qed

lemmas claim_target_from_none = claim_target_spec [where target = None, simplified]

subsection \<open>Invariant\<close>

definition job_ok :: "job \<Rightarrow> bool" where
  "job_ok j \<longleftrightarrow> (jb_status j = JobRunning \<longleftrightarrow> jb_lease_until j \<noteq> None) \<and> 0 < jb_max_attempts j"

definition keyed_jobs :: "store \<Rightarrow> job list" where
  "keyed_jobs s = filter (\<lambda>j. jb_dedupe_key j \<noteq> '''') (st_jobs s)"

definition jobs_ok :: "store \<Rightarrow> bool" where
  "jobs_ok s \<longleftrightarrow>
     ids_ok (st_seq s) (map jb_id (st_jobs s)) \<and> unique_on jb_dedupe_key (keyed_jobs s) \<and>
     (\<forall>j \<in> set (st_jobs s). job_ok j)"

lemma change_job_ok:
  assumes "jobs_ok s" and "\<And>j. jb_id (f j) = jb_id j \<and> jb_dedupe_key (f j) = jb_dedupe_key j"
    and "\<And>j. find_job s i = Some j \<Longrightarrow> job_ok j \<Longrightarrow> job_ok (f j)"
  shows "jobs_ok (change_job i f s)"
proof -
  have "job_ok (f j)" if "List.find (\<lambda>j. jb_id j = i) (st_jobs s) = Some j" for j
    using assms(1,3) that by (auto simp: find_job_def jobs_ok_def dest: find_SomeD)
  then have "\<forall>j \<in> set (update_first (\<lambda>j. jb_id j = i) f (st_jobs s)). job_ok j"
    using assms(1) unfolding jobs_ok_def by (intro ball_update_find) auto
  moreover have "map jb_dedupe_key (keyed_jobs (change_job i f s)) = map jb_dedupe_key (keyed_jobs s)"
    unfolding keyed_jobs_def change_job_def using assms(2)
    by (simp add: filter_update_first_same)
  ultimately show ?thesis
    using assms(1,2) by (simp add: jobs_ok_def change_job_def map_update_first unique_on_def)
qed

lemma update_job_ok:
  assumes "jobs_ok s" and "\<And>j. jb_id (f j) = jb_id j \<and> jb_dedupe_key (f j) = jb_dedupe_key j"
    and "\<And>j. job_ok j \<Longrightarrow> job_ok (f j)"
  shows "jobs_ok (snd (update_job i f s))"
  using assms by (auto simp: update_job_def intro!: change_job_ok split: option.split)

lemmas verdict_defs = completed_job_def retried_job_def failed_job_def rescheduled_job_def

lemma verdict_ok:
  assumes "jobs_ok s"
  shows "jobs_ok (snd (jobs_complete i now s))" "jobs_ok (snd (jobs_retry i t e now s))"
    "jobs_ok (snd (jobs_fail i e now s))" "jobs_ok (snd (jobs_reschedule i t now s))"
  unfolding jobs_complete_def jobs_retry_def jobs_fail_def jobs_reschedule_def
  by (rule update_job_ok [OF assms]; simp add: verdict_defs job_ok_def)+

lemma jobs_extend_lease_ok: "jobs_ok s \<Longrightarrow> jobs_ok (snd (jobs_extend_lease i t now s))"
  by (auto simp: jobs_extend_lease_def job_ok_def intro!: change_job_ok split: option.split)

lemma jobs_claim_ok: "jobs_ok s \<Longrightarrow> jobs_ok (snd (jobs_claim now lease s))"
  by (auto simp: jobs_claim_def intro!: change_job_ok split: option.split)
    (auto simp: claimed_def job_ok_def)

lemma jobs_enqueue_ok:
  assumes "jobs_ok s"
  shows "jobs_ok (snd (jobs_enqueue j now s))"
  using assms
  by (auto simp: jobs_enqueue_def jobs_ok_def next_id_def Let_def enqueued_def job_ok_def
      default_max_attempts_def keyed_jobs_def unique_on_def has_key_def find_None_iff)

lemma map_jobs_ok:
  assumes "jobs_ok s" and f: "\<And>j. jb_id (f j) = jb_id j \<and> jb_dedupe_key (f j) = jb_dedupe_key j"
    and "\<And>j. job_ok j \<Longrightarrow> job_ok (f j)"
  shows "jobs_ok (s\<lparr>st_jobs := map f (st_jobs s)\<rparr>)"
proof -
  have "map jb_dedupe_key (filter (\<lambda>j. jb_dedupe_key j \<noteq> '''') (map f xs)) =
      map jb_dedupe_key (filter (\<lambda>j. jb_dedupe_key j \<noteq> '''') xs)" for xs
    by (induction xs) (simp_all add: f)
  moreover have "map jb_id (map f xs) = map jb_id xs" for xs
    by (induction xs) (simp_all add: f)
  ultimately show ?thesis
    using assms(1,3) by (simp add: jobs_ok_def keyed_jobs_def unique_on_def del: filter_map map_map)
qed

lemma jobs_cancel_by_event_ok:
  assumes "jobs_ok s"
  shows "jobs_ok (snd (jobs_cancel_by_event e ks now s))"
  unfolding jobs_cancel_by_event_def snd_conv
  by (rule map_jobs_ok [OF assms]) (auto simp: canceled_job_def job_ok_def cancels_def)

subsection \<open>The contract of the queue\<close>

locale job_queue =
  fixes fits :: "time \<Rightarrow> bool"
    and accepts :: "job \<Rightarrow> bool"
    and inv :: "'s \<Rightarrow> bool"
    and job_at :: "'s \<Rightarrow> string \<Rightarrow> job option"
    and key_used :: "string \<Rightarrow> 's \<Rightarrow> bool"
    and claim :: "time \<Rightarrow> duration \<Rightarrow> ('s, err, job) prog"
    and enqueue :: "job \<Rightarrow> time \<Rightarrow> ('s, err, job) prog"
  assumes claim_inv: "inv s \<Longrightarrow> fits now \<Longrightarrow> fits lease \<Longrightarrow> inv (snd (claim now lease s))"
    and claim_taken: "inv s \<Longrightarrow> fits now \<Longrightarrow> fits lease \<Longrightarrow> claim now lease s = (Inr j, s') \<Longrightarrow>
      \<exists>t. job_at s (jb_id t) = Some t \<and> claimable t now \<and> j = claimed now lease t"
    and claim_lookup: "inv s \<Longrightarrow> fits now \<Longrightarrow> fits lease \<Longrightarrow> claim now lease s = (Inr j, s') \<Longrightarrow>
      job_at s' i = (if i = jb_id j then Some j else job_at s i)"
    and claim_earliest: "inv s \<Longrightarrow> fits now \<Longrightarrow> fits lease \<Longrightarrow> claim now lease s = (Inr j, s') \<Longrightarrow>
      job_at s i = Some k \<Longrightarrow> claimable k now \<Longrightarrow> jb_run_at j \<le> jb_run_at k"
    and claim_some: "inv s \<Longrightarrow> fits now \<Longrightarrow> fits lease \<Longrightarrow> job_at s i = Some k \<Longrightarrow> claimable k now \<Longrightarrow>
      \<exists>j s'. claim now lease s = (Inr j, s')"
    and claim_none: "inv s \<Longrightarrow> fits now \<Longrightarrow> fits lease \<Longrightarrow> claim now lease s = (Inl e, s') \<Longrightarrow>
      e = ErrNotFound \<and> s' = s"
    and enqueue_inv: "inv s \<Longrightarrow> accepts j \<Longrightarrow> inv (snd (enqueue j now s))"
    and enqueue_dup: "inv s \<Longrightarrow> accepts j \<Longrightarrow> jb_dedupe_key j \<noteq> '''' \<Longrightarrow> key_used (jb_dedupe_key j) s \<Longrightarrow>
      \<exists>s'. enqueue j now s = (Inl ErrAlreadyExists, s') \<and> (\<forall>key. key_used key s' = key_used key s)"
    and enqueue_new: "inv s \<Longrightarrow> accepts j \<Longrightarrow> \<not> key_used (jb_dedupe_key j) s \<Longrightarrow>
      \<exists>k s'. enqueue j now s = (Inr k, s') \<and> key_used (jb_dedupe_key j) s'"
begin

text \<open>Whoever holds a lease up to the horizon holds it alone.\<close>

definition held :: "time \<Rightarrow> 's \<Rightarrow> string \<Rightarrow> bool" where
  "held horizon s i \<longleftrightarrow>
     (\<exists>j l. job_at s i = Some j \<and> jb_status j = JobRunning \<and> jb_lease_until j = Some l \<and> horizon < l)"

lemma claim_not_held:
  assumes "inv s" and "fits now" "fits lease" and "claim now lease s = (Inr j, s')" and "now \<le> horizon" and "held horizon s i"
  shows "jb_id j \<noteq> i"
proof
  assume "jb_id j = i"
  obtain t where t: "job_at s (jb_id t) = Some t" "claimable t now" "j = claimed now lease t"
    using claim_taken [OF assms(1-4)] by blast
  then have "jb_id t = i" using \<open>jb_id j = i\<close> by (simp add: claimed_def)
  with t assms(5,6) show False by (auto simp: held_def claimable_def)
qed

lemma held_claim:
  assumes "inv s" and "fits now" "fits lease" and "claim now lease s = (Inr j, s')" and "now \<le> horizon" and "held horizon s i"
  shows "held horizon s' i"
  using claim_not_held [OF assms] claim_lookup [OF assms(1-4), of i] assms(6)
  by (auto simp: held_def)

lemma claimed_held:
  assumes "inv s" and "fits now" "fits lease" and "claim now lease s = (Inr j, s')" and "horizon < now + lease"
  shows "held horizon s' (jb_id j)"
  using claim_taken [OF assms(1-4)] claim_lookup [OF assms(1-4), of "jb_id j"] assms(5)
  by (auto simp: held_def claimed_def)

text \<open>
  Any number of claims, by any number of workers, between the first one and the end of its
  lease: no job is handed out twice.
\<close>

lemma claims_distinct_from:
  assumes "inv s" and "\<forall>n \<in> set ns. fits n \<and> n \<le> horizon \<and> horizon < n + lease" and "\<forall>i \<in> H. held horizon s i"
    and "run_all (\<lambda>n. claim n lease) ns s = (rs, s')" and "fits lease"
  shows "distinct (map jb_id (successes rs)) \<and> jb_id ` set (successes rs) \<inter> H = {}"
  using assms(1-4)
proof (induction ns arbitrary: s H rs)
  case Nil
  then show ?case by simp
next
  case (Cons n ns)
  obtain r t where c: "claim n lease s = (r, t)" by fastforce
  obtain rs' where rs: "run_all (\<lambda>n. claim n lease) ns t = (rs', s')" "rs = r # rs'"
    using Cons.prems(4) c by (auto split: prod.splits)
  have n: "n \<le> horizon" "horizon < n + lease" "fits n" and ns: "\<forall>n \<in> set ns. fits n \<and> n \<le> horizon \<and> horizon < n + lease"
    using Cons.prems(2) by auto
  have inv': "inv t" using claim_inv [OF Cons.prems(1) n(3) assms(5)] c by simp
  show ?case
  proof (cases r)
    case (Inl e)
    with claim_none [OF Cons.prems(1) n(3) assms(5)] c have "t = s" by auto
    with Cons.IH [OF inv' ns _ rs(1)] Cons.prems(3) rs(2) Inl show ?thesis by simp
  next
    case (Inr j)
    note c = c [unfolded Inr]
    have "\<forall>i \<in> insert (jb_id j) H. held horizon t i"
      using claimed_held [OF Cons.prems(1) n(3) assms(5) c n(2)] held_claim [OF Cons.prems(1) n(3) assms(5) c n(1)]
        Cons.prems(3) by auto
    from Cons.IH [OF inv' ns this rs(1)] claim_not_held [OF Cons.prems(1) n(3) assms(5) c n(1)] Cons.prems(3)
    show ?thesis using rs(2) Inr by auto
  qed
qed

lemma claims_distinct:
  assumes "inv s" and "\<forall>n \<in> set ns. fits n \<and> n \<le> horizon \<and> horizon < n + lease" and "fits lease"
    and "run_all (\<lambda>n. claim n lease) ns s = (rs, s')"
  shows "distinct (map jb_id (successes rs))"
  using claims_distinct_from [OF assms(1,2) _ assms(4,3), of "{}"] by blast

text \<open>Repeated enqueueing under one key queues one job.\<close>

lemma enqueue_once:
  assumes "inv s" and "\<forall>j \<in> set js. accepts j \<and> jb_dedupe_key j = key" and "key \<noteq> ''''"
    and "run_all (\<lambda>j. enqueue j now) js s = (rs, s')"
  shows "length (successes rs) = (if js = [] \<or> key_used key s then 0 else 1)"
  using assms
proof (induction js arbitrary: s rs)
  case Nil
  then show ?case by simp
next
  case (Cons j js)
  obtain r t where c: "enqueue j now s = (r, t)" by fastforce
  obtain rs' where rs: "run_all (\<lambda>j. enqueue j now) js t = (rs', s')" "rs = r # rs'"
    using Cons.prems(4) c by (auto split: prod.splits)
  have key: "jb_dedupe_key j = key" "accepts j"
    and keys: "\<forall>j \<in> set js. accepts j \<and> jb_dedupe_key j = key"
    using Cons.prems(2) by auto
  have inv': "inv t" using enqueue_inv [OF Cons.prems(1) key(2), of now] c by simp
  note IH = Cons.IH [OF inv' keys Cons.prems(3) rs(1)]
  show ?case
  proof (cases "key_used key s")
    case True
    then have "r = Inl ErrAlreadyExists" "key_used key t"
      using enqueue_dup [OF Cons.prems(1) key(2), of now] c key Cons.prems(3) by auto
    with IH rs(2) True show ?thesis by simp
  next
    case False
    then obtain k where "r = Inr k" "key_used key t"
      using enqueue_new [OF Cons.prems(1) key(2), of now] c key by auto
    with IH rs(2) False show ?thesis by simp
  qed
qed

end

lemma jobs_claim_cases:
  assumes "jobs_ok s" and "jobs_claim now lease s = (Inr j, s')"
  obtains t where "find_job s (jb_id t) = Some t" "claimable t now" "j = claimed now lease t"
    "\<forall>k \<in> set (st_jobs s). claimable k now \<longrightarrow> jb_run_at t \<le> jb_run_at k"
    "s' = change_job (jb_id t) (claimed now lease) s" "t \<in> set (st_jobs s)"
proof -
  obtain t where t: "claim_target now None (st_jobs s) = Some t" "j = claimed now lease t"
    "s' = change_job (jb_id t) (claimed now lease) s"
    using assms(2) by (auto simp: jobs_claim_def split: option.splits)
  then have *: "claimable t now" "t \<in> set (st_jobs s)"
    "\<forall>k \<in> set (st_jobs s). claimable k now \<longrightarrow> jb_run_at t \<le> jb_run_at k"
    using claim_target_from_none [where at = now and js = "st_jobs s"] by auto
  have "find_job s (jb_id t) = Some t"
    using assms(1) *(2) ids_ok_find by (auto simp: find_job_def jobs_ok_def)
  with t * that show ?thesis by blast
qed

lemma find_job_id: "find_job s i = Some j \<Longrightarrow> jb_id j = i \<and> j \<in> set (st_jobs s)"
  by (auto simp: find_job_def dest: find_SomeD)

lemma find_job_change:
  "(\<And>j. jb_id (f j) = jb_id j) \<Longrightarrow>
   find_job (change_job i f s) k = (if k = i then map_option f (find_job s i) else find_job s k)"
  by (auto simp: find_job_def change_job_def find_update_first find_update_first_other)

interpretation queue: job_queue "\<lambda>_. True" "\<lambda>_. True" jobs_ok find_job has_key jobs_claim jobs_enqueue
proof unfold_locales
  fix s :: store and now lease j s' i k
  assume inv: "jobs_ok s"
  show "jobs_ok (snd (jobs_claim now lease s))" using inv by (rule jobs_claim_ok)
  show "jobs_ok (snd (jobs_enqueue j now s))" using inv by (rule jobs_enqueue_ok)
  show "\<exists>j s'. jobs_claim now lease s = (Inr j, s')"
    if "find_job s i = Some k" "claimable k now"
    using claim_target_from_none [where at = now and js = "st_jobs s"] find_job_id [OF that(1)] that(2)
    by (auto simp: jobs_claim_def split: option.splits)
  show "\<exists>t. find_job s (jb_id t) = Some t \<and> claimable t now \<and> j = claimed now lease t"
    if "jobs_claim now lease s = (Inr j, s')"
    using jobs_claim_cases [OF inv that] by metis
  show "find_job s' i = (if i = jb_id j then Some j else find_job s i)"
    if claim: "jobs_claim now lease s = (Inr j, s')"
  proof -
    obtain t where t: "find_job s (jb_id t) = Some t" "j = claimed now lease t"
      "s' = change_job (jb_id t) (claimed now lease) s"
      using jobs_claim_cases [OF inv claim] by metis
    have "jb_id j = jb_id t" unfolding t(2) by (simp add: claimed_def)
    with t(1,2) show ?thesis unfolding t(3)
      by (subst find_job_change) (simp_all add: claimed_def)
  qed
  show "jb_run_at j \<le> jb_run_at k"
    if claim: "jobs_claim now lease s = (Inr j, s')" and k: "find_job s i = Some k" "claimable k now"
  proof -
    obtain t where "j = claimed now lease t"
      "\<forall>k \<in> set (st_jobs s). claimable k now \<longrightarrow> jb_run_at t \<le> jb_run_at k"
      using jobs_claim_cases [OF inv claim] by metis
    with find_job_id [OF k(1)] k(2) show ?thesis by (simp add: claimed_def)
  qed
  show "e = ErrNotFound \<and> s' = s" if "jobs_claim now lease s = (Inl e, s')" for e
    using that by (auto simp: jobs_claim_def split: option.splits)
  show "\<exists>s'. jobs_enqueue j now s = (Inl ErrAlreadyExists, s') \<and> (\<forall>key. has_key key s' = has_key key s)"
    if "jb_dedupe_key j \<noteq> ''''" "has_key (jb_dedupe_key j) s"
    using that by (simp add: jobs_enqueue_def)
  show "\<exists>k s'. jobs_enqueue j now s = (Inr k, s') \<and> has_key (jb_dedupe_key j) s'"
    if "\<not> has_key (jb_dedupe_key j) s"
    using that
    by (simp add: jobs_enqueue_def next_id_def Let_def enqueued_def has_key_def find_append)
qed

end
