(* ===== verification/Mongo_Queue.thy ===== *)
theory Mongo_Queue
  imports Mongo_Jobs Mongo_Codec Store_Jobs
begin

section \<open>The queue in MongoDB keeps the contract of the queue\<close>

text \<open>
  Over a driver as documented, claims and enqueueing in MongoDB meet the contract \<open>job_queue\<close> the
  in-memory queue meets, for instants in whole milliseconds.
\<close>

subsection \<open>The laws of the driver\<close>

lemma documentedD:
  assumes "mongo_documented D V"
  shows "ids_law D V" "insert_law D V" "find_one_law D V" "find_law D V"
    "find_one_and_update_law D V" "find_one_and_delete_law D V" "update_one_law D V"
    "many_law D V" "delete_law D V" "count_law D V" "errors_law D"
  using assms by (simp_all add: mongo_documented_def)

text \<open>An update of one document, when no document matches and when one does.\<close>

lemma find_one_and_update_none:
  assumes "mongo_documented D V" and "found_in (V s c) f = {}"
  shows "md_find_one_and_update D c f u order False after s = (Inl (md_no_documents D), s)"
proof -
  have "find_one_and_update_law D V" using assms(1) by (rule documentedD)
  then show ?thesis using assms(2) unfolding find_one_and_update_law_def by (metis (no_types))
qed

lemma find_one_and_update_some:
  assumes "mongo_documented D V" and "found_in (V s c) f \<noteq> {}" and "update_ok u"
  shows "\<exists>i d. picks (V s c) f order i d \<and>
    (allowed c (V s c) i (apply_update False (marshal u) d) \<longrightarrow>
      (\<exists>s'. md_find_one_and_update D c f u order upsert after s =
          (Inr (if after then apply_update False (marshal u) d else d), s') \<and>
        replaced V s c i (Some (apply_update False (marshal u) d)) s'))"
proof -
  have "find_one_and_update_law D V" using assms(1) by (rule documentedD)
  then have "\<exists>i d. picks (V s c) f order i d \<and>
      (update_ok u \<and> allowed c (V s c) i (apply_update False (marshal u) d) \<longrightarrow>
        (\<exists>s'. md_find_one_and_update D c f u order upsert after s =
            (Inr (if after then apply_update False (marshal u) d else d), s') \<and>
          replaced V s c i (Some (apply_update False (marshal u) d)) s'))"
    using assms(2) unfolding find_one_and_update_law_def Let_def by presburger
  then show ?thesis using assms(3) by simp
qed

lemma errors_is_refl [simp]: "errors_is e e"
  by (cases e) simp_all

lemma map_not_found_none [simp]: "map_not_found D op (md_no_documents D) = ErrNotFound"
  by (simp add: map_not_found_def)

lemma run_with_error [simp]:
  "with_error h m s = (case m s of (Inl e, s') \<Rightarrow> (Inl (h e), s') | (Inr x, s') \<Rightarrow> (Inr x, s'))"
  by (auto simp: with_error_def run_bind split: prod.split sum.split)

lemma hex_id: "ids_law D V \<Longrightarrow> is_id i \<Longrightarrow> md_from_hex D i = Some (map ascii_lower i)"
  unfolding ids_law_def by blast

lemma new_oid_fresh:
  assumes "ids_law D V" and "new_oid D s = (Inr i, s')"
  shows "V s' = V s" "V s c (BOid i) = None" "md_from_hex D i = Some i"
proof -
  have "md_new_id D s = (i, s')" using assms(2) by (simp add: new_oid_def split: prod.splits)
  moreover have "\<forall>s. case md_new_id D s of (oid, s') \<Rightarrow>
      md_from_hex D oid = Some oid \<and> V s' = V s \<and> (\<forall>c. V s c (BOid oid) = None)"
    using assms(1) unfolding ids_law_def by (elim conjE)
  ultimately show "V s' = V s" "V s c (BOid i) = None" "md_from_hex D i = Some i"
    by (auto dest!: spec [of _ s])
qed

lemma at_path_plain [simp]: "CHR ''.'' \<notin> set k \<Longrightarrow> at_path d k = map_of d k"
  by (simp add: at_path_def split_on_no_sep)

lemma map_of_set_field [simp]: "map_of (set_field k v d) = (map_of d)(k \<mapsto> v)"
  by (simp add: set_field_def AList.update_conv')

lemma stored_id: "ids_law D V \<Longrightarrow> V s c i = Some d \<Longrightarrow> map_of d ''_id'' = Some i"
  unfolding ids_law_def by blast

lemmas match_simps = matches_def fields_match_def field_matches_def operator_matches_def equals_def

subsection \<open>Documents of jobs\<close>

definition job_document :: "document \<Rightarrow> bool" where
  "job_document d \<longleftrightarrow>
     (\<exists>oid. map_of d ''_id'' = Some (BOid oid)) \<and>
     (\<exists>st. map_of d ''status'' = Some (BStr (job_status_text st))) \<and>
     (\<exists>t. map_of d ''runAt'' = Some (BDate t)) \<and>
     (\<exists>l. map_of d ''leaseUntil'' = Some (opt_date l)) \<and>
     (\<exists>n. map_of d ''attempts'' = Some (BInt n)) \<and>
     (map_of d ''dedupeKey'' = None \<or> (\<exists>k. map_of d ''dedupeKey'' = Some (BStr k) \<and> k \<noteq> []))"

lemma job_documentE:
  assumes "job_document d"
  obtains oid st t l n where "map_of d ''_id'' = Some (BOid oid)"
    "map_of d ''status'' = Some (BStr (job_status_text st))" "map_of d ''runAt'' = Some (BDate t)"
    "map_of d ''leaseUntil'' = Some (opt_date l)" "map_of d ''attempts'' = Some (BInt n)"
  using assms unfolding job_document_def by blast

lemma job_status_text_inj [simp]: "job_status_text a = job_status_text b \<longleftrightarrow> a = b"
  by (metis job_status_of_text)

lemma job_status_of_literal [simp]:
  "job_status_of ''pending'' = JobPending" "job_status_of ''running'' = JobRunning"
  by (simp_all add: job_status_of_def)

lemma job_status_literal [simp]:
  "job_status_text a = ''pending'' \<longleftrightarrow> a = JobPending" "job_status_text a = ''running'' \<longleftrightarrow> a = JobRunning"
  "''pending'' = job_status_text a \<longleftrightarrow> a = JobPending" "''running'' = job_status_text a \<longleftrightarrow> a = JobRunning"
  by (cases a; simp)+

lemma opt_date_is [simp]:
  "BDate t = opt_date l \<longleftrightarrow> l = Some t" "BNull = opt_date l \<longleftrightarrow> l = None" "opt_date None = BNull"
  by (cases l; auto simp: opt_date_def)+

text \<open>What a job reads from its document, of the fields a claim looks at.\<close>

lemma job_simps:
  "jb_id (decode_job d) = oid_field d ''_id''" "jb_run_at (decode_job d) = date_field d ''runAt''"
  "jb_status (decode_job d) = job_status_of (str_field d ''status'')"
  "jb_lease_until (decode_job d) = opt_date_field d ''leaseUntil''"
  "map_of d k = Some (BOid i) \<Longrightarrow> oid_field d k = i" "map_of d k = Some (BDate t) \<Longrightarrow> date_field d k = t"
  "map_of d k = Some (BStr x) \<Longrightarrow> str_field d k = x" "map_of d k = Some (opt_date l) \<Longrightarrow> opt_date_field d k = l"
  by (simp_all add: decode_job_def Let_def field_defs)

text \<open>The filter of a claim selects the jobs that can be claimed.\<close>

lemma claim_filter_exact:
  assumes "job_document d"
  shows "matches (stored (claim_filter now)) d = claimable (decode_job d) (in_millis now)"
proof -
  obtain oid st t l n where d: "map_of d ''status'' = Some (BStr (job_status_text st))"
    "map_of d ''runAt'' = Some (BDate t)" "map_of d ''leaseUntil'' = Some (opt_date l)"
    by (rule job_documentE [OF assms])
  have "claimable (decode_job d) (in_millis now) =
    (st = JobPending \<and> t \<le> in_millis now \<or>
     st = JobRunning \<and> (case l of None \<Rightarrow> False | Some u \<Rightarrow> u \<le> in_millis now))"
    using d by (auto simp: claimable_def job_simps not_less split: option.split)
  moreover have "matches (stored (claim_filter now)) d =
    (st = JobPending \<and> t \<le> in_millis now \<or>
     st = JobRunning \<and> (case l of None \<Rightarrow> False | Some u \<Rightarrow> u \<le> in_millis now))"
    using d by (auto simp: claim_filter_def match_simps opt_date_def split: option.split)
  ultimately show ?thesis by simp
qed

text \<open>The update of a claim.\<close>

lemma claim_update_fields:
  assumes "map_of d ''attempts'' = Some (BInt n)"
  shows "map_of (apply_update False (marshal (claim_update now lease)) d) = (map_of d)
    (''status'' \<mapsto> BStr (job_status_text JobRunning), ''leaseUntil'' \<mapsto> BDate (in_millis (now + lease)),
     ''updatedAt'' \<mapsto> BDate (in_millis now), ''attempts'' \<mapsto> BInt (n + 1))"
  using assms
  by (simp add: add.commute claim_update_def apply_update_def apply_operators_def set_fields_def field_defs add_value_def)

lemma claim_update_exact:
  assumes "job_document d" and "d' = apply_update False (marshal (claim_update now lease)) d"
  shows "decode_job d' = claimed (in_millis now) (in_millis (now + lease) - in_millis now) (decode_job d)"
    and "job_document d'" and "map_of d' ''dedupeKey'' = map_of d ''dedupeKey''"
    and "map_of d' ''_id'' = map_of d ''_id''"
proof -
  obtain n where n: "map_of d ''attempts'' = Some (BInt n)" using assms(1) by (rule job_documentE)
  note f = claim_update_fields [OF n, of now lease, folded assms(2)]
  show "decode_job d' = claimed (in_millis now) (in_millis (now + lease) - in_millis now) (decode_job d)"
    using n by (simp add: decode_job_def claimed_def Let_def field_defs f)
  show "job_document d'"
    using assms(1) unfolding job_document_def f by simp
  show "map_of d' ''dedupeKey'' = map_of d ''dedupeKey''" "map_of d' ''_id'' = map_of d ''_id''"
    by (simp_all add: f)
qed

subsection \<open>The contract\<close>

definition mongo_job :: "'s view \<Rightarrow> 's \<Rightarrow> string \<Rightarrow> job option" where
  "mongo_job V s i = map_option decode_job (V s ''jobs'' (BOid i))"

definition mongo_key_used :: "'s view \<Rightarrow> string \<Rightarrow> 's \<Rightarrow> bool" where
  "mongo_key_used V key s \<longleftrightarrow> (\<exists>i d. V s ''jobs'' i = Some d \<and> str_field d ''dedupeKey'' = key)"

definition queue_ready :: "'s mongo_driver \<Rightarrow> 's view \<Rightarrow> 's \<Rightarrow> bool" where
  "queue_ready D V s \<longleftrightarrow> mongo_documented D V \<and>
     (\<forall>i d. V s ''jobs'' i = Some d \<longrightarrow> job_document d) \<and>
     (\<forall>i d j e. V s ''jobs'' i = Some d \<longrightarrow> V s ''jobs'' j = Some e \<longrightarrow> i \<noteq> j \<longrightarrow> \<not> same_key ''jobs'' d e)"

definition storable_job :: "job \<Rightarrow> bool" where
  "storable_job j \<longleftrightarrow> jb_event_id j = [] \<or> is_id (jb_event_id j)"

lemma same_job_key:
  "same_key ''jobs'' d e \<longleftrightarrow>
     map_of d ''dedupeKey'' \<noteq> None \<and> map_of d ''dedupeKey'' = map_of e ''dedupeKey''"
  by (auto simp: same_key_def indexes_def index_key_def split: option.split)

lemma queue_readyD:
  assumes "queue_ready D V s"
  shows "mongo_documented D V" "V s ''jobs'' i = Some d \<Longrightarrow> job_document d"
    "V s ''jobs'' i = Some d \<Longrightarrow> V s ''jobs'' j = Some e \<Longrightarrow> i \<noteq> j \<Longrightarrow> \<not> same_key ''jobs'' d e"
  using assms unfolding queue_ready_def by blast+

lemma job_at_id:
  assumes "queue_ready D V s" and "V s ''jobs'' i = Some d"
  shows "map_of d ''_id'' = Some i" "i = BOid (jb_id (decode_job d))"
proof -
  show id: "map_of d ''_id'' = Some i"
    by (rule stored_id [where D = D and V = V, OF documentedD(1) [OF queue_readyD(1) [OF assms(1)]] assms(2)])
  obtain oid where "map_of d ''_id'' = Some (BOid oid)"
    using queue_readyD(2) [OF assms] by (rule job_documentE)
  then show "i = BOid (jb_id (decode_job d))" using id by (simp add: job_simps)
qed

text \<open>What a claim does, in terms of the documents.\<close>

lemma claim_found:
  assumes "queue_ready D V s"
  shows "i \<in> found_in (V s ''jobs'') (claim_filter now) \<longleftrightarrow>
    (\<exists>d. V s ''jobs'' i = Some d \<and> claimable (decode_job d) (in_millis now))"
  using claim_filter_exact queue_readyD(2) [OF assms] unfolding found_in_def by blast

lemma claim_run_none:
  assumes "queue_ready D V s" and "\<And>i d. V s ''jobs'' i = Some d \<Longrightarrow> \<not> claimable (decode_job d) (in_millis now)"
  shows "mongo_jobs_claim D now lease s = (Inl ErrNotFound, s)"
proof -
  have "found_in (V s ''jobs'') (claim_filter now) = {}"
    using claim_found [OF assms(1)] assms(2) by blast
  then show ?thesis
    by (simp add: mongo_jobs_claim_def run_bind
        find_one_and_update_none [where V = V, OF queue_readyD(1) [OF assms(1)]])
qed

lemma claim_run_some:
  assumes "queue_ready D V s" and "V s ''jobs'' k = Some c" "claimable (decode_job c) (in_millis now)"
  shows "\<exists>i d d' s'. V s ''jobs'' i = Some d \<and> claimable (decode_job d) (in_millis now) \<and>
    (\<forall>j e. V s ''jobs'' j = Some e \<longrightarrow> claimable (decode_job e) (in_millis now) \<longrightarrow>
       jb_run_at (decode_job d) \<le> jb_run_at (decode_job e)) \<and>
    d' = apply_update False (marshal (claim_update now lease)) d \<and>
    mongo_jobs_claim D now lease s = (Inr (decode_job d'), s') \<and> replaced V s ''jobs'' i (Some d') s'"
proof -
  let ?f = "claim_filter now" and ?M = "V s ''jobs''"
    and ?u = "apply_update False (marshal (claim_update now lease))"
  have some: "found_in ?M ?f \<noteq> {}" using claim_found [OF assms(1)] assms(2,3) by blast
  obtain i d where p: "picks ?M ?f [(''runAt'', 1)] i d"
    and run: "allowed ''jobs'' ?M i (?u d) \<longrightarrow>
      (\<exists>s'. md_find_one_and_update D ''jobs'' ?f (claim_update now lease) [(''runAt'', 1)] False True s =
          (Inr (if True then ?u d else d), s') \<and> replaced V s ''jobs'' i (Some (?u d)) s')"
    using find_one_and_update_some [where V = V and u = "claim_update now lease" and upsert = False
        and after = True and order = "[(''runAt'', 1)]", OF queue_readyD(1) [OF assms(1)] some]
    by (auto simp: update_ok_def claim_update_def)
  have i: "?M i = Some d" "i \<in> found_in ?M ?f" using p by (simp_all add: picks_def)
  have c: "claimable (decode_job d) (in_millis now)" using claim_found [OF assms(1)] i by auto
  note upd = claim_update_exact [OF queue_readyD(2) [OF assms(1) i(1)] refl, of now lease]
  have "allowed ''jobs'' ?M i (?u d)"
    using queue_readyD(3) [OF assms(1)] job_at_id [OF assms(1)] i(1)
    by (auto simp: allowed_def upd(3,4) same_job_key)
  then obtain s' where s': "md_find_one_and_update D ''jobs'' ?f (claim_update now lease)
      [(''runAt'', 1)] False True s = (Inr (?u d), s')" "replaced V s ''jobs'' i (Some (?u d)) s'"
    using run by auto
  have first: "jb_run_at (decode_job d) \<le> jb_run_at (decode_job e)"
    if e: "?M j = Some e" "claimable (decode_job e) (in_millis now)" for j e
  proof -
    have "j \<in> found_in ?M ?f" using claim_found [OF assms(1)] e by blast
    then have n: "\<not> precedes [(''runAt'', 1)] e d" using p e(1) by (auto simp: picks_def)
    obtain t where t: "map_of d ''runAt'' = Some (BDate t)"
      using queue_readyD(2) [OF assms(1) i(1)] by (rule job_documentE)
    obtain u where "map_of e ''runAt'' = Some (BDate u)"
      using queue_readyD(2) [OF assms(1) e(1)] by (rule job_documentE)
    with n t show ?thesis by (auto simp: value_less_def job_simps split: if_splits)
  qed
  have "mongo_jobs_claim D now lease s = (Inr (decode_job (?u d)), s')"
    using s'(1) by (simp add: mongo_jobs_claim_def run_bind)
  with i(1) c first s'(2) show ?thesis by blast
qed

lemma claim_runs:
  assumes "queue_ready D V s" and "V s ''jobs'' k = Some c" "claimable (decode_job c) (in_millis now)"
  shows "\<exists>x t. mongo_jobs_claim D now lease s = (Inr x, t)"
  using claim_run_some [where D = D and V = V and s = s and k = k and c = c and now = now and lease = lease, OF assms] by blast

text \<open>A new job.\<close>

lemma insert_one_run:
  assumes "mongo_documented D V" and "map_of (stored d) ''_id'' = Some i" and "V s c i = None"
  shows "(\<forall>j e. V s c j = Some e \<longrightarrow> j \<noteq> i \<longrightarrow> \<not> same_key c (stored d) e) \<Longrightarrow>
      \<exists>s'. md_insert_one D c d s = (Inr (), s') \<and> replaced V s c i (Some (stored d)) s'"
    and "V s c j = Some e \<Longrightarrow> j \<noteq> i \<Longrightarrow> same_key c (stored d) e \<Longrightarrow>
      \<exists>x. md_insert_one D c d s = (Inl x, s) \<and> md_is_duplicate_key D x"
proof -
  have law: "if V s c i = None \<and> allowed c (V s c) i (stored d)
      then \<exists>s'. md_insert_one D c d s = (Inr (), s') \<and> replaced V s c i (Some (stored d)) s'
      else \<exists>e. md_insert_one D c d s = (Inl e, s) \<and> md_is_duplicate_key D e"
    using documentedD(2) [OF assms(1)] assms(2) unfolding insert_law_def by blast
  then show "(\<forall>j e. V s c j = Some e \<longrightarrow> j \<noteq> i \<longrightarrow> \<not> same_key c (stored d) e) \<Longrightarrow>
      \<exists>s'. md_insert_one D c d s = (Inr (), s') \<and> replaced V s c i (Some (stored d)) s'"
    using assms(2,3) by (simp add: allowed_def)
  show "\<exists>x. md_insert_one D c d s = (Inl x, s) \<and> md_is_duplicate_key D x"
    if "V s c j = Some e" "j \<noteq> i" "same_key c (stored d) e"
  proof -
    have "\<not> allowed c (V s c) i (stored d)" using that by (auto simp: allowed_def)
    then show ?thesis using law by simp
  qed
qed

lemma job_fields_document:
  "job_document (stored (job_fields i j e now))"
  "map_of (stored (job_fields i j e now)) ''_id'' = Some (BOid i)"
  "map_of (stored (job_fields i j e now)) ''dedupeKey'' =
     (if jb_dedupe_key j = [] then None else Some (BStr (jb_dedupe_key j)))"
  "str_field (stored (job_fields i j e now)) ''dedupeKey'' = jb_dedupe_key j"
proof -
  show k: "map_of (stored (job_fields i j e now)) ''dedupeKey'' =
      (if jb_dedupe_key j = [] then None else Some (BStr (jb_dedupe_key j)))"
    by (simp add: job_fields_def omit_empty_def)
  show "map_of (stored (job_fields i j e now)) ''_id'' = Some (BOid i)"
    by (simp add: job_fields_def)
  show "str_field (stored (job_fields i j e now)) ''dedupeKey'' = jb_dedupe_key j"
    using k by (simp add: str_field_def)
  have "map_of (stored (job_fields i j e now)) ''status'' = Some (BStr (job_status_text JobPending))"
    "map_of (stored (job_fields i j e now)) ''runAt'' = Some (BDate (in_millis (jb_run_at j)))"
    "map_of (stored (job_fields i j e now)) ''leaseUntil'' = Some (opt_date None)"
    "map_of (stored (job_fields i j e now)) ''attempts'' = Some (BInt 0)"
    "map_of (stored (job_fields i j e now)) ''_id'' = Some (BOid i)"
    by (simp_all add: job_fields_def omit_empty_def)
  with k show "job_document (stored (job_fields i j e now))" unfolding job_document_def by auto
qed

lemma mongo_enqueue_run:
  assumes "queue_ready D V s" and "storable_job j"
  obtains i e t where "new_oid D s = (Inr i, t)" "V t = V s" "V s ''jobs'' (BOid i) = None"
    "queue_ready D V t"
    "mongo_jobs_enqueue D j now s =
       (case md_insert_one D ''jobs'' (job_fields i j e now) t of
          (Inl x, s') \<Rightarrow> (Inl (map_write_error D ''enqueue job'' x), s')
        | (Inr _, s') \<Rightarrow> (Inr (decode_job (job_fields i j e now)), s'))"
proof -
  have ids: "ids_law D V" using queue_readyD(1) [OF assms(1)] by (rule documentedD)
  obtain i t where "md_new_id D s = (i, t)" by fastforce
  then have n: "new_oid D s = (Inr i, t)" by (simp add: new_oid_def)
  note fresh = new_oid_fresh [where V = V, OF ids n]
  have "queue_ready D V t" using assms(1) by (simp add: queue_ready_def fresh(1))
  moreover obtain e where "(if jb_event_id j = [] then m_return None
      else m_bind (oid_of D (jb_event_id j)) (\<lambda>i. m_return (Some i))) t = (Inr e, t)"
    using assms(2) hex_id [where V = V, OF ids, of "jb_event_id j"]
    by (cases "jb_event_id j = []")
      (auto simp: storable_job_def oid_of_def object_id_def run_bind)
  ultimately show ?thesis
    using that [OF n fresh(1,2), of e] n
    by (simp add: mongo_jobs_enqueue_def run_bind Let_def split: prod.split sum.split)
qed

subsection \<open>The interpretation\<close>

lemma in_millis_iff: "in_millis t = t \<longleftrightarrow> 1000000 dvd t"
  by (metis dvd_div_mult_self dvd_triv_right in_millis_def)

lemma in_millis_add: "in_millis a = a \<Longrightarrow> in_millis b = b \<Longrightarrow> in_millis (a + b) = a + b"
  using in_millis_iff by simp

lemma claim_cases:
  assumes "queue_ready D V s" and "in_millis now = now" "in_millis lease = lease"
    and "mongo_jobs_claim D now lease s = (Inr j, s')"
  shows "\<exists>d d'. V s ''jobs'' (BOid (jb_id j)) = Some d \<and> claimable (decode_job d) now \<and>
    j = decode_job d' \<and> j = claimed now lease (decode_job d) \<and> jb_id (decode_job d) = jb_id j \<and>
    (\<forall>k e. V s ''jobs'' k = Some e \<longrightarrow> claimable (decode_job e) now \<longrightarrow> jb_run_at j \<le> jb_run_at (decode_job e)) \<and>
    V s' = (V s)(''jobs'' := (V s ''jobs'')(BOid (jb_id j) := Some d')) \<and> queue_ready D V s'"
proof -
  obtain k c where "V s ''jobs'' k = Some c" "claimable (decode_job c) (in_millis now)"
    using claim_run_none [OF assms(1), of now lease] assms(4) by fastforce
  then obtain i d d' t where r: "V s ''jobs'' i = Some d" "claimable (decode_job d) (in_millis now)"
    "\<forall>j e. V s ''jobs'' j = Some e \<longrightarrow> claimable (decode_job e) (in_millis now) \<longrightarrow>
       jb_run_at (decode_job d) \<le> jb_run_at (decode_job e)"
    "d' = apply_update False (marshal (claim_update now lease)) d"
    "mongo_jobs_claim D now lease s = (Inr (decode_job d'), t)" "replaced V s ''jobs'' i (Some d') t"
    using claim_run_some [OF assms(1), of k c now lease] by blast
  have j: "j = decode_job d'" "t = s'" using r(5) assms(4) by simp_all
  note upd = claim_update_exact [OF queue_readyD(2) [OF assms(1) r(1)] r(4)]
  have jc: "j = claimed now lease (decode_job d)"
    using upd(1) j(1) assms(2,3) by (simp add: in_millis_add)
  then have jd: "jb_id (decode_job d) = jb_id j" "jb_run_at j = jb_run_at (decode_job d)"
    by (simp_all add: claimed_def)
  have i: "i = BOid (jb_id j)" using job_at_id(2) [OF assms(1) r(1)] jd by simp
  have V': "V s' = (V s)(''jobs'' := (V s ''jobs'')(BOid (jb_id j) := Some d'))"
    using r(6) j(2) i by (simp add: replaced_def)
  have docs: "job_document e" if "V s' ''jobs'' k = Some e" for k e
    using that queue_readyD(2) [OF assms(1), of k e] upd(2) unfolding V' by (auto split: if_splits)
  have same: "\<exists>x0. V s ''jobs'' k = Some x0 \<and> map_of x0 ''dedupeKey'' = map_of x ''dedupeKey''"
    if "V s' ''jobs'' k = Some x" for k x
    using that r(1) i upd(3) unfolding V' by (auto split: if_splits)
  have keys: "\<not> same_key ''jobs'' x y"
    if "V s' ''jobs'' k = Some x" "V s' ''jobs'' l = Some y" "k \<noteq> l" for k l x y
    using same [OF that(1)] same [OF that(2)] queue_readyD(3) [OF assms(1), of k _ l] that(3)
    unfolding same_job_key by metis
  have "queue_ready D V s'"
    unfolding queue_ready_def using queue_readyD(1) [OF assms(1)] docs keys by blast
  then show ?thesis
    using r(1-3) i j jc jd V' assms(2) by (intro exI [of _ d] exI [of _ d']) simp
qed

lemma enqueue_key_used:
  assumes "queue_ready D V s" and "storable_job j" and "jb_dedupe_key j \<noteq> []"
    and "mongo_key_used V (jb_dedupe_key j) s"
  obtains t where "mongo_jobs_enqueue D j now s = (Inl ErrAlreadyExists, t)" "V t = V s" "queue_ready D V t"
proof -
  obtain i e t where r: "V t = V s" "V s ''jobs'' (BOid i) = None" "queue_ready D V t"
    "mongo_jobs_enqueue D j now s =
       (case md_insert_one D ''jobs'' (job_fields i j e now) t of
          (Inl x, s') \<Rightarrow> (Inl (map_write_error D ''enqueue job'' x), s')
        | (Inr _, s') \<Rightarrow> (Inr (decode_job (job_fields i j e now)), s'))"
    by (rule mongo_enqueue_run [OF assms(1,2)])
  obtain k d where k: "V s ''jobs'' k = Some d" "str_field d ''dedupeKey'' = jb_dedupe_key j"
    using assms(4) by (auto simp: mongo_key_used_def)
  then have "map_of d ''dedupeKey'' = Some (BStr (jb_dedupe_key j))"
    using queue_readyD(2) [OF assms(1) k(1)] assms(3) by (auto simp: job_document_def str_field_def)
  then have "same_key ''jobs'' (stored (job_fields i j e now)) d"
    using assms(3) by (simp add: same_job_key job_fields_document(3) del: map_of_stored)
  moreover have "k \<noteq> BOid i" using k(1) r(2) by auto
  ultimately obtain x where "md_insert_one D ''jobs'' (job_fields i j e now) t = (Inl x, t)"
    "md_is_duplicate_key D x"
    using insert_one_run(2) [where V = V and s = t and c = "''jobs''", OF queue_readyD(1) [OF assms(1)]
        job_fields_document(2) [of i j e now], of k d] k(1) r(1,2) by auto
  with r that show ?thesis by (simp add: map_write_error_def)
qed

lemma enqueue_key_new:
  assumes "queue_ready D V s" and "storable_job j"
    and "jb_dedupe_key j = [] \<or> \<not> mongo_key_used V (jb_dedupe_key j) s"
  obtains k t where "mongo_jobs_enqueue D j now s = (Inr k, t)" "mongo_key_used V (jb_dedupe_key j) t"
    "queue_ready D V t"
proof -
  obtain i e t where r: "V t = V s" "V s ''jobs'' (BOid i) = None" "queue_ready D V t"
    "mongo_jobs_enqueue D j now s =
       (case md_insert_one D ''jobs'' (job_fields i j e now) t of
          (Inl x, s') \<Rightarrow> (Inl (map_write_error D ''enqueue job'' x), s')
        | (Inr _, s') \<Rightarrow> (Inr (decode_job (job_fields i j e now)), s'))"
    by (rule mongo_enqueue_run [OF assms(1,2)])
  let ?d = "stored (job_fields i j e now)"
  have free: "\<not> same_key ''jobs'' ?d x" if "V t ''jobs'' k = Some x" for k x
  proof
    assume "same_key ''jobs'' ?d x"
    then have "jb_dedupe_key j \<noteq> []" "map_of x ''dedupeKey'' = Some (BStr (jb_dedupe_key j))"
      unfolding same_job_key job_fields_document(3) by (auto split: if_splits)
    moreover from this have "str_field x ''dedupeKey'' = jb_dedupe_key j" by (simp add: job_simps(7))
    ultimately show False using assms(3) that r(1) unfolding mongo_key_used_def by auto
  qed
  then obtain s' where s': "md_insert_one D ''jobs'' (job_fields i j e now) t = (Inr (), s')"
    "replaced V t ''jobs'' (BOid i) (Some ?d) s'"
    using insert_one_run(1) [where V = V and s = t and c = "''jobs''", OF queue_readyD(1) [OF assms(1)]
        job_fields_document(2) [of i j e now]] r(1,2) by auto
  have V': "V s' = (V t)(''jobs'' := (V t ''jobs'')(BOid i := Some ?d))"
    using s'(2) by (simp add: replaced_def)
  have "mongo_key_used V (jb_dedupe_key j) s'"
    unfolding mongo_key_used_def V' using job_fields_document(4)
    by (intro exI [of _ "BOid i"] exI [of _ ?d]) simp
  moreover have docs: "job_document x" if "V s' ''jobs'' k = Some x" for k x
    using that queue_readyD(2) [OF r(3), of k x] job_fields_document(1) unfolding V'
    by (auto split: if_splits)
  moreover have "\<not> same_key ''jobs'' x y"
    if "V s' ''jobs'' k = Some x" "V s' ''jobs'' l = Some y" "k \<noteq> l" for k l x y
    using that queue_readyD(3) [OF r(3), of k x l y] free [of l y] free [of k x]
    unfolding V' same_job_key by (auto split: if_splits)
  ultimately show ?thesis
    using that r(4) s'(1) queue_readyD(1) [OF assms(1)] unfolding queue_ready_def
    by (simp split: prod.splits)
qed

text \<open>The claims and the enqueueing of \<open>jobRepo\<close>, over any driver that does as documented.\<close>

interpretation mongo_queue: job_queue "\<lambda>t. in_millis t = t" storable_job "queue_ready D V" "mongo_job V"
  "mongo_key_used V" "mongo_jobs_claim D" "mongo_jobs_enqueue D" for D V
proof unfold_locales
  fix s :: 'a and j now
  assume ready: "queue_ready D V s" and "storable_job j"
  note used = enqueue_key_used [OF this, where now = now] and new = enqueue_key_new [OF this, where now = now]
  show "queue_ready D V (snd (mongo_jobs_enqueue D j now s))"
  proof (cases "jb_dedupe_key j = [] \<or> \<not> mongo_key_used V (jb_dedupe_key j) s")
    case True
    show ?thesis by (rule new [OF True]) simp
  next
    case False
    then have "jb_dedupe_key j \<noteq> []" "mongo_key_used V (jb_dedupe_key j) s" by simp_all
    then show ?thesis by (rule used) simp
  qed
  show "\<exists>s'. mongo_jobs_enqueue D j now s = (Inl ErrAlreadyExists, s') \<and>
      (\<forall>key. mongo_key_used V key s' = mongo_key_used V key s)"
    if "jb_dedupe_key j \<noteq> []" "mongo_key_used V (jb_dedupe_key j) s"
    by (rule used [OF that]) (auto simp: mongo_key_used_def)
  show "\<exists>k s'. mongo_jobs_enqueue D j now s = (Inr k, s') \<and> mongo_key_used V (jb_dedupe_key j) s'"
    if "\<not> mongo_key_used V (jb_dedupe_key j) s"
    using new that by blast
next
  fix s :: 'a and now lease
  assume ready: "queue_ready D V s" and fits: "in_millis now = now" "in_millis lease = lease"
  have left: "e = ErrNotFound \<and> t = s" if c: "mongo_jobs_claim D now lease s = (Inl e, t)" for e t
  proof (cases "\<exists>i d. V s ''jobs'' i = Some d \<and> claimable (decode_job d) (in_millis now)")
    case True
    then obtain k d where k: "V s ''jobs'' k = Some d" "claimable (decode_job d) (in_millis now)" by blast
    show ?thesis using claim_runs [OF ready, of k d now lease] k c by simp
  next
    case False
    then show ?thesis using claim_run_none [OF ready, where now = now and lease = lease] c by auto
  qed
  then show "e = ErrNotFound \<and> t = s" if "mongo_jobs_claim D now lease s = (Inl e, t)" for e t
    using that .
  show "queue_ready D V (snd (mongo_jobs_claim D now lease s))"
  proof (cases "fst (mongo_jobs_claim D now lease s)")
    case (Inl e)
    then have "mongo_jobs_claim D now lease s = (Inl e, snd (mongo_jobs_claim D now lease s))"
      by (simp add: prod_eq_iff)
    then have "snd (mongo_jobs_claim D now lease s) = s" by (rule left [THEN conjunct2])
    then show ?thesis using ready by simp
  next
    case (Inr x)
    then have c: "mongo_jobs_claim D now lease s = (Inr x, snd (mongo_jobs_claim D now lease s))"
      by (simp add: prod_eq_iff)
    show ?thesis using claim_cases [OF ready fits c] by blast
  qed
  show "\<exists>j s'. mongo_jobs_claim D now lease s = (Inr j, s')"
    if k: "mongo_job V s i = Some k" "claimable k now" for i k
  proof -
    obtain d where d: "V s ''jobs'' (BOid i) = Some d" "claimable (decode_job d) (in_millis now)"
      using k fits(1) by (auto simp: mongo_job_def)
    show ?thesis using claim_runs [OF ready, of "BOid i" d now lease] d by blast
  qed
  fix j s'
  assume c: "mongo_jobs_claim D now lease s = (Inr j, s')"
  obtain d d' where r: "V s ''jobs'' (BOid (jb_id j)) = Some d" "claimable (decode_job d) now"
    "j = decode_job d'" "j = claimed now lease (decode_job d)" "jb_id (decode_job d) = jb_id j"
    "\<forall>k e. V s ''jobs'' k = Some e \<longrightarrow> claimable (decode_job e) now \<longrightarrow> jb_run_at j \<le> jb_run_at (decode_job e)"
    "V s' = (V s)(''jobs'' := (V s ''jobs'')(BOid (jb_id j) := Some d'))"
    using claim_cases [OF ready fits c] by blast
  show "\<exists>t. mongo_job V s (jb_id t) = Some t \<and> claimable t now \<and> j = claimed now lease t"
    using r by (intro exI [of _ "decode_job d"]) (simp add: mongo_job_def)
  show "mongo_job V s' i = (if i = jb_id j then Some j else mongo_job V s i)" for i
    using r(3) by (auto simp: mongo_job_def r(7))
  show "jb_run_at j \<le> jb_run_at k" if "mongo_job V s i = Some k" "claimable k now" for i k
    using that r(6) by (auto simp: mongo_job_def)
qed

end
