(* ===== verification/Mongo_People.thy ===== *)
theory Mongo_People
  imports Mongo_Driver
begin

section \<open>Participations, reminder logs and accounts in MongoDB\<close>

text \<open>
  \<open>internal/manager/store/mongo/participations.go\<close>, \<open>reminderlogs.go\<close> and \<open>accounts.go\<close>: every
  method of their repositories over the driver. A participation is written by one update in
  the aggregation language, which sees the document as it was.
\<close>

subsection \<open>participations.go\<close>

definition keeps_participant :: bson where
  "keeps_participant = BDoc [(''$and'', BArr
     [BDoc [(''$eq'', BArr [BStr ''$role'', BStr (role_text RoleParticipant)])],
      BDoc [(''$eq'', BArr [BStr ''$status'', BStr (participation_status_text ParticipationActive)])]])]"

definition participation_exprs :: "participation_upsert \<Rightarrow> string \<Rightarrow> string \<Rightarrow> document" where
  "participation_exprs u event_id workspace_id =
     [(''eventId'', BOid event_id), (''workspaceId'', BOid workspace_id),
      (''chatUserId'', BStr (pu_chat_user_id u)), (''displayName'', BStr (pu_display_name u)),
      (''joinedAt'', BDoc [(''$ifNull'', BArr [BStr ''$joinedAt'', BDate (pu_now u)])]),
      (''status'', BStr (participation_status_text ParticipationActive)),
      (''role'', BDoc [(''$cond'', BArr
         [keeps_participant, BStr (role_text RoleParticipant), BStr (role_text (pu_role u))])]),
      (''expiresAt'', BDoc [(''$cond'', BArr
         [keeps_participant, BStr ''$expiresAt'', opt_date (pu_expires_at u)])]),
      (''peekCount'', BDoc [(''$add'', BArr
         [BDoc [(''$ifNull'', BArr [BStr ''$peekCount'', BInt 0])],
          BDoc [(''$cond'', BArr [keeps_participant, BInt 0, BInt (peek_increment (pu_role u))])]])]),
      (''updatedAt'', BDate (pu_now u))]"

definition participation_pipeline :: "participation_upsert \<Rightarrow> string \<Rightarrow> string \<Rightarrow> bson" where
  "participation_pipeline u event_id workspace_id =
     BArr [BDoc [(''$set'', BDoc (participation_exprs u event_id workspace_id))]]"

definition mongo_participations_get_by_user ::
  "'s mongo_driver \<Rightarrow> string \<Rightarrow> string \<Rightarrow> ('s, err, participation) prog" where
  "mongo_participations_get_by_user D event_id chat_user_id =
     m_bind (oid_of D event_id) (\<lambda>oid.
     m_bind (with_error (map_not_found D ''get participation by user'')
        (md_find_one D ''participations''
          [(''eventId'', BOid oid), (''chatUserId'', BStr chat_user_id)])) (\<lambda>doc.
       m_return (decode_participation doc)))"

definition mongo_participations_upsert ::
  "'s mongo_driver \<Rightarrow> participation_upsert \<Rightarrow> ('s, err, participation_change) prog" where
  "mongo_participations_upsert D u =
     m_bind (oid_of D (pu_event_id u)) (\<lambda>event_id.
     m_bind (oid_of D (pu_workspace_id u)) (\<lambda>workspace_id.
     m_bind (m_try (md_find_one_and_update D ''participations''
         [(''eventId'', BOid event_id), (''chatUserId'', BStr (pu_chat_user_id u))]
         (participation_pipeline u event_id workspace_id) [] True False)) (\<lambda>r.
     m_bind (case r of
         Inr doc \<Rightarrow> m_return (Some (decode_participation doc))
       | Inl e \<Rightarrow> if errors_is e (md_no_documents D) then m_return None
                else m_throw (map_write_error D ''upsert participation'' e)) (\<lambda>before.
     m_bind (mongo_participations_get_by_user D (pu_event_id u) (pu_chat_user_id u)) (\<lambda>after.
       m_return \<lparr>pc_before = before, pc_after = after\<rparr>)))))"

definition mongo_participations_get ::
  "'s mongo_driver \<Rightarrow> string \<Rightarrow> ('s, err, participation) prog" where
  "mongo_participations_get D i =
     m_bind (oid_of D i) (\<lambda>oid.
     m_bind (with_error (map_not_found D ''get participation'')
        (md_find_one D ''participations'' [(''_id'', BOid oid)])) (\<lambda>doc.
       m_return (decode_participation doc)))"

definition status_update :: "participation_status \<Rightarrow> time \<Rightarrow> bson" where
  "status_update status now = BDoc [(''$set'', BDoc
     ([(''status'', BStr (participation_status_text status)), (''updatedAt'', BDate now)] @
      (if status \<noteq> ParticipationActive then [(''expiresAt'', BNull)] else [])))]"

definition mongo_participations_set_status ::
  "'s mongo_driver \<Rightarrow> string \<Rightarrow> participation_status \<Rightarrow> time \<Rightarrow> ('s, err, unit) prog" where
  "mongo_participations_set_status D i status now =
     m_bind (oid_of D i) (\<lambda>oid.
       update_matched D ''participations'' [(''_id'', BOid oid)]
         (status_update status now) ''set participation status'')"

definition mongo_participations_list_by_event ::
  "'s mongo_driver \<Rightarrow> string \<Rightarrow> participation_status list \<Rightarrow> ('s, err, participation list) prog" where
  "mongo_participations_list_by_event D event_id statuses =
     list_by_event D ''participations'' event_id (map participation_status_text statuses) ''joinedAt''
       decode_participation ''list participations''"

definition mongo_participations_count_active ::
  "'s mongo_driver \<Rightarrow> string \<Rightarrow> participation_role option \<Rightarrow> ('s, err, int) prog" where
  "mongo_participations_count_active D event_id role =
     m_bind (oid_of D event_id) (\<lambda>oid.
       with_error (ErrWrapped ''count participations'')
         (md_count D ''participations''
           ([(''eventId'', BOid oid),
             (''status'', BStr (participation_status_text ParticipationActive))] @
            (case role of None \<Rightarrow> [] | Some r \<Rightarrow> [(''role'', BStr (role_text r))])) None))"

subsection \<open>reminderlogs.go\<close>

definition mongo_reminder_logs_append ::
  "'s mongo_driver \<Rightarrow> error_texts \<Rightarrow> reminder_log \<Rightarrow> ('s, err, reminder_log) prog" where
  "mongo_reminder_logs_append D texts lg =
     m_bind (oid_of D (rl_event_id lg)) (\<lambda>event_id.
     m_bind (new_oid D) (\<lambda>new_id.
     let doc = [(''_id'', BOid new_id), (''eventId'', BOid event_id),
                (''sequence'', BInt (rl_sequence lg)), (''scheduledFor'', BDate (rl_scheduled_for lg)),
                (''sentAt'', BDate (rl_sent_at lg)),
                (''targets'', if rl_targets lg = [] then BNull
                            else BArr (map (\<lambda>t. BDoc (encode_target texts t)) (rl_targets lg)))]
     in m_bind (with_error (map_write_error D ''append reminder log'')
          (md_insert_one D ''reminder_logs'' doc)) (\<lambda>_.
          m_return (decode_reminder_log doc))))"

definition mongo_reminder_logs_list_by_event ::
  "'s mongo_driver \<Rightarrow> string \<Rightarrow> ('s, err, reminder_log list) prog" where
  "mongo_reminder_logs_list_by_event D event_id =
     m_bind (oid_of D event_id) (\<lambda>oid.
     m_bind (with_error (ErrWrapped ''list reminder logs'')
        (md_find D ''reminder_logs'' [(''eventId'', BOid oid)] [(''sentAt'', 1)] None)) (\<lambda>docs.
       m_return (map decode_reminder_log docs)))"

text \<open>\<open>reminderLogRepo.exists\<close>\<close>

definition mongo_reminder_logs_exists ::
  "'s mongo_driver \<Rightarrow> string \<Rightarrow> document \<Rightarrow> string \<Rightarrow> ('s, err, bool) prog" where
  "mongo_reminder_logs_exists D event_id extra op =
     m_bind (oid_of D event_id) (\<lambda>oid.
     m_bind (with_error (ErrWrapped op)
        (md_count D ''reminder_logs'' ((''eventId'', BOid oid) # extra) (Some 1))) (\<lambda>n.
       m_return (0 < n)))"

definition mongo_reminder_logs_sent_at ::
  "'s mongo_driver \<Rightarrow> string \<Rightarrow> time \<Rightarrow> ('s, err, bool) prog" where
  "mongo_reminder_logs_sent_at D event_id scheduled_for =
     mongo_reminder_logs_exists D event_id [(''scheduledFor'', BDate scheduled_for)]
       ''check reminder schedule''"

definition mongo_reminder_logs_sent_sequence ::
  "'s mongo_driver \<Rightarrow> string \<Rightarrow> int \<Rightarrow> ('s, err, bool) prog" where
  "mongo_reminder_logs_sent_sequence D event_id sequence =
     mongo_reminder_logs_exists D event_id [(''sequence'', BInt sequence)] ''check reminder sequence''"

subsection \<open>accounts.go: console users\<close>

definition mongo_console_users_get :: "'s mongo_driver \<Rightarrow> string \<Rightarrow> ('s, err, console_user) prog" where
  "mongo_console_users_get D i =
     m_bind (oid_of D i) (\<lambda>oid.
     m_bind (with_error (map_not_found D ''get console user'')
        (md_find_one D ''console_users'' [(''_id'', BOid oid)])) (\<lambda>doc.
       m_return (decode_console_user doc)))"

definition mongo_console_users_get_by_google_sub ::
  "'s mongo_driver \<Rightarrow> string \<Rightarrow> ('s, err, console_user) prog" where
  "mongo_console_users_get_by_google_sub D sub =
     m_bind (with_error (map_not_found D ''get console user by google sub'')
        (md_find_one D ''console_users'' [(''googleSub'', BStr sub)])) (\<lambda>doc.
       m_return (decode_console_user doc))"

definition mongo_console_users_create ::
  "'s mongo_driver \<Rightarrow> console_user \<Rightarrow> ('s, err, console_user) prog" where
  "mongo_console_users_create D user =
     m_bind (new_oid D) (\<lambda>new_id.
     let doc = [(''_id'', BOid new_id), (''googleSub'', BStr (us_google_sub user)),
                (''email'', BStr (us_email user)), (''name'', BStr (us_name user)),
                (''picture'', BStr (us_picture user)),
                (''createdVia'', BStr (origin_text (us_created_via user))),
                (''createdAt'', BDate (us_created_at user)), (''lastLoginAt'', BDate (us_last_login_at user))]
     in m_bind (with_error (map_write_error D ''create console user'')
          (md_insert_one D ''console_users'' doc)) (\<lambda>_.
          m_return (decode_console_user doc)))"

definition mongo_console_users_touch_login ::
  "'s mongo_driver \<Rightarrow> string \<Rightarrow> time \<Rightarrow> ('s, err, unit) prog" where
  "mongo_console_users_touch_login D i now =
     m_bind (oid_of D i) (\<lambda>oid.
       update_matched D ''console_users'' [(''_id'', BOid oid)]
         (BDoc [(''$set'', BDoc [(''lastLoginAt'', BDate now)])]) ''touch console user login'')"

subsection \<open>accounts.go: chat identities\<close>

definition mongo_chat_identities_link ::
  "'s mongo_driver \<Rightarrow> chat_identity \<Rightarrow> ('s, err, chat_identity) prog" where
  "mongo_chat_identities_link D c =
     m_bind (oid_of D (ci_console_user_id c)) (\<lambda>user_id.
     m_bind (oid_of D (ci_workspace_id c)) (\<lambda>workspace_id.
     m_bind (new_oid D) (\<lambda>new_id.
     let doc = [(''_id'', BOid new_id), (''consoleUserId'', BOid user_id),
                (''workspaceId'', BOid workspace_id), (''provider'', BStr (provider_text (ci_provider c))),
                (''workspaceExternalId'', BStr (ci_workspace_external_id c)),
                (''chatUserId'', BStr (ci_chat_user_id c)), (''displayName'', BStr (ci_display_name c)),
                (''linkedAt'', BDate (ci_linked_at c))]
     in m_bind (with_error
          (\<lambda>e. if md_is_duplicate_key D e then ErrIdentityLinkedElsewhere
               else ErrWrapped ''link chat identity'' e)
          (md_insert_one D ''chat_identities'' doc)) (\<lambda>_.
          m_return (decode_chat_identity doc)))))"

definition mongo_chat_identities_get ::
  "'s mongo_driver \<Rightarrow> string \<Rightarrow> string \<Rightarrow> ('s, err, chat_identity) prog" where
  "mongo_chat_identities_get D workspace_id chat_user_id =
     m_bind (oid_of D workspace_id) (\<lambda>oid.
     m_bind (with_error (map_not_found D ''get chat identity'')
        (md_find_one D ''chat_identities''
          [(''workspaceId'', BOid oid), (''chatUserId'', BStr chat_user_id)])) (\<lambda>doc.
       m_return (decode_chat_identity doc)))"

definition mongo_chat_identities_list_by_user ::
  "'s mongo_driver \<Rightarrow> string \<Rightarrow> ('s, err, chat_identity list) prog" where
  "mongo_chat_identities_list_by_user D user_id =
     m_bind (oid_of D user_id) (\<lambda>oid.
     m_bind (with_error (ErrWrapped ''list chat identities'')
        (md_find D ''chat_identities'' [(''consoleUserId'', BOid oid)] [(''linkedAt'', 1)] None)) (\<lambda>docs.
       m_return (map decode_chat_identity docs)))"

definition mongo_chat_identities_unlink :: "'s mongo_driver \<Rightarrow> string \<Rightarrow> ('s, err, unit) prog" where
  "mongo_chat_identities_unlink D i =
     m_bind (oid_of D i) (\<lambda>oid.
     m_bind (with_error (ErrWrapped ''unlink chat identity'')
        (md_delete_one D ''chat_identities'' [(''_id'', BOid oid)])) (\<lambda>n.
       if n = 0 then m_throw ErrNotFound else m_return ()))"

subsection \<open>accounts.go: link tokens\<close>

definition mongo_link_tokens_create :: "'s mongo_driver \<Rightarrow> link_token \<Rightarrow> ('s, err, unit) prog" where
  "mongo_link_tokens_create D token =
     m_bind (oid_of D (lt_workspace_id token)) (\<lambda>workspace_id.
       with_error (map_write_error D ''create link token'')
         (md_insert_one D ''link_tokens''
           [(''_id'', BStr (lt_id token)), (''workspaceId'', BOid workspace_id),
            (''chatUserId'', BStr (lt_chat_user_id token)),
            (''displayName'', BStr (lt_display_name token)),
            (''expiresAt'', BDate (lt_expires_at token)), (''consumedAt'', BNull)]))"

definition mongo_link_tokens_get :: "'s mongo_driver \<Rightarrow> string \<Rightarrow> ('s, err, link_token) prog" where
  "mongo_link_tokens_get D i =
     m_bind (with_error (map_not_found D ''get link token'')
        (md_find_one D ''link_tokens'' [(''_id'', BStr i)])) (\<lambda>doc.
       m_return (decode_link_token doc))"

definition token_filter :: "string \<Rightarrow> time \<Rightarrow> document" where
  "token_filter i now =
     [(''_id'', BStr i), (''consumedAt'', BNull), (''expiresAt'', BDoc [(''$gt'', BDate now)])]"

definition mongo_link_tokens_consume ::
  "'s mongo_driver \<Rightarrow> string \<Rightarrow> time \<Rightarrow> ('s, err, link_token) prog" where
  "mongo_link_tokens_consume D i now =
     m_bind (m_try (md_find_one_and_update D ''link_tokens'' (token_filter i now)
        (BDoc [(''$set'', BDoc [(''consumedAt'', BDate now)])]) [] False True)) (\<lambda>r.
       case r of
         Inr doc \<Rightarrow> m_return (decode_link_token doc)
       | Inl e \<Rightarrow>
           if \<not> errors_is e (md_no_documents D) then m_throw (ErrWrapped ''consume link token'' e)
           else m_bind (mongo_link_tokens_get D i) (\<lambda>existing.
             case token_usable existing now of
               Some e' \<Rightarrow> m_throw e'
             | None \<Rightarrow> m_throw ErrNotFound))"

subsection \<open>accounts.go: sessions\<close>

definition mongo_sessions_create :: "'s mongo_driver \<Rightarrow> session \<Rightarrow> ('s, err, unit) prog" where
  "mongo_sessions_create D session =
     m_bind (oid_of D (se_user_id session)) (\<lambda>user_id.
       with_error (map_write_error D ''create session'')
         (md_insert_one D ''sessions''
           [(''_id'', BStr (se_id session)), (''userId'', BOid user_id),
            (''csrfToken'', BStr (se_csrf_token session)), (''createdAt'', BDate (se_created_at session)),
            (''expiresAt'', BDate (se_expires_at session)),
            (''lastSeenAt'', BDate (se_last_seen_at session))]))"

definition decode_session :: "document \<Rightarrow> session" where
  "decode_session d =
     \<lparr>se_id = str_field d ''_id'', se_user_id = oid_field d ''userId'',
      se_csrf_token = str_field d ''csrfToken'', se_created_at = date_field d ''createdAt'',
      se_expires_at = date_field d ''expiresAt'', se_last_seen_at = date_field d ''lastSeenAt''\<rparr>"

definition mongo_sessions_get :: "'s mongo_driver \<Rightarrow> string \<Rightarrow> ('s, err, session) prog" where
  "mongo_sessions_get D i =
     m_bind (with_error (map_not_found D ''get session'')
        (md_find_one D ''sessions'' [(''_id'', BStr i)])) (\<lambda>doc.
       m_return (decode_session doc))"

definition mongo_sessions_touch :: "'s mongo_driver \<Rightarrow> string \<Rightarrow> time \<Rightarrow> ('s, err, unit) prog" where
  "mongo_sessions_touch D i now =
     update_matched D ''sessions'' [(''_id'', BStr i)]
       (BDoc [(''$set'', BDoc [(''lastSeenAt'', BDate now)])]) ''touch session''"

definition mongo_sessions_delete :: "'s mongo_driver \<Rightarrow> string \<Rightarrow> ('s, err, unit) prog" where
  "mongo_sessions_delete D i =
     m_bind (with_error (ErrWrapped ''delete session'') (md_delete_one D ''sessions'' [(''_id'', BStr i)]))
       (\<lambda>_. m_return ())"

definition mongo_sessions_delete_by_user :: "'s mongo_driver \<Rightarrow> string \<Rightarrow> ('s, err, unit) prog" where
  "mongo_sessions_delete_by_user D user_id =
     m_bind (oid_of D user_id) (\<lambda>oid.
     m_bind (with_error (ErrWrapped ''delete sessions by user'')
        (md_delete_many D ''sessions'' [(''userId'', BOid oid)])) (\<lambda>_.
       m_return ()))"

subsection \<open>accounts.go: login states\<close>

definition mongo_oauth_states_create :: "'s mongo_driver \<Rightarrow> oauth_state \<Rightarrow> ('s, err, unit) prog" where
  "mongo_oauth_states_create D state =
     with_error (map_write_error D ''create oauth state'')
       (md_insert_one D ''oauth_states''
         [(''_id'', BStr (oa_state state)), (''codeVerifier'', BStr (oa_code_verifier state)),
          (''redirectTo'', BStr (oa_redirect_to state)), (''expiresAt'', BDate (oa_expires_at state))])"

definition decode_oauth_state :: "document \<Rightarrow> oauth_state" where
  "decode_oauth_state d =
     \<lparr>oa_state = str_field d ''_id'', oa_code_verifier = str_field d ''codeVerifier'',
      oa_redirect_to = str_field d ''redirectTo'', oa_expires_at = date_field d ''expiresAt''\<rparr>"

definition state_filter :: "string \<Rightarrow> time \<Rightarrow> document" where
  "state_filter state now = [(''_id'', BStr state), (''expiresAt'', BDoc [(''$gt'', BDate now)])]"

definition mongo_oauth_states_consume ::
  "'s mongo_driver \<Rightarrow> string \<Rightarrow> time \<Rightarrow> ('s, err, oauth_state) prog" where
  "mongo_oauth_states_consume D state now =
     m_bind (with_error (map_not_found D ''consume oauth state'')
        (md_find_one_and_delete D ''oauth_states'' (state_filter state now))) (\<lambda>doc.
       m_return (decode_oauth_state doc))"

end
