(* ===== verification/Store_Accounts.thy ===== *)
theory Store_Accounts
  imports Store
begin

section \<open>Reminder logs, console accounts, link tokens, sessions and login states\<close>

text \<open>
  The remaining repositories of \<open>memstore.go\<close>. A link token and a login state are one-shot:
  the locale \<open>one_shot\<close> states it, interpreted on both.
\<close>

subsection \<open>Reminder logs\<close>

definition reminder_logs_append :: "reminder_log \<Rightarrow> reminder_log store_op" where
  "reminder_logs_append log = (\<lambda>s.
     let (new_id, s') = next_id s; created = log\<lparr>rl_id := new_id\<rparr>
     in (Inr created, s'\<lparr>st_reminder_logs := st_reminder_logs s' @ [created]\<rparr>))"

definition reminder_logs_list_by_event :: "string \<Rightarrow> reminder_log list store_op" where
  "reminder_logs_list_by_event event_id = m_gets (\<lambda>s. Inr (sort_key rl_sent_at
     (filter (\<lambda>l. rl_event_id l = event_id) (st_reminder_logs s))))"

definition reminder_logs_sent_at :: "string \<Rightarrow> time \<Rightarrow> bool store_op" where
  "reminder_logs_sent_at event_id scheduled_for = m_gets (\<lambda>s. Inr (list_ex
     (\<lambda>l. rl_event_id l = event_id \<and> rl_scheduled_for l = scheduled_for) (st_reminder_logs s)))"

definition reminder_logs_sent_sequence :: "string \<Rightarrow> int \<Rightarrow> bool store_op" where
  "reminder_logs_sent_sequence event_id sequence = m_gets (\<lambda>s. Inr (list_ex
     (\<lambda>l. rl_event_id l = event_id \<and> rl_sequence l = sequence) (st_reminder_logs s)))"

subsection \<open>Console users\<close>

definition console_users_get :: "string \<Rightarrow> console_user store_op" where
  "console_users_get i = m_gets (\<lambda>s. found (List.find (\<lambda>u. us_id u = i) (st_console_users s)))"

definition console_users_get_by_google_sub :: "string \<Rightarrow> console_user store_op" where
  "console_users_get_by_google_sub sub =
     m_gets (\<lambda>s. found (List.find (\<lambda>u. us_google_sub u = sub) (st_console_users s)))"

definition console_users_create :: "console_user \<Rightarrow> console_user store_op" where
  "console_users_create user = (\<lambda>s.
     if List.find (\<lambda>u. us_google_sub u = us_google_sub user) (st_console_users s) \<noteq> None
     then (Inl ErrAlreadyExists, s)
     else let (new_id, s') = next_id s; created = user\<lparr>us_id := new_id\<rparr>
          in (Inr created, s'\<lparr>st_console_users := st_console_users s' @ [created]\<rparr>))"

definition console_users_touch_login :: "string \<Rightarrow> time \<Rightarrow> unit store_op" where
  "console_users_touch_login i now = (\<lambda>s.
     (case List.find (\<lambda>u. us_id u = i) (st_console_users s) of
        None \<Rightarrow> (Inl ErrNotFound, s)
      | Some _ \<Rightarrow> (Inr (), s\<lparr>st_console_users := update_first (\<lambda>u. us_id u = i)
          (\<lambda>u. u\<lparr>us_last_login_at := now\<rparr>) (st_console_users s)\<rparr>)))"

subsection \<open>Chat identities\<close>

definition identity_key :: "chat_identity \<Rightarrow> string \<times> string" where
  "identity_key c = (ci_workspace_id c, ci_chat_user_id c)"

definition find_identity :: "store \<Rightarrow> string \<Rightarrow> string \<Rightarrow> chat_identity option" where
  "find_identity s workspace_id chat_user_id =
     List.find (\<lambda>c. identity_key c = (workspace_id, chat_user_id)) (st_chat_identities s)"

definition chat_identities_link :: "chat_identity \<Rightarrow> chat_identity store_op" where
  "chat_identities_link c = (\<lambda>s.
     if find_identity s (ci_workspace_id c) (ci_chat_user_id c) \<noteq> None
     then (Inl ErrIdentityLinkedElsewhere, s)
     else let (new_id, s') = next_id s; created = c\<lparr>ci_id := new_id\<rparr>
          in (Inr created, s'\<lparr>st_chat_identities := st_chat_identities s' @ [created]\<rparr>))"

definition chat_identities_get :: "string \<Rightarrow> string \<Rightarrow> chat_identity store_op" where
  "chat_identities_get workspace_id chat_user_id =
     m_gets (\<lambda>s. found (find_identity s workspace_id chat_user_id))"

definition chat_identities_list_by_user :: "string \<Rightarrow> chat_identity list store_op" where
  "chat_identities_list_by_user user_id = m_gets (\<lambda>s. Inr (sort_key ci_linked_at
     (filter (\<lambda>c. ci_console_user_id c = user_id) (st_chat_identities s))))"

definition chat_identities_unlink :: "string \<Rightarrow> unit store_op" where
  "chat_identities_unlink i = (\<lambda>s.
     (case List.find (\<lambda>c. ci_id c = i) (st_chat_identities s) of
        None \<Rightarrow> (Inl ErrNotFound, s)
      | Some _ \<Rightarrow> (Inr (), s\<lparr>st_chat_identities :=
          delete_first (\<lambda>c. ci_id c = i) (st_chat_identities s)\<rparr>)))"

subsection \<open>Link tokens\<close>

definition link_tokens_create :: "link_token \<Rightarrow> unit store_op" where
  "link_tokens_create token = (\<lambda>s.
     if st_link_tokens s (lt_id token) \<noteq> None then (Inl ErrAlreadyExists, s)
     else (Inr (), s\<lparr>st_link_tokens := (st_link_tokens s)(lt_id token \<mapsto> token)\<rparr>))"

definition link_tokens_get :: "string \<Rightarrow> link_token store_op" where
  "link_tokens_get i = m_gets (\<lambda>s. found (st_link_tokens s i))"

definition link_tokens_consume :: "string \<Rightarrow> time \<Rightarrow> link_token store_op" where
  "link_tokens_consume i now = (\<lambda>s.
     (case st_link_tokens s i of
        None \<Rightarrow> (Inl ErrNotFound, s)
      | Some token \<Rightarrow>
          (case token_usable token now of
             Some e \<Rightarrow> (Inl e, s)
           | None \<Rightarrow>
               let used = token\<lparr>lt_consumed_at := Some now\<rparr>
               in (Inr used, s\<lparr>st_link_tokens := (st_link_tokens s)(i \<mapsto> used)\<rparr>))))"

subsection \<open>Sessions\<close>

definition sessions_create :: "session \<Rightarrow> unit store_op" where
  "sessions_create session = (\<lambda>s.
     if st_sessions s (se_id session) \<noteq> None then (Inl ErrAlreadyExists, s)
     else (Inr (), s\<lparr>st_sessions := (st_sessions s)(se_id session \<mapsto> session)\<rparr>))"

definition sessions_get :: "string \<Rightarrow> session store_op" where
  "sessions_get i = m_gets (\<lambda>s. found (st_sessions s i))"

definition sessions_touch :: "string \<Rightarrow> time \<Rightarrow> unit store_op" where
  "sessions_touch i now = (\<lambda>s.
     (case st_sessions s i of
        None \<Rightarrow> (Inl ErrNotFound, s)
      | Some session \<Rightarrow> (Inr (), s\<lparr>st_sessions :=
          (st_sessions s)(i \<mapsto> session\<lparr>se_last_seen_at := now\<rparr>)\<rparr>)))"

definition sessions_delete :: "string \<Rightarrow> unit store_op" where
  "sessions_delete i = m_modify (\<lambda>s. s\<lparr>st_sessions := (st_sessions s)(i := None)\<rparr>)"

definition sessions_delete_by_user :: "string \<Rightarrow> unit store_op" where
  "sessions_delete_by_user user_id = m_modify (\<lambda>s. s\<lparr>st_sessions := (\<lambda>i.
     case st_sessions s i of
       None \<Rightarrow> None
     | Some session \<Rightarrow> if se_user_id session = user_id then None else Some session)\<rparr>)"

subsection \<open>Login states\<close>

definition oauth_states_create :: "oauth_state \<Rightarrow> unit store_op" where
  "oauth_states_create state = (\<lambda>s.
     if st_oauth_states s (oa_state state) \<noteq> None then (Inl ErrAlreadyExists, s)
     else (Inr (), s\<lparr>st_oauth_states := (st_oauth_states s)(oa_state state \<mapsto> state)\<rparr>))"

definition oauth_states_consume :: "string \<Rightarrow> time \<Rightarrow> oauth_state store_op" where
  "oauth_states_consume state now = (\<lambda>s.
     (case st_oauth_states s state of
        None \<Rightarrow> (Inl ErrNotFound, s)
      | Some stored \<Rightarrow>
          if \<not> now < oa_expires_at stored then (Inl ErrNotFound, s)
          else (Inr stored, s\<lparr>st_oauth_states := (st_oauth_states s)(state := None)\<rparr>)))"

subsection \<open>Invariant\<close>

definition accounts_ok :: "store \<Rightarrow> bool" where
  "accounts_ok s \<longleftrightarrow>
     ids_ok (st_seq s) (map rl_id (st_reminder_logs s)) \<and>
     ids_ok (st_seq s) (map us_id (st_console_users s)) \<and>
     ids_ok (st_seq s) (map ci_id (st_chat_identities s)) \<and>
     unique_on us_google_sub (st_console_users s) \<and>
     unique_on identity_key (st_chat_identities s)"

lemma reminder_logs_append_ok: "accounts_ok s \<Longrightarrow> accounts_ok (snd (reminder_logs_append l s))"
  by (simp add: reminder_logs_append_def accounts_ok_def next_id_def Let_def)

lemma console_users_create_ok: "accounts_ok s \<Longrightarrow> accounts_ok (snd (console_users_create u s))"
  by (auto simp: console_users_create_def accounts_ok_def next_id_def Let_def
      intro!: unique_on_append)

lemma console_users_touch_login_ok:
  "accounts_ok s \<Longrightarrow> accounts_ok (snd (console_users_touch_login i now s))"
  by (simp add: console_users_touch_login_def accounts_ok_def map_update_first split: option.split)

lemma chat_identities_link_ok: "accounts_ok s \<Longrightarrow> accounts_ok (snd (chat_identities_link c s))"
  by (auto simp: chat_identities_link_def accounts_ok_def next_id_def Let_def find_identity_def
      identity_key_def intro!: unique_on_append)

lemma chat_identities_unlink_ok: "accounts_ok s \<Longrightarrow> accounts_ok (snd (chat_identities_unlink i s))"
  by (simp add: chat_identities_unlink_def accounts_ok_def ids_ok_delete unique_on_delete
      split: option.split)

subsection \<open>One-shot records\<close>

locale one_shot =
  fixes inv :: "'s \<Rightarrow> bool"
    and usable :: "'s \<Rightarrow> string \<Rightarrow> time \<Rightarrow> bool"
    and consume :: "string \<Rightarrow> time \<Rightarrow> ('s, err, 't) prog"
  assumes consume_inv: "inv s \<Longrightarrow> inv (snd (consume i now s))"
    and consume_usable: "inv s \<Longrightarrow> usable s i now \<Longrightarrow> \<exists>t s'. consume i now s = (Inr t, s')"
    and consume_unusable: "inv s \<Longrightarrow> \<not> usable s i now \<Longrightarrow> \<exists>e. consume i now s = (Inl e, s)"
    and consume_spends: "inv s \<Longrightarrow> consume i now s = (Inr t, s') \<Longrightarrow> \<not> usable s' i later"
    and consume_other: "inv s \<Longrightarrow> consume i now s = (Inr t, s') \<Longrightarrow> k \<noteq> i \<Longrightarrow> usable s' k = usable s k"
begin

lemma none_from_spent:
  "inv s \<Longrightarrow> \<forall>later. \<not> usable s i later \<Longrightarrow> run_all (consume i) ns s = (rs, s') \<Longrightarrow> successes rs = [] \<and> s' = s"
proof (induction ns arbitrary: rs)
  case Nil
  then show ?case by simp
next
  case (Cons n ns)
  obtain e where "consume i n s = (Inl e, s)" using consume_unusable Cons.prems(1,2) by blast
  with Cons show ?case by (auto split: prod.splits)
qed

text \<open>Of all the requests that present the same secret, one at most gets it.\<close>

lemma consumed_once:
  assumes "inv s" and "run_all (consume i) ns s = (rs, s')"
  shows "length (successes rs) = (if \<exists>n \<in> set ns. usable s i n then 1 else 0)"
  using assms
proof (induction ns arbitrary: s rs)
  case Nil
  then show ?case by simp
next
  case (Cons n ns)
  obtain r t where r: "consume i n s = (r, t)" by fastforce
  obtain rs' where rs: "run_all (consume i) ns t = (rs', s')" "rs = r # rs'"
    using Cons.prems(2) r by (auto split: prod.splits)
  have inv: "inv t" using consume_inv [OF Cons.prems(1), of i n] r by simp
  show ?case
  proof (cases "usable s i n")
    case True
    then obtain x where x: "r = Inr x" using consume_usable [OF Cons.prems(1), of i n] r by auto
    have "\<forall>later. \<not> usable t i later" using consume_spends [OF Cons.prems(1)] r x by blast
    with none_from_spent [OF inv _ rs(1)] have "successes rs' = []" by blast
    with True rs(2) x show ?thesis by simp
  next
    case False
    then obtain e where "r = Inl e" "t = s" using consume_unusable [OF Cons.prems(1), of i n] r by auto
    with Cons.IH [OF inv rs(1)] rs(2) False show ?thesis by simp
  qed
qed

end

definition link_token_usable :: "store \<Rightarrow> string \<Rightarrow> time \<Rightarrow> bool" where
  "link_token_usable s i now =
     (case st_link_tokens s i of None \<Rightarrow> False | Some t \<Rightarrow> token_usable t now = None)"

definition oauth_state_usable :: "store \<Rightarrow> string \<Rightarrow> time \<Rightarrow> bool" where
  "oauth_state_usable s i now =
     (case st_oauth_states s i of None \<Rightarrow> False | Some t \<Rightarrow> now < oa_expires_at t)"

interpretation link: one_shot "\<lambda>_. True" link_token_usable link_tokens_consume
  by unfold_locales
    (auto simp: link_token_usable_def link_tokens_consume_def token_usable_def Let_def fun_eq_iff
      split: option.splits if_splits)

interpretation oauth: one_shot "\<lambda>_. True" oauth_state_usable oauth_states_consume
  by unfold_locales
    (auto simp: oauth_state_usable_def oauth_states_consume_def fun_eq_iff
      split: option.splits if_splits)

end
