(* ===== verification/Mongo_Secrets.thy ===== *)
theory Mongo_Secrets
  imports Mongo_Queue Mongo_People Store_Accounts
begin

section \<open>Link tokens and login states in MongoDB are used once\<close>

text \<open>
  The contract \<open>one_shot\<close> of the in-memory repository, met by \<open>linkTokenRepo\<close> and
  \<open>oauthStateRepo\<close> over a driver as documented. Expiry is decided on whole milliseconds.
\<close>

definition token_document :: "document \<Rightarrow> bool" where
  "token_document d \<longleftrightarrow>
     (\<exists>t. map_of d ''expiresAt'' = Some (BDate t)) \<and> (\<exists>c. map_of d ''consumedAt'' = Some (opt_date c))"

definition secrets_ready :: "'s mongo_driver \<Rightarrow> 's view \<Rightarrow> 's \<Rightarrow> bool" where
  "secrets_ready D V s \<longleftrightarrow> mongo_documented D V \<and>
     (\<forall>i d. V s ''link_tokens'' i = Some d \<longrightarrow> token_document d) \<and>
     (\<forall>i d. V s ''oauth_states'' i = Some d \<longrightarrow> (\<exists>t. map_of d ''expiresAt'' = Some (BDate t)))"

definition mongo_token_usable :: "'s view \<Rightarrow> 's \<Rightarrow> string \<Rightarrow> time \<Rightarrow> bool" where
  "mongo_token_usable V s i now =
     (case V s ''link_tokens'' (BStr i) of
        None \<Rightarrow> False
      | Some d \<Rightarrow> token_usable (decode_link_token d) (in_millis now) = None)"

definition mongo_state_usable :: "'s view \<Rightarrow> 's \<Rightarrow> string \<Rightarrow> time \<Rightarrow> bool" where
  "mongo_state_usable V s i now =
     (case V s ''oauth_states'' (BStr i) of
        None \<Rightarrow> False
      | Some d \<Rightarrow> in_millis now < oa_expires_at (decode_oauth_state d))"

lemma secrets_readyD:
  assumes "secrets_ready D V s"
  shows "mongo_documented D V" "V s ''link_tokens'' i = Some d \<Longrightarrow> token_document d"
    "V s ''oauth_states'' i = Some d \<Longrightarrow> \<exists>t. map_of d ''expiresAt'' = Some (BDate t)"
  using assms unfolding secrets_ready_def by blast+

lemma view_id:
  assumes "mongo_documented D V" and "V s c i = Some d"
  shows "map_of d ''_id'' = Some i"
  by (rule stored_id [where D = D and V = V, OF documentedD(1) [OF assms(1)] assms(2)])

lemma find_one_none:
  assumes "mongo_documented D V" and "found_in (V s c) f = {}"
  shows "md_find_one D c f s = (Inl (md_no_documents D), s)"
proof -
  have "find_one_law D V" using assms(1) by (rule documentedD)
  then show ?thesis using assms(2) unfolding find_one_law_def by presburger
qed

lemma find_one_some:
  assumes "mongo_documented D V" and "found_in (V s c) f \<noteq> {}"
  shows "\<exists>i d. picks (V s c) f [] i d \<and> md_find_one D c f s = (Inr d, s)"
proof -
  have "find_one_law D V" using assms(1) by (rule documentedD)
  then show ?thesis using assms(2) unfolding find_one_law_def by presburger
qed

lemma picks_found: "picks M f order i d \<Longrightarrow> M i = Some d \<and> i \<in> found_in M f"
  by (simp add: picks_def)

text \<open>A filter on the identifier.\<close>

lemma found_id:
  assumes "mongo_documented D V"
  shows "found_in (V s c) ((''_id'', BStr i) # f) =
    (case V s c (BStr i) of None \<Rightarrow> {} | Some d \<Rightarrow> if matches (stored f) d then {BStr i} else {})"
proof -
  have "matches (stored ((''_id'', BStr i) # f)) d \<longleftrightarrow> map_of d ''_id'' = Some (BStr i) \<and> matches (stored f) d"
    for d
    by (auto simp: match_simps)
  moreover have "map_of d ''_id'' = Some k" if "V s c k = Some d" for k d
    by (rule view_id [where V = V, OF assms that])
  ultimately show ?thesis by (auto simp: found_in_def split: option.split)
qed

subsection \<open>Link tokens\<close>

lemma token_filter_exact:
  assumes "token_document d"
  shows "matches (stored [(''consumedAt'', BNull), (''expiresAt'', BDoc [(''$gt'', BDate now)])]) d \<longleftrightarrow>
    token_usable (decode_link_token d) (in_millis now) = None"
proof -
  obtain t c where d: "map_of d ''expiresAt'' = Some (BDate t)" "map_of d ''consumedAt'' = Some (opt_date c)"
    using assms by (auto simp: token_document_def)
  then have "lt_expires_at (decode_link_token d) = t" "lt_consumed_at (decode_link_token d) = c"
    by (simp_all add: decode_link_token_def job_simps)
  moreover have "matches (stored [(''consumedAt'', BNull), (''expiresAt'', BDoc [(''$gt'', BDate now)])]) d \<longleftrightarrow>
      c = None \<and> in_millis now < t"
    using d by (cases c) (simp_all add: match_simps opt_date_def)
  ultimately show ?thesis by (auto simp: token_usable_def)
qed

lemma token_found:
  assumes "secrets_ready D V s"
  shows "found_in (V s ''link_tokens'') (token_filter i now) = (if mongo_token_usable V s i now then {BStr i} else {})"
  using secrets_readyD(2) [OF assms] token_filter_exact
  unfolding token_filter_def found_id [where V = V, OF secrets_readyD(1) [OF assms]]
  by (auto simp: mongo_token_usable_def split: option.split)

lemma token_unusable:
  assumes "secrets_ready D V s" and "\<not> mongo_token_usable V s i now"
  shows "\<exists>e. mongo_link_tokens_consume D i now s = (Inl e, s)"
proof -
  note doc = secrets_readyD(1) [OF assms(1)]
  have none: "found_in (V s ''link_tokens'') (token_filter i now) = {}"
    using token_found [OF assms(1)] assms(2) by simp
  have "\<exists>r. mongo_link_tokens_get D i s = (r, s)"
  proof (cases "found_in (V s ''link_tokens'') [(''_id'', BStr i)] = {}")
    case True
    then show ?thesis
      by (simp add: mongo_link_tokens_get_def run_bind find_one_none [where V = V, OF doc])
  next
    case False
    then obtain d where "md_find_one D ''link_tokens'' [(''_id'', BStr i)] s = (Inr d, s)"
      using find_one_some [where V = V, OF doc False] by blast
    then show ?thesis by (simp add: mongo_link_tokens_get_def run_bind)
  qed
  then show ?thesis
    by (auto simp: mongo_link_tokens_consume_def run_bind find_one_and_update_none [where V = V, OF doc none]
        split: sum.split option.split)
qed

text \<open>Consuming a usable token writes the instant into its document.\<close>

lemma token_consume_run:
  assumes "secrets_ready D V s"
  shows "if mongo_token_usable V s i now
    then \<exists>x s' d. mongo_link_tokens_consume D i now s = (Inr x, s') \<and> V s ''link_tokens'' (BStr i) = Some d \<and>
      V s' = (V s)(''link_tokens'' := (V s ''link_tokens'')(BStr i :=
        Some (set_field ''consumedAt'' (BDate (in_millis now)) d)))
    else \<exists>e. mongo_link_tokens_consume D i now s = (Inl e, s)"
proof (cases "mongo_token_usable V s i now")
  case False
  then show ?thesis using token_unusable [OF assms] by simp
next
  case True
  note doc = secrets_readyD(1) [OF assms]
  let ?u = "BDoc [(''$set'', BDoc [(''consumedAt'', BDate now)])]"
  define v where "v = marshal ?u"
  have found: "found_in (V s ''link_tokens'') (token_filter i now) = {BStr i}"
    using token_found [OF assms] True by simp
  have upd: "apply_update False v d = set_field ''consumedAt'' (BDate (in_millis now)) d" for d
    by (simp add: v_def apply_update_def apply_operators_def set_fields_def field_defs)
  obtain k d where p: "picks (V s ''link_tokens'') (token_filter i now) [] k d"
    and run: "allowed ''link_tokens'' (V s ''link_tokens'') k (apply_update False v d) \<longrightarrow>
      (\<exists>s'. md_find_one_and_update D ''link_tokens'' (token_filter i now) ?u [] False True s =
          (Inr (if True then apply_update False v d else d), s') \<and>
        replaced V s ''link_tokens'' k (Some (apply_update False v d)) s')"
    using find_one_and_update_some [where V = V and u = ?u and upsert = False and after = True and order = "[]",
        OF doc, of s "''link_tokens''" "token_filter i now"] found unfolding v_def update_ok_def by auto
  have k: "k = BStr i" "V s ''link_tokens'' (BStr i) = Some d" using picks_found [OF p] found by auto
  have "allowed ''link_tokens'' (V s ''link_tokens'') k (apply_update False v d)"
    using view_id [where V = V, OF doc k(2)] k(1)
    by (simp add: allowed_def upd same_key_def indexes_def)
  then show ?thesis using True run k
    by (auto simp: upd replaced_def mongo_link_tokens_consume_def run_bind)
qed

interpretation mongo_link: one_shot "secrets_ready D V" "mongo_token_usable V" "mongo_link_tokens_consume D"
  for D V
proof unfold_locales
  fix s :: 'a and i now
  assume ready: "secrets_ready D V s"
  note run = token_consume_run [OF ready, of i now]
  show "\<exists>t s'. mongo_link_tokens_consume D i now s = (Inr t, s')" if "mongo_token_usable V s i now"
    using run that by auto
  show "\<exists>e. mongo_link_tokens_consume D i now s = (Inl e, s)" if "\<not> mongo_token_usable V s i now"
    using run that by auto
  show "\<not> mongo_token_usable V s' i later" if "mongo_link_tokens_consume D i now s = (Inr t, s')" for t s' later
    using run that
    by (auto simp: mongo_token_usable_def token_usable_def decode_link_token_def field_defs split: if_splits)
  show "mongo_token_usable V s' k = mongo_token_usable V s k"
    if "mongo_link_tokens_consume D i now s = (Inr t, s')" "k \<noteq> i" for t s' k
    using run that by (auto simp: mongo_token_usable_def fun_eq_iff split: if_splits)
  show "secrets_ready D V (snd (mongo_link_tokens_consume D i now s))"
  proof (cases "mongo_token_usable V s i now")
    case True
    then obtain x s' d where r: "mongo_link_tokens_consume D i now s = (Inr x, s')"
      and d: "V s ''link_tokens'' (BStr i) = Some d"
      and s': "V s' = (V s)(''link_tokens'' := (V s ''link_tokens'')(BStr i :=
        Some (set_field ''consumedAt'' (BDate (in_millis now)) d)))"
      using run by auto
    have opt: "BDate t = opt_date (Some t)" for t by simp
    have "token_document (set_field ''consumedAt'' (BDate (in_millis now)) d)"
      using secrets_readyD(2) [where D = D and V = V and s = s, OF ready d]
      by (auto simp: token_document_def opt)
    then show ?thesis using ready unfolding secrets_ready_def by (simp add: r s')
  next
    case False
    then show ?thesis using run ready by auto
  qed
qed

subsection \<open>Login states\<close>

lemma state_found:
  assumes "secrets_ready D V s"
  shows "found_in (V s ''oauth_states'') (state_filter i now) = (if mongo_state_usable V s i now then {BStr i} else {})"
proof -
  have "matches (stored [(''expiresAt'', BDoc [(''$gt'', BDate now)])]) d \<longleftrightarrow>
      in_millis now < oa_expires_at (decode_oauth_state d)"
    if d: "V s ''oauth_states'' k = Some d" for k d
  proof -
    obtain t where "map_of d ''expiresAt'' = Some (BDate t)"
      using secrets_readyD(3) [where D = D and V = V and s = s, OF assms d] by blast
    then show ?thesis by (simp add: match_simps decode_oauth_state_def job_simps)
  qed
  then show ?thesis
    unfolding state_filter_def found_id [where V = V, OF secrets_readyD(1) [where D = D and V = V and s = s, OF assms]]
    by (auto simp: mongo_state_usable_def split: option.split)
qed

lemma state_consume_run:
  assumes "secrets_ready D V s"
  shows "if mongo_state_usable V s i now
    then \<exists>x s'. mongo_oauth_states_consume D i now s = (Inr x, s') \<and>
      V s' = (V s)(''oauth_states'' := (V s ''oauth_states'')(BStr i := None))
    else mongo_oauth_states_consume D i now s = (Inl ErrNotFound, s)"
proof -
  have law: "find_one_and_delete_law D V" using secrets_readyD(1) [OF assms] by (rule documentedD)
  show ?thesis
  proof (cases "mongo_state_usable V s i now")
    case True
    then have found: "found_in (V s ''oauth_states'') (state_filter i now) = {BStr i}"
      using state_found [OF assms] by simp
    then have "\<exists>k d s'. picks (V s ''oauth_states'') (state_filter i now) [] k d \<and>
        md_find_one_and_delete D ''oauth_states'' (state_filter i now) s = (Inr d, s') \<and>
        replaced V s ''oauth_states'' k None s'"
      using law unfolding find_one_and_delete_law_def by (metis insert_not_empty)
    then show ?thesis
      using found True picks_found by (fastforce simp: mongo_oauth_states_consume_def run_bind replaced_def)
  next
    case False
    then have "found_in (V s ''oauth_states'') (state_filter i now) = {}"
      using state_found [OF assms] by simp
    then have "md_find_one_and_delete D ''oauth_states'' (state_filter i now) s = (Inl (md_no_documents D), s)"
      using law unfolding find_one_and_delete_law_def by presburger
    then show ?thesis using False by (simp add: mongo_oauth_states_consume_def run_bind)
  qed
qed

interpretation mongo_oauth: one_shot "secrets_ready D V" "mongo_state_usable V" "mongo_oauth_states_consume D"
  for D V
proof unfold_locales
  fix s :: 'a and i now
  assume ready: "secrets_ready D V s"
  note run = state_consume_run [OF ready, of i now]
  show "\<exists>t s'. mongo_oauth_states_consume D i now s = (Inr t, s')" if "mongo_state_usable V s i now"
    using run that by auto
  show "\<exists>e. mongo_oauth_states_consume D i now s = (Inl e, s)" if "\<not> mongo_state_usable V s i now"
    using run that by auto
  show "\<not> mongo_state_usable V s' i later" if "mongo_oauth_states_consume D i now s = (Inr t, s')" for t s' later
    using run that by (auto simp: mongo_state_usable_def split: if_splits)
  show "mongo_state_usable V s' k = mongo_state_usable V s k"
    if "mongo_oauth_states_consume D i now s = (Inr t, s')" "k \<noteq> i" for t s' k
    using run that by (auto simp: mongo_state_usable_def fun_eq_iff split: if_splits)
  show "secrets_ready D V (snd (mongo_oauth_states_consume D i now s))"
    using run ready by (auto simp: secrets_ready_def split: if_splits)
qed

end
