(* ===== verification/Mongo_Members.thy ===== *)
theory Mongo_Members
  imports Mongo_Secrets
begin

section \<open>Participations in MongoDB keep the contract of participations\<close>

text \<open>
  The update in the aggregation language that writes a participation computes the record the
  in-memory repository does, for a user whose identifier and name do not begin with a dollar
  sign; with the unique index the methods meet the contract \<open>participation_repo\<close>.
\<close>

subsection \<open>Documents\<close>

definition participation_document :: "'s mongo_driver \<Rightarrow> document \<Rightarrow> bool" where
  "participation_document D d \<longleftrightarrow>
     (\<exists>i. map_of d ''_id'' = Some (BOid i)) \<and>
     (\<exists>e. map_of d ''eventId'' = Some (BOid e) \<and> md_from_hex D e = Some e) \<and>
     (\<exists>v. map_of d ''chatUserId'' = Some (BStr v)) \<and>
     (\<exists>r. map_of d ''role'' = Some (BStr (role_text r)) \<and> r \<in> {RoleParticipant, RolePeeker}) \<and>
     (\<exists>st. map_of d ''status'' = Some (BStr (participation_status_text st))) \<and>
     (\<exists>t. map_of d ''joinedAt'' = Some (BDate t)) \<and>
     (\<exists>x. map_of d ''expiresAt'' = Some (opt_date x)) \<and>
     (\<exists>n. map_of d ''peekCount'' = Some (BInt n))"

lemma participation_documentE:
  assumes "participation_document D d"
  obtains i e v r st t x n where "map_of d ''_id'' = Some (BOid i)"
    "map_of d ''eventId'' = Some (BOid e)" "md_from_hex D e = Some e"
    "map_of d ''chatUserId'' = Some (BStr v)"
    "map_of d ''role'' = Some (BStr (role_text r))" "r \<in> {RoleParticipant, RolePeeker}"
    "map_of d ''status'' = Some (BStr (participation_status_text st))"
    "map_of d ''joinedAt'' = Some (BDate t)" "map_of d ''expiresAt'' = Some (opt_date x)"
    "map_of d ''peekCount'' = Some (BInt n)"
  using assms unfolding participation_document_def by blast

text \<open>
  What an upsert is given: canonical identifiers, one of the two roles, a plain user identifier
  and a display name that is a well-formed expression.
\<close>

definition plain :: "string \<Rightarrow> bool" where
  "plain s \<longleftrightarrow> \<not> prefix ''$'' s"

definition storable_upsert :: "'s mongo_driver \<Rightarrow> participation_upsert \<Rightarrow> bool" where
  "storable_upsert D u \<longleftrightarrow>
     md_from_hex D (pu_event_id u) = Some (pu_event_id u) \<and>
     md_from_hex D (pu_workspace_id u) = Some (pu_workspace_id u) \<and>
     pu_role u \<in> {RoleParticipant, RolePeeker} \<and> plain (pu_chat_user_id u) \<and>
     expr_ok (BStr (pu_display_name u))"

definition in_millis_upsert :: "participation_upsert \<Rightarrow> participation_upsert" where
  "in_millis_upsert u =
     u\<lparr>pu_expires_at := map_option in_millis (pu_expires_at u), pu_now := in_millis (pu_now u)\<rparr>"

subsection \<open>The pipeline\<close>

lemma status_text_active [simp]:
  "participation_status_text st = ''active'' \<longleftrightarrow> st = ParticipationActive"
  "''active'' = participation_status_text st \<longleftrightarrow> st = ParticipationActive"
  by (cases st; simp)+

lemma role_literal:
  "r \<in> {RoleParticipant, RolePeeker} \<Longrightarrow> role_text r = ''participant'' \<longleftrightarrow> r = RoleParticipant"
  by auto

lemma eval_opt_date [simp]: "eval_expr d (opt_date t) = Some (opt_date t)"
  by (cases t) (simp_all add: opt_date_def)

lemma map_of_put_field [simp]: "map_of (put_field k v d) = (map_of d)(k := v)"
  by (cases v) (simp_all add: put_field_def AList.delete_conv')

definition keeps :: "document \<Rightarrow> bool" where
  "keeps d \<longleftrightarrow> map_of d ''role'' = Some (BStr ''participant'') \<and> map_of d ''status'' = Some (BStr ''active'')"

lemma eval_keeps [simp]: "eval_expr d (marshal keeps_participant) = Some (BBool (keeps d))"
  by (simp add: keeps_participant_def keeps_def)

lemma eval_joined [simp]:
  "eval_expr d (BDoc [(''$ifNull'', BArr [BStr ''$joinedAt'', BDate t])]) =
     (case map_of d ''joinedAt'' of None \<Rightarrow> Some (BDate t) | Some x \<Rightarrow> if x = BNull then Some (BDate t) else Some x)"
  by (simp add: Let_def split: option.split)

lemma eval_peeks [simp]:
  "eval_expr d (BDoc [(''$add'', BArr
     [BDoc [(''$ifNull'', BArr [BStr ''$peekCount'', BInt 0])],
      BDoc [(''$cond'', BArr [marshal keeps_participant, BInt 0, BInt k])]])]) =
     Some (BInt ((if keeps d then 0 else k) + int_field d ''peekCount''))"
  by (auto simp: Let_def add_value_def int_field_def split: option.split bson.split)

lemma eval_cond [simp]:
  "eval_expr d (BDoc [(''$cond'', BArr [marshal keeps_participant, x, y])]) =
     (if keeps d then eval_expr d x else eval_expr d y)"
  by simp

lemma eval_const [simp]:
  "\<not> prefix ''$'' s \<Longrightarrow> eval_expr d (BStr s) = Some (BStr s)" "eval_expr d (BOid i) = Some (BOid i)"
  "eval_expr d (BDate t) = Some (BDate t)" "eval_expr d (BStr ''$expiresAt'') = map_of d ''expiresAt''"
  by simp_all

declare eval_expr.simps [simp del]

lemma expr_ok_opt_date [simp]: "expr_ok (opt_date t)"
  by (cases t) (simp_all add: opt_date_def)

lemma pipeline_ok: "storable_upsert D u \<Longrightarrow> update_ok (participation_pipeline u e w)"
  by (auto simp: update_ok_def participation_pipeline_def participation_exprs_def keeps_participant_def
      storable_upsert_def plain_def)

text \<open>The fields of a document after the update, from the fields before.\<close>

lemma pipeline_fields:
  assumes "storable_upsert D u"
  shows "map_of (apply_update new (marshal (participation_pipeline u e w)) d) = (map_of d)
    (''eventId'' \<mapsto> BOid e, ''workspaceId'' \<mapsto> BOid w, ''chatUserId'' \<mapsto> BStr (pu_chat_user_id u),
     ''displayName'' := eval_expr d (BStr (pu_display_name u)),
     ''joinedAt'' := (case map_of d ''joinedAt'' of
         None \<Rightarrow> Some (BDate (in_millis (pu_now u)))
       | Some x \<Rightarrow> if x = BNull then Some (BDate (in_millis (pu_now u))) else Some x),
     ''status'' \<mapsto> BStr ''active'',
     ''role'' \<mapsto> BStr (if keeps d then ''participant'' else role_text (pu_role u)),
     ''expiresAt'' := (if keeps d then map_of d ''expiresAt''
         else Some (opt_date (map_option in_millis (pu_expires_at u)))),
     ''peekCount'' \<mapsto> BInt ((if keeps d then 0 else peek_increment (pu_role u)) + int_field d ''peekCount''),
     ''updatedAt'' \<mapsto> BDate (in_millis (pu_now u)))"
proof -
  have plain: "\<not> prefix ''$'' (pu_chat_user_id u)" "\<not> prefix ''$'' (role_text (pu_role u))"
    using assms by (auto simp: storable_upsert_def plain_def)
  show ?thesis
    by (simp add: participation_pipeline_def participation_exprs_def apply_update_def apply_pipeline_def
        plain)
qed

lemma decode_fields:
  assumes "map_of d ''_id'' = Some (BOid i)" "map_of d ''eventId'' = Some (BOid e)"
    "map_of d ''chatUserId'' = Some (BStr v)" "map_of d ''role'' = Some (BStr (role_text r))"
    "map_of d ''status'' = Some (BStr (participation_status_text st))" "map_of d ''joinedAt'' = Some (BDate t)"
    "map_of d ''expiresAt'' = Some (opt_date x)" "map_of d ''peekCount'' = Some (BInt n)"
    and "r \<in> {RoleParticipant, RolePeeker}"
  shows "pt_id (decode_participation d) = i" "pt_event_id (decode_participation d) = e"
    "pt_chat_user_id (decode_participation d) = v" "pt_role (decode_participation d) = r"
    "pt_status (decode_participation d) = st" "pt_joined_at (decode_participation d) = t"
    "pt_expires_at (decode_participation d) = x" "pt_peek_count (decode_participation d) = n"
    "keeps d \<longleftrightarrow> r = RoleParticipant \<and> st = ParticipationActive"
proof -
  have "role_of (role_text r) = r" using assms(9) by (auto simp: role_of_def)
  then show "pt_id (decode_participation d) = i" "pt_event_id (decode_participation d) = e"
    "pt_chat_user_id (decode_participation d) = v" "pt_role (decode_participation d) = r"
    "pt_status (decode_participation d) = st" "pt_joined_at (decode_participation d) = t"
    "pt_expires_at (decode_participation d) = x" "pt_peek_count (decode_participation d) = n"
    using assms by (simp_all add: decode_participation_def field_defs)
  show "keeps d \<longleftrightarrow> r = RoleParticipant \<and> st = ParticipationActive"
    using assms by (auto simp: keeps_def)
qed

text \<open>The name that is written: the name given, unless it is read as a path.\<close>

definition shown_name :: "participation_upsert \<Rightarrow> document \<Rightarrow> string" where
  "shown_name u d = (case eval_expr d (BStr (pu_display_name u)) of Some (BStr s) \<Rightarrow> s | _ \<Rightarrow> [])"

lemma shown_name_plain [simp]: "plain (pu_display_name u) \<Longrightarrow> shown_name u d = pu_display_name u"
  by (simp add: shown_name_def plain_def)

definition written_over :: "participation_upsert \<Rightarrow> document \<Rightarrow> participation" where
  "written_over u d = (upserted (in_millis_upsert u) (decode_participation d))
     \<lparr>pt_workspace_id := pu_workspace_id u, pt_display_name := shown_name u d\<rparr>"

text \<open>The new document before the pipeline is applied.\<close>

definition blank_member :: "participation_upsert \<Rightarrow> string \<Rightarrow> document" where
  "blank_member u i =
     [(''_id'', BOid i), (''eventId'', BOid (pu_event_id u)), (''chatUserId'', BStr (pu_chat_user_id u))]"

definition written_new :: "participation_upsert \<Rightarrow> string \<Rightarrow> participation" where
  "written_new u i = (created_participation i (in_millis_upsert u))
     \<lparr>pt_display_name := shown_name u (blank_member u i)\<rparr>"

lemma upsert_existing:
  assumes "storable_upsert D u" and "participation_document D d"
    and "map_of d ''eventId'' = Some (BOid (pu_event_id u))"
    and "map_of d ''chatUserId'' = Some (BStr (pu_chat_user_id u))"
    and "d' = apply_update False (marshal (participation_pipeline u (pu_event_id u) (pu_workspace_id u))) d"
  shows "participation_document D d'" "map_of d' ''_id'' = map_of d ''_id''"
    "map_of d' ''eventId'' = map_of d ''eventId''" "map_of d' ''chatUserId'' = map_of d ''chatUserId''"
    "decode_participation d' = written_over u d"
proof -
  obtain i r st t x n where d: "map_of d ''_id'' = Some (BOid i)"
    "map_of d ''role'' = Some (BStr (role_text r))" "r \<in> {RoleParticipant, RolePeeker}"
    "map_of d ''status'' = Some (BStr (participation_status_text st))"
    "map_of d ''joinedAt'' = Some (BDate t)" "map_of d ''expiresAt'' = Some (opt_date x)"
    "map_of d ''peekCount'' = Some (BInt n)"
    using assms(2) unfolding participation_document_def by blast
  note m = pipeline_fields [OF assms(1), of False "pu_event_id u" "pu_workspace_id u" d, folded assms(5)]
  note f = decode_fields [OF d(1) assms(3,4) d(2,4-7) d(3)]
  show "map_of d' ''_id'' = map_of d ''_id''" by (simp add: m)
  show ids: "map_of d' ''eventId'' = map_of d ''eventId''" "map_of d' ''chatUserId'' = map_of d ''chatUserId''"
    using assms(3,4) by (simp_all add: m)
  have role: "map_of d' ''role'' = Some (BStr (role_text (if keeps d then RoleParticipant else pu_role u)))"
    and expires: "map_of d' ''expiresAt'' =
        Some (opt_date (if keeps d then x else map_option in_millis (pu_expires_at u)))"
    and status: "map_of d' ''status'' = Some (BStr (participation_status_text ParticipationActive))"
    and joined: "map_of d' ''joinedAt'' = Some (BDate t)"
    and count: "map_of d' ''peekCount'' = Some (BInt ((if keeps d then 0 else peek_increment (pu_role u)) + n))"
    and i: "map_of d' ''_id'' = Some (BOid i)"
    using d by (simp_all add: m field_defs)
  have ok: "(if keeps d then RoleParticipant else pu_role u) \<in> {RoleParticipant, RolePeeker}"
    "md_from_hex D (pu_event_id u) = Some (pu_event_id u)"
    using assms(1) by (auto simp: storable_upsert_def)
  show "participation_document D d'"
    unfolding participation_document_def
    using role expires status joined count i ids assms(3,4) ok by (intro conjI) (auto simp del: role_text.simps)
  note f' = decode_fields [OF i ids(1) [unfolded assms(3)] ids(2) [unfolded assms(4)] role status joined expires count ok(1)]
  have "pt_workspace_id (decode_participation d') = pu_workspace_id u"
    "pt_display_name (decode_participation d') = shown_name u d"
    "pt_updated_at (decode_participation d') = in_millis (pu_now u)"
    by (simp_all add: decode_participation_def field_defs m shown_name_def)
  then show "decode_participation d' = written_over u d"
    using f f' by (simp add: written_over_def upserted_def in_millis_upsert_def Let_def)
qed

definition user_filter :: "string \<Rightarrow> string \<Rightarrow> document" where
  "user_filter e v = [(''eventId'', BOid e), (''chatUserId'', BStr v)]"

lemma upsert_new:
  assumes "storable_upsert D u"
    and "d' = upsert_document (user_filter (pu_event_id u) (pu_chat_user_id u))
      (participation_pipeline u (pu_event_id u) (pu_workspace_id u)) (BOid i)"
  shows "participation_document D d'" "map_of d' ''_id'' = Some (BOid i)"
    "map_of d' ''eventId'' = Some (BOid (pu_event_id u))"
    "map_of d' ''chatUserId'' = Some (BStr (pu_chat_user_id u))"
    "decode_participation d' = written_new u i"
proof -
  let ?d = "blank_member u i"
  have "given_fields (user_filter (pu_event_id u) (pu_chat_user_id u)) =
      user_filter (pu_event_id u) (pu_chat_user_id u)"
    by (simp add: given_fields_def user_filter_def)
  then have "d' = apply_update True (marshal (participation_pipeline u (pu_event_id u) (pu_workspace_id u))) ?d"
    by (simp add: assms(2) upsert_document_def user_filter_def blank_member_def)
  note m = pipeline_fields [OF assms(1), of True "pu_event_id u" "pu_workspace_id u" ?d, folded this]
  have new: "\<not> keeps ?d" by (simp add: keeps_def blank_member_def)
  show i: "map_of d' ''_id'' = Some (BOid i)" and e: "map_of d' ''eventId'' = Some (BOid (pu_event_id u))"
    and v: "map_of d' ''chatUserId'' = Some (BStr (pu_chat_user_id u))"
    by (simp_all add: m blank_member_def)
  have role: "map_of d' ''role'' = Some (BStr (role_text (pu_role u)))"
    and expires: "map_of d' ''expiresAt'' = Some (opt_date (map_option in_millis (pu_expires_at u)))"
    and status: "map_of d' ''status'' = Some (BStr (participation_status_text ParticipationActive))"
    and joined: "map_of d' ''joinedAt'' = Some (BDate (in_millis (pu_now u)))"
    and count: "map_of d' ''peekCount'' = Some (BInt (peek_increment (pu_role u)))"
    by (simp_all add: m new [unfolded blank_member_def] field_defs blank_member_def)
  have ok: "pu_role u \<in> {RoleParticipant, RolePeeker}" "md_from_hex D (pu_event_id u) = Some (pu_event_id u)"
    using assms(1) by (auto simp: storable_upsert_def)
  show "participation_document D d'"
    unfolding participation_document_def
    using role expires status joined count i e v ok by (intro conjI) (auto simp del: role_text.simps)
  note f = decode_fields [OF i e v role status joined expires count ok(1)]
  have "pt_workspace_id (decode_participation d') = pu_workspace_id u"
    "pt_display_name (decode_participation d') = shown_name u ?d"
    "pt_updated_at (decode_participation d') = in_millis (pu_now u)"
    by (simp_all add: decode_participation_def field_defs m shown_name_def)
  then show "decode_participation d' = written_new u i"
    using f by (simp add: written_new_def created_participation_def in_millis_upsert_def)
qed

subsection \<open>What the methods find\<close>

definition members_ready :: "'s mongo_driver \<Rightarrow> 's view \<Rightarrow> 's \<Rightarrow> bool" where
  "members_ready D V s \<longleftrightarrow> mongo_documented D V \<and>
     (\<forall>i d. V s ''participations'' i = Some d \<longrightarrow> participation_document D d) \<and>
     (\<forall>i d j e. V s ''participations'' i = Some d \<longrightarrow> V s ''participations'' j = Some e \<longrightarrow> i \<noteq> j \<longrightarrow>
        \<not> same_key ''participations'' d e)"

lemma members_readyD:
  assumes "members_ready D V s"
  shows "mongo_documented D V" "V s ''participations'' i = Some d \<Longrightarrow> participation_document D d"
    "V s ''participations'' i = Some d \<Longrightarrow> V s ''participations'' j = Some e \<Longrightarrow> i \<noteq> j \<Longrightarrow>
      \<not> same_key ''participations'' d e"
  using assms unfolding members_ready_def by blast+

lemma same_member_key:
  "same_key ''participations'' d e \<longleftrightarrow>
     (case map_of d ''eventId'' of None \<Rightarrow> BNull | Some v \<Rightarrow> v) = (case map_of e ''eventId'' of None \<Rightarrow> BNull | Some v \<Rightarrow> v) \<and>
     (case map_of d ''chatUserId'' of None \<Rightarrow> BNull | Some v \<Rightarrow> v) =
       (case map_of e ''chatUserId'' of None \<Rightarrow> BNull | Some v \<Rightarrow> v)"
  by (simp add: same_key_def indexes_def index_key_def)

lemma user_filter_matches:
  "matches (stored (user_filter e v)) d \<longleftrightarrow>
     map_of d ''eventId'' = Some (BOid e) \<and> map_of d ''chatUserId'' = Some (BStr v)"
  by (auto simp: user_filter_def match_simps)

text \<open>The record of a user: the unique index leaves at most one.\<close>

definition member_at :: "'s view \<Rightarrow> 's \<Rightarrow> string \<Rightarrow> string \<Rightarrow> bson \<Rightarrow> document \<Rightarrow> bool" where
  "member_at V s e v i d \<longleftrightarrow> V s ''participations'' i = Some d \<and>
     map_of d ''eventId'' = Some (BOid e) \<and> map_of d ''chatUserId'' = Some (BStr v)"

lemma member_unique:
  assumes "members_ready D V s" and "member_at V s e v i d" "member_at V s e v j d'"
  shows "i = j \<and> d = d'"
proof -
  have "same_key ''participations'' d d'" using assms(2,3) by (simp add: member_at_def same_member_key)
  then have "i = j"
    using members_readyD(3) [where D = D and V = V and s = s, OF assms(1)] assms(2,3)
    unfolding member_at_def by blast
  then show ?thesis using assms(2,3) by (simp add: member_at_def)
qed

lemma members_found:
  "found_in (V s ''participations'') (user_filter e v) = {i. \<exists>d. member_at V s e v i d}"
  by (auto simp: found_in_def member_at_def user_filter_matches)

definition mongo_member :: "'s mongo_driver \<Rightarrow> 's \<Rightarrow> string \<Rightarrow> string \<Rightarrow> participation option" where
  "mongo_member D s e v =
     (if md_from_hex D e \<noteq> Some e then None
      else case fst (mongo_participations_get_by_user D e v s) of Inl _ \<Rightarrow> None | Inr p \<Rightarrow> Some p)"

lemma get_by_user_run:
  assumes "members_ready D V s" and "md_from_hex D e = Some e"
  shows "member_at V s e v i d \<Longrightarrow> mongo_participations_get_by_user D e v s = (Inr (decode_participation d), s)"
    and "\<nexists>i d. member_at V s e v i d \<Longrightarrow> mongo_participations_get_by_user D e v s = (Inl ErrNotFound, s)"
proof -
  note doc = members_readyD(1) [OF assms(1)]
  have oid: "oid_of D e t = (Inr e, t)" for t by (simp add: oid_of_def object_id_def assms(2))
  show "mongo_participations_get_by_user D e v s = (Inr (decode_participation d), s)" if m: "member_at V s e v i d"
  proof -
    have "found_in (V s ''participations'') (user_filter e v) \<noteq> {}" using m by (auto simp: members_found)
    then obtain j d' where p: "picks (V s ''participations'') (user_filter e v) [] j d'"
      and run: "md_find_one D ''participations'' (user_filter e v) s = (Inr d', s)"
      using find_one_some [where V = V and D = D, OF doc] by blast
    have "member_at V s e v j d'"
      using picks_found [OF p] by (auto simp: members_found member_at_def)
    then have "d' = d" using member_unique [OF assms(1) m] by blast
    then show ?thesis using run
      by (simp add: mongo_participations_get_by_user_def run_bind oid flip: user_filter_def)
  qed
  show "mongo_participations_get_by_user D e v s = (Inl ErrNotFound, s)" if m: "\<nexists>i d. member_at V s e v i d"
  proof -
    have "found_in (V s ''participations'') (user_filter e v) = {}" using m by (auto simp: members_found)
    then show ?thesis using find_one_none [where V = V and D = D, OF doc]
      by (simp add: mongo_participations_get_by_user_def run_bind oid flip: user_filter_def)
  qed
qed

lemma mongo_member_eq:
  assumes "members_ready D V s"
  shows "mongo_member D s e v = Some p \<longleftrightarrow>
    md_from_hex D e = Some e \<and> (\<exists>i d. member_at V s e v i d \<and> p = decode_participation d)"
proof (cases "md_from_hex D e = Some e")
  case True
  show ?thesis
  proof (cases "\<exists>i d. member_at V s e v i d")
    case m: True
    then obtain i d where d: "member_at V s e v i d" by blast
    have "(\<exists>i d. member_at V s e v i d \<and> p = decode_participation d) \<longleftrightarrow> p = decode_participation d"
      using d member_unique [OF assms] by blast
    then show ?thesis using get_by_user_run(1) [OF assms True d] by (auto simp: mongo_member_def True)
  next
    case False
    then show ?thesis using get_by_user_run(2) [OF assms True] by (auto simp: mongo_member_def)
  qed
qed (simp add: mongo_member_def)

subsection \<open>The upsert\<close>

lemma members_ready_put:
  assumes "members_ready D V s" and "V s' = (V s)(''participations'' := (V s ''participations'')(i := Some d'))"
    and "participation_document D d'"
    and "\<And>j e. V s ''participations'' j = Some e \<Longrightarrow> j \<noteq> i \<Longrightarrow> \<not> same_key ''participations'' d' e"
  shows "members_ready D V s'"
proof -
  have docs: "participation_document D x" if "V s' ''participations'' k = Some x" for k x
    using that assms(3) members_readyD(2) [OF assms(1), of k x] unfolding assms(2) by (auto split: if_splits)
  have sym: "same_key ''participations'' x y = same_key ''participations'' y x" for x y
    by (auto simp: same_member_key)
  have keys: "\<not> same_key ''participations'' x y"
    if "V s' ''participations'' k = Some x" "V s' ''participations'' l = Some y" "k \<noteq> l" for k l x y
    using that assms(4) [of l y] assms(4) [of k x] members_readyD(3) [OF assms(1), of k x l y] sym [of x y]
    unfolding assms(2) by (auto split: if_splits)
  show ?thesis unfolding members_ready_def using members_readyD(1) [OF assms(1)] docs keys by blast
qed

text \<open>A document the unique index allows at an identifier.\<close>

lemma member_allowed:
  assumes "map_of d' ''_id'' = Some i"
    and "map_of d' ''eventId'' = Some (BOid e)" "map_of d' ''chatUserId'' = Some (BStr v)"
    and "\<And>j d. V s ''participations'' j = Some d \<Longrightarrow> participation_document D d"
    and "\<And>j d. member_at V s e v j d \<Longrightarrow> j = i"
  shows "allowed ''participations'' (V s ''participations'') i d'"
    and "V s ''participations'' j = Some d \<Longrightarrow> j \<noteq> i \<Longrightarrow> \<not> same_key ''participations'' d' d"
proof -
  show key: "\<not> same_key ''participations'' d' d" if "V s ''participations'' j = Some d" "j \<noteq> i" for j d
  proof
    assume "same_key ''participations'' d' d"
    then have "member_at V s e v j d"
      using that(1) assms(2,3) participation_documentE [OF assms(4) [OF that(1)]]
      by (fastforce simp: member_at_def same_member_key)
    with assms(5) that(2) show False by blast
  qed
  show "allowed ''participations'' (V s ''participations'') i d'"
    using assms(1) key by (auto simp: allowed_def)
qed

lemma find_one_and_update_new:
  assumes "mongo_documented D V" and "found_in (V s c) f = {}" and "upsert_id (V s c) f j"
  shows "\<exists>i. upsert_id (V s c) f i \<and>
    (update_ok u \<and> allowed c (V s c) i (upsert_document f u i) \<longrightarrow>
      (\<exists>s'. md_find_one_and_update D c f u order True after s =
          (if after then Inr (upsert_document f u i) else Inl (md_no_documents D), s') \<and>
        replaced V s c i (Some (upsert_document f u i)) s'))"
proof -
  have "find_one_and_update_law D V" using assms(1) by (rule documentedD)
  moreover have "\<exists>i. upsert_id (V s c) f i" using assms(3) by blast
  ultimately show ?thesis
    using assms(2) unfolding find_one_and_update_law_def Let_def by presburger
qed

lemma fresh_upsert_id:
  assumes "mongo_documented D V"
  shows "\<exists>i. upsert_id (V s c) (user_filter e v) i"
proof -
  obtain oid t where "md_new_id D s = (oid, t)" by fastforce
  then have "new_oid D s = (Inr oid, t)" by (simp add: new_oid_def)
  then have "V s c (BOid oid) = None"
    by (rule new_oid_fresh(2) [where V = V and D = D, OF documentedD(1) [OF assms]])
  then have "upsert_id (V s c) (user_filter e v) (BOid oid)"
    by (simp add: upsert_id_def given_fields_def user_filter_def)
  then show ?thesis by blast
qed

definition upsert_outcome ::
  "'s mongo_driver \<Rightarrow> 's view \<Rightarrow> 's \<Rightarrow> participation_upsert \<Rightarrow> participation_change \<Rightarrow> 's \<Rightarrow> bson \<Rightarrow> document \<Rightarrow> bool"
where
  "upsert_outcome D V s u c s' i d' \<longleftrightarrow>
     members_ready D V s' \<and> V s' = (V s)(''participations'' := (V s ''participations'')(i := Some d')) \<and>
     member_at V s' (pu_event_id u) (pu_chat_user_id u) i d' \<and> pc_after c = decode_participation d' \<and>
     (\<forall>j d. member_at V s (pu_event_id u) (pu_chat_user_id u) j d \<longrightarrow> j = i) \<and>
     (case V s ''participations'' i of
        None \<Rightarrow> pc_before c = None \<and> (\<exists>oid. decode_participation d' = written_new u oid)
      | Some d \<Rightarrow> member_at V s (pu_event_id u) (pu_chat_user_id u) i d \<and>
          pc_before c = Some (decode_participation d) \<and> decode_participation d' = written_over u d)"

lemma upsert_outcomeD:
  assumes "upsert_outcome D V s u c s' i d'"
  shows "members_ready D V s'" "V s' = (V s)(''participations'' := (V s ''participations'')(i := Some d'))"
    "member_at V s' (pu_event_id u) (pu_chat_user_id u) i d'" "pc_after c = decode_participation d'"
    "member_at V s (pu_event_id u) (pu_chat_user_id u) j d \<Longrightarrow> j = i"
  using assms unfolding upsert_outcome_def by blast+

lemma upsert_ids:
  assumes "storable_upsert D u"
  shows "oid_of D (pu_event_id u) s = (Inr (pu_event_id u), s)"
    "oid_of D (pu_workspace_id u) s = (Inr (pu_workspace_id u), s)"
  using assms by (simp_all add: storable_upsert_def oid_of_def object_id_def)

lemma upsert_run_existing:
  assumes "members_ready D V s" and "storable_upsert D u"
    and "member_at V s (pu_event_id u) (pu_chat_user_id u) k c"
  shows "\<exists>c s' i d'. mongo_participations_upsert D u s = (Inr c, s') \<and> upsert_outcome D V s u c s' i d'"
proof -
  let ?e = "pu_event_id u" and ?v = "pu_chat_user_id u" and ?M = "V s ''participations''"
  let ?u = "participation_pipeline u ?e (pu_workspace_id u)" and ?f = "user_filter ?e ?v"
  note doc = members_readyD(1) [OF assms(1)]
  have "found_in ?M ?f \<noteq> {}" using assms(3) by (auto simp: members_found)
  then obtain i d where p: "picks ?M ?f [] i d"
    and run: "allowed ''participations'' ?M i (apply_update False (marshal ?u) d) \<longrightarrow>
      (\<exists>s'. md_find_one_and_update D ''participations'' ?f ?u [] True False s =
          (Inr (if False then apply_update False (marshal ?u) d else d), s') \<and>
        replaced V s ''participations'' i (Some (apply_update False (marshal ?u) d)) s')"
    using find_one_and_update_some [where V = V and D = D and u = ?u and upsert = True and after = False
        and order = "[]", OF doc] pipeline_ok [OF assms(2)] by blast
  define d' where "d' = apply_update False (marshal ?u) d"
  have m: "member_at V s ?e ?v i d" using picks_found [OF p] by (auto simp: members_found member_at_def)
  then have v: "?M i = Some d" "map_of d ''eventId'' = Some (BOid ?e)" "map_of d ''chatUserId'' = Some (BStr ?v)"
    by (simp_all add: member_at_def)
  note x = upsert_existing [OF assms(2) members_readyD(2) [where V = V and D = D and s = s, OF assms(1) v(1)]
      v(2,3) d'_def]
  have id: "map_of d' ''_id'' = Some i" using view_id [where V = V and D = D, OF doc v(1)] x(2) by simp
  have docs: "\<And>j d. ?M j = Some d \<Longrightarrow> participation_document D d"
    using members_readyD(2) [OF assms(1)] by blast
  have uniq: "\<And>j c. member_at V s ?e ?v j c \<Longrightarrow> j = i" using member_unique [OF assms(1) m] by blast
  note a = member_allowed [where V = V and D = D and s = s, OF id x(3) [unfolded v(2)] x(4) [unfolded v(3)] docs uniq]
  obtain s' where s': "md_find_one_and_update D ''participations'' ?f ?u [] True False s = (Inr d, s')"
    "V s' = (V s)(''participations'' := ?M(i := Some d'))"
    using run a(1) unfolding replaced_def d'_def [symmetric] by auto
  have ready: "members_ready D V s'" by (rule members_ready_put [OF assms(1) s'(2) x(1) a(2)])
  have m': "member_at V s' ?e ?v i d'" using x(3,4) v(2,3) by (simp add: member_at_def s'(2))
  have "md_from_hex D ?e = Some ?e" using assms(2) by (simp add: storable_upsert_def)
  then have get: "mongo_participations_get_by_user D ?e ?v s' = (Inr (decode_participation d'), s')"
    by (rule get_by_user_run(1) [OF ready _ m'])
  have "mongo_participations_upsert D u s =
      (Inr \<lparr>pc_before = Some (decode_participation d), pc_after = decode_participation d'\<rparr>, s')"
    by (simp add: mongo_participations_upsert_def run_bind upsert_ids [OF assms(2)]
        s'(1) [unfolded user_filter_def] get)
  moreover have "upsert_outcome D V s u
      \<lparr>pc_before = Some (decode_participation d), pc_after = decode_participation d'\<rparr> s' i d'"
    unfolding upsert_outcome_def v(1) option.case participation_change.simps
    using ready s'(2) m' uniq m x(5) by blast
  ultimately show ?thesis by blast
qed

lemma upsert_run_new:
  assumes "members_ready D V s" and "storable_upsert D u"
    and "\<nexists>k c. member_at V s (pu_event_id u) (pu_chat_user_id u) k c"
  shows "\<exists>c s' i d'. mongo_participations_upsert D u s = (Inr c, s') \<and> upsert_outcome D V s u c s' i d'"
proof -
  let ?e = "pu_event_id u" and ?v = "pu_chat_user_id u" and ?M = "V s ''participations''"
  let ?u = "participation_pipeline u ?e (pu_workspace_id u)" and ?f = "user_filter ?e ?v"
  note doc = members_readyD(1) [OF assms(1)]
  have "found_in ?M ?f = {}" using assms(3) by (auto simp: members_found)
  moreover obtain j where "upsert_id ?M ?f j" using fresh_upsert_id [OF doc] by blast
  ultimately obtain i where i: "upsert_id ?M ?f i"
    and run: "update_ok ?u \<and> allowed ''participations'' ?M i (upsert_document ?f ?u i) \<longrightarrow>
      (\<exists>s'. md_find_one_and_update D ''participations'' ?f ?u [] True False s =
          (if False then Inr (upsert_document ?f ?u i) else Inl (md_no_documents D), s') \<and>
        replaced V s ''participations'' i (Some (upsert_document ?f ?u i)) s')"
    using find_one_and_update_new [where V = V and D = D and u = ?u and after = False
        and order = "[]" and f = ?f and s = s and c = "''participations''", OF doc] by blast
  obtain oid where oid: "i = BOid oid" and free: "?M i = None"
    using i by (auto simp: upsert_id_def given_fields_def user_filter_def)
  define d' where "d' = upsert_document ?f ?u i"
  note x = upsert_new [OF assms(2) d'_def [unfolded oid]]
  have docs: "\<And>j d. ?M j = Some d \<Longrightarrow> participation_document D d"
    using members_readyD(2) [OF assms(1)] by blast
  have uniq: "\<And>j c. member_at V s ?e ?v j c \<Longrightarrow> j = i" using assms(3) by blast
  note a = member_allowed [where V = V and D = D and s = s, OF x(2) [folded oid] x(3,4) docs uniq]
  obtain s' where s': "md_find_one_and_update D ''participations'' ?f ?u [] True False s =
      (Inl (md_no_documents D), s')"
    "V s' = (V s)(''participations'' := ?M(i := Some d'))"
    using run a(1) pipeline_ok [OF assms(2)] unfolding replaced_def d'_def [symmetric] by auto
  have ready: "members_ready D V s'" by (rule members_ready_put [OF assms(1) s'(2) x(1) a(2)])
  have m': "member_at V s' ?e ?v i d'" using x(3,4) by (simp add: member_at_def s'(2))
  have "md_from_hex D ?e = Some ?e" using assms(2) by (simp add: storable_upsert_def)
  then have get: "mongo_participations_get_by_user D ?e ?v s' = (Inr (decode_participation d'), s')"
    by (rule get_by_user_run(1) [OF ready _ m'])
  have "mongo_participations_upsert D u s =
      (Inr \<lparr>pc_before = None, pc_after = decode_participation d'\<rparr>, s')"
    by (simp add: mongo_participations_upsert_def run_bind upsert_ids [OF assms(2)]
        s'(1) [unfolded user_filter_def] get)
  moreover have "upsert_outcome D V s u \<lparr>pc_before = None, pc_after = decode_participation d'\<rparr> s' i d'"
    unfolding upsert_outcome_def free option.case participation_change.simps
    using ready s'(2) m' uniq x(5) by blast
  ultimately show ?thesis by blast
qed

lemma mongo_upsert_run:
  assumes "members_ready D V s" and "storable_upsert D u"
  shows "\<exists>c s' i d'. mongo_participations_upsert D u s = (Inr c, s') \<and> upsert_outcome D V s u c s' i d'"
  using upsert_run_existing [OF assms] upsert_run_new [OF assms] by blast

text \<open>The change as the callers see it.\<close>

lemma mongo_upsert_before:
  assumes "members_ready D V s" and "storable_upsert D u" and "upsert_outcome D V s u c s' i d'"
  shows "pc_before c = mongo_member D s (pu_event_id u) (pu_chat_user_id u)"
proof (cases "V s ''participations'' i")
  case None
  have "mongo_member D s (pu_event_id u) (pu_chat_user_id u) \<noteq> Some p" for p
    using None assms(3) by (auto simp: mongo_member_eq [OF assms(1)] upsert_outcome_def member_at_def)
  then have "mongo_member D s (pu_event_id u) (pu_chat_user_id u) = None" by blast
  then show ?thesis using None assms(3) by (simp add: upsert_outcome_def)
next
  case (Some d)
  then have m: "member_at V s (pu_event_id u) (pu_chat_user_id u) i d"
    and b: "pc_before c = Some (decode_participation d)"
    using assms(3) by (simp_all add: upsert_outcome_def)
  have "mongo_member D s (pu_event_id u) (pu_chat_user_id u) = Some (decode_participation d)"
    using m assms(2) unfolding mongo_member_eq [OF assms(1)] by (auto simp: storable_upsert_def)
  with b show ?thesis by simp
qed

lemma mongo_upsert_lookup:
  assumes "members_ready D V s" and "storable_upsert D u" and "upsert_outcome D V s u c s' i d'"
  shows "mongo_member D s' e v =
    (if e = pu_event_id u \<and> v = pu_chat_user_id u then Some (pc_after c) else mongo_member D s e v)"
proof -
  note ready = upsert_outcomeD(1) [OF assms(3)] and V' = upsert_outcomeD(2) [OF assms(3)]
    and m' = upsert_outcomeD(3) [OF assms(3)] and after = upsert_outcomeD(4) [OF assms(3)]
  have old: "V s ''participations'' i = Some d \<Longrightarrow> member_at V s (pu_event_id u) (pu_chat_user_id u) i d" for d
    using assms(3) by (simp add: upsert_outcome_def)
  show ?thesis
  proof (cases "e = pu_event_id u \<and> v = pu_chat_user_id u")
    case True
    have "mongo_member D s' (pu_event_id u) (pu_chat_user_id u) = Some (decode_participation d')"
      using m' assms(2) unfolding mongo_member_eq [OF ready] by (auto simp: storable_upsert_def)
    with True show ?thesis by (simp add: after)
  next
    case False
    have "member_at V s' e v k d \<longleftrightarrow> member_at V s e v k d" for k d
      using False m' old by (auto simp: member_at_def V' split: if_splits)
    then have "mongo_member D s' e v = Some p \<longleftrightarrow> mongo_member D s e v = Some p" for p
      by (simp add: mongo_member_eq [OF ready] mongo_member_eq [OF assms(1)])
    then have "mongo_member D s' e v = mongo_member D s e v" by (metis option.exhaust)
    then show ?thesis unfolding if_not_P [OF False] .
  qed
qed

text \<open>The role and the status of a record decide whether it counts.\<close>

lemma counted_keeps:
  assumes "participation_document D d"
  shows "counted (decode_participation d) \<longleftrightarrow> keeps d"
proof -
  obtain i e v r st t x n where d: "map_of d ''_id'' = Some (BOid i)" "map_of d ''eventId'' = Some (BOid e)"
    "map_of d ''chatUserId'' = Some (BStr v)" "map_of d ''role'' = Some (BStr (role_text r))"
    "r \<in> {RoleParticipant, RolePeeker}" "map_of d ''status'' = Some (BStr (participation_status_text st))"
    "map_of d ''joinedAt'' = Some (BDate t)" "map_of d ''expiresAt'' = Some (opt_date x)"
    "map_of d ''peekCount'' = Some (BInt n)"
    by (rule participation_documentE [OF assms])
  show ?thesis
    using decode_fields(4,5,9) [OF d(1-4,6-9,5)] by (auto simp: counted_def pt_is_active_def)
qed

lemma mongo_upsert_counted:
  assumes "members_ready D V s" and "upsert_outcome D V s u c s' i d'"
  shows "counted (pc_after c) \<longleftrightarrow> was_counted (pc_before c) \<or> pu_role u = RoleParticipant"
proof (cases "V s ''participations'' i")
  case None
  then show ?thesis using assms(2)
    by (auto simp: upsert_outcome_def was_counted_def written_new_def created_participation_def
        in_millis_upsert_def counted_def)
next
  case (Some d)
  then have "pc_before c = Some (decode_participation d)"
    "pc_after c = written_over u d"
    using assms(2) by (simp_all add: upsert_outcome_def)
  then show ?thesis
    by (auto simp: was_counted_def written_over_def upserted_def in_millis_upsert_def counted_def Let_def)
qed

subsection \<open>The number of active participants\<close>

definition mongo_active :: "'s mongo_driver \<Rightarrow> 's \<Rightarrow> string \<Rightarrow> int" where
  "mongo_active D s e =
     (if md_from_hex D e \<noteq> Some e then 0
      else case fst (mongo_participations_count_active D e (Some RoleParticipant) s) of Inl _ \<Rightarrow> 0 | Inr n \<Rightarrow> n)"

definition active_ids :: "'s view \<Rightarrow> 's \<Rightarrow> string \<Rightarrow> bson set" where
  "active_ids V s e =
     {i. \<exists>d. V s ''participations'' i = Some d \<and> map_of d ''eventId'' = Some (BOid e) \<and> keeps d}"

lemma finite_active [simp]:
  assumes "members_ready D V s"
  shows "finite (active_ids V s e)"
proof -
  have "ids_law D V" using members_readyD(1) [OF assms] by (rule documentedD)
  then have "finite (dom (V s ''participations''))" unfolding ids_law_def by blast
  moreover have "active_ids V s e \<subseteq> dom (V s ''participations'')" by (auto simp: active_ids_def)
  ultimately show ?thesis by (rule rev_finite_subset)
qed

lemma mongo_active_eq:
  assumes "members_ready D V s" and "md_from_hex D e = Some e"
  shows "mongo_active D s e = int (card (active_ids V s e))"
proof -
  let ?f = "[(''eventId'', BOid e), (''status'', BStr ''active''), (''role'', BStr ''participant'')]"
  have "count_law D V" using members_readyD(1) [OF assms(1)] by (rule documentedD)
  then have "md_count D ''participations'' ?f None s =
      (Inr (int (card (found_in (V s ''participations'') ?f))), s)"
    by (simp add: count_law_def Let_def)
  moreover have "found_in (V s ''participations'') ?f = active_ids V s e"
    by (auto simp: found_in_def active_ids_def keeps_def match_simps)
  ultimately show ?thesis
    by (simp add: mongo_active_def assms(2) mongo_participations_count_active_def run_bind oid_of_def object_id_def)
qed

lemma active_put:
  assumes "V s' = (V s)(''participations'' := (V s ''participations'')(i := Some d'))"
  shows "active_ids V s' e =
    (if map_of d' ''eventId'' = Some (BOid e) \<and> keeps d' then insert i (active_ids V s e)
     else active_ids V s e - {i})"
  by (auto simp: active_ids_def assms split: if_splits)

lemma card_put:
  assumes "finite A"
  shows "int (card (if b then insert i A else A - {i})) =
    int (card A) - (if i \<in> A then 1 else 0) + (if b then 1 else 0)"
proof (cases "i \<in> A")
  case True
  then have "0 < card A" using assms by (auto simp: card_gt_0_iff)
  with True assms show ?thesis by (simp add: card_Diff_singleton insert_absorb)
next
  case False
  with assms show ?thesis by simp
qed

lemma mongo_upsert_count:
  assumes "members_ready D V s" and "storable_upsert D u" and "upsert_outcome D V s u c s' i d'"
  shows "mongo_active D s' e = mongo_active D s e +
    (if e = pu_event_id u \<and> counted (pc_after c) \<and> \<not> was_counted (pc_before c) then 1 else 0)"
proof (cases "md_from_hex D e = Some e")
  case False
  then have "e \<noteq> pu_event_id u" using assms(2) by (auto simp: storable_upsert_def)
  with False show ?thesis by (simp add: mongo_active_def)
next
  case True
  note ready = upsert_outcomeD(1) [OF assms(3)] and V' = upsert_outcomeD(2) [OF assms(3)]
    and m' = upsert_outcomeD(3) [OF assms(3)] and after = upsert_outcomeD(4) [OF assms(3)]
  have d': "V s' ''participations'' i = Some d'" "map_of d' ''eventId'' = Some (BOid (pu_event_id u))"
    using m' by (simp_all add: member_at_def)
  have k': "keeps d' \<longleftrightarrow> counted (pc_after c)"
    using counted_keeps [OF members_readyD(2) [where D = D and V = V and s = s', OF ready d'(1)]] after by simp
  have i: "i \<in> active_ids V s e \<longleftrightarrow> e = pu_event_id u \<and> was_counted (pc_before c)"
  proof (cases "V s ''participations'' i")
    case None
    then show ?thesis using assms(3) by (auto simp: active_ids_def upsert_outcome_def was_counted_def)
  next
    case (Some d)
    then have "member_at V s (pu_event_id u) (pu_chat_user_id u) i d" "pc_before c = Some (decode_participation d)"
      using assms(3) by (simp_all add: upsert_outcome_def)
    moreover have "counted (decode_participation d) \<longleftrightarrow> keeps d"
      by (rule counted_keeps [OF members_readyD(2) [where D = D and V = V and s = s, OF assms(1) Some]])
    ultimately show ?thesis using Some by (auto simp: active_ids_def member_at_def was_counted_def)
  qed
  have "mongo_active D s' e = int (card (active_ids V s e)) - (if i \<in> active_ids V s e then 1 else 0) +
      (if map_of d' ''eventId'' = Some (BOid e) \<and> keeps d' then 1 else 0)"
    unfolding mongo_active_eq [OF ready True] active_put [where V = V and s = s and s' = s', OF V']
    by (rule card_put) (rule finite_active [OF assms(1)])
  then show ?thesis
    using mongo_upsert_counted [OF assms(1,3)]
    by (auto simp: mongo_active_eq [OF assms(1) True] i k' d'(2))
qed

subsection \<open>A change of the status\<close>

lemma found_oid:
  assumes "mongo_documented D V"
  shows "found_in (V s c) [(''_id'', BOid i)] = (if V s c (BOid i) = None then {} else {BOid i})"
proof -
  have "map_of d ''_id'' = Some k" if "V s c k = Some d" for k d
    by (rule view_id [where V = V, OF assms that])
  then show ?thesis by (auto simp: found_in_def match_simps)
qed

lemma update_one_run:
  assumes "mongo_documented D V"
  shows "found_in (V s c) f = {} \<Longrightarrow> md_update_one D c f u False s = (Inr 0, s)"
    and "found_in (V s c) f \<noteq> {} \<Longrightarrow> \<exists>i d. picks (V s c) f [] i d \<and>
      (update_ok u \<and> allowed c (V s c) i (apply_update False (marshal u) d) \<longrightarrow>
        (\<exists>s'. md_update_one D c f u False s = (Inr 1, s') \<and>
          replaced V s c i (Some (apply_update False (marshal u) d)) s'))"
proof -
  have law: "update_one_law D V" using assms by (rule documentedD)
  show "md_update_one D c f u False s = (Inr 0, s)" if "found_in (V s c) f = {}"
    using law that unfolding update_one_law_def by presburger
  show "\<exists>i d. picks (V s c) f [] i d \<and>
      (update_ok u \<and> allowed c (V s c) i (apply_update False (marshal u) d) \<longrightarrow>
        (\<exists>s'. md_update_one D c f u False s = (Inr 1, s') \<and>
          replaced V s c i (Some (apply_update False (marshal u) d)) s'))"
    if "found_in (V s c) f \<noteq> {}"
    using law that unfolding update_one_law_def Let_def by presburger
qed

definition mongo_member_id :: "'s mongo_driver \<Rightarrow> 's \<Rightarrow> string \<Rightarrow> participation option" where
  "mongo_member_id D s i =
     (case fst (mongo_participations_get D i s) of Inl _ \<Rightarrow> None | Inr p \<Rightarrow> Some p)"

lemma mongo_member_id_doc:
  assumes "members_ready D V s" and "mongo_member_id D s i = Some p"
  obtains oid d where "md_from_hex D i = Some oid" "V s ''participations'' (BOid oid) = Some d"
    "p = decode_participation d"
proof -
  note doc = members_readyD(1) [OF assms(1)]
  obtain oid where oid: "md_from_hex D i = Some oid"
    using assms(2) by (auto simp: mongo_member_id_def mongo_participations_get_def run_bind oid_of_def
        object_id_def split: option.splits)
  have "found_in (V s ''participations'') [(''_id'', BOid oid)] \<noteq> {}"
  proof
    assume none: "found_in (V s ''participations'') [(''_id'', BOid oid)] = {}"
    show False
      using assms(2) find_one_none [where V = V and D = D, OF doc none]
      by (simp add: mongo_member_id_def mongo_participations_get_def run_bind oid_of_def object_id_def oid)
  qed
  then obtain k d where p: "picks (V s ''participations'') [(''_id'', BOid oid)] [] k d"
    and run: "md_find_one D ''participations'' [(''_id'', BOid oid)] s = (Inr d, s)"
    using find_one_some [where V = V and D = D, OF doc] by blast
  have "V s ''participations'' (BOid oid) = Some d"
    using picks_found [OF p] by (auto simp: found_oid [where V = V, OF doc] split: if_splits)
  moreover have "p = decode_participation d"
    using assms(2) run
    by (simp add: mongo_member_id_def mongo_participations_get_def run_bind oid_of_def object_id_def oid)
  ultimately show ?thesis using that oid by blast
qed

lemma status_fields:
  "map_of (apply_update False (marshal (status_update st now)) d) =
    (if st = ParticipationActive then (map_of d)(''status'' \<mapsto> BStr (participation_status_text st),
       ''updatedAt'' \<mapsto> BDate (in_millis now))
     else (map_of d)(''status'' \<mapsto> BStr (participation_status_text st), ''updatedAt'' \<mapsto> BDate (in_millis now),
       ''expiresAt'' \<mapsto> BNull))"
  by (simp add: status_update_def apply_update_def apply_operators_def set_fields_def field_defs)

lemma status_document:
  assumes "participation_document D d" and "d' = apply_update False (marshal (status_update st now)) d"
  shows "participation_document D d'" "map_of d' ''_id'' = map_of d ''_id''"
    "map_of d' ''eventId'' = map_of d ''eventId''" "map_of d' ''chatUserId'' = map_of d ''chatUserId''"
    "st \<noteq> ParticipationActive \<Longrightarrow> \<not> keeps d'"
proof -
  note m = status_fields [of st now d, folded assms(2)]
  show "map_of d' ''_id'' = map_of d ''_id''" "map_of d' ''eventId'' = map_of d ''eventId''"
    "map_of d' ''chatUserId'' = map_of d ''chatUserId''" "st \<noteq> ParticipationActive \<Longrightarrow> \<not> keeps d'"
    by (simp_all add: m keeps_def)
  have "map_of d' ''status'' = Some (BStr (participation_status_text st))"
    "map_of d' ''role'' = map_of d ''role''" "map_of d' ''joinedAt'' = map_of d ''joinedAt''"
    "map_of d' ''peekCount'' = map_of d ''peekCount''"
    by (simp_all add: m)
  moreover have "\<exists>x. map_of d' ''expiresAt'' = Some (opt_date x)"
    using assms(1) by (cases "st = ParticipationActive") (auto simp: m participation_document_def intro: exI [of _ None])
  ultimately show "participation_document D d'"
    using assms(1) m unfolding participation_document_def by (intro conjI) (auto simp: m)
qed

lemma set_status_run:
  assumes "members_ready D V s" and "md_from_hex D i = Some oid" and "V s ''participations'' (BOid oid) = Some d"
    and "d' = apply_update False (marshal (status_update st now)) d"
  shows "\<exists>s'. mongo_participations_set_status D i st now s = (Inr (), s') \<and> members_ready D V s' \<and>
    V s' = (V s)(''participations'' := (V s ''participations'')(BOid oid := Some d'))"
proof -
  let ?M = "V s ''participations''" and ?f = "[(''_id'', BOid oid)]" and ?u = "status_update st now"
  note doc = members_readyD(1) [OF assms(1)]
  have found: "found_in ?M ?f = {BOid oid}" by (simp add: found_oid [where V = V, OF doc] assms(3))
  then have ne: "found_in ?M ?f \<noteq> {}" by simp
  obtain k c where p: "picks ?M ?f [] k c"
    and run: "update_ok ?u \<and> allowed ''participations'' ?M k (apply_update False (marshal ?u) c) \<longrightarrow>
      (\<exists>s'. md_update_one D ''participations'' ?f ?u False s = (Inr 1, s') \<and>
        replaced V s ''participations'' k (Some (apply_update False (marshal ?u) c)) s')"
    using update_one_run(2) [where V = V and D = D and s = s and u = ?u, OF doc ne] by blast
  have k: "k = BOid oid" using picks_found [OF p] unfolding found by blast
  then have c: "c = d" using picks_found [OF p] assms(3) by simp
  have docs: "\<And>j d. ?M j = Some d \<Longrightarrow> participation_document D d"
    using members_readyD(2) [OF assms(1)] by blast
  note x = status_document [OF docs [OF assms(3)] assms(4)]
  have id: "map_of d' ''_id'' = Some (BOid oid)" using view_id [where V = V and D = D, OF doc assms(3)] x(2) by simp
  obtain e v where ev: "map_of d ''eventId'' = Some (BOid e)" "map_of d ''chatUserId'' = Some (BStr v)"
    using docs [OF assms(3)] by (rule participation_documentE)
  have m: "member_at V s e v (BOid oid) d" using assms(3) ev by (simp add: member_at_def)
  have uniq: "\<And>j c. member_at V s e v j c \<Longrightarrow> j = BOid oid" using member_unique [OF assms(1) m] by blast
  note a = member_allowed [where V = V and D = D and s = s,
      OF id x(3) [unfolded ev(1)] x(4) [unfolded ev(2)] docs uniq]
  obtain s' where s': "md_update_one D ''participations'' ?f ?u False s = (Inr 1, s')"
    "V s' = (V s)(''participations'' := ?M(BOid oid := Some d'))"
    using run a(1) unfolding replaced_def k c assms(4) [symmetric] by (auto simp: update_ok_def status_update_def)
  have "members_ready D V s'" by (rule members_ready_put [OF assms(1) s'(2) x(1) a(2)])
  moreover have "mongo_participations_set_status D i st now s = (Inr (), s')"
    by (simp add: mongo_participations_set_status_def update_matched_def run_bind oid_of_def object_id_def
        assms(2) s'(1))
  ultimately show ?thesis using s'(2) by blast
qed

lemma set_status_missing:
  assumes "members_ready D V s"
    and "\<And>oid. md_from_hex D i = Some oid \<Longrightarrow> V s ''participations'' (BOid oid) = None"
  shows "\<exists>e. mongo_participations_set_status D i st now s = (Inl e, s)"
proof (cases "md_from_hex D i")
  case None
  then show ?thesis
    by (simp add: mongo_participations_set_status_def run_bind oid_of_def object_id_def)
next
  case (Some oid)
  note doc = members_readyD(1) [OF assms(1)]
  have "found_in (V s ''participations'') [(''_id'', BOid oid)] = {}"
    by (simp add: found_oid [where V = V, OF doc] assms(2) [OF Some])
  note none = update_one_run(1) [where V = V and D = D and s = s, OF doc this]
  show ?thesis
    using none [of "status_update st now"]
    by (simp add: mongo_participations_set_status_def update_matched_def run_bind oid_of_def object_id_def Some)
qed

lemma set_status_count:
  assumes "members_ready D V s" and "mongo_member_id D s i = Some p" and "st \<noteq> ParticipationActive"
  shows "mongo_active D (snd (mongo_participations_set_status D i st now s)) e =
    mongo_active D s e - (if e = pt_event_id p \<and> counted p then 1 else 0)"
proof -
  obtain oid d where d: "md_from_hex D i = Some oid" "V s ''participations'' (BOid oid) = Some d"
    "p = decode_participation d"
    by (rule mongo_member_id_doc [OF assms(1,2)])
  define d' where "d' = apply_update False (marshal (status_update st now)) d"
  obtain s' where s': "mongo_participations_set_status D i st now s = (Inr (), s')" "members_ready D V s'"
    "V s' = (V s)(''participations'' := (V s ''participations'')(BOid oid := Some d'))"
    using set_status_run [where V = V and D = D and s = s, OF assms(1) d(1,2) d'_def] by blast
  have ok: "participation_document D d"
    by (rule members_readyD(2) [where D = D and V = V and s = s, OF assms(1) d(2)])
  obtain c where c: "map_of d ''eventId'' = Some (BOid c)" "md_from_hex D c = Some c"
    using ok by (rule participation_documentE)
  have p: "pt_event_id p = c" using c(1) by (simp add: d(3) decode_participation_def field_defs)
  show ?thesis
  proof (cases "md_from_hex D e = Some e")
    case False
    then have "e \<noteq> pt_event_id p" using c(2) p by auto
    with False show ?thesis by (simp add: mongo_active_def)
  next
    case True
    have "\<not> keeps d'" by (rule status_document(5) [OF ok d'_def assms(3)])
    then have "mongo_active D s' e =
        int (card (active_ids V s e)) - (if BOid oid \<in> active_ids V s e then 1 else 0)"
      unfolding mongo_active_eq [OF s'(2) True] active_put [where V = V and s = s and s' = s', OF s'(3)]
      using card_put [OF finite_active [OF assms(1)], of False "BOid oid" e] by simp
    moreover have "BOid oid \<in> active_ids V s e \<longleftrightarrow> e = pt_event_id p \<and> counted p"
      using d(2) c(1) counted_keeps [OF ok] by (auto simp: active_ids_def p simp flip: d(3))
    ultimately show ?thesis by (simp add: s'(1) mongo_active_eq [OF assms(1) True])
  qed
qed

text \<open>The participations in MongoDB, over any driver that does as documented.\<close>

interpretation mongo_parts: participation_repo "storable_upsert D" "members_ready D V" "mongo_member D"
  "mongo_member_id D" "mongo_active D" "mongo_participations_upsert D" "mongo_participations_set_status D"
  for D V
proof unfold_locales
  fix s :: 'a and u
  assume ready: "members_ready D V s" and ok: "storable_upsert D u"
  show "\<exists>c s'. mongo_participations_upsert D u s = (Inr c, s')" using mongo_upsert_run [OF ready ok] by blast
  fix c s'
  assume "mongo_participations_upsert D u s = (Inr c, s')"
  then obtain i d' where o': "upsert_outcome D V s u c s' i d'" using mongo_upsert_run [OF ready ok] by auto
  show "members_ready D V s'" by (rule upsert_outcomeD(1) [OF o'])
  show "pc_before c = mongo_member D s (pu_event_id u) (pu_chat_user_id u)"
    by (rule mongo_upsert_before [OF ready ok o'])
  show "mongo_member D s' e v =
      (if e = pu_event_id u \<and> v = pu_chat_user_id u then Some (pc_after c) else mongo_member D s e v)" for e v
    by (rule mongo_upsert_lookup [OF ready ok o'])
  show "counted (pc_after c) \<longleftrightarrow> was_counted (pc_before c) \<or> pu_role u = RoleParticipant"
    by (rule mongo_upsert_counted [OF ready o'])
  show "mongo_active D s' e = mongo_active D s e +
      (if e = pu_event_id u \<and> counted (pc_after c) \<and> \<not> was_counted (pc_before c) then 1 else 0)" for e
    by (rule mongo_upsert_count [OF ready ok o'])
next
  fix s :: 'a and i st now
  assume ready: "members_ready D V s"
  show "members_ready D V (snd (mongo_participations_set_status D i st now s))"
  proof (cases "\<exists>oid d. md_from_hex D i = Some oid \<and> V s ''participations'' (BOid oid) = Some d")
    case True
    then obtain oid d where "md_from_hex D i = Some oid" "V s ''participations'' (BOid oid) = Some d" by blast
    from set_status_run [where V = V and D = D and s = s and st = st and now = now, OF ready this refl] show ?thesis by auto
  next
    case False
    then show ?thesis using set_status_missing [OF ready, of i st now] ready by auto
  qed
  fix p
  assume p: "mongo_member_id D s i = Some p"
  obtain oid d where "md_from_hex D i = Some oid" "V s ''participations'' (BOid oid) = Some d"
    by (rule mongo_member_id_doc [OF ready p])
  from set_status_run [where V = V and D = D and s = s and st = st and now = now, OF ready this refl]
  show "fst (mongo_participations_set_status D i st now s) = Inr ()" by auto
  show "mongo_active D (snd (mongo_participations_set_status D i st now s)) e =
      mongo_active D s e - (if e = pt_event_id p \<and> counted p then 1 else 0)"
    if "st \<noteq> ParticipationActive" for e
    by (rule set_status_count [OF ready p that])
qed

end
