(* ===== verification/Mongo_Events.thy ===== *)
theory Mongo_Events
  imports Mongo_Driver
begin

section \<open>Events, workspaces and meta data in MongoDB\<close>

text \<open>
  \<open>internal/manager/store/mongo/events.go\<close>, \<open>workspaces.go\<close> and \<open>meta.go\<close>: every method of
  \<open>eventRepo\<close>, \<open>workspaceRepo\<close> and \<open>metaRepo\<close> over the driver.
\<close>

subsection \<open>events.go\<close>

definition encode_cursor :: "time \<Rightarrow> string \<Rightarrow> string" where
  "encode_cursor starts_at i =
     b64url_encode (map byte (dec_of_int (unix_milli starts_at) @ ''|'' @ i))"

definition decode_cursor :: "'s mongo_driver \<Rightarrow> string \<Rightarrow> (time \<times> string) result" where
  "decode_cursor D cursor =
     (case b64url_decode cursor of
        None \<Rightarrow> Inl (ErrWrapped ''decode cursor'' (ErrText ''illegal base64 data''))
      | Some raw \<Rightarrow>
          (case split_2 (CHR ''|'') (map char_of raw) of
             [a, b] \<Rightarrow> (case atoi a of
                 None \<Rightarrow> Inl (ErrWrapped ''decode cursor'' (ErrText ''ParseInt''))
               | Some millis \<Rightarrow> (case md_from_hex D b of
                     None \<Rightarrow> Inl (ErrWrapped ''decode cursor'' (ErrText ''invalid ObjectID''))
                   | Some i \<Rightarrow> Inr (millis * 1000000, i)))
           | _ \<Rightarrow> Inl (ErrText ''decode cursor: malformed'')))"

definition build_event_query :: "'s mongo_driver \<Rightarrow> event_filter \<Rightarrow> document result" where
  "build_event_query D f =
     (case (if ef_workspace_id f = [] then Inr []
            else case object_id (md_from_hex D) (ef_workspace_id f) of
              Inl e \<Rightarrow> Inl e | Inr oid \<Rightarrow> Inr [(''workspaceId'', BOid oid)]) of
        Inl e \<Rightarrow> Inl e | Inr q1 \<Rightarrow>
      let q2 = (if ef_statuses f = [] then []
                else [(''status'', BDoc [(''$in'',
                         BArr (map (\<lambda>s. BStr (event_status_text s)) (ef_statuses f)))])])
      in case (if ef_ids f = [] then Inr []
               else case object_ids (md_from_hex D) (ef_ids f) of
                 Inl e \<Rightarrow> Inl e | Inr oids \<Rightarrow> Inr [(''_id'', BDoc [(''$in'', BArr (map BOid oids))])]) of
        Inl e \<Rightarrow> Inl e | Inr q3 \<Rightarrow>
      let q4 = (case ef_starts_after f of
                  None \<Rightarrow> [] | Some t \<Rightarrow> [(''startsAt'', BDoc [(''$gte'', BDate t)])])
      in case (if ef_cursor f = [] then Inr []
               else case decode_cursor D (ef_cursor f) of
                 Inl e \<Rightarrow> Inl e
               | Inr (t, i) \<Rightarrow> Inr [(''$or'', BArr
                   [BDoc [(''startsAt'', BDoc [(''$lt'', BDate t)])],
                    BDoc [(''startsAt'', BDate t), (''_id'', BDoc [(''$lt'', BOid i)])]])]) of
        Inl e \<Rightarrow> Inl e | Inr q5 \<Rightarrow>
      Inr (q1 @ q2 @ q3 @ q4 @ q5))"

definition mongo_events_create :: "'s mongo_driver \<Rightarrow> event \<Rightarrow> ('s, err, event) prog" where
  "mongo_events_create D ev =
     m_bind (m_lift (encode_event (md_from_hex D) ev)) (\<lambda>doc0.
     m_bind (new_oid D) (\<lambda>new_id.
     let doc = (''_id'', BOid new_id) # AList.delete ''_id'' doc0
     in m_bind (with_error (map_write_error D ''create event'') (md_insert_one D ''events'' doc)) (\<lambda>_.
          m_lift (decode_event doc))))"

definition mongo_events_find_one ::
  "'s mongo_driver \<Rightarrow> document \<Rightarrow> string \<Rightarrow> ('s, err, event) prog" where
  "mongo_events_find_one D f op =
     m_bind (with_error (map_not_found D op) (md_find_one D ''events'' f)) (\<lambda>doc.
       m_lift (decode_event doc))"

definition mongo_events_get :: "'s mongo_driver \<Rightarrow> string \<Rightarrow> ('s, err, event) prog" where
  "mongo_events_get D i =
     m_bind (oid_of D i) (\<lambda>oid. mongo_events_find_one D [(''_id'', BOid oid)] ''get event'')"

definition mongo_events_get_by_channel_id ::
  "'s mongo_driver \<Rightarrow> string \<Rightarrow> ('s, err, event) prog" where
  "mongo_events_get_by_channel_id D channel_id =
     mongo_events_find_one D [(''channel.channelId'', BStr channel_id)] ''get event by channel''"

text \<open>A page: one document more than the limit is read to see whether another follows.\<close>

definition mongo_page_limit :: "event_filter \<Rightarrow> int" where
  "mongo_page_limit f = min (if ef_limit f \<le> 0 then 20 else ef_limit f) 100"

fun decode_all :: "(document \<Rightarrow> 'a result) \<Rightarrow> document list \<Rightarrow> 'a list result" where
  "decode_all decode [] = Inr []"
| "decode_all decode (d # ds) =
     (case decode d of
        Inl e \<Rightarrow> Inl e
      | Inr x \<Rightarrow> (case decode_all decode ds of Inl e \<Rightarrow> Inl e | Inr xs \<Rightarrow> Inr (x # xs)))"

definition mongo_events_list ::
  "'s mongo_driver \<Rightarrow> event_filter \<Rightarrow> ('s, err, event_page) prog" where
  "mongo_events_list D f =
     m_bind (m_lift (build_event_query D f)) (\<lambda>query.
     let limit = mongo_page_limit f
     in m_bind (with_error (ErrWrapped ''list events'')
          (md_find D ''events'' query [(''startsAt'', -1), (''_id'', -1)] (Some (limit + 1)))) (\<lambda>docs.
        let full = limit < int (length docs);
            last_doc = docs ! nat (limit - 1);
            kept = (if full then take (nat limit) docs else docs)
        in m_bind (m_lift (decode_all decode_event kept)) (\<lambda>evs.
             m_return \<lparr>ep_events = evs,
               ep_next_cursor =
                 (if full then encode_cursor (date_field last_doc ''startsAt'') (oid_field last_doc ''_id'')
                  else [])\<rparr>)))"

definition mongo_events_update_one ::
  "'s mongo_driver \<Rightarrow> string \<Rightarrow> bson \<Rightarrow> string \<Rightarrow> ('s, err, unit) prog" where
  "mongo_events_update_one D oid u op = update_matched D ''events'' [(''_id'', BOid oid)] u op"

definition edited_fields :: "event \<Rightarrow> document" where
  "edited_fields ev =
     [(''title'', BStr (ev_title ev)), (''description'', BStr (ev_description ev)),
      (''location'', BStr (ev_location ev)), (''startsAt'', BDate (ev_starts_at ev)),
      (''endsAt'', opt_date (ev_ends_at ev)), (''status'', BStr (event_status_text (ev_status ev))),
      (''reminderPolicy'', BDoc (encode_reminder_policy (ev_reminder_policy ev))),
      (''endedAt'', opt_date (ev_ended_at ev)),
      (''endReason'', BStr (end_reason_text (ev_end_reason ev))),
      (''updatedAt'', BDate (ev_updated_at ev))]"

definition mongo_events_update :: "'s mongo_driver \<Rightarrow> event \<Rightarrow> ('s, err, unit) prog" where
  "mongo_events_update D ev =
     m_bind (oid_of D (ev_id ev)) (\<lambda>oid.
       mongo_events_update_one D oid (BDoc [(''$set'', BDoc (edited_fields ev))]) ''update event'')"

definition mongo_events_set_channel ::
  "'s mongo_driver \<Rightarrow> string \<Rightarrow> channel_ref \<Rightarrow> time \<Rightarrow> ('s, err, unit) prog" where
  "mongo_events_set_channel D i c now =
     m_bind (oid_of D i) (\<lambda>oid.
       mongo_events_update_one D oid
         (BDoc [(''$set'', BDoc [(''channel'', BDoc (encode_channel c)), (''updatedAt'', BDate now)])])
         ''set event channel'')"

definition mongo_events_set_messages ::
  "'s mongo_driver \<Rightarrow> string \<Rightarrow> message_refs \<Rightarrow> time \<Rightarrow> ('s, err, unit) prog" where
  "mongo_events_set_messages D i ms now =
     m_bind (oid_of D i) (\<lambda>oid.
       mongo_events_update_one D oid
         (BDoc [(''$set'', BDoc [(''messages'', BDoc (encode_message_refs ms)), (''updatedAt'', BDate now)])])
         ''set event messages'')"

definition mongo_events_add_participant_count ::
  "'s mongo_driver \<Rightarrow> string \<Rightarrow> int \<Rightarrow> time \<Rightarrow> ('s, err, unit) prog" where
  "mongo_events_add_participant_count D i delta now =
     m_bind (oid_of D i) (\<lambda>oid.
       mongo_events_update_one D oid
         (BDoc [(''$inc'', BDoc [(''participantCount'', BInt delta)]),
                (''$set'', BDoc [(''updatedAt'', BDate now)])])
         ''add participant count'')"

subsection \<open>workspaces.go\<close>

definition mongo_workspaces_get :: "'s mongo_driver \<Rightarrow> string \<Rightarrow> ('s, err, workspace) prog" where
  "mongo_workspaces_get D i =
     m_bind (oid_of D i) (\<lambda>oid.
     m_bind (with_error (map_not_found D ''get workspace'')
        (md_find_one D ''workspaces'' [(''_id'', BOid oid)])) (\<lambda>doc.
       m_lift (decode_workspace doc)))"

definition mongo_workspaces_get_by_external_id ::
  "'s mongo_driver \<Rightarrow> provider_kind \<Rightarrow> string \<Rightarrow> ('s, err, workspace) prog" where
  "mongo_workspaces_get_by_external_id D provider external_id =
     m_bind (with_error (map_not_found D ''get workspace by external id'')
        (md_find_one D ''workspaces''
          [(''provider'', BStr (provider_text provider)), (''externalId'', BStr external_id)])) (\<lambda>doc.
       m_lift (decode_workspace doc))"

definition mongo_workspaces_list :: "'s mongo_driver \<Rightarrow> ('s, err, workspace list) prog" where
  "mongo_workspaces_list D =
     m_bind (with_error (ErrWrapped ''list workspaces'')
        (md_find D ''workspaces'' [] [(''name'', 1)] None)) (\<lambda>docs.
       m_lift (decode_all decode_workspace docs))"

definition mongo_workspaces_upsert ::
  "'s mongo_driver \<Rightarrow> workspace \<Rightarrow> time \<Rightarrow> ('s, err, workspace) prog" where
  "mongo_workspaces_upsert D ws now =
     m_bind (with_error (map_write_error D ''upsert workspace'')
        (md_find_one_and_update D ''workspaces''
          [(''provider'', BStr (provider_text (ws_provider ws))), (''externalId'', BStr (ws_external_id ws))]
          (BDoc [(''$set'', BDoc [(''name'', BStr (ws_name ws)), (''updatedAt'', BDate now)]),
                 (''$setOnInsert'', BDoc
                   [(''settings'', BDoc (encode_workspace_settings (ws_settings ws))),
                    (''createdAt'', BDate now)])])
          [] True True)) (\<lambda>doc.
       m_lift (decode_workspace doc))"

definition mongo_workspaces_update_settings ::
  "'s mongo_driver \<Rightarrow> string \<Rightarrow> workspace_settings \<Rightarrow> time \<Rightarrow> ('s, err, workspace) prog" where
  "mongo_workspaces_update_settings D i settings now =
     m_bind (oid_of D i) (\<lambda>oid.
     m_bind (with_error (map_not_found D ''update workspace settings'')
        (md_find_one_and_update D ''workspaces'' [(''_id'', BOid oid)]
          (BDoc [(''$set'', BDoc [(''settings'', BDoc (encode_workspace_settings settings)),
                                (''updatedAt'', BDate now)])])
          [] False True)) (\<lambda>doc.
       m_lift (decode_workspace doc)))"

subsection \<open>meta.go\<close>

definition meta_provider_id :: string where "meta_provider_id = ''provider''"
definition meta_schema_id :: string where "meta_schema_id = ''schema''"

definition mongo_meta_get_provider :: "'s mongo_driver \<Rightarrow> ('s, err, provider_state) prog" where
  "mongo_meta_get_provider D =
     m_bind (with_error (map_not_found D ''get provider'')
        (md_find_one D ''meta'' [(''_id'', BStr meta_provider_id)])) (\<lambda>doc.
       m_return (decode_provider doc))"

definition mongo_meta_save_provider ::
  "'s mongo_driver \<Rightarrow> provider_state \<Rightarrow> ('s, err, unit) prog" where
  "mongo_meta_save_provider D st =
     m_bind (with_error (ErrWrapped ''save provider'')
        (md_update_one D ''meta'' [(''_id'', BStr meta_provider_id)]
          (BDoc [(''$set'', BDoc
              [(''kind'', BStr (provider_text (ps_kind st))), (''address'', BStr (ps_address st)),
               (''capabilities'', BDoc
                 [(''forms'', BBool (cap_forms (ps_capabilities st))),
                  (''ephemeral'', BBool (cap_ephemeral (ps_capabilities st))),
                  (''directMessage'', BBool (cap_direct_message (ps_capabilities st)))]),
               (''version'', BStr (ps_version st)), (''botUserId'', BStr (ps_bot_user_id st)),
               (''connected'', BBool (ps_connected st)),
               (''status'', BStr (provider_status_text (ps_status st))),
               (''failures'', BInt (ps_failures st)), (''lastSeenAt'', BDate (ps_last_seen_at st)),
               (''updatedAt'', BDate (ps_updated_at st))]),
             (''$setOnInsert'', BDoc [(''firstSeenAt'', BDate (ps_first_seen_at st))])])
          True)) (\<lambda>_.
       m_return ())"

definition mongo_meta_schema_version :: "'s mongo_driver \<Rightarrow> ('s, err, int) prog" where
  "mongo_meta_schema_version D =
     m_bind (m_try (md_find_one D ''meta'' [(''_id'', BStr meta_schema_id)])) (\<lambda>r.
       case r of
         Inl e \<Rightarrow> if errors_is e (md_no_documents D) then m_return 0
                  else m_throw (ErrWrapped ''get schema version'' e)
       | Inr doc \<Rightarrow> m_return (int_field doc ''version''))"

definition mongo_meta_set_schema_version :: "'s mongo_driver \<Rightarrow> int \<Rightarrow> ('s, err, unit) prog" where
  "mongo_meta_set_schema_version D v =
     m_bind (with_error (ErrWrapped ''set schema version'')
        (md_update_one D ''meta'' [(''_id'', BStr meta_schema_id)]
          (BDoc [(''$set'', BDoc [(''version'', BInt v)])]) True)) (\<lambda>_.
       m_return ())"

text \<open>\<open>migrateStore\<close> of \<open>internal/manager/app/migrate.go\<close>; \<open>ensure\<close> creates the indexes.\<close>

definition schema_version :: int where "schema_version = 1"

definition migrate_store ::
  "'s mongo_driver \<Rightarrow> ('s, err, unit) prog \<Rightarrow> ('s, err, unit) prog" where
  "migrate_store D ensure =
     m_bind (with_error (ErrWrapped ''ensure indexes'') ensure) (\<lambda>_.
     m_bind (with_error (ErrWrapped ''read schema version'') (mongo_meta_schema_version D)) (\<lambda>current.
       if current = schema_version then m_return ()
       else with_error (ErrWrapped ''write schema version'')
              (mongo_meta_set_schema_version D schema_version)))"

end
