(* ===== verification/Mongo_Pages.thy ===== *)
theory Mongo_Pages
  imports Mongo_Members Mongo_Events
begin

section \<open>The event list in MongoDB is the one in memory\<close>

text \<open>
  The query that \<open>buildEventQuery\<close> builds selects the events the filter of the in-memory
  repository does, and a page read from MongoDB is the page in memory, for a repository in memory
  that holds the same events. With it, what is known of pages and cursors holds for both.
\<close>

subsection \<open>The query\<close>

definition event_document :: "document \<Rightarrow> bool" where
  "event_document d \<longleftrightarrow>
     (\<exists>i. map_of d ''_id'' = Some (BOid i)) \<and> (\<exists>w. map_of d ''workspaceId'' = Some (BOid w)) \<and>
     (\<exists>st. map_of d ''status'' = Some (BStr (event_status_text st))) \<and>
     (\<exists>t. map_of d ''startsAt'' = Some (BDate t) \<and> in_millis t = t) \<and> (\<exists>ev. decode_event d = Inr ev)"

lemma event_documentE:
  assumes "event_document d"
  obtains i w st t ev where "map_of d ''_id'' = Some (BOid i)" "map_of d ''workspaceId'' = Some (BOid w)"
    "map_of d ''status'' = Some (BStr (event_status_text st))" "map_of d ''startsAt'' = Some (BDate t)"
    "in_millis t = t" "decode_event d = Inr ev"
    "ev_id ev = i" "ev_workspace_id ev = w" "ev_status ev = st" "ev_starts_at ev = t"
proof -
  obtain i w st t ev where d: "map_of d ''_id'' = Some (BOid i)" "map_of d ''workspaceId'' = Some (BOid w)"
    "map_of d ''status'' = Some (BStr (event_status_text st))" "map_of d ''startsAt'' = Some (BDate t)"
    "in_millis t = t" "decode_event d = Inr ev"
    using assms unfolding event_document_def by blast
  moreover from this have "ev_id ev = i" "ev_workspace_id ev = w" "ev_status ev = st" "ev_starts_at ev = t"
    by (auto simp: decode_event_def field_defs split: sum.splits)
  ultimately show ?thesis by (rule that)
qed

text \<open>A filter whose identifiers are as the store writes them and whose instant is in milliseconds.\<close>

definition canonical_filter :: "'s mongo_driver \<Rightarrow> event_filter \<Rightarrow> bool" where
  "canonical_filter D f \<longleftrightarrow>
     (ef_workspace_id f = [] \<or> md_from_hex D (ef_workspace_id f) = Some (ef_workspace_id f)) \<and>
     (\<forall>i \<in> set (ef_ids f). md_from_hex D i = Some i) \<and>
     (\<forall>t. ef_starts_after f = Some t \<longrightarrow> in_millis t = t) \<and>
     (ef_cursor f = [] \<or>
      (\<forall>t i. decode_mem_cursor (ef_cursor f) = Inr (t, i) \<longrightarrow> md_from_hex D i = Some i))"

lemma decode_cursor_mem:
  "decode_cursor D c =
     (case decode_mem_cursor c of
        Inl e \<Rightarrow> Inl e
      | Inr (t, i) \<Rightarrow> (case md_from_hex D i of
          None \<Rightarrow> Inl (ErrWrapped ''decode cursor'' (ErrText ''invalid ObjectID''))
        | Some oid \<Rightarrow> Inr (t, oid)))"
  by (auto simp: decode_cursor_def decode_mem_cursor_def split: option.split list.split)

lemma decode_mem_cursor_millis: "decode_mem_cursor c = Inr (t, i) \<Longrightarrow> in_millis t = t"
  by (auto simp: decode_mem_cursor_def in_millis_def split: option.splits list.splits)

lemma object_ids_canonical: "\<forall>i \<in> set is. h i = Some i \<Longrightarrow> object_ids h is = Inr is"
  by (induction "is") (simp_all add: object_id_def)

lemma matches_append: "matches (f @ g) d \<longleftrightarrow> matches f d \<and> matches g d"
  by (simp add: matches_def)

lemma matches_Nil [simp]: "matches [] d"
  by (simp add: matches_def)

lemma matches_in:
  assumes "CHR ''.'' \<notin> set k" "k \<noteq> ''$or''"
  shows "matches [(k, BDoc [(''$in'', BArr xs)])] d \<longleftrightarrow> list_ex (equals (map_of d k)) xs"
  using assms by (simp add: matches_def field_matches_def operator_matches_def)

text \<open>The condition the cursor puts on an event.\<close>

definition cursor_test :: "event_filter \<Rightarrow> event \<Rightarrow> bool" where
  "cursor_test f e \<longleftrightarrow> ef_cursor f = [] \<or>
     (case decode_mem_cursor (ef_cursor f) of Inl _ \<Rightarrow> False | Inr (t, i) \<Rightarrow> before_cursor e t i)"

lemma query_parts:
  assumes "event_document d" and "decode_event d = Inr e"
  shows "matches [(''workspaceId'', BOid w)] d \<longleftrightarrow> ev_workspace_id e = w"
    and "matches [(''status'', BDoc [(''$in'', BArr (map (\<lambda>s. BStr (event_status_text s)) sts))])] d \<longleftrightarrow>
      ev_status e \<in> set sts"
    and "matches [(''_id'', BDoc [(''$in'', BArr (map BOid is))])] d \<longleftrightarrow> ev_id e \<in> set is"
    and "matches [(''startsAt'', BDoc [(''$gte'', BDate t)])] d \<longleftrightarrow> \<not> ev_starts_at e < t"
    and "matches [(''$or'', BArr [BDoc [(''startsAt'', BDoc [(''$lt'', BDate t)])],
        BDoc [(''startsAt'', BDate t), (''_id'', BDoc [(''$lt'', BOid i)])]])] d \<longleftrightarrow> before_cursor e t i"
proof -
  obtain i' w' st t' where d: "map_of d ''_id'' = Some (BOid i')" "map_of d ''workspaceId'' = Some (BOid w')"
    "map_of d ''status'' = Some (BStr (event_status_text st))" "map_of d ''startsAt'' = Some (BDate t')"
    "ev_id e = i'" "ev_workspace_id e = w'" "ev_status e = st" "ev_starts_at e = t'"
    using event_documentE [OF assms(1)] assms(2) by (metis sum.inject(2))
  have inj: "event_status_text a = event_status_text b \<longleftrightarrow> a = b" for a b by (metis event_status_of_text)
  show "matches [(''workspaceId'', BOid w)] d \<longleftrightarrow> ev_workspace_id e = w"
    using d by (auto simp: match_simps)
  show "matches [(''status'', BDoc [(''$in'', BArr (map (\<lambda>s. BStr (event_status_text s)) sts))])] d \<longleftrightarrow>
      ev_status e \<in> set sts"
    using d by (subst matches_in) (auto simp: equals_def list_ex_iff inj)
  show "matches [(''_id'', BDoc [(''$in'', BArr (map BOid is))])] d \<longleftrightarrow> ev_id e \<in> set is"
    using d by (subst matches_in) (auto simp: equals_def list_ex_iff)
  show "matches [(''startsAt'', BDoc [(''$gte'', BDate t)])] d \<longleftrightarrow> \<not> ev_starts_at e < t"
    using d by (auto simp: match_simps)
  show "matches [(''$or'', BArr [BDoc [(''startsAt'', BDoc [(''$lt'', BDate t)])],
        BDoc [(''startsAt'', BDate t), (''_id'', BDoc [(''$lt'', BOid i)])]])] d \<longleftrightarrow> before_cursor e t i"
    using d by (auto simp: match_simps before_cursor_def)
qed

text \<open>The query is built unless the cursor is malformed, and selects as the filter in memory does.\<close>

lemma query_selects:
  assumes "canonical_filter D f"
  shows "ef_cursor f \<noteq> [] \<Longrightarrow> decode_mem_cursor (ef_cursor f) = Inl x \<Longrightarrow> build_event_query D f = Inl x"
    and "ef_cursor f = [] \<or> decode_mem_cursor (ef_cursor f) = Inr c \<Longrightarrow>
      \<exists>q. build_event_query D f = Inr q \<and> (\<forall>d e. event_document d \<longrightarrow> decode_event d = Inr e \<longrightarrow>
        (matches (stored q) d \<longleftrightarrow> matches_event_filter e f \<and> cursor_test f e))"
proof -
  let ?q1 = "if ef_workspace_id f = [] then [] else [(''workspaceId'', BOid (ef_workspace_id f))]"
  let ?q2 = "if ef_statuses f = [] then []
    else [(''status'', BDoc [(''$in'', BArr (map (\<lambda>s. BStr (event_status_text s)) (ef_statuses f)))])]"
  let ?q3 = "if ef_ids f = [] then [] else [(''_id'', BDoc [(''$in'', BArr (map BOid (ef_ids f)))])]"
  let ?q4 = "case ef_starts_after f of None \<Rightarrow> [] | Some t \<Rightarrow> [(''startsAt'', BDoc [(''$gte'', BDate t)])]"
  let ?or = "\<lambda>t i. [(''$or'', BArr [BDoc [(''startsAt'', BDoc [(''$lt'', BDate t)])],
        BDoc [(''startsAt'', BDate t), (''_id'', BDoc [(''$lt'', BOid i)])]])]"
  have ids: "object_ids (md_from_hex D) (ef_ids f) = Inr (ef_ids f)"
    using assms by (intro object_ids_canonical) (simp add: canonical_filter_def)
  have q: "build_event_query D f =
     (case (if ef_cursor f = [] then Inr []
            else case decode_cursor D (ef_cursor f) of Inl e \<Rightarrow> Inl e | Inr (t, i) \<Rightarrow> Inr (?or t i)) of
        Inl e \<Rightarrow> Inl e | Inr q5 \<Rightarrow> Inr (?q1 @ ?q2 @ ?q3 @ ?q4 @ q5))"
    using assms ids
    by (cases "ef_workspace_id f = []"; cases "ef_ids f = []")
      (simp_all add: build_event_query_def canonical_filter_def object_id_def Let_def)
  show "build_event_query D f = Inl x"
    if "ef_cursor f \<noteq> []" "decode_mem_cursor (ef_cursor f) = Inl x"
    using that by (simp add: q decode_cursor_mem)
  assume c: "ef_cursor f = [] \<or> decode_mem_cursor (ef_cursor f) = Inr c"
  let ?q5 = "if ef_cursor f = [] then [] else ?or (fst c) (snd c)"
  have "build_event_query D f = Inr (?q1 @ ?q2 @ ?q3 @ ?q4 @ ?q5)"
  proof (cases "ef_cursor f = []")
    case True
    then show ?thesis by (simp add: q)
  next
    case False
    then have "decode_mem_cursor (ef_cursor f) = Inr (fst c, snd c)" "md_from_hex D (snd c) = Some (snd c)"
      using c assms by (cases c; simp add: canonical_filter_def)+
    with False show ?thesis by (cases c) (simp add: q decode_cursor_mem)
  qed
  moreover have "matches (stored (?q1 @ ?q2 @ ?q3 @ ?q4 @ ?q5)) d \<longleftrightarrow>
      matches_event_filter e f \<and> cursor_test f e"
    if d: "event_document d" "decode_event d = Inr e" for d e
  proof -
    note p = query_parts [OF d]
    have m1: "matches (stored ?q1) d \<longleftrightarrow> ef_workspace_id f = [] \<or> ev_workspace_id e = ef_workspace_id f"
      using p(1) by simp
    have m2: "matches (stored ?q2) d \<longleftrightarrow> ef_statuses f = [] \<or> ev_status e \<in> set (ef_statuses f)"
      using p(2) by (simp add: comp_def)
    have m3: "matches (stored ?q3) d \<longleftrightarrow> ef_ids f = [] \<or> ev_id e \<in> set (ef_ids f)"
      using p(3) by (simp add: comp_def)
    have m4: "matches (stored ?q4) d \<longleftrightarrow>
        (case ef_starts_after f of None \<Rightarrow> True | Some t \<Rightarrow> \<not> ev_starts_at e < t)"
      using p(4) assms by (auto simp: canonical_filter_def split: option.split)
    have m5: "matches (stored ?q5) d \<longleftrightarrow> cursor_test f e"
    proof (cases "ef_cursor f = []")
      case False
      then have "decode_mem_cursor (ef_cursor f) = Inr (fst c, snd c)" using c by simp
      moreover from this have "in_millis (fst c) = fst c" by (rule decode_mem_cursor_millis)
      ultimately show ?thesis
        using False p(5) [of "fst c" "snd c"] by (cases c) (simp add: cursor_test_def)
    qed (simp add: cursor_test_def)
    show ?thesis
      unfolding stored_append matches_append m1 m2 m3 m4 m5 by (auto simp: matches_event_filter_def)
  qed
  ultimately show "\<exists>q. build_event_query D f = Inr q \<and> (\<forall>d e. event_document d \<longrightarrow> decode_event d = Inr e \<longrightarrow>
      (matches (stored q) d \<longleftrightarrow> matches_event_filter e f \<and> cursor_test f e))"
    by blast
qed

subsection \<open>The page\<close>

text \<open>The repository in memory holds the events whose documents MongoDB holds.\<close>

definition same_events :: "'s view \<Rightarrow> 's \<Rightarrow> store \<Rightarrow> bool" where
  "same_events V s m \<longleftrightarrow>
     (\<forall>i d. V s ''events'' i = Some d \<longrightarrow> event_document d) \<and> distinct (map ev_id (st_events m)) \<and>
     (\<forall>e. e \<in> set (st_events m) \<longleftrightarrow> (\<exists>i d. V s ''events'' i = Some d \<and> decode_event d = Inr e))"

lemma strict_desc_unique:
  fixes k :: "'a \<Rightarrow> 'b :: linorder"
  assumes "sorted_wrt (\<lambda>a b. k b < k a) xs" and "sorted_wrt (\<lambda>a b. k b < k a) ys" and "set xs = set ys"
  shows "xs = ys"
proof -
  have "sorted_wrt (<) (map k (rev zs))" if "sorted_wrt (\<lambda>a b. k b < k a) zs" for zs
    using that by (simp add: sorted_wrt_map sorted_wrt_rev)
  then have "map k (rev xs) = map k (rev ys)" and "distinct (map k (rev xs))"
    using assms by (auto intro!: strict_sorted_equal simp: strict_sorted_iff simp del: rev_map)
  moreover have "inj_on k (set xs)"
    using \<open>distinct (map k (rev xs))\<close> by (simp add: distinct_map)
  ultimately have "map k xs = map k ys" by (simp add: rev_map [symmetric])
  then show ?thesis using \<open>inj_on k (set xs)\<close> assms(3) by (intro map_inj_on [of k]) auto
qed

lemma decode_all_map: "(\<And>x. x \<in> set xs \<Longrightarrow> decode (g x) = Inr (h x)) \<Longrightarrow>
    decode_all decode (map g xs) = Inr (map h xs)"
  by (induction xs) simp_all

lemma event_precedes:
  assumes "event_document d" "decode_event d = Inr a" and "event_document e" "decode_event e = Inr b"
  shows "precedes [(''startsAt'', -1), (''_id'', -1)] d e \<longleftrightarrow> event_order b < event_order a"
proof -
  obtain i t where d: "map_of d ''_id'' = Some (BOid i)" "map_of d ''startsAt'' = Some (BDate t)"
    "event_order a = (t, i)"
    using event_documentE [OF assms(1)] assms(2) unfolding event_order_def by (metis sum.inject(2))
  obtain j u where e: "map_of e ''_id'' = Some (BOid j)" "map_of e ''startsAt'' = Some (BDate u)"
    "event_order b = (u, j)"
    using event_documentE [OF assms(3)] assms(4) unfolding event_order_def by (metis sum.inject(2))
  show ?thesis using d e by (auto simp: value_less_def less_prod_def')
qed

text \<open>What a search with the query returns: the events the repository in memory keeps, in its order.\<close>

lemma found_events:
  assumes "mongo_documented D V" and "same_events V s m"
    and "\<forall>d e. event_document d \<longrightarrow> decode_event d = Inr e \<longrightarrow>
      (matches (stored q) d \<longleftrightarrow> matches_event_filter e f \<and> p e)"
  shows "\<exists>docs. md_find D ''events'' q [(''startsAt'', -1), (''_id'', -1)] limit s =
      (Inr (case limit of None \<Rightarrow> docs | Some n \<Rightarrow> take (nat n) docs), s) \<and>
    (\<forall>d \<in> set docs. event_document d) \<and>
    map (\<lambda>d. projr (decode_event d)) docs = keep_events f p m"
proof -
  let ?order = "[(''startsAt'', -1), (''_id'', -1)] :: sort_order" and ?M = "V s ''events''"
  let ?ev = "\<lambda>d. projr (decode_event d)"
  have "find_law D V" using assms(1) by (rule documentedD)
  then obtain ids where ids: "distinct ids" "set ids = found_in ?M q"
    "sorted_wrt (\<lambda>d e. \<not> precedes ?order e d) (map (\<lambda>i. the (?M i)) ids)"
    "md_find D ''events'' q ?order limit s =
      (Inr (map (\<lambda>i. the (?M i)) (case limit of None \<Rightarrow> ids | Some n \<Rightarrow> take (nat n) ids)), s)"
    unfolding find_law_def by blast
  let ?docs = "map (\<lambda>i. the (?M i)) ids"
  have doc: "event_document (the (?M i)) \<and> ?M i = Some (the (?M i)) \<and>
      decode_event (the (?M i)) = Inr (?ev (the (?M i)))" if "i \<in> set ids" for i
  proof -
    have "i \<in> found_in ?M q" using that ids(2) by simp
    then obtain d where d: "?M i = Some d" unfolding found_in_def by blast
    then have "event_document d" using assms(2) by (auto simp: same_events_def)
    with d show ?thesis by (auto elim: event_documentE)
  qed
  have key: "i = BOid (ev_id (?ev (the (?M i))))" if "i \<in> set ids" for i
  proof -
    have v: "?M i = Some (the (?M i))" using doc [OF that] by blast
    have "map_of (the (?M i)) ''_id'' = Some i" by (rule view_id [where V = V and D = D, OF assms(1) v])
    then show ?thesis using doc [OF that] by (elim conjE event_documentE) auto
  qed
  have desc: "sorted_wrt (\<lambda>a b. event_order b < event_order a) (map ?ev ?docs)"
  proof -
    have "event_order (?ev (the (?M j))) < event_order (?ev (the (?M i)))"
      if "k < l" "l < length ids" "i = ids ! k" "j = ids ! l" for k l i j
    proof -
      have in_ids: "i \<in> set ids" "j \<in> set ids" using that by auto
      have "i \<noteq> j" using that ids(1) by (simp add: nth_eq_iff_index_eq)
      then have "ev_id (?ev (the (?M i))) \<noteq> ev_id (?ev (the (?M j)))" using key in_ids by metis
      then have "event_order (?ev (the (?M i))) \<noteq> event_order (?ev (the (?M j)))"
        by (simp add: event_order_def)
      moreover have "\<not> precedes ?order (the (?M j)) (the (?M i))"
        using ids(3) that by (simp add: sorted_wrt_iff_nth_less del: precedes.simps)
      then have "\<not> event_order (?ev (the (?M i))) < event_order (?ev (the (?M j)))"
        using event_precedes doc in_ids by blast
      ultimately show ?thesis by simp
    qed
    then show ?thesis by (simp add: sorted_wrt_iff_nth_less)
  qed
  have sel: "matches (stored q) (the (?M i)) \<longleftrightarrow>
      matches_event_filter (?ev (the (?M i))) f \<and> p (?ev (the (?M i)))" if "i \<in> set ids" for i
    using assms(3) doc [OF that] by blast
  have "set (map ?ev ?docs) = set (keep_events f p m)"
  proof (intro set_eqI iffI)
    fix e
    assume "e \<in> set (map ?ev ?docs)"
    then obtain i where i: "i \<in> set ids" "e = ?ev (the (?M i))" by auto
    then have "matches (stored q) (the (?M i))" using ids(2) by (auto simp: found_in_def)
    then show "e \<in> set (keep_events f p m)"
      using sel [OF i(1)] doc [OF i(1)] i(2) assms(2) by (auto simp: keep_events_def same_events_def)
  next
    fix e
    assume "e \<in> set (keep_events f p m)"
    then have e: "e \<in> set (st_events m)" "matches_event_filter e f" "p e" by (auto simp: keep_events_def)
    then obtain i d where d: "?M i = Some d" "decode_event d = Inr e" using assms(2) by (auto simp: same_events_def)
    then have "event_document d" using assms(2) by (auto simp: same_events_def)
    then have "i \<in> set ids" using ids(2) d e assms(3) by (auto simp: found_in_def)
    then show "e \<in> set (map ?ev ?docs)" using d by force
  qed
  then have "map ?ev ?docs = keep_events f p m"
    using strict_desc_unique [OF desc] keep_events_distinct assms(2) by (simp add: same_events_def)
  moreover have "md_find D ''events'' q ?order limit s =
      (Inr (case limit of None \<Rightarrow> ?docs | Some n \<Rightarrow> take (nat n) ?docs), s)"
    using ids(4) by (simp add: take_map split: option.split)
  moreover have "\<forall>d \<in> set ?docs. event_document d" using doc by auto
  ultimately show ?thesis by (intro exI [of _ ?docs]) blast
qed

lemma page_limit_nat: "mongo_page_limit f = int (page_limit f)"
  by (simp add: mongo_page_limit_def page_limit_def default_page_size_def max_page_size_def)

lemma encode_cursor_mem: "encode_cursor = encode_mem_cursor"
  by (simp add: fun_eq_iff encode_cursor_def encode_mem_cursor_def)

lemma document_cursor:
  assumes "event_document d"
  shows "date_field d ''startsAt'' = ev_starts_at (projr (decode_event d))"
    "oid_field d ''_id'' = ev_id (projr (decode_event d))"
  using assms by (elim event_documentE; simp add: field_defs)+

text \<open>A page of documents, decoded, is the page of their events.\<close>

lemma mongo_page:
  assumes "\<forall>d \<in> set docs. event_document d" and "map (\<lambda>d. projr (decode_event d)) docs = evs"
    and "ds = take (Suc n) docs" and "0 < n"
  shows "decode_all decode_event (if n < length ds then take n ds else ds) = Inr (ep_events (page_of n evs))"
    and "(if n < length ds
      then encode_cursor (date_field (ds ! (n - 1)) ''startsAt'') (oid_field (ds ! (n - 1)) ''_id'') else []) =
      ep_next_cursor (page_of n evs)"
proof -
  let ?ev = "\<lambda>d. projr (decode_event d)"
  have dec: "decode_event d = Inr (?ev d)" if "d \<in> set docs" for d
  proof -
    have "event_document d" using assms(1) that by blast
    then show ?thesis by (rule event_documentE) simp
  qed
  have len: "length evs = length docs" using assms(2) by auto
  have all: "decode_all decode_event (take k docs) = Inr (take k evs)" for k
  proof -
    have "decode_event x = Inr (?ev x)" if "x \<in> set (take k docs)" for x
      using that dec by (meson in_set_takeD)
    then have "decode_all decode_event (map (\<lambda>x. x) (take k docs)) = Inr (map ?ev (take k docs))"
      by (rule decode_all_map)
    then show ?thesis using assms(2) by (simp flip: take_map)
  qed
  have more: "n < length ds \<longleftrightarrow> n < length docs" using assms(3) by auto
  show "decode_all decode_event (if n < length ds then take n ds else ds) = Inr (ep_events (page_of n evs))"
    using all [of n] all [of "length docs"] assms(3) len
    by (auto simp: more page_of_def min_def)
  show "(if n < length ds
      then encode_cursor (date_field (ds ! (n - 1)) ''startsAt'') (oid_field (ds ! (n - 1)) ''_id'') else []) =
      ep_next_cursor (page_of n evs)"
  proof (cases "n < length docs")
    case True
    then have i: "n - 1 < length docs" by simp
    then have "event_document (docs ! (n - 1))" using assms(1) by simp
    moreover have "ds ! (n - 1) = docs ! (n - 1)" using assms(3,4) by simp
    moreover have "evs ! (n - 1) = ?ev (docs ! (n - 1))" using i assms(2) by auto
    ultimately show ?thesis
      using True len by (simp add: more page_of_def encode_cursor_mem document_cursor)
  next
    case False
    then show ?thesis using len by (simp add: more page_of_def)
  qed
qed

lemma mongo_list_same:
  assumes "mongo_documented D V" and "same_events V s m" and "canonical_filter D f"
  shows "mongo_events_list D f s = (fst (events_list f m), s)"
proof -
  let ?n = "page_limit f"
  consider x where "ef_cursor f \<noteq> []" "decode_mem_cursor (ef_cursor f) = Inl x"
    | c where "ef_cursor f = [] \<or> decode_mem_cursor (ef_cursor f) = Inr c"
    by (cases "decode_mem_cursor (ef_cursor f)") auto
  then show ?thesis
  proof cases
    case 1
    then show ?thesis
      using query_selects(1) [OF assms(3) 1]
      by (simp add: mongo_events_list_def run_bind events_list_def filter_events_def)
  next
    case (2 c)
    obtain q where q: "build_event_query D f = Inr q"
      "\<forall>d e. event_document d \<longrightarrow> decode_event d = Inr e \<longrightarrow>
        (matches (stored q) d \<longleftrightarrow> matches_event_filter e f \<and> cursor_test f e)"
      using query_selects(2) [OF assms(3) 2] by blast
    obtain docs where docs: "md_find D ''events'' q [(''startsAt'', -1), (''_id'', -1)] (Some (int ?n + 1)) s =
        (Inr (take (Suc ?n) docs), s)" "\<forall>d \<in> set docs. event_document d"
      "map (\<lambda>d. projr (decode_event d)) docs = keep_events f (cursor_test f) m"
      using found_events [OF assms(1,2) q(2), of "Some (int ?n + 1)"] by (auto simp: nat_add_distrib)
    define ds where "ds = take (Suc ?n) docs"
    note page = mongo_page [OF docs(2,3) ds_def page_limit_positive [of f]]
    have idx: "nat (int ?n - 1) = ?n - 1" by simp
    have "filter_events f m = Inr (keep_events f (cursor_test f) m)"
      using 2 by (auto simp: filter_events_def cursor_test_def [abs_def] split: prod.split)
    then have mem: "fst (events_list f m) = Inr (page_of ?n (keep_events f (cursor_test f) m))"
      by (simp add: events_list_def)
    have "mongo_events_list D f s = (Inr \<lparr>ep_events = ep_events (page_of ?n (keep_events f (cursor_test f) m)),
        ep_next_cursor = ep_next_cursor (page_of ?n (keep_events f (cursor_test f) m))\<rparr>, s)"
      using page
      by (simp add: mongo_events_list_def run_bind q(1) page_limit_nat docs(1) [folded ds_def] Let_def idx
          split: if_splits)
    then show ?thesis by (simp add: mem)
  qed
qed

end
