(* ===== verification/Mongo_Event_Facts.thy ===== *)
theory Mongo_Event_Facts
  imports Mongo_Pages
begin

section \<open>Events written to MongoDB and read back\<close>

text \<open>
  \<open>Create\<close> followed by \<open>Get\<close>, and \<open>Update\<close> followed by \<open>Get\<close>: what is read is what was written, with
  instants cut to the millisecond and without the fields of a reminder policy its mode does not use.
\<close>

lemma stored_policy: "stored (encode_reminder_policy p) = encode_reminder_policy p"
  by (auto simp: encode_reminder_policy_def omit_empty_def stored_def)

lemma decode_fields_event:
  assumes "event_storable ev"
  shows "decode_event ((''_id'', BOid i) # event_fields (ev_workspace_id ev) ev) =
    Inr (ev\<lparr>ev_id := i, ev_reminder_policy := kept_policy (ev_reminder_policy ev)\<rparr>)"
proof -
  have "decode_reminder_policy (encode_reminder_policy (ev_reminder_policy ev)) =
      Inr (kept_policy (ev_reminder_policy ev))"
    using assms policy_roundtrip [of "ev_reminder_policy ev"] by (simp add: event_storable_def stored_policy)
  moreover have "decode_message_refs (encode_message_refs (ev_messages ev)) = ev_messages ev"
    by (cases "ms_announcement (ev_messages ev)"; cases "ms_recruit_announcement (ev_messages ev)";
        cases "ms_summary (ev_messages ev)")
      (simp_all add: decode_message_refs_def encode_message_refs_def opt_doc_field_def omit_nil_def
        encode_message_ref_def decode_message_ref_def str_field_def)
  ultimately show ?thesis
    using assms
    by (simp add: event_storable_def decode_event_def event_fields_def encode_channel_def field_defs)
qed

lemma delete_id_fields: "AList.delete ''_id'' (event_fields w ev) = event_fields w ev"
  by (simp add: event_fields_def)

lemma events_allowed: "map_of d ''_id'' = Some i \<Longrightarrow> allowed ''events'' M i d"
  by (simp add: allowed_def same_key_def indexes_def)

text \<open>Reading by identifier.\<close>

lemma events_get_run:
  assumes "mongo_documented D V" and "md_from_hex D i = Some oid"
  shows "mongo_events_get D i s =
    (case V s ''events'' (BOid oid) of None \<Rightarrow> Inl ErrNotFound | Some d \<Rightarrow> decode_event d, s)"
proof (cases "V s ''events'' (BOid oid)")
  case None
  then have "found_in (V s ''events'') [(''_id'', BOid oid)] = {}"
    by (simp add: found_oid [where V = V, OF assms(1)])
  then show ?thesis
    using None find_one_none [where V = V and D = D, OF assms(1)]
    by (simp add: mongo_events_get_def mongo_events_find_one_def run_bind oid_of_def object_id_def assms(2))
next
  case (Some d)
  have found: "found_in (V s ''events'') [(''_id'', BOid oid)] = {BOid oid}"
    by (simp add: found_oid [where V = V, OF assms(1)] Some)
  then have ne: "found_in (V s ''events'') [(''_id'', BOid oid)] \<noteq> {}" by simp
  obtain k c where p: "picks (V s ''events'') [(''_id'', BOid oid)] [] k c"
    and run: "md_find_one D ''events'' [(''_id'', BOid oid)] s = (Inr c, s)"
    using find_one_some [where V = V and D = D, OF assms(1) ne] by blast
  have "k = BOid oid" using picks_found [OF p] unfolding found by blast
  then have "c = d" using picks_found [OF p] Some by simp
  then show ?thesis
    using run Some
    by (simp add: mongo_events_get_def mongo_events_find_one_def run_bind oid_of_def object_id_def assms(2))
qed

text \<open>A created event.\<close>

lemma encode_event_run:
  assumes "md_from_hex D (ev_workspace_id ev) = Some (ev_workspace_id ev)"
    and "ev_id ev = [] \<or> md_from_hex D (ev_id ev) \<noteq> None"
  obtains d0 where "encode_event (md_from_hex D) ev = Inr d0"
    "AList.delete ''_id'' d0 = event_fields (ev_workspace_id ev) ev"
proof (cases "ev_id ev = []")
  case True
  then show ?thesis
    using that [of "event_fields (ev_workspace_id ev) ev"] assms(1)
    by (simp add: encode_event_def object_id_def delete_id_fields)
next
  case False
  then obtain i where "md_from_hex D (ev_id ev) = Some i" using assms(2) by blast
  then show ?thesis
    using that [of "(''_id'', BOid i) # event_fields (ev_workspace_id ev) ev"] assms(1) False
    by (simp add: encode_event_def object_id_def delete_id_fields)
qed

lemma events_create_run:
  assumes "mongo_documented D V" and "event_storable ev"
    and "md_from_hex D (ev_workspace_id ev) = Some (ev_workspace_id ev)"
    and "ev_id ev = [] \<or> md_from_hex D (ev_id ev) \<noteq> None"
  shows "\<exists>i s'. mongo_events_create D ev s =
      (Inr (ev\<lparr>ev_id := i, ev_reminder_policy := kept_policy (ev_reminder_policy ev)\<rparr>), s') \<and>
    V s ''events'' (BOid i) = None \<and> md_from_hex D i = Some i \<and>
    V s' = (V s)(''events'' := (V s ''events'')(BOid i :=
      Some (stored ((''_id'', BOid i) # event_fields (ev_workspace_id ev) ev))))"
proof -
  obtain d0 where d0: "encode_event (md_from_hex D) ev = Inr d0"
    "AList.delete ''_id'' d0 = event_fields (ev_workspace_id ev) ev"
    by (rule encode_event_run [OF assms(3,4)])
  obtain i t where "md_new_id D s = (i, t)" by fastforce
  then have n: "new_oid D s = (Inr i, t)" by (simp add: new_oid_def)
  note fresh = new_oid_fresh [where V = V and D = D, OF documentedD(1) [OF assms(1)] n]
  let ?doc = "(''_id'', BOid i) # event_fields (ev_workspace_id ev) ev"
  have id: "map_of (stored ?doc) ''_id'' = Some (BOid i)" by simp
  have free: "V t ''events'' (BOid i) = None" using fresh(1,2) by simp
  obtain s' where s': "md_insert_one D ''events'' ?doc t = (Inr (), s')"
    "replaced V t ''events'' (BOid i) (Some (stored ?doc)) s'"
    using insert_one_run(1) [where V = V and D = D and s = t, OF assms(1) id free]
    by (auto simp: same_key_def indexes_def)
  have "mongo_events_create D ev s =
      (Inr (ev\<lparr>ev_id := i, ev_reminder_policy := kept_policy (ev_reminder_policy ev)\<rparr>), s')"
    by (simp add: mongo_events_create_def run_bind d0 n Let_def s'(1) decode_fields_event [OF assms(2)])
  then show ?thesis using s'(2) fresh by (auto simp: replaced_def)
qed

lemma created_event_read:
  assumes "mongo_documented D V" and "event_storable ev"
    and "md_from_hex D (ev_workspace_id ev) = Some (ev_workspace_id ev)"
    and "ev_id ev = [] \<or> md_from_hex D (ev_id ev) \<noteq> None"
  shows "\<exists>i s'. mongo_events_create D ev s =
      (Inr (ev\<lparr>ev_id := i, ev_reminder_policy := kept_policy (ev_reminder_policy ev)\<rparr>), s') \<and>
    mongo_events_get D i s' = (Inr (stored_event (ev\<lparr>ev_id := i\<rparr>)), s') \<and>
    mongo_events_get D i s = (Inl ErrNotFound, s) \<and>
    (\<forall>j oid. md_from_hex D j = Some oid \<and> oid \<noteq> i \<longrightarrow>
       fst (mongo_events_get D j s') = fst (mongo_events_get D j s))"
proof -
  obtain i s' where r: "mongo_events_create D ev s =
      (Inr (ev\<lparr>ev_id := i, ev_reminder_policy := kept_policy (ev_reminder_policy ev)\<rparr>), s')"
    "V s ''events'' (BOid i) = None" "md_from_hex D i = Some i"
    "V s' = (V s)(''events'' := (V s ''events'')(BOid i :=
      Some (stored ((''_id'', BOid i) # event_fields (ev_workspace_id ev) ev))))"
    using events_create_run [OF assms] by blast
  note get = events_get_run [where V = V and D = D, OF assms(1)]
  have "event_storable (ev\<lparr>ev_id := i\<rparr>)" using assms(2) by (simp add: event_storable_def)
  from event_fields_roundtrip [OF this]
  have "decode_event (stored ((''_id'', BOid i) # event_fields (ev_workspace_id ev) ev)) =
      Inr (stored_event (ev\<lparr>ev_id := i\<rparr>))"
    by (simp add: event_fields_def)
  then have "mongo_events_get D i s' = (Inr (stored_event (ev\<lparr>ev_id := i\<rparr>)), s')"
    using get [OF r(3), of s'] by (simp add: r(4))
  moreover have "mongo_events_get D i s = (Inl ErrNotFound, s)"
    using get [OF r(3), of s] r(2) by simp
  moreover have "fst (mongo_events_get D j s') = fst (mongo_events_get D j s)"
    if "md_from_hex D j = Some oid" "oid \<noteq> i" for j oid
    using get [OF that(1), of s'] get [OF that(1), of s] that(2) by (simp add: r(4))
  ultimately show ?thesis using r(1) by blast
qed

end
