(* ===== verification/Mongo_Reference.thy ===== *)
theory Mongo_Reference
  imports Mongo_Queue
begin

section \<open>A driver that does as documented\<close>

text \<open>
  A driver over a list of documents, keyed by collection and identifier, that the theorems
  about the repository in MongoDB are applied to: the laws of \<open>mongo_documented\<close> can hold
  together. It writes nothing that a unique index forbids.
\<close>

type_synonym entries = "((string \<times> bson) \<times> document) list"

definition ref_view :: "entries view" where
  "ref_view s c i =
     (case map_of s (c, i) of
        None \<Rightarrow> None
      | Some d \<Rightarrow> if map_of d ''_id'' = Some i then Some d else None)"

definition ref_doc :: "entries \<Rightarrow> string \<Rightarrow> bson \<Rightarrow> document" where
  "ref_doc s c i = the (ref_view s c i)"

definition ref_ids :: "entries \<Rightarrow> string \<Rightarrow> bson list" where
  "ref_ids s c = remdups (filter (\<lambda>i. ref_view s c i \<noteq> None) (map (\<lambda>e. snd (fst e)) s))"

definition ref_found :: "entries \<Rightarrow> string \<Rightarrow> document \<Rightarrow> bson list" where
  "ref_found s c f = filter (\<lambda>i. matches (stored f) (ref_doc s c i)) (ref_ids s c)"

text \<open>A sort by insertion that needs only a strict partial order.\<close>

fun place :: "('a \<Rightarrow> 'a \<Rightarrow> bool) \<Rightarrow> 'a \<Rightarrow> 'a list \<Rightarrow> 'a list" where
  "place R x [] = [x]"
| "place R x (y # ys) = (if R x y then x # y # ys else y # place R x ys)"

definition arrange :: "('a \<Rightarrow> 'a \<Rightarrow> bool) \<Rightarrow> 'a list \<Rightarrow> 'a list" where
  "arrange R xs = foldr (place R) xs []"

definition ref_ordered :: "entries \<Rightarrow> string \<Rightarrow> document \<Rightarrow> sort_order \<Rightarrow> bson list" where
  "ref_ordered s c f order =
     arrange (\<lambda>i j. precedes order (ref_doc s c i) (ref_doc s c j)) (ref_found s c f)"

definition ref_allowed :: "entries \<Rightarrow> string \<Rightarrow> bson \<Rightarrow> document \<Rightarrow> bool" where
  "ref_allowed s c i d \<longleftrightarrow> map_of d ''_id'' = Some i \<and>
     list_all (\<lambda>j. j = i \<or> \<not> same_key c d (ref_doc s c j)) (ref_ids s c)"

definition ref_put :: "entries \<Rightarrow> string \<Rightarrow> bson \<Rightarrow> document \<Rightarrow> entries" where
  "ref_put s c i d = AList.update (c, i) d s"

definition no_documents :: err where
  "no_documents = ErrText ''mongo: no documents in result''"

definition duplicate_key :: err where
  "duplicate_key = ErrText ''E11000 duplicate key error''"

text \<open>Identifiers: a new one is longer than every other.\<close>

definition hex_char :: "char \<Rightarrow> bool" where
  "hex_char c \<longleftrightarrow> byte c < 128 \<and> is_hex_rune (byte c)"

definition ref_from_hex :: "string \<Rightarrow> string option" where
  "ref_from_hex i =
     (if 24 \<le> length i \<and> list_all hex_char i then Some (map ascii_lower i) else None)"

definition ref_fresh :: "entries \<Rightarrow> string" where
  "ref_fresh s =
     replicate (Suc (foldr (\<lambda>e. case snd (fst e) of BOid x \<Rightarrow> max (length x) | _ \<Rightarrow> id) s 23)) (CHR ''0'')"

text \<open>What an update finds, what it writes, and the state it leaves.\<close>

definition ref_change ::
  "entries \<Rightarrow> string \<Rightarrow> document \<Rightarrow> bson \<Rightarrow> sort_order \<Rightarrow> bool
   \<Rightarrow> err + (document option \<times> document \<times> entries)" where
  "ref_change s c f u order upsert =
     (case ref_ordered s c f order of
        i # _ \<Rightarrow>
          (let d = ref_doc s c i; d' = apply_update False (marshal u) d
           in if ref_allowed s c i d' then Inr (Some d, d', ref_put s c i d') else Inl duplicate_key)
      | [] \<Rightarrow>
          if \<not> upsert then Inl no_documents
          else (let i = (case map_of (given_fields f) ''_id'' of Some j \<Rightarrow> j | None \<Rightarrow> BOid (ref_fresh s));
                    d' = upsert_document f u i
                in if ref_view s c i = None \<and> ref_allowed s c i d' then Inr (None, d', ref_put s c i d')
                   else Inl duplicate_key))"

definition ref_find_one_and_update ::
  "string \<Rightarrow> document \<Rightarrow> bson \<Rightarrow> sort_order \<Rightarrow> bool \<Rightarrow> bool \<Rightarrow> (entries, err, document) prog" where
  "ref_find_one_and_update c f u order upsert after s =
     (case ref_change s c f u order upsert of
        Inl e \<Rightarrow> (Inl e, s)
      | Inr (before, d', s') \<Rightarrow>
          (if after then Inr d' else (case before of None \<Rightarrow> Inl no_documents | Some d \<Rightarrow> Inr d), s'))"

definition ref_update_one :: "string \<Rightarrow> document \<Rightarrow> bson \<Rightarrow> bool \<Rightarrow> (entries, err, int) prog" where
  "ref_update_one c f u upsert s =
     (case ref_change s c f u [] upsert of
        Inl e \<Rightarrow> (if e = no_documents then Inr 0 else Inl e, s)
      | Inr (before, _, s') \<Rightarrow> (Inr (if before = None then 0 else 1), s'))"

definition ref_update_many :: "string \<Rightarrow> document \<Rightarrow> bson \<Rightarrow> (entries, err, int) prog" where
  "ref_update_many c f u s =
     (let found = ref_found s c f;
          new = (\<lambda>i. apply_update False (marshal u) (ref_doc s c i));
          s' = map (\<lambda>((c', i), d). ((c', i), if c' = c \<and> i \<in> set found then new i else d)) s
      in if list_all (\<lambda>i. ref_allowed s' c i (ref_doc s' c i)) (ref_ids s' c)
         then (Inr (int (length (filter (\<lambda>i. new i \<noteq> ref_doc s c i) found))), s')
         else (Inl duplicate_key, s))"

definition ref_drop :: "entries \<Rightarrow> string \<Rightarrow> bson list \<Rightarrow> entries" where
  "ref_drop s c is = filter (\<lambda>((c', i), _). \<not> (c' = c \<and> i \<in> set is)) s"

definition ref_find_one_and_delete :: "string \<Rightarrow> document \<Rightarrow> (entries, err, document) prog" where
  "ref_find_one_and_delete c f s =
     (case ref_ordered s c f [] of
        [] \<Rightarrow> (Inl no_documents, s)
      | i # _ \<Rightarrow> (Inr (ref_doc s c i), ref_drop s c [i]))"

definition ref_delete_one :: "string \<Rightarrow> document \<Rightarrow> (entries, err, int) prog" where
  "ref_delete_one c f s =
     (case ref_ordered s c f [] of [] \<Rightarrow> (Inr 0, s) | i # _ \<Rightarrow> (Inr 1, ref_drop s c [i]))"

definition ref_insert_one :: "string \<Rightarrow> document \<Rightarrow> (entries, err, unit) prog" where
  "ref_insert_one c d s =
     (case map_of (stored d) ''_id'' of
        None \<Rightarrow> (Inl (ErrText ''no _id''), s)
      | Some i \<Rightarrow>
          if ref_view s c i = None \<and> ref_allowed s c i (stored d)
          then (Inr (), ref_put s c i (stored d)) else (Inl duplicate_key, s))"

definition reference_driver :: "entries mongo_driver" where
  "reference_driver =
     \<lparr>md_from_hex = ref_from_hex, md_new_id = (\<lambda>s. (ref_fresh s, s)), md_insert_one = ref_insert_one,
      md_find_one = (\<lambda>c f s.
        (case ref_ordered s c f [] of [] \<Rightarrow> Inl no_documents | i # _ \<Rightarrow> Inr (ref_doc s c i), s)),
      md_find = (\<lambda>c f order limit s.
        (Inr (map (ref_doc s c)
           (case limit of None \<Rightarrow> ref_ordered s c f order
            | Some n \<Rightarrow> take (nat n) (ref_ordered s c f order))), s)),
      md_find_one_and_update = ref_find_one_and_update,
      md_find_one_and_delete = ref_find_one_and_delete, md_update_one = ref_update_one,
      md_update_many = ref_update_many, md_delete_one = ref_delete_one,
      md_delete_many = (\<lambda>c f s.
        (Inr (int (length (ref_found s c f))), ref_drop s c (ref_found s c f))),
      md_count = (\<lambda>c f limit s.
        (let n = int (length (ref_found s c f))
         in (Inr (case limit of None \<Rightarrow> n | Some m \<Rightarrow> min m n), s))),
      md_is_duplicate_key = (\<lambda>e. e = duplicate_key), md_no_documents = no_documents\<rparr>"

subsection \<open>The view\<close>

lemma dom_ref_ids: "set (ref_ids s c) = dom (ref_view s c)"
proof -
  have "i \<in> (\<lambda>e. snd (fst e)) ` set s" if "ref_view s c i = Some d" for i d
  proof -
    have "map_of s (c, i) \<noteq> None" using that by (auto simp: ref_view_def split: option.splits)
    then have "(c, i) \<in> fst ` set s" by (simp add: map_of_eq_None_iff)
    then show ?thesis by force
  qed
  then show ?thesis by (auto simp: ref_ids_def dom_def)
qed

lemma ref_view_id: "ref_view s c i = Some d \<Longrightarrow> map_of d ''_id'' = Some i"
  by (simp add: ref_view_def split: option.splits if_splits)

lemma ref_doc_view: "ref_view s c i = Some d \<Longrightarrow> ref_doc s c i = d"
  by (simp add: ref_doc_def)

lemma set_ref_found: "set (ref_found s c f) = found_in (ref_view s c) f"
  by (auto simp: ref_found_def found_in_def dom_ref_ids ref_doc_def)

lemma distinct_ref_found [simp]: "distinct (ref_found s c f)"
  by (simp add: ref_found_def ref_ids_def)

lemma ref_allowed_iff: "ref_allowed s c i d \<longleftrightarrow> allowed c (ref_view s c) i d"
  by (auto simp: ref_allowed_def allowed_def list_all_iff dom_ref_ids ref_doc_def dom_def)

lemma ref_view_put:
  "map_of d ''_id'' = Some i \<Longrightarrow>
    ref_view (ref_put s c i d) = (ref_view s)(c := (ref_view s c)(i := Some d))"
  by (auto simp: fun_eq_iff ref_view_def ref_put_def AList.update_conv')

lemma ref_view_drop:
  "ref_view (ref_drop s c is) = (ref_view s)(c := (ref_view s c) |` (- set is))"
proof -
  have "map_of (ref_drop s c is) k = (if fst k = c \<and> snd k \<in> set is then None else map_of s k)" for k
    by (induction s) (auto simp: ref_drop_def split: if_splits)
  then show ?thesis by (auto simp: fun_eq_iff ref_view_def restrict_map_def)
qed

subsection \<open>Arranging by a strict partial order\<close>

lemma set_place [simp]: "set (place R x ys) = insert x (set ys)"
  by (induction ys) auto

lemma distinct_place [simp]: "distinct (place R x ys) \<longleftrightarrow> x \<notin> set ys \<and> distinct ys"
  by (induction ys) auto

lemma set_arrange [simp]: "set (arrange R xs) = set xs"
  by (induction xs) (simp_all add: arrange_def)

lemma distinct_arrange [simp]: "distinct (arrange R xs) \<longleftrightarrow> distinct xs"
proof (induction xs)
  case (Cons x xs)
  have "x \<in> set (arrange R xs) \<longleftrightarrow> x \<in> set xs" by simp
  with Cons show ?case by (simp add: arrange_def)
qed (simp add: arrange_def)

lemma sorted_place:
  assumes "transp R" and "irreflp R" and "sorted_wrt (\<lambda>x y. \<not> R y x) ys"
  shows "sorted_wrt (\<lambda>x y. \<not> R y x) (place R x ys)"
  using assms(3)
proof (induction ys)
  case Nil
  then show ?case by simp
next
  case (Cons y ys)
  then show ?case
    using assms(1,2) by (auto dest: transpD irreflpD)
qed

lemma sorted_arrange:
  "transp R \<Longrightarrow> irreflp R \<Longrightarrow> sorted_wrt (\<lambda>x y. \<not> R y x) (arrange R xs)"
  by (induction xs) (simp_all add: arrange_def sorted_place)


lemma bson_less_irrefl [simp]: "\<not> bson_less a a"
  by (cases a) simp_all

lemma bson_less_trans: "bson_less a b \<Longrightarrow> bson_less b c \<Longrightarrow> bson_less a c"
  by (cases a; cases b; cases c) (auto intro: less_trans)

lemma value_less_irrefl [simp]: "\<not> value_less a a"
  by (cases a) (simp_all add: value_less_def)

lemma value_less_trans: "value_less a b \<Longrightarrow> value_less b c \<Longrightarrow> value_less a c"
  by (cases a; cases b; cases c) (auto simp: value_less_def intro: bson_less_trans)

lemma precedes_irrefl [simp]: "\<not> precedes order d d"
  by (induction order) auto

lemma precedes_trans: "precedes order a b \<Longrightarrow> precedes order b c \<Longrightarrow> precedes order a c"
proof (induction order)
  case Nil
  then show ?case by simp
next
  case (Cons o' order)
  obtain k dir where o': "o' = (k, dir)" by fastforce
  show ?case
    using Cons unfolding o'
    by (auto simp: split: if_splits intro: value_less_trans dest: value_less_trans)
qed

lemma ref_ordered:
  "set (ref_ordered s c f order) = found_in (ref_view s c) f" "distinct (ref_ordered s c f order)"
  "sorted_wrt (\<lambda>i j. \<not> precedes order (ref_doc s c j) (ref_doc s c i)) (ref_ordered s c f order)"
proof -
  show "set (ref_ordered s c f order) = found_in (ref_view s c) f" "distinct (ref_ordered s c f order)"
    by (simp_all add: ref_ordered_def set_ref_found)
  show "sorted_wrt (\<lambda>i j. \<not> precedes order (ref_doc s c j) (ref_doc s c i)) (ref_ordered s c f order)"
    unfolding ref_ordered_def
    by (rule sorted_arrange) (auto intro!: transpI irreflpI dest: precedes_trans)
qed

text \<open>The first of the ordered documents is one the laws let the driver pick.\<close>

lemma ref_first:
  assumes "ref_ordered s c f order = i # rest"
  shows "picks (ref_view s c) f order i (ref_doc s c i)" "ref_view s c i = Some (ref_doc s c i)"
proof -
  have i: "i \<in> found_in (ref_view s c) f" using ref_ordered(1) [of s c f order] assms by auto
  then show v: "ref_view s c i = Some (ref_doc s c i)" by (auto simp: found_in_def ref_doc_def)
  have "\<not> precedes order e (ref_doc s c i)" if "ref_view s c j = Some e" "j \<in> found_in (ref_view s c) f" for j e
  proof -
    have "j \<in> set (ref_ordered s c f order)" using that(2) ref_ordered(1) by blast
    then show ?thesis using ref_ordered(3) [of order s c f] that(1) by (auto simp: assms ref_doc_view)
  qed
  with i v show "picks (ref_view s c) f order i (ref_doc s c i)" by (simp add: picks_def)
qed

lemma ref_none: "ref_ordered s c f order = [] \<longleftrightarrow> found_in (ref_view s c) f = {}"
  using ref_ordered(1) [of s c f order] by auto

end
