(* ===== verification/Mongo_Model.thy ===== *)
theory Mongo_Model
  imports Mongo_Reference
begin

section \<open>The reference driver keeps the laws\<close>

lemma reference_simps [simp]:
  "md_from_hex reference_driver = ref_from_hex" "md_new_id reference_driver = (\<lambda>s. (ref_fresh s, s))"
  "md_insert_one reference_driver = ref_insert_one"
  "md_find_one_and_update reference_driver = ref_find_one_and_update"
  "md_find_one_and_delete reference_driver = ref_find_one_and_delete"
  "md_update_one reference_driver = ref_update_one" "md_update_many reference_driver = ref_update_many"
  "md_delete_one reference_driver = ref_delete_one"
  "md_is_duplicate_key reference_driver e = (e = duplicate_key)"
  "md_no_documents reference_driver = no_documents"
  by (simp_all add: reference_driver_def)

subsection \<open>Identifiers\<close>

lemma hex_char_lower [simp]: "hex_char c \<Longrightarrow> hex_char (ascii_lower c)"
  by (auto simp: hex_char_def is_hex_rune_def ascii_lower_def byte_def)

lemma ascii_lower_idem [simp]: "ascii_lower (ascii_lower c) = ascii_lower c"
  by (simp add: ascii_lower_def byte_def)

lemma is_id_hex: "is_id i \<Longrightarrow> list_all hex_char i"
proof -
  assume id: "is_id i"
  have "hex_char c" if "c \<in> set i" for c
  proof -
    have "c \<in> set (concat (map snd (rune_chunks i)))" using that by (simp only: concat_rune_chunks)
    then obtain ch where ch: "ch \<in> set (rune_chunks i)" "c \<in> set (snd ch)"
      by (auto simp del: concat_rune_chunks)
    have "is_hex_rune (fst ch)" using id ch(1) by (auto simp: is_id_def runes_of_def list_all_iff)
    with ascii_chunk [OF ch(1)] ch(2) show ?thesis by (fastforce simp: is_hex_rune_def hex_char_def)
  qed
  then show ?thesis by (simp add: list_all_iff)
qed

lemma fresh_longer:
  assumes "((c, BOid x), d) \<in> set s"
  shows "length x < length (ref_fresh s)"
proof -
  have "length x \<le> foldr (\<lambda>e. case snd (fst e) of BOid x \<Rightarrow> max (length x) | _ \<Rightarrow> id) s n" for n
    using assms
  proof (induction s)
    case (Cons e s)
    then show ?case by (auto split: bson.split)
  qed simp
  then show ?thesis by (simp add: ref_fresh_def less_Suc_eq_le)
qed

lemma fresh_unused: "ref_view s c (BOid (ref_fresh s)) = None"
proof (rule ccontr)
  assume "ref_view s c (BOid (ref_fresh s)) \<noteq> None"
  then obtain d where "map_of s (c, BOid (ref_fresh s)) = Some d"
    by (auto simp: ref_view_def split: option.splits)
  then have "((c, BOid (ref_fresh s)), d) \<in> set s" by (rule map_of_SomeD)
  then show False using fresh_longer by blast
qed

lemma fresh_hex: "ref_from_hex (ref_fresh s) = Some (ref_fresh s)"
proof -
  have "23 \<le> foldr (\<lambda>e. case snd (fst e) of BOid x \<Rightarrow> max (length x) | _ \<Rightarrow> id) s (23 :: nat)"
    by (induction s) (auto split: bson.split)
  then show ?thesis
    by (simp add: ref_from_hex_def ref_fresh_def list_all_iff hex_char_def is_hex_rune_def byte_def
        ascii_lower_def)
qed

lemma reference_ids: "ids_law reference_driver ref_view"
proof -
  have "ref_from_hex i = Some (map ascii_lower i)" if "is_id i" for i
    using that is_id_hex [OF that] by (simp add: ref_from_hex_def is_id_def id_length_def)
  moreover have "ref_from_hex oid = Some oid" if "ref_from_hex i = Some oid" for i oid
    using that by (auto simp: ref_from_hex_def list_all_iff split: if_splits)
  ultimately show ?thesis
    by (simp add: ids_law_def fresh_unused fresh_hex ref_view_id flip: dom_ref_ids)
qed

subsection \<open>Reading\<close>

lemma reference_find_one: "find_one_law reference_driver ref_view"
proof -
  have "if found_in (ref_view s c) f = {} then md_find_one reference_driver c f s = (Inl no_documents, s)
     else \<exists>i d. picks (ref_view s c) f [] i d \<and> md_find_one reference_driver c f s = (Inr d, s)" for s c f
    using ref_none [of s c f "[]"] ref_first(1) [of s c f "[]"]
    by (cases "ref_ordered s c f []") (auto simp: reference_driver_def)
  then show ?thesis by (simp add: find_one_law_def)
qed

lemma reference_find: "find_law reference_driver ref_view"
  unfolding find_law_def
proof (intro allI)
  fix s c f order limit
  show "\<exists>ids. distinct ids \<and> set ids = found_in (ref_view s c) f \<and>
     sorted_wrt (\<lambda>d e. \<not> precedes order e d) (map (\<lambda>i. the (ref_view s c i)) ids) \<and>
     md_find reference_driver c f order limit s =
       (Inr (map (\<lambda>i. the (ref_view s c i)) (case limit of None \<Rightarrow> ids | Some n \<Rightarrow> take (nat n) ids)), s)"
    using ref_ordered(1) [of s c f order] ref_ordered(2) [of s c f order] ref_ordered(3) [of order s c f]
    by (intro exI [of _ "ref_ordered s c f order"])
      (simp add: reference_driver_def sorted_wrt_map flip: ref_doc_def cong: map_cong split: option.split)
qed

lemma card_found: "card (found_in (ref_view s c) f) = length (ref_found s c f)"
  using distinct_card [OF distinct_ref_found] by (simp flip: set_ref_found)

lemma reference_count: "count_law reference_driver ref_view"
  by (simp add: count_law_def card_found reference_driver_def Let_def)

subsection \<open>Writing\<close>

lemma reference_insert: "insert_law reference_driver ref_view"
  by (auto simp: insert_law_def ref_insert_one_def ref_allowed_iff replaced_def ref_view_put)

lemma allowed_put:
  "allowed c (ref_view s c) i d \<Longrightarrow> replaced ref_view s c i (Some d) (ref_put s c i d)"
  by (simp add: allowed_def replaced_def ref_view_put)

lemma change_found:
  assumes "found_in (ref_view s c) f \<noteq> {}"
  shows "\<exists>i d. picks (ref_view s c) f order i d \<and>
    (allowed c (ref_view s c) i (apply_update False (marshal u) d) \<longrightarrow>
      ref_change s c f u order upsert =
        Inr (Some d, apply_update False (marshal u) d, ref_put s c i (apply_update False (marshal u) d)))"
proof -
  obtain i rest where o': "ref_ordered s c f order = i # rest"
    using assms ref_none [of s c f order] by (cases "ref_ordered s c f order") auto
  show ?thesis
    by (intro exI conjI, rule ref_first(1) [OF o']) (simp add: ref_change_def o' ref_allowed_iff Let_def)
qed

lemma change_missing:
  assumes "found_in (ref_view s c) f = {}"
  shows "ref_change s c f u order False = Inl no_documents"
  using assms ref_none [of s c f order] by (simp add: ref_change_def)

lemma change_upsert:
  assumes "found_in (ref_view s c) f = {}" and "upsert_id (ref_view s c) f j"
  shows "\<exists>i. upsert_id (ref_view s c) f i \<and>
    (allowed c (ref_view s c) i (upsert_document f u i) \<longrightarrow>
      ref_change s c f u order True = Inr (None, upsert_document f u i, ref_put s c i (upsert_document f u i)))"
proof -
  let ?i = "case map_of (given_fields f) ''_id'' of Some j \<Rightarrow> j | None \<Rightarrow> BOid (ref_fresh s)"
  have "upsert_id (ref_view s c) f ?i"
    using assms(2) by (auto simp: upsert_id_def fresh_unused split: option.splits)
  moreover from this have "ref_view s c ?i = None" by (simp add: upsert_id_def)
  moreover have "ref_ordered s c f order = []" using assms(1) ref_none by blast
  ultimately show ?thesis by (intro exI [of _ ?i]) (simp add: ref_change_def ref_allowed_iff Let_def)
qed

lemma reference_find_one_and_update: "find_one_and_update_law reference_driver ref_view"
  unfolding find_one_and_update_law_def
proof (intro allI)
  fix s c f u order upsert after
  let ?M = "ref_view s c" and ?upd = "apply_update False (marshal u)"
    and ?run = "md_find_one_and_update reference_driver c f u order upsert after s"
  consider "found_in ?M f \<noteq> {}" | "found_in ?M f = {}" "\<not> upsert" | j where "found_in ?M f = {}" "upsert" "upsert_id ?M f j"
    | "found_in ?M f = {}" "upsert" "\<nexists>i. upsert_id ?M f i"
    by blast
  then show "if found_in ?M f \<noteq> {} then
      \<exists>i d. picks ?M f order i d \<and>
        (let d' = ?upd d
         in update_ok u \<and> allowed c ?M i d' \<longrightarrow>
            (\<exists>s'. ?run = (Inr (if after then d' else d), s') \<and> replaced ref_view s c i (Some d') s'))
    else if \<not> upsert then ?run = (Inl (md_no_documents reference_driver), s)
    else if \<exists>i. upsert_id ?M f i then
      \<exists>i. upsert_id ?M f i \<and>
        (let d' = upsert_document f u i
         in update_ok u \<and> allowed c ?M i d' \<longrightarrow>
            (\<exists>s'. ?run = (if after then Inr d' else Inl (md_no_documents reference_driver), s') \<and>
              replaced ref_view s c i (Some d') s'))
    else True"
  proof cases
    case 1
    obtain i d where p: "picks ?M f order i d" and r: "allowed c ?M i (?upd d) \<longrightarrow>
        ref_change s c f u order upsert = Inr (Some d, ?upd d, ref_put s c i (?upd d))"
      using change_found [OF 1, of order u upsert] by blast
    have "allowed c ?M i (?upd d) \<longrightarrow>
        (\<exists>s'. ?run = (Inr (if after then ?upd d else d), s') \<and> replaced ref_view s c i (Some (?upd d)) s')"
      using allowed_put by (auto simp: ref_find_one_and_update_def r)
    with p show ?thesis unfolding if_P [OF 1] Let_def by blast
  next
    case 2
    then show ?thesis by (simp add: ref_find_one_and_update_def change_missing)
  next
    case 3
    obtain i where p: "upsert_id ?M f i" and r: "allowed c ?M i (upsert_document f u i) \<longrightarrow>
        ref_change s c f u order True = Inr (None, upsert_document f u i, ref_put s c i (upsert_document f u i))"
      using change_upsert [OF 3(1,3), of u order] by blast
    have "allowed c ?M i (upsert_document f u i) \<longrightarrow>
        (\<exists>s'. ?run = (if after then Inr (upsert_document f u i) else Inl (md_no_documents reference_driver), s') \<and>
          replaced ref_view s c i (Some (upsert_document f u i)) s')"
      using allowed_put 3(2) by (auto simp: ref_find_one_and_update_def r)
    moreover have n: "\<not> found_in ?M f \<noteq> {}" "\<not> \<not> upsert" and e: "\<exists>i. upsert_id ?M f i" using 3 by blast+
    ultimately show ?thesis
      using p unfolding if_not_P [OF n(1)] if_not_P [OF n(2)] if_P [OF e] Let_def by blast
  next
    case 4
    then show ?thesis by auto
  qed
qed

lemma reference_update_one: "update_one_law reference_driver ref_view"
  unfolding update_one_law_def
proof (intro allI)
  fix s c f u upsert
  let ?M = "ref_view s c" and ?upd = "apply_update False (marshal u)"
    and ?run = "md_update_one reference_driver c f u upsert s"
  consider "found_in ?M f \<noteq> {}" | "found_in ?M f = {}" "\<not> upsert" | j where "found_in ?M f = {}" "upsert" "upsert_id ?M f j"
    | "found_in ?M f = {}" "upsert" "\<nexists>i. upsert_id ?M f i"
    by blast
  then show "if found_in ?M f \<noteq> {} then
      \<exists>i d. picks ?M f [] i d \<and>
        (let d' = ?upd d
         in update_ok u \<and> allowed c ?M i d' \<longrightarrow> (\<exists>s'. ?run = (Inr 1, s') \<and> replaced ref_view s c i (Some d') s'))
    else if \<not> upsert then ?run = (Inr 0, s)
    else if \<exists>i. upsert_id ?M f i then
      \<exists>i. upsert_id ?M f i \<and>
        (let d' = upsert_document f u i
         in update_ok u \<and> allowed c ?M i d' \<longrightarrow> (\<exists>s'. ?run = (Inr 0, s') \<and> replaced ref_view s c i (Some d') s'))
    else True"
  proof cases
    case 1
    obtain i d where p: "picks ?M f [] i d" and r: "allowed c ?M i (?upd d) \<longrightarrow>
        ref_change s c f u [] upsert = Inr (Some d, ?upd d, ref_put s c i (?upd d))"
      using change_found [OF 1, of "[]" u upsert] by blast
    have "allowed c ?M i (?upd d) \<longrightarrow> (\<exists>s'. ?run = (Inr 1, s') \<and> replaced ref_view s c i (Some (?upd d)) s')"
      using allowed_put by (auto simp: ref_update_one_def r)
    with p show ?thesis unfolding if_P [OF 1] Let_def by blast
  next
    case 2
    then show ?thesis by (simp add: ref_update_one_def change_missing)
  next
    case 3
    obtain i where p: "upsert_id ?M f i" and r: "allowed c ?M i (upsert_document f u i) \<longrightarrow>
        ref_change s c f u [] True = Inr (None, upsert_document f u i, ref_put s c i (upsert_document f u i))"
      using change_upsert [OF 3(1,3), of u "[]"] by blast
    have "allowed c ?M i (upsert_document f u i) \<longrightarrow>
        (\<exists>s'. ?run = (Inr 0, s') \<and> replaced ref_view s c i (Some (upsert_document f u i)) s')"
      using allowed_put 3(2) by (auto simp: ref_update_one_def r)
    moreover have n: "\<not> found_in ?M f \<noteq> {}" "\<not> \<not> upsert" and e: "\<exists>i. upsert_id ?M f i" using 3 by blast+
    ultimately show ?thesis
      using p unfolding if_not_P [OF n(1)] if_not_P [OF n(2)] if_P [OF e] Let_def by blast
  next
    case 4
    then show ?thesis by auto
  qed
qed

lemma replaced_drop: "replaced ref_view s c i None (ref_drop s c [i])"
  by (auto simp: replaced_def ref_view_drop restrict_map_def fun_eq_iff)

lemma reference_delete_one:
  assumes "found_in (ref_view s c) f \<noteq> {}"
  obtains i d rest where "picks (ref_view s c) f [] i d" "ref_ordered s c f [] = i # rest" "d = ref_doc s c i"
proof -
  obtain i rest where o': "ref_ordered s c f [] = i # rest"
    using assms ref_none [of s c f "[]"] by (cases "ref_ordered s c f []") auto
  show ?thesis by (rule that [OF ref_first(1) [OF o'] o' refl])
qed

lemma reference_find_one_and_delete: "find_one_and_delete_law reference_driver ref_view"
  unfolding find_one_and_delete_law_def
proof (intro allI)
  fix s c f
  show "if found_in (ref_view s c) f = {}
      then md_find_one_and_delete reference_driver c f s = (Inl (md_no_documents reference_driver), s)
      else \<exists>i d s'. picks (ref_view s c) f [] i d \<and>
        md_find_one_and_delete reference_driver c f s = (Inr d, s') \<and> replaced ref_view s c i None s'"
  proof (cases "found_in (ref_view s c) f = {}")
    case True
    then show ?thesis using ref_none [of s c f "[]"] by (simp add: ref_find_one_and_delete_def)
  next
    case False
    then show ?thesis
      by (rule reference_delete_one) (use False replaced_drop in \<open>auto simp: ref_find_one_and_delete_def\<close>)
  qed
qed

lemma reference_delete: "delete_law reference_driver ref_view"
  unfolding delete_law_def
proof (intro allI conjI)
  fix s c f
  show "if found_in (ref_view s c) f = {} then md_delete_one reference_driver c f s = (Inr 0, s)
      else \<exists>i d s'. picks (ref_view s c) f [] i d \<and> md_delete_one reference_driver c f s = (Inr 1, s') \<and>
        replaced ref_view s c i None s'"
  proof (cases "found_in (ref_view s c) f = {}")
    case True
    then show ?thesis using ref_none [of s c f "[]"] by (simp add: ref_delete_one_def)
  next
    case False
    then show ?thesis
      by (rule reference_delete_one) (use False replaced_drop in \<open>auto simp: ref_delete_one_def\<close>)
  qed
  show "\<exists>s'. md_delete_many reference_driver c f s = (Inr (int (card (found_in (ref_view s c) f))), s') \<and>
      ref_view s' = (ref_view s)(c := (ref_view s c) |` (- found_in (ref_view s c) f))"
    by (simp add: reference_driver_def card_found ref_view_drop set_ref_found)
qed

subsection \<open>Many documents\<close>

lemma map_of_map_key: "map_of (map (\<lambda>(k, d). (k, g k d)) xs) k = map_option (g k) (map_of xs k)"
  by (induction xs) auto

lemma ref_many_view:
  fixes s c f u
  defines "change \<equiv> \<lambda>i. map_option (\<lambda>d.
      if i \<in> found_in (ref_view s c) f then apply_update False (marshal u) d else d) (ref_view s c i)"
  assumes "\<forall>i d. change i = Some d \<longrightarrow> allowed c change i d"
  shows "ref_view (map (\<lambda>((c', i), d). ((c', i),
      if c' = c \<and> i \<in> set (ref_found s c f) then apply_update False (marshal u) (ref_doc s c i) else d)) s) =
    (ref_view s)(c := change)"
proof -
  let ?g = "\<lambda>k d. if fst k = c \<and> snd k \<in> set (ref_found s c f)
    then apply_update False (marshal u) (ref_doc s c (snd k)) else d"
  have "(\<lambda>((c', i), d). ((c', i),
      if c' = c \<and> i \<in> set (ref_found s c f) then apply_update False (marshal u) (ref_doc s c i) else d)) =
    (\<lambda>(k, d). (k, ?g k d))"
    by (auto simp: fun_eq_iff)
  then have m: "map_of (map (\<lambda>((c', i), d). ((c', i),
      if c' = c \<and> i \<in> set (ref_found s c f) then apply_update False (marshal u) (ref_doc s c i) else d)) s) k =
    map_option (?g k) (map_of s k)" for k
    by (simp add: map_of_map_key)
  have id: "map_of d ''_id'' = Some i" if "change i = Some d" for i d
    using assms(2) that by (simp add: allowed_def)
  show ?thesis
  proof (intro ext)
    fix c' i
    show "ref_view (map (\<lambda>((c', i), d). ((c', i),
        if c' = c \<and> i \<in> set (ref_found s c f) then apply_update False (marshal u) (ref_doc s c i) else d)) s) c' i =
      ((ref_view s)(c := change)) c' i"
    proof (cases "c' = c")
      case False
      then show ?thesis by (auto simp: ref_view_def m split: option.split)
    next
      case True
      have found: "i \<in> set (ref_found s c f) \<longleftrightarrow> i \<in> found_in (ref_view s c) f" by (simp add: set_ref_found)
      show ?thesis
      proof (cases "ref_view s c i")
        case None
        then have "i \<notin> found_in (ref_view s c) f" by (simp add: found_in_def)
        with None True show ?thesis
          by (auto simp: ref_view_def m found change_def split: option.splits if_splits)
      next
        case (Some d)
        then have "map_of s (c, i) = Some d" by (simp add: ref_view_def split: option.splits if_splits)
        moreover have "change i = Some (if i \<in> found_in (ref_view s c) f then apply_update False (marshal u) d else d)"
          using Some by (simp add: change_def)
        moreover from id [OF this] have
          "map_of (if i \<in> found_in (ref_view s c) f then apply_update False (marshal u) d else d) ''_id'' = Some i" .
        ultimately show ?thesis using True Some by (auto simp: ref_view_def m found ref_doc_def split: if_splits)
      qed
    qed
  qed
qed

lemma reference_many: "many_law reference_driver ref_view"
  unfolding many_law_def Let_def
proof (intro allI impI)
  fix s c f u
  let ?M = "ref_view s c"
  let ?change = "\<lambda>i. map_option (\<lambda>d. if i \<in> found_in ?M f then apply_update False (marshal u) d else d) (?M i)"
  assume "update_ok u \<and> (\<forall>i d. ?change i = Some d \<longrightarrow> allowed c ?change i d)"
  then have ok: "\<forall>i d. ?change i = Some d \<longrightarrow> allowed c ?change i d" ..
  define s' where "s' = map (\<lambda>((c', i), d). ((c', i),
      if c' = c \<and> i \<in> set (ref_found s c f) then apply_update False (marshal u) (ref_doc s c i) else d)) s"
  have v: "ref_view s' = (ref_view s)(c := ?change)" unfolding s'_def by (rule ref_many_view [OF ok])
  have "ref_allowed s' c i (ref_doc s' c i)" if "i \<in> set (ref_ids s' c)" for i
  proof -
    have "?change i \<noteq> None" using that by (auto simp: dom_ref_ids v)
    then obtain d where "?change i = Some d" by blast
    moreover from this have "allowed c ?change i d" using ok by blast
    moreover have "ref_view s' c = ?change" by (simp add: v)
    ultimately show ?thesis by (simp only: ref_allowed_iff ref_doc_def option.sel)
  qed
  then have all: "list_all (\<lambda>i. ref_allowed s' c i (ref_doc s' c i)) (ref_ids s' c)"
    by (simp add: list_all_iff)
  have "{i \<in> found_in ?M f. ?change i \<noteq> ?M i} =
      set (filter (\<lambda>i. apply_update False (marshal u) (ref_doc s c i) \<noteq> ref_doc s c i) (ref_found s c f))"
    by (auto simp: set_ref_found found_in_def ref_doc_def)
  then have "card {i \<in> found_in ?M f. ?change i \<noteq> ?M i} =
      length (filter (\<lambda>i. apply_update False (marshal u) (ref_doc s c i) \<noteq> ref_doc s c i) (ref_found s c f))"
    by (simp only: distinct_card distinct_filter distinct_ref_found)
  then show "\<exists>s'. md_update_many reference_driver c f u s =
      (Inr (int (card {i \<in> found_in ?M f. ?change i \<noteq> ?M i})), s') \<and> ref_view s' = (ref_view s)(c := ?change)"
    using v all by (intro exI [of _ s']) (simp add: ref_update_many_def Let_def flip: s'_def)
qed

lemma reference_documented: "mongo_documented reference_driver ref_view"
  by (simp add: mongo_documented_def reference_ids reference_insert reference_find_one reference_find
      reference_find_one_and_update reference_find_one_and_delete reference_update_one reference_many
      reference_delete reference_count errors_law_def no_documents_def duplicate_key_def)

end
