(* ===== verification/Store_Invariant.thy ===== *)
theory Store_Invariant
  imports Store_Events Store_Participations Store_Jobs Store_Accounts
begin

section \<open>The invariant of the whole repository\<close>

text \<open>
  Every collection's condition at once, and that every repository method keeps it. The
  facts are in the collection \<open>preserves_intros\<close>, so a use case keeps the invariant by
  \<open>intro preserves_intros\<close>.
\<close>

definition store_inv :: "store \<Rightarrow> bool" where
  "store_inv s \<longleftrightarrow>
     workspaces_ok s \<and> events_ok s \<and> participations_ok s \<and> jobs_ok s \<and> accounts_ok s"

lemmas store_ok_defs =
  workspaces_ok_def events_ok_def participations_ok_def jobs_ok_def accounts_ok_def keyed_jobs_def

lemma store_inv_new: "store_inv new_store"
  by (simp add: store_inv_def store_ok_defs new_store_def)

text \<open>A method that touches one collection, and the counter, keeps the others' conditions.\<close>

definition untouched :: "store \<Rightarrow> store \<Rightarrow> bool list" where
  "untouched s s' =
     [st_workspaces s' = st_workspaces s, st_events s' = st_events s,
      st_participations s' = st_participations s, st_jobs s' = st_jobs s,
      st_reminder_logs s' = st_reminder_logs s \<and> st_console_users s' = st_console_users s \<and>
      st_chat_identities s' = st_chat_identities s]"

lemma ids_ok_grow: "ids_ok m (map k xs) \<Longrightarrow> m \<le> n \<Longrightarrow> ids_ok n (map k xs)"
  by (rule ids_ok_mono)

lemma frames:
  assumes "store_inv s" and "st_seq s \<le> st_seq s'"
  shows "untouched s s' ! 0 \<Longrightarrow> workspaces_ok s'" "untouched s s' ! 1 \<Longrightarrow> events_ok s'"
    "untouched s s' ! 2 \<Longrightarrow> participations_ok s'" "untouched s s' ! 3 \<Longrightarrow> jobs_ok s'"
    "untouched s s' ! 4 \<Longrightarrow> accounts_ok s'"
  using assms
  by (auto simp: untouched_def store_inv_def store_ok_defs numeral_nat intro: ids_ok_grow)

lemma store_inv_slots:
  assumes "store_inv s" and "st_seq s \<le> st_seq s'"
    and "untouched s s' ! 0 \<or> workspaces_ok s'" and "untouched s s' ! 1 \<or> events_ok s'"
    and "untouched s s' ! 2 \<or> participations_ok s'" and "untouched s s' ! 3 \<or> jobs_ok s'"
    and "untouched s s' ! 4 \<or> accounts_ok s'"
  shows "store_inv s'"
  using frames [OF assms(1,2)] assms(3-) by (auto simp: store_inv_def)

lemma slots [simp]:
  "untouched s s' ! 0 \<longleftrightarrow> st_workspaces s' = st_workspaces s"
  "untouched s s' ! 1 \<longleftrightarrow> st_events s' = st_events s"
  "untouched s s' ! Suc 0 \<longleftrightarrow> st_events s' = st_events s"
  "untouched s s' ! 2 \<longleftrightarrow> st_participations s' = st_participations s"
  "untouched s s' ! 3 \<longleftrightarrow> st_jobs s' = st_jobs s"
  "untouched s s' ! 4 \<longleftrightarrow> st_reminder_logs s' = st_reminder_logs s \<and>
     st_console_users s' = st_console_users s \<and> st_chat_identities s' = st_chat_identities s"
  by (simp_all add: untouched_def numeral_nat)

lemma store_inv_parts:
  "store_inv s \<Longrightarrow> workspaces_ok s" "store_inv s \<Longrightarrow> events_ok s"
  "store_inv s \<Longrightarrow> participations_ok s" "store_inv s \<Longrightarrow> jobs_ok s" "store_inv s \<Longrightarrow> accounts_ok s"
  by (simp_all add: store_inv_def)

lemmas events_op_defs =
  events_create_def change_event_def next_id_def Let_def
lemmas participations_op_defs =
  participations_upsert_def participations_set_status_def next_id_def Let_def
lemmas jobs_op_defs =
  jobs_enqueue_def jobs_claim_def update_job_def change_job_def jobs_extend_lease_def
  jobs_cancel_by_event_def next_id_def Let_def
lemmas accounts_op_defs =
  reminder_logs_append_def console_users_create_def console_users_touch_login_def
  chat_identities_link_def chat_identities_unlink_def next_id_def Let_def
lemmas secrets_op_defs =
  link_tokens_create_def link_tokens_consume_def sessions_create_def sessions_touch_def
  oauth_states_create_def oauth_states_consume_def Let_def

text \<open>The same three lines serve every method: its own slot, then the frame.\<close>

lemma preserves_slot:
  assumes "\<And>s. store_inv s \<Longrightarrow> st_seq s \<le> st_seq (snd (m s)) \<and>
      (untouched s (snd (m s)) ! 0 \<or> workspaces_ok (snd (m s))) \<and>
      (untouched s (snd (m s)) ! 1 \<or> events_ok (snd (m s))) \<and>
      (untouched s (snd (m s)) ! 2 \<or> participations_ok (snd (m s))) \<and>
      (untouched s (snd (m s)) ! 3 \<or> jobs_ok (snd (m s))) \<and>
      (untouched s (snd (m s)) ! 4 \<or> accounts_ok (snd (m s)))"
  shows "preserves store_inv m"
  using assms store_inv_slots by (auto simp: preserves_def simp del: slots)

lemma meta_preserves [preserves_intros]:
  "preserves store_inv meta_get_provider" "preserves store_inv (meta_save_provider p)"
  "preserves store_inv meta_schema_version" "preserves store_inv (meta_set_schema_version v)"
  by (rule preserves_slot; simp add: meta_get_provider_def meta_save_provider_def
      meta_schema_version_def meta_set_schema_version_def)+

lemma workspaces_preserves [preserves_intros]:
  "preserves store_inv (workspaces_get i)"
  "preserves store_inv (workspaces_get_by_external_id k x)"
  "preserves store_inv workspaces_list"
  "preserves store_inv (workspaces_upsert w now)"
  "preserves store_inv (workspaces_update_settings i st now)"
proof -
  show "preserves store_inv (workspaces_upsert w now)"
    by (rule preserves_slot, drule workspaces_upsert_ok [OF store_inv_parts(1), of _ w now])
      (simp add: workspaces_upsert_def next_id_def Let_def split: option.split)
  show "preserves store_inv (workspaces_update_settings i st now)"
    by (rule preserves_slot,
        drule workspaces_update_settings_ok [OF store_inv_parts(1), of _ i st now])
      (simp add: workspaces_update_settings_def Let_def split: option.split)
qed (simp_all add: workspaces_get_def workspaces_get_by_external_id_def workspaces_list_def
      preserves_gets)

lemma change_event_preserves:
  "(\<And>e. ev_id (f e) = ev_id e) \<Longrightarrow> preserves store_inv (change_event i f)"
  by (rule preserves_slot, drule change_event_ok [OF _ store_inv_parts(2), of f _ i])
    (auto simp: change_event_def split: option.split)

lemma events_preserves [preserves_intros]:
  "preserves store_inv (events_create e)" "preserves store_inv (events_get i)"
  "preserves store_inv (events_get_by_channel_id c)" "preserves store_inv (events_list f)"
  "preserves store_inv (events_update e)" "preserves store_inv (events_set_channel i ch now)"
  "preserves store_inv (events_set_messages i ms now)"
  "preserves store_inv (events_add_participant_count i d now)"
proof -
  show "preserves store_inv (events_create e)"
    by (rule preserves_slot, drule events_create_ok [OF store_inv_parts(2), of _ e])
      (simp add: events_create_def next_id_def Let_def)
qed (simp_all add: events_get_def events_get_by_channel_id_def events_list_def preserves_gets
      events_update_def events_set_channel_def events_set_messages_def
      events_add_participant_count_def change_event_preserves)

lemma participations_preserves [preserves_intros]:
  "preserves store_inv (participations_upsert u)" "preserves store_inv (participations_get i)"
  "preserves store_inv (participations_get_by_user e v)"
  "preserves store_inv (participations_set_status i st now)"
  "preserves store_inv (participations_list_by_event e sts)"
  "preserves store_inv (participations_count_active e r)"
proof -
  show "preserves store_inv (participations_upsert u)"
    by (rule preserves_slot, drule participations_upsert_ok [OF store_inv_parts(3), of _ u])
      (simp add: participations_op_defs split: option.split)
  show "preserves store_inv (participations_set_status i st now)"
    by (rule preserves_slot,
        drule participations_set_status_ok [OF store_inv_parts(3), of _ i st now])
      (simp add: participations_op_defs split: option.split)
qed (simp_all add: participations_get_def participations_get_by_user_def
      participations_list_by_event_def participations_count_active_def preserves_gets)

lemma jobs_preserves [preserves_intros]:
  "preserves store_inv (jobs_get i)" "preserves store_inv (jobs_list_by_event e jsts)"
  "preserves store_inv (jobs_enqueue j now)" "preserves store_inv (jobs_claim now lease)"
  "preserves store_inv (jobs_complete i now)" "preserves store_inv (jobs_retry i t er now)"
  "preserves store_inv (jobs_fail i er now)" "preserves store_inv (jobs_reschedule i t now)"
  "preserves store_inv (jobs_extend_lease i t now)"
  "preserves store_inv (jobs_cancel_by_event e ks now)"
proof -
  show "preserves store_inv (jobs_enqueue j now)"
    by (rule preserves_slot, drule jobs_enqueue_ok [OF store_inv_parts(4), of _ j now])
      (simp add: jobs_op_defs)
  show "preserves store_inv (jobs_claim now lease)"
    by (rule preserves_slot, drule jobs_claim_ok [OF store_inv_parts(4), of _ now lease])
      (simp add: jobs_op_defs split: option.split)
  show "preserves store_inv (jobs_extend_lease i t now)"
    by (rule preserves_slot, drule jobs_extend_lease_ok [OF store_inv_parts(4), of _ i t now])
      (simp add: jobs_op_defs split: option.split)
  show "preserves store_inv (jobs_cancel_by_event e ks now)"
    by (rule preserves_slot, drule jobs_cancel_by_event_ok [OF store_inv_parts(4), of _ e ks now])
      (simp add: jobs_op_defs)
  show "preserves store_inv (jobs_complete i now)"
    by (rule preserves_slot, drule verdict_ok(1) [OF store_inv_parts(4), of _ i now])
      (simp add: jobs_complete_def jobs_op_defs split: option.split)
  show "preserves store_inv (jobs_retry i t er now)"
    by (rule preserves_slot, drule verdict_ok(2) [OF store_inv_parts(4), of _ i t er now])
      (simp add: jobs_retry_def jobs_op_defs split: option.split)
  show "preserves store_inv (jobs_fail i er now)"
    by (rule preserves_slot, drule verdict_ok(3) [OF store_inv_parts(4), of _ i er now])
      (simp add: jobs_fail_def jobs_op_defs split: option.split)
  show "preserves store_inv (jobs_reschedule i t now)"
    by (rule preserves_slot, drule verdict_ok(4) [OF store_inv_parts(4), of _ i t now])
      (simp add: jobs_reschedule_def jobs_op_defs split: option.split)
qed (simp_all add: jobs_get_def jobs_list_by_event_def preserves_gets)

lemma accounts_preserves [preserves_intros]:
  "preserves store_inv (reminder_logs_append l)"
  "preserves store_inv (reminder_logs_list_by_event e)"
  "preserves store_inv (reminder_logs_sent_at e t)"
  "preserves store_inv (reminder_logs_sent_sequence e n)"
  "preserves store_inv (console_users_get i)"
  "preserves store_inv (console_users_get_by_google_sub i)"
  "preserves store_inv (console_users_create u)"
  "preserves store_inv (console_users_touch_login i now)"
  "preserves store_inv (chat_identities_link c)"
  "preserves store_inv (chat_identities_get w v)"
  "preserves store_inv (chat_identities_list_by_user i)"
  "preserves store_inv (chat_identities_unlink i)"
proof -
  show "preserves store_inv (reminder_logs_append l)"
    by (rule preserves_slot, drule reminder_logs_append_ok [OF store_inv_parts(5), of _ l])
      (simp add: accounts_op_defs)
  show "preserves store_inv (console_users_create u)"
    by (rule preserves_slot, drule console_users_create_ok [OF store_inv_parts(5), of _ u])
      (simp add: accounts_op_defs)
  show "preserves store_inv (console_users_touch_login i now)"
    by (rule preserves_slot, drule console_users_touch_login_ok [OF store_inv_parts(5), of _ i now])
      (simp add: accounts_op_defs split: option.split)
  show "preserves store_inv (chat_identities_link c)"
    by (rule preserves_slot, drule chat_identities_link_ok [OF store_inv_parts(5), of _ c])
      (simp add: accounts_op_defs)
  show "preserves store_inv (chat_identities_unlink i)"
    by (rule preserves_slot, drule chat_identities_unlink_ok [OF store_inv_parts(5), of _ i])
      (simp add: accounts_op_defs split: option.split)
qed (simp_all add: reminder_logs_list_by_event_def reminder_logs_sent_at_def
      reminder_logs_sent_sequence_def console_users_get_def console_users_get_by_google_sub_def
      chat_identities_get_def chat_identities_list_by_user_def preserves_gets)

lemma secrets_preserves [preserves_intros]:
  "preserves store_inv (link_tokens_create tk)" "preserves store_inv (link_tokens_get i)"
  "preserves store_inv (link_tokens_consume i now)" "preserves store_inv (sessions_create se)"
  "preserves store_inv (sessions_get i)" "preserves store_inv (sessions_touch i now)"
  "preserves store_inv (sessions_delete i)" "preserves store_inv (sessions_delete_by_user i)"
  "preserves store_inv (oauth_states_create st)" "preserves store_inv (oauth_states_consume i now)"
  by (rule preserves_slot; simp add: secrets_op_defs link_tokens_get_def sessions_get_def
      sessions_delete_def sessions_delete_by_user_def split: option.split)+

text \<open>A lookup keeps anything.\<close>

lemmas read_op_defs =
  meta_get_provider_def meta_schema_version_def workspaces_get_def
  workspaces_get_by_external_id_def workspaces_list_def events_get_def
  events_get_by_channel_id_def events_list_def participations_get_def
  participations_get_by_user_def participations_list_by_event_def
  participations_count_active_def jobs_get_def jobs_list_by_event_def
  reminder_logs_list_by_event_def reminder_logs_sent_at_def reminder_logs_sent_sequence_def
  console_users_get_def console_users_get_by_google_sub_def chat_identities_get_def
  chat_identities_list_by_user_def link_tokens_get_def sessions_get_def

lemma read_ops [preserves_intros]:
  "preserves I meta_get_provider" "preserves I meta_schema_version" "preserves I (workspaces_get i)"
  "preserves I (workspaces_get_by_external_id k x)" "preserves I workspaces_list"
  "preserves I (events_get i)" "preserves I (events_get_by_channel_id c)"
  "preserves I (events_list f)" "preserves I (participations_get i)"
  "preserves I (participations_get_by_user e v)"
  "preserves I (participations_list_by_event e sts)"
  "preserves I (participations_count_active e r)"
  "preserves I (jobs_get i)" "preserves I (jobs_list_by_event e jsts)"
  "preserves I (reminder_logs_list_by_event e)" "preserves I (reminder_logs_sent_at e t)"
  "preserves I (reminder_logs_sent_sequence e n)" "preserves I (console_users_get i)"
  "preserves I (console_users_get_by_google_sub g)" "preserves I (chat_identities_get w v)"
  "preserves I (chat_identities_list_by_user u)" "preserves I (link_tokens_get i)"
  "preserves I (sessions_get i)"
  by (simp_all add: read_op_defs preserves_gets)

end
