(* ===== verification/Manager_Ports.thy ===== *)
theory Manager_Ports
  imports Store_Invariant
begin

section \<open>The ports of the use cases and the world they run in\<close>

text \<open>
  \<open>internal/manager/usecase/ports.go\<close> and \<open>deps.go\<close>. A use case runs in a \<open>world\<close>: the
  repository and an environment of any type \<open>'e\<close>, which is everything behind the ports, the
  clock included. The record \<open>deps\<close> holds what \<open>Deps\<close> injects and what the code takes from
  the platform (time zones, random bytes, SHA-256): each port call is a function of the
  environment, so it may fail, change the environment or let time pass, but cannot touch
  the repository. Messages (generated protobuf types) are values of any type \<open>'m\<close>; \<open>None\<close> is
  a nil message. Logging is left out.
\<close>

record workspace_ref =
  wr_workspace_id :: string
  wr_external_id :: string

record create_channel_input =
  cc_name :: string
  cc_topic :: string
  cc_member_ids :: "string list"
  cc_category_id :: string

record channel_info =
  cf_id :: string
  cf_name :: string
  cf_is_private :: bool
  cf_archived :: bool

record provider_workspace =
  pw_external_id :: string
  pw_name :: string

record provider_info =
  pi_kind :: provider_kind
  pi_capabilities :: capabilities
  pi_version :: string
  pi_bot_user_id :: string
  pi_connected :: bool

record ('e, 'm) deps =
  dp_now :: "'e \<Rightarrow> time"
  dp_state :: "'e \<Rightarrow> provider_state"
  dp_get_info :: "('e, err, provider_info) prog"
  dp_list_workspaces :: "('e, err, provider_workspace list) prog"
  dp_create_channel :: "workspace_ref \<Rightarrow> create_channel_input \<Rightarrow> ('e, err, channel_info) prog"
  dp_add_member :: "workspace_ref \<Rightarrow> string \<Rightarrow> string \<Rightarrow> ('e, err, bool) prog"
  dp_remove_member :: "workspace_ref \<Rightarrow> string \<Rightarrow> string \<Rightarrow> ('e, err, bool) prog"
  dp_archive_channel :: "workspace_ref \<Rightarrow> string \<Rightarrow> string \<Rightarrow> ('e, err, channel_info) prog"
  dp_post_message :: "workspace_ref \<Rightarrow> string \<Rightarrow> 'm option \<Rightarrow> ('e, err, message_ref) prog"
  dp_update_message :: "workspace_ref \<Rightarrow> message_ref \<Rightarrow> 'm option \<Rightarrow> ('e, err, unit) prog"
  dp_pin_message :: "workspace_ref \<Rightarrow> message_ref \<Rightarrow> ('e, err, unit) prog"
  dp_unpin_message :: "workspace_ref \<Rightarrow> message_ref \<Rightarrow> ('e, err, unit) prog"
  dp_announcement :: "event \<Rightarrow> duration \<Rightarrow> 'm option"
  dp_summary :: "event \<Rightarrow> 'm option"
  dp_reminder :: "event \<Rightarrow> time \<Rightarrow> string list \<Rightarrow> 'm option"
  dp_recruit_reminder :: "event \<Rightarrow> time \<Rightarrow> duration \<Rightarrow> 'm option"
  dp_closing :: "event \<Rightarrow> 'm option"
  dp_transition :: "transition_kind \<Rightarrow> string \<Rightarrow> int \<Rightarrow> time \<Rightarrow> 'm option"
  dp_left :: "string \<Rightarrow> int \<Rightarrow> 'm option"
  dp_removed_by_organizer :: "string \<Rightarrow> 'm option"
  dp_load_location :: "string \<Rightarrow> location option"
  dp_channel_name :: "string \<Rightarrow> string \<Rightarrow> time \<Rightarrow> location \<Rightarrow> int \<Rightarrow> string"
  dp_with_suffix :: "string \<Rightarrow> int \<Rightarrow> int \<Rightarrow> string"
  dp_random :: "('e, err, nat list) prog"
  dp_sha256 :: "string \<Rightarrow> nat list"

record 'e world =
  wd_store :: store
  wd_env :: 'e

type_synonym ('e, 'a) usecase = "('e world, err, 'a) prog"

definition repo :: "'a store_op \<Rightarrow> ('e, 'a) usecase" where
  "repo m = (\<lambda>w. case m (wd_store w) of (r, s) \<Rightarrow> (r, w\<lparr>wd_store := s\<rparr>))"

definition port :: "('e, err, 'a) prog \<Rightarrow> ('e, 'a) usecase" where
  "port m = (\<lambda>w. case m (wd_env w) of (r, e) \<Rightarrow> (r, w\<lparr>wd_env := e\<rparr>))"

text \<open>An invariant of the repository, as one of the world.\<close>

definition in_store :: "(store \<Rightarrow> bool) \<Rightarrow> 'e world \<Rightarrow> bool" where
  "in_store I w \<longleftrightarrow> I (wd_store w)"

lemma run_repo: "repo m w = (fst (m (wd_store w)), w\<lparr>wd_store := snd (m (wd_store w))\<rparr>)"
  by (simp add: repo_def split: prod.split)

lemma run_port: "port m w = (fst (m (wd_env w)), w\<lparr>wd_env := snd (m (wd_env w))\<rparr>)"
  by (simp add: port_def split: prod.split)

lemma preserves_repo [preserves_intros]: "preserves I m \<Longrightarrow> preserves (in_store I) (repo m)"
  by (simp add: preserves_def run_repo in_store_def)

lemma preserves_port [preserves_intros]: "preserves (in_store I) (port m)"
  by (simp add: preserves_def run_port in_store_def)

subsection \<open>Helpers of \<open>Deps\<close>\<close>

definition now_of :: "('e, 'm) deps \<Rightarrow> ('e, time) usecase" where
  "now_of d = m_gets (\<lambda>w. Inr (dp_now d (wd_env w)))"

definition require_provider_online :: "('e, 'm) deps \<Rightarrow> ('e, unit) usecase" where
  "require_provider_online d = m_gets (\<lambda>w.
     if ps_status (dp_state d (wd_env w)) \<noteq> ProviderStatusOnline
     then Inl ErrProviderUnavailable else Inr ())"

definition get_workspace :: "string \<Rightarrow> ('e, workspace) usecase" where
  "get_workspace i = repo (workspaces_get i)"

definition get_event :: "string \<Rightarrow> ('e, event) usecase" where
  "get_event i = repo (events_get i)"

definition workspace_ref_of :: "workspace \<Rightarrow> workspace_ref" where
  "workspace_ref_of w = \<lparr>wr_workspace_id = ws_id w, wr_external_id = ws_external_id w\<rparr>"

definition post ::
  "('e, 'm) deps \<Rightarrow> workspace \<Rightarrow> string \<Rightarrow> 'm option \<Rightarrow> ('e, unit) usecase" where
  "post d ws channel_id msg =
     (if channel_id = '''' \<or> msg = None then m_return ()
      else m_bind (m_try (port (dp_post_message d (workspace_ref_of ws) channel_id msg)))
             (\<lambda>_. m_return ()))"

definition update_message ::
  "('e, 'm) deps \<Rightarrow> workspace \<Rightarrow> message_ref option \<Rightarrow> 'm option \<Rightarrow> ('e, unit) usecase" where
  "update_message d ws ref msg =
     (case ref of
        None \<Rightarrow> m_return ()
      | Some r \<Rightarrow>
          if msg = None then m_return ()
          else m_bind (m_try (port (dp_update_message d (workspace_ref_of ws) r msg)))
                 (\<lambda>_. m_return ()))"

definition pin :: "('e, 'm) deps \<Rightarrow> workspace \<Rightarrow> message_ref \<Rightarrow> ('e, unit) usecase" where
  "pin d ws ref =
     m_bind (m_try (port (dp_pin_message d (workspace_ref_of ws) ref))) (\<lambda>_. m_return ())"

definition unpin :: "('e, 'm) deps \<Rightarrow> workspace \<Rightarrow> message_ref option \<Rightarrow> ('e, unit) usecase" where
  "unpin d ws ref =
     (case ref of
        None \<Rightarrow> m_return ()
      | Some r \<Rightarrow> m_bind (m_try (port (dp_unpin_message d (workspace_ref_of ws) r)))
          (\<lambda>_. m_return ()))"

text \<open>A duplicate key means that the job is queued already.\<close>

definition enqueue :: "('e, 'm) deps \<Rightarrow> job \<Rightarrow> ('e, unit) usecase" where
  "enqueue d j =
     m_bind (now_of d) (\<lambda>now.
     m_bind (m_try (repo (jobs_enqueue j now))) (\<lambda>r.
       case r of
         Inl e \<Rightarrow> if errors_is e ErrAlreadyExists then m_return () else m_throw e
       | Inr _ \<Rightarrow> m_return ()))"

lemma now_of_run [simp]: "now_of d w = (Inr (dp_now d (wd_env w)), w)"
  by (simp add: now_of_def)

subsection \<open>Calls that never fail and leave the repository alone\<close>

text \<open>\<open>silent m\<close>: whatever happens outside, \<open>m\<close> returns and the repository is as before.\<close>

definition silent :: "('e, 'a) usecase \<Rightarrow> bool" where
  "silent m \<longleftrightarrow> (\<forall>w. (\<exists>x. fst (m w) = Inr x) \<and> wd_store (snd (m w)) = wd_store w)"

lemma silentD: "silent m \<Longrightarrow> \<exists>x w'. m w = (Inr x, w') \<and> wd_store w' = wd_store w"
  unfolding silent_def by (metis prod.collapse)

lemma silent_return [simp]: "silent (m_return x)"
  by (simp add: silent_def)

lemma silent_bind: "silent m \<Longrightarrow> (\<And>x. silent (f x)) \<Longrightarrow> silent (m_bind m f)"
  by (simp add: silent_def run_bind split: sum.split) (metis sum.inject(2) sum.simps(4))

lemma silent_try_port [simp]: "silent (m_try (port m))"
  by (simp add: silent_def run_port)

lemma silent_now [simp]: "silent (now_of d)"
  by (simp add: silent_def)

lemma silent_post [simp]: "silent (post d ws c msg)"
  by (simp add: post_def silent_bind)

lemma silent_update_message [simp]: "silent (update_message d ws r msg)"
  by (simp add: update_message_def silent_bind split: option.split)

lemma silent_pin [simp]: "silent (pin d ws r)"
  by (simp add: pin_def silent_bind)

lemma silent_unpin [simp]: "silent (unpin d ws r)"
  by (simp add: unpin_def silent_bind split: option.split)

lemma preserves_silent: "silent m \<Longrightarrow> preserves (in_store I) m"
  by (simp add: preserves_def silent_def in_store_def)

lemma deps_preserves [preserves_intros]:
  "preserves (in_store I) (now_of d)" "preserves (in_store I) (require_provider_online d)"
  "preserves (in_store I) (post d ws c msg)" "preserves (in_store I) (update_message d ws r msg)"
  "preserves (in_store I) (pin d ws r')" "preserves (in_store I) (unpin d ws r)"
  by (simp_all add: preserves_silent require_provider_online_def preserves_gets)

lemma get_preserves [preserves_intros]:
  "preserves (in_store I) (get_workspace i)" "preserves (in_store I) (get_event i)"
  by (simp_all add: preserves_def get_workspace_def get_event_def run_repo workspaces_get_def
      events_get_def in_store_def)

lemma enqueue_preserves:
  "(\<And>now. preserves I (jobs_enqueue j now)) \<Longrightarrow> preserves (in_store I) (enqueue d j)"
  unfolding enqueue_def by (intro preserves_intros)

declare enqueue_preserves [preserves_intros]

end
