(* ===== verification/Usecase_Events.thy ===== *)
theory Usecase_Events
  imports Manager_Ports
begin

section \<open>The event service\<close>

text \<open>
  \<open>internal/manager/usecase/event.go\<close> and the scheduling half of \<open>reminder.go\<close>: the life
  cycle of an event with its channel, messages and jobs. A helper that changes the event
  it is given a pointer to returns the changed event; \<open>provision\<close> does so on failure too,
  because its caller goes on with it.
\<close>

record create_event_input =
  ce_workspace_id :: string
  ce_title :: string
  ce_description :: string
  ce_location :: string
  ce_starts_at :: time
  ce_ends_at :: "time option"
  ce_organizer :: chat_user_ref
  ce_origin_channel_id :: string
  ce_reminder_policy :: "reminder_policy option"
  ce_created_via :: created_via
  ce_created_by :: string

record actor =
  ac_chat_user_id :: string
  ac_console :: bool

record update_event_input =
  ue_event_id :: string
  ue_update :: event_update
  ue_actor :: actor

record close_event_input =
  cl_event_id :: string
  cl_reason :: end_reason
  cl_actor :: actor

definition console_actor :: actor where
  "console_actor = \<lparr>ac_chat_user_id = '''', ac_console = True\<rparr>"

definition channel_name_attempts :: int where "channel_name_attempts = 3"
definition slack_max_len :: int where "slack_max_len = 80"
definition discord_max_len :: int where "discord_max_len = 90"

definition channel_name_limit :: "provider_kind \<Rightarrow> int" where
  "channel_name_limit kind = (if kind = ProviderKindDiscord then discord_max_len else slack_max_len)"

definition authorize_manage :: "event \<Rightarrow> actor \<Rightarrow> unit result" where
  "authorize_manage ev actor =
     (if ac_console actor then Inr ()
      else if ac_chat_user_id actor \<noteq> cu_user_id (ev_organizer ev) then Inl ErrForbidden
      else Inr ())"

subsection \<open>Scheduling the reminders\<close>

definition next_reminder_sequence :: "string \<Rightarrow> ('e, int) usecase" where
  "next_reminder_sequence event_id =
     m_bind (repo (jobs_list_by_event event_id [])) (\<lambda>js.
       m_return (foldl (\<lambda>highest j. if jb_kind j = JobReminder
                          then max highest (jp_sequence (jb_payload j)) else highest) 0 js + 1))"

fun enqueue_reminders ::
  "('e, 'm) deps \<Rightarrow> string \<Rightarrow> time list \<Rightarrow> int \<Rightarrow> ('e, unit) usecase" where
  "enqueue_reminders d event_id [] sequence = m_return ()"
| "enqueue_reminders d event_id (at # ats) sequence =
     m_bind (repo (reminder_logs_sent_at event_id at)) (\<lambda>sent.
       if sent then enqueue_reminders d event_id ats sequence
       else m_bind (enqueue d (new_reminder_job event_id sequence at)) (\<lambda>_.
              enqueue_reminders d event_id ats (sequence + 1)))"

text \<open>\<open>Policy.Schedule\<close> as a call: a loop that does not return is \<open>ErrDiverged\<close>.\<close>

definition policy_times :: "reminder_policy \<Rightarrow> time \<Rightarrow> time \<Rightarrow> location \<Rightarrow> time list result" where
  "policy_times p now starts_at loc =
     (case schedule p now starts_at loc of None \<Rightarrow> Inl ErrDiverged | Some r \<Rightarrow> r)"

definition schedule_reminders :: "('e, 'm) deps \<Rightarrow> workspace \<Rightarrow> event \<Rightarrow> ('e, unit) usecase" where
  "schedule_reminders d ws ev =
     m_bind (now_of d) (\<lambda>now.
     m_bind (repo (jobs_cancel_by_event (ev_id ev) [JobReminder] now)) (\<lambda>_.
     if ev_status ev \<noteq> EventStatusOpen then m_return ()
     else
       m_bind (m_lift (settings_location (dp_load_location d) (ws_settings ws))) (\<lambda>loc.
       m_bind (m_lift (policy_times (ev_reminder_policy ev) now (ev_starts_at ev) loc)) (\<lambda>times.
       m_bind (next_reminder_sequence (ev_id ev)) (\<lambda>sequence.
         enqueue_reminders d (ev_id ev) times sequence)))))"

subsection \<open>Create\<close>

definition register_organizer :: "workspace \<Rightarrow> event \<Rightarrow> time \<Rightarrow> ('e, event) usecase" where
  "register_organizer ws ev now =
     m_bind (repo (participations_upsert
       \<lparr>pu_event_id = ev_id ev, pu_workspace_id = ws_id ws,
        pu_chat_user_id = cu_user_id (ev_organizer ev),
        pu_display_name = cu_display_name (ev_organizer ev),
        pu_role = RoleParticipant, pu_expires_at = None, pu_now = now\<rparr>)) (\<lambda>_.
     m_bind (repo (events_add_participant_count (ev_id ev) 1 now)) (\<lambda>_.
       m_return (ev\<lparr>ev_participant_count := ev_participant_count ev + 1\<rparr>)))"

fun create_channel_loop ::
  "('e, 'm) deps \<Rightarrow> workspace \<Rightarrow> event \<Rightarrow> string \<Rightarrow> int list \<Rightarrow> err \<Rightarrow> ('e, channel_info) usecase"
where
  "create_channel_loop d ws ev base [] last_err =
     m_throw (ErrWrapped (''create channel '' @ base) last_err)"
| "create_channel_loop d ws ev base (attempt # rest) last_err =
     m_bind (m_try (port (dp_create_channel d (workspace_ref_of ws)
       \<lparr>cc_name = (if 0 < attempt
                   then dp_with_suffix d base (attempt + 1) (channel_name_limit (ws_provider ws))
                   else base),
        cc_topic = ev_title ev, cc_member_ids = [cu_user_id (ev_organizer ev)],
        cc_category_id = ds_event_category_id (wss_discord (ws_settings ws))\<rparr>))) (\<lambda>r.
     case r of
       Inr channel \<Rightarrow> m_return channel
     | Inl e \<Rightarrow>
         if \<not> errors_is e ErrNameTaken \<and> \<not> errors_is e ErrAlreadyExists then m_throw e
         else create_channel_loop d ws ev base rest e)"

definition create_channel ::
  "('e, 'm) deps \<Rightarrow> workspace \<Rightarrow> event \<Rightarrow> ('e, channel_info) usecase" where
  "create_channel d ws ev =
     m_bind (m_lift (settings_location (dp_load_location d) (ws_settings ws))) (\<lambda>loc.
       create_channel_loop d ws ev
         (dp_channel_name d (wss_channel_name_prefix (ws_settings ws)) (ev_title ev)
            (ev_starts_at ev) loc (channel_name_limit (ws_provider ws)))
         [0..channel_name_attempts - 1] (ErrText ''''))"

definition post_announcements ::
  "('e, 'm) deps \<Rightarrow> workspace \<Rightarrow> event \<Rightarrow> ('e, message_refs) usecase" where
  "post_announcements d ws ev =
     (let ref = workspace_ref_of ws;
          peek = wss_peek_duration (ws_settings ws);
          recruit = wss_recruit_channel_id (ws_settings ws)
      in m_bind (port (dp_post_message d ref (ev_origin_channel_id ev) (dp_announcement d ev peek)))
           (\<lambda>announcement.
         m_bind (pin d ws announcement) (\<lambda>_.
         m_bind (if recruit \<noteq> '''' \<and> recruit \<noteq> ev_origin_channel_id ev
                 then m_bind (port (dp_post_message d ref recruit (dp_announcement d ev peek)))
                        (\<lambda>r. m_return (Some r))
                 else m_return None) (\<lambda>recruit_ref.
         m_bind (port (dp_post_message d ref (ch_channel_id (ev_channel ev)) (dp_summary d ev)))
           (\<lambda>summary.
         m_bind (pin d ws summary) (\<lambda>_.
           m_return \<lparr>ms_announcement = Some announcement, ms_recruit_announcement = recruit_ref,
                     ms_summary = Some summary\<rparr>))))))"

definition provision ::
  "('e, 'm) deps \<Rightarrow> workspace \<Rightarrow> event \<Rightarrow> ('e, event \<times> err option) usecase" where
  "provision d ws ev =
     m_bind (m_try (create_channel d ws ev)) (\<lambda>r.
     case r of
       Inl e \<Rightarrow> m_return (ev, Some e)
     | Inr channel \<Rightarrow>
         let ev1 = ev\<lparr>ev_channel := \<lparr>ch_channel_id = cf_id channel, ch_name = cf_name channel,
                                      ch_archived = cf_archived channel\<rparr>\<rparr>
         in m_bind (now_of d) (\<lambda>now.
            m_bind (m_try (repo (events_set_channel (ev_id ev) (ev_channel ev1) now))) (\<lambda>r.
            case r of
              Inl e \<Rightarrow> m_return (ev1, Some e)
            | Inr _ \<Rightarrow>
                m_bind (m_try (post_announcements d ws ev1)) (\<lambda>r.
                case r of
                  Inl e \<Rightarrow> m_return (ev1, Some e)
                | Inr messages \<Rightarrow>
                    let ev2 = ev1\<lparr>ev_messages := messages\<rparr>
                    in m_bind (now_of d) (\<lambda>now.
                       m_bind (m_try (repo (events_set_messages (ev_id ev) messages now))) (\<lambda>r.
                         m_return (ev2, case r of Inl e \<Rightarrow> Some e | Inr _ \<Rightarrow> None)))))))"

text \<open>The errors on the way are logged only.\<close>

definition abort_provision :: "('e, 'm) deps \<Rightarrow> event \<Rightarrow> ('e, unit) usecase" where
  "abort_provision d ev =
     m_bind (now_of d) (\<lambda>now.
     case event_cancel EndReasonProvisionFailed now ev of
       (changed, ev') \<Rightarrow>
         if \<not> changed then m_return ()
         else m_bind (m_try (repo (events_update ev'))) (\<lambda>_.
              if ch_channel_id (ev_channel ev') = '''' then m_return ()
              else m_bind (m_try (enqueue d (new_archive_channel_job (ev_id ev') now))) (\<lambda>_.
                     m_return ())))"

definition new_event_params_of ::
  "workspace \<Rightarrow> create_event_input \<Rightarrow> new_event_params" where
  "new_event_params_of ws inp =
     \<lparr>ne_workspace_id = ws_id ws, ne_title = ce_title inp, ne_description = ce_description inp,
      ne_location = ce_location inp, ne_starts_at = ce_starts_at inp,
      ne_ends_at = ce_ends_at inp, ne_organizer = ce_organizer inp,
      ne_origin_channel_id = ce_origin_channel_id inp,
      ne_reminder_policy = (case ce_reminder_policy inp of
          None \<Rightarrow> wss_default_reminder_policy (ws_settings ws) | Some p \<Rightarrow> p),
      ne_created_via = ce_created_via inp, ne_created_by = ce_created_by inp\<rparr>"

definition event_create :: "('e, 'm) deps \<Rightarrow> create_event_input \<Rightarrow> ('e, event) usecase" where
  "event_create d inp =
     m_bind (require_provider_online d) (\<lambda>_.
     m_bind (get_workspace (ce_workspace_id inp)) (\<lambda>ws.
     m_bind (now_of d) (\<lambda>now.
     m_bind (m_lift (new_event (new_event_params_of ws inp) now)) (\<lambda>ev.
     m_bind (repo (events_create ev)) (\<lambda>stored.
     m_bind (register_organizer ws stored now) (\<lambda>created.
     m_bind (provision d ws created) (\<lambda>(created', failure).
     case failure of
       Some e \<Rightarrow> m_bind (abort_provision d created') (\<lambda>_. m_throw e)
     | None \<Rightarrow>
         m_bind (schedule_reminders d ws created') (\<lambda>_.
         m_bind (enqueue d (new_auto_end_job (ev_id created')
             (auto_end_at created' (wss_auto_end_grace (ws_settings ws))))) (\<lambda>_.
           m_return created')))))))))"

subsection \<open>Lookups, update, close and archive\<close>

definition event_get :: "string \<Rightarrow> ('e, event) usecase" where
  "event_get i = get_event i"

definition event_get_by_channel :: "string \<Rightarrow> ('e, event) usecase" where
  "event_get_by_channel channel_id = repo (events_get_by_channel_id channel_id)"

definition event_list :: "event_filter \<Rightarrow> ('e, event_page) usecase" where
  "event_list f = repo (events_list f)"

definition event_workspace :: "string \<Rightarrow> ('e, workspace) usecase" where
  "event_workspace i = get_workspace i"

definition refresh_messages :: "('e, 'm) deps \<Rightarrow> workspace \<Rightarrow> event \<Rightarrow> ('e, unit) usecase" where
  "refresh_messages d ws ev =
     (let peek = wss_peek_duration (ws_settings ws)
      in m_bind (update_message d ws (ms_announcement (ev_messages ev)) (dp_announcement d ev peek))
           (\<lambda>_.
         m_bind (update_message d ws (ms_recruit_announcement (ev_messages ev))
             (dp_announcement d ev peek)) (\<lambda>_.
           update_message d ws (ms_summary (ev_messages ev)) (dp_summary d ev))))"

definition close_messages :: "('e, 'm) deps \<Rightarrow> workspace \<Rightarrow> event \<Rightarrow> ('e, unit) usecase" where
  "close_messages d ws ev =
     m_bind (refresh_messages d ws ev) (\<lambda>_.
     m_bind (unpin d ws (ms_announcement (ev_messages ev))) (\<lambda>_.
     m_bind (unpin d ws (ms_summary (ev_messages ev))) (\<lambda>_.
       post d ws (ch_channel_id (ev_channel ev)) (dp_closing d ev))))"

definition event_update_with :: "('e, 'm) deps \<Rightarrow> update_event_input \<Rightarrow> ('e, event) usecase" where
  "event_update_with d inp =
     m_bind (get_event (ue_event_id inp)) (\<lambda>ev.
     m_bind (m_lift (authorize_manage ev (ue_actor inp))) (\<lambda>_.
     m_bind (get_workspace (ev_workspace_id ev)) (\<lambda>ws.
     m_bind (now_of d) (\<lambda>now.
     m_bind (m_lift (event_apply ev (ue_update inp) now)) (\<lambda>ev'.
     m_bind (repo (events_update ev')) (\<lambda>_.
     m_bind (refresh_messages d ws ev') (\<lambda>_.
     m_bind (schedule_reminders d ws ev') (\<lambda>_.
       m_return ev'))))))))"

definition event_close_with :: "('e, 'm) deps \<Rightarrow> close_event_input \<Rightarrow> ('e, event) usecase" where
  "event_close_with d inp =
     m_bind (get_event (cl_event_id inp)) (\<lambda>ev.
     m_bind (m_lift (authorize_manage ev (cl_actor inp))) (\<lambda>_.
     m_bind (now_of d) (\<lambda>now.
     case (if cl_reason inp = EndReasonCanceled then event_cancel (cl_reason inp) now ev
           else event_end (cl_reason inp) now ev) of
       (changed, ev') \<Rightarrow>
         if \<not> changed then m_return ev'
         else
           m_bind (repo (events_update ev')) (\<lambda>_.
           m_bind (get_workspace (ev_workspace_id ev')) (\<lambda>ws.
           m_bind (close_messages d ws ev') (\<lambda>_.
           m_bind (repo (jobs_cancel_by_event (ev_id ev')
               [JobReminder, JobEventAutoEnd, JobPeekExpire] now)) (\<lambda>_.
           if ch_channel_id (ev_channel ev') \<noteq> ''''
           then m_bind (enqueue d (new_archive_channel_job (ev_id ev') now)) (\<lambda>_. m_return ev')
           else m_return ev')))))))"

definition event_archive_channel :: "('e, 'm) deps \<Rightarrow> string \<Rightarrow> ('e, unit) usecase" where
  "event_archive_channel d event_id =
     m_bind (get_event event_id) (\<lambda>ev.
     if ch_channel_id (ev_channel ev) = '''' \<or> ch_archived (ev_channel ev) then m_return ()
     else
       m_bind (get_workspace (ev_workspace_id ev)) (\<lambda>ws.
       m_bind (m_try (port (dp_archive_channel d (workspace_ref_of ws)
           (ch_channel_id (ev_channel ev))
           (ds_archive_category_id (wss_discord (ws_settings ws)))))) (\<lambda>r.
       m_bind (case r of
           Inr info \<Rightarrow> m_return (cf_name info)
         | Inl e \<Rightarrow> if \<not> errors_is e ErrNotFound then m_throw e
                    else m_return (ch_name (ev_channel ev))) (\<lambda>name.
       m_bind (now_of d) (\<lambda>now.
         repo (events_set_channel (ev_id ev)
           \<lparr>ch_channel_id = ch_channel_id (ev_channel ev),
            ch_name = (if name = '''' then ch_name (ev_channel ev) else name),
            ch_archived = True\<rparr> now))))))"

definition event_set_reminder_policy ::
  "('e, 'm) deps \<Rightarrow> string \<Rightarrow> reminder_policy \<Rightarrow> actor \<Rightarrow> ('e, event) usecase" where
  "event_set_reminder_policy d event_id policy actor =
     event_update_with d
       \<lparr>ue_event_id = event_id,
        ue_update = \<lparr>eu_title = None, eu_description = None, eu_location = None,
                     eu_starts_at = None, eu_ends_at = None, eu_clear_ends_at = False,
                     eu_reminder_policy = Some policy\<rparr>,
        ue_actor = actor\<rparr>"

lemma silent_refresh_messages [simp]: "silent (refresh_messages d ws ev)"
  by (simp add: refresh_messages_def silent_bind Let_def)

lemma silent_close_messages [simp]: "silent (close_messages d ws ev)"
  by (simp add: close_messages_def silent_bind)

end
