(* ===== verification/Usecase_Participation.thy ===== *)
theory Usecase_Participation
  imports Usecase_Events
begin

section \<open>The participation service\<close>

text \<open>
  \<open>internal/manager/usecase/participation.go\<close>. \<open>Apply\<close> is cut in two at the point where it
  has read its inputs: \<open>apply_read\<close> up to the decision and \<open>apply_commit\<close> from the upsert
  on, so that presses that overlap can be run as all the reads before the commits. A nil
  participation is \<open>None\<close>, the zero time of a result without expiry is \<open>zero_time\<close>.
\<close>

record participation_input =
  in_event_id :: string
  in_chat_user_id :: string
  in_display_name :: string
  in_action :: participation_action

record participation_outcome =
  po_event :: event
  po_participation :: "participation option"
  po_transition :: transition
  po_expires_at :: time

definition expires_at_of :: "participation option \<Rightarrow> time" where
  "expires_at_of p =
     (case p of
        None \<Rightarrow> zero_time
      | Some q \<Rightarrow> (case pt_expires_at q of None \<Rightarrow> zero_time | Some t \<Rightarrow> t))"

definition open_event :: "string \<Rightarrow> ('e, event \<times> workspace) usecase" where
  "open_event event_id =
     m_bind (get_event event_id) (\<lambda>ev.
     if \<not> ev_is_open ev then m_throw ErrEventClosed
     else m_bind (get_workspace (ev_workspace_id ev)) (\<lambda>ws. m_return (ev, ws)))"

definition current_participation :: "string \<Rightarrow> string \<Rightarrow> ('e, participation option) usecase" where
  "current_participation event_id chat_user_id =
     m_bind (m_try (repo (participations_get_by_user event_id chat_user_id))) (\<lambda>r.
     case r of
       Inr p \<Rightarrow> m_return (Some p)
     | Inl e \<Rightarrow> if errors_is e ErrNotFound then m_return None else m_throw e)"

text \<open>\<open>handleChannelError\<close>: the cause is returned, whether the event could be closed or not.\<close>

definition handle_channel_error :: "('e, 'm) deps \<Rightarrow> event \<Rightarrow> err \<Rightarrow> ('e, unit) usecase" where
  "handle_channel_error d ev cause =
     (if \<not> errors_is cause ErrNotFound then m_throw cause
      else m_bind (m_try (event_close_with d
             \<lparr>cl_event_id = ev_id ev, cl_reason = EndReasonChannelLost,
              cl_actor = console_actor\<rparr>)) (\<lambda>_. m_throw cause))"

definition join_channel ::
  "('e, 'm) deps \<Rightarrow> workspace \<Rightarrow> event \<Rightarrow> string \<Rightarrow> ('e, unit) usecase" where
  "join_channel d ws ev user_id =
     (if ch_channel_id (ev_channel ev) = '''' then m_return ()
      else m_bind (m_try (port (dp_add_member d (workspace_ref_of ws)
             (ch_channel_id (ev_channel ev)) user_id))) (\<lambda>r.
           case r of Inr _ \<Rightarrow> m_return () | Inl e \<Rightarrow> handle_channel_error d ev e))"

definition leave_channel ::
  "('e, 'm) deps \<Rightarrow> workspace \<Rightarrow> event \<Rightarrow> string \<Rightarrow> ('e, unit) usecase" where
  "leave_channel d ws ev user_id =
     (if ch_channel_id (ev_channel ev) = '''' then m_return ()
      else m_bind (m_try (port (dp_remove_member d (workspace_ref_of ws)
             (ch_channel_id (ev_channel ev)) user_id))) (\<lambda>r.
           case r of Inr _ \<Rightarrow> m_return () | Inl e \<Rightarrow> handle_channel_error d ev e))"

definition add_count :: "('e, 'm) deps \<Rightarrow> event \<Rightarrow> int \<Rightarrow> ('e, event) usecase" where
  "add_count d ev delta =
     m_bind (now_of d) (\<lambda>now.
     m_bind (repo (events_add_participant_count (ev_id ev) delta now)) (\<lambda>_.
       m_return (ev\<lparr>ev_participant_count := ev_participant_count ev + delta\<rparr>)))"

definition after_transition ::
  "('e, 'm) deps \<Rightarrow> workspace \<Rightarrow> event \<Rightarrow> participation \<Rightarrow> transition \<Rightarrow> ('e, event) usecase" where
  "after_transition d ws ev part tr =
     m_bind (if tr_role tr = RoleParticipant then add_count d ev 1 else m_return ev) (\<lambda>ev'.
     m_bind (if tr_cancel_peek_job tr
             then m_bind (now_of d) (\<lambda>now.
                  m_bind (repo (jobs_cancel_by_event (ev_id ev') [JobPeekExpire] now)) (\<lambda>_.
                    m_return ()))
             else m_return ()) (\<lambda>_.
     m_bind (case pt_expires_at part of
               None \<Rightarrow> m_return ()
             | Some at \<Rightarrow>
                 if tr_role tr = RolePeeker
                 then enqueue d (new_peek_expire_job (ev_id ev') (pt_id part) (pt_peek_count part) at)
                 else m_return ()) (\<lambda>_.
     m_bind (post d ws (ch_channel_id (ev_channel ev'))
         (dp_transition d (tr_kind tr) (pt_chat_user_id part) (ev_participant_count ev')
            (expires_at_of (Some part)))) (\<lambda>_.
     m_bind (refresh_messages d ws ev') (\<lambda>_.
       m_return ev')))))"

subsection \<open>Apply\<close>

definition has_effect :: "transition \<Rightarrow> bool" where
  "has_effect tr \<longleftrightarrow> tr_add_to_channel tr \<or> tr_cancel_peek_job tr"

definition apply_read ::
  "participation_input \<Rightarrow> ('e, event \<times> workspace \<times> participation option \<times> transition) usecase" where
  "apply_read inp =
     m_bind (open_event (in_event_id inp)) (\<lambda>(ev, ws).
     m_bind (current_participation (in_event_id inp) (in_chat_user_id inp)) (\<lambda>prev.
       m_return (ev, ws, prev, decide_transition prev (in_action inp))))"

definition apply_commit ::
  "('e, 'm) deps \<Rightarrow> participation_input \<Rightarrow> event \<Rightarrow> workspace \<Rightarrow> transition
   \<Rightarrow> ('e, participation_outcome) usecase" where
  "apply_commit d inp ev ws tr =
     m_bind (now_of d) (\<lambda>now.
     m_bind (repo (participations_upsert
       \<lparr>pu_event_id = ev_id ev, pu_workspace_id = ws_id ws,
        pu_chat_user_id = in_chat_user_id inp, pu_display_name = in_display_name inp,
        pu_role = tr_role tr,
        pu_expires_at = (if tr_role tr = RolePeeker
                         then Some (now + wss_peek_duration (ws_settings ws)) else None),
        pu_now = now\<rparr>)) (\<lambda>change.
     let settled = decide_transition (pc_before change) (in_action inp);
         after = pc_after change
     in if tr_kind settled \<noteq> tr_kind tr
        then m_return \<lparr>po_event = ev, po_participation = Some after, po_transition = settled,
                       po_expires_at = expires_at_of (Some after)\<rparr>
        else
          m_bind (if tr_add_to_channel tr then join_channel d ws ev (in_chat_user_id inp)
                  else m_return ()) (\<lambda>_.
          m_bind (after_transition d ws ev after tr) (\<lambda>ev'.
            m_return \<lparr>po_event = ev', po_participation = Some after, po_transition = tr,
                      po_expires_at = expires_at_of (Some after)\<rparr>))))"

definition participation_apply ::
  "('e, 'm) deps \<Rightarrow> participation_input \<Rightarrow> ('e, participation_outcome) usecase" where
  "participation_apply d inp =
     m_bind (apply_read inp) (\<lambda>(ev, ws, prev, tr).
     if \<not> has_effect tr
     then m_return \<lparr>po_event = ev, po_participation = prev, po_transition = tr,
                    po_expires_at = expires_at_of prev\<rparr>
     else apply_commit d inp ev ws tr)"

subsection \<open>Leaving, removal and expiry\<close>

definition detach ::
  "('e, 'm) deps \<Rightarrow> workspace \<Rightarrow> event \<Rightarrow> participation \<Rightarrow> participation_status
   \<Rightarrow> ('e, participation \<times> event) usecase" where
  "detach d ws ev part status =
     m_bind (leave_channel d ws ev (pt_chat_user_id part)) (\<lambda>_.
     m_bind (now_of d) (\<lambda>now.
     m_bind (repo (participations_set_status (pt_id part) status now)) (\<lambda>_.
     let part' = part\<lparr>pt_status := status\<rparr>
     in if pt_role part' \<noteq> RoleParticipant then m_return (part', ev)
        else m_bind (add_count d ev (- 1)) (\<lambda>ev'. m_return (part', ev')))))"

definition participation_leave ::
  "('e, 'm) deps \<Rightarrow> string \<Rightarrow> string \<Rightarrow> ('e, participation) usecase" where
  "participation_leave d event_id chat_user_id =
     m_bind (open_event event_id) (\<lambda>(ev, ws).
     if chat_user_id = cu_user_id (ev_organizer ev) then m_throw ErrOrganizerCannotLeave
     else
       m_bind (repo (participations_get_by_user event_id chat_user_id)) (\<lambda>part.
       if \<not> pt_is_active part then m_throw ErrNotFound
       else
         m_bind (detach d ws ev part ParticipationLeft) (\<lambda>(part', ev').
         m_bind (post d ws (ch_channel_id (ev_channel ev'))
             (dp_left d chat_user_id (ev_participant_count ev'))) (\<lambda>_.
         m_bind (refresh_messages d ws ev') (\<lambda>_.
           m_return part')))))"

definition participation_remove ::
  "('e, 'm) deps \<Rightarrow> string \<Rightarrow> string \<Rightarrow> ('e, unit) usecase" where
  "participation_remove d event_id chat_user_id =
     m_bind (require_provider_online d) (\<lambda>_.
     m_bind (open_event event_id) (\<lambda>(ev, ws).
     m_bind (repo (participations_get_by_user event_id chat_user_id)) (\<lambda>part.
     if \<not> pt_is_active part then m_return ()
     else
       m_bind (detach d ws ev part ParticipationRemoved) (\<lambda>(part', ev').
       m_bind (post d ws (ch_channel_id (ev_channel ev'))
           (dp_removed_by_organizer d chat_user_id)) (\<lambda>_.
         refresh_messages d ws ev')))))"

definition expire_peek ::
  "('e, 'm) deps \<Rightarrow> string \<Rightarrow> ('e, participation option \<times> bool) usecase" where
  "expire_peek d participation_id =
     m_bind (m_try (repo (participations_get participation_id))) (\<lambda>r.
     case r of
       Inl e \<Rightarrow> if errors_is e ErrNotFound then m_return (None, False) else m_throw e
     | Inr part \<Rightarrow>
         if pt_role part \<noteq> RolePeeker \<or> \<not> pt_is_active part then m_return (Some part, False)
         else
           m_bind (now_of d) (\<lambda>now.
           if \<not> peek_expired part now then m_return (Some part, False)
           else
             m_bind (get_event (pt_event_id part)) (\<lambda>ev.
             m_bind (get_workspace (ev_workspace_id ev)) (\<lambda>ws.
             m_bind (detach d ws ev part ParticipationExpired) (\<lambda>(part', _).
               m_return (Some part', True))))))"

definition active_members :: "string \<Rightarrow> ('e, string list \<times> string list) usecase" where
  "active_members event_id =
     m_bind (repo (participations_list_by_event event_id [ParticipationActive])) (\<lambda>parts.
       m_return
         (map pt_chat_user_id (filter (\<lambda>p. pt_role p = RoleParticipant) parts),
          map pt_chat_user_id (filter (\<lambda>p. pt_role p \<noteq> RoleParticipant) parts)))"

end
