(* ===== verification/Usecase_Reminder.thy ===== *)
theory Usecase_Reminder
  imports Usecase_Events
begin

section \<open>The reminder service\<close>

text \<open>
  \<open>ReminderService\<close> of \<open>internal/manager/usecase/reminder.go\<close>: sending one reminder. Posting
  to a channel may fail; the failure is recorded in the log and the sending goes on.
\<close>

record send_reminder_input =
  sr_event_id :: string
  sr_sequence :: int
  sr_scheduled_for :: time

definition post_target ::
  "('e, 'm) deps \<Rightarrow> workspace \<Rightarrow> reminder_target_kind \<Rightarrow> string \<Rightarrow> 'm option
   \<Rightarrow> ('e, reminder_target) usecase" where
  "post_target d ws kind channel_id msg =
     m_bind (m_try (port (dp_post_message d (workspace_ref_of ws) channel_id msg))) (\<lambda>r.
     m_return (case r of
         Inl e \<Rightarrow> \<lparr>rt_kind = kind, rt_channel_id = channel_id, rt_message_id = '''',
                   rt_ok = False, rt_error = Some e\<rparr>
       | Inr ref \<Rightarrow> \<lparr>rt_kind = kind, rt_channel_id = channel_id, rt_message_id = mr_message_id ref,
                     rt_ok = True, rt_error = None\<rparr>))"

definition participant_ids :: "string \<Rightarrow> ('e, string list) usecase" where
  "participant_ids event_id =
     m_bind (repo (participations_list_by_event event_id [ParticipationActive])) (\<lambda>parts.
       m_return (map pt_chat_user_id (filter (\<lambda>p. pt_role p = RoleParticipant) parts)))"

definition post_reminders ::
  "('e, 'm) deps \<Rightarrow> workspace \<Rightarrow> event \<Rightarrow> time \<Rightarrow> ('e, reminder_target list) usecase" where
  "post_reminders d ws ev now =
     m_bind (participant_ids (ev_id ev)) (\<lambda>participants.
     m_bind (post_target d ws ReminderTargetEvent (ch_channel_id (ev_channel ev))
         (dp_reminder d ev now participants)) (\<lambda>target.
     let recruit = wss_recruit_channel_id (ws_settings ws)
     in if recruit \<noteq> ''''
        then m_bind (post_target d ws ReminderTargetRecruit recruit
               (dp_recruit_reminder d ev now (wss_peek_duration (ws_settings ws)))) (\<lambda>second.
               m_return [target, second])
        else m_return [target]))"

definition reminder_send :: "('e, 'm) deps \<Rightarrow> send_reminder_input \<Rightarrow> ('e, bool) usecase" where
  "reminder_send d inp =
     m_bind (get_event (sr_event_id inp)) (\<lambda>ev.
     if \<not> ev_is_open ev then m_return False
     else
       m_bind (now_of d) (\<lambda>now.
       if \<not> now < ev_starts_at ev then m_return False
       else
         m_bind (repo (reminder_logs_sent_sequence (sr_event_id inp) (sr_sequence inp))) (\<lambda>sent.
         if sent then m_return False
         else
           m_bind (get_workspace (ev_workspace_id ev)) (\<lambda>ws.
           m_bind (post_reminders d ws ev now) (\<lambda>targets.
           m_bind (repo (reminder_logs_append
             \<lparr>rl_id = '''', rl_event_id = ev_id ev, rl_sequence = sr_sequence inp,
              rl_scheduled_for = (if sr_scheduled_for inp = zero_time then now
                                  else sr_scheduled_for inp),
              rl_sent_at = now, rl_targets = targets\<rparr>)) (\<lambda>_.
             m_return True))))))"

end
