(* ===== verification/Scheduler.thy ===== *)
theory Scheduler
  imports Usecase_Participation Usecase_Reminder
begin

section \<open>The scheduler: handlers and worker\<close>

text \<open>
  \<open>internal/manager/scheduler/handler.go\<close> and \<open>worker.go\<close>. A handler is a use case program
  over the job; the worker writes its verdict back. \<open>Run\<close> starts each claimed job in a
  goroutine of its own: \<open>poll_claims\<close> is the claiming half of \<open>poll\<close>, \<open>worker_run\<close> the body
  of the goroutine, \<open>heartbeat\<close> one beat of \<open>keepLease\<close>; \<open>run_once\<close> is \<open>RunOnce\<close>.
\<close>

subsection \<open>Handlers\<close>

definition skip_missing :: "('e, 'a) usecase \<Rightarrow> ('e, unit) usecase" where
  "skip_missing m =
     m_bind (m_try m) (\<lambda>r.
     case r of
       Inr _ \<Rightarrow> m_return ()
     | Inl e \<Rightarrow> if errors_is e ErrNotFound then m_return () else m_throw e)"

definition reschedule :: "('e, 'm) deps \<Rightarrow> job \<Rightarrow> time \<Rightarrow> ('e, unit) usecase" where
  "reschedule d j run_at =
     m_bind (now_of d) (\<lambda>now.
     m_bind (repo (jobs_reschedule (jb_id j) run_at now)) (\<lambda>_. m_throw ErrRescheduled))"

definition handle_reminder :: "('e, 'm) deps \<Rightarrow> job \<Rightarrow> ('e, unit) usecase" where
  "handle_reminder d j = skip_missing (reminder_send d
     \<lparr>sr_event_id = jp_event_id (jb_payload j), sr_sequence = jp_sequence (jb_payload j),
      sr_scheduled_for = jp_scheduled_for (jb_payload j)\<rparr>)"

definition handle_peek_expire :: "('e, 'm) deps \<Rightarrow> job \<Rightarrow> ('e, unit) usecase" where
  "handle_peek_expire d j =
     m_bind (m_try (expire_peek d (jp_participation_id (jb_payload j)))) (\<lambda>r.
     case r of
       Inl e \<Rightarrow> if errors_is e ErrNotFound then m_return () else m_throw e
     | Inr (part, expired) \<Rightarrow>
         (case part of
            None \<Rightarrow> m_return ()
          | Some p \<Rightarrow>
              if expired \<or> pt_role p \<noteq> RolePeeker \<or> \<not> pt_is_active p then m_return ()
              else (case pt_expires_at p of
                      None \<Rightarrow> m_return ()
                    | Some at \<Rightarrow> reschedule d j at)))"

definition handle_auto_end :: "('e, 'm) deps \<Rightarrow> job \<Rightarrow> ('e, unit) usecase" where
  "handle_auto_end d j =
     m_bind (m_try (event_get (jp_event_id (jb_payload j)))) (\<lambda>r.
     case r of
       Inl e \<Rightarrow> if errors_is e ErrNotFound then m_return () else m_throw e
     | Inr ev \<Rightarrow>
         if \<not> ev_is_open ev then m_return ()
         else m_bind (m_try (event_workspace (ev_workspace_id ev))) (\<lambda>r.
           case r of
             Inl e \<Rightarrow> if errors_is e ErrNotFound then m_return () else m_throw e
           | Inr ws \<Rightarrow>
               m_bind (now_of d) (\<lambda>now.
               let at = auto_end_at ev (wss_auto_end_grace (ws_settings ws))
               in if now < at then reschedule d j at
                  else skip_missing (event_close_with d
                         \<lparr>cl_event_id = ev_id ev, cl_reason = EndReasonAuto,
                          cl_actor = console_actor\<rparr>))))"

definition handle_archive_channel :: "('e, 'm) deps \<Rightarrow> job \<Rightarrow> ('e, unit) usecase" where
  "handle_archive_channel d j =
     skip_missing (event_archive_channel d (jp_event_id (jb_payload j)))"

definition handle :: "('e, 'm) deps \<Rightarrow> job \<Rightarrow> ('e, unit) usecase" where
  "handle d j =
     (case jb_kind j of
        JobReminder \<Rightarrow> handle_reminder d j
      | JobPeekExpire \<Rightarrow> handle_peek_expire d j
      | JobEventAutoEnd \<Rightarrow> handle_auto_end d j
      | JobArchiveChannel \<Rightarrow> handle_archive_channel d j
      | JobKindOther k \<Rightarrow> m_throw (ErrWrapped (''unknown job kind '' @ k) ErrPermanent))"

subsection \<open>The worker\<close>

record worker_config =
  wc_poll_interval :: duration
  wc_batch_size :: int
  wc_lease :: duration
  wc_workers :: int

definition worker_defaults :: "worker_config \<Rightarrow> worker_config" where
  "worker_defaults c =
     \<lparr>wc_poll_interval = (if wc_poll_interval c \<le> 0 then 10 * second else wc_poll_interval c),
      wc_batch_size = (if wc_batch_size c \<le> 0 then 10 else wc_batch_size c),
      wc_lease = (if wc_lease c \<le> 0 then 2 * minute else wc_lease c),
      wc_workers = (if wc_workers c \<le> 0 then 4 else wc_workers c)\<rparr>"

definition is_validation :: "err \<Rightarrow> bool" where
  "is_validation e \<longleftrightarrow> as_validation e \<noteq> None"

text \<open>The errors of writing a verdict are logged only.\<close>

definition worker_complete :: "job \<Rightarrow> time \<Rightarrow> ('e, unit) usecase" where
  "worker_complete j now =
     m_bind (m_try (repo (jobs_complete (jb_id j) now))) (\<lambda>_. m_return ())"

definition worker_fail :: "job \<Rightarrow> err \<Rightarrow> time \<Rightarrow> ('e, unit) usecase" where
  "worker_fail j reason now =
     m_bind (m_try (repo (jobs_fail (jb_id j) reason now))) (\<lambda>_. m_return ())"

definition worker_retry :: "job \<Rightarrow> err \<Rightarrow> time \<Rightarrow> ('e, unit) usecase" where
  "worker_retry j cause now =
     m_bind (m_try (repo (jobs_retry (jb_id j) (now + backoff (jb_attempts j)) cause now)))
       (\<lambda>_. m_return ())"

definition max_attempts_exceeded :: err where
  "max_attempts_exceeded = ErrText ''max attempts exceeded''"

definition worker_verdict :: "job \<Rightarrow> err + unit \<Rightarrow> time \<Rightarrow> ('e, unit) usecase" where
  "worker_verdict j r now =
     (case r of
        Inr _ \<Rightarrow> worker_complete j now
      | Inl e \<Rightarrow>
          if errors_is e ErrRescheduled then m_return ()
          else if errors_is e ErrPermanent \<or> is_validation e then worker_fail j e now
          else worker_retry j e now)"

definition worker_run :: "('e, 'm) deps \<Rightarrow> job \<Rightarrow> ('e, unit) usecase" where
  "worker_run d j =
     m_bind (now_of d) (\<lambda>started.
     if jb_max_attempts j < jb_attempts j then worker_fail j max_attempts_exceeded started
     else
       m_bind (m_try (handle d j)) (\<lambda>r.
       m_bind (now_of d) (\<lambda>now. worker_verdict j r now)))"

text \<open>One tick of the heartbeat: \<open>now + lease\<close> is the new end of the lease.\<close>

definition heartbeat :: "('e, 'm) deps \<Rightarrow> worker_config \<Rightarrow> job \<Rightarrow> ('e, unit) usecase" where
  "heartbeat d cfg j =
     m_bind (now_of d) (\<lambda>now. repo (jobs_extend_lease (jb_id j) (now + wc_lease cfg) now))"

fun run_batch :: "('e, 'm) deps \<Rightarrow> worker_config \<Rightarrow> nat \<Rightarrow> int \<Rightarrow> ('e, int) usecase" where
  "run_batch d cfg 0 n = m_return n"
| "run_batch d cfg (Suc k) n =
     m_bind (now_of d) (\<lambda>now.
     m_bind (m_try (repo (jobs_claim now (wc_lease cfg)))) (\<lambda>r.
     case r of
       Inl _ \<Rightarrow> m_return n
     | Inr j \<Rightarrow> m_bind (worker_run d j) (\<lambda>_. run_batch d cfg k (n + 1))))"

definition run_once :: "('e, 'm) deps \<Rightarrow> worker_config \<Rightarrow> ('e, int) usecase" where
  "run_once d cfg = run_batch d cfg (nat (wc_batch_size cfg)) 0"

text \<open>The jobs \<open>poll\<close> starts: a free slot is taken before each claim.\<close>

fun poll_batch :: "('e, 'm) deps \<Rightarrow> worker_config \<Rightarrow> nat \<Rightarrow> nat \<Rightarrow> job list \<Rightarrow> ('e, job list) usecase"
where
  "poll_batch d cfg 0 free js = m_return js"
| "poll_batch d cfg (Suc k) free js =
     (if free = 0 then m_return js
      else
        m_bind (now_of d) (\<lambda>now.
        m_bind (m_try (repo (jobs_claim now (wc_lease cfg)))) (\<lambda>r.
        case r of
          Inl _ \<Rightarrow> m_return js
        | Inr j \<Rightarrow> poll_batch d cfg k (free - 1) (js @ [j]))))"

definition poll_claims :: "('e, 'm) deps \<Rightarrow> worker_config \<Rightarrow> nat \<Rightarrow> ('e, job list) usecase" where
  "poll_claims d cfg free = poll_batch d cfg (nat (wc_batch_size cfg)) free []"

end
