(* ===== verification/Manager_Invariant.thy ===== *)
theory Manager_Invariant
  imports Scheduler
begin

section \<open>Invariants across the use cases\<close>

text \<open>
  Beside \<open>store_inv\<close>: every queued job was built by one of the four constructors
  (\<open>jobs_wf\<close>), and every event's participant count is the number of its active
  participants (\<open>counts_ok\<close>). The frames come first: what each repository method leaves
  alone, as preservation of any condition on a collection.
\<close>

subsection \<open>Frames\<close>

definition on_jobs :: "(job list \<Rightarrow> bool) \<Rightarrow> store \<Rightarrow> bool" where
  "on_jobs P s \<longleftrightarrow> P (st_jobs s)"

definition on_logs :: "(reminder_log list \<Rightarrow> bool) \<Rightarrow> store \<Rightarrow> bool" where
  "on_logs P s \<longleftrightarrow> P (st_reminder_logs s)"

definition on_parts :: "(participation list \<Rightarrow> bool) \<Rightarrow> store \<Rightarrow> bool" where
  "on_parts P s \<longleftrightarrow> P (st_participations s)"

lemmas event_write_defs =
  events_update_def events_set_channel_def events_set_messages_def
  events_add_participant_count_def change_event_def events_create_def next_id_def Let_def

lemma event_writes_frame [preserves_intros]:
  "preserves (on_jobs P) (events_create e)" "preserves (on_jobs P) (events_update e)"
  "preserves (on_jobs P) (events_set_channel i ch now)"
  "preserves (on_jobs P) (events_set_messages i ms now)"
  "preserves (on_jobs P) (events_add_participant_count i n now)"
  "preserves (on_logs Q) (events_create e)" "preserves (on_logs Q) (events_update e)"
  "preserves (on_logs Q) (events_set_channel i ch now)"
  "preserves (on_logs Q) (events_set_messages i ms now)"
  "preserves (on_logs Q) (events_add_participant_count i n now)"
  "preserves (on_parts R) (events_create e)" "preserves (on_parts R) (events_update e)"
  "preserves (on_parts R) (events_set_channel i ch now)"
  "preserves (on_parts R) (events_set_messages i ms now)"
  "preserves (on_parts R) (events_add_participant_count i n now)"
  by (simp_all add: preserves_def on_jobs_def on_logs_def on_parts_def event_write_defs
      split: option.split)

lemma part_writes_frame [preserves_intros]:
  "preserves (on_jobs P) (participations_upsert u)"
  "preserves (on_jobs P) (participations_set_status i st now)"
  "preserves (on_logs Q) (participations_upsert u)"
  "preserves (on_logs Q) (participations_set_status i st now)"
  by (simp_all add: preserves_def on_jobs_def on_logs_def participations_op_defs
      split: option.split)

lemma log_writes_frame [preserves_intros]:
  "preserves (on_jobs P) (reminder_logs_append l)"
  "preserves (on_parts R) (reminder_logs_append l)"
  by (simp_all add: preserves_def on_jobs_def on_parts_def accounts_op_defs)

lemmas jobs_write_defs =
  jobs_complete_def jobs_retry_def jobs_fail_def jobs_reschedule_def jobs_op_defs

lemma job_writes_frame [preserves_intros]:
  "preserves (on_logs Q) (jobs_enqueue j now)" "preserves (on_logs Q) (jobs_claim now lease)"
  "preserves (on_logs Q) (jobs_complete i now)" "preserves (on_logs Q) (jobs_retry i t er now)"
  "preserves (on_logs Q) (jobs_fail i er now)" "preserves (on_logs Q) (jobs_reschedule i t now)"
  "preserves (on_logs Q) (jobs_extend_lease i t now)"
  "preserves (on_logs Q) (jobs_cancel_by_event e ks now)"
  "preserves (on_parts R) (jobs_enqueue j now)" "preserves (on_parts R) (jobs_claim now lease)"
  "preserves (on_parts R) (jobs_complete i now)" "preserves (on_parts R) (jobs_retry i t er now)"
  "preserves (on_parts R) (jobs_fail i er now)" "preserves (on_parts R) (jobs_reschedule i t now)"
  "preserves (on_parts R) (jobs_extend_lease i t now)"
  "preserves (on_parts R) (jobs_cancel_by_event e ks now)"
  by (simp_all add: preserves_def on_logs_def on_parts_def jobs_write_defs split: option.split)

subsection \<open>Well-formed jobs\<close>

definition job_wf :: "job \<Rightarrow> bool" where
  "job_wf j \<longleftrightarrow>
     (case jb_kind j of
        JobReminder \<Rightarrow> jb_dedupe_key j = reminder_key (jb_event_id j) (jp_sequence (jb_payload j)) \<and>
          jp_event_id (jb_payload j) = jb_event_id j
      | JobPeekExpire \<Rightarrow> (\<exists>n. jb_dedupe_key j = peek_key (jp_participation_id (jb_payload j)) n)
      | JobEventAutoEnd \<Rightarrow> jb_dedupe_key j = ''auto_end:'' @ jb_event_id j
      | JobArchiveChannel \<Rightarrow> jb_dedupe_key j = ''archive:'' @ jb_event_id j
      | JobKindOther _ \<Rightarrow> False)"

lemma job_wf_constructors [simp]:
  "job_wf (new_reminder_job e n t)" "job_wf (new_peek_expire_job e p n t)"
  "job_wf (new_auto_end_job e t)" "job_wf (new_archive_channel_job e t)"
  by (auto simp: job_wf_def job_constructor_defs)

lemma job_wf_reminder_key:
  "job_wf j \<Longrightarrow> jb_dedupe_key j = reminder_key e n \<Longrightarrow>
   jb_kind j = JobReminder \<and> jb_event_id j = e \<and> jp_sequence (jb_payload j) = n"
proof (cases "jb_kind j")
  case JobEventAutoEnd
  moreover assume "job_wf j" "jb_dedupe_key j = reminder_key e n"
  ultimately show ?thesis by (simp add: job_wf_def reminder_key_def)
next
  case JobArchiveChannel
  moreover assume "job_wf j" "jb_dedupe_key j = reminder_key e n"
  ultimately show ?thesis by (simp add: job_wf_def reminder_key_def)
qed (auto simp: job_wf_def reminder_key_inj)

definition jobs_wf :: "store \<Rightarrow> bool" where
  "jobs_wf = on_jobs (\<lambda>js. \<forall>j \<in> set js. job_wf j)"

lemma job_wf_cong:
  "jb_kind j' = jb_kind j \<Longrightarrow> jb_dedupe_key j' = jb_dedupe_key j \<Longrightarrow> jb_event_id j' = jb_event_id j \<Longrightarrow>
   jb_payload j' = jb_payload j \<Longrightarrow> job_wf j' = job_wf j"
  by (cases "jb_kind j") (simp_all add: job_wf_def)

lemma jobs_wf_change:
  "jobs_wf s \<Longrightarrow> (\<And>j. job_wf j \<Longrightarrow> job_wf (f j)) \<Longrightarrow> jobs_wf (change_job i f s)"
  by (auto simp: jobs_wf_def on_jobs_def change_job_def dest!: subsetD [OF set_update_first])

lemma job_wf_verdicts [simp]:
  "job_wf (claimed now lease j) = job_wf j" "job_wf (completed_job now j) = job_wf j"
  "job_wf (retried_job t e now j) = job_wf j" "job_wf (failed_job e now j) = job_wf j"
  "job_wf (rescheduled_job t now j) = job_wf j" "job_wf (canceled_job now j) = job_wf j"
  "job_wf (enqueued i j now) = job_wf j"
  "job_wf (j\<lparr>jb_lease_until := lu, jb_updated_at := now\<rparr>) = job_wf j"
  by (rule job_wf_cong; simp add: claimed_def verdict_defs canceled_job_def enqueued_def)+

lemma jobs_enqueue_wf: "job_wf j \<Longrightarrow> preserves jobs_wf (jobs_enqueue j now)"
  by (auto simp: preserves_def jobs_enqueue_def jobs_wf_def on_jobs_def next_id_def Let_def)

lemma jobs_wf_writes [preserves_intros]:
  "preserves jobs_wf (jobs_claim now lease)" "preserves jobs_wf (jobs_complete i now)"
  "preserves jobs_wf (jobs_retry i t e now)" "preserves jobs_wf (jobs_fail i e now)"
  "preserves jobs_wf (jobs_reschedule i t now)" "preserves jobs_wf (jobs_extend_lease i t now)"
  "preserves jobs_wf (jobs_cancel_by_event ev ks now)"
proof -
  show "preserves jobs_wf (jobs_cancel_by_event ev ks now)"
    by (auto simp: preserves_def jobs_cancel_by_event_def jobs_wf_def on_jobs_def)
  show "preserves jobs_wf (jobs_extend_lease i t now)"
    by (auto simp: preserves_def jobs_extend_lease_def intro!: jobs_wf_change split: option.split)
qed (auto simp: preserves_def jobs_claim_def jobs_complete_def jobs_retry_def jobs_fail_def
      jobs_reschedule_def update_job_def intro!: jobs_wf_change split: option.split)

text \<open>Methods that do not touch the jobs: by the frames.\<close>

lemma jobs_wf_frame: "(\<And>P. preserves (on_jobs P) m) \<Longrightarrow> preserves jobs_wf m"
  by (simp add: jobs_wf_def)

lemma jobs_wf_others [preserves_intros]:
  "preserves jobs_wf (events_create e)" "preserves jobs_wf (events_update e)"
  "preserves jobs_wf (events_set_channel i ch now)"
  "preserves jobs_wf (events_set_messages i ms now)"
  "preserves jobs_wf (events_add_participant_count i n now)"
  "preserves jobs_wf (participations_upsert u)"
  "preserves jobs_wf (participations_set_status i st now)"
  "preserves jobs_wf (reminder_logs_append l)"
  by (rule jobs_wf_frame; intro preserves_intros)+

subsection \<open>Participant counts\<close>

text \<open>
  \<open>counts_off i n\<close>: the count of event \<open>i\<close> is \<open>n\<close> short, the others are exact. A step that
  changes participations moves to \<open>counts_off\<close>, \<open>AddParticipantCount\<close> moves back.
\<close>

definition refs_ok :: "store \<Rightarrow> bool" where
  "refs_ok s \<longleftrightarrow> (\<forall>p \<in> set (st_participations s). pt_event_id p \<in> ev_id ` set (st_events s))"

definition counts_off :: "string \<Rightarrow> int \<Rightarrow> store \<Rightarrow> bool" where
  "counts_off i n s \<longleftrightarrow> refs_ok s \<and>
     (\<forall>e \<in> set (st_events s).
        ev_participant_count e + (if ev_id e = i then n else 0) = participant_count s (ev_id e))"

definition counts_ok :: "store \<Rightarrow> bool" where
  "counts_ok s \<longleftrightarrow> refs_ok s \<and>
     (\<forall>e \<in> set (st_events s). ev_participant_count e = participant_count s (ev_id e))"

lemma counts_off_0 [simp]: "counts_off i 0 s = counts_ok s"
  by (simp add: counts_off_def counts_ok_def)

lemma participant_count_cong:
  "st_participations s' = st_participations s \<Longrightarrow> participant_count s' e = participant_count s e"
  by (simp add: participant_count_def)

text \<open>An update of an event that keeps identity and count.\<close>

lemma counts_change_event:
  assumes "\<And>e. ev_id (f e) = ev_id e \<and> ev_participant_count (f e) = ev_participant_count e"
  shows "preserves counts_ok (change_event i f)"
proof (rule preservesI)
  fix s assume s: "counts_ok s"
  let ?xs = "update_first (\<lambda>e. ev_id e = i) f (st_events s)"
  have "ev_id ` set ?xs = ev_id ` set (st_events s)"
    using map_update_first [of "\<lambda>e. ev_id e = i" ev_id f "st_events s"] assms
    by (metis list.set_map)
  moreover have "\<forall>e \<in> set ?xs. ev_participant_count e = participant_count s (ev_id e)"
    using s assms by (intro ball_update_first) (auto simp: counts_ok_def)
  ultimately show "counts_ok (snd (change_event i f s))"
    using s by (auto simp: change_event_def counts_ok_def refs_ok_def participant_count_def
        split: option.split)
qed

lemma counts_event_writes [preserves_intros]:
  "preserves counts_ok (events_update e)" "preserves counts_ok (events_set_channel i ch now)"
  "preserves counts_ok (events_set_messages i ms now)"
  unfolding events_update_def events_set_channel_def events_set_messages_def
  by (rule counts_change_event; simp)+

lemma counts_job_writes [preserves_intros]:
  "preserves counts_ok (jobs_enqueue j now)" "preserves counts_ok (jobs_claim now lease)"
  "preserves counts_ok (jobs_complete i now)" "preserves counts_ok (jobs_retry i t er now)"
  "preserves counts_ok (jobs_fail i er now)" "preserves counts_ok (jobs_reschedule i t now)"
  "preserves counts_ok (jobs_extend_lease i t now)"
  "preserves counts_ok (jobs_cancel_by_event e ks now)"
  "preserves counts_ok (reminder_logs_append l)"
  by (simp_all add: preserves_def counts_ok_def refs_ok_def participant_count_def jobs_write_defs
      accounts_op_defs split: option.split)

lemma count_first_exact:
  assumes "distinct (map ev_id es)"
    and "\<forall>e \<in> set es. ev_participant_count e + (if ev_id e = i then n else 0) = c (ev_id e)"
    and "\<And>e. ev_id (f e) = ev_id e \<and> ev_participant_count (f e) = ev_participant_count e + n"
  shows "\<forall>e \<in> set (update_first (\<lambda>e. ev_id e = i) f es). ev_participant_count e = c (ev_id e)"
  using assms(1,2)
proof (induction es)
  case Nil
  then show ?case by simp
next
  case (Cons a es)
  show ?case
  proof (cases "ev_id a = i")
    case True
    have "\<forall>e \<in> set es. ev_id e \<noteq> i" using Cons.prems(1) True by (auto simp: image_iff)
    then have "\<forall>e \<in> set es. ev_participant_count e = c (ev_id e)"
      using Cons.prems(2) by (metis add_0_right list.set_intros(2))
    moreover have "ev_participant_count a + n = c (ev_id a)"
      using Cons.prems(2) True by (metis list.set_intros(1))
    ultimately show ?thesis using True assms(3) by simp
  next
    case False
    with Cons.prems have "ev_participant_count a = c (ev_id a)" by simp
    with Cons False show ?thesis by simp
  qed
qed

lemma add_count_exact:
  assumes "events_ok s" and "counts_off i n s"
  shows "counts_ok (snd (events_add_participant_count i n now s))"
proof (cases "find_event s i")
  case None
  then have "\<forall>e \<in> set (st_events s). ev_id e \<noteq> i"
    using find_NoneD [of "\<lambda>e. ev_id e = i" "st_events s"] by (auto simp: find_event_def)
  with None assms(2) show ?thesis
    by (simp add: events_add_participant_count_def change_event_def counts_off_def counts_ok_def)
next
  case (Some e)
  define f where "f e = e\<lparr>ev_participant_count := ev_participant_count e + n, ev_updated_at := now\<rparr>"
    for e :: event
  let ?xs = "update_first (\<lambda>e. ev_id e = i) f (st_events s)"
  have run: "snd (events_add_participant_count i n now s) = s\<lparr>st_events := ?xs\<rparr>"
    using Some by (simp add: events_add_participant_count_def change_event_def f_def [abs_def])
  have "map ev_id ?xs = map ev_id (st_events s)" by (simp add: map_update_first f_def)
  then have ids: "ev_id ` set ?xs = ev_id ` set (st_events s)" by (metis list.set_map)
  have "\<forall>e \<in> set ?xs. ev_participant_count e = participant_count s (ev_id e)"
  proof (rule count_first_exact)
    show "distinct (map ev_id (st_events s))" using assms(1) by (simp add: events_ok_def ids_ok_def)
    show "\<forall>e \<in> set (st_events s). ev_participant_count e + (if ev_id e = i then n else 0) =
        participant_count s (ev_id e)"
      using assms(2) unfolding counts_off_def by (rule conjunct2)
  qed (simp add: f_def)
  with ids assms(2) show ?thesis
    unfolding run by (simp add: counts_off_def counts_ok_def refs_ok_def participant_count_def)
qed

lemma set_status_off:
  assumes "counts_ok s" and "find_participation_id s i = Some p" and "st \<noteq> ParticipationActive"
  shows "counts_off (pt_event_id p) (if counted p then - 1 else 0)
           (snd (participations_set_status i st now s))"
proof -
  let ?s = "snd (participations_set_status i st now s)"
  have ev: "st_events ?s = st_events s"
    by (simp add: participations_set_status_def split: option.split)
  have "\<forall>q \<in> set (st_participations ?s). pt_event_id q \<in> ev_id ` set (st_events s)"
    using assms(1)
    by (auto simp: participations_set_status_def counts_ok_def refs_ok_def split: option.split
        dest!: subsetD [OF set_update_first])
  with ev assms(1) participations_set_status_count [OF assms(2,3), of now] show ?thesis
    by (auto simp: counts_off_def counts_ok_def refs_ok_def)
qed

lemma upsert_off:
  assumes "counts_ok s" and "participations_ok s" and "participations_upsert u s = (Inr c, s')"
    and "pu_event_id u \<in> ev_id ` set (st_events s)"
  shows "counts_off (pu_event_id u)
           (if counted (pc_after c) \<and> \<not> was_counted (pc_before c) then 1 else 0) s'"
proof -
  have ev: "st_events s' = st_events s"
    using assms(3) by (auto simp: participations_upsert_def next_id_def Let_def split: option.splits)
  have "\<forall>q \<in> set (st_participations s'). pt_event_id q \<in> ev_id ` set (st_events s)"
    using assms(1,3,4)
    by (auto simp: participations_upsert_def next_id_def Let_def counts_ok_def refs_ok_def
        split: option.splits dest!: subsetD [OF set_update_first])
  with ev assms(1) parts.upsert_count [OF assms(2) TrueI assms(3)] show ?thesis
    by (auto simp: counts_off_def counts_ok_def refs_ok_def)
qed

subsection \<open>Invariants kept by the event service\<close>

text \<open>
  Whatever the repository methods a locale names keep, the use cases built from them
  keep: stated once for any invariant, then instantiated. Scheduling needs the queue only,
  an edit \<open>Events().Update\<close> besides.
\<close>

locale queue_invariant =
  fixes I :: "store \<Rightarrow> bool"
  assumes enqueue_I: "job_wf j \<Longrightarrow> preserves I (jobs_enqueue j now)"
    and cancel_I: "preserves I (jobs_cancel_by_event e ks now)"
begin

lemma enqueue_keeps: "job_wf j \<Longrightarrow> preserves (in_store I) (enqueue d j)"
  by (rule enqueue_preserves) (rule enqueue_I)

lemma enqueue_reminders_keeps: "preserves (in_store I) (enqueue_reminders d e ts n)"
  by (induction ts arbitrary: n) (auto intro!: preserves_intros enqueue_keeps)

lemma schedule_reminders_keeps: "preserves (in_store I) (schedule_reminders d ws ev)"
  unfolding schedule_reminders_def next_reminder_sequence_def
  by (intro preserves_intros cancel_I enqueue_reminders_keeps)

end

locale edit_invariant = queue_invariant I for I +
  assumes update_I: "preserves I (events_update ev)"
begin

lemma refresh_messages_keeps: "preserves (in_store I) (refresh_messages d ws ev)"
  by (simp add: preserves_silent)

lemma event_update_keeps: "preserves (in_store I) (event_update_with d inp)"
  unfolding event_update_with_def
  by (intro preserves_intros update_I refresh_messages_keeps schedule_reminders_keeps)

lemma event_close_keeps: "preserves (in_store I) (event_close_with d inp)"
proof -
  have "preserves (in_store I) (close_messages d ws ev)" for ws ev
    by (simp add: preserves_silent)
  then show ?thesis
    unfolding event_close_with_def
    by (intro preserves_intros update_I cancel_I enqueue_keeps job_wf_constructors)
qed

end

locale event_invariant = edit_invariant I for I +
  assumes set_channel_I: "preserves I (events_set_channel i ch now)"
    and set_messages_I: "preserves I (events_set_messages i ms now)"
begin

lemma create_channel_keeps: "preserves (in_store I) (create_channel d ws ev)"
proof -
  have "preserves (in_store I) (create_channel_loop d ws ev base as er)" for base as er
    by (induction as arbitrary: er) (auto intro!: preserves_intros)
  then show ?thesis unfolding create_channel_def by (intro preserves_intros)
qed

lemma post_announcements_keeps: "preserves (in_store I) (post_announcements d ws ev)"
  unfolding post_announcements_def Let_def by (intro preserves_intros)

lemma provision_keeps: "preserves (in_store I) (provision d ws ev)"
  unfolding provision_def Let_def
  by (intro preserves_intros create_channel_keeps set_channel_I post_announcements_keeps
      set_messages_I)

lemma abort_provision_keeps: "preserves (in_store I) (abort_provision d ev)"
  unfolding abort_provision_def
  by (intro preserves_intros update_I enqueue_keeps job_wf_constructors)

lemma event_archive_keeps: "preserves (in_store I) (event_archive_channel d i)"
  unfolding event_archive_channel_def by (intro preserves_intros set_channel_I)

lemma handle_channel_error_keeps: "preserves (in_store I) (handle_channel_error d ev er)"
  unfolding handle_channel_error_def by (intro preserves_intros event_close_keeps)

lemma join_channel_keeps: "preserves (in_store I) (join_channel d ws ev u)"
  unfolding join_channel_def by (intro preserves_intros handle_channel_error_keeps)

lemma leave_channel_keeps: "preserves (in_store I) (leave_channel d ws ev u)"
  unfolding leave_channel_def by (intro preserves_intros handle_channel_error_keeps)

end

interpretation counts: event_invariant counts_ok
  by unfold_locales (intro preserves_intros)+

interpretation parts_frame: event_invariant "on_parts P" for P
  by unfold_locales (intro preserves_intros)+

interpretation logs_frame: event_invariant "on_logs P" for P
  by unfold_locales (intro preserves_intros)+

subsection \<open>Invariants kept by every use case\<close>

locale manager_invariant = event_invariant I for I +
  assumes create_I: "preserves I (events_create ev)"
    and count_I: "preserves I (events_add_participant_count i n now)"
    and upsert_I: "preserves I (participations_upsert u)"
    and set_status_I: "preserves I (participations_set_status i st now)"
    and append_I: "preserves I (reminder_logs_append l)"
    and claim_I: "preserves I (jobs_claim now lease)"
    and complete_I: "preserves I (jobs_complete i now)"
    and retry_I: "preserves I (jobs_retry i t er now)"
    and fail_I: "preserves I (jobs_fail i er now)"
    and reschedule_I: "preserves I (jobs_reschedule i t now)"
begin

lemma register_organizer_keeps: "preserves (in_store I) (register_organizer ws ev now)"
  unfolding register_organizer_def by (intro preserves_intros upsert_I count_I)

lemma event_create_keeps: "preserves (in_store I) (event_create d inp)"
  unfolding event_create_def
  by (intro preserves_intros create_I register_organizer_keeps provision_keeps
      abort_provision_keeps schedule_reminders_keeps enqueue_keeps job_wf_constructors)

lemma add_count_keeps: "preserves (in_store I) (add_count d ev n)"
  unfolding add_count_def by (intro preserves_intros count_I)

lemma after_transition_keeps: "preserves (in_store I) (after_transition d ws ev p tr)"
  unfolding after_transition_def
  by (intro preserves_intros add_count_keeps cancel_I enqueue_keeps job_wf_constructors
      refresh_messages_keeps)

lemma apply_commit_keeps: "preserves (in_store I) (apply_commit d inp ev ws tr)"
  unfolding apply_commit_def Let_def
  by (intro preserves_intros upsert_I join_channel_keeps after_transition_keeps)

lemma open_event_keeps: "preserves (in_store I) (open_event i)"
  unfolding open_event_def by (intro preserves_intros)

lemma participation_apply_keeps: "preserves (in_store I) (participation_apply d inp)"
  unfolding participation_apply_def apply_read_def current_participation_def
  by (intro preserves_intros apply_commit_keeps open_event_keeps)

lemma detach_keeps: "preserves (in_store I) (detach d ws ev p st)"
  unfolding detach_def Let_def
  by (intro preserves_intros leave_channel_keeps set_status_I add_count_keeps)

lemma participation_leave_keeps: "preserves (in_store I) (participation_leave d i u)"
  unfolding participation_leave_def
  by (intro preserves_intros detach_keeps open_event_keeps refresh_messages_keeps)

lemma participation_remove_keeps: "preserves (in_store I) (participation_remove d i u)"
  unfolding participation_remove_def
  by (intro preserves_intros detach_keeps open_event_keeps refresh_messages_keeps)

lemma expire_peek_keeps: "preserves (in_store I) (expire_peek d i)"
  unfolding expire_peek_def by (intro preserves_intros detach_keeps)

lemma reminder_send_keeps: "preserves (in_store I) (reminder_send d inp)"
  unfolding reminder_send_def post_reminders_def participant_ids_def post_target_def Let_def
  by (intro preserves_intros append_I)

lemma reschedule_keeps: "preserves (in_store I) (reschedule d j t)"
  unfolding reschedule_def by (intro preserves_intros reschedule_I)

lemma handle_keeps: "preserves (in_store I) (handle d j)"
  unfolding handle_def
  by (cases "jb_kind j")
    (auto simp: handle_reminder_def handle_peek_expire_def handle_auto_end_def skip_missing_def
      handle_archive_channel_def event_get_def event_workspace_def Let_def
      intro!: preserves_intros reminder_send_keeps expire_peek_keeps reschedule_keeps
        event_close_keeps event_archive_keeps)

lemma worker_run_keeps: "preserves (in_store I) (worker_run d j)"
  unfolding worker_run_def worker_fail_def worker_verdict_def worker_complete_def worker_retry_def
  by (intro preserves_intros handle_keeps complete_I fail_I retry_I)

lemma run_once_keeps: "preserves (in_store I) (run_once d cfg)"
proof -
  have "preserves (in_store I) (run_batch d cfg k n)" for k n
    by (induction k arbitrary: n) (auto intro!: preserves_intros claim_I worker_run_keeps)
  then show ?thesis by (simp add: run_once_def)
qed

end

interpretation whole: manager_invariant store_inv
  by unfold_locales (intro preserves_intros)+

interpretation wf: manager_invariant jobs_wf
  by unfold_locales (intro preserves_intros jobs_enqueue_wf; assumption)+

end
