(* ===== verification/Manager_Counts.thy ===== *)
theory Manager_Counts
  imports Manager_Invariant
begin

section \<open>Participant counts through the participation service\<close>

text \<open>
  \<open>manager_ok\<close> collects the invariants. The use cases that change participations keep it:
  leaving, removal, expiry and creation on every path, applying when it succeeds (when the
  provider refuses the new member the count is left behind, see the root theory).
\<close>

definition manager_ok :: "store \<Rightarrow> bool" where
  "manager_ok s \<longleftrightarrow> store_inv s \<and> jobs_wf s \<and> counts_ok s"

lemma preserves_manager_ok:
  "preserves store_inv m \<Longrightarrow> preserves jobs_wf m \<Longrightarrow> preserves counts_ok m \<Longrightarrow>
   preserves manager_ok m"
  by (simp add: preserves_def manager_ok_def)

interpretation mgr: event_invariant manager_ok
  by unfold_locales (intro preserves_manager_ok preserves_intros jobs_enqueue_wf; assumption)+

lemma manager_ok_writes [preserves_intros]:
  "preserves manager_ok (jobs_claim now lease)" "preserves manager_ok (jobs_complete i now)"
  "preserves manager_ok (jobs_retry i t e now)" "preserves manager_ok (jobs_fail i e now)"
  "preserves manager_ok (jobs_reschedule i t now)" "preserves manager_ok (reminder_logs_append l)"
  by (intro preserves_manager_ok preserves_intros)+

lemma manager_ok_parts:
  "manager_ok s \<Longrightarrow> store_inv s" "manager_ok s \<Longrightarrow> jobs_wf s" "manager_ok s \<Longrightarrow> counts_ok s"
  "manager_ok s \<Longrightarrow> events_ok s" "manager_ok s \<Longrightarrow> participations_ok s" "manager_ok s \<Longrightarrow> jobs_ok s"
  by (auto simp: manager_ok_def store_inv_def)

text \<open>A step that leaves the counts off, followed by the one that repairs them.\<close>

lemma manager_ok_repaired:
  assumes "store_inv s" and "jobs_wf s" and "counts_off i n s"
  shows "manager_ok (snd (events_add_participant_count i n now s))"
proof -
  have "counts_ok (snd (events_add_participant_count i n now s))"
    using add_count_exact [OF store_inv_parts(2) [OF assms(1)] assms(3)] .
  moreover have "store_inv (snd (events_add_participant_count i n now s))"
    using assms(1) by (intro preservesD [OF events_preserves(8)])
  moreover have "jobs_wf (snd (events_add_participant_count i n now s))"
    using assms(2) by (intro preservesD [OF jobs_wf_others(5)])
  ultimately show ?thesis by (simp add: manager_ok_def)
qed

subsection \<open>Runs of the helpers\<close>

lemma add_count_run:
  "add_count d ev n w =
     (case events_add_participant_count (ev_id ev) n (dp_now d (wd_env w)) (wd_store w) of
        (r, s) \<Rightarrow> (map_sum id (\<lambda>_. ev\<lparr>ev_participant_count := ev_participant_count ev + n\<rparr>) r,
                   w\<lparr>wd_store := s\<rparr>))"
  by (simp add: add_count_def run_bind run_repo split: prod.split sum.split)

lemma handle_channel_error_Inl: "\<exists>e. fst (handle_channel_error d ev cause w) = Inl e"
  by (auto simp: handle_channel_error_def run_bind)

lemma leave_channel_Inr:
  "leave_channel d ws ev u w = (Inr x, w') \<Longrightarrow> wd_store w' = wd_store w"
proof -
  have "handle_channel_error d ev e v \<noteq> (Inr y, v')" for e v y v'
    using handle_channel_error_Inl [of d ev e v] by auto
  then show "leave_channel d ws ev u w = (Inr x, w') \<Longrightarrow> wd_store w' = wd_store w"
    by (auto simp: leave_channel_def run_bind run_port split: if_splits sum.splits)
qed

lemma join_channel_Inr:
  "join_channel d ws ev u w = (Inr x, w') \<Longrightarrow> wd_store w' = wd_store w"
proof -
  have "handle_channel_error d ev e v \<noteq> (Inr y, v')" for e v y v'
    using handle_channel_error_Inl [of d ev e v] by auto
  then show "join_channel d ws ev u w = (Inr x, w') \<Longrightarrow> wd_store w' = wd_store w"
    by (auto simp: join_channel_def run_bind run_port split: if_splits sum.splits)
qed

lemma get_event_Inr:
  "get_event i w = (Inr ev, w') \<Longrightarrow> w' = w \<and> find_event (wd_store w) i = Some ev \<and> ev_id ev = i"
  by (auto simp: get_event_def run_repo events_get_def dest: find_event_id)

lemma get_workspace_run: "snd (get_workspace i w) = w"
  by (simp add: get_workspace_def run_repo workspaces_get_def)

lemma open_event_Inr:
  assumes "open_event i w = (Inr (ev, ws), w')"
  shows "w' = w" "find_event (wd_store w) i = Some ev" "ev_id ev = i" "ev_is_open ev"
proof -
  obtain ev0 w1 where g: "get_event i w = (Inr ev0, w1)"
    and r: "(if \<not> ev_is_open ev0 then m_throw ErrEventClosed
       else m_bind (get_workspace (ev_workspace_id ev0)) (\<lambda>ws. m_return (ev0, ws))) w1 =
       (Inr (ev, ws), w')"
    using assms unfolding open_event_def by (rule bind_InrE)
  from r have "ev_is_open ev0" "ev = ev0" "w' = w1"
    using get_workspace_run [of "ev_workspace_id ev0" w1]
    by (auto simp: run_bind split: if_splits sum.splits)
  with get_event_Inr [OF g] show "w' = w" "find_event (wd_store w) i = Some ev" "ev_id ev = i"
    "ev_is_open ev" by auto
qed

lemma open_event_store: "wd_store (snd (open_event i w)) = wd_store w"
  by (auto simp: open_event_def run_bind get_event_def run_repo events_get_def get_workspace_def
      workspaces_get_def split: sum.split)

lemma find_participation_in:
  "find_participation s e v = Some p \<Longrightarrow> p \<in> set (st_participations s)"
  by (auto simp: find_participation_def dest: find_SomeD)

subsection \<open>Detaching\<close>

lemma detach_ok:
  assumes "manager_ok (wd_store w)" and "part \<in> set (st_participations (wd_store w))"
    and "pt_is_active part" and "pt_event_id part = ev_id ev" and "st \<noteq> ParticipationActive"
  shows "manager_ok (wd_store (snd (detach d ws ev part st w)))"
proof -
  obtain r w1 where lc: "leave_channel d ws ev (pt_chat_user_id part) w = (r, w1)" by fastforce
  have ok1: "manager_ok (wd_store w1)"
    using mgr.leave_channel_keeps assms(1) lc by (metis in_store_def preservesD snd_conv)
  show ?thesis
  proof (cases r)
    case (Inl e)
    with lc ok1 show ?thesis by (simp add: detach_def)
  next
    case (Inr x)
    with lc have s1: "wd_store w1 = wd_store w" using leave_channel_Inr by blast
    let ?now = "dp_now d (wd_env w1)"
    let ?set = "participations_set_status (pt_id part) st ?now (wd_store w1)"
    have fp: "find_participation_id (wd_store w1) (pt_id part) = Some part"
      using assms(2) manager_ok_parts(5) [OF ok1] s1 ids_ok_find
      unfolding find_participation_id_def participations_ok_def by metis
    then have "fst ?set = Inr ()"
      by (simp add: participations_set_status_def find_participation_id_def)
    then obtain s2 where set: "?set = (Inr (), s2)" by (metis prod.collapse)
    have off: "counts_off (ev_id ev) (if counted part then - 1 else 0) s2"
      using set_status_off [OF manager_ok_parts(3) [OF ok1] fp assms(5), of ?now] set assms(4) by simp
    have inv2: "store_inv s2" "jobs_wf s2"
      using preservesD [OF participations_preserves(4) manager_ok_parts(1) [OF ok1],
          of "pt_id part" st ?now]
        preservesD [OF jobs_wf_others(7) manager_ok_parts(2) [OF ok1], of "pt_id part" st ?now] set
      by simp_all
    have run: "detach d ws ev part st w =
      (if pt_role part \<noteq> RoleParticipant
       then (Inr (part\<lparr>pt_status := st\<rparr>, ev), w1\<lparr>wd_store := s2\<rparr>)
       else m_bind (add_count d ev (- 1)) (\<lambda>ev'. m_return (part\<lparr>pt_status := st\<rparr>, ev'))
              (w1\<lparr>wd_store := s2\<rparr>))"
      using lc Inr set by (simp add: detach_def run_bind run_repo Let_def)
    show ?thesis
    proof (cases "pt_role part = RoleParticipant")
      case True
      then have "counted part" using assms(3) by (simp add: counted_def pt_is_active_def)
      then have "manager_ok (snd (events_add_participant_count (ev_id ev) (- 1) ?now s2))"
        using off inv2 by (intro manager_ok_repaired) auto
      then show ?thesis
        unfolding run using True
        by (auto simp: run_bind add_count_run split: prod.split sum.split)
    next
      case False
      then have "counts_ok s2" using off by (simp add: counted_def)
      with inv2 False show ?thesis unfolding run by (simp add: manager_ok_def)
    qed
  qed
qed

text \<open>What follows a detach only posts.\<close>

lemma silent_store: "silent m \<Longrightarrow> wd_store (snd (m w)) = wd_store w"
  by (simp add: silent_def)

lemma then_silent_store:
  "(\<And>x. silent (f x)) \<Longrightarrow> wd_store (snd (m_bind m f w)) = wd_store (snd (m w))"
  by (auto simp: run_bind silent_store split: sum.split)

lemma participation_leave_ok:
  assumes "manager_ok (wd_store w)"
  shows "manager_ok (wd_store (snd (participation_leave d i u w)))"
proof (cases "fst (open_event i w)")
  case (Inl e)
  then show ?thesis
    using assms open_event_store [of i w] by (simp add: participation_leave_def run_bind)
next
  case (Inr p)
  then obtain ev ws w1 where o: "open_event i w = (Inr (ev, ws), w1)" by (metis prod.collapse)
  note op = open_event_Inr [OF o]
  show ?thesis
  proof (cases "find_participation (wd_store w) i u")
    case None
    then show ?thesis
      using assms o op
      by (simp add: participation_leave_def run_bind run_repo participations_get_by_user_def)
  next
    case (Some part)
    have "manager_ok (wd_store (snd (detach d ws ev part ParticipationLeft w)))"
      if "pt_is_active part"
      using that assms Some find_participation_key [OF Some] op(3)
      by (intro detach_ok) (auto dest: find_participation_in)
    moreover have "wd_store (snd (m_bind (detach d ws ev part ParticipationLeft) (\<lambda>(part', ev').
         m_bind (post d ws (ch_channel_id (ev_channel ev'))
             (dp_left d u (ev_participant_count ev'))) (\<lambda>_.
         m_bind (refresh_messages d ws ev') (\<lambda>_. m_return part'))) w)) =
      wd_store (snd (detach d ws ev part ParticipationLeft w))"
      by (rule then_silent_store) (auto intro!: silent_bind)
    ultimately show ?thesis
      using assms o op Some
      by (simp add: participation_leave_def run_bind [of "open_event i"]
          run_bind [of "repo m" for m] run_repo participations_get_by_user_def)
  qed
qed

lemma participation_remove_ok:
  assumes "manager_ok (wd_store w)"
  shows "manager_ok (wd_store (snd (participation_remove d i u w)))"
proof (cases "ps_status (dp_state d (wd_env w)) = ProviderStatusOnline \<and> (\<exists>p. fst (open_event i w) = Inr p)")
  case False
  then show ?thesis
    using assms open_event_store [of i w]
    by (auto simp: participation_remove_def run_bind require_provider_online_def split: sum.split)
next
  case True
  then have on: "require_provider_online d w = (Inr (), w)" by (simp add: require_provider_online_def)
  from True obtain ev ws w1 where o: "open_event i w = (Inr (ev, ws), w1)" by (metis prod.collapse)
  note op = open_event_Inr [OF o]
  show ?thesis
  proof (cases "find_participation (wd_store w) i u")
    case None
    then show ?thesis
      using assms o op on
      by (simp add: participation_remove_def run_bind run_repo participations_get_by_user_def)
  next
    case (Some part)
    have "manager_ok (wd_store (snd (detach d ws ev part ParticipationRemoved w)))"
      if "pt_is_active part"
      using that assms Some find_participation_key [OF Some] op(3)
      by (intro detach_ok) (auto dest: find_participation_in)
    moreover have "wd_store (snd (m_bind (detach d ws ev part ParticipationRemoved) (\<lambda>(part', ev').
         m_bind (post d ws (ch_channel_id (ev_channel ev')) (dp_removed_by_organizer d u)) (\<lambda>_.
           refresh_messages d ws ev')) w)) =
      wd_store (snd (detach d ws ev part ParticipationRemoved w))"
      by (rule then_silent_store) (auto intro!: silent_bind)
    ultimately show ?thesis
      using assms o op on Some
      by (simp add: participation_remove_def run_bind [of "open_event i"]
          run_bind [of "repo m" for m] run_repo participations_get_by_user_def)
  qed
qed

lemma expire_peek_ok:
  assumes "manager_ok (wd_store w)"
  shows "manager_ok (wd_store (snd (expire_peek d i w)))"
proof (cases "List.find (\<lambda>p. pt_id p = i) (st_participations (wd_store w))")
  case None
  then show ?thesis using assms by (simp add: expire_peek_def run_bind run_repo participations_get_def)
next
  case (Some part)
  then have part: "part \<in> set (st_participations (wd_store w))" by (auto dest: find_SomeD)
  define body where "body =
    m_bind (get_event (pt_event_id part)) (\<lambda>ev.
    m_bind (get_workspace (ev_workspace_id ev)) (\<lambda>ws.
    m_bind (detach d ws ev part ParticipationExpired) (\<lambda>(part', _). m_return (Some part', True))))"
  have "manager_ok (wd_store (snd (body w)))" if act: "pt_is_active part"
  proof (cases "find_event (wd_store w) (pt_event_id part)")
    case None
    then show ?thesis using assms by (simp add: body_def get_event_def run_bind run_repo events_get_def)
  next
    case (Some ev)
    have det: "manager_ok (wd_store (snd (detach d ws ev part ParticipationExpired w)))" for ws
      using assms part act find_event_id [OF Some] by (intro detach_ok) auto
    have tail: "wd_store (snd (m_bind (detach d ws ev part ParticipationExpired)
        (\<lambda>(part', _). m_return (Some part', True)) w)) =
      wd_store (snd (detach d ws ev part ParticipationExpired w))" for ws
      by (rule then_silent_store) auto
    from Some have "get_event (pt_event_id part) w = (Inr ev, w)"
      by (simp add: get_event_def run_repo events_get_def)
    then show ?thesis
      using assms det tail get_workspace_run [of "ev_workspace_id ev" w]
      by (auto simp: body_def run_bind [of "get_workspace i" for i] split: sum.split)
  qed
  moreover have "wd_store (snd (expire_peek d i w)) =
      (if pt_role part \<noteq> RolePeeker \<or> \<not> pt_is_active part \<or>
          \<not> peek_expired part (dp_now d (wd_env w))
       then wd_store w else wd_store (snd (body w)))"
    using Some
    by (auto simp: expire_peek_def body_def run_repo participations_get_def
        run_bind [of "m_try m" for m] run_bind [of "now_of d"])
  ultimately show ?thesis using assms by auto
qed

subsection \<open>Applying\<close>

lemma apply_read_Inr:
  assumes "apply_read inp w = (Inr (ev, ws, prev, tr), w')"
  shows "w' = w" "find_event (wd_store w) (in_event_id inp) = Some ev" "ev_id ev = in_event_id inp"
    "ev_is_open ev" "prev = find_participation (wd_store w) (in_event_id inp) (in_chat_user_id inp)"
    "tr = decide_transition prev (in_action inp)"
proof -
  obtain p w1 where o: "open_event (in_event_id inp) w = (Inr p, w1)"
    and r: "(case p of (ev, ws) \<Rightarrow>
        m_bind (current_participation (in_event_id inp) (in_chat_user_id inp)) (\<lambda>prev.
          m_return (ev, ws, prev, decide_transition prev (in_action inp)))) w1 =
      (Inr (ev, ws, prev, tr), w')"
    using assms unfolding apply_read_def by (rule bind_InrE)
  obtain ev0 ws0 where p: "p = (ev0, ws0)" by (cases p)
  note op = open_event_Inr [OF o [unfolded p]]
  have "w' = w1 \<and> ev = ev0 \<and>
      prev = find_participation (wd_store w1) (in_event_id inp) (in_chat_user_id inp) \<and>
      tr = decide_transition prev (in_action inp)"
    using r p
    by (cases "find_participation (wd_store w1) (in_event_id inp) (in_chat_user_id inp)")
      (auto simp: run_bind current_participation_def run_repo participations_get_by_user_def)
  with op show "w' = w" "find_event (wd_store w) (in_event_id inp) = Some ev"
    "ev_id ev = in_event_id inp" "ev_is_open ev"
    "prev = find_participation (wd_store w) (in_event_id inp) (in_chat_user_id inp)"
    "tr = decide_transition prev (in_action inp)" by auto
qed

lemma after_transition_rest_keeps:
  "preserves (in_store manager_ok)
     (m_bind (if c then m_bind (now_of d) (\<lambda>now.
        m_bind (repo (jobs_cancel_by_event e ks now)) (\<lambda>_. m_return ())) else m_return ()) (\<lambda>_.
      m_bind (case x of None \<Rightarrow> m_return ()
              | Some at \<Rightarrow> if c' then enqueue d (new_peek_expire_job e i n at) else m_return ()) (\<lambda>_.
      m_bind (post d ws ch msg) (\<lambda>_. m_bind (refresh_messages d ws ev) (\<lambda>_. m_return ev)))))"
  by (intro preserves_intros mgr.cancel_I mgr.enqueue_keeps mgr.refresh_messages_keeps
      job_wf_constructors)

lemma after_transition_ok:
  assumes "store_inv (wd_store w)" and "jobs_wf (wd_store w)"
    and "counts_off (ev_id ev) (if tr_role tr = RoleParticipant then 1 else 0) (wd_store w)"
  shows "manager_ok (wd_store (snd (after_transition d ws ev p tr w)))"
proof -
  obtain r w1 where c: "(if tr_role tr = RoleParticipant then add_count d ev 1 else m_return ev) w =
      (r, w1)" by fastforce
  have ok: "manager_ok (wd_store w1)"
  proof (cases "tr_role tr = RoleParticipant")
    case True
    then show ?thesis
      using c assms manager_ok_repaired [of "wd_store w" "ev_id ev" 1 "dp_now d (wd_env w)"]
      by (auto simp: add_count_run split: prod.splits)
  next
    case False
    then show ?thesis using c assms by (simp add: manager_ok_def)
  qed
  show ?thesis
  proof (cases r)
    case (Inl e)
    with c ok show ?thesis by (simp add: after_transition_def)
  next
    case (Inr ev')
    note c = c [unfolded Inr]
    show ?thesis
      unfolding after_transition_def
      by (subst run_bind_Inr, rule c)
        (rule preservesD [OF after_transition_rest_keeps, unfolded in_store_def, OF ok])
  qed
qed

lemma apply_commit_ok:
  assumes "manager_ok (wd_store w)"
    and "find_event (wd_store w) (ev_id ev) = Some ev'"
    and "tr = decide_transition prev (in_action inp)" and "has_effect tr"
    and "prev = find_participation (wd_store w) (ev_id ev) (in_chat_user_id inp)"
    and "apply_commit d inp ev ws tr w = (Inr r, w')"
  shows "manager_ok (wd_store w')"
proof -
  let ?now = "dp_now d (wd_env w)"
  define u where "u = \<lparr>pu_event_id = ev_id ev, pu_workspace_id = ws_id ws,
        pu_chat_user_id = in_chat_user_id inp, pu_display_name = in_display_name inp,
        pu_role = tr_role tr,
        pu_expires_at = (if tr_role tr = RolePeeker
                         then Some (?now + wss_peek_duration (ws_settings ws)) else None),
        pu_now = ?now\<rparr>"
  obtain c s1 where up: "participations_upsert u (wd_store w) = (Inr c, s1)"
    using parts.upsert_returns [OF manager_ok_parts(5) [OF assms(1)] TrueI] by blast
  note po = manager_ok_parts(5) [OF assms(1)]
  have before: "pc_before c = prev"
    using parts.upsert_before [OF po TrueI up] assms(5) by (simp add: u_def)
  have "ev_id ev \<in> ev_id ` set (st_events (wd_store w))"
    using assms(2) by (rule find_event_in)
  then have "counts_off (ev_id ev) (if counted (pc_after c) \<and> \<not> was_counted (pc_before c) then 1 else 0) s1"
    using upsert_off [OF manager_ok_parts(3) [OF assms(1)] po up] by (simp add: u_def)
  moreover have "\<not> was_counted prev"
    using effective_transition(3) [OF assms(3)] assms(4)
    by (cases prev) (auto simp: has_effect_def)
  moreover have "counted (pc_after c) \<longleftrightarrow> was_counted (pc_before c) \<or> tr_role tr = RoleParticipant"
    using parts.upsert_counted [OF po TrueI up] by (simp add: u_def)
  ultimately have off: "counts_off (ev_id ev) (if tr_role tr = RoleParticipant then 1 else 0) s1"
    using before by simp
  have inv1: "store_inv s1" "jobs_wf s1"
    using preservesD [OF participations_preserves(1) manager_ok_parts(1) [OF assms(1)], of u]
      preservesD [OF jobs_wf_others(6) manager_ok_parts(2) [OF assms(1)], of u] up by simp_all
  let ?w1 = "w\<lparr>wd_store := s1\<rparr>"
  have "tr_kind (decide_transition (pc_before c) (in_action inp)) = tr_kind tr"
    using before assms(3) by simp
  then have run: "apply_commit d inp ev ws tr w =
      m_bind (if tr_add_to_channel tr then join_channel d ws ev (in_chat_user_id inp)
              else m_return ()) (\<lambda>_.
      m_bind (after_transition d ws ev (pc_after c) tr) (\<lambda>ev'.
        m_return \<lparr>po_event = ev', po_participation = Some (pc_after c), po_transition = tr,
                  po_expires_at = expires_at_of (Some (pc_after c))\<rparr>)) ?w1"
    using up
    by (simp add: apply_commit_def run_bind [of "now_of d"] run_bind [of "repo m" for m] run_repo
        u_def [symmetric] Let_def)
  from assms(6) [unfolded run] obtain x w2 where j:
    "(if tr_add_to_channel tr then join_channel d ws ev (in_chat_user_id inp) else m_return ()) ?w1 =
      (Inr x, w2)"
    and rest: "m_bind (after_transition d ws ev (pc_after c) tr) (\<lambda>ev'.
        m_return \<lparr>po_event = ev', po_participation = Some (pc_after c), po_transition = tr,
                  po_expires_at = expires_at_of (Some (pc_after c))\<rparr>) w2 = (Inr r, w')"
    by (rule bind_InrE)
  have s2: "wd_store w2 = s1"
    using j join_channel_Inr [of d ws ev "in_chat_user_id inp" ?w1 x w2] by (auto split: if_splits)
  have "wd_store w' = wd_store (snd (after_transition d ws ev (pc_after c) tr w2))"
    using rest by (auto elim: bind_InrE)
  with after_transition_ok [of w2 ev tr d ws "pc_after c"] inv1 off s2 show ?thesis by simp
qed

lemma participation_apply_ok:
  assumes "manager_ok (wd_store w)" and "participation_apply d inp w = (Inr r, w')"
  shows "manager_ok (wd_store w')"
proof -
  obtain p w1 where rd: "apply_read inp w = (Inr p, w1)"
    and rest: "(case p of (ev, ws, prev, tr) \<Rightarrow>
       if \<not> has_effect tr
       then m_return \<lparr>po_event = ev, po_participation = prev, po_transition = tr,
                      po_expires_at = expires_at_of prev\<rparr>
       else apply_commit d inp ev ws tr) w1 = (Inr r, w')"
    using assms(2) unfolding participation_apply_def by (rule bind_InrE)
  obtain ev ws prev tr where p: "p = (ev, ws, prev, tr)" by (metis prod_cases4)
  note rd' = apply_read_Inr [OF rd [unfolded p]]
  show ?thesis
  proof (cases "has_effect tr")
    case False
    with rest p rd'(1) assms(1) show ?thesis by auto
  next
    case True
    with rest p rd' apply_commit_ok [OF assms(1), of ev ev tr prev inp d ws r w'] show ?thesis by simp
  qed
qed

subsection \<open>Creating\<close>

lemma events_create_counts:
  assumes "counts_ok s" and "events_ok s" and "ev_participant_count ev = 0"
  shows "counts_ok (snd (events_create ev s))"
proof -
  let ?i = "id_of_seq (Suc (st_seq s))"
  have fresh: "?i \<notin> ev_id ` set (st_events s)"
    using ids_ok_fresh assms(2) by (fastforce simp: events_ok_def)
  then have "filter (\<lambda>p. pt_event_id p = ?i \<and> counted p) (st_participations s) = []"
    using assms(1) unfolding counts_ok_def refs_ok_def filter_empty_conv by metis
  then have "participant_count s ?i = 0" by (simp add: participant_count_def)
  with assms show ?thesis
    by (auto simp: events_create_def next_id_def Let_def counts_ok_def refs_ok_def
        participant_count_def)
qed

lemma register_organizer_ok:
  assumes "manager_ok (wd_store w)" and "ev_id ev \<in> ev_id ` set (st_events (wd_store w))"
    and "find_participation (wd_store w) (ev_id ev) (cu_user_id (ev_organizer ev)) = None"
  shows "manager_ok (wd_store (snd (register_organizer ws ev now w)))"
proof -
  define u where "u = \<lparr>pu_event_id = ev_id ev, pu_workspace_id = ws_id ws,
        pu_chat_user_id = cu_user_id (ev_organizer ev),
        pu_display_name = cu_display_name (ev_organizer ev),
        pu_role = RoleParticipant, pu_expires_at = None, pu_now = now\<rparr>"
  note po = manager_ok_parts(5) [OF assms(1)]
  obtain c s1 where up: "participations_upsert u (wd_store w) = (Inr c, s1)"
    using parts.upsert_returns [OF po TrueI] by blast
  have "pc_before c = None" using parts.upsert_before [OF po TrueI up] assms(3) by (simp add: u_def)
  moreover have "counted (pc_after c)" using parts.upsert_counted [OF po TrueI up] by (simp add: u_def)
  ultimately have "counts_off (ev_id ev) 1 s1"
    using upsert_off [OF manager_ok_parts(3) [OF assms(1)] po up] assms(2) by (simp add: u_def)
  moreover have "store_inv s1" "jobs_wf s1"
    using preservesD [OF participations_preserves(1) manager_ok_parts(1) [OF assms(1)], of u]
      preservesD [OF jobs_wf_others(6) manager_ok_parts(2) [OF assms(1)], of u] up by simp_all
  ultimately have "manager_ok (snd (events_add_participant_count (ev_id ev) 1 now s1))"
    by (intro manager_ok_repaired)
  then show ?thesis
    using up by (simp add: register_organizer_def run_bind run_repo u_def [symmetric] split: sum.split)
qed

lemma register_organizer_fields:
  "register_organizer ws ev now w = (Inr ev', w') \<Longrightarrow> ev_id ev' = ev_id ev"
  by (auto simp: register_organizer_def run_bind run_repo split: sum.splits)

lemma create_tail_keeps:
  "preserves (in_store manager_ok)
     (m_bind (provision d ws ev) (\<lambda>(created', failure).
       case failure of
         Some e \<Rightarrow> m_bind (abort_provision d created') (\<lambda>_. m_throw e)
       | None \<Rightarrow>
           m_bind (schedule_reminders d ws created') (\<lambda>_.
           m_bind (enqueue d (new_auto_end_job (ev_id created')
               (auto_end_at created' (wss_auto_end_grace (ws_settings ws))))) (\<lambda>_.
             m_return created'))))"
  by (intro preserves_intros mgr.provision_keeps mgr.abort_provision_keeps
      mgr.schedule_reminders_keeps mgr.enqueue_keeps job_wf_constructors)

lemma event_create_ok:
  assumes "manager_ok (wd_store w)"
  shows "manager_ok (wd_store (snd (event_create d inp w)))"
proof (cases "ps_status (dp_state d (wd_env w)) = ProviderStatusOnline")
  case False
  then show ?thesis using assms by (simp add: event_create_def run_bind require_provider_online_def)
next
  case True
  then have on: "require_provider_online d w = (Inr (), w)" by (simp add: require_provider_online_def)
  let ?now = "dp_now d (wd_env w)"
  show ?thesis
  proof (cases "fst (get_workspace (ce_workspace_id inp) w)")
    case (Inl e)
    with on assms show ?thesis by (simp add: event_create_def run_bind get_workspace_run)
  next
    case (Inr ws)
    then have gw: "get_workspace (ce_workspace_id inp) w = (Inr ws, w)"
      using get_workspace_run by (metis prod.collapse)
    show ?thesis
    proof (cases "new_event (new_event_params_of ws inp) ?now")
      case (Inl e)
      with on gw assms show ?thesis by (simp add: event_create_def run_bind)
    next
      case (Inr ev)
      let ?s0 = "wd_store w"
      let ?i = "id_of_seq (Suc (st_seq ?s0))"
      define s1 where "s1 = snd (events_create ev ?s0)"
      have cr: "events_create ev ?s0 = (Inr (ev\<lparr>ev_id := ?i\<rparr>), s1)"
        by (simp add: s1_def events_create_def next_id_def Let_def)
      let ?w1 = "w\<lparr>wd_store := s1\<rparr>"
      have ok1: "manager_ok s1"
        using assms events_create_counts [of ?s0 ev] new_event_fields(12) [OF Inr]
          preservesD [OF events_preserves(1), of ?s0 ev] preservesD [OF jobs_wf_others(1), of ?s0 ev]
        by (simp add: manager_ok_def s1_def store_inv_def)
      have here: "ev_id (ev\<lparr>ev_id := ?i\<rparr>) \<in> ev_id ` set (st_events (wd_store ?w1))"
        by (simp add: s1_def events_create_def next_id_def Let_def)
      have "?i \<notin> pt_event_id ` set (st_participations ?s0)"
        using ids_ok_fresh [of "st_seq ?s0" "map ev_id (st_events ?s0)"] manager_ok_parts [OF assms]
        by (auto simp: events_ok_def counts_ok_def refs_ok_def)
      then have none: "find_participation (wd_store ?w1) (ev_id (ev\<lparr>ev_id := ?i\<rparr>)) u = None" for u
        by (auto simp: find_participation_def participation_key_def find_None_iff s1_def
            events_create_def next_id_def Let_def) (metis image_eqI)
      have reg: "manager_ok (wd_store (snd (register_organizer ws (ev\<lparr>ev_id := ?i\<rparr>) ?now ?w1)))"
        using ok1 here none by (intro register_organizer_ok) simp_all
      have run: "event_create d inp w =
        m_bind (register_organizer ws (ev\<lparr>ev_id := ?i\<rparr>) ?now) (\<lambda>created.
        m_bind (provision d ws created) (\<lambda>(created', failure).
        case failure of
          Some e \<Rightarrow> m_bind (abort_provision d created') (\<lambda>_. m_throw e)
        | None \<Rightarrow>
            m_bind (schedule_reminders d ws created') (\<lambda>_.
            m_bind (enqueue d (new_auto_end_job (ev_id created')
                (auto_end_at created' (wss_auto_end_grace (ws_settings ws))))) (\<lambda>_.
              m_return created')))) ?w1"
        using on gw Inr cr
        by (simp add: event_create_def run_bind [of "now_of d"] run_bind [of "m_lift r" for r]
            run_bind [of "repo m" for m] run_repo)
      show ?thesis
      proof (cases "fst (register_organizer ws (ev\<lparr>ev_id := ?i\<rparr>) ?now ?w1)")
        case (Inl e)
        with reg show ?thesis unfolding run by (simp add: run_bind)
      next
        case (Inr created)
        then have *: "register_organizer ws (ev\<lparr>ev_id := ?i\<rparr>) ?now ?w1 =
            (Inr created, snd (register_organizer ws (ev\<lparr>ev_id := ?i\<rparr>) ?now ?w1))"
          by (metis prod.collapse)
        show ?thesis
          unfolding run
          by (subst run_bind_Inr, rule *)
            (rule preservesD [OF create_tail_keeps, unfolded in_store_def, OF reg])
      qed
    qed
  qed
qed

subsection \<open>The worker\<close>

lemma expire_peek_manager: "preserves (in_store manager_ok) (expire_peek d i)"
  by (simp add: preserves_def in_store_def expire_peek_ok)

lemma handle_ok: "preserves (in_store manager_ok) (handle d j)"
  unfolding handle_def
  by (cases "jb_kind j")
    (auto simp: handle_reminder_def handle_peek_expire_def handle_auto_end_def skip_missing_def
      handle_archive_channel_def event_get_def event_workspace_def Let_def reschedule_def
      reminder_send_def post_reminders_def participant_ids_def post_target_def
      intro!: preserves_intros expire_peek_manager mgr.event_close_keeps mgr.event_archive_keeps)

lemma run_once_ok: "preserves (in_store manager_ok) (run_once d cfg)"
proof -
  have "preserves (in_store manager_ok) (worker_run d j)" for j
    unfolding worker_run_def worker_fail_def worker_verdict_def worker_complete_def worker_retry_def
    by (intro preserves_intros handle_ok)
  then have "preserves (in_store manager_ok) (run_batch d cfg k n)" for k n
    by (induction k arbitrary: n) (auto intro!: preserves_intros)
  then show ?thesis by (simp add: run_once_def)
qed

end
