(* ===== verification/Reminder_Facts.thy ===== *)
theory Reminder_Facts
  imports Manager_Counts
begin

section \<open>What scheduling and sending reminders do\<close>

text \<open>
  Scheduling replaces the pending reminders of an event by one job for each time of the
  policy that has not been sent: no deduplication key gets in the way, because sequence
  numbers grow. Sending logs each sequence number once.
\<close>

definition pending_reminder :: "string \<Rightarrow> job \<Rightarrow> bool" where
  "pending_reminder i j \<longleftrightarrow>
     jb_kind j = JobReminder \<and> jb_event_id j = i \<and> jb_status j = JobPending"

definition was_sent :: "store \<Rightarrow> string \<Rightarrow> time \<Rightarrow> bool" where
  "was_sent s i t \<longleftrightarrow>
     list_ex (\<lambda>l. rl_event_id l = i \<and> rl_scheduled_for l = t) (st_reminder_logs s)"

definition below_sequence :: "store \<Rightarrow> string \<Rightarrow> int \<Rightarrow> bool" where
  "below_sequence s i n \<longleftrightarrow>
     (\<forall>j \<in> set (st_jobs s). jb_kind j = JobReminder \<longrightarrow> jb_event_id j = i \<longrightarrow>
        jp_sequence (jb_payload j) < n)"

lemma key_free:
  assumes "jobs_wf s" and "below_sequence s i n"
  shows "\<not> has_key (reminder_key i n) s"
proof
  assume "has_key (reminder_key i n) s"
  then obtain j where j: "List.find (\<lambda>j. jb_dedupe_key j = reminder_key i n) (st_jobs s) = Some j"
    by (auto simp: has_key_def)
  from find_SomeD [OF j] have "j \<in> set (st_jobs s)" "jb_dedupe_key j = reminder_key i n" by auto
  with assms job_wf_reminder_key [of j i n] show False
    by (auto simp: jobs_wf_def on_jobs_def below_sequence_def)
qed

lemma enqueue_reminder_run:
  assumes "jobs_wf (wd_store w)" and "below_sequence (wd_store w) i n"
  shows "\<exists>s'. enqueue d (new_reminder_job i n t) w = (Inr (), w\<lparr>wd_store := s'\<rparr>) \<and>
    jobs_wf s' \<and> below_sequence s' i (n + 1) \<and> st_reminder_logs s' = st_reminder_logs (wd_store w) \<and>
    map jb_run_at (filter (pending_reminder i) (st_jobs s')) =
      map jb_run_at (filter (pending_reminder i) (st_jobs (wd_store w))) @ [t]"
proof -
  let ?s = "wd_store w" and ?now = "dp_now d (wd_env w)"
  let ?j = "enqueued (id_of_seq (Suc (st_seq ?s))) (new_reminder_job i n t) ?now"
  let ?s' = "?s\<lparr>st_seq := Suc (st_seq ?s), st_jobs := st_jobs ?s @ [?j]\<rparr>"
  have key: "jb_dedupe_key (new_reminder_job i n t) = reminder_key i n"
    by (simp add: job_constructor_defs)
  have run: "jobs_enqueue (new_reminder_job i n t) ?now ?s = (Inr ?j, ?s')"
    using key_free [OF assms] by (simp add: jobs_enqueue_def next_id_def Let_def key)
  have "enqueue d (new_reminder_job i n t) w = (Inr (), w\<lparr>wd_store := ?s'\<rparr>)"
    using run by (simp add: enqueue_def run_bind run_repo)
  moreover have "jobs_wf ?s'"
    using preservesD [OF jobs_enqueue_wf [OF job_wf_constructors(1)] assms(1), of i n t ?now] run by simp
  moreover have "below_sequence ?s' i (n + 1)"
    using assms(2) by (auto simp: below_sequence_def enqueued_def job_constructor_defs)
  moreover have "pending_reminder i ?j" "jb_run_at ?j = t"
    by (simp_all add: pending_reminder_def enqueued_def job_constructor_defs)
  ultimately show ?thesis by (intro exI [of _ ?s']) simp
qed

lemma enqueue_reminders_run:
  assumes "jobs_wf (wd_store w)" and "below_sequence (wd_store w) i n"
  shows "\<exists>s'. enqueue_reminders d i ts n w = (Inr (), w\<lparr>wd_store := s'\<rparr>) \<and>
    map jb_run_at (filter (pending_reminder i) (st_jobs s')) =
      map jb_run_at (filter (pending_reminder i) (st_jobs (wd_store w))) @
      filter (\<lambda>t. \<not> was_sent (wd_store w) i t) ts"
  using assms
proof (induction ts arbitrary: w n)
  case Nil
  then show ?case by (intro exI [of _ "wd_store w"]) simp
next
  case (Cons t ts)
  have sent: "repo (reminder_logs_sent_at i t) w = (Inr (was_sent (wd_store w) i t), w)"
    by (simp add: run_repo reminder_logs_sent_at_def was_sent_def)
  show ?case
  proof (cases "was_sent (wd_store w) i t")
    case True
    with Cons.IH [OF Cons.prems] sent show ?thesis by simp
  next
    case False
    obtain s1 where s1: "enqueue d (new_reminder_job i n t) w = (Inr (), w\<lparr>wd_store := s1\<rparr>)"
      "jobs_wf s1" "below_sequence s1 i (n + 1)"
      "st_reminder_logs s1 = st_reminder_logs (wd_store w)"
      "map jb_run_at (filter (pending_reminder i) (st_jobs s1)) =
        map jb_run_at (filter (pending_reminder i) (st_jobs (wd_store w))) @ [t]"
      using enqueue_reminder_run [OF Cons.prems, of d t] by blast
    have "was_sent s1 i u = was_sent (wd_store w) i u" for u using s1(4) by (simp add: was_sent_def)
    with Cons.IH [of "w\<lparr>wd_store := s1\<rparr>" "n + 1"] s1 sent False show ?thesis by auto
  qed
qed

lemma foldl_max_bound:
  "j \<in> set js \<Longrightarrow> jb_kind j = JobReminder \<Longrightarrow> jp_sequence (jb_payload j) \<le>
     foldl (\<lambda>highest j. if jb_kind j = JobReminder then max highest (jp_sequence (jb_payload j))
                        else highest) a js"
proof (induction js arbitrary: a rule: rev_induct)
  case (snoc k js)
  then show ?case by (auto simp: le_max_iff_disj)
qed simp

lemma next_sequence_run:
  "\<exists>n. next_reminder_sequence i w = (Inr n, w) \<and> below_sequence (wd_store w) i n"
proof -
  let ?js = "sort_key jb_run_at (filter (\<lambda>j. jb_event_id j = i) (st_jobs (wd_store w)))"
  let ?n = "foldl (\<lambda>highest j. if jb_kind j = JobReminder
      then max highest (jp_sequence (jb_payload j)) else highest) 0 ?js + 1"
  have "next_reminder_sequence i w = (Inr ?n, w)"
    by (simp add: next_reminder_sequence_def run_bind run_repo jobs_list_by_event_def)
  moreover have "below_sequence (wd_store w) i ?n"
    unfolding below_sequence_def using foldl_max_bound [of _ ?js 0] by (auto simp: zle_add1_eq_le)
  ultimately show ?thesis by blast
qed

lemma cancel_reminders:
  "\<exists>s'. repo (jobs_cancel_by_event i [JobReminder] now) w =
      (Inr (int (length (filter (cancels i [JobReminder]) (st_jobs (wd_store w))))), w\<lparr>wd_store := s'\<rparr>) \<and>
    st_reminder_logs s' = st_reminder_logs (wd_store w) \<and> filter (pending_reminder i) (st_jobs s') = [] \<and>
    (jobs_wf (wd_store w) \<longrightarrow> jobs_wf s')"
proof -
  let ?s' = "snd (jobs_cancel_by_event i [JobReminder] now (wd_store w))"
  have "filter (pending_reminder i)
      (map (\<lambda>j. if cancels i [JobReminder] j then canceled_job now j else j) js) = []" for js
    by (induction js) (auto simp: pending_reminder_def cancels_def canceled_job_def)
  moreover have "jobs_wf (wd_store w) \<longrightarrow> jobs_wf ?s'"
    using preservesD [OF jobs_wf_writes(7)] by blast
  ultimately show ?thesis
    by (intro exI [of _ ?s']) (simp add: run_repo jobs_cancel_by_event_def)
qed

lemma schedule_reminders_run:
  assumes "jobs_wf (wd_store w)" and "ev_status ev = EventStatusOpen"
    and "settings_location (dp_load_location d) (ws_settings ws) = Inr loc"
    and "policy_times (ev_reminder_policy ev) (dp_now d (wd_env w)) (ev_starts_at ev) loc = Inr ats"
  shows "\<exists>s'. schedule_reminders d ws ev w = (Inr (), w\<lparr>wd_store := s'\<rparr>) \<and>
    map jb_run_at (filter (pending_reminder (ev_id ev)) (st_jobs s')) =
      filter (\<lambda>t. \<not> was_sent (wd_store w) (ev_id ev) t) ats"
proof -
  let ?now = "dp_now d (wd_env w)" and ?i = "ev_id ev"
  obtain n s1 where c: "repo (jobs_cancel_by_event ?i [JobReminder] ?now) w = (Inr n, w\<lparr>wd_store := s1\<rparr>)"
    "st_reminder_logs s1 = st_reminder_logs (wd_store w)" "filter (pending_reminder ?i) (st_jobs s1) = []"
    "jobs_wf s1"
    using cancel_reminders [of ?i ?now w] assms(1) by blast
  obtain m where m: "next_reminder_sequence ?i (w\<lparr>wd_store := s1\<rparr>) = (Inr m, w\<lparr>wd_store := s1\<rparr>)"
    "below_sequence s1 ?i m"
    using next_sequence_run [of ?i "w\<lparr>wd_store := s1\<rparr>"] by auto
  have "was_sent s1 ?i t = was_sent (wd_store w) ?i t" for t using c(2) by (simp add: was_sent_def)
  then obtain s' where s': "enqueue_reminders d ?i ats m (w\<lparr>wd_store := s1\<rparr>) = (Inr (), w\<lparr>wd_store := s'\<rparr>)"
    "map jb_run_at (filter (pending_reminder ?i) (st_jobs s')) =
      filter (\<lambda>t. \<not> was_sent (wd_store w) ?i t) ats"
    using enqueue_reminders_run [of "w\<lparr>wd_store := s1\<rparr>" ?i m d ats] c m by auto
  have "schedule_reminders d ws ev w = (Inr (), w\<lparr>wd_store := s'\<rparr>)"
    using assms c(1) m(1) s'(1) by (simp add: schedule_reminders_def)
  with s' show ?thesis by blast
qed

text \<open>A rejected schedule is noticed after the pending reminders are gone.\<close>

lemma schedule_reminders_rejected:
  assumes "ev_status ev = EventStatusOpen"
    and "settings_location (dp_load_location d) (ws_settings ws) = Inr loc"
    and "policy_times (ev_reminder_policy ev) (dp_now d (wd_env w)) (ev_starts_at ev) loc = Inl e"
  shows "fst (schedule_reminders d ws ev w) = Inl e \<and>
    filter (pending_reminder (ev_id ev)) (st_jobs (wd_store (snd (schedule_reminders d ws ev w)))) = []"
proof -
  let ?now = "dp_now d (wd_env w)" and ?i = "ev_id ev"
  obtain n s1 where c: "repo (jobs_cancel_by_event ?i [JobReminder] ?now) w = (Inr n, w\<lparr>wd_store := s1\<rparr>)"
    "filter (pending_reminder ?i) (st_jobs s1) = []"
    using cancel_reminders [of ?i ?now w] by blast
  then show ?thesis using assms by (simp add: schedule_reminders_def)
qed

subsection \<open>Sending\<close>

definition sent_sequence :: "store \<Rightarrow> string \<Rightarrow> int \<Rightarrow> bool" where
  "sent_sequence s i n \<longleftrightarrow>
     list_ex (\<lambda>l. rl_event_id l = i \<and> rl_sequence l = n) (st_reminder_logs s)"

lemma send_keeps_sent: "preserves (in_store (\<lambda>s. sent_sequence s i n)) (reminder_send d inp)"
proof -
  have "preserves (\<lambda>s. sent_sequence s i n) (reminder_logs_append l)" for l
    by (auto simp: preserves_def sent_sequence_def accounts_op_defs)
  then show ?thesis
    unfolding reminder_send_def post_reminders_def participant_ids_def post_target_def Let_def
    by (intro preserves_intros)
qed

text \<open>A sequence number already logged: nothing is posted, nothing changes.\<close>

lemma send_again:
  assumes "sent_sequence (wd_store w) (sr_event_id inp) (sr_sequence inp)"
  shows "snd (reminder_send d inp w) = w \<and> fst (reminder_send d inp w) \<noteq> Inr True"
  using assms
  by (auto simp: reminder_send_def run_bind run_repo get_event_def events_get_def
      reminder_logs_sent_sequence_def sent_sequence_def split: sum.split)

lemma post_reminders_store:
  "wd_store (snd (post_reminders d ws ev now w)) = wd_store w"
proof -
  have "preserves (in_store (\<lambda>s. s = wd_store w)) (post_reminders d ws ev now)"
    unfolding post_reminders_def participant_ids_def post_target_def Let_def
    by (intro preserves_intros)
  then show ?thesis by (auto simp: preserves_def in_store_def)
qed

lemma append_log_ensures:
  "ensures (m_bind (repo (reminder_logs_append l)) (\<lambda>_. m_return x))
     (\<lambda>_ w. sent_sequence (wd_store w) (rl_event_id l) (rl_sequence l))"
  by (simp add: ensures_def run_bind run_repo sent_sequence_def reminder_logs_append_def Let_def
      split: prod.splits)

lemma ensures_False: "ensures (m_return False) (\<lambda>r w. r \<longrightarrow> P w)"
  by (simp add: ensures_return)

lemma append_log_sent:
  "rl_event_id l = i \<Longrightarrow> rl_sequence l = n \<Longrightarrow>
   ensures (m_bind (repo (reminder_logs_append l)) (\<lambda>_. m_return True))
     (\<lambda>r w. r \<longrightarrow> sent_sequence (wd_store w) i n)"
  by (rule ensures_mono [OF append_log_ensures]) simp

lemma send_True:
  assumes "reminder_send d inp w = (Inr True, w')"
  shows "sent_sequence (wd_store w') (sr_event_id inp) (sr_sequence inp)"
proof -
  let ?P = "\<lambda>w'. sent_sequence (wd_store w') (sr_event_id inp) (sr_sequence inp)"
  have "(\<lambda>r w'. r \<longrightarrow> ?P w') True w'"
    using assms unfolding reminder_send_def
    apply (rule bind_ensuresD)
    apply (drule get_event_Inr, elim conjE)
    apply (rule ensures_if, rule ensures_False)
    apply (rule ensures_bind)
    apply (rule ensures_if, rule ensures_False)
    apply (rule ensures_bind)
    apply (rule ensures_if, rule ensures_False)
    apply (rule ensures_bind, rule ensures_bind)
    apply (rule append_log_sent; simp)
    done
  then show ?thesis by simp
qed

lemma sends_once_from:
  assumes "\<forall>inp \<in> set inps. sr_event_id inp = i \<and> sr_sequence inp = n"
    and "run_all (reminder_send d) inps w = (rs, w')"
  shows "length (filter (\<lambda>r. r = Inr True) rs) \<le> (if sent_sequence (wd_store w) i n then 0 else 1)"
  using assms
proof (induction inps arbitrary: w rs)
  case Nil
  then show ?case by simp
next
  case (Cons inp inps)
  obtain r t where r: "reminder_send d inp w = (r, t)" by fastforce
  obtain rs' where rs: "run_all (reminder_send d) inps t = (rs', w')" "rs = r # rs'"
    using Cons.prems(2) r by (cases "run_all (reminder_send d) inps t") simp
  have key: "sr_event_id inp = i" "sr_sequence inp = n" using Cons.prems(1) by auto
  have IH: "length (filter (\<lambda>r. r = Inr True) rs') \<le> (if sent_sequence (wd_store t) i n then 0 else 1)"
  proof (rule Cons.IH [OF _ rs(1)])
    show "\<forall>inp \<in> set inps. sr_event_id inp = i \<and> sr_sequence inp = n"
      using Cons.prems(1) by (meson list.set_intros(2))
  qed
  have mono: "sent_sequence (wd_store w) i n \<Longrightarrow> sent_sequence (wd_store t) i n"
    using preservesD [OF send_keeps_sent [of i n d inp], of w] r by (simp add: in_store_def)
  show ?case
  proof (cases "r = Inr True")
    case True
    then have "sent_sequence (wd_store t) i n" using send_True r key by blast
    moreover have "\<not> sent_sequence (wd_store w) i n"
      using send_again [of w inp d] r True key by auto
    ultimately show ?thesis using IH rs(2) True by simp
  next
    case False
    then show ?thesis using IH mono rs(2) by (auto split: if_splits)
  qed
qed

end
