(* ===== verification/Event_Facts.thy ===== *)
theory Event_Facts
  imports Reminder_Facts
begin

section \<open>What closing, archiving and editing an event do\<close>

text \<open>
  Closing an open event stores it as closed, cancels its pending reminders, auto-end and
  peek-expiry jobs and queues the archive of its channel; closing it again changes nothing.
  An archived channel is not archived again. An edit leaves the channel, the messages, the
  organizer and the participant count of every stored event as they are.
\<close>

subsection \<open>Queueing a job\<close>

lemma enqueue_run:
  "\<exists>s'. enqueue d j w = (Inr (), w\<lparr>wd_store := s'\<rparr>) \<and> st_events s' = st_events (wd_store w) \<and>
     (jb_dedupe_key j \<noteq> '''' \<longrightarrow> has_key (jb_dedupe_key j) s') \<and>
     (st_jobs s' = st_jobs (wd_store w) \<or>
      (\<exists>i. st_jobs s' = st_jobs (wd_store w) @ [enqueued i j (dp_now d (wd_env w))]))"
proof (cases "jb_dedupe_key j \<noteq> '''' \<and> has_key (jb_dedupe_key j) (wd_store w)")
  case True
  then show ?thesis
    by (intro exI [of _ "wd_store w"]) (simp add: enqueue_def run_bind run_repo jobs_enqueue_def)
next
  case False
  then show ?thesis
    by (intro exI [of _ "snd (jobs_enqueue j (dp_now d (wd_env w)) (wd_store w))"])
      (auto simp: enqueue_def run_bind run_repo jobs_enqueue_def next_id_def Let_def has_key_def
        find_append enqueued_def split: option.splits)
qed

subsection \<open>Closing\<close>

definition close_kinds :: "job_kind list" where
  "close_kinds = [JobReminder, JobEventAutoEnd, JobPeekExpire]"

definition closed_by :: "end_reason \<Rightarrow> time \<Rightarrow> event \<Rightarrow> event" where
  "closed_by reason now ev =
     snd (if reason = EndReasonCanceled then event_cancel reason now ev else event_end reason now ev)"

lemma closed_by_fields [simp]:
  "ev_is_open ev \<Longrightarrow> \<not> ev_is_open (closed_by r now ev)" "ev_id (closed_by r now ev) = ev_id ev"
  "ev_channel (closed_by r now ev) = ev_channel ev"
  "ev_workspace_id (closed_by r now ev) = ev_workspace_id ev"
  by (simp_all add: closed_by_def event_cancel_def event_end_def event_close_def ev_is_open_def)

lemma close_cases:
  "(if r = EndReasonCanceled then event_cancel r now ev else event_end r now ev) =
   (ev_is_open ev, closed_by r now ev)"
  by (simp add: closed_by_def event_cancel_def event_end_def event_close_def)

text \<open>Writing back a changed copy of a stored event stores the copy.\<close>

lemma events_update_run:
  assumes "find_event s (ev_id ev) = Some ev" and "ev_id ev' = ev_id ev"
    and "ev_workspace_id ev' = ev_workspace_id ev" "ev_organizer ev' = ev_organizer ev"
    "ev_origin_channel_id ev' = ev_origin_channel_id ev" "ev_channel ev' = ev_channel ev"
    "ev_messages ev' = ev_messages ev" "ev_participant_count ev' = ev_participant_count ev"
    "ev_created_via ev' = ev_created_via ev" "ev_created_by ev' = ev_created_by ev"
    "ev_created_at ev' = ev_created_at ev"
  shows "fst (events_update ev' s) = Inr ()"
    "find_event (snd (events_update ev' s)) (ev_id ev) = Some ev'"
proof -
  show "fst (events_update ev' s) = Inr ()"
    using assms(1,2) by (simp add: events_update_def change_event_def)
  have "ev\<lparr>ev_title := ev_title ev', ev_description := ev_description ev',
      ev_location := ev_location ev', ev_starts_at := ev_starts_at ev',
      ev_ends_at := ev_ends_at ev', ev_status := ev_status ev',
      ev_reminder_policy := ev_reminder_policy ev', ev_ended_at := ev_ended_at ev',
      ev_end_reason := ev_end_reason ev', ev_updated_at := ev_updated_at ev'\<rparr> = ev'"
    by (rule event.equality) (simp_all add: assms(2-))
  then show "find_event (snd (events_update ev' s)) (ev_id ev) = Some ev'"
    unfolding events_update_def by (subst find_event_change) (simp_all add: assms(1,2))
qed

lemma update_closed:
  assumes "find_event s (ev_id ev) = Some ev"
  shows "fst (events_update (closed_by r now ev) s) = Inr ()"
    "find_event (snd (events_update (closed_by r now ev) s)) (ev_id ev) = Some (closed_by r now ev)"
  by (rule events_update_run [OF assms];
      simp add: closed_by_def event_cancel_def event_end_def event_close_def)+

lemma cancel_clears:
  "filter (cancels i ks) (st_jobs (snd (jobs_cancel_by_event i ks now s))) = []"
proof -
  have "filter (cancels i ks) (map (\<lambda>j. if cancels i ks j then canceled_job now j else j) js) = []" for js
    by (induction js) (auto simp: cancels_def canceled_job_def)
  then show ?thesis by (simp add: jobs_cancel_by_event_def)
qed

lemma find_event_cong: "st_events s' = st_events s \<Longrightarrow> find_event s' i = find_event s i"
  by (simp add: find_event_def)

lemma cancel_events: "st_events (snd (jobs_cancel_by_event i ks now s)) = st_events s"
  by (simp add: jobs_cancel_by_event_def)

lemma close_run:
  fixes d :: "('e, 'm) deps" and w :: "'e world"
  assumes ev: "find_event (wd_store w) (cl_event_id inp) = Some ev" and "ev_is_open ev"
    and auth: "authorize_manage ev (cl_actor inp) = Inr ()"
    and ws: "List.find (\<lambda>x. ws_id x = ev_workspace_id ev) (st_workspaces (wd_store w)) = Some ws"
  defines "closed \<equiv> closed_by (cl_reason inp) (dp_now d (wd_env w)) ev"
  shows "\<exists>w'. event_close_with d inp w = (Inr closed, w') \<and>
     find_event (wd_store w') (ev_id ev) = Some closed \<and>
     filter (cancels (ev_id ev) close_kinds) (st_jobs (wd_store w')) = [] \<and>
     (ch_channel_id (ev_channel ev) \<noteq> '''' \<longrightarrow> has_key (''archive:'' @ ev_id ev) (wd_store w'))"
proof -
  let ?now = "dp_now d (wd_env w)" and ?s = "wd_store w" and ?i = "ev_id ev"
  define s1 where "s1 = snd (events_update closed ?s)"
  have i: "cl_event_id inp = ?i" using find_event_id [OF ev] by simp
  have up: "events_update closed ?s = (Inr (), s1)" "find_event s1 ?i = Some closed"
    using update_closed [of ?s ev] ev i unfolding s1_def closed_def by (simp_all add: prod_eq_iff)
  have wss: "st_workspaces s1 = st_workspaces ?s"
    unfolding s1_def by (simp add: events_update_def change_event_def split: option.split)
  obtain w2 where cm: "close_messages d ws closed (w\<lparr>wd_store := s1\<rparr>) = (Inr (), w2)" "wd_store w2 = s1"
    using silentD [OF silent_close_messages, of d ws closed "w\<lparr>wd_store := s1\<rparr>"] by auto
  define s3 where "s3 = snd (jobs_cancel_by_event ?i close_kinds ?now s1)"
  let ?w3 = "w2\<lparr>wd_store := s3\<rparr>"
  have ca: "repo (jobs_cancel_by_event ?i close_kinds ?now) w2 =
      (Inr (int (length (filter (cancels ?i close_kinds) (st_jobs s1)))), ?w3)"
    by (simp add: run_repo cm(2) s3_def jobs_cancel_by_event_def)
  have same: "ev_id closed = ?i" "ev_channel closed = ev_channel ev"
    "ev_workspace_id closed = ev_workspace_id ev"
    by (simp_all add: closed_def)
  have pair: "(if cl_reason inp = EndReasonCanceled then event_cancel (cl_reason inp) ?now ev
      else event_end (cl_reason inp) ?now ev) = (True, closed)"
    using assms(2) by (simp add: close_cases closed_def)
  have ge: "get_event (cl_event_id inp) w = (Inr ev, w)"
    using ev by (simp add: get_event_def run_repo events_get_def)
  have upw: "repo (events_update closed) w = (Inr (), w\<lparr>wd_store := s1\<rparr>)"
    using up(1) by (simp add: run_repo)
  have gw: "get_workspace (ev_workspace_id ev) (w\<lparr>wd_store := s1\<rparr>) = (Inr ws, w\<lparr>wd_store := s1\<rparr>)"
    using ws wss by (simp add: get_workspace_def run_repo workspaces_get_def same)
  have head: "event_close_with d inp w =
      (if ch_channel_id (ev_channel ev) \<noteq> ''''
       then m_bind (enqueue d (new_archive_channel_job ?i ?now)) (\<lambda>_. m_return closed)
       else m_return closed) ?w3"
    unfolding event_close_with_def
    by (simp add: ge auth pair upw gw cm(1) ca same flip: close_kinds_def)
  have s3: "find_event s3 ?i = Some closed" "filter (cancels ?i close_kinds) (st_jobs s3) = []"
    using up(2) cancel_clears [of ?i close_kinds ?now s1] find_event_cong [OF cancel_events]
    by (simp_all add: s3_def)
  show ?thesis
  proof (cases "ch_channel_id (ev_channel ev) = ''''")
    case True
    then show ?thesis using head s3 by (intro exI [of _ ?w3]) simp
  next
    case False
    obtain s4 where s4: "enqueue d (new_archive_channel_job ?i ?now) ?w3 = (Inr (), ?w3\<lparr>wd_store := s4\<rparr>)"
      "st_events s4 = st_events s3" "has_key (''archive:'' @ ?i) s4"
      "st_jobs s4 = st_jobs s3 \<or>
       (\<exists>k. st_jobs s4 = st_jobs s3 @ [enqueued k (new_archive_channel_job ?i ?now) (dp_now d (wd_env ?w3))])"
      using enqueue_run [of d "new_archive_channel_job ?i ?now" ?w3]
      by (auto simp: job_constructor_defs)
    have "filter (cancels ?i close_kinds) (st_jobs s4) = []"
      using s4(4) s3(2)
      by (auto simp: cancels_def close_kinds_def enqueued_def job_constructor_defs)
    then show ?thesis
      using head s4 s3(1) False find_event_cong [OF s4(2)]
      by (intro exI [of _ "?w3\<lparr>wd_store := s4\<rparr>"]) (simp add: run_bind)
  qed
qed

text \<open>Closing again: the stored event comes back, and nothing at all changes.\<close>

lemma close_closed:
  assumes "find_event (wd_store w) (cl_event_id inp) = Some ev" and "\<not> ev_is_open ev"
    and "authorize_manage ev (cl_actor inp) = Inr ()"
  shows "event_close_with d inp w = (Inr ev, w)"
proof -
  have "get_event (cl_event_id inp) w = (Inr ev, w)"
    using assms(1) by (simp add: get_event_def run_repo events_get_def)
  moreover have "closed_by r now ev = ev" for r now
    using assms(2) by (simp add: closed_by_def event_cancel_def event_end_def event_close_def)
  ultimately show ?thesis
    unfolding event_close_with_def by (simp add: assms(2,3) close_cases)
qed

lemma authorize_closed_by [simp]:
  "authorize_manage (closed_by r now ev) a = authorize_manage ev a"
  by (simp add: authorize_manage_def closed_by_def event_cancel_def event_end_def event_close_def)

subsection \<open>Archiving\<close>

lemma archive_again:
  assumes "find_event (wd_store w) i = Some ev" and "ch_archived (ev_channel ev)"
  shows "event_archive_channel d i w = (Inr (), w)"
  using assms by (simp add: event_archive_channel_def get_event_def run_repo events_get_def)

lemma set_channel_run:
  assumes "find_event s i = Some ev"
  shows "\<exists>s'. events_set_channel i ch now s = (Inr (), s') \<and>
    find_event s' i = Some (ev\<lparr>ev_channel := ch, ev_updated_at := now\<rparr>)"
proof -
  have "find_event (snd (events_set_channel i ch now s)) i = Some (ev\<lparr>ev_channel := ch, ev_updated_at := now\<rparr>)"
    unfolding events_set_channel_def using assms by (subst find_event_change) simp_all
  moreover have "fst (events_set_channel i ch now s) = Inr ()"
    using assms by (simp add: events_set_channel_def change_event_def)
  ultimately show ?thesis by (intro exI [of _ "snd (events_set_channel i ch now s)"]) (simp add: prod_eq_iff)
qed

lemma archive_archives:
  assumes "event_archive_channel d i w = (Inr (), w')" and "find_event (wd_store w) i = Some ev"
    and "ch_channel_id (ev_channel ev) \<noteq> ''''"
  shows "\<exists>ev'. find_event (wd_store w') i = Some ev' \<and> ch_archived (ev_channel ev') \<and>
    ch_channel_id (ev_channel ev') = ch_channel_id (ev_channel ev)"
proof (cases "ch_archived (ev_channel ev)")
  case True
  then show ?thesis using assms archive_again [OF assms(2), of d] by auto
next
  case False
  have i: "ev_id ev = i" using find_event_id [OF assms(2)] .
  have ge: "get_event i w = (Inr ev, w)"
    using assms(2) by (simp add: get_event_def run_repo events_get_def)
  obtain ws w1 where w1: "get_workspace (ev_workspace_id ev) w = (Inr ws, w1)" "w1 = w"
    and r1: "m_bind (m_try (port (dp_archive_channel d (workspace_ref_of ws)
           (ch_channel_id (ev_channel ev)) (ds_archive_category_id (wss_discord (ws_settings ws)))))) (\<lambda>r.
       m_bind (case r of
           Inr info \<Rightarrow> m_return (cf_name info)
         | Inl e \<Rightarrow> if \<not> errors_is e ErrNotFound then m_throw e
                    else m_return (ch_name (ev_channel ev))) (\<lambda>name.
       m_bind (now_of d) (\<lambda>now.
         repo (events_set_channel i
           \<lparr>ch_channel_id = ch_channel_id (ev_channel ev),
            ch_name = (if name = '''' then ch_name (ev_channel ev) else name),
            ch_archived = True\<rparr> now)))) w1 = (Inr (), w')"
    using assms(1) get_workspace_run [of "ev_workspace_id ev" w] unfolding event_archive_channel_def
    by (simp add: ge False assms(3) i) (erule bind_InrE, simp)
  obtain r w2 where p: "port (dp_archive_channel d (workspace_ref_of ws)
           (ch_channel_id (ev_channel ev)) (ds_archive_category_id (wss_discord (ws_settings ws)))) w1 =
       (r, w2)" by fastforce
  have s2: "wd_store w2 = wd_store w" using p w1(2) by (auto simp: port_def split: prod.splits)
  have "\<exists>name. repo (events_set_channel i
           \<lparr>ch_channel_id = ch_channel_id (ev_channel ev),
            ch_name = (if name = '''' then ch_name (ev_channel ev) else name),
            ch_archived = True\<rparr> (dp_now d (wd_env w2))) w2 = (Inr (), w')"
    using r1 p by (cases r) (auto split: if_splits)
  then obtain ch where ch: "repo (events_set_channel i ch (dp_now d (wd_env w2))) w2 = (Inr (), w')"
    "ch_archived ch" "ch_channel_id ch = ch_channel_id (ev_channel ev)" by force
  obtain s' where "events_set_channel i ch (dp_now d (wd_env w2)) (wd_store w2) = (Inr (), s')"
    "find_event s' i = Some (ev\<lparr>ev_channel := ch, ev_updated_at := dp_now d (wd_env w2)\<rparr>)"
    using set_channel_run [of "wd_store w2" i ev ch] assms(2) s2 by auto
  then show ?thesis using ch by (auto simp: run_repo)
qed

subsection \<open>Editing\<close>

text \<open>What no edit of an event changes.\<close>

definition fixed_fields ::
  "event \<Rightarrow> (string \<times> string) \<times> chat_user_ref \<times> string \<times> channel_ref \<times> message_refs \<times> int" where
  "fixed_fields e =
     ((ev_id e, ev_workspace_id e), ev_organizer e, ev_origin_channel_id e, ev_channel e,
      ev_messages e, ev_participant_count e)"

definition on_events :: "(event list \<Rightarrow> bool) \<Rightarrow> store \<Rightarrow> bool" where
  "on_events P s \<longleftrightarrow> P (st_events s)"

lemma jobs_on_events:
  "preserves (on_events P) (jobs_enqueue j now)" "preserves (on_events P) (jobs_cancel_by_event e ks now)"
  by (simp_all add: preserves_def on_events_def jobs_write_defs)

interpretation events_frame: queue_invariant "on_events P" for P
  by unfold_locales (rule jobs_on_events)+

interpretation edits: edit_invariant "on_events (\<lambda>es. map fixed_fields es = K)" for K
proof unfold_locales
  show "preserves (on_events (\<lambda>es. map fixed_fields es = K)) (events_update ev)" for ev
    by (simp add: preserves_def on_events_def events_update_def change_event_def map_update_first
        fixed_fields_def split: option.split)
qed

lemma update_fixed:
  "map fixed_fields (st_events (wd_store (snd (event_update_with d inp w)))) =
   map fixed_fields (st_events (wd_store w))"
  using preservesD [OF edits.event_update_keeps [of "map fixed_fields (st_events (wd_store w))" d inp], of w]
  by (simp add: in_store_def on_events_def)

lemma schedule_reminders_events:
  "st_events (wd_store (snd (schedule_reminders d ws ev w))) = st_events (wd_store w)"
  using preservesD [OF events_frame.schedule_reminders_keeps
      [of "\<lambda>es. es = st_events (wd_store w)" d ws ev], of w]
  by (simp add: in_store_def on_events_def)

text \<open>A schedule that was accepted: its times are the pending reminders.\<close>

lemma schedule_reminders_Inr:
  assumes "jobs_wf (wd_store w)" and "ev_status ev = EventStatusOpen"
    and "schedule_reminders d ws ev w = (Inr (), w')"
  obtains loc ats where "settings_location (dp_load_location d) (ws_settings ws) = Inr loc"
    "policy_times (ev_reminder_policy ev) (dp_now d (wd_env w)) (ev_starts_at ev) loc = Inr ats"
    "map jb_run_at (filter (pending_reminder (ev_id ev)) (st_jobs (wd_store w'))) =
       filter (\<lambda>t. \<not> was_sent (wd_store w) (ev_id ev) t) ats"
proof (cases "settings_location (dp_load_location d) (ws_settings ws)")
  case (Inl e)
  then show ?thesis
    using assms(2,3) cancel_reminders [of "ev_id ev" "dp_now d (wd_env w)" w]
    by (auto simp: schedule_reminders_def)
next
  case loc: (Inr loc)
  show ?thesis
  proof (cases "policy_times (ev_reminder_policy ev) (dp_now d (wd_env w)) (ev_starts_at ev) loc")
    case (Inl e)
    then show ?thesis using schedule_reminders_rejected [OF assms(2) loc Inl] assms(3) by simp
  next
    case (Inr ats)
    then show ?thesis
      using that [OF loc Inr] schedule_reminders_run [OF assms(1,2) loc Inr] assms(3) by auto
  qed
qed

text \<open>The steps of an edit that succeeded.\<close>

lemma update_path:
  assumes "event_update_with d inp w = (Inr ev', w')"
  obtains ev ws w2 where "find_event (wd_store w) (ue_event_id inp) = Some ev"
    "event_apply ev (ue_update inp) (dp_now d (wd_env w)) = Inr ev'"
    "get_workspace (ev_workspace_id ev) w = (Inr ws, w)"
    "wd_store w2 = snd (events_update ev' (wd_store w))"
    "schedule_reminders d ws ev' w2 = (Inr (), w')"
proof -
  let ?now = "dp_now d (wd_env w)"
  obtain ev where ev: "find_event (wd_store w) (ue_event_id inp) = Some ev"
    and r1: "m_bind (m_lift (authorize_manage ev (ue_actor inp))) (\<lambda>_.
     m_bind (get_workspace (ev_workspace_id ev)) (\<lambda>ws.
     m_bind (now_of d) (\<lambda>now.
     m_bind (m_lift (event_apply ev (ue_update inp) now)) (\<lambda>ev'.
     m_bind (repo (events_update ev')) (\<lambda>_.
     m_bind (refresh_messages d ws ev') (\<lambda>_.
     m_bind (schedule_reminders d ws ev') (\<lambda>_.
       m_return ev'))))))) w = (Inr ev', w')"
    using assms unfolding event_update_with_def by (auto elim!: bind_InrE dest!: get_event_Inr)
  from r1 obtain ws where ws: "get_workspace (ev_workspace_id ev) w = (Inr ws, w)"
    and r2: "m_bind (m_lift (event_apply ev (ue_update inp) ?now)) (\<lambda>ev'.
     m_bind (repo (events_update ev')) (\<lambda>_.
     m_bind (refresh_messages d ws ev') (\<lambda>_.
     m_bind (schedule_reminders d ws ev') (\<lambda>_.
       m_return ev')))) w = (Inr ev', w')"
    using get_workspace_run [of "ev_workspace_id ev" w]
    by (auto elim!: bind_InrE [of "get_workspace i" for i] bind_InrE [of "m_lift r" for r])
  obtain e1 where e1: "event_apply ev (ue_update inp) ?now = Inr e1"
    using r2 by (cases "event_apply ev (ue_update inp) ?now") auto
  let ?w1 = "w\<lparr>wd_store := snd (events_update e1 (wd_store w))\<rparr>"
  have "m_bind (refresh_messages d ws e1) (\<lambda>_. m_bind (schedule_reminders d ws e1) (\<lambda>_.
      m_return e1)) ?w1 = (Inr ev', w')"
    using r2 by (auto simp: e1 run_repo elim: bind_InrE)
  moreover obtain w2 where rm: "refresh_messages d ws e1 ?w1 = (Inr (), w2)"
    "wd_store w2 = snd (events_update e1 (wd_store w))"
    using silentD [OF silent_refresh_messages, of d ws e1 ?w1] by auto
  ultimately have "m_bind (schedule_reminders d ws e1) (\<lambda>_. m_return e1) w2 = (Inr ev', w')"
    by simp
  then have "schedule_reminders d ws e1 w2 = (Inr (), w') \<and> e1 = ev'" by (auto elim!: bind_InrE)
  then show ?thesis using that ev e1 ws rm(2) by blast
qed

lemma update_run:
  assumes "jobs_wf (wd_store w)" and "event_update_with d inp w = (Inr ev', w')"
  shows "\<exists>ev ws now loc ats.
     find_event (wd_store w) (ue_event_id inp) = Some ev \<and>
     event_apply ev (ue_update inp) (dp_now d (wd_env w)) = Inr ev' \<and>
     get_workspace (ev_workspace_id ev) w = (Inr ws, w) \<and>
     find_event (wd_store w') (ue_event_id inp) = Some ev' \<and>
     settings_location (dp_load_location d) (ws_settings ws) = Inr loc \<and>
     policy_times (ev_reminder_policy ev') now (ev_starts_at ev') loc = Inr ats \<and>
     map jb_run_at (filter (pending_reminder (ue_event_id inp)) (st_jobs (wd_store w'))) =
       filter (\<lambda>t. \<not> was_sent (wd_store w) (ue_event_id inp) t) ats"
proof -
  let ?i = "ue_event_id inp" and ?s1 = "snd (events_update ev' (wd_store w))"
  obtain ev ws w2 where p: "find_event (wd_store w) ?i = Some ev"
    "event_apply ev (ue_update inp) (dp_now d (wd_env w)) = Inr ev'"
    "get_workspace (ev_workspace_id ev) w = (Inr ws, w)" "wd_store w2 = ?s1" "schedule_reminders d ws ev' w2 = (Inr (), w')"
    using update_path [OF assms(2)] .
  note fr = event_apply_frame [OF p(2)] and i = find_event_id [OF p(1)]
  have orig: "ev_origin_channel_id ev' = ev_origin_channel_id ev"
    "ev_created_via ev' = ev_created_via ev" "ev_created_by ev' = ev_created_by ev"
    "ev_created_at ev' = ev_created_at ev"
    unfolding event_apply_InrD(3) [OF p(2)] by (simp_all add: edited_def)
  have "find_event ?s1 ?i = Some ev'"
    using events_update_run(2) [of "wd_store w" ev ev'] p(1) i fr orig by simp
  then have stored: "find_event (wd_store w') ?i = Some ev'"
    using find_event_cong [OF schedule_reminders_events [of d ws ev' w2]] p(4,5) by simp
  have "jobs_wf ?s1" and logs: "st_reminder_logs ?s1 = st_reminder_logs (wd_store w)"
    using preservesD [OF jobs_wf_others(2) assms(1)]
    by (simp_all add: events_update_def change_event_def split: option.split)
  moreover have "ev_status ev' = EventStatusOpen"
    using fr(3) event_apply_InrD(1) [OF p(2)] by (simp add: ev_is_open_def)
  ultimately obtain loc ats where "settings_location (dp_load_location d) (ws_settings ws) = Inr loc"
    "policy_times (ev_reminder_policy ev') (dp_now d (wd_env w2)) (ev_starts_at ev') loc = Inr ats"
    "map jb_run_at (filter (pending_reminder ?i) (st_jobs (wd_store w'))) =
       filter (\<lambda>t. \<not> was_sent (wd_store w2) ?i t) ats"
    using schedule_reminders_Inr [OF _ _ p(5)] p(4) fr(1) i by metis
  moreover have "was_sent (wd_store w2) ?i t = was_sent (wd_store w) ?i t" for t
    using logs p(4) by (simp add: was_sent_def)
  ultimately have "find_event (wd_store w) ?i = Some ev \<and>
      event_apply ev (ue_update inp) (dp_now d (wd_env w)) = Inr ev' \<and>
      get_workspace (ev_workspace_id ev) w = (Inr ws, w) \<and>
      find_event (wd_store w') ?i = Some ev' \<and>
      settings_location (dp_load_location d) (ws_settings ws) = Inr loc \<and>
      policy_times (ev_reminder_policy ev') (dp_now d (wd_env w2)) (ev_starts_at ev') loc = Inr ats \<and>
      map jb_run_at (filter (pending_reminder ?i) (st_jobs (wd_store w'))) =
        filter (\<lambda>t. \<not> was_sent (wd_store w) ?i t) ats"
    using p(1-3) stored by simp
  then show ?thesis by blast
qed

end
