(* ===== verification/Usecase_Identity.thy ===== *)
theory Usecase_Identity
  imports Manager_Ports
begin

section \<open>Identity, workspace and provider status services\<close>

text \<open>
  \<open>identity.go\<close>, \<open>workspace.go\<close> and \<open>providerstatus.go\<close> of \<open>internal/manager/usecase\<close>:
  linking a chat account to a console user with a one-time token, synchronising and
  configuring workspaces, and reading the observed state of the provider.
\<close>

subsection \<open>Identity\<close>

record link_token_view =
  lv_workspace_name :: string
  lv_display_name :: string
  lv_chat_user_id :: string

definition issue_link_token ::
  "('e, 'm) deps \<Rightarrow> string \<Rightarrow> string \<Rightarrow> string \<Rightarrow> ('e, string) usecase" where
  "issue_link_token d workspace_id chat_user_id display_name =
     m_bind (get_workspace workspace_id) (\<lambda>ws.
     m_bind (now_of d) (\<lambda>now.
     m_bind (m_try (port (dp_random d))) (\<lambda>random.
     m_bind (m_lift (new_link_token (dp_sha256 d) random (ws_id ws) chat_user_id display_name now
         default_link_token_ttl)) (\<lambda>(plain, token).
     m_bind (m_try (repo (link_tokens_create token))) (\<lambda>r.
     case r of
       Inl e \<Rightarrow> m_throw (ErrWrapped ''create link token'' e)
     | Inr _ \<Rightarrow> m_return plain)))))"

definition get_link_token :: "('e, 'm) deps \<Rightarrow> string \<Rightarrow> ('e, link_token_view) usecase" where
  "get_link_token d plain =
     m_bind (repo (link_tokens_get (hash_token (dp_sha256 d) plain))) (\<lambda>token.
     m_bind (now_of d) (\<lambda>now.
     case token_usable token now of
       Some e \<Rightarrow> m_throw e
     | None \<Rightarrow>
         m_bind (get_workspace (lt_workspace_id token)) (\<lambda>ws.
           m_return \<lparr>lv_workspace_name = ws_name ws, lv_display_name = lt_display_name token,
                     lv_chat_user_id = lt_chat_user_id token\<rparr>)))"

definition link_identity :: "('e, 'm) deps \<Rightarrow> string \<Rightarrow> string \<Rightarrow> ('e, chat_identity) usecase" where
  "link_identity d console_user_id plain =
     m_bind (now_of d) (\<lambda>now.
     m_bind (repo (link_tokens_consume (hash_token (dp_sha256 d) plain) now)) (\<lambda>token.
     m_bind (get_workspace (lt_workspace_id token)) (\<lambda>ws.
     m_bind (m_try (repo (chat_identities_link
       \<lparr>ci_id = '''', ci_console_user_id = console_user_id, ci_workspace_id = ws_id ws,
        ci_provider = ws_provider ws, ci_workspace_external_id = ws_external_id ws,
        ci_chat_user_id = lt_chat_user_id token, ci_display_name = lt_display_name token,
        ci_linked_at = now\<rparr>))) (\<lambda>r.
     case r of
       Inl e \<Rightarrow> m_throw (ErrWrapped ''link chat identity'' e)
     | Inr identity \<Rightarrow> m_return identity))))"

definition list_identities :: "string \<Rightarrow> ('e, chat_identity list) usecase" where
  "list_identities console_user_id = repo (chat_identities_list_by_user console_user_id)"

definition unlink_identity :: "string \<Rightarrow> string \<Rightarrow> ('e, unit) usecase" where
  "unlink_identity console_user_id identity_id =
     m_bind (repo (chat_identities_list_by_user console_user_id)) (\<lambda>identities.
     if list_ex (\<lambda>c. ci_id c = identity_id) identities
     then repo (chat_identities_unlink identity_id)
     else m_throw ErrNotFound)"

definition unlink_chat_user :: "string \<Rightarrow> string \<Rightarrow> ('e, unit) usecase" where
  "unlink_chat_user workspace_id chat_user_id =
     m_bind (repo (chat_identities_get workspace_id chat_user_id)) (\<lambda>c.
       repo (chat_identities_unlink (ci_id c)))"

definition resolve_console_user :: "string \<Rightarrow> string \<Rightarrow> ('e, console_user) usecase" where
  "resolve_console_user workspace_id chat_user_id =
     m_bind (repo (chat_identities_get workspace_id chat_user_id)) (\<lambda>c.
       repo (console_users_get (ci_console_user_id c)))"

subsection \<open>Workspaces\<close>

fun workspace_sync_loop ::
  "provider_kind \<Rightarrow> time \<Rightarrow> provider_workspace list \<Rightarrow> workspace list \<Rightarrow> ('e, workspace list) usecase"
where
  "workspace_sync_loop kind now [] out = m_return out"
| "workspace_sync_loop kind now (rep # reps) out =
     m_bind (m_try (repo (workspaces_upsert
       \<lparr>ws_id = '''', ws_provider = kind, ws_external_id = pw_external_id rep,
        ws_name = pw_name rep, ws_settings = default_workspace_settings,
        ws_created_at = zero_time, ws_updated_at = zero_time\<rparr> now))) (\<lambda>r.
     case r of
       Inl e \<Rightarrow> m_throw (ErrWrapped (''sync workspace '' @ pw_external_id rep) e)
     | Inr ws \<Rightarrow> workspace_sync_loop kind now reps (out @ [ws]))"

definition workspace_sync ::
  "('e, 'm) deps \<Rightarrow> provider_kind \<Rightarrow> provider_workspace list \<Rightarrow> ('e, workspace list) usecase" where
  "workspace_sync d kind reported =
     m_bind (now_of d) (\<lambda>now. workspace_sync_loop kind now reported [])"

definition workspace_sync_from_provider :: "('e, 'm) deps \<Rightarrow> ('e, workspace list) usecase" where
  "workspace_sync_from_provider d =
     m_bind (m_try (port (dp_get_info d))) (\<lambda>r.
     case r of
       Inl e \<Rightarrow> m_throw (ErrWrapped ''get provider info'' e)
     | Inr info \<Rightarrow>
         m_bind (m_try (port (dp_list_workspaces d))) (\<lambda>r.
         case r of
           Inl e \<Rightarrow> m_throw (ErrWrapped ''list connected workspaces'' e)
         | Inr reported \<Rightarrow> workspace_sync d (pi_kind info) reported))"

definition workspace_list :: "('e, workspace list) usecase" where
  "workspace_list = repo workspaces_list"

definition workspace_get :: "string \<Rightarrow> ('e, workspace) usecase" where
  "workspace_get i = get_workspace i"

definition workspace_get_by_external_id :: "provider_kind \<Rightarrow> string \<Rightarrow> ('e, workspace) usecase" where
  "workspace_get_by_external_id kind external_id =
     repo (workspaces_get_by_external_id kind external_id)"

definition update_settings ::
  "('e, 'm) deps \<Rightarrow> string \<Rightarrow> workspace_settings \<Rightarrow> ('e, workspace) usecase" where
  "update_settings d i settings =
     (let normalized = settings_normalize settings
      in case settings_validate (dp_load_location d) normalized of
           Some e \<Rightarrow> m_throw e
         | None \<Rightarrow> m_bind (now_of d) (\<lambda>now. repo (workspaces_update_settings i normalized now)))"

definition update_recruit_channel ::
  "('e, 'm) deps \<Rightarrow> string \<Rightarrow> string \<Rightarrow> ('e, workspace) usecase" where
  "update_recruit_channel d i channel_id =
     m_bind (get_workspace i) (\<lambda>ws.
       update_settings d i ((ws_settings ws)\<lparr>wss_recruit_channel_id := channel_id\<rparr>))"

definition set_recruit_channel ::
  "('e, 'm) deps \<Rightarrow> string \<Rightarrow> string \<Rightarrow> ('e, workspace) usecase" where
  "set_recruit_channel d i channel_id = update_recruit_channel d i channel_id"

definition clear_recruit_channel :: "('e, 'm) deps \<Rightarrow> string \<Rightarrow> ('e, workspace) usecase" where
  "clear_recruit_channel d i = update_recruit_channel d i ''''"

definition workspace_resolve :: "('e, 'm) deps \<Rightarrow> workspace_ref \<Rightarrow> ('e, workspace) usecase" where
  "workspace_resolve d ref =
     (if wr_workspace_id ref \<noteq> '''' then get_workspace (wr_workspace_id ref)
      else if wr_external_id ref = '''' then m_throw ErrNotFound
      else m_bind (m_gets (\<lambda>w. Inr (ps_kind (dp_state d (wd_env w))))) (\<lambda>kind.
             repo (workspaces_get_by_external_id kind (wr_external_id ref))))"

subsection \<open>Provider status\<close>

definition status_current :: "('e, 'm) deps \<Rightarrow> ('e, provider_state) usecase" where
  "status_current d = m_gets (\<lambda>w. Inr (dp_state d (wd_env w)))"

definition status_stored :: "('e, provider_state) usecase" where
  "status_stored = repo meta_get_provider"

subsection \<open>They keep the invariant of the repository\<close>

locale account_invariant =
  fixes I :: "store \<Rightarrow> bool"
  assumes upsert_workspace_I: "preserves I (workspaces_upsert ws now)"
    and settings_I: "preserves I (workspaces_update_settings i st now)"
    and token_create_I: "preserves I (link_tokens_create tk)"
    and token_consume_I: "preserves I (link_tokens_consume t now)"
    and identity_link_I: "preserves I (chat_identities_link c)"
    and identity_unlink_I: "preserves I (chat_identities_unlink i)"
begin

lemma identity_keeps:
  "preserves (in_store I) (issue_link_token d w u n)"
  "preserves (in_store I) (get_link_token d t)"
  "preserves (in_store I) (link_identity d c t)"
  "preserves (in_store I) (unlink_identity c i)"
  "preserves (in_store I) (unlink_chat_user w u)"
  unfolding issue_link_token_def get_link_token_def link_identity_def unlink_identity_def
    unlink_chat_user_def
  by (intro preserves_intros token_create_I token_consume_I identity_link_I identity_unlink_I)+

lemma update_settings_keeps: "preserves (in_store I) (update_settings d i st)"
  unfolding update_settings_def Let_def by (intro preserves_intros settings_I)

lemma workspace_keeps:
  "preserves (in_store I) (workspace_sync d k reps)"
  "preserves (in_store I) (workspace_sync_from_provider d)"
  "preserves (in_store I) (update_recruit_channel d i c)"
proof -
  have *: "preserves (in_store I) (workspace_sync_loop k now reps out)" for k now reps out
    by (induction reps arbitrary: out) (auto intro!: preserves_intros upsert_workspace_I)
  then show "preserves (in_store I) (workspace_sync d k reps)" for reps
    unfolding workspace_sync_def by (intro preserves_intros)
  show "preserves (in_store I) (workspace_sync_from_provider d)"
    unfolding workspace_sync_from_provider_def workspace_sync_def
    by (intro preserves_intros *)
  show "preserves (in_store I) (update_recruit_channel d i c)"
    unfolding update_recruit_channel_def by (intro preserves_intros update_settings_keeps)
qed

end

interpretation accounts: account_invariant store_inv
  by unfold_locales (intro preserves_intros)+

end
