(* ===== verification/Monitor.thy ===== *)
theory Monitor
  imports Manager_Ports
begin

section \<open>The provider monitor\<close>

text \<open>
  \<open>internal/manager/providerclient/monitor.go\<close>. The monitor's \<open>state\<close> field is passed and
  returned; its configuration is the record \<open>monitor_config\<close>. \<open>GetInfo\<close>, the clock and the
  repository's meta data come from \<open>deps\<close> and the world. \<open>sleep\<close> waits outside: it is an
  operation of the environment that fails when the context ends. Polling until the provider
  answers may go on for ever, so it takes fuel and \<open>None\<close> is a poll still running.
\<close>

record monitor_config =
  mc_address :: string
  mc_interval :: duration
  mc_offline_after :: int
  mc_min_backoff :: duration
  mc_max_backoff :: duration

definition monitor_defaults :: "monitor_config \<Rightarrow> monitor_config" where
  "monitor_defaults c =
     (let interval = (if mc_interval c \<le> 0 then 15 * second else mc_interval c);
          offline = (if mc_offline_after c \<le> 0 then default_offline_after_failures
                     else mc_offline_after c);
          min_backoff = (if mc_min_backoff c \<le> 0 then second else mc_min_backoff c);
          max_backoff = (if mc_max_backoff c < min_backoff then max (30 * second) min_backoff
                         else mc_max_backoff c)
      in \<lparr>mc_address = mc_address c, mc_interval = interval, mc_offline_after = offline,
          mc_min_backoff = min_backoff, mc_max_backoff = max_backoff\<rparr>)"

definition new_monitor_state :: "monitor_config \<Rightarrow> provider_state" where
  "new_monitor_state c =
     \<lparr>ps_kind = ProviderKindOther '''', ps_address = mc_address c,
      ps_capabilities = \<lparr>cap_forms = False, cap_ephemeral = False, cap_direct_message = False\<rparr>,
      ps_version = '''', ps_bot_user_id = '''', ps_connected = False,
      ps_status = ProviderStatusOffline, ps_failures = 0, ps_first_seen_at = zero_time,
      ps_last_seen_at = zero_time, ps_updated_at = zero_time\<rparr>"

definition observe :: "monitor_config \<Rightarrow> time \<Rightarrow> provider_info \<Rightarrow> provider_state \<Rightarrow> provider_state" where
  "observe c now info st =
     st\<lparr>ps_first_seen_at := (if ps_first_seen_at st = zero_time then now else ps_first_seen_at st),
        ps_kind := pi_kind info, ps_address := mc_address c,
        ps_capabilities := pi_capabilities info, ps_version := pi_version info,
        ps_bot_user_id := pi_bot_user_id info, ps_connected := pi_connected info,
        ps_failures := 0,
        ps_status := decide_provider_status (pi_connected info) 0 (mc_offline_after c),
        ps_last_seen_at := now, ps_updated_at := now\<rparr>"

definition observe_failure :: "monitor_config \<Rightarrow> time \<Rightarrow> provider_state \<Rightarrow> provider_state" where
  "observe_failure c now st =
     (let failures = ps_failures st + 1
      in st\<lparr>ps_first_seen_at := (if ps_first_seen_at st = zero_time then now
                                 else ps_first_seen_at st),
            ps_address := mc_address c, ps_failures := failures,
            ps_status := decide_provider_status (ps_connected st) failures (mc_offline_after c),
            ps_updated_at := now\<rparr>)"

definition monitor_online :: "provider_state \<Rightarrow> bool" where
  "monitor_online st \<longleftrightarrow> ps_status st = ProviderStatusOnline"

definition save_state :: "provider_state \<Rightarrow> ('e, unit) usecase" where
  "save_state st =
     m_bind (m_try (repo (meta_save_provider st))) (\<lambda>r.
     case r of Inl e \<Rightarrow> m_throw (ErrWrapped ''save provider state'' e) | Inr _ \<Rightarrow> m_return ())"

definition kind_mismatch :: err where
  "kind_mismatch = ErrWrapped ''provider kind'' ErrProviderKindMismatch"

text \<open>\<open>Refresh\<close>: the new state and the error, if any.\<close>

definition monitor_refresh ::
  "('e, 'm) deps \<Rightarrow> monitor_config \<Rightarrow> provider_state \<Rightarrow> ('e, provider_state \<times> err option) usecase"
where
  "monitor_refresh d c st =
     m_bind (m_try (port (dp_get_info d))) (\<lambda>r.
     m_bind (now_of d) (\<lambda>now.
     case r of
       Inl e \<Rightarrow>
         let st' = observe_failure c now st
         in m_bind (m_try (save_state st')) (\<lambda>_. m_return (st', Some e))
     | Inr info \<Rightarrow>
         let recorded = ps_kind st; st' = observe c now info st
         in m_bind (m_try (save_state st')) (\<lambda>r.
            m_return (st',
              case r of
                Inl e \<Rightarrow> Some e
              | Inr _ \<Rightarrow>
                  if recorded \<noteq> ProviderKindOther '''' \<and> recorded \<noteq> pi_kind info
                  then Some kind_mismatch else None))))"

fun poll_until_reachable ::
  "nat \<Rightarrow> ('e, 'm) deps \<Rightarrow> (duration \<Rightarrow> ('e, err, unit) prog) \<Rightarrow> monitor_config \<Rightarrow> duration
   \<Rightarrow> provider_state \<Rightarrow> 'e world \<Rightarrow> ((err + provider_info) \<times> provider_state \<times> 'e world) option"
where
  "poll_until_reachable 0 d sleep c wait st w = None"
| "poll_until_reachable (Suc n) d sleep c wait st w =
     (case port (dp_get_info d) w of
        (Inr info, w1) \<Rightarrow> Some (Inr info, st, w1)
      | (Inl e, w1) \<Rightarrow>
          let st1 = observe_failure c (dp_now d (wd_env w1)) st;
              w2 = snd (save_state st1 w1)
          in (case port (sleep wait) w2 of
                (Inl s, w3) \<Rightarrow>
                  Some (Inl (ErrWrapped ''wait for provider'' (ErrJoined s e)), st1, w3)
              | (Inr _, w3) \<Rightarrow>
                  poll_until_reachable n d sleep c (min (wait * 2) (mc_max_backoff c)) st1 w3))"

text \<open>\<open>Bootstrap\<close> after the stored state has been read.\<close>

definition bootstrap_with ::
  "('e, 'm) deps \<Rightarrow> monitor_config \<Rightarrow> provider_state option \<Rightarrow> (err + provider_info)
   \<Rightarrow> provider_state \<Rightarrow> 'e world \<Rightarrow> (err + unit) \<times> provider_state \<times> 'e world" where
  "bootstrap_with d c stored r st w =
     (case r of
        Inl e \<Rightarrow> (Inl e, st, w)
      | Inr info \<Rightarrow>
          if \<not> provider_kind_valid (pi_kind info) then (Inl kind_mismatch, st, w)
          else if (case stored of None \<Rightarrow> False
                   | Some old \<Rightarrow> ps_kind old \<noteq> ProviderKindOther '''' \<and> ps_kind old \<noteq> pi_kind info)
          then (Inl kind_mismatch, st, w)
          else
            let st' = observe c (dp_now d (wd_env w)) info st
            in (case save_state st' w of (res, w') \<Rightarrow> (res, st', w')))"

definition bootstrap ::
  "nat \<Rightarrow> ('e, 'm) deps \<Rightarrow> (duration \<Rightarrow> ('e, err, unit) prog) \<Rightarrow> monitor_config \<Rightarrow> provider_state
   \<Rightarrow> 'e world \<Rightarrow> ((err + unit) \<times> provider_state \<times> 'e world) option" where
  "bootstrap fuel d sleep c st w =
     (case repo meta_get_provider w of
        (Inl e, w1) \<Rightarrow>
          if \<not> errors_is e ErrNotFound
          then Some (Inl (ErrWrapped ''load provider state'' e), st, w1)
          else map_option (\<lambda>(r, st', w'). bootstrap_with d c None r st' w')
                 (poll_until_reachable fuel d sleep c (mc_min_backoff c) st w1)
      | (Inr old, w1) \<Rightarrow>
          map_option (\<lambda>(r, st', w'). bootstrap_with d c (Some old) r st' w')
            (poll_until_reachable fuel d sleep c (mc_min_backoff c)
              (old\<lparr>ps_address := mc_address c\<rparr>) w1))"

subsection \<open>Failures and status\<close>

definition failures_from :: "monitor_config \<Rightarrow> time list \<Rightarrow> provider_state \<Rightarrow> provider_state" where
  "failures_from c nows st = foldl (\<lambda>st now. observe_failure c now st) st nows"

lemma failures_from_count:
  "ps_failures (failures_from c nows st) = ps_failures st + int (length nows) \<and>
   ps_connected (failures_from c nows st) = ps_connected st"
  unfolding failures_from_def
  by (induction nows arbitrary: st) (auto simp: observe_failure_def Let_def)

lemma failures_from_status:
  "nows \<noteq> [] \<Longrightarrow> ps_status (failures_from c nows st) =
   decide_provider_status (ps_connected st) (ps_failures st + int (length nows)) (mc_offline_after c)"
proof (induction nows rule: rev_induct)
  case (snoc now nows)
  have "failures_from c (nows @ [now]) st = observe_failure c now (failures_from c nows st)"
    by (simp add: failures_from_def)
  with failures_from_count [of c nows st] show ?case
    by (simp add: observe_failure_def Let_def ac_simps)
qed simp

lemma save_state_run:
  "save_state st w = (Inr (), w\<lparr>wd_store := snd (meta_save_provider st (wd_store w))\<rparr>)"
  by (simp add: save_state_def run_bind run_repo meta_save_provider_def)

lemma monitor_refresh_keeps: "preserves (in_store store_inv) (monitor_refresh d c st)"
  unfolding monitor_refresh_def save_state_def Let_def by (intro preserves_intros)

text \<open>
  A provider that comes up after finitely many polls is reached: \<open>left\<close> bounds the polls
  still to fail, and fuel one above it is enough.
\<close>

lemma poll_terminates:
  assumes up: "\<And>e. left e = 0 \<Longrightarrow> \<exists>info. fst (dp_get_info d e) = Inr info"
    and down: "\<And>e x wait. fst (dp_get_info d e) = Inl x \<Longrightarrow>
      fst (sleep wait (snd (dp_get_info d e))) = Inr () \<and>
      left (snd (sleep wait (snd (dp_get_info d e)))) < left e"
    and fuel: "left (wd_env w) < n"
  shows "\<exists>info st' w'. poll_until_reachable n d sleep c wait st w = Some (Inr info, st', w')"
  using fuel
proof (induction n arbitrary: wait st w)
  case 0
  then show ?case by simp
next
  case (Suc n)
  show ?case
  proof (cases "fst (dp_get_info d (wd_env w))")
    case (Inr info)
    then show ?thesis by (simp add: run_port)
  next
    case (Inl x)
    let ?e = "snd (dp_get_info d (wd_env w))"
    have s: "fst (sleep wait ?e) = Inr ()" "left (snd (sleep wait ?e)) < left (wd_env w)"
      using down [OF Inl, of wait] by auto
    have "left (wd_env (w\<lparr>wd_store := x, wd_env := snd (sleep wait ?e)\<rparr>)) < n" for x
      using s(2) Suc.prems by simp
    from Suc.IH [OF this] show ?thesis
      using Inl s(1) by (simp add: run_port save_state_run Let_def)
  qed
qed

lemma poll_mono:
  "poll_until_reachable n d sleep c wait st w = Some r \<Longrightarrow>
   poll_until_reachable (n + k) d sleep c wait st w = Some r"
proof (induction n arbitrary: wait st w)
  case (Suc n)
  then show ?case by (auto simp: Let_def split: prod.splits sum.splits)
qed simp

end
