(* ===== verification/Manager_Reachable.thy ===== *)
theory Manager_Reachable
  imports Event_Facts Usecase_Identity Monitor
begin

section \<open>The reachable states of the manager\<close>

text \<open>
  One step is one call of a service by a client, one batch of the worker, one refresh of the
  monitor, or any change of the outside world (the clock and the chat platform). Every
  state reached from the empty store satisfies \<open>manager_ok\<close>. Joining is a step when it
  succeeds: \<open>Apply\<close> that fails between its two writes leaves a participant the event does
  not count (\<open>apply_add_member_failure\<close> in the root theory).
\<close>

subsection \<open>The services that never touch events, participations or jobs\<close>

lemma untouched_others:
  assumes "\<And>s. st_events (snd (m s)) = st_events s \<and> st_participations (snd (m s)) = st_participations s \<and>
    st_jobs (snd (m s)) = st_jobs s"
  shows "preserves counts_ok m" "preserves jobs_wf m"
proof -
  have "participant_count (snd (m s)) e = participant_count s e" for s e
    using assms [of s] participant_count_cong by blast
  then show "preserves counts_ok m" using assms by (simp add: preserves_def counts_ok_def refs_ok_def)
  show "preserves jobs_wf m" using assms by (simp add: preserves_def jobs_wf_def on_jobs_def)
qed

lemma manager_ok_others:
  assumes "preserves store_inv m"
    and "\<And>s. st_events (snd (m s)) = st_events s \<and> st_participations (snd (m s)) = st_participations s \<and>
      st_jobs (snd (m s)) = st_jobs s"
  shows "preserves manager_ok m"
  by (rule preserves_manager_ok [OF assms(1) untouched_others(2,1) [OF assms(2)]])

interpretation services: account_invariant manager_ok
  by unfold_locales (rule manager_ok_others, intro preserves_intros,
      simp add: workspaces_upsert_def workspaces_update_settings_def secrets_op_defs accounts_op_defs
        next_id_def Let_def split: option.split)+

lemma meta_manager_ok: "preserves manager_ok (meta_save_provider st)"
  by (rule manager_ok_others) (intro preserves_intros, simp add: meta_save_provider_def)

subsection \<open>Steps and reachable states\<close>

inductive manager_step :: "('e, 'm) deps \<Rightarrow> 'e world \<Rightarrow> 'e world \<Rightarrow> bool" for d where
  create: "event_create d ci w = (r, w') \<Longrightarrow> manager_step d w w'"
| edit: "event_update_with d ui w = (r, w') \<Longrightarrow> manager_step d w w'"
| close: "event_close_with d li w = (r, w') \<Longrightarrow> manager_step d w w'"
| archive: "event_archive_channel d i w = (ru, w') \<Longrightarrow> manager_step d w w'"
| join: "participation_apply d pi w = (Inr out, w') \<Longrightarrow> manager_step d w w'"
| leave: "participation_leave d i u w = (r, w') \<Longrightarrow> manager_step d w w'"
| remove: "participation_remove d i u w = (r', w') \<Longrightarrow> manager_step d w w'"
| batch: "run_once d cfg w = (rn, w') \<Longrightarrow> manager_step d w w'"
| issue: "issue_link_token d wi u dn w = (rl, w') \<Longrightarrow> manager_step d w w'"
| link: "link_identity d cu tk w = (rk, w') \<Longrightarrow> manager_step d w w'"
| unlink: "unlink_identity cu i w = (ru, w') \<Longrightarrow> manager_step d w w'"
| unlink_chat: "unlink_chat_user wi u w = (ru, w') \<Longrightarrow> manager_step d w w'"
| sync: "workspace_sync_from_provider d w = (rs, w') \<Longrightarrow> manager_step d w w'"
| settings: "update_settings d i ws w = (rw, w') \<Longrightarrow> manager_step d w w'"
| recruit: "update_recruit_channel d i c w = (rw, w') \<Longrightarrow> manager_step d w w'"
| monitor: "monitor_refresh d mc st w = (rm, w') \<Longrightarrow> manager_step d w w'"
| outside: "manager_step d w (w\<lparr>wd_env := e\<rparr>)"

inductive reachable :: "('e, 'm) deps \<Rightarrow> 'e world \<Rightarrow> bool" for d where
  initial: "reachable d \<lparr>wd_store = new_store, wd_env = e\<rparr>"
| next_step: "reachable d w \<Longrightarrow> manager_step d w w' \<Longrightarrow> reachable d w'"

lemma manager_ok_new: "manager_ok new_store"
  using store_inv_new
  by (simp add: manager_ok_def jobs_wf_def on_jobs_def counts_ok_def refs_ok_def new_store_def)

lemma in_storeD: "preserves (in_store I) m \<Longrightarrow> m w = (r, w') \<Longrightarrow> I (wd_store w) \<Longrightarrow> I (wd_store w')"
  by (auto simp: preserves_def in_store_def dest: spec [of _ w])

lemma monitor_manager_ok: "preserves (in_store manager_ok) (monitor_refresh d c st)"
  unfolding monitor_refresh_def save_state_def Let_def by (intro preserves_intros meta_manager_ok)

lemma manager_step_ok: "manager_step d w w' \<Longrightarrow> manager_ok (wd_store w) \<Longrightarrow> manager_ok (wd_store w')"
proof (induction rule: manager_step.induct)
  case (create ci w r w')
  then show ?case using event_create_ok [of w d ci] by simp
next
  case (edit ui w r w')
  then show ?case using in_storeD [OF mgr.event_update_keeps] by blast
next
  case (close li w r w')
  then show ?case using in_storeD [OF mgr.event_close_keeps] by blast
next
  case (archive i w ru w')
  then show ?case using in_storeD [OF mgr.event_archive_keeps] by blast
next
  case (join pi w out w')
  then show ?case using participation_apply_ok by blast
next
  case (leave i u w r w')
  then show ?case using participation_leave_ok [of w d i u] by simp
next
  case (remove i u w r' w')
  then show ?case using participation_remove_ok [of w d i u] by simp
next
  case (batch cfg w rn w')
  then show ?case using in_storeD [OF run_once_ok] by blast
next
  case (issue wi u dn w rl w')
  then show ?case using in_storeD [OF services.identity_keeps(1)] by blast
next
  case (link cu tk w rk w')
  then show ?case using in_storeD [OF services.identity_keeps(3)] by blast
next
  case (unlink cu i w ru w')
  then show ?case using in_storeD [OF services.identity_keeps(4)] by blast
next
  case (unlink_chat wi u w ru w')
  then show ?case using in_storeD [OF services.identity_keeps(5)] by blast
next
  case (sync w rs w')
  then show ?case using in_storeD [OF services.workspace_keeps(2)] by blast
next
  case (settings i ws w rw w')
  then show ?case using in_storeD [OF services.update_settings_keeps] by blast
next
  case (recruit i c w rw w')
  then show ?case using in_storeD [OF services.workspace_keeps(3)] by blast
next
  case (monitor mc st w rm w')
  then show ?case using in_storeD [OF monitor_manager_ok] by blast
qed simp

lemma reachable_manager_ok: "reachable d w \<Longrightarrow> manager_ok (wd_store w)"
  by (induction rule: reachable.induct) (simp_all add: manager_ok_new manager_step_ok)

end
