(* ===== verification/Concurrent_Joins.thy ===== *)
theory Concurrent_Joins
  imports Manager_Counts
begin

section \<open>Concurrent presses of the join button\<close>

text \<open>
  \<open>Apply\<close> reads the participation, decides a transition and then writes it; two callers may
  read the same state before either writes. The second write settles on the record the first
  left: \<open>commit_cases\<close> gives what one write does from any state, and a burst of joins of one
  user that were all decided on the same state counts the user once.
\<close>

definition upsert_of ::
  "participation_input \<Rightarrow> event \<Rightarrow> workspace \<Rightarrow> transition \<Rightarrow> time \<Rightarrow> participation_upsert" where
  "upsert_of inp ev ws tr now =
     \<lparr>pu_event_id = ev_id ev, pu_workspace_id = ws_id ws,
      pu_chat_user_id = in_chat_user_id inp, pu_display_name = in_display_name inp,
      pu_role = tr_role tr,
      pu_expires_at = (if tr_role tr = RolePeeker
                       then Some (now + wss_peek_duration (ws_settings ws)) else None),
      pu_now = now\<rparr>"

lemma upsert_of_simps [simp]:
  "pu_event_id (upsert_of inp ev ws tr now) = ev_id ev"
  "pu_chat_user_id (upsert_of inp ev ws tr now) = in_chat_user_id inp"
  "pu_role (upsert_of inp ev ws tr now) = tr_role tr"
  by (simp_all add: upsert_of_def)

subsection \<open>After the write\<close>

lemma after_transition_parts:
  "st_participations (wd_store (snd (after_transition d ws ev p tr w))) = st_participations (wd_store w)"
proof -
  have "preserves (on_parts P) (events_add_participant_count i n now)" for P i n now
    by (rule event_writes_frame)
  then have "preserves (in_store (on_parts P)) (after_transition d ws ev p tr)" for P
    unfolding after_transition_def add_count_def
    by (intro preserves_intros parts_frame.cancel_I parts_frame.enqueue_keeps job_wf_constructors
        parts_frame.refresh_messages_keeps)
  from preservesD [OF this [of "\<lambda>ps. ps = st_participations (wd_store w)"], of w] show ?thesis
    by (simp add: in_store_def on_parts_def)
qed

lemma commit_cases:
  assumes "participations_upsert (upsert_of inp ev ws tr (dp_now d (wd_env w))) (wd_store w) = (Inr c, s1)"
    and "apply_commit d inp ev ws tr w = (Inr r, w')"
  defines "settled \<equiv> decide_transition (pc_before c) (in_action inp)"
  shows "if tr_kind settled \<noteq> tr_kind tr then w' = w\<lparr>wd_store := s1\<rparr> \<and> po_transition r = settled
    else po_transition r = tr \<and> st_participations (wd_store w') = st_participations s1"
proof -
  let ?w1 = "w\<lparr>wd_store := s1\<rparr>"
  have run: "(if tr_kind settled \<noteq> tr_kind tr
        then m_return \<lparr>po_event = ev, po_participation = Some (pc_after c), po_transition = settled,
                       po_expires_at = expires_at_of (Some (pc_after c))\<rparr>
        else
          m_bind (if tr_add_to_channel tr then join_channel d ws ev (in_chat_user_id inp)
                  else m_return ()) (\<lambda>_.
          m_bind (after_transition d ws ev (pc_after c) tr) (\<lambda>ev'.
            m_return \<lparr>po_event = ev', po_participation = Some (pc_after c), po_transition = tr,
                      po_expires_at = expires_at_of (Some (pc_after c))\<rparr>))) ?w1 = (Inr r, w')"
    using assms(1,2) unfolding settled_def
    by (simp add: apply_commit_def run_bind [of "now_of d"] run_bind [of "repo m" for m] run_repo
        upsert_of_def Let_def)
  show ?thesis
  proof (cases "tr_kind settled = tr_kind tr")
    case False
    then show ?thesis using run by auto
  next
    case True
    with run obtain x w2 where j:
      "(if tr_add_to_channel tr then join_channel d ws ev (in_chat_user_id inp) else m_return ()) ?w1 =
        (Inr x, w2)"
      and rest: "m_bind (after_transition d ws ev (pc_after c) tr) (\<lambda>ev'.
          m_return \<lparr>po_event = ev', po_participation = Some (pc_after c), po_transition = tr,
                    po_expires_at = expires_at_of (Some (pc_after c))\<rparr>) w2 = (Inr r, w')"
      by (auto elim: bind_InrE)
    have "wd_store w2 = s1"
      using j join_channel_Inr [of d ws ev "in_chat_user_id inp" ?w1 x w2] by (auto split: if_splits)
    then show ?thesis
      using rest True after_transition_parts [of d ws ev "pc_after c" tr w2] by (auto elim!: bind_InrE)
  qed
qed

subsection \<open>A burst of joins\<close>

lemma decide_counted:
  "counted p \<Longrightarrow> tr_kind (decide_transition (Some p) a) = TransitionAlreadyParticipant"
  by (simp add: decide_transition_def counted_def)

text \<open>A write of a join for a user who is a participant by now: only the record is refreshed.\<close>

lemma commit_counted:
  assumes ok: "manager_ok (wd_store w)" and ev: "ev_id ev \<in> ev_id ` set (st_events (wd_store w))"
    and p: "was_counted (find_participation (wd_store w) (ev_id ev) (in_chat_user_id inp))"
    and tr: "tr_kind tr \<noteq> TransitionAlreadyParticipant"
    and run: "apply_commit d inp ev ws tr w = (Inr r, w')"
  shows "manager_ok (wd_store w')"
    "was_counted (find_participation (wd_store w') (ev_id ev) (in_chat_user_id inp))"
    "tr_kind (po_transition r) = TransitionAlreadyParticipant"
    "st_events (wd_store w') = st_events (wd_store w)"
proof -
  let ?u = "upsert_of inp ev ws tr (dp_now d (wd_env w))"
  note po = manager_ok_parts(5) [OF ok]
  obtain c s1 where up: "participations_upsert ?u (wd_store w) = (Inr c, s1)"
    using parts.upsert_returns [OF po TrueI] by blast
  have before: "was_counted (pc_before c)"
    using parts.upsert_before [OF po TrueI up] p by simp
  then have "tr_kind (decide_transition (pc_before c) (in_action inp)) = TransitionAlreadyParticipant"
    by (cases "pc_before c") (simp_all add: decide_counted)
  with commit_cases [OF up run] tr have r: "w' = w\<lparr>wd_store := s1\<rparr>"
    "tr_kind (po_transition r) = TransitionAlreadyParticipant" by auto
  have "counts_ok s1"
    using upsert_off [OF manager_ok_parts(3) [OF ok] po up] ev before by simp
  moreover have "store_inv s1" "jobs_wf s1"
    using preservesD [OF participations_preserves(1) manager_ok_parts(1) [OF ok], of ?u]
      preservesD [OF jobs_wf_others(6) manager_ok_parts(2) [OF ok], of ?u] up by simp_all
  ultimately show "manager_ok (wd_store w')" by (simp add: r manager_ok_def)
  show "was_counted (find_participation (wd_store w') (ev_id ev) (in_chat_user_id inp))"
    using parts.upsert_lookup [OF po TrueI up] parts.upsert_counted [OF po TrueI up] before by (simp add: r)
  show "tr_kind (po_transition r) = TransitionAlreadyParticipant" by (rule r(2))
  show "st_events (wd_store w') = st_events (wd_store w)"
    using up by (auto simp: r participations_upsert_def next_id_def Let_def split: option.splits)
qed

lemma burst_counted:
  assumes "manager_ok (wd_store w)" and "ev_id ev \<in> ev_id ` set (st_events (wd_store w))"
    and "was_counted (find_participation (wd_store w) (ev_id ev) v)"
    and "tr_kind tr \<noteq> TransitionAlreadyParticipant" and "\<forall>inp \<in> set inps. in_chat_user_id inp = v"
    and "run_all (\<lambda>inp. apply_commit d inp ev ws tr) inps w = (map Inr outs, w')"
  shows "manager_ok (wd_store w') \<and>
    (\<forall>r \<in> set outs. tr_kind (po_transition r) = TransitionAlreadyParticipant)"
  using assms
proof (induction inps arbitrary: w outs)
  case Nil
  then show ?case by simp
next
  case (Cons inp inps)
  obtain x t where x: "apply_commit d inp ev ws tr w = (x, t)" by fastforce
  obtain xs u where xs: "run_all (\<lambda>inp. apply_commit d inp ev ws tr) inps t = (xs, u)" by fastforce
  from Cons.prems(6) x xs obtain r rs where rs: "x = Inr r" "xs = map Inr rs" "outs = r # rs" "u = w'"
    by (cases outs) auto
  have v: "in_chat_user_id inp = v" using Cons.prems(5) by simp
  note c = commit_counted [of w ev inp tr d ws r t, OF Cons.prems(1,2) _ Cons.prems(4)]
  have p: "was_counted (find_participation (wd_store w) (ev_id ev) (in_chat_user_id inp))"
    using Cons.prems(3) v by simp
  have run: "apply_commit d inp ev ws tr w = (Inr r, t)" using x rs(1) by simp
  have "manager_ok (wd_store w') \<and>
      (\<forall>r \<in> set rs. tr_kind (po_transition r) = TransitionAlreadyParticipant)"
    using Cons.IH [of t rs] c [OF p run] Cons.prems(2,4,5) xs rs(2,4) v by simp
  then show ?case using c(3) [OF p run] rs(3) by simp
qed

interpretation stored_event: manager_invariant "\<lambda>s. i \<in> ev_id ` set (st_events s)" for i
proof unfold_locales
  have change: "preserves (\<lambda>s. i \<in> ev_id ` set (st_events s)) (change_event k f)"
    if "\<And>e. ev_id (f e) = ev_id e" for k f
    using map_update_first [of "\<lambda>e. ev_id e = k" ev_id f] that
    by (simp add: preserves_def change_event_def split: option.split) (metis list.set_map)
  show "preserves (\<lambda>s. i \<in> ev_id ` set (st_events s)) (events_update ev)" for ev
    unfolding events_update_def by (rule change) simp
  show "preserves (\<lambda>s. i \<in> ev_id ` set (st_events s)) (events_set_channel k ch now)" for k ch now
    unfolding events_set_channel_def by (rule change) simp
  show "preserves (\<lambda>s. i \<in> ev_id ` set (st_events s)) (events_set_messages k ms now)" for k ms now
    unfolding events_set_messages_def by (rule change) simp
  show "preserves (\<lambda>s. i \<in> ev_id ` set (st_events s)) (events_add_participant_count k n now)"
    for k n now
    unfolding events_add_participant_count_def by (rule change) simp
  show "preserves (\<lambda>s. i \<in> ev_id ` set (st_events s)) (events_create ev)" for ev
    by (simp add: preserves_def events_create_def next_id_def Let_def)
qed (simp_all add: preserves_def jobs_write_defs participations_op_defs accounts_op_defs
    split: option.split)

lemma join_decision:
  assumes "\<not> was_counted prev"
  shows "has_effect (decide_transition prev ActionJoin)"
    "tr_role (decide_transition prev ActionJoin) = RoleParticipant"
    "tr_kind (decide_transition prev ActionJoin) \<noteq> TransitionAlreadyParticipant"
  using assms
  by (auto simp: decide_transition_def new_entry_transition_def has_effect_def counted_def
      split: option.split participation_role.split)

lemma burst_of_joins:
  assumes ok: "manager_ok (wd_store w)"
    and ev: "find_event (wd_store w) (ev_id ev) = Some ev0"
    and prev: "\<not> was_counted (find_participation (wd_store w) (ev_id ev) v)"
    and inps: "inps \<noteq> []" "\<forall>inp \<in> set inps. in_chat_user_id inp = v \<and> in_action inp = ActionJoin"
    and run: "run_all (\<lambda>inp. apply_commit d inp ev ws
        (decide_transition (find_participation (wd_store w) (ev_id ev) v) ActionJoin)) inps w =
      (map Inr outs, w')"
  shows "manager_ok (wd_store w') \<and>
    length (filter (\<lambda>r. tr_kind (po_transition r) \<noteq> TransitionAlreadyParticipant) outs) = 1"
proof -
  let ?prev = "find_participation (wd_store w) (ev_id ev) v"
  define tr where "tr = decide_transition ?prev ActionJoin"
  obtain inp rest where i: "inps = inp # rest" using inps(1) by (cases inps) auto
  have key: "in_chat_user_id inp = v" "in_action inp = ActionJoin" using inps(2) i by auto
  obtain x t where x: "apply_commit d inp ev ws tr w = (x, t)" by fastforce
  obtain xs u where xs: "run_all (\<lambda>inp. apply_commit d inp ev ws tr) rest t = (xs, u)" by fastforce
  from run x xs i obtain r rs where rs: "x = Inr r" "xs = map Inr rs" "outs = r # rs" "u = w'"
    unfolding tr_def by (cases outs) auto
  have run1: "apply_commit d inp ev ws tr w = (Inr r, t)" using x rs(1) by simp
  have ok1: "manager_ok (wd_store t)"
    using apply_commit_ok [OF ok ev _ _ _ run1] join_decision(1) [OF prev] key by (simp add: tr_def)
  have ev1: "ev_id ev \<in> ev_id ` set (st_events (wd_store t))"
    using preservesD [OF stored_event.apply_commit_keeps [of "ev_id ev" d inp ev ws tr], of w]
      find_event_in [OF ev] run1 by (simp add: in_store_def)
  note po = manager_ok_parts(5) [OF ok]
  obtain c s1 where up: "participations_upsert (upsert_of inp ev ws tr (dp_now d (wd_env w))) (wd_store w)
      = (Inr c, s1)"
    using parts.upsert_returns [OF po TrueI] by blast
  have "pc_before c = ?prev" using parts.upsert_before [OF po TrueI up] key by simp
  with commit_cases [OF up run1] key have first: "po_transition r = tr"
    "st_participations (wd_store t) = st_participations s1" by (auto simp: tr_def)
  have "was_counted (find_participation s1 (ev_id ev) v)"
    using parts.upsert_lookup [OF po TrueI up] parts.upsert_counted [OF po TrueI up] join_decision(2) [OF prev] key
    by (simp add: tr_def)
  then have p1: "was_counted (find_participation (wd_store t) (ev_id ev) v)"
    using first(2) by (simp add: find_participation_def)
  have kind: "tr_kind tr \<noteq> TransitionAlreadyParticipant"
    using join_decision(3) [OF prev] by (simp add: tr_def)
  have "manager_ok (wd_store w') \<and> (\<forall>r \<in> set rs. tr_kind (po_transition r) = TransitionAlreadyParticipant)"
    using burst_counted [OF ok1 ev1 p1 kind, of rest d ws rs w'] inps(2) i xs rs(2,4) by simp
  then show ?thesis using rs(3) first(1) kind by simp
qed

end
