(* ===== verification/Sample_World.thy ===== *)
theory Sample_World
  imports Manager_Reachable Concurrent_Joins
begin

section \<open>A small world\<close>

text \<open>
  A store with one open event, its organizer and two users who are peeking, the jobs the
  services queue for them, and a chat platform that accepts every call. Properties with
  hypotheses are applied to it.
\<close>

definition sample_state :: provider_state where
  "sample_state = \<lparr>ps_kind = ProviderKindSlack, ps_address = ''provider:50051'',
     ps_capabilities = \<lparr>cap_forms = True, cap_ephemeral = True, cap_direct_message = True\<rparr>,
     ps_version = ''1'', ps_bot_user_id = ''B'', ps_connected = True,
     ps_status = ProviderStatusOnline, ps_failures = 0, ps_first_seen_at = 0,
     ps_last_seen_at = 0, ps_updated_at = 0\<rparr>"

definition sample_channel :: channel_info where
  "sample_channel = \<lparr>cf_id = ''C9'', cf_name = ''ev-0105-lunch'', cf_is_private = True,
                     cf_archived = False\<rparr>"

text \<open>The environment is the clock.\<close>

definition quiet_deps :: "(time, unit) deps" where
  "quiet_deps = \<lparr>dp_now = (\<lambda>now. now), dp_state = (\<lambda>_. sample_state),
     dp_get_info = m_return \<lparr>pi_kind = ProviderKindSlack,
       pi_capabilities = ps_capabilities sample_state, pi_version = ''1'', pi_bot_user_id = ''B'',
       pi_connected = True\<rparr>,
     dp_list_workspaces = m_return [\<lparr>pw_external_id = ''T1'', pw_name = ''Team''\<rparr>],
     dp_create_channel = (\<lambda>_ _. m_return sample_channel),
     dp_add_member = (\<lambda>_ _ _. m_return False), dp_remove_member = (\<lambda>_ _ _. m_return False),
     dp_archive_channel = (\<lambda>_ _ _. m_return (sample_channel\<lparr>cf_archived := True\<rparr>)),
     dp_post_message = (\<lambda>_ c _. m_return \<lparr>mr_channel_id = c, mr_message_id = ''M1''\<rparr>),
     dp_update_message = (\<lambda>_ _ _. m_return ()), dp_pin_message = (\<lambda>_ _. m_return ()),
     dp_unpin_message = (\<lambda>_ _. m_return ()),
     dp_announcement = (\<lambda>_ _. Some ()), dp_summary = (\<lambda>_. Some ()),
     dp_reminder = (\<lambda>_ _ _. Some ()), dp_recruit_reminder = (\<lambda>_ _ _. Some ()),
     dp_closing = (\<lambda>_. Some ()), dp_transition = (\<lambda>_ _ _ _. Some ()), dp_left = (\<lambda>_ _. Some ()),
     dp_removed_by_organizer = (\<lambda>_. Some ()),
     dp_load_location = (\<lambda>_. Some utc), dp_channel_name = (\<lambda>_ _ _ _ _. ''ev-0105-lunch''),
     dp_with_suffix = (\<lambda>name _ _. name), dp_random = m_return (replicate 32 7),
     dp_sha256 = (\<lambda>_. replicate 32 9)\<rparr>"

text \<open>The same platform when it refuses new members.\<close>

definition refusing_deps :: "(time, unit) deps" where
  "refusing_deps = quiet_deps\<lparr>dp_add_member := (\<lambda>_ _ _. m_throw ErrBotPermission)\<rparr>"

definition sample_workspace :: workspace where
  "sample_workspace = \<lparr>ws_id = id_of_seq 1, ws_provider = ProviderKindSlack,
     ws_external_id = ''T1'', ws_name = ''Team'', ws_settings = default_workspace_settings,
     ws_created_at = 0, ws_updated_at = 0\<rparr>"

definition sample_event :: event where
  "sample_event = \<lparr>ev_id = id_of_seq 2, ev_workspace_id = id_of_seq 1, ev_title = ''Lunch'',
     ev_description = '''', ev_location = '''', ev_starts_at = 100 * hour, ev_ends_at = None,
     ev_status = EventStatusOpen,
     ev_organizer = \<lparr>cu_user_id = ''U1'', cu_display_name = ''Aki''\<rparr>,
     ev_origin_channel_id = ''C0'',
     ev_channel = \<lparr>ch_channel_id = ''C9'', ch_name = ''ev-0105-lunch'', ch_archived = False\<rparr>,
     ev_messages = no_messages, ev_reminder_policy = default_reminder_policy,
     ev_participant_count = 1, ev_ended_at = None, ev_end_reason = NoEndReason,
     ev_created_via = CreatedViaChat, ev_created_by = ''U1'', ev_created_at = 0,
     ev_updated_at = 0\<rparr>"

definition sample_participation ::
  "nat \<Rightarrow> string \<Rightarrow> participation_role \<Rightarrow> time option \<Rightarrow> participation" where
  "sample_participation n u role expires =
     \<lparr>pt_id = id_of_seq n, pt_event_id = id_of_seq 2, pt_workspace_id = id_of_seq 1,
      pt_chat_user_id = u, pt_display_name = u, pt_role = role, pt_status = ParticipationActive,
      pt_joined_at = 0, pt_expires_at = expires, pt_peek_count = peek_increment role,
      pt_updated_at = 0\<rparr>"

definition sample_jobs :: "job list" where
  "sample_jobs =
     [enqueued (id_of_seq 6) (new_auto_end_job (id_of_seq 2) (106 * hour)) 0,
      enqueued (id_of_seq 7) (new_peek_expire_job (id_of_seq 2) (id_of_seq 4) 1 (24 * hour)) 0,
      enqueued (id_of_seq 8) (new_peek_expire_job (id_of_seq 2) (id_of_seq 5) 1 (24 * hour)) 0,
      enqueued (id_of_seq 9) (new_reminder_job (id_of_seq 2) 1 (76 * hour)) 0]"

definition sample_store :: store where
  "sample_store = new_store\<lparr>st_seq := 9, st_workspaces := [sample_workspace],
     st_events := [sample_event],
     st_participations := [sample_participation 3 ''U1'' RoleParticipant None,
       sample_participation 4 ''U2'' RolePeeker (Some (24 * hour)),
       sample_participation 5 ''U3'' RolePeeker (Some (24 * hour))],
     st_jobs := sample_jobs\<rparr>"

definition sample_world :: "time world" where
  "sample_world = \<lparr>wd_store = sample_store, wd_env = hour\<rparr>"

lemmas sample_defs = sample_world_def sample_store_def sample_jobs_def sample_participation_def
  sample_event_def sample_workspace_def new_store_def

lemma quiet_simps [simp]:
  "dp_now quiet_deps now = now" "dp_state quiet_deps x = sample_state"
  "dp_load_location quiet_deps tz = Some utc" "dp_sha256 quiet_deps s = replicate 32 9"
  "dp_random quiet_deps = m_return (replicate 32 7)"
  by (simp_all add: quiet_deps_def)

lemma dedupe_key_simps:
  "jb_dedupe_key (new_auto_end_job e t) = ''auto_end:'' @ e"
  "jb_dedupe_key (new_peek_expire_job e p n t) = peek_key p n"
  "jb_dedupe_key (new_reminder_job e n t) = reminder_key e n"
  "jb_dedupe_key (enqueued i j now) = jb_dedupe_key j" "jb_id (enqueued i j now) = i"
  by (simp_all add: job_constructor_defs enqueued_def)

lemma sample_manager_ok: "manager_ok sample_store"
proof -
  have "CHR ''a'' # xs \<noteq> peek_key p n" "CHR ''a'' # xs \<noteq> reminder_key p n" for xs p n
    by (simp_all add: peek_key_def reminder_key_def)
  then have "store_inv sample_store"
    by (auto simp: store_inv_def store_ok_defs sample_defs ids_ok_def unique_on_def job_ok_def
        participation_ok_def pt_is_active_def participation_key_def peek_increment_def
        dedupe_key_simps peek_key_inj enqueued_def job_constructor_defs default_max_attempts_def
        identity_key_def)
  moreover have "jobs_wf sample_store"
    by (simp add: jobs_wf_def on_jobs_def sample_defs)
  moreover have "counts_ok sample_store"
    by (simp add: counts_ok_def refs_ok_def sample_defs participant_count_def counted_def)
  ultimately show ?thesis by (simp add: manager_ok_def)
qed

definition sample_join :: "string \<Rightarrow> participation_action \<Rightarrow> participation_input" where
  "sample_join u a = \<lparr>in_event_id = id_of_seq 2, in_chat_user_id = u, in_display_name = u,
                      in_action = a\<rparr>"

end
