(* ===== verification/Mongo_Properties.thy ===== *)
theory Mongo_Properties
  imports Mongo_Event_Facts Mongo_Model Sample_World
begin

section \<open>Properties of the repository in MongoDB\<close>

text \<open>
  The properties of \<open>internal/manager/store/mongo\<close>, over any driver that does as documented. They
  are applied to the reference driver, which does.
\<close>

lemma reference_hex: "ref_from_hex (id_of_seq 1) = Some (id_of_seq 1)" "ref_from_hex (id_of_seq 2) = Some (id_of_seq 2)"
  by code_simp+

lemmas reference_ids_hex = reference_hex reference_hex(1) [simplified]

lemma reference_empty: "mongo_member reference_driver [] e v = None"
  by (simp add: mongo_member_def mongo_participations_get_by_user_def run_bind oid_of_def object_id_def
      reference_driver_def ref_ordered_def ref_found_def ref_ids_def arrange_def split: option.split)


subsection \<open>The same as in memory\<close>

text \<open>
  C13. A page of events read from MongoDB is the page the in-memory repository
  returns when it holds the same events, the cursor for the next page included, and a malformed
  cursor is the same error; reading changes nothing.
\<close>
theorem mongo_lists_as_in_memory:
  assumes "mongo_documented D V" and "same_events V s m" and "canonical_filter D f"
  shows "mongo_events_list D f s = (fst (events_list f m), s)"
  by (rule mongo_list_same [OF assms])

definition lunch_document :: document where
  "lunch_document = stored ((''_id'', BOid (ev_id sample_event)) # event_fields (ev_workspace_id sample_event) sample_event)"

definition lunch_entries :: entries where
  "lunch_entries = [((''events'', BOid (ev_id sample_event)), lunch_document)]"

lemma lunch_decoded: "decode_event lunch_document = Inr sample_event"
  by code_simp

lemma lunch_same: "same_events ref_view lunch_entries sample_store"
proof -
  have v: "ref_view lunch_entries ''events'' i =
      (if i = BOid (ev_id sample_event) then Some lunch_document else None)" for i
    by (simp add: ref_view_def lunch_entries_def lunch_document_def)
  have "event_document lunch_document"
    unfolding event_document_def using lunch_decoded
    by (auto simp: lunch_document_def event_fields_def)
  moreover have "st_events sample_store = [sample_event]" by (simp add: sample_store_def new_store_def)
  ultimately show ?thesis by (auto simp: same_events_def v lunch_decoded)
qed

theorem mongo_lists_as_in_memory_witness:
  "fst (mongo_events_list reference_driver
      \<lparr>ef_workspace_id = id_of_seq 1, ef_statuses = [EventStatusOpen], ef_ids = [], ef_starts_after = Some hour,
       ef_limit = 5, ef_cursor = []\<rparr> lunch_entries) = Inr \<lparr>ep_events = [sample_event], ep_next_cursor = []\<rparr>"
proof -
  let ?f = "\<lparr>ef_workspace_id = id_of_seq 1, ef_statuses = [EventStatusOpen], ef_ids = [],
    ef_starts_after = Some hour, ef_limit = 5, ef_cursor = []\<rparr>"
  have "canonical_filter reference_driver ?f"
    by (simp add: canonical_filter_def reference_ids_hex in_millis_iff)
  moreover have "fst (events_list ?f sample_store) = Inr \<lparr>ep_events = [sample_event], ep_next_cursor = []\<rparr>"
    by code_simp
  ultimately show ?thesis
    using mongo_lists_as_in_memory [OF reference_documented lunch_same] by simp
qed


definition sample_upsert :: "string \<Rightarrow> participation_upsert" where
  "sample_upsert name = \<lparr>pu_event_id = id_of_seq 2, pu_workspace_id = id_of_seq 1, pu_chat_user_id = ''U1'',
     pu_display_name = name, pu_role = RolePeeker, pu_expires_at = Some hour, pu_now = 0\<rparr>"

lemma empty_ready:
  "members_ready reference_driver ref_view []" "queue_ready reference_driver ref_view []"
  "secrets_ready reference_driver ref_view []"
  by (simp_all add: members_ready_def queue_ready_def secrets_ready_def reference_documented ref_view_def)

lemma sample_storable:
  "expr_ok (BStr name) \<Longrightarrow> storable_upsert reference_driver (sample_upsert name)"
  "in_millis_upsert (sample_upsert name) = sample_upsert name"
  by (simp_all add: storable_upsert_def sample_upsert_def reference_ids_hex plain_def in_millis_upsert_def
      in_millis_iff)


text \<open>
  C36. A new participant whose display name is a dollar sign and a word (that is no field of
  the new document) is stored with an empty name, where the in-memory repository keeps the name.
\<close>
theorem dollar_name_lost:
  assumes "members_ready D V s" and "storable_upsert D u"
    and "mongo_member D s (pu_event_id u) (pu_chat_user_id u) = None"
    and "pu_display_name u = CHR ''$'' # w" and "CHR ''.'' \<notin> set w"
    and "w \<notin> {''_id'', ''eventId'', ''chatUserId''}"
  shows "\<exists>c s'. mongo_participations_upsert D u s = (Inr c, s') \<and> pt_display_name (pc_after c) = '''' \<and>
    pt_display_name (created_participation (pt_id (pc_after c)) u) = pu_display_name u"
proof -
  obtain c s' i d' where run: "mongo_participations_upsert D u s = (Inr c, s')"
    and o': "upsert_outcome D V s u c s' i d'"
    using mongo_upsert_run [OF assms(1,2)] by blast
  have "pc_before c = None" using mongo_upsert_before [OF assms(1,2) o'] assms(3) by simp
  then obtain oid where "pc_after c = written_new u oid"
    using o' by (cases "V s ''participations'' i") (auto simp: upsert_outcome_def)
  moreover have "shown_name u (blank_member u oid) = ''''"
    using assms(4-6) by (auto simp: shown_name_def blank_member_def eval_expr.simps)
  ultimately show ?thesis using run by (simp add: written_new_def created_participation_def)
qed

theorem dollar_name_lost_witness:
  "\<exists>c s'. mongo_participations_upsert reference_driver (sample_upsert ''$Money'') [] = (Inr c, s') \<and>
     pt_display_name (pc_after c) = ''''"
proof -
  show ?thesis
    using dollar_name_lost [OF empty_ready(1) sample_storable(1), of "''$Money''" "''Money''"]
    by (auto simp: sample_upsert_def reference_empty)
qed

subsection \<open>Contracts shared with the repository in memory\<close>

text \<open>
  C15. Of any number of writes that join one user to one event in MongoDB, in a row, exactly one
  finds the user not yet counted, and the number of active participants of the event grows by one
  in all; a user who was counted before changes nothing.
\<close>
theorem mongo_joins_count_once:
  assumes "members_ready D V s"
    and "\<forall>u \<in> set us. storable_upsert D u \<and> pu_event_id u = e \<and> pu_chat_user_id u = v \<and>
      pu_role u = RoleParticipant"
  shows "\<exists>cs s'. m_each (mongo_participations_upsert D) us s = (Inr cs, s') \<and>
    length (filter (\<lambda>c. \<not> was_counted (pc_before c)) cs) =
      (if us = [] \<or> was_counted (mongo_member D s e v) then 0 else 1) \<and>
    mongo_active D s' e = mongo_active D s e + (if us = [] \<or> was_counted (mongo_member D s e v) then 0 else 1)"
  using mongo_parts.joins_effect_once [OF assms] by blast

theorem mongo_joins_count_once_witness:
  "\<exists>cs s'. m_each (mongo_participations_upsert reference_driver)
      (replicate 3 (sample_upsert ''Aki''\<lparr>pu_role := RoleParticipant\<rparr>)) [] = (Inr cs, s') \<and>
    length (filter (\<lambda>c. \<not> was_counted (pc_before c)) cs) = 1"
proof -
  let ?u = "sample_upsert ''Aki''\<lparr>pu_role := RoleParticipant\<rparr>"
  have "storable_upsert reference_driver ?u"
    using sample_storable(1) [of "''Aki''"] by (simp add: storable_upsert_def)
  then show ?thesis
    using mongo_joins_count_once [OF empty_ready(1), of "replicate 3 ?u" "id_of_seq 2" "''U1''"]
    by (auto simp: reference_empty sample_upsert_def)
qed

text \<open>
  C16. However many workers claim jobs from MongoDB between the first claim and the end of its
  lease, at instants in whole milliseconds, no job is handed out twice.
\<close>
theorem mongo_claims_exclusive:
  assumes "queue_ready D V s" and "in_millis lease = lease"
    and "\<forall>n \<in> set ns. in_millis n = n \<and> n \<le> horizon \<and> horizon < n + lease"
    and "run_all (\<lambda>n. mongo_jobs_claim D n lease) ns s = (rs, s')"
  shows "distinct (map jb_id (successes rs))"
  by (rule mongo_queue.claims_distinct [OF assms(1,3,2,4)])

definition queued_entries :: entries where
  "queued_entries = snd (mongo_jobs_enqueue reference_driver (new_archive_channel_job (id_of_seq 2) (5 * hour)) 0
     (snd (mongo_jobs_enqueue reference_driver (new_auto_end_job (id_of_seq 2) (6 * hour)) 0 [])))"

lemma queued_ready: "queue_ready reference_driver ref_view queued_entries"
proof -
  have "is_id (id_of_seq 2)" by code_simp
  then have "storable_job (new_archive_channel_job (id_of_seq 2) t)" "storable_job (new_auto_end_job (id_of_seq 2) t)" for t
    by (simp_all add: storable_job_def job_constructor_defs)
  then show ?thesis
    unfolding queued_entries_def by (intro mongo_queue.enqueue_inv empty_ready(2))
qed

lemma queued_claims:
  "length (successes (fst (run_all (\<lambda>n. mongo_jobs_claim reference_driver n minute) [7 * hour, 7 * hour, 7 * hour]
     queued_entries))) = 2"
  by code_simp

theorem mongo_claims_exclusive_witness:
  "\<exists>rs s'. run_all (\<lambda>n. mongo_jobs_claim reference_driver n minute) [7 * hour, 7 * hour, 7 * hour] queued_entries =
      (rs, s') \<and> length (successes rs) = 2 \<and> distinct (map jb_id (successes rs))"
proof -
  obtain rs s' where run: "run_all (\<lambda>n. mongo_jobs_claim reference_driver n minute) [7 * hour, 7 * hour, 7 * hour]
      queued_entries = (rs, s')" by fastforce
  then have "length (successes rs) = 2" using queued_claims by simp
  moreover have "distinct (map jb_id (successes rs))"
    by (rule mongo_claims_exclusive [OF queued_ready _ _ run, of "7 * hour"]) (simp_all add: in_millis_iff)
  ultimately show ?thesis using run by blast
qed

text \<open>
  C17. Of all the requests that present one link token or one login state to MongoDB, exactly
  one gets it when it is usable for one of them, and none otherwise.
\<close>
theorem mongo_secrets_used_once:
  assumes "secrets_ready D V s"
  shows "length (successes (fst (run_all (mongo_link_tokens_consume D h) ns s))) =
      (if list_ex (mongo_token_usable V s h) ns then 1 else 0) \<and>
    length (successes (fst (run_all (mongo_oauth_states_consume D h) ns s))) =
      (if list_ex (mongo_state_usable V s h) ns then 1 else 0)"
  using mongo_link.consumed_once [OF assms, of h ns] mongo_oauth.consumed_once [OF assms, of h ns]
  by (simp add: list_ex_iff prod_eq_iff)

definition secret_entries :: entries where
  "secret_entries =
     [((''oauth_states'', BStr ''x''), [(''_id'', BStr ''x''), (''expiresAt'', BDate hour)])]"

lemma secret_ready: "secrets_ready reference_driver ref_view secret_entries"
  by (auto simp: secrets_ready_def reference_documented secret_entries_def ref_view_def split: if_splits)

theorem mongo_secrets_used_once_witness:
  "length (successes (fst (run_all (mongo_oauth_states_consume reference_driver ''x'') [0, 1, 2] secret_entries))) = 1"
proof -
  have "mongo_state_usable ref_view secret_entries ''x'' 0"
    by (simp add: mongo_state_usable_def secret_entries_def ref_view_def decode_oauth_state_def field_defs
        in_millis_def)
  then show ?thesis using mongo_secrets_used_once [OF secret_ready, of "''x''" "[0, 1, 2]"] by simp
qed

subsection \<open>What the collections hold\<close>

text \<open>
  C18. An event written with \<open>Create\<close> is returned with a new identifier and read back
  by \<open>Get\<close> as it was, with instants cut to the millisecond and without the fields of its
  reminder policy that the mode does not use; no other event reads differently.
\<close>
theorem created_event_read_back:
  assumes "mongo_documented D V" and "event_storable ev"
    and "md_from_hex D (ev_workspace_id ev) = Some (ev_workspace_id ev)"
    and "ev_id ev = [] \<or> md_from_hex D (ev_id ev) \<noteq> None"
  shows "\<exists>i s'. mongo_events_create D ev s =
      (Inr (ev\<lparr>ev_id := i, ev_reminder_policy := kept_policy (ev_reminder_policy ev)\<rparr>), s') \<and>
    mongo_events_get D i s' = (Inr (stored_event (ev\<lparr>ev_id := i\<rparr>)), s') \<and>
    mongo_events_get D i s = (Inl ErrNotFound, s) \<and>
    (\<forall>j oid. md_from_hex D j = Some oid \<and> oid \<noteq> i \<longrightarrow>
       fst (mongo_events_get D j s') = fst (mongo_events_get D j s))"
  by (rule created_event_read [OF assms])

lemma sample_event_storable: "event_storable sample_event"
  by code_simp

theorem created_event_read_back_witness:
  "\<exists>i s'. fst (mongo_events_create reference_driver sample_event []) = Inr (sample_event\<lparr>ev_id := i\<rparr>) \<and>
     fst (mongo_events_get reference_driver i s') = Inr (sample_event\<lparr>ev_id := i\<rparr>)"
proof -
  have kept: "kept_policy (ev_reminder_policy sample_event) = ev_reminder_policy sample_event"
    "stored_event sample_event = sample_event"
    by code_simp+
  have "stored_event (ev\<lparr>ev_id := i\<rparr>) = (stored_event ev)\<lparr>ev_id := i\<rparr>" for ev i
    by (simp add: stored_event_def)
  then have "stored_event (sample_event\<lparr>ev_id := i\<rparr>) = sample_event\<lparr>ev_id := i\<rparr>" for i
    by (simp add: kept(2))
  moreover have "sample_event\<lparr>ev_id := i, ev_reminder_policy := ev_reminder_policy sample_event\<rparr> =
      sample_event\<lparr>ev_id := i\<rparr>" for i
    by simp
  moreover have "md_from_hex reference_driver (ev_workspace_id sample_event) = Some (ev_workspace_id sample_event)"
    "md_from_hex reference_driver (ev_id sample_event) \<noteq> None"
    by (simp_all add: sample_event_def reference_ids_hex)
  ultimately show ?thesis
    using created_event_read_back [OF reference_documented sample_event_storable, of "[]"] kept(1)
    by (metis fst_conv)
qed



end
