(* ===== verification/Input_Facts.thy ===== *)
theory Input_Facts
  imports Bot_Input Duration_Facts "HOL-Library.Multiset"
begin

section \<open>Facts about buttons and commands\<close>

text \<open>
  The identifiers of buttons are read back exactly, and the arguments of a command do not depend
  on the order in which the map they come in is iterated.
\<close>

subsection \<open>Button identifiers\<close>

lemma action_of_text: "a \<in> {ActionJoin, ActionPeek} \<Longrightarrow> action_of (action_text a) = a"
  by (auto simp: action_of_def)

lemma action_of_cases:
  "action_of s \<noteq> ActionJoin \<and> action_of s \<noteq> ActionPeek \<or> s = action_text (action_of s)"
  by (simp add: action_of_def)

lemma action_text_no_colon: "a \<in> {ActionJoin, ActionPeek} \<Longrightarrow> CHR '':'' \<notin> set (action_text a)"
  by auto

lemma split_action_id:
  assumes "a \<in> {ActionJoin, ActionPeek}" and "CHR '':'' \<notin> set e"
  shows "split_on (CHR '':'') (action_id a e) = [action_prefix, action_text a, e]"
proof -
  have "CHR '':'' \<notin> set action_prefix" by (simp add: action_prefix_def)
  then show ?thesis
    using assms action_text_no_colon [OF assms(1)]
    by (simp add: action_id_def split_on_append split_on_no_sep)
qed

lemma parse_action_exact:
  "parse_action_id s = Inr (a, e) \<longleftrightarrow>
     a \<in> {ActionJoin, ActionPeek} \<and> e \<noteq> [] \<and> CHR '':'' \<notin> set e \<and> trim_space s = action_id a e"
proof
  assume ok: "parse_action_id s = Inr (a, e)"
  let ?parts = "split_on (CHR '':'') (trim_space s)"
  have l: "length ?parts = 3" "?parts ! 0 = action_prefix" "?parts ! 2 = e" "e \<noteq> []"
    "action_of (?parts ! 1) = a" "a = ActionJoin \<or> a = ActionPeek"
    using ok by (auto simp: parse_action_id_def Let_def action_id_parts_def split: if_splits)
  then obtain x y z where p: "?parts = [x, y, z]"
    by (auto simp: numeral_3_eq_3 length_Suc_conv)
  then have x: "x = action_prefix" "z = e" "action_of y = a" using l by simp_all
  then have "y = action_text a" using action_of_cases [of y] l(6) by auto
  then have "trim_space s = action_id a e"
    using join_split_on [of "CHR '':''" "trim_space s"] p x by (simp add: action_id_def)
  moreover have "CHR '':'' \<notin> set e" using split_on_parts [of e "CHR '':''" "trim_space s"] p x by simp
  ultimately show "a \<in> {ActionJoin, ActionPeek} \<and> e \<noteq> [] \<and> CHR '':'' \<notin> set e \<and> trim_space s = action_id a e"
    using l by auto
next
  assume r: "a \<in> {ActionJoin, ActionPeek} \<and> e \<noteq> [] \<and> CHR '':'' \<notin> set e \<and> trim_space s = action_id a e"
  then have "split_on (CHR '':'') (trim_space s) = [action_prefix, action_text a, e]"
    using split_action_id by metis
  then show "parse_action_id s = Inr (a, e)"
    using r action_of_text [of a] by (auto simp: parse_action_id_def Let_def action_id_parts_def)
qed

lemma action_id_trimmed:
  assumes "e \<noteq> []" and "visible (last e)"
  shows "trim_space (action_id a e) = action_id a e"
proof (rule visible_text)
  show "visible (hd (action_id a e))" by (simp add: action_id_def action_prefix_def visible_def byte_def)
  show "visible (last (action_id a e))" using assms by (simp add: action_id_def)
qed (simp add: action_id_def action_prefix_def)

subsection \<open>Arguments\<close>

definition arg_key :: "bot_unicode \<Rightarrow> string \<times> string \<Rightarrow> string" where
  "arg_key u kv = un_to_lower u (trim_space (fst kv))"

definition given_args :: "(string \<times> string) list \<Rightarrow> (string \<times> string) list" where
  "given_args = filter (\<lambda>kv. trim_space (snd kv) \<noteq> [])"

definition args_map :: "bot_unicode \<Rightarrow> (string \<times> string) list \<Rightarrow> string \<Rightarrow> string option" where
  "args_map u args = map_of (map (\<lambda>kv. (arg_key u kv, trim_space (snd kv))) (given_args args))"

lemma collect_arg_step:
  "collect_arg u m kv =
    (if trim_space (snd kv) = [] then m else m(arg_key u kv \<mapsto> trim_space (snd kv)))"
  by (simp add: collect_arg_def arg_key_def split_beta Let_def)

lemma collect_arg_fold:
  "distinct (map (arg_key u) (given_args args)) \<Longrightarrow>
   foldl (collect_arg u) Map.empty args = args_map u args"
proof (induction args rule: rev_induct)
  case Nil
  then show ?case by (simp add: args_map_def given_args_def)
next
  case (snoc kv args)
  have IH: "foldl (collect_arg u) Map.empty args = args_map u args"
    using snoc by (auto simp: given_args_def split: if_splits)
  show ?case
  proof (cases "trim_space (snd kv) = []")
    case True
    then show ?thesis using IH by (simp add: collect_arg_step [of u _ kv] given_args_def args_map_def)
  next
    case False
    then have "arg_key u kv \<notin> set (map (arg_key u) (given_args args))"
      using snoc.prems by (auto simp: given_args_def)
    then have "map_of (map (\<lambda>kv. (arg_key u kv, trim_space (snd kv))) (given_args args)) (arg_key u kv) = None"
      by (auto simp: map_of_eq_None_iff)
    then have "args_map u (args @ [kv]) = (args_map u args)(arg_key u kv \<mapsto> trim_space (snd kv))"
      using False by (auto simp: args_map_def given_args_def fun_eq_iff map_add_def split: option.split)
    then show ?thesis using IH False by (simp add: collect_arg_step [of u _ kv])
  qed
qed

lemma args_map_perm:
  assumes "mset xs = mset ys" and "distinct (map (arg_key u) (given_args xs))"
  shows "foldl (collect_arg u) Map.empty xs = foldl (collect_arg u) Map.empty ys"
proof -
  let ?f = "\<lambda>kv. (arg_key u kv, trim_space (snd kv))"
  have m: "mset (given_args xs) = mset (given_args ys)"
    using assms(1) by (simp add: given_args_def mset_filter)
  then have d: "distinct (map (arg_key u) (given_args ys))"
    using assms(2) by (metis mset_eq_imp_distinct_iff mset_map)
  have "map_of (map ?f (given_args xs)) = map_of (map ?f (given_args ys))"
  proof (rule map_of_inject_set [THEN iffD2])
    show "distinct (map fst (map ?f (given_args xs)))" "distinct (map fst (map ?f (given_args ys)))"
      using assms(2) d by (simp_all add: comp_def)
    show "set (map ?f (given_args xs)) = set (map ?f (given_args ys))"
      using mset_eq_setD [OF m] by simp
  qed
  then show ?thesis using collect_arg_fold assms(2) d by (simp add: args_map_def)
qed

lemma parse_command_perm:
  assumes "mset (wc_args c) = mset ys" and "distinct (map (arg_key u) (given_args (wc_args c)))"
  shows "parse_command u (c\<lparr>wc_args := ys\<rparr>) = parse_command u c"
  using args_map_perm [OF assms] by (simp add: parse_command_def Let_def split_beta)

lemma collect_arg_nonempty:
  "foldl (collect_arg u) m args k = Some v \<Longrightarrow> (\<And>k v. m k = Some v \<Longrightarrow> v \<noteq> []) \<Longrightarrow> v \<noteq> []"
proof (induction args arbitrary: m)
  case (Cons kv args)
  have "w \<noteq> []" if "collect_arg u m kv j = Some w" for j w
    using that Cons.prems(2) by (auto simp: collect_arg_step [of u m kv] split: if_splits)
  then show ?case using Cons.IH [of "collect_arg u m kv"] Cons.prems(1) by simp
qed simp

lemma parse_command_valid: "parse_command u c = Inr cmd \<Longrightarrow> sub_valid (cmd_sub cmd)"
  by (auto simp: parse_command_def Let_def sub_valid_def split: if_splits prod.splits)

lemma organizer_only_in_channel: "organizer_only s \<Longrightarrow> needs_event_channel s"
  by (auto simp: organizer_only_def needs_event_channel_def)

end
