(* ===== verification/Times_Facts.thy ===== *)
theory Times_Facts
  imports Text_Facts
begin

section \<open>Facts about dates and times in chat input\<close>

text \<open>
  Which date an input without a year means, and where an end lies; in a zone whose offset does
  not change, as the default Asia/Tokyo since 1951.
\<close>

subsection \<open>The calendar\<close>

lemma days_before_year_Suc: "days_before_year y + 365 \<le> days_before_year (y + 1)"
proof -
  define a a' where "a = y div 4" and "a' = (y - 1) div 4"
  have "y div 100 = a div 25" "(y - 1) div 100 = a' div 25"
    using zdiv_zmult2_eq [of 25 y 4] zdiv_zmult2_eq [of 25 "y - 1" 4] by (simp_all add: a_def a'_def)
  moreover have "a = a' \<or> a = a' + 1" unfolding a_def a'_def by presburger
  moreover have "(a' + 1) div 25 \<le> a' div 25 + 1" "(a' + 1) div 25 \<ge> a' div 25" by presburger+
  moreover have "(y - 1) div 400 \<le> y div 400" by (rule zdiv_mono1) simp_all
  ultimately show ?thesis
    unfolding days_before_year_def a_def [symmetric] a'_def [symmetric] add_diff_cancel_right' by auto
qed

lemma days_before_year_mono: "y < y' \<Longrightarrow> days_before_year y + 365 \<le> days_before_year y'"
proof (induction y' rule: int_gr_induct)
  case base
  show ?case by (rule days_before_year_Suc)
next
  case (step y')
  then show ?case using days_before_year_Suc [of y'] by linarith
qed

lemma days_before_month_leap:
  "\<bar>days_before_month a m - days_before_month b m\<bar> \<le> 1"
  by (simp add: days_before_month_def)

text \<open>A month and a day determine the year of the day they fall on.\<close>

lemma civil_year_unique:
  assumes "1 \<le> m" and "m \<le> 12" and "days_from_civil y m d = days_from_civil y' m d"
  shows "y = y'"
proof -
  have m: "(m - 1) div 12 = 0" "(m - 1) mod 12 + 1 = m" using assms(1,2) by auto
  have "days_from_civil x m d + 300 < days_from_civil x' m d" if "x < x'" for x x'
    using days_before_year_mono [OF that] days_before_month_leap [of "is_leap x" m "is_leap x'"]
    by (simp add: days_from_civil_def m)
  then show ?thesis using assms(3) by (metis add_less_same_cancel1 linorder_neqE_linordered_idom
        not_numeral_less_zero less_trans)
qed

lemma civil_month_range: "fst (snd (civil_from_days n)) \<in> {1..12}"
  unfolding civil_from_days_def Let_def fst_conv snd_conv by (rule month_search_in)

lemma civil_back: "civil_from_days n = (y, m, d) \<Longrightarrow> days_from_civil y m d = n"
  using days_from_civil_from_days [where n = n and k = 0] by simp

lemma year_of_civil: "fst (civil_from_days n) = year_of_days (n + epoch_days)"
  by (simp add: civil_from_days_def Let_def)

lemma year_bounds:
  assumes "fst (civil_from_days n) = y"
  shows "days_before_year y \<le> n + epoch_days \<and> n + epoch_days < days_before_year (y + 1)"
  using year_of_days_correct [of "n + epoch_days"] assms by (simp add: year_of_civil)

lemma later_year_later:
  "fst (civil_from_days n) < fst (civil_from_days n') \<Longrightarrow> n < n'"
  using year_bounds [OF refl, of n] year_bounds [OF refl, of n']
    days_before_year_mono [of "fst (civil_from_days n) + 1" "fst (civil_from_days n')"]
  by (cases "fst (civil_from_days n) + 1 = fst (civil_from_days n')") auto

subsection \<open>Dates in a fixed zone\<close>

lemma go_date_fixed:
  "go_date (fixed_zone off) y m d hh mi 0 0 =
   days_from_civil y m d * day + hh * hour + mi * minute - off * second"
  by (simp add: go_date_def algebra_simps)

lemma wall_fixed: "wall (fixed_zone off) t = t + off * second"
  by (simp add: wall_def)

lemma tod_range: "tod_valid tod \<Longrightarrow> 0 \<le> tod_hour tod * hour + tod_minute tod * minute \<and>
    tod_hour tod * hour + tod_minute tod * minute < day"
  by (simp add: tod_valid_def max_hour_def max_minute_def)

text \<open>An accepted date is the date that was asked for.\<close>

lemma date_at_fixed:
  assumes "date_at y m d tod (fixed_zone off) = Some t" and "tod_valid tod"
  shows "civil_from_days (wall (fixed_zone off) t div day) = (y, m, d)"
    and "wall (fixed_zone off) t mod day = tod_hour tod * hour + tod_minute tod * minute"
proof -
  let ?r = "tod_hour tod * hour + tod_minute tod * minute" and ?n = "days_from_civil y m d"
  have t: "t = go_date (fixed_zone off) y m d (tod_hour tod) (tod_minute tod) 0 0"
    "time_month (fixed_zone off) t = m" "time_day (fixed_zone off) t = d"
    using assms(1) by (auto simp: date_at_def Let_def split: if_splits)
  have w: "wall (fixed_zone off) t = ?n * day + ?r" by (simp add: t(1) wall_fixed go_date_fixed)
  show "wall (fixed_zone off) t mod day = ?r"
    unfolding w using tod_range [OF assms(2)] by simp
  have n: "wall (fixed_zone off) t div day = ?n"
    unfolding w using tod_range [OF assms(2)] by simp
  obtain y' where c: "civil_from_days ?n = (y', m, d)"
    using t(2,3) unfolding time_month_def time_day_def n by (metis prod.collapse)
  moreover have "1 \<le> m" "m \<le> 12" using civil_month_range [of ?n] c by auto
  ultimately have "y' = y" using civil_back [OF c] civil_year_unique by metis
  then show "civil_from_days (wall (fixed_zone off) t div day) = (y, m, d)" using c n by simp
qed

lemma div_less_imp_less: "a div day < b div day \<Longrightarrow> a < b"
  using zdiv_mono1 [of b a day] by (meson linorder_not_less not_less_iff_gr_or_eq zero_less_numeral order.strict_trans)

text \<open>A date without a year is the next one, this year or next year.\<close>

lemma parse_absolute_upcoming:
  assumes "parse_absolute s base (fixed_zone off) dt = Some t" and "tod_valid dt"
    and "match_date (fst (split_space s)) = Some ([], ms, ds)"
  shows "base \<le> t \<and>
    time_year (fixed_zone off) t \<in>
      {time_year (fixed_zone off) base, time_year (fixed_zone off) base + 1}"
proof -
  let ?z = "fixed_zone off" and ?y = "time_year (fixed_zone off) base"
  obtain tod m d where tod: "time_or_default (snd (split_space s)) dt = Some tod"
    and a: "(case date_at ?y m d tod ?z of None \<Rightarrow> None
      | Some t0 \<Rightarrow> if t0 < base then date_at (?y + 1) m d tod ?z else Some t0) = Some t"
    using assms(1,3) by (auto simp: parse_absolute_def split_beta split: option.splits)
  have valid: "tod_valid tod"
    using tod assms(2) by (auto simp: time_or_default_def bot_parse_time_of_day_def Let_def
        split: if_splits option.splits prod.splits)
  obtain t0 where t0: "date_at ?y m d tod ?z = Some t0" using a by (auto split: option.splits)
  show ?thesis
  proof (cases "t0 < base")
    case False
    then have "t = t0" "base \<le> t" using a t0 by simp_all
    moreover have "time_year ?z t0 = ?y"
      using date_at_fixed(1) [OF t0 valid] by (simp only: time_year_def fst_conv)
    ultimately show ?thesis by simp
  next
    case True
    then have t: "date_at (?y + 1) m d tod ?z = Some t" using a t0 by simp
    note c = date_at_fixed(1) [OF t valid]
    have "fst (civil_from_days (wall ?z base div day)) < fst (civil_from_days (wall ?z t div day))"
      unfolding c fst_conv time_year_def by (rule less_add_one)
    then have "wall ?z base div day < wall ?z t div day" by (rule later_year_later)
    then have "wall ?z base < wall ?z t" by (rule div_less_imp_less)
    then have "base < t" by (simp add: wall_fixed)
    moreover have "time_year ?z t = ?y + 1" using c by (simp only: time_year_def fst_conv)
    ultimately show ?thesis by simp
  qed
qed


text \<open>An end given as a delay or a time of day is after the start, within a day for the latter.\<close>

lemma tod_on_next_day:
  "tod_on tod (t + day) (fixed_zone off) = tod_on tod t (fixed_zone off) + day"
proof -
  have "(t + day + off * second) div day = (t + off * second) div day + 1"
    using div_add1_eq [of "t + off * second" day day] by (simp add: add.commute add.left_commute)
  then show ?thesis by (simp add: tod_on_fixed algebra_simps)
qed

lemma tod_on_window:
  assumes "tod_valid tod"
  shows "t - day < tod_on tod t (fixed_zone off)" and "tod_on tod t (fixed_zone off) < t + day"
proof -
  define w where "w = t + off * second"
  have on: "tod_on tod t (fixed_zone off) =
      w div day * day + (tod_hour tod * hour + tod_minute tod * minute) - off * second"
    by (simp add: tod_on_fixed w_def)
  have "w div day * day \<le> w" "w < w div day * day + day"
    using div_mult_mod_eq [of w day] pos_mod_sign [of day w] pos_mod_bound [of day w] by linarith+
  then show "t - day < tod_on tod t (fixed_zone off)" "tod_on tod t (fixed_zone off) < t + day"
    unfolding on using tod_range [OF assms] by (simp_all add: w_def)
qed

lemma bot_parse_time_of_day_valid: "bot_parse_time_of_day s = Some tod \<Longrightarrow> tod_valid tod"
  by (auto simp: bot_parse_time_of_day_def Let_def split: if_splits option.splits prod.splits)

lemma parse_end_after_start:
  assumes "parse_end_time u b input start (fixed_zone off) = Inr t"
    and "match_date (fst (split_space (normalize_input u input))) = None"
  shows "start < t"
proof (cases "match_delta (normalize_input u input)")
  case (Some m)
  then show ?thesis using assms(1)
    by (auto simp: parse_end_time_def Let_def split: if_splits option.splits)
next
  case None
  show ?thesis
  proof (cases "bot_parse_time_of_day (normalize_input u input)")
    case (Some tod)
    then show ?thesis
      using assms(1) None tod_on_window(1) [OF bot_parse_time_of_day_valid [OF Some], of start off]
      by (auto simp: parse_end_time_def Let_def tod_on_next_day split: if_splits)
  next
    case none: None
    then have "parse_absolute (normalize_input u input) start (fixed_zone off) zero_time_of_day = Some t"
      using assms(1) None by (auto simp: parse_end_time_def Let_def split: if_splits option.splits)
    then show ?thesis using assms(2) by (simp add: parse_absolute_def split_beta)
  qed
qed

subsection \<open>The twenty-ninth of February\<close>

lemma year_of_days_unique:
  assumes "days_before_year y \<le> n" and "n < days_before_year (y + 1)"
  shows "year_of_days n = y"
proof -
  note c = year_of_days_correct [of n]
  have "\<not> year_of_days n < y"
    using days_before_year_mono [of "year_of_days n + 1" y] c assms by (cases "year_of_days n + 1 = y") auto
  moreover have "\<not> y < year_of_days n"
    using days_before_year_mono [of "y + 1" "year_of_days n"] c assms by (cases "y + 1 = year_of_days n") auto
  ultimately show ?thesis by simp
qed

lemma february_29:
  "civil_from_days (days_from_civil y 2 29) = (y, if is_leap y then (2, 29) else (3, 1))"
proof -
  have z: "days_from_civil y 2 29 + epoch_days = days_before_year y + 59"
    by (simp add: days_from_civil_def days_before_month_def)
  have "year_of_days (days_before_year y + 59) = y"
    using days_before_year_Suc [of y] by (intro year_of_days_unique) simp_all
  then show ?thesis
    by (simp add: civil_from_days_def z Let_def days_before_month_def)
qed

lemma date_at_february_29:
  assumes "tod_valid tod"
  shows "date_at y 2 29 tod (fixed_zone off) \<noteq> None \<longleftrightarrow> is_leap y"
proof -
  let ?t = "go_date (fixed_zone off) y 2 29 (tod_hour tod) (tod_minute tod) 0 0"
  have "wall (fixed_zone off) ?t div day = days_from_civil y 2 29"
    using tod_range [OF assms] by (simp add: wall_fixed go_date_fixed add.assoc)
  then show ?thesis
    by (simp add: date_at_def Let_def time_month_def time_day_def february_29)
qed

text \<open>
  The date of this year is looked at first, and refused before next year is tried: in the year
  before a leap year \<open>2/29\<close> is no date, although it is one that is still to come.
\<close>

lemma leap_day_refused:
  assumes "tod_valid dt" and "\<not> is_leap (time_year (fixed_zone off) base)"
  shows "parse_absolute ''2/29'' base (fixed_zone off) dt = None"
    and "is_leap (time_year (fixed_zone off) base + 1) \<Longrightarrow>
      date_at (time_year (fixed_zone off) base + 1) 2 29 dt (fixed_zone off) \<noteq> None"
proof -
  have "split_space ''2/29'' = (''2/29'', [])" "match_date ''2/29'' = Some ([], ''2'', ''29'')"
    "atoi ''2'' = Some 2" "atoi ''29'' = Some 29"
    by code_simp+
  then show "parse_absolute ''2/29'' base (fixed_zone off) dt = None"
    using date_at_february_29 [OF assms(1), of "time_year (fixed_zone off) base" off] assms(2)
    by (simp add: parse_absolute_def time_or_default_def)
  show "is_leap (time_year (fixed_zone off) base + 1) \<Longrightarrow>
      date_at (time_year (fixed_zone off) base + 1) 2 29 dt (fixed_zone off) \<noteq> None"
    using date_at_february_29 [OF assms(1)] by simp
qed

end
