(* ===== verification/Pace_Facts.thy ===== *)
theory Pace_Facts
  imports Times_Facts
begin

section \<open>The round trip of reminder paces\<close>

text \<open>
  The notation in which a policy is shown to the user is one the command reads back as the
  same policy.
\<close>

subsection \<open>Offsets\<close>

lemma day_match_days:
  assumes "0 \<le> n"
  shows "day_match (dec_of_int n @ ''d'') = Some (dec_of_int n)"
proof -
  have d: "list_all is_digit (dec_of_int n)" "dec_of_int n \<noteq> []" using dec_of_int_digits [OF assms] by auto
  have no: "\<not> is_digit (CHR ''d'')" by (simp add: is_digit_def byte_def)
  have "takeWhile is_digit (dec_of_int n @ ''d'') = dec_of_int n"
    "dropWhile is_digit (dec_of_int n @ ''d'') = ''d''"
    using d(1) no by (simp_all add: list_all_iff)
  then show ?thesis using d(2) by (simp add: day_match_def Let_def)
qed

lemma decimal_value_whole: "0 \<le> n \<Longrightarrow> decimal_value (dec_of_int n) = of_int n"
proof -
  assume n: "0 \<le> n"
  have d: "list_all is_digit (dec_of_int n)" using dec_of_int_digits [OF n] by auto
  then have t: "takeWhile is_digit (dec_of_int n) = dec_of_int n" "dropWhile is_digit (dec_of_int n) = []"
    by (simp_all add: list_all_iff takeWhile_eq_all_conv)
  have "int (dec_value (dec_of_int n)) = n"
    using dec_value_digits [OF d] digits_value_dec [OF n] by simp
  then have "(of_nat (dec_value (dec_of_int n)) :: rat) = of_int n" by (metis of_int_of_nat_eq)
  then show ?thesis unfolding decimal_value_def Let_def t by simp
qed

lemma day_nanoseconds_whole:
  assumes "0 \<le> n" and "n * day < 2 ^ 63"
  shows "day_nanoseconds b (dec_of_int n) = Some (dec_of_int (n * day) @ ''ns'')"
proof -
  have n: "n \<le> 106751" using assms(2) by simp
  have "f64 (of_int n) = of_int n" using assms(1) n by (intro f64_nat) simp_all
  then have p: "parse_float (dec_of_int n) = Some (of_int n)"
    using decimal_value_whole [OF assms(1)] n by (simp add: parse_float_def Let_def)
  have "f64 (of_int (n * 24)) = of_int (n * 24)" using assms(1) n by (intro f64_nat) simp_all
  moreover have "f64 (of_int ((n * 1318359375) * 2 ^ 16)) = of_int ((n * 1318359375) * 2 ^ 16)"
    using assms(1) n by (intro f64_exact) simp_all
  ultimately have "f64 (f64 (of_int n * 24) * of_int hour) = of_int (n * day)"
    by (simp add: algebra_simps)
  moreover have "(of_int (n * day) :: rat) < 2 ^ 63"
    using assms(2) by (metis of_int_less_iff of_int_numeral of_int_power)
  ultimately have "to_int64 b (f64 (f64 (of_int n * 24) * of_int hour)) = n * day"
    by (simp only: to_int64_def if_True floor_of_int)
  then show ?thesis using p by (simp add: day_nanoseconds_def)
qed


lemma dec_of_int_head:
  assumes "0 \<le> n"
  obtains c r where "dec_of_int n = c # r" "is_digit c" "visible c" "c \<noteq> CHR ''-''" "c \<noteq> CHR ''+''"
proof -
  obtain c r where cr: "dec_of_int n = c # r" using dec_of_int_digits [OF assms] by (cases "dec_of_int n") auto
  then have "is_digit c" using dec_of_int_digits [OF assms] by simp
  then have "c \<noteq> CHR ''-''" "c \<noteq> CHR ''+''" by (auto simp: is_digit_def byte_def)
  then show thesis using that [OF cr] \<open>is_digit c\<close> digit_visible by blast
qed

lemma go_parse_whole:
  assumes "0 \<le> n" and "unit_text t" and "unit_of t = Some unit" and "0 < unit" and "n * unit < 2 ^ 63"
  shows "go_parse_duration (dec_of_int n @ t) = Some (n * unit)"
proof -
  obtain c r where c: "dec_of_int n = c # r" "c \<noteq> CHR ''-''" "c \<noteq> CHR ''+''"
    using dec_of_int_head [OF assms(1)] by metis
  have "t \<noteq> []" using assms(2) by (simp add: unit_text_def)
  moreover have "duration_sum 0 (dec_of_int n @ t) = Some (n * unit)"
    using whole_sum [OF assms(1-4) starts_number_Nil, of 0] assms(5) by simp
  ultimately show ?thesis using c assms(5) by (simp add: go_parse_duration_def Let_def)
qed

lemma trim_whole:
  assumes "0 \<le> n" and "t \<noteq> []" and "visible (last t)"
  shows "trim_space (dec_of_int n @ t) = dec_of_int n @ t"
proof -
  obtain c r where "dec_of_int n = c # r" "visible c" using dec_of_int_head [OF assms(1)] by metis
  with assms(2,3) show ?thesis by (intro visible_text) simp_all
qed

lemma parse_days:
  assumes "0 \<le> n" and "n * day < 2 ^ 63"
  shows "parse_duration b (dec_of_int n @ ''d'') = Some (n * day)"
proof -
  obtain c r where cr: "dec_of_int n = c # r" using dec_of_int_head [OF assms(1)] by metis
  have "expand_day_unit b (dec_of_int n @ ''d'') = Some (dec_of_int (n * day) @ ''ns'')"
    using day_match_days [OF assms(1)] day_nanoseconds_whole [OF assms, of b] by (simp add: cr)
  moreover have "go_parse_duration (dec_of_int (n * day) @ ''ns'') = Some (n * day * 1)"
    using assms by (intro go_parse_whole) simp_all
  moreover have "trim_space (dec_of_int n @ ''d'') = dec_of_int n @ ''d''"
    using assms(1) by (intro trim_whole) (simp_all add: visible_def byte_def)
  ultimately show ?thesis by (simp add: parse_duration_def cr)
qed

lemma parse_whole:
  assumes "0 \<le> n" and "unit_text t" and "unit_of t = Some unit" and "0 < unit" and "n * unit < 2 ^ 63"
    and "visible (last t)" and "CHR ''d'' \<notin> set t"
  shows "parse_duration b (dec_of_int n @ t) = Some (n * unit)"
proof -
  have t: "t \<noteq> []" using assms(2) by (simp add: unit_text_def)
  have "CHR ''d'' \<notin> set (dec_of_int n @ t)"
    using assms(7) no_d dec_of_int_digits [OF assms(1)] by auto
  then show ?thesis
    using trim_whole [OF assms(1) t assms(6)] expand_day_unit_none go_parse_whole [OF assms(1-5)] t
    by (simp add: parse_duration_def)
qed

lemma parse_format_offset:
  assumes "0 < d" and "d < 2 ^ 63"
  shows "parse_duration b (format_offset d) = Some d"
proof -
  have whole: "d div k * k = d" if "d mod k = 0" for k using that by (metis add.right_neutral div_mult_mod_eq)
  have pos: "0 \<le> d div k" if "0 < k" for k using assms(1) that by (simp add: pos_imp_zdiv_nonneg_iff)
  consider "day \<le> d \<and> d mod day = 0" | "\<not> (day \<le> d \<and> d mod day = 0)" "d mod hour = 0"
    | "\<not> (day \<le> d \<and> d mod day = 0)" "d mod hour \<noteq> 0" "d mod minute = 0"
    | "\<not> (day \<le> d \<and> d mod day = 0)" "d mod hour \<noteq> 0" "d mod minute \<noteq> 0" by blast
  then show ?thesis
  proof cases
    case 1
    then show ?thesis using parse_days [of "d div day" b] whole [of day] pos assms by (simp add: format_offset_def)
  next
    case 2
    then show ?thesis
      using parse_whole [of "d div hour" "''h''" hour b] whole [of hour] pos assms
      by (auto simp: format_offset_def visible_def byte_def)
  next
    case 3
    then show ?thesis
      using parse_whole [of "d div minute" "''m''" minute b] whole [of minute] pos assms
      by (auto simp: format_offset_def visible_def byte_def)
  next
    case 4
    then show ?thesis
      using parse_format_duration [of d b] assms by (auto simp: format_offset_def format_duration_def)
  qed
qed


text \<open>The characters of an offset of at least a millisecond.\<close>

definition offset_char :: "char \<Rightarrow> bool" where
  "offset_char c \<longleftrightarrow> is_number_char c \<or> c \<in> set ''smhd''"

lemma offset_char_visible: "offset_char c \<Longrightarrow> visible c \<and> \<not> is_offset_sep (byte c) \<and> c \<noteq> CHR '':''"
  by (auto simp: offset_char_def is_number_char_def is_digit_def visible_def is_offset_sep_def byte_def)

lemma dec_offset_chars: "0 \<le> n \<Longrightarrow> list_all offset_char (dec_of_int n)"
  using dec_of_int_digits [of n] by (auto simp: list_all_iff offset_char_def is_number_char_def)

lemma duration_body_offset_chars:
  assumes "1000000 \<le> u"
  shows "list_all offset_char (duration_body u)"
proof -
  have pos: "0 \<le> u div k" if "0 < k" for k using assms that by (simp add: pos_imp_zdiv_nonneg_iff)
  have fr: "list_all offset_char (fst (fmt_frac p u False []))" for p
  proof -
    have "0 \<le> u" using assms by simp
    then obtain ds where "fst (fmt_frac p u False []) = fraction_text ds" "list_all is_digit ds"
      by (rule fmt_frac_shape)
    then show ?thesis
      by (auto simp: fraction_text_def list_all_iff offset_char_def is_number_char_def)
  qed
  have letters: "offset_char (CHR ''s'')" "offset_char (CHR ''m'')" "offset_char (CHR ''h'')"
    by (simp_all add: offset_char_def)
  have "list_all offset_char (small_duration 6 ''ms'' u)"
    using fr [of 6] dec_offset_chars [OF pos [of "10 ^ 6"]] letters assms
    by (simp add: small_duration_def split_beta fmt_frac_whole)
  then show ?thesis
    using fr [of 9] letters assms pos dec_offset_chars
    by (simp add: duration_body_def Let_def)
qed

lemma format_offset_chars:
  assumes "1000000 \<le> d"
  shows "list_all offset_char (format_offset d) \<and> (\<exists>c r. format_offset d = c # r \<and> is_digit c)"
proof -
  have pos: "0 \<le> d div k" if "0 < k" for k using assms that by (simp add: pos_imp_zdiv_nonneg_iff)
  have whole: "list_all offset_char (dec_of_int n @ [c]) \<and> (\<exists>c' r. dec_of_int n @ [c] = c' # r \<and> is_digit c')"
    if n: "0 \<le> n" and c: "c \<in> set ''smhd''" for n c
  proof -
    obtain c' r where "dec_of_int n = c' # r" "is_digit c'" using dec_of_int_head [OF n] by metis
    moreover have "offset_char c" using c by (simp add: offset_char_def)
    ultimately show ?thesis using dec_offset_chars [OF n] by simp
  qed
  have body: "list_all offset_char (duration_string d) \<and> (\<exists>c r. duration_string d = c # r \<and> is_digit c)"
    using duration_body_offset_chars [OF assms] duration_body_chars(1) [of d] assms
    by (auto simp: duration_string_body)
  show ?thesis
    using whole [of "d div day" "CHR ''d''"] whole [of "d div hour" "CHR ''h''"]
      whole [of "d div minute" "CHR ''m''"] body pos by (simp add: format_offset_def)
qed

lemma format_offset_word:
  assumes "1000000 \<le> d"
  shows "word is_offset_sep (format_offset d)" and "word is_space (format_offset d)"
  using format_offset_chars [OF assms] offset_char_visible visible_space
  by (auto simp: word_def ascii_def list_all_iff visible_def)

subsection \<open>The round trip\<close>

text \<open>The policies the notation covers, with nothing in the fields their mode does not use.\<close>

definition pace_policy :: "reminder_policy \<Rightarrow> bool" where
  "pace_policy p \<longleftrightarrow> policy_ok p \<and>
     (case rp_mode p of
        ModeNone \<Rightarrow> p = zero_policy\<lparr>rp_mode := ModeNone\<rparr>
      | ModeOffsets \<Rightarrow> p = zero_policy\<lparr>rp_mode := ModeOffsets, rp_offsets := rp_offsets p\<rparr> \<and>
          (\<forall>d \<in> set (rp_offsets p). 1000000 \<le> d \<and> d < 2 ^ 63)
      | ModeInterval \<Rightarrow> p = zero_policy\<lparr>rp_mode := ModeInterval, rp_every := rp_every p,
          rp_at := rp_at p, rp_final_offset := default_final_offset\<rparr> \<and> rp_every p < 2 ^ 63
      | ModeOther m \<Rightarrow> False)"

lemma parse_all_offsets:
  "\<forall>d \<in> set ds. 1000000 \<le> d \<and> d < 2 ^ 63 \<Longrightarrow> parse_all b (map format_offset ds) = Some ds"
  by (induction ds) (simp_all add: parse_format_offset)

lemma parse_offsets_written:
  assumes "ds \<noteq> []" and "\<forall>d \<in> set ds. 1000000 \<le> d \<and> d < 2 ^ 63"
  shows "parse_offsets b (join_with '','' (map format_offset ds)) =
    Some (zero_policy\<lparr>rp_mode := ModeOffsets, rp_offsets := ds\<rparr>)"
proof -
  have "words_of is_offset_sep [] (rune_chunks (join_with '','' (map format_offset ds))) = map format_offset ds"
    using assms(2) format_offset_word(1)
    by (intro words_of_join) (simp_all add: is_offset_sep_def byte_def list_all_iff)
  then show ?thesis using assms parse_all_offsets by (simp add: parse_offsets_def)
qed

lemma bot_parse_tod_string:
  assumes "tod_valid t"
  shows "bot_parse_time_of_day (tod_string t) = Some t" and "word is_space (tod_string t)"
proof -
  have r: "0 \<le> tod_hour t" "tod_hour t < 100" "0 \<le> tod_minute t" "tod_minute t < 100"
    using assms by (auto simp: tod_valid_def max_hour_def max_minute_def)
  have dig: "\<exists>a b. pad2 i = [a, b] \<and> atoi [a, b] = Some i \<and> is_digit a \<and> is_digit b"
    if i: "0 \<le> i" "i < 100" for i
  proof -
    have "nat i div 10 < 10" "nat i mod 10 < 10" using i by linarith+
    then have "is_digit (digit_char (nat i div 10))" "is_digit (digit_char (nat i mod 10))"
      by (simp_all add: digit_byte_facts)
    then show ?thesis using pad2_digits [OF i] two_digits [OF i] by metis
  qed
  obtain a b where h: "pad2 (tod_hour t) = [a, b]" "atoi [a, b] = Some (tod_hour t)" "is_digit a" "is_digit b"
    using dig [OF r(1,2)] by blast
  obtain c e where m: "pad2 (tod_minute t) = [c, e]" "atoi [c, e] = Some (tod_minute t)" "is_digit c" "is_digit e"
    using dig [OF r(3,4)] by blast
  have colon: "\<not> is_digit (CHR '':'')" "visible (CHR '':'')"
    by (simp_all add: is_digit_def visible_def byte_def)
  have "match_time (tod_string t) = Some ([a, b], [c, e])"
    using h m colon by (simp add: tod_string_def match_time_def Let_def)
  then show "bot_parse_time_of_day (tod_string t) = Some t"
    using h m assms by (simp add: bot_parse_time_of_day_def Let_def tod_valid_def)
  show "word is_space (tod_string t)"
    using h m colon digit_visible by (intro visible_word) (simp_all add: tod_string_def)
qed


lemma normalize_word: "unicode_documented u \<Longrightarrow> word is_space s \<Longrightarrow> normalize_input u s = s"
  using normalize_words [of u "[s]"] by simp

lemma lower_digit: "is_digit c \<Longrightarrow> ascii_lower c = c"
  by (simp add: ascii_lower_def is_digit_def)

lemma is_none_pace_head:
  assumes "unicode_documented u" and "ascii (c # r)" and "is_digit c \<or> c = CHR ''e''"
  shows "\<not> is_none_pace u (c # r)"
proof -
  have l: "un_to_lower u (c # r) = ascii_lower c # map ascii_lower r"
    using assms(1,2) by (simp add: unicode_documented_def)
  have c: "byte (ascii_lower c) < 58 \<or> ascii_lower c = CHR ''e''"
    using assms(3) by (auto simp: lower_digit is_digit_def ascii_lower_def byte_def)
  have nE: "char_of (227 :: nat) \<noteq> CHR ''e''" by code_simp
  have "byte (hd w) \<ge> 58 \<and> hd w \<noteq> CHR ''e''"
    if "w \<in> {''off'', ''none'', string_of_runes [12394, 12375], ''no'', string_of_runes [12458, 12501]}" for w
    using that nE by (auto simp: string_of_runes_def rune_bytes_def valid_rune_def byte_def)
  from this [of "ascii_lower c # map ascii_lower r"] c show ?thesis
    unfolding is_none_pace_def l by auto
qed

lemma cut_prefix_fold_digit:
  assumes "unicode_documented u" and "ascii (c # r)" and "is_digit c"
  shows "cut_prefix_fold u (c # r) interval_keyword = None"
    and "cut_prefix_fold u (c # r) interval_keyword_ja = None"
proof -
  have tk: "ascii (take n (c # r))" for n using assms(2) by (metis append_take_drop_id ascii_simps(3))
  have a: "ascii (take 5 (c # r))" "ascii (take 3 (c # r))" by (rule tk)+
  have "ascii interval_keyword" by (simp add: interval_keyword_def byte_def)
  moreover have "map ascii_lower (take 5 (c # r)) \<noteq> map ascii_lower interval_keyword"
    using assms(3) by (auto simp: interval_keyword_def lower_digit ascii_lower_def is_digit_def byte_def)
  ultimately have "\<not> un_equal_fold u (take 5 (c # r)) interval_keyword"
    using assms(1) a(1) unfolding unicode_documented_def by blast
  moreover have "length interval_keyword = 5" by (simp add: interval_keyword_def)
  ultimately show "cut_prefix_fold u (c # r) interval_keyword = None"
    unfolding cut_prefix_fold_def by presburger
  have ja: "length interval_keyword_ja = 3"
    by (simp add: interval_keyword_ja_def string_of_runes_def rune_bytes_def valid_rune_def)
  have one: "rune_count interval_keyword_ja = 1"
    using runes_of_string_of_runes [of "[27598]"]
    by (simp add: rune_count_def runes_of_def interval_keyword_ja_def valid_rune_def)
      (metis length_map length_Cons list.size(3) One_nat_def)
  have "un_equal_fold u (take 3 (c # r)) interval_keyword_ja \<longrightarrow>
      rune_count (take 3 (c # r)) = rune_count interval_keyword_ja"
    using assms(1) unfolding unicode_documented_def by blast
  then have "un_equal_fold u (take 3 (c # r)) interval_keyword_ja \<Longrightarrow> length (c # r) < 3"
    using rune_chunks_of_ascii [OF a(2)] one by (simp add: rune_count_def)
  then show "cut_prefix_fold u (c # r) interval_keyword_ja = None"
    unfolding cut_prefix_fold_def ja by auto
qed

lemma list_all_join: "list_all P sep \<Longrightarrow> list_all (list_all P) ws \<Longrightarrow> list_all P (join_with sep ws)"
  by (induction sep ws rule: join_with.induct) auto

lemma pace_offsets_roundtrip:
  assumes "unicode_documented u" and "ds \<noteq> []" and "\<forall>d \<in> set ds. 1000000 \<le> d \<and> d < 2 ^ 63"
    and "policy_ok (zero_policy\<lparr>rp_mode := ModeOffsets, rp_offsets := ds\<rparr>)"
  shows "parse_reminder_pace u b (join_with '','' (map format_offset ds)) =
    Inr (zero_policy\<lparr>rp_mode := ModeOffsets, rp_offsets := ds\<rparr>)"
proof -
  let ?s = "join_with '','' (map format_offset ds)"
  have "list_all visible (format_offset d)" if "d \<in> set ds" for d
    using format_offset_chars [of d] assms(3) that offset_char_visible by (auto simp: list_all_iff)
  then have vis: "list_all visible ?s"
    by (intro list_all_join) (auto simp: list_all_iff visible_def byte_def)
  obtain d es where ds: "ds = d # es" using assms(2) by (cases ds) auto
  obtain c r where cr: "format_offset d = c # r" "is_digit c"
    using format_offset_chars [of d] assms(3) ds by auto
  have "?s = (c # r) @ (if es = [] then [] else '','' @ join_with '','' (map format_offset es))"
    using ds cr(1) by (cases es) simp_all
  then obtain r' where s: "?s = c # r'" by auto
  have as: "ascii (c # r')" using vis visible_ascii unfolding s by (simp add: ascii_def list_all_iff)
  have "normalize_input u ?s = ?s"
    using assms(1) vis s by (intro normalize_word visible_word) simp_all
  moreover have "\<not> is_none_pace u ?s" unfolding s using is_none_pace_head [OF assms(1) as] cr(2) by blast
  moreover have "parse_pace u b ?s = Some (zero_policy\<lparr>rp_mode := ModeOffsets, rp_offsets := ds\<rparr>)"
    using parse_offsets_written [OF assms(2,3), of b] cut_prefix_fold_digit [OF assms(1) as cr(2)]
    unfolding parse_pace_def s by simp
  moreover have "?s \<noteq> []" using s by simp
  moreover note assms(4) [THEN policy_validate_None [THEN iffD2, of _ "''reminder_policy''"]]
  ultimately show ?thesis by (simp add: parse_reminder_pace_def Let_def)
qed

lemma pace_interval_roundtrip:
  assumes "unicode_documented u" and "hour \<le> e" and "e < 2 ^ 63" and "tod_valid t"
  shows "parse_reminder_pace u b (''every '' @ format_offset e @ '' '' @ tod_string t) =
    Inr (zero_policy\<lparr>rp_mode := ModeInterval, rp_every := e, rp_at := t,
      rp_final_offset := default_final_offset\<rparr>)"
proof -
  let ?rest = "format_offset e @ '' '' @ tod_string t"
  have e: "1000000 \<le> e" "0 < e" using assms(2) by simp_all
  have w: "list_all (word is_space) [format_offset e, tod_string t]" "word is_space ''every''"
    using format_offset_word(2) [OF e(1)] bot_parse_tod_string(2) [OF assms(4)]
    by (simp_all add: word_def is_space_def byte_def)
  have s: "''every '' @ ?rest = join_with '' '' [''every'', format_offset e, tod_string t]" by simp
  have n: "normalize_input u (''every '' @ ?rest) = ''every '' @ ?rest"
    unfolding s using w by (intro normalize_words assms(1)) simp
  have as: "ascii (''every '' @ ?rest)" using w by (simp add: word_def byte_def)
  then have none: "\<not> is_none_pace u (''every '' @ ?rest)"
    using is_none_pace_head [OF assms(1), of "CHR ''e''" "''very '' @ ?rest"] by simp
  obtain c r where cr: "format_offset e = c # r" "is_digit c" using format_offset_chars [OF e(1)] by auto
  have "last (tod_string t) \<in> set (tod_string t)"
    using w by (intro last_in_set) (simp add: word_def)
  moreover have "\<forall>x \<in> set (tod_string t). byte x < 128 \<and> \<not> is_space (byte x)"
    using w by (simp add: word_def ascii_def list_all_iff)
  ultimately have "trim_space ?rest = ?rest"
    using as cr visible_space [OF digit_visible [OF cr(2)]] w
    by (intro trim_space_ascii) (auto simp: ascii_def list_all_iff word_def)
  then have trim: "trim_space ('' '' @ ?rest) = ?rest" by (simp add: trim_space_lead)
  have "un_equal_fold u interval_keyword interval_keyword"
    using assms(1) by (simp add: unicode_documented_def interval_keyword_def byte_def)
  then have "cut_prefix_fold u (''every '' @ ?rest) interval_keyword = Some ?rest"
    using trim by (simp add: cut_prefix_fold_def interval_keyword_def)
  moreover have "split_fields ?rest = [format_offset e, tod_string t]"
    using split_fields_join [OF w(1)] by simp
  ultimately have "parse_pace u b (''every '' @ ?rest) =
      Some (zero_policy\<lparr>rp_mode := ModeInterval, rp_every := e, rp_at := t,
        rp_final_offset := default_final_offset\<rparr>)"
    using parse_format_offset [OF e(2) assms(3), of b] bot_parse_tod_string(1) [OF assms(4)]
    by (simp add: parse_pace_def parse_interval_def Let_def)
  moreover have "policy_validate (zero_policy\<lparr>rp_mode := ModeInterval, rp_every := e, rp_at := t,
      rp_final_offset := default_final_offset\<rparr>) ''reminder_policy'' = None"
    unfolding policy_validate_None using assms(2,4) by (simp add: policy_ok_def min_reminder_interval_def default_final_offset_def)
  ultimately show ?thesis
    using n none by (simp add: parse_reminder_pace_def Let_def)
qed

lemma pace_roundtrip_aux:
  assumes "unicode_documented u" and "pace_policy p"
  shows "parse_reminder_pace u b (format_reminder_pace p) = Inr p"
proof (cases "rp_mode p")
  case ModeOffsets
  then have p: "p = zero_policy\<lparr>rp_mode := ModeOffsets, rp_offsets := rp_offsets p\<rparr>"
    "\<forall>d \<in> set (rp_offsets p). 1000000 \<le> d \<and> d < 2 ^ 63" "policy_ok p"
    using assms(2) by (simp_all add: pace_policy_def)
  then have "rp_offsets p \<noteq> []" using ModeOffsets by (simp add: policy_ok_def)
  from pace_offsets_roundtrip [OF assms(1) this p(2)] p(1,3) ModeOffsets show ?thesis
    by (simp add: format_reminder_pace_def)
next
  case ModeInterval
  then have p: "p = zero_policy\<lparr>rp_mode := ModeInterval, rp_every := rp_every p,
      rp_at := rp_at p, rp_final_offset := default_final_offset\<rparr>"
    "rp_every p < 2 ^ 63" "hour \<le> rp_every p" "tod_valid (rp_at p)"
    using assms(2) by (simp_all add: pace_policy_def policy_ok_def min_reminder_interval_def)
  from pace_interval_roundtrip [OF assms(1) p(3,2,4)] p(1) ModeInterval show ?thesis
    by (simp add: format_reminder_pace_def)
next
  case ModeNone
  then have p: "p = zero_policy\<lparr>rp_mode := ModeNone\<rparr>" using assms(2) by (simp add: pace_policy_def)
  have w: "word is_space ''off''" by (simp add: word_def is_space_def byte_def)
  have "ascii ''off''" by (simp add: byte_def)
  then have "un_to_lower u ''off'' = map ascii_lower ''off''"
    using assms(1) unfolding unicode_documented_def by blast
  then have "is_none_pace u ''off''" by (simp add: is_none_pace_def ascii_lower_def byte_def)
  then show ?thesis
    using normalize_word [OF assms(1) w] p ModeNone
    by (simp add: parse_reminder_pace_def format_reminder_pace_def Let_def)
next
  case (ModeOther m)
  then show ?thesis using assms(2) by (simp add: pace_policy_def)
qed

end
