(* ===== verification/Markup.thy ===== *)
theory Markup
  imports Go_Text Go_Time
begin

section \<open>The markup of message bodies\<close>

text \<open>
  \<open>internal/shared/markup/markup.go\<close>: the notation in which the manager writes mentions, times,
  links and bold text, and its parser, which each platform's renderer runs on a body.
\<close>

datatype kind = KindText | KindBold | KindUser | KindChannel | KindTime | KindLink

record token =
  tk_kind :: kind
  tk_text :: string
  tk_id :: string
  tk_at :: time
  tk_url :: string

text \<open>\<open>Token{}\<close> with a kind, to be filled in.\<close>

definition empty_token :: "kind \<Rightarrow> token" where
  "empty_token k = \<lparr>tk_kind = k, tk_text = [], tk_id = [], tk_at = zero_time, tk_url = []\<rparr>"

abbreviation open_token :: string where "open_token \<equiv> ''{{''"
abbreviation close_token :: string where "close_token \<equiv> ''}}''"
abbreviation bold_token :: string where "bold_token \<equiv> ''**''"

text \<open>U+2060 WORD JOINER and U+2026 HORIZONTAL ELLIPSIS, in UTF-8.\<close>

definition word_joiner :: string where
  "word_joiner = [CHR 0xE2, CHR 0x81, CHR 0xA0]"

definition ellipsis :: string where
  "ellipsis = [CHR 0xE2, CHR 0x80, CHR 0xA6]"

text \<open>
  \<open>time.Unix(sec, 0)\<close> and \<open>t.Unix()\<close>: a \<open>time.Time\<close> counts seconds from the year one in an
  \<open>int64\<close>, and both conversions wrap.
\<close>

definition wrap64 :: "int \<Rightarrow> int" where
  "wrap64 n = (n + 2 ^ 63) mod 2 ^ 64 - 2 ^ 63"

definition unix_epoch :: int where
  "unix_epoch = 62135596800"

definition time_unix :: "int \<Rightarrow> time" where
  "time_unix sec = (wrap64 (sec + unix_epoch) - unix_epoch) * second"

definition unix_seconds :: "time \<Rightarrow> int" where
  "unix_seconds t = wrap64 (t div second)"

subsection \<open>Building\<close>

definition markup_user :: "string \<Rightarrow> string" where
  "markup_user uid = open_token @ ''user:'' @ uid @ close_token"

definition markup_channel :: "string \<Rightarrow> string" where
  "markup_channel cid = open_token @ ''channel:'' @ cid @ close_token"

definition markup_time :: "time \<Rightarrow> string" where
  "markup_time t = open_token @ ''time:'' @ dec_of_int (unix_seconds t) @ close_token"

definition markup_link :: "string \<Rightarrow> string \<Rightarrow> string" where
  "markup_link url label =
     open_token @ ''url:'' @ url @ ''|'' @ replace_all ''|'' [] label @ close_token"

definition markup_bold :: "string \<Rightarrow> string" where
  "markup_bold s = bold_token @ s @ bold_token"

definition escape :: "string \<Rightarrow> string" where
  "escape s = replace_all open_token (''{'' @ word_joiner @ ''{'') s"

subsection \<open>Parsing\<close>

text \<open>One token at the start of a text that begins with \<open>{{\<close>: the token and its width.\<close>

definition parse_token :: "string \<Rightarrow> (token \<times> nat) option" where
  "parse_token s =
     (case index_of close_token s of
        None \<Rightarrow> None
      | Some stop \<Rightarrow>
          (let body = drop (length open_token) (take stop s);
               width = stop + length close_token
           in (case cut_at '':'' body of (name, arg, found) \<Rightarrow>
                 if \<not> found \<or> arg = [] then None
                 else if name = ''user'' then Some ((empty_token KindUser)\<lparr>tk_id := arg\<rparr>, width)
                 else if name = ''channel'' then Some ((empty_token KindChannel)\<lparr>tk_id := arg\<rparr>, width)
                 else if name = ''time'' then
                   (case atoi arg of
                      None \<Rightarrow> None
                    | Some unix \<Rightarrow> Some ((empty_token KindTime)\<lparr>tk_at := time_unix unix\<rparr>, width))
                 else if name = ''url'' then
                   (case cut_at ''|'' arg of (url, label, has_label) \<Rightarrow>
                      if \<not> has_label \<or> url = [] then None
                      else Some ((empty_token KindLink)\<lparr>tk_url := url, tk_text := label\<rparr>, width))
                 else None)))"

definition parse_bold :: "string \<Rightarrow> (string \<times> nat) option" where
  "parse_bold s =
     (let rest = drop (length bold_token) s
      in (case index_of bold_token rest of
            None \<Rightarrow> None
          | Some stop \<Rightarrow>
              if stop = 0 then None
              else Some (take stop rest, length bold_token * 2 + stop)))"

definition flush :: "string \<Rightarrow> token list" where
  "flush buf = (if buf = [] then [] else [(empty_token KindText)\<lparr>tk_text := buf\<rparr>])"

lemma parse_token_width: "parse_token s = Some (tok, w) \<Longrightarrow> 0 < w"
  by (auto simp: parse_token_def Let_def split: option.splits if_splits prod.splits)

lemma parse_bold_width: "parse_bold s = Some (body, w) \<Longrightarrow> 0 < w"
  by (auto simp: parse_bold_def Let_def split: option.splits if_splits)

text \<open>The loop of \<open>Parse\<close>: the text buffered so far and what is left of the body.\<close>

function parse_from :: "string \<Rightarrow> string \<Rightarrow> token list" where
  "parse_from buf [] = flush buf"
| "parse_from buf (c # s) =
     (if prefix open_token (c # s) then
        (case parse_token (c # s) of
           None \<Rightarrow> parse_from (buf @ [c]) s
         | Some (tok, w) \<Rightarrow> flush buf @ tok # parse_from [] (drop w (c # s)))
      else if prefix bold_token (c # s) then
        (case parse_bold (c # s) of
           None \<Rightarrow> parse_from (buf @ [c]) s
         | Some (body, w) \<Rightarrow>
             flush buf @ (empty_token KindBold)\<lparr>tk_text := body\<rparr> # parse_from [] (drop w (c # s)))
      else parse_from (buf @ [c]) s)"
  by pat_completeness auto
termination
  by (relation "measure (\<lambda>(buf, s). length s)")
    (auto dest: parse_token_width parse_bold_width)

definition parse_markup :: "string \<Rightarrow> token list" where
  "parse_markup s = parse_from [] s"

text \<open>\<open>t.Format("2006-01-02 15:04")\<close> in a location.\<close>

definition pad_year :: "int \<Rightarrow> string" where
  "pad_year y =
     (if y < 0 then CHR ''-'' # pad_left 4 (CHR ''0'') (dec_of_int (- y))
      else pad_left 4 (CHR ''0'') (dec_of_int y))"

definition format_minute :: "location \<Rightarrow> time \<Rightarrow> string" where
  "format_minute loc t =
     (let r = wall loc t mod day
      in pad_year (time_year loc t) @ ''-'' @ pad2 (time_month loc t) @ ''-'' @ pad2 (time_day loc t) @
         '' '' @ pad2 (r div hour) @ '':'' @ pad2 (r mod hour div minute))"

definition plain_token :: "location \<Rightarrow> token \<Rightarrow> string" where
  "plain_token loc tok =
     (case tk_kind tok of
        KindText \<Rightarrow> tk_text tok
      | KindBold \<Rightarrow> tk_text tok
      | KindUser \<Rightarrow> tk_id tok
      | KindChannel \<Rightarrow> tk_id tok
      | KindTime \<Rightarrow> format_minute loc (tk_at tok)
      | KindLink \<Rightarrow> tk_text tok)"

definition plain_text :: "string \<Rightarrow> location \<Rightarrow> string" where
  "plain_text s loc = concat (map (plain_token loc) (parse_markup s))"

definition truncate_text :: "string \<Rightarrow> int \<Rightarrow> string" where
  "truncate_text s limit =
     (if limit \<le> 0 then []
      else let rs = runes_of s
           in if int (length rs) \<le> limit then s
              else string_of_runes (take (nat (limit - 1)) rs) @ ellipsis)"

end
