(* ===== verification/Markup_Facts.thy ===== *)
theory Markup_Facts
  imports Markup
begin

section \<open>Facts about the markup\<close>

text \<open>
  What survives a round through the builders and the parser, and what user input can do to a
  body once it is escaped.
\<close>

subsection \<open>Escaping\<close>

lemma escape_Nil [simp]: "escape [] = []"
  by (simp add: escape_def)

lemma escape_Cons:
  "escape (c # s) =
     (if prefix open_token (c # s) then ''{'' @ word_joiner @ ''{'' @ escape (drop 2 (c # s))
      else c # escape s)"
  by (simp add: escape_def numeral_2_eq_2 del: Cons_prefix_Cons)

lemma escape_starts: "prefix ''{'' (escape s) \<longleftrightarrow> prefix ''{'' s"
  by (cases s) (auto simp: escape_Cons)

lemma escape_breaks_open: "\<not> contains ''{{{'' s \<Longrightarrow> \<not> contains open_token (escape s)"
proof (induction "length s" arbitrary: s rule: less_induct)
  case less
  show ?case
  proof (cases s)
    case Nil
    then show ?thesis by simp
  next
    case (Cons c r)
    note s = this
    show ?thesis
    proof (cases "prefix open_token s")
      case True
      then obtain t where t: "s = ''{{'' @ t" by (auto simp: prefix_def)
      then have "\<not> contains ''{{{'' t" using less.prems contains_append_left by metis
      then have "\<not> contains open_token (escape t)" using less.hyps [of t] t by simp
      moreover have "\<not> prefix ''{'' (escape t)"
        using less.prems t by (auto simp: escape_starts contains_Cons)
      ultimately show ?thesis
        using t by (auto simp: escape_Cons contains_Cons word_joiner_def)
    next
      case False
      have "\<not> contains ''{{{'' r" using less.prems s by (simp add: contains_Cons)
      then have "\<not> contains open_token (escape r)" using less.hyps [of r] s by simp
      moreover have "\<not> prefix open_token (c # escape r)"
        using False s escape_starts [of r] by auto
      moreover have "escape s = c # escape r"
        using False s by (simp add: escape_Cons del: Cons_prefix_Cons)
      ultimately show ?thesis by (simp add: contains_Cons del: Cons_prefix_Cons)
    qed
  qed
qed

lemma contains_drop: "contains sub (drop n s) \<Longrightarrow> contains sub s"
  by (metis append_take_drop_id contains_append_left)

lemma flush_kind: "tok \<in> set (flush buf) \<Longrightarrow> tk_kind tok = KindText"
  by (simp add: flush_def empty_token_def split: if_splits)

lemma parse_without_open:
  "\<not> contains open_token s \<Longrightarrow> tok \<in> set (parse_from buf s) \<Longrightarrow> tk_kind tok \<in> {KindText, KindBold}"
proof (induction buf s rule: parse_from.induct)
  case (1 buf)
  then show ?case by (auto dest: flush_kind)
next
  case (2 buf c s)
  have no: "\<not> prefix open_token (c # s)" "\<not> contains open_token s"
    using "2.prems"(1) by (simp_all add: contains_Cons)
  have drop: "\<not> contains open_token (drop w (c # s))" for w using "2.prems"(1) contains_drop by blast
  show ?case
  proof (cases "prefix bold_token (c # s)")
    case False
    then have "tok \<in> set (parse_from (buf @ [c]) s)"
      using "2.prems"(2) no(1) by (simp del: Cons_prefix_Cons)
    with False show ?thesis using "2.IH"(5) [OF no(1) False no(2)] by blast
  next
    case True
    note bold = this
    show ?thesis
    proof (cases "parse_bold (c # s)")
      case None
      then show ?thesis using "2.IH"(3) [OF no(1) bold None no(2)] "2.prems"(2) no bold
        by (simp del: Cons_prefix_Cons)
    next
      case (Some p)
      obtain body w where p: "p = (body, w)" by (cases p)
      with Some "2.prems"(2) no bold consider "tok \<in> set (flush buf)"
        | "tok = (empty_token KindBold)\<lparr>tk_text := body\<rparr>"
        | "tok \<in> set (parse_from [] (drop w (c # s)))" by (auto simp del: Cons_prefix_Cons)
      then show ?thesis
        using "2.IH"(4) drop Some p no bold
        by cases (auto dest: flush_kind simp: empty_token_def)
    qed
  qed
qed


text \<open>So escaped input without three braces in a row yields text and bold text only.\<close>

lemma parse_escaped:
  "\<not> contains ''{{{'' s \<Longrightarrow> tok \<in> set (parse_markup (escape s)) \<Longrightarrow> tk_kind tok \<in> {KindText, KindBold}"
  unfolding parse_markup_def using parse_without_open escape_breaks_open by blast

subsection \<open>What is written is read back\<close>

text \<open>The pieces of a body: each is written by one builder and read as one token.\<close>

datatype piece =
    Plain string
  | Strong string
  | Mention string
  | Channel_Ref string
  | Moment time
  | Anchor string string

fun write_piece :: "piece \<Rightarrow> string" where
  "write_piece (Plain s) = s"
| "write_piece (Strong s) = markup_bold s"
| "write_piece (Mention uid) = markup_user uid"
| "write_piece (Channel_Ref cid) = markup_channel cid"
| "write_piece (Moment t) = markup_time t"
| "write_piece (Anchor url label) = markup_link url label"

fun read_piece :: "piece \<Rightarrow> token" where
  "read_piece (Plain s) = (empty_token KindText)\<lparr>tk_text := s\<rparr>"
| "read_piece (Strong s) = (empty_token KindBold)\<lparr>tk_text := s\<rparr>"
| "read_piece (Mention uid) = (empty_token KindUser)\<lparr>tk_id := uid\<rparr>"
| "read_piece (Channel_Ref cid) = (empty_token KindChannel)\<lparr>tk_id := cid\<rparr>"
| "read_piece (Moment t) = (empty_token KindTime)\<lparr>tk_at := t\<rparr>"
| "read_piece (Anchor url label) =
     (empty_token KindLink)\<lparr>tk_url := url, tk_text := filter (\<lambda>c. c \<noteq> CHR ''|'') label\<rparr>"

definition plain_ok :: "string \<Rightarrow> bool" where
  "plain_ok s \<longleftrightarrow> s \<noteq> [] \<and> \<not> contains open_token s \<and> \<not> contains bold_token s \<and>
     last s \<noteq> CHR ''{'' \<and> last s \<noteq> CHR ''*''"

fun piece_ok :: "piece \<Rightarrow> bool" where
  "piece_ok (Plain s) = plain_ok s"
| "piece_ok (Strong s) = (s \<noteq> [] \<and> CHR ''*'' \<notin> set s)"
| "piece_ok (Mention uid) = (uid \<noteq> [] \<and> CHR ''}'' \<notin> set uid)"
| "piece_ok (Channel_Ref cid) = (cid \<noteq> [] \<and> CHR ''}'' \<notin> set cid)"
| "piece_ok (Moment t) = (t mod second = 0 \<and> \<bar>t div second\<bar> < 2 ^ 62)"
| "piece_ok (Anchor url label) =
     (url \<noteq> [] \<and> CHR ''|'' \<notin> set url \<and> CHR ''}'' \<notin> set url \<and> CHR ''}'' \<notin> set label)"

fun is_plain :: "piece \<Rightarrow> bool" where
  "is_plain (Plain s) = True"
| "is_plain p = False"

text \<open>No two plain pieces are adjacent: the parser would read them as one.\<close>

fun body_ok :: "piece list \<Rightarrow> bool" where
  "body_ok [] = True"
| "body_ok [p] = piece_ok p"
| "body_ok (p # q # ps) = (piece_ok p \<and> \<not> (is_plain p \<and> is_plain q) \<and> body_ok (q # ps))"

lemma index_of_double: "c \<notin> set a \<Longrightarrow> index_of [c, c] (a @ c # c # b) = Some (length a)"
  by (induction a) auto

lemma close_after: "CHR ''}'' \<notin> set a \<Longrightarrow> index_of close_token (a @ close_token @ r) = Some (length a)"
  using index_of_double [of "CHR ''}''" a r] by simp

lemma parse_token_at:
  assumes "index_of close_token s = Some stop" and "arg \<noteq> []"
    and "cut_at '':'' (drop 2 (take stop s)) = (name, arg, True)"
  shows "parse_token s =
     (if name = ''user'' then Some ((empty_token KindUser)\<lparr>tk_id := arg\<rparr>, stop + 2)
      else if name = ''channel'' then Some ((empty_token KindChannel)\<lparr>tk_id := arg\<rparr>, stop + 2)
      else if name = ''time'' then
        map_option (\<lambda>unix. ((empty_token KindTime)\<lparr>tk_at := time_unix unix\<rparr>, stop + 2)) (atoi arg)
      else if name = ''url'' then
        (case cut_at ''|'' arg of (url, label, has_label) \<Rightarrow>
           if \<not> has_label \<or> url = [] then None
           else Some ((empty_token KindLink)\<lparr>tk_url := url, tk_text := label\<rparr>, stop + 2))
      else None)"
proof -
  have l: "length open_token = 2" "length close_token = 2" by simp_all
  show ?thesis using assms unfolding parse_token_def l
    by (cases "cut_at ''|'' arg") (simp add: Let_def map_option_case)
qed

text \<open>The text of a token whose name and argument contain nothing that ends them.\<close>

definition token_text :: "string \<Rightarrow> string \<Rightarrow> string" where
  "token_text name arg = open_token @ name @ '':'' @ arg @ close_token"

lemma token_text_facts:
  assumes "CHR ''}'' \<notin> set name" and "CHR ''}'' \<notin> set arg" and "CHR '':'' \<notin> set name"
  shows "index_of close_token (token_text name arg @ r) = Some (length (token_text name arg) - 2)"
    and "cut_at '':'' (drop 2 (take (length (token_text name arg) - 2) (token_text name arg @ r))) =
      (name, arg, True)"
proof -
  let ?a = "open_token @ name @ '':'' @ arg"
  have t: "token_text name arg @ r = ?a @ close_token @ r" "length (token_text name arg) - 2 = length ?a"
    by (simp_all add: token_text_def)
  show "index_of close_token (token_text name arg @ r) = Some (length (token_text name arg) - 2)"
    unfolding t using assms by (intro close_after) simp
  have "drop 2 (take (length ?a) (?a @ close_token @ r)) = name @ '':'' @ arg"
    by (simp add: numeral_2_eq_2)
  then show "cut_at '':'' (drop 2 (take (length (token_text name arg) - 2) (token_text name arg @ r))) =
      (name, arg, True)"
    unfolding t using assms(3) cut_at_char [of "CHR '':''" name arg] by simp
qed

lemma token_text_length: "2 \<le> length (token_text name arg)"
  by (simp add: token_text_def)

lemma parse_from_token:
  assumes "parse_token (token_text name arg @ r) = Some (tok, length (token_text name arg))"
  shows "parse_from buf (token_text name arg @ r) = flush buf @ tok # parse_from [] r"
proof -
  obtain s where s: "token_text name arg @ r = CHR ''{'' # s" "prefix open_token (CHR ''{'' # s)"
    by (simp add: token_text_def)
  have "drop (length (token_text name arg)) (CHR ''{'' # s) = r"
    using s(1) by (metis append_eq_conv_conj)
  then show ?thesis using assms s by (simp del: Cons_prefix_Cons)
qed

lemma unix_round:
  assumes "t mod second = 0" and "\<bar>t div second\<bar> < 2 ^ 62"
  shows "atoi (dec_of_int (unix_seconds t)) = Some (t div second)" and "time_unix (t div second) = t"
proof -
  let ?k = "t div second"
  have "unix_seconds t = ?k"
    using assms(2) by (simp add: unix_seconds_def wrap64_def)
  then show "atoi (dec_of_int (unix_seconds t)) = Some ?k"
    using assms(2) by (simp add: atoi_dec_of_int)
  have "wrap64 (?k + unix_epoch) = ?k + unix_epoch"
    using assms(2) by (simp add: wrap64_def unix_epoch_def)
  moreover have "?k * second = t" using assms(1) by (metis div_mult_mod_eq add.right_neutral)
  ultimately show "time_unix ?k = t" by (simp add: time_unix_def)
qed

lemma dec_of_int_close [simp]: "CHR ''}'' \<notin> set (dec_of_int i)"
  using dec_of_nat_chars [of "nat i"] dec_of_nat_chars [of "nat (- i)"]
  by (auto simp: dec_of_int_def)

lemma parse_from_bold:
  assumes "s \<noteq> []" and "CHR ''*'' \<notin> set s"
  shows "parse_from buf (markup_bold s @ r) =
    flush buf @ (empty_token KindBold)\<lparr>tk_text := s\<rparr> # parse_from [] r"
proof -
  have p: "parse_bold (markup_bold s @ r) = Some (s, length (markup_bold s))"
    using assms index_of_double [of "CHR ''*''" s r]
    by (simp add: parse_bold_def markup_bold_def numeral_2_eq_2)
  obtain t where t: "markup_bold s @ r = CHR ''*'' # t" "prefix bold_token (CHR ''*'' # t)"
    by (simp add: markup_bold_def)
  have "drop (length (markup_bold s)) (CHR ''*'' # t) = r"
    using t(1) by (metis append_eq_conv_conj)
  then show ?thesis using p t by simp
qed

lemma parse_token_written:
  assumes "CHR ''}'' \<notin> set name" and "CHR ''}'' \<notin> set arg" and "CHR '':'' \<notin> set name" and "arg \<noteq> []"
  shows "parse_token (token_text name arg @ r) =
     (if name = ''user'' then
        Some ((empty_token KindUser)\<lparr>tk_id := arg\<rparr>, length (token_text name arg))
      else if name = ''channel'' then
        Some ((empty_token KindChannel)\<lparr>tk_id := arg\<rparr>, length (token_text name arg))
      else if name = ''time'' then
        map_option (\<lambda>unix. ((empty_token KindTime)\<lparr>tk_at := time_unix unix\<rparr>,
          length (token_text name arg))) (atoi arg)
      else if name = ''url'' then
        (case cut_at ''|'' arg of (url, label, has_label) \<Rightarrow>
           if \<not> has_label \<or> url = [] then None
           else Some ((empty_token KindLink)\<lparr>tk_url := url, tk_text := label\<rparr>,
             length (token_text name arg)))
      else None)"
  using parse_token_at [OF token_text_facts(1) [OF assms(1-3)] assms(4) token_text_facts(2) [OF assms(1-3)]]
  unfolding le_add_diff_inverse2 [OF token_text_length] .

lemma parse_piece:
  assumes "piece_ok p" and "\<not> is_plain p"
  shows "parse_from buf (write_piece p @ r) = flush buf @ read_piece p # parse_from [] r"
proof (cases p)
  case (Plain s)
  with assms show ?thesis by simp
next
  case (Strong s)
  with assms show ?thesis by (simp add: parse_from_bold)
next
  case (Mention uid)
  have "write_piece p = token_text ''user'' uid" using Mention by (simp add: markup_user_def token_text_def)
  with Mention assms show ?thesis by (simp add: parse_from_token parse_token_written)
next
  case (Channel_Ref cid)
  have "write_piece p = token_text ''channel'' cid"
    using Channel_Ref by (simp add: markup_channel_def token_text_def)
  with Channel_Ref assms show ?thesis by (simp add: parse_from_token parse_token_written)
next
  case (Moment t)
  have "write_piece p = token_text ''time'' (dec_of_int (unix_seconds t))"
    using Moment by (simp add: markup_time_def token_text_def)
  moreover have "dec_of_int (unix_seconds t) \<noteq> []"
    using dec_of_nat_digits(2) by (simp add: dec_of_int_def)
  ultimately show ?thesis
    using Moment assms unix_round [of t] by (simp add: parse_from_token parse_token_written)
next
  case (Anchor url label)
  let ?l = "filter (\<lambda>c. c \<noteq> CHR ''|'') label"
  have "write_piece p = token_text ''url'' (url @ ''|'' @ ?l)"
    using Anchor by (simp add: markup_link_def token_text_def replace_all_char)
  moreover have "cut_at ''|'' (url @ ''|'' @ ?l) = (url, ?l, True)"
    using Anchor assms cut_at_char [of "CHR ''|''" url ?l] by simp
  ultimately show ?thesis
    using Anchor assms by (simp add: parse_from_token parse_token_written)
qed

lemma parse_from_plain:
  "s \<noteq> [] \<Longrightarrow> \<not> contains open_token s \<Longrightarrow> \<not> contains bold_token s \<Longrightarrow>
   last s \<noteq> CHR ''{'' \<Longrightarrow> last s \<noteq> CHR ''*'' \<Longrightarrow> parse_from buf (s @ r) = parse_from (buf @ s) r"
proof (induction s arbitrary: buf)
  case (Cons c s)
  have no: "\<not> prefix open_token (c # s @ r)" "\<not> prefix bold_token (c # s @ r)"
    using Cons.prems by (cases s; auto simp: contains_Cons)+
  show ?case
  proof (cases "s = []")
    case True
    with no show ?thesis by (simp del: Cons_prefix_Cons)
  next
    case False
    then have "parse_from (buf @ [c]) (s @ r) = parse_from (buf @ [c] @ s) r"
      using Cons by (simp add: contains_Cons)
    with no show ?thesis by (simp del: Cons_prefix_Cons)
  qed
qed simp

lemma parse_body: "body_ok ps \<Longrightarrow> parse_from [] (concat (map write_piece ps)) = map read_piece ps"
proof (induction ps rule: body_ok.induct)
  case 1
  then show ?case by (simp add: flush_def)
next
  case (2 p)
  then show ?case
    using parse_piece [of p "[]" "[]"] parse_from_plain [of _ "[]" "[]"]
    by (cases "is_plain p"; cases p) (simp_all add: flush_def plain_ok_def)
next
  case (3 p q ps)
  let ?r = "concat (map write_piece ps)"
  have ok: "piece_ok p" "\<not> (is_plain p \<and> is_plain q)" "body_ok (q # ps)" "piece_ok q"
    using 3(2) by (simp, simp, simp, cases ps, simp_all)
  have IH: "parse_from [] (write_piece q @ ?r) = read_piece q # map read_piece ps"
    using 3(1) ok(3) by simp
  show ?case
  proof (cases p)
    case (Plain s)
    then have q: "\<not> is_plain q" using ok by simp
    have "parse_from [] (s @ write_piece q @ ?r) = parse_from s (write_piece q @ ?r)"
      using ok(1) Plain parse_from_plain [of s "[]"] by (simp add: plain_ok_def)
    moreover have "parse_from [] ?r = map read_piece ps"
      using parse_piece [OF ok(4) q, of "[]" ?r] IH by (simp add: flush_def)
    ultimately show ?thesis
      using Plain ok(1) parse_piece [OF ok(4) q, of s ?r] by (simp add: flush_def plain_ok_def)
  qed (use parse_piece [OF ok(1), of "[]" "write_piece q @ ?r"] IH in \<open>simp_all add: flush_def\<close>)
qed

lemma runes_of_ellipsis: "string_of_runes rs @ ellipsis = string_of_runes (rs @ [8230])"
  by (simp add: string_of_runes_def ellipsis_def rune_bytes_def valid_rune_def) code_simp

lemma length_truncate_text: "int (length (runes_of (truncate_text s n))) \<le> max 0 n"
proof (cases "n \<le> 0 \<or> int (length (runes_of s)) \<le> n")
  case True
  then show ?thesis by (auto simp: truncate_text_def Let_def runes_of_def)
next
  case False
  let ?rs = "take (nat (n - 1)) (runes_of s)"
  have "\<forall>r \<in> set (?rs @ [8230]). valid_rune r"
    using runes_of_valid [of s] by (auto simp: valid_rune_def dest: in_set_takeD)
  then have "runes_of (string_of_runes (?rs @ [8230])) = ?rs @ [8230]"
    by (rule runes_of_string_of_runes)
  moreover have "length ?rs = nat (n - 1)" using False by auto
  ultimately show ?thesis using False by (simp add: truncate_text_def Let_def runes_of_ellipsis)
qed

end
