(* ===== verification/Bot_Properties.thy ===== *)
theory Bot_Properties
  imports Input_Facts Pace_Facts Markup_Facts
begin

section \<open>Properties of the chat front end\<close>

text \<open>
  The properties of \<open>internal/manager/bot\<close>, \<open>internal/shared/markup\<close> and \<open>domain/duration.go\<close>, each
  with the claim it settles, and what the model shows to be unlike what a reader expects.
\<close>

subsection \<open>Markup\<close>

text \<open>
  C30. A body put together from plain text and the builders' tokens is parsed back into exactly
  those pieces, in order: mentions, channels, times, links (without the bars of the label) and
  bold text, for identifiers, labels and texts that do not contain the notation themselves.
\<close>
theorem markup_roundtrip:
  assumes "body_ok ps"
  shows "parse_markup (concat (map write_piece ps)) = map read_piece ps"
  unfolding parse_markup_def using assms by (rule parse_body)

theorem markup_roundtrip_witness:
  "parse_markup (concat (map write_piece
     [Plain ''by '', Mention ''U1'', Plain '' at '', Moment (5 * second), Anchor ''http://x'' ''a|b'', Strong ''c''])) =
   map read_piece
     [Plain ''by '', Mention ''U1'', Plain '' at '', Moment (5 * second), Anchor ''http://x'' ''a|b'', Strong ''c'']"
  by (rule markup_roundtrip) (simp add: plain_ok_def contains_Cons)

text \<open>
  User input without three opening braces in a row, once escaped, mentions nobody: the
  body it makes up is parsed into text and bold text only, no user, channel, time or link.
\<close>
theorem escaped_input_inert:
  assumes "\<not> contains ''{{{'' s" and "tok \<in> set (parse_markup (escape s))"
  shows "tk_kind tok \<in> {KindText, KindBold}"
  using parse_escaped [OF assms] .

theorem escaped_input_inert_witness:
  "tk_kind (hd (parse_markup (escape ''{{user:U1}}''))) \<in> {KindText, KindBold}"
proof (rule escaped_input_inert)
  show "\<not> contains ''{{{'' ''{{user:U1}}''" by (simp add: contains_Cons)
  show "hd (parse_markup (escape ''{{user:U1}}'')) \<in> set (parse_markup (escape ''{{user:U1}}''))"
    by code_simp
qed

text \<open>
  Three opening braces get through: \<open>Escape\<close> replaces the first two, and what it
  leaves of the third completes a new pair, so the escaped input mentions any user it names.
\<close>
theorem three_braces_mention:
  assumes "uid \<noteq> []" and "CHR ''{'' \<notin> set uid" and "CHR ''}'' \<notin> set uid"
  shows "(empty_token KindUser)\<lparr>tk_id := uid\<rparr> \<in> set (parse_markup (escape (''{{{user:'' @ uid @ ''}}'')))"
proof -
  have none: "\<not> contains open_token (''{user:'' @ uid @ ''}}'')"
  proof -
    have "\<not> contains open_token (s @ ''}}'')" if "CHR ''{'' \<notin> set s" for s
      using that by (induction s) (auto simp: contains_Cons)
    then show ?thesis using assms(2) by (cases uid) (auto simp: contains_Cons)
  qed
  have "escape (''{{{user:'' @ uid @ ''}}'') =
      ''{'' @ word_joiner @ ''{'' @ escape (''{user:'' @ uid @ ''}}'')"
    by (simp add: escape_Cons)
  also have "escape (''{user:'' @ uid @ ''}}'') = ''{user:'' @ uid @ ''}}''"
    unfolding escape_def using none by (rule replace_all_none)
  finally have esc: "escape (''{{{user:'' @ uid @ ''}}'') = (''{'' @ word_joiner) @ markup_user uid"
    by (simp add: markup_user_def)
  have "parse_from [] ((''{'' @ word_joiner) @ markup_user uid) = parse_from (''{'' @ word_joiner) (markup_user uid)"
    using parse_from_plain [of "''{'' @ word_joiner" "[]"] by (simp add: word_joiner_def contains_Cons)
  moreover have "parse_from (''{'' @ word_joiner) (markup_user uid @ []) =
      flush (''{'' @ word_joiner) @ (empty_token KindUser)\<lparr>tk_id := uid\<rparr> # parse_from [] []"
    using parse_piece [of "Mention uid" _ "[]"] assms(1,3) by simp
  ultimately show ?thesis unfolding esc parse_markup_def by simp
qed

theorem three_braces_mention_witness:
  "(empty_token KindUser)\<lparr>tk_id := ''U1''\<rparr> \<in> set (parse_markup (escape (''{{{user:'' @ ''U1'' @ ''}}'')))"
  by (rule three_braces_mention) simp_all

subsection \<open>Buttons\<close>

text \<open>
  The identifier of a button is read back as the action and the event it was built from, and
  nothing else is read as that action and event, surrounding white space apart.
\<close>
theorem action_ids_exact:
  "parse_action_id s = Inr (a, e) \<longleftrightarrow>
     a \<in> {ActionJoin, ActionPeek} \<and> e \<noteq> [] \<and> CHR '':'' \<notin> set e \<and> trim_space s = action_id a e"
  by (rule parse_action_exact)

subsection \<open>Durations and paces\<close>

text \<open>
  The text a duration is stored and shown as is read back as the same number of
  nanoseconds, over the whole range of \<open>int64\<close> and through the unit for days.
\<close>
theorem duration_roundtrip:
  assumes "- (2 ^ 63) \<le> d" and "d < 2 ^ 63"
  shows "parse_duration beyond (format_duration d) = Some d"
  using assms by (rule parse_format_duration)

theorem duration_roundtrip_witness: "parse_duration 0 (format_duration (90 * minute + 1)) = Some (90 * minute + 1)"
  by (rule duration_roundtrip) simp_all


text \<open>The Unicode functions on ASCII, and nothing beyond.\<close>

definition ascii_unicode :: bot_unicode where
  "ascii_unicode = \<lparr>un_nfkc = id, un_to_lower = map ascii_lower, un_is_letter = (\<lambda>r. 97 \<le> r \<and> r \<le> 122),
     un_is_digit = (\<lambda>r. 48 \<le> r \<and> r \<le> 57),
     un_equal_fold = (\<lambda>a b. if ascii a \<and> ascii b then map ascii_lower a = map ascii_lower b else a = b)\<rparr>"

lemma ascii_unicode_documented: "unicode_documented ascii_unicode"
proof -
  have "rune_count a = rune_count b" if "ascii a" "ascii b" "map ascii_lower a = map ascii_lower b" for a b
    using that rune_chunks_of_ascii by (metis length_map rune_count_def)
  then show ?thesis by (auto simp: unicode_documented_def ascii_unicode_def split: if_splits)
qed


subsection \<open>Dates\<close>

text \<open>
  In a zone whose offset does not change, a start given without a year is never before now and
  lies in this or the next year; an end given as a delay or a time of day is after the start.
\<close>
theorem upcoming_dates:
  assumes "relative_days u (normalize_input u input) = None" and "tod_valid dt"
    and "match_date (fst (split_space (normalize_input u input))) = Some ([], ms, ds)"
    and "parse_start_time u input now (fixed_zone off) dt = Inr t"
    and "parse_end_time u beyond ends start (fixed_zone off) = Inr t'"
    and "match_date (fst (split_space (normalize_input u ends))) = None"
  shows "now \<le> t \<and> time_year (fixed_zone off) t - time_year (fixed_zone off) now \<in> {0, 1} \<and> start < t'"
proof -
  have p: "parse_absolute (normalize_input u input) now (fixed_zone off) dt = Some t"
    using assms(1,4) by (auto simp: parse_start_time_def Let_def split: if_splits option.splits)
  have "start < t'" using assms(5,6) by (rule parse_end_after_start)
  then show ?thesis using parse_absolute_upcoming [OF p assms(2,3)] by auto
qed

theorem upcoming_dates_witness:
  "go_date (fixed_zone 32400) 2026 9 12 10 0 0 0 \<le> go_date (fixed_zone 32400) 2027 3 1 19 0 0 0 \<and>
   go_date (fixed_zone 32400) 2027 3 1 19 0 0 0 < go_date (fixed_zone 32400) 2027 3 1 22 0 0 0"
proof -
  let ?z = "fixed_zone 32400" and ?u = ascii_unicode
  let ?now = "go_date ?z 2026 9 12 10 0 0 0" and ?t = "go_date ?z 2027 3 1 19 0 0 0"
    and ?t' = "go_date ?z 2027 3 1 22 0 0 0" and ?dt = "\<lparr>tod_hour = 19, tod_minute = 0\<rparr>"
  have n: "normalize_input ?u ''3/1'' = ''3/1''" "normalize_input ?u ''22:00'' = ''22:00''"
    by (rule normalize_word [OF ascii_unicode_documented], simp add: word_def is_space_def byte_def)+
  have r: "relative_days ?u ''3/1'' = None"
    by (simp add: relative_days_def relative_words_def cut_prefix_fold_def string_of_runes_def
        rune_bytes_def valid_rune_def)
  have a: "parse_absolute ''3/1'' ?now ?z ?dt = Some ?t" by code_simp
  have s: "parse_start_time ?u ''3/1'' ?now ?z ?dt = Inr ?t"
    by (simp add: parse_start_time_def n r a)
  have "match_delta ''22:00'' = None" "bot_parse_time_of_day ''22:00'' = Some \<lparr>tod_hour = 22, tod_minute = 0\<rparr>"
    "tod_on \<lparr>tod_hour = 22, tod_minute = 0\<rparr> ?t ?z = ?t'" "\<not> ?t' \<le> ?t"
    by code_simp+
  then have e: "parse_end_time ?u 0 ''22:00'' ?t ?z = Inr ?t'" by (simp add: parse_end_time_def n)
  have m: "match_date (fst (split_space (normalize_input ?u ''3/1''))) = Some ([], ''3'', ''1'')"
    "match_date (fst (split_space (normalize_input ?u ''22:00''))) = None"
    unfolding n by code_simp+
  have v: "tod_valid ?dt" by (simp add: tod_valid_def max_hour_def max_minute_def)
  show ?thesis
    using upcoming_dates [OF _ v m(1) s e m(2)] by (simp only: n r simp_thms)
qed

end
