(* ===== verification/Bot_Messages.thy ===== *)
theory Bot_Messages
  imports Bot_Times Markup Domain_Event
begin

section \<open>Messages to the chat\<close>

text \<open>
  \<open>internal/manager/bot/messages.go\<close> and \<open>renderer.go\<close>: every text the manager posts. Japanese
  phrases are given by their code points, as \<open>jp\<close>; what they say is in the comments of the
  definitions. A \<open>Message\<close> and a \<open>Button\<close> are generated types, kept to the fields the code sets.
\<close>

abbreviation jp :: "rune list \<Rightarrow> string" where "jp \<equiv> string_of_runes"

datatype button_style = ButtonStyleDefault | ButtonStylePrimary

record button =
  bt_action_id :: string
  bt_label :: string
  bt_style :: button_style
  bt_disabled :: bool

record message =
  mg_text :: string
  mg_buttons :: "button list"
  mg_suppress_preview :: bool

definition text_message :: "string \<Rightarrow> message" where
  "text_message s = \<lparr>mg_text = s, mg_buttons = [], mg_suppress_preview = False\<rparr>"

definition error_message :: "string \<Rightarrow> message" where
  "error_message s = text_message s"

subsection \<open>Durations in words\<close>

text \<open>
  \<open>Duration.Hours\<close>, \<open>Minutes\<close> and \<open>Seconds\<close> are floats: the quotient and the remainder by the
  unit are converted and added. \<open>whole_units\<close> is \<open>int\<close> of that float, which cuts off toward
  zero; the operations are symmetric in the sign.
\<close>

definition whole_units :: "int \<Rightarrow> duration \<Rightarrow> int" where
  "whole_units unit d =
     sgn d * \<lfloor>f64 (f64 (of_int (\<bar>d\<bar> div unit)) + f64 (f64 (of_int (\<bar>d\<bar> mod unit)) / of_int unit))\<rfloor>"

definition hours_per_day :: int where "hours_per_day = 24"

text \<open>"3 days", "5 hours", "7 minutes" with a space, and "any moment now".\<close>

definition format_remaining :: "duration \<Rightarrow> string" where
  "format_remaining d =
     (if hours_per_day * hour \<le> d then dec_of_int (whole_units hour d div hours_per_day) @ jp [32, 26085]
      else if hour \<le> d then dec_of_int (whole_units hour d) @ jp [32, 26178, 38291]
      else if minute \<le> d then dec_of_int (whole_units minute d) @ jp [32, 20998]
      else jp [12414, 12418, 12394, 12367])"

text \<open>The same without a space, in the largest unit that divides the duration.\<close>

definition format_span :: "duration \<Rightarrow> string" where
  "format_span d =
     (if d mod (hours_per_day * hour) = 0 \<and> hours_per_day * hour \<le> d
      then dec_of_int (whole_units hour d div hours_per_day) @ jp [26085, 38291]
      else if d mod hour = 0 \<and> hour \<le> d then dec_of_int (whole_units hour d) @ jp [26178, 38291]
      else if d mod minute = 0 \<and> minute \<le> d then dec_of_int (whole_units minute d) @ jp [20998]
      else dec_of_int (whole_units second d) @ jp [31186])"

text \<open>\<open>t.Sub(u)\<close> saturates.\<close>

definition time_sub :: "time \<Rightarrow> time \<Rightarrow> duration" where
  "time_sub t u = max (- (2 ^ 63)) (min (2 ^ 63 - 1) (t - u))"

subsection \<open>Lines\<close>

definition append_if_not_empty :: "string list \<Rightarrow> string \<Rightarrow> string list" where
  "append_if_not_empty ls l = (if l = [] then ls else ls @ [l])"

definition bold_title :: "event \<Rightarrow> string" where
  "bold_title ev = markup_bold (escape (ev_title ev))"

text \<open>"It has ended: ...", "It was canceled: ...", "Looking for participants of ...!"\<close>

definition announcement_header :: "event \<Rightarrow> string" where
  "announcement_header ev =
     (case ev_status ev of
        EventStatusEnded \<Rightarrow> jp [9989, 32, 32066, 20102, 12375, 12414, 12375, 12383,
          58, 32] @ bold_title ev
      | EventStatusCanceled \<Rightarrow> jp [128683, 32, 20013, 27490, 12395, 12394, 12426,
        12414, 12375, 12383, 58, 32] @ bold_title ev
      | EventStatusOpen \<Rightarrow> jp [128276, 32] @ bold_title ev @ jp [32, 12398, 21442,
        21152, 32773, 12434, 21215, 38598, 20013, 33])"

definition schedule_line :: "event \<Rightarrow> string" where
  "schedule_line ev =
     jp [128197, 32] @ markup_time (ev_starts_at ev) @
     (case ev_ends_at ev of None \<Rightarrow> [] | Some t \<Rightarrow> jp [32, 12316,
       32] @ markup_time t)"

definition start_line_with_location :: "event \<Rightarrow> string" where
  "start_line_with_location ev =
     jp [128197, 32] @ markup_time (ev_starts_at ev) @
     (if ev_location ev = [] then [] else jp [32, 128205, 32] @ escape (ev_location ev))"

definition location_line :: "event \<Rightarrow> string" where
  "location_line ev = (if ev_location ev = [] then [] else jp [128205,
    32] @ escape (ev_location ev))"

text \<open>"Organizer: ..."\<close>

definition organizer_line :: "event \<Rightarrow> string" where
  "organizer_line ev = jp [128100, 32, 20027, 20652, 58,
    32] @ markup_user (cu_user_id (ev_organizer ev))"

definition mention_list :: "string list \<Rightarrow> string" where
  "mention_list ids = join_with '' '' (map markup_user ids)"

definition newline :: string where "newline = [CHR 0x0A]"

definition of_lines :: "string list \<Rightarrow> string" where
  "of_lines ls = join_with newline ls"

subsection \<open>Buttons\<close>

text \<open>"Join" and "Peek (1 hour)"\<close>

definition label_join :: string where "label_join = jp [21442, 21152]"
definition label_peek :: "string \<Rightarrow> string" where
  "label_peek text = jp [12481, 12521, 35211, 40] @ text @ '')''"

definition participation_buttons :: "event \<Rightarrow> duration \<Rightarrow> button list" where
  "participation_buttons ev peek =
     (let disabled = (\<not> ev_is_open ev)
      in [\<lparr>bt_action_id = action_id ActionJoin (ev_id ev), bt_label = label_join,
           bt_style = ButtonStylePrimary, bt_disabled = disabled\<rparr>,
          \<lparr>bt_action_id = action_id ActionPeek (ev_id ev), bt_label = label_peek (format_span peek),
           bt_style = ButtonStyleDefault, bt_disabled = disabled\<rparr>])"

subsection \<open>The messages\<close>

text \<open>Header, schedule, place, organizer, "Participants: 3", description, "Messages go to ...".\<close>

definition announcement :: "event \<Rightarrow> duration \<Rightarrow> message" where
  "announcement ev peek =
     (let l1 = append_if_not_empty [announcement_header ev, schedule_line ev] (location_line ev);
          l2 = l1 @ [organizer_line ev,
                     jp [128587, 32, 21442, 21152, 32773, 58,
                       32] @ dec_of_int (ev_participant_count ev) @ jp [32, 20154]];
          l3 = (if ev_description ev = [] then l2 else l2 @ [[], escape (ev_description ev)]);
          l4 = (if ch_channel_id (ev_channel ev) = [] then l3
                else l3 @ [[], jp [36899, 32097, 12399,
                  32] @ markup_channel (ch_channel_id (ev_channel ev)) @ jp [32, 12391, 34892,
                  12356, 12414, 12377, 12290]])
      in \<lparr>mg_text = of_lines l4, mg_buttons = participation_buttons ev peek,
          mg_suppress_preview = False\<rparr>)"

text \<open>The pinned message: which commands the organizer has, and how to leave.\<close>

definition summary :: "event \<Rightarrow> message" where
  "summary ev =
     (let l1 = append_if_not_empty [jp [128204, 32] @ bold_title ev,
       schedule_line ev] (location_line ev);
          l2 = l1 @ [organizer_line ev];
          l3 = (if ev_description ev = [] then l2 else l2 @ [escape (ev_description ev)])
      in text_message (of_lines (l3 @
           [[],
            jp [20027, 20652, 32773, 12399, 32, 96, 47, 97, 115, 111, 98, 101, 108, 108, 32, 101,
              100, 105, 116, 96, 32, 96, 47, 97, 115, 111, 98, 101, 108, 108, 32, 114, 101, 109,
              105, 110, 100, 96, 32, 96, 47, 97, 115, 111, 98, 101, 108, 108, 32, 101, 110, 100,
              96, 32, 96, 47, 97, 115, 111, 98, 101, 108, 108, 32, 99, 97, 110, 99, 101, 108, 96,
              32, 12391, 31649, 29702, 12391, 12365, 12414, 12377, 12290],
            jp [21442, 21152, 12434, 12420, 12417, 12427, 12392, 12365, 12399, 32, 96, 47, 97,
              115, 111, 98, 101, 108, 108, 32, 108, 101, 97, 118, 101, 96, 12290]])))"

text \<open>"3 hours to go until ...!", when and where, and the participants.\<close>

definition reminder :: "event \<Rightarrow> time \<Rightarrow> string list \<Rightarrow> message" where
  "reminder ev now participant_ids =
     (let l1 = [jp [9200, 32] @ bold_title ev @ jp [32, 12414, 12391, 12354, 12392, 32] @
                  format_remaining (time_sub (ev_starts_at ev) now) @ ''!'',
                start_line_with_location ev];
          mentions = mention_list participant_ids
      in text_message (of_lines (if mentions = [] then l1 else l1 @ [mentions])))"

definition recruit_reminder :: "event \<Rightarrow> time \<Rightarrow> duration \<Rightarrow> message" where
  "recruit_reminder ev now peek =
     \<lparr>mg_text = of_lines
        [jp [9200, 32] @ bold_title ev @ jp [32, 12414, 12391, 12354, 12392, 32] @
           format_remaining (time_sub (ev_starts_at ev) now) @ jp [33, 21442, 21152, 32773, 32] @
           dec_of_int (ev_participant_count ev) @ jp [32, 20154],
         start_line_with_location ev, organizer_line ev],
      mg_buttons = participation_buttons ev peek, mg_suppress_preview = False\<rparr>"

text \<open>"... has ended", "... was canceled": "this channel will be archived".\<close>

definition closing :: "event \<Rightarrow> message" where
  "closing ev =
     text_message
       (if ev_status ev = EventStatusCanceled
        then jp [128683, 32] @ bold_title ev @ jp [32, 12399, 20013, 27490, 12395, 12394, 12426,
          12414, 12375, 12383, 12290, 12371, 12398, 12481, 12515, 12531, 12493, 12523, 12399,
          12450, 12540, 12459, 12452, 12502, 12373, 12428, 12414, 12377, 12290]
        else jp [9989, 32] @ bold_title ev @
          jp [32, 12399, 32066, 20102, 12375, 12414, 12375, 12383, 12290, 12362, 12388, 12363,
            12428, 12373, 12414, 12391, 12375, 12383, 33, 12371, 12398, 12481, 12515, 12531,
            12493, 12523, 12399, 12450, 12540, 12459, 12452, 12502, 12373, 12428, 12414, 12377,
            12290])"

text \<open>"... joined! (3 participants)", "... is peeking (until ...)", "... went from peeking to joining!"\<close>

definition transition_message ::
  "transition_kind \<Rightarrow> string \<Rightarrow> int \<Rightarrow> time \<Rightarrow> message option" where
  "transition_message kind user_id count expires_at =
     (let user = markup_user user_id
      in case kind of
           TransitionJoined \<Rightarrow> Some (text_message
             (jp [128587, 32] @ user @ jp [32, 12364, 21442, 21152, 12375, 12414, 12375, 12383,
               33, 40, 21442, 21152, 32773, 32] @ dec_of_int count @ jp [32, 20154, 41]))
         | TransitionPeeked \<Rightarrow> Some (text_message
             (jp [128064, 32] @ user @ jp [32, 12364, 12481, 12521, 35211, 20013, 12391, 12377,
               40] @ markup_time expires_at @ jp [32, 12414, 12391, 41]))
         | TransitionPromoted \<Rightarrow> Some (text_message
             (jp [128587, 32] @ user @ jp [32, 12364, 12481, 12521, 35211, 12363, 12425, 21442,
               21152, 12395, 20999, 12426, 26367, 12360, 12414, 12375, 12383, 33, 40, 21442,
               21152, 32773, 32] @ dec_of_int count @
              jp [32, 20154, 41]))
         | _ \<Rightarrow> None)"

text \<open>"... left (3 participants)"\<close>

definition left_message :: "string \<Rightarrow> int \<Rightarrow> message" where
  "left_message user_id count =
     text_message (jp [128075, 32] @ markup_user user_id @ jp [32, 12364, 25244, 12369, 12414,
       12375, 12383, 40, 21442, 21152, 32773, 32] @ dec_of_int count @ jp [32, 20154, 41])"

text \<open>"... was removed by the organizer"\<close>

definition removed_by_organizer :: "string \<Rightarrow> message" where
  "removed_by_organizer user_id =
     text_message (jp [128075, 32] @ markup_user user_id @ jp [32, 12399, 20027, 20652, 32773,
       12395, 12424, 12426, 21442, 21152, 12434, 35299, 38500, 12373, 12428, 12414, 12375, 12383])"

text \<open>The private answer to a button: "You joined! wait for news in ...", "You may look at ... for
  1 hour (until ...)", "You have joined already", "You are peeking (until ...)".\<close>

definition action_reply ::
  "transition_kind \<Rightarrow> string \<Rightarrow> time \<Rightarrow> duration \<Rightarrow> message" where
  "action_reply kind channel_id expires_at peek =
     (let channel = markup_channel channel_id
      in text_message (case kind of
           TransitionJoined \<Rightarrow> jp [21442, 21152, 12375, 12414, 12375, 12383, 33,
             32] @ channel @ jp [32, 12391, 36899, 32097, 12434, 24453, 12387, 12390, 12397]
         | TransitionPromoted \<Rightarrow> jp [21442, 21152, 12375, 12414, 12375, 12383, 33,
           32] @ channel @ jp [32, 12391, 36899, 32097, 12434, 24453, 12387, 12390, 12397]
         | TransitionPeeked \<Rightarrow>
             channel @ jp [32, 12434, 32] @ format_span peek @ jp [32, 12384, 12369, 35223,
               12369, 12414, 12377, 40] @ markup_time expires_at @
             jp [32, 12414, 12391, 41, 12290, 27671, 12395, 20837, 12387, 12383, 12425, 12300,
               21442, 21152, 12301, 12434, 25276, 12375, 12390, 12397]
         | TransitionAlreadyParticipant \<Rightarrow> jp [12377, 12391, 12395, 21442, 21152,
           12375, 12390, 12356, 12414, 12377]
         | TransitionAlreadyPeeking \<Rightarrow>
             jp [12481, 12521, 35211, 20013, 12391, 12377, 40] @ markup_time expires_at @ jp [32,
               12414, 12391, 41, 12290, 21442, 21152, 12377, 12427, 12394, 12425, 12300, 21442,
               21152, 12301, 12434, 25276, 12375, 12390, 12397]))"

text \<open>"Open this URL within 10 minutes (it is yours alone and works once)"\<close>

definition link_invitation :: "string \<Rightarrow> message" where
  "link_invitation link_url =
     \<lparr>mg_text = jp [128279, 32, 87, 101, 98, 67, 111, 110, 115, 111, 108, 101, 32, 12392,
       36899, 25658, 12377, 12427, 12395, 12399, 12289, 49, 48, 32, 20998, 20197, 20869, 12395,
       27425, 12398, 32, 85, 82, 76, 32, 12434, 38283, 12356, 12390, 12367, 12384, 12373, 12356] @
        jp [40, 12371, 12398, 32, 85, 82, 76, 32, 12399, 12354, 12394, 12383, 23554, 29992,
          12391, 19968, 24230, 12384, 12369, 20351, 12360, 12414, 12377, 41, 10] @ link_url,
      mg_buttons = [], mg_suppress_preview = True\<rparr>"

text \<open>"Already linked with ...", and how to unlink\<close>

definition already_linked :: "string \<Rightarrow> string \<Rightarrow> message" where
  "already_linked email console_url =
     \<lparr>mg_text = jp [9989, 32, 12377, 12391, 12395, 32] @ escape email @ jp [32, 12392,
       36899, 25658, 28168, 12415, 12391, 12377, 12290, 87, 101, 98, 67, 111, 110, 115, 111, 108,
       101, 58, 32] @ console_url @
        jp [10, 36899, 25658, 12434, 35299, 38500, 12377, 12427, 12395, 12399, 32, 47, 97, 115,
          111, 98, 101, 108, 108, 32, 117, 110, 108, 105, 110, 107],
      mg_buttons = [], mg_suppress_preview = True\<rparr>"

definition help_message :: message where
  "help_message = text_message (of_lines [
     jp [12354, 12381, 12505, 12523, 32, 12398, 20351, 12356, 26041],
     jp [47, 97, 115, 111, 98, 101, 108, 108, 32, 110, 101, 119, 32, 32, 32, 32, 32, 32, 32, 32,
       32, 32, 32, 32, 32, 32, 32, 32, 8230, 32, 12452, 12505, 12531, 12488, 12434, 31435, 12385,
       19978, 12370, 12427, 40, 12371, 12398, 12481, 12515, 12531, 12493, 12523, 12395, 21215,
       38598, 12434, 25237, 31295, 41],
     jp [47, 97, 115, 111, 98, 101, 108, 108, 32, 108, 105, 115, 116, 32, 32, 32, 32, 32, 32, 32,
       32, 32, 32, 32, 32, 32, 32, 32, 8230, 32, 21215, 38598, 20013, 12398, 12452, 12505, 12531,
       12488, 19968, 35239],
     jp [47, 97, 115, 111, 98, 101, 108, 108, 32, 114, 101, 99, 114, 117, 105, 116, 32, 115, 101,
       116, 124, 99, 108, 101, 97, 114, 32, 32, 8230, 32, 12371, 12398, 12481, 12515, 12531,
       12493, 12523, 12434, 21215, 38598, 12481, 12515, 12531, 12493, 12523, 12395, 12377, 12427,
       32, 47, 32, 35299, 38500],
     jp [47, 97, 115, 111, 98, 101, 108, 108, 32, 108, 111, 103, 105, 110, 32, 32, 32, 32, 32,
       32, 32, 32, 32, 32, 32, 32, 32, 32, 8230, 32, 87, 101, 98, 67, 111, 110, 115, 111, 108,
       101, 32, 12392, 36899, 25658, 12377, 12427, 32, 85, 82, 76, 32, 12434, 21463, 12369,
       21462, 12427],
     jp [47, 97, 115, 111, 98, 101, 108, 108, 32, 117, 110, 108, 105, 110, 107, 32, 32, 32, 32,
       32, 32, 32, 32, 32, 32, 32, 32, 32, 8230, 32, 36899, 25658, 12434, 35299, 38500, 12377,
       12427],
     jp [45, 45, 32, 12452, 12505, 12531, 12488, 12481, 12515, 12531, 12493, 12523, 20869, 12391,
       32, 45, 45],
     jp [47, 97, 115, 111, 98, 101, 108, 108, 32, 105, 110, 102, 111, 32, 32, 32, 32, 32, 32, 32,
       32, 32, 32, 32, 32, 32, 32, 32, 8230, 32, 12452, 12505, 12531, 12488, 24773, 22577],
     jp [47, 97, 115, 111, 98, 101, 108, 108, 32, 101, 100, 105, 116, 32, 32, 32, 32, 32, 32, 32,
       32, 32, 32, 32, 32, 32, 32, 32, 8230, 32, 20869, 23481, 12434, 32232, 38598, 40, 20027,
       20652, 32773, 41],
     jp [47, 97, 115, 111, 98, 101, 108, 108, 32, 114, 101, 109, 105, 110, 100, 32, 55, 100, 44,
       49, 100, 44, 51, 104, 32, 32, 32, 32, 8230, 32, 12522, 12510, 12452, 12531, 12489, 35373,
       23450, 40, 20027, 20652, 32773, 41],
     ''/asobell remind every 2d 20:00'',
     ''/asobell remind off'',
     jp [47, 97, 115, 111, 98, 101, 108, 108, 32, 101, 110, 100, 32, 32, 32, 32, 32, 32, 32, 32,
       32, 32, 32, 32, 32, 32, 32, 32, 8230, 32, 32066, 20102, 40, 20027, 20652, 32773, 41],
     jp [47, 97, 115, 111, 98, 101, 108, 108, 32, 99, 97, 110, 99, 101, 108, 32, 32, 32, 32, 32,
       32, 32, 32, 32, 32, 32, 32, 32, 8230, 32, 20013, 27490, 40, 20027, 20652, 32773, 41],
     jp [47, 97, 115, 111, 98, 101, 108, 108, 32, 108, 101, 97, 118, 101, 32, 32, 32, 32, 32, 32,
       32, 32, 32, 32, 32, 32, 32, 32, 8230, 32, 21442, 21152, 12434, 12420, 12417, 12427]])"

text \<open>The event, its participants by name, and how many are peeking.\<close>

definition event_info :: "event \<Rightarrow> string list \<Rightarrow> string list \<Rightarrow> message" where
  "event_info ev participants peekers =
     (let l1 = append_if_not_empty [jp [128204, 32] @ bold_title ev,
       schedule_line ev] (location_line ev);
          l2 = append_if_not_empty (l1 @ [organizer_line ev]) (escape (ev_description ev));
          l3 = append_if_not_empty
                 (l2 @ [jp [128587, 32, 21442, 21152,
                   32] @ dec_of_int (int (length participants)) @ jp [32, 20154]])
                 (mention_list participants);
          l4 = (if peekers = [] then l3
                else l3 @ [jp [128064, 32, 12481, 12521, 35211,
                  32] @ dec_of_int (int (length peekers)) @ jp [32, 20154]])
      in text_message (of_lines l4))"

text \<open>"There are no open events", or one line for each.\<close>

definition event_list_line :: "time \<Rightarrow> event \<Rightarrow> string" where
  "event_list_line now ev =
     jp [12539] @ bold_title ev @ '' '' @ markup_time (ev_starts_at ev) @ jp [40, 12354, 12392,
       32] @
     format_remaining (time_sub (ev_starts_at ev) now) @ jp [32, 47, 32, 21442, 21152, 32] @
     dec_of_int (ev_participant_count ev) @ jp [32, 20154, 41] @
     (if ch_channel_id (ev_channel ev) = [] then []
      else '' '' @ markup_channel (ch_channel_id (ev_channel ev)))"

definition event_list_message :: "event list \<Rightarrow> time \<Rightarrow> message" where
  "event_list_message events now =
     (if events = []
      then text_message (jp [21215, 38598, 20013, 12398, 12452, 12505, 12531, 12488, 12399,
        12354, 12426, 12414, 12379, 12435, 12290, 96, 47, 97, 115, 111, 98, 101, 108, 108, 32,
        110, 101, 119, 96, 32, 12391, 31435, 12385, 19978, 12370, 12390, 12415, 12390, 12397])
      else text_message (of_lines (jp [128203, 32, 21215, 38598, 20013, 12398, 12452, 12505,
        12531, 12488] # map (event_list_line now) events)))"

text \<open>"... was created"\<close>

definition created_message :: "event \<Rightarrow> message" where
  "created_message ev =
     (if ch_channel_id (ev_channel ev) = [] then text_message (bold_title ev @ jp [32, 12434,
       20316, 25104, 12375, 12414, 12375, 12383])
      else text_message (jp [20316, 25104, 12375, 12414, 12375, 12383,
        32] @ markup_channel (ch_channel_id (ev_channel ev))))"

end
