(* ===== verification/Bot_Forms.thy ===== *)
theory Bot_Forms
  imports Bot_Messages Domain_Workspace
begin

section \<open>The forms for creating and editing an event\<close>

text \<open>
  \<open>internal/manager/bot/form.go\<close>. A \<open>Form\<close> is a generated type, kept to the fields the code sets.
  The submitted values are a map; the errors by field are the list of the entries in the order
  in which the code sets them, each key at most once.
\<close>

abbreviation form_event_new :: string where "form_event_new \<equiv> ''event_new''"
abbreviation form_event_edit :: string where "form_event_edit \<equiv> ''event_edit''"

abbreviation field_title :: string where "field_title \<equiv> ''title''"
abbreviation field_date :: string where "field_date \<equiv> ''date''"
abbreviation field_time :: string where "field_time \<equiv> ''time''"
abbreviation field_ends :: string where "field_ends \<equiv> ''ends''"
abbreviation field_description :: string where "field_description \<equiv> ''description''"
abbreviation field_remind :: string where "field_remind \<equiv> ''remind''"

abbreviation preset_standard :: string where "preset_standard \<equiv> ''standard''"
abbreviation preset_day_before :: string where "preset_day_before \<equiv> ''day_before''"
abbreviation preset_daily_20 :: string where "preset_daily_20 \<equiv> ''daily_20''"
abbreviation preset_none :: string where "preset_none \<equiv> ''none''"
abbreviation preset_custom :: string where "preset_custom \<equiv> ''custom''"

definition remind_daily_hour :: int where "remind_daily_hour = 20"
definition one_day :: duration where "one_day = hours_per_day * hour"

datatype field_type = FieldText | FieldMultilineText | FieldDate | FieldTime | FieldSelect

record form_field =
  ff_id :: string
  ff_label :: string
  ff_type :: field_type
  ff_required :: bool
  ff_placeholder :: string
  ff_initial_value :: string
  ff_max_length :: nat
  ff_options :: "(string \<times> string) list"
  ff_hint :: string

record form =
  fm_id :: string
  fm_title :: string
  fm_submit_label :: string
  fm_metadata :: string
  fm_fields :: "form_field list"

record event_form_input =
  fi_title :: string
  fi_description :: string
  fi_starts_at :: time
  fi_ends_at :: "time option"
  fi_reminder_policy :: "reminder_policy option"

subsection \<open>Fields\<close>

definition plain_field :: "string \<Rightarrow> string \<Rightarrow> field_type \<Rightarrow> string \<Rightarrow> form_field" where
  "plain_field i label ty initial =
     \<lparr>ff_id = i, ff_label = label, ff_type = ty, ff_required = False, ff_placeholder = [],
      ff_initial_value = initial, ff_max_length = 0, ff_options = [], ff_hint = []\<rparr>"

text \<open>"Title", "Date", "Start"\<close>

definition title_field :: "string \<Rightarrow> form_field" where
  "title_field initial =
     (plain_field field_title (jp [12479, 12452, 12488, 12523]) FieldText initial)
       \<lparr>ff_required := True, ff_max_length := title_max_len\<rparr>"

definition date_field :: "string \<Rightarrow> form_field" where
  "date_field initial =
     (plain_field field_date (jp [26085,
       20184]) FieldDate initial)\<lparr>ff_required := True\<rparr>"

definition time_field :: "string \<Rightarrow> form_field" where
  "time_field initial =
     (plain_field field_time (jp [38283, 22987, 26178,
       21051]) FieldTime initial)\<lparr>ff_required := True\<rparr>"

text \<open>"End", with the hint that it may be empty or relative to the start\<close>

definition ends_field :: "string \<Rightarrow> form_field" where
  "ends_field initial =
     (plain_field field_ends (jp [32066, 20102, 20104, 23450]) FieldText initial)
       \<lparr>ff_placeholder := ''+3h / 22:00 / 9/21 12:00'',
        ff_hint := jp [31354, 27396, 12394, 12425, 26410, 23450, 12290, 38283, 22987, 12363,
          12425, 12398, 30456, 23550, 12391, 12418, 25351, 23450, 12391, 12365, 12414,
          12377]\<rparr>"

definition description_field :: "string \<Rightarrow> form_field" where
  "description_field initial =
     (plain_field field_description (jp [35500, 26126]) FieldMultilineText initial)
       \<lparr>ff_max_length := description_max_len\<rparr>"

text \<open>"Reminders": the standard, the day before and 3 hours before, daily at 20, none, custom\<close>

definition remind_field :: "string \<Rightarrow> form_field" where
  "remind_field initial =
     (plain_field field_remind (jp [12522, 12510, 12452, 12531, 12489]) FieldSelect initial)
       \<lparr>ff_options :=
          [(preset_standard, jp [27161, 28310, 40, 55, 26085, 21069, 47, 49, 26085, 21069, 47,
            51, 26178, 38291, 21069, 41]),
           (preset_day_before, jp [21069, 26085, 12392, 51, 26178, 38291, 21069]),
           (preset_daily_20, jp [27598, 26085, 50, 48, 26178]),
           (preset_none, jp [12394, 12375]),
           (preset_custom, jp [12459, 12473, 12479, 12512, 40, 24460, 12391, 32, 47, 97, 115,
             111, 98, 101, 108, 108, 32, 114, 101, 109, 105, 110, 100, 41])]\<rparr>"

subsection \<open>Opening a form\<close>

text \<open>\<open>t.Format("2006-01-02")\<close> and \<open>t.Format("15:04")\<close> in a location\<close>

definition format_date :: "location \<Rightarrow> time \<Rightarrow> string" where
  "format_date loc t =
     pad_year (time_year loc t) @ ''-'' @ pad2 (time_month loc t) @ ''-'' @ pad2 (time_day loc t)"

definition format_clock :: "location \<Rightarrow> time \<Rightarrow> string" where
  "format_clock loc t =
     (let r = wall loc t mod day in pad2 (r div hour) @ '':'' @ pad2 (r mod hour div minute))"

definition form_location ::
  "(string \<Rightarrow> location option) \<Rightarrow> workspace_settings \<Rightarrow> location result" where
  "form_location load settings =
     (case settings_location load settings of
        Inl e \<Rightarrow> Inl (ErrWrapped ''workspace timezone'' e)
      | Inr loc \<Rightarrow> Inr loc)"

text \<open>"Create an event", "Create"; "Edit an event", "Save"\<close>

definition new_event_form ::
  "(string \<Rightarrow> location option) \<Rightarrow> time \<Rightarrow> workspace_settings \<Rightarrow> string \<Rightarrow> form result" where
  "new_event_form load now settings origin_channel_id =
     map_sum id (\<lambda>loc.
       \<lparr>fm_id = form_event_new, fm_title = jp [12452, 12505, 12531, 12488, 12434, 31435,
         12385, 19978, 12370, 12427], fm_submit_label = jp [20316, 25104],
        fm_metadata = origin_channel_id,
        fm_fields =
          [title_field [], date_field (format_date loc (add_date loc now 0 0 1)),
           time_field (tod_string (wss_default_start_time settings)), ends_field [],
           description_field [], remind_field preset_standard]\<rparr>) (form_location load settings)"

definition edit_event_form ::
  "(string \<Rightarrow> location option) \<Rightarrow> event \<Rightarrow> workspace_settings \<Rightarrow> form result" where
  "edit_event_form load ev settings =
     map_sum id (\<lambda>loc.
       \<lparr>fm_id = form_event_edit, fm_title = jp [12452, 12505, 12531, 12488, 12434, 32232,
         38598, 12377, 12427], fm_submit_label = jp [20445, 23384],
        fm_metadata = ev_id ev,
        fm_fields =
          [title_field (ev_title ev), date_field (format_date loc (ev_starts_at ev)),
           time_field (format_clock loc (ev_starts_at ev)),
           ends_field (case ev_ends_at ev of None \<Rightarrow> [] | Some t \<Rightarrow> format_clock loc t),
           description_field (ev_description ev), remind_field preset_custom]\<rparr>)
       (form_location load settings)"

subsection \<open>Reading a submitted form\<close>

definition form_value :: "(string \<Rightarrow> string option) \<Rightarrow> string \<Rightarrow> string" where
  "form_value values key = (case values key of None \<Rightarrow> [] | Some v \<Rightarrow> v)"

type_synonym form_errors = "(string \<times> string) list"

text \<open>"Choose a date", "Cannot read the date or the time", "The start must be in the future"\<close>

definition parse_form_start ::
  "bot_unicode \<Rightarrow> (string \<Rightarrow> string option) \<Rightarrow> time \<Rightarrow> location \<Rightarrow> workspace_settings
   \<Rightarrow> string + time" where
  "parse_form_start u values now loc settings =
     (let date = trim_space (form_value values field_date);
          given = trim_space (form_value values field_time);
          clock = (if given = [] then tod_string (wss_default_start_time settings) else given)
      in if date = [] then Inl (jp [26085, 20184, 12434, 36984, 12435, 12391, 12367, 12384,
        12373, 12356])
         else case parse_start_time u (date @ '' '' @ clock) now loc
                (wss_default_start_time settings) of
           Inl _ \<Rightarrow> Inl (jp [26085, 20184, 12414, 12383, 12399, 26178, 21051, 12434,
             35299, 37320, 12391, 12365, 12414, 12379, 12435, 12391, 12375, 12383])
         | Inr starts_at \<Rightarrow>
             if \<not> now < starts_at then Inl (jp [38283, 22987, 26085, 26178, 12399, 26410,
               26469, 12434, 25351, 23450, 12375, 12390, 12367, 12384, 12373, 12356])
             else Inr starts_at)"

text \<open>"Give the end in one of these formats: ..."\<close>

definition parse_form_ends ::
  "bot_unicode \<Rightarrow> int \<Rightarrow> (string \<Rightarrow> string option) \<Rightarrow> time \<Rightarrow> location \<Rightarrow> string + time option"
where
  "parse_form_ends u beyond values starts_at loc =
     (let raw = trim_space (form_value values field_ends)
      in if raw = [] then Inr None
         else case parse_end_time u beyond raw starts_at loc of
           Inl _ \<Rightarrow> Inl (jp [32066, 20102, 20104, 23450, 12399, 32, 96, 43, 51, 104,
             96, 32, 96, 50, 50, 58, 48, 48, 96, 32, 96, 57, 47, 50, 49, 32, 49, 50, 58, 48, 48,
             96, 32, 12398, 12356, 12378, 12428, 12363, 12398, 24418, 24335, 12391, 20837, 21147,
             12375, 12390, 12367, 12384, 12373, 12356])
         | Inr ends_at \<Rightarrow> Inr (Some ends_at))"

text \<open>The outer option is the second result; \<open>custom\<close> means to leave the policy as it is.\<close>

definition parse_remind_preset ::
  "string \<Rightarrow> workspace_settings \<Rightarrow> reminder_policy option option" where
  "parse_remind_preset v settings =
     (let s = trim_space v
      in if s = [] \<or> s = preset_custom then Some None
         else if s = preset_standard then
           (let policy = wss_default_reminder_policy settings
            in Some (Some (if rp_mode policy = ModeOther [] then default_reminder_policy
                           else policy)))
         else if s = preset_day_before then
           Some (Some (zero_policy\<lparr>rp_mode := ModeOffsets, rp_offsets := [one_day, 3 * hour]\<rparr>))
         else if s = preset_daily_20 then
           Some (Some (zero_policy\<lparr>rp_mode := ModeInterval, rp_every := one_day,
             rp_at := \<lparr>tod_hour = remind_daily_hour, tod_minute = 0\<rparr>,
             rp_final_offset := default_final_offset\<rparr>))
         else if s = preset_none then Some (Some (zero_policy\<lparr>rp_mode := ModeNone\<rparr>))
         else None)"

text \<open>"Enter a title", "This is no choice of reminders"\<close>

definition parse_event_form ::
  "bot_unicode \<Rightarrow> int \<Rightarrow> (string \<Rightarrow> location option) \<Rightarrow> (string \<Rightarrow> string option) \<Rightarrow> time
   \<Rightarrow> workspace_settings \<Rightarrow> event_form_input \<times> form_errors" where
  "parse_event_form u beyond load values now settings =
     (let loc = (case settings_location load settings of Inl _ \<Rightarrow> utc | Inr l \<Rightarrow> l);
          title = trim_space (form_value values field_title);
          description = trim_space (form_value values field_description);
          e1 = (if title = [] then [(field_title, jp [12479, 12452, 12488, 12523, 12434, 20837,
            21147, 12375, 12390, 12367, 12384, 12373, 12356])] else []);
          start = parse_form_start u values now loc settings;
          ends = (case start of Inl _ \<Rightarrow> Inr None | Inr t \<Rightarrow> parse_form_ends u beyond values t loc);
          e2 = (case start of Inl m \<Rightarrow> [(field_date, m)] | Inr _ \<Rightarrow> []);
          e3 = (case ends of Inl m \<Rightarrow> [(field_ends, m)] | Inr _ \<Rightarrow> []);
          preset = parse_remind_preset (form_value values field_remind) settings;
          e4 = (case preset of
                  None \<Rightarrow> [(field_remind, jp [12522, 12510, 12452, 12531, 12489,
                    12398, 36984, 25246, 32930, 12364, 19981, 27491, 12391, 12377])]
                | Some _ \<Rightarrow> [])
      in (\<lparr>fi_title = title, fi_description = description,
           fi_starts_at = (case start of Inl _ \<Rightarrow> zero_time | Inr t \<Rightarrow> t),
           fi_ends_at = (case ends of Inl _ \<Rightarrow> None | Inr t \<Rightarrow> t),
           fi_reminder_policy = (case preset of None \<Rightarrow> None | Some p \<Rightarrow> p)\<rparr>,
          e1 @ e2 @ e3 @ e4))"

end
