(* ===== verification/Bot_Dispatch.thy ===== *)
theory Bot_Dispatch
  imports Bot_Forms Error_Text Usecase_Participation Usecase_Identity
begin

section \<open>Commands, buttons and forms\<close>

text \<open>
  \<open>internal/manager/bot/dispatch.go\<close>: what a command, a button or a form does, and the reply. The
  dispatcher works on the services, whose environment and ports are \<open>bot_deps\<close>; the clock is
  the one of the services, as the application sets it up, and readings of it with nothing in
  between are one reading. A call of the dispatcher never returns an error of its own. The
  goroutine that creates the event of a submitted form is a value here (\<open>create_task\<close>), which is
  run as a call of its own (\<open>run_create_task\<close>); its deadline and the log are left out.
\<close>

record 'e bot_deps =
  bd_deps :: "('e, message) deps"
  bd_unicode :: bot_unicode
  bd_beyond :: int
  bd_texts :: error_texts
  bd_console_url :: string
  bd_post_ephemeral :: "workspace_ref \<Rightarrow> string \<Rightarrow> string \<Rightarrow> message \<Rightarrow> ('e, err, unit) prog"

text \<open>\<open>bot.Renderer\<close>, the messages of the services\<close>

definition with_renderer :: "('e, message) deps \<Rightarrow> ('e, message) deps" where
  "with_renderer d = d\<lparr>
     dp_announcement := (\<lambda>ev peek. Some (announcement ev peek)),
     dp_summary := (\<lambda>ev. Some (summary ev)),
     dp_reminder := (\<lambda>ev now ids. Some (reminder ev now ids)),
     dp_recruit_reminder := (\<lambda>ev now peek. Some (recruit_reminder ev now peek)),
     dp_closing := (\<lambda>ev. Some (closing ev)),
     dp_transition := transition_message,
     dp_left := (\<lambda>user count. Some (left_message user count)),
     dp_removed_by_organizer := (\<lambda>user. Some (removed_by_organizer user))\<rparr>"

datatype visibility = VisibilityUnspecified | VisibilityEphemeral

record reply =
  ry_message :: "message option"
  ry_visibility :: visibility
  ry_open_form :: "form option"
  ry_form_errors :: form_errors

record wire_action =
  wa_action_id :: string
  wa_workspace_id :: string
  wa_external_id :: string
  wa_user_id :: string

record form_submission =
  fs_form_id :: string
  fs_metadata :: string
  fs_values :: "string \<Rightarrow> string option"
  fs_workspace_id :: string
  fs_external_id :: string
  fs_user_id :: string

record create_task =
  ct_workspace :: workspace
  ct_origin :: string
  ct_user_id :: string
  ct_input :: create_event_input

subsection \<open>Fixed replies\<close>

text \<open>
  "Run this in an event channel", "Only the organizer can do this", "This event is over",
  "Could not add you to the channel", "Unknown command", "The workspace is not known yet".
\<close>

definition msg_not_event_channel :: string where
  "msg_not_event_channel = jp [12452, 12505, 12531, 12488, 12481, 12515, 12531, 12493, 12523,
    12391, 23455, 34892, 12375, 12390, 12367, 12384, 12373, 12356]"
definition msg_organizer_only :: string where
  "msg_organizer_only = jp [12371, 12398, 25805, 20316, 12399, 20027, 20652, 32773, 12398, 12415,
    23455, 34892, 12391, 12365, 12414, 12377]"
definition msg_event_closed :: string where
  "msg_event_closed = jp [12371, 12398, 12452, 12505, 12531, 12488, 12399, 32066, 20102, 12375,
    12390, 12356, 12414, 12377]"
definition msg_provider_failed :: string where
  "msg_provider_failed = jp [12481, 12515, 12531, 12493, 12523, 12408, 12398, 36861, 21152,
    12395, 22833, 25943, 12375, 12414, 12375, 12383, 12290, 26178, 38291, 12434, 12362, 12356,
    12390, 20877, 24230, 12362, 35430, 12375, 12367, 12384, 12373, 12356]"
definition msg_unknown_command :: string where
  "msg_unknown_command = jp [30693, 12425, 12394, 12356, 12467, 12510, 12531, 12489, 12391,
    12377, 12290, 96, 47, 97, 115, 111, 98, 101, 108, 108, 32, 104, 101, 108, 112, 96, 32, 12391,
    20351, 12356, 26041, 12434, 30906, 35469, 12391, 12365, 12414, 12377]"
definition msg_workspace_unknown :: string where
  "msg_workspace_unknown = jp [12527, 12540, 12463, 12473, 12506, 12540, 12473, 12364, 12414,
    12384, 21516, 26399, 12373, 12428, 12390, 12356, 12414, 12379, 12435, 12290, 12375, 12400,
    12425, 12367, 12375, 12390, 12363, 12425, 12362, 35430, 12375, 12367, 12384, 12373, 12356]"

text \<open>
  "Not linked", "Unlinked", "You have not joined this event", "Organizers cannot leave: end or
  cancel the event", "The event is being created", "The event was updated".
\<close>

definition msg_not_linked :: string where
  "msg_not_linked = jp [87, 101, 98, 67, 111, 110, 115, 111, 108, 101, 32, 12392, 36899, 25658,
    12375, 12390, 12356, 12414, 12379, 12435, 12290, 96, 47, 97, 115, 111, 98, 101, 108, 108, 32,
    108, 111, 103, 105, 110, 96, 32, 12363, 12425, 36899, 25658, 12391, 12365, 12414, 12377]"
definition msg_unlinked :: string where
  "msg_unlinked = jp [87, 101, 98, 67, 111, 110, 115, 111, 108, 101, 32, 12392, 12398, 36899,
    25658, 12434, 35299, 38500, 12375, 12414, 12375, 12383]"
definition msg_not_participant :: string where
  "msg_not_participant = jp [12371, 12398, 12452, 12505, 12531, 12488, 12395, 12399, 21442,
    21152, 12375, 12390, 12356, 12414, 12379, 12435]"
definition msg_organizer_leave :: string where
  "msg_organizer_leave =
     jp [20027, 20652, 32773, 12399, 25244, 12369, 12425, 12428, 12414, 12379, 12435, 12290, 96,
       47, 97, 115, 111, 98, 101, 108, 108, 32, 101, 110, 100, 96, 32, 12391, 32066, 20102,
       12377, 12427, 12363, 32, 96, 47, 97, 115, 111, 98, 101, 108, 108, 32, 99, 97, 110, 99,
       101, 108, 96, 32, 12391, 20013, 27490, 12375, 12390, 12367, 12384, 12373, 12356]"
definition msg_event_creating :: string where
  "msg_event_creating = jp [12452, 12505, 12531, 12488, 12434, 20316, 25104, 12375, 12390, 12356,
    12414, 12377, 12290, 23569, 12375, 24453, 12387, 12390, 12397]"
definition msg_event_updated :: string where
  "msg_event_updated = jp [12452, 12505, 12531, 12488, 12434, 26356, 26032, 12375, 12414, 12375,
    12383]"

text \<open>"The recruiting channel was cleared", and how dates, ends and paces are written.\<close>

definition msg_recruit_cleared :: string where
  "msg_recruit_cleared = jp [12371, 12398, 12527, 12540, 12463, 12473, 12506, 12540, 12473,
    12398, 21215, 38598, 12481, 12515, 12531, 12493, 12523, 35373, 23450, 12434, 35299, 38500,
    12375, 12414, 12375, 12383]"
definition msg_invalid_when :: string where
  "msg_invalid_when =
     jp [26085, 26178, 12434, 35299, 37320, 12391, 12365, 12414, 12379, 12435, 12290, 96, 50, 48,
       50, 54, 45, 48, 57, 45, 50, 48, 32, 49, 57, 58, 48, 48, 96, 32, 96, 57, 47, 50, 48, 32,
       49, 57, 58, 48, 48, 96, 32, 96, 26126, 26085, 32, 49, 57, 58, 48, 48, 96, 32, 12398,
       12424, 12358, 12395, 25351, 23450, 12375, 12390, 12367, 12384, 12373, 12356]"
definition msg_invalid_ends :: string where
  "msg_invalid_ends =
     jp [32066, 20102, 20104, 23450, 12434, 35299, 37320, 12391, 12365, 12414, 12379, 12435,
       12290, 96, 43, 51, 104, 96, 32, 96, 50, 50, 58, 48, 48, 96, 32, 96, 57, 47, 50, 48, 32,
       50, 50, 58, 48, 48, 96, 32, 12398, 12424, 12358, 12395, 25351, 23450, 12375, 12390, 12367,
       12384, 12373, 12356]"
definition msg_invalid_pace :: string where
  "msg_invalid_pace =
     jp [12522, 12510, 12452, 12531, 12489, 12434, 35299, 37320, 12391, 12365, 12414, 12379,
       12435, 12290, 96, 55, 100, 44, 49, 100, 44, 51, 104, 96, 32, 96, 101, 118, 101, 114, 121,
       32, 50, 100, 32, 50, 48, 58, 48, 48, 96, 32, 96, 111, 102, 102, 96, 32, 12398, 12424,
       12358, 12395, 25351, 23450, 12375, 12390, 12367, 12384, 12373, 12356]"

definition ephemeral :: "message \<Rightarrow> reply" where
  "ephemeral m = \<lparr>ry_message = Some m, ry_visibility = VisibilityEphemeral, ry_open_form = None,
                  ry_form_errors = []\<rparr>"

definition open_form :: "form \<Rightarrow> reply" where
  "open_form f = \<lparr>ry_message = None, ry_visibility = VisibilityEphemeral, ry_open_form = Some f,
                  ry_form_errors = []\<rparr>"

text \<open>\<open>ephemeral(Error(s))\<close>\<close>

definition notice :: "string \<Rightarrow> reply" where
  "notice s = ephemeral (error_message s)"

definition message_for_error :: "error_texts \<Rightarrow> err \<Rightarrow> message" where
  "message_for_error t e =
     (if errors_is e ErrForbidden then error_message msg_organizer_only
      else if errors_is e ErrEventClosed then error_message msg_event_closed
      else if errors_is e ErrOrganizerCannotLeave then error_message msg_organizer_leave
      else if errors_is e ErrNotFound then error_message msg_workspace_unknown
      else case as_validation e of
        Some invalid \<Rightarrow> error_message (validation_text t invalid)
      | None \<Rightarrow> error_message msg_provider_failed)"

definition reply_for_error :: "'e bot_deps \<Rightarrow> err \<Rightarrow> reply" where
  "reply_for_error d e = ephemeral (message_for_error (bd_texts d) e)"

text \<open>\<open>x, err := m; if err != nil { return h(err), nil }; f(x)\<close>\<close>

definition answer ::
  "('e, 'a) usecase \<Rightarrow> (err \<Rightarrow> 'r) \<Rightarrow> ('a \<Rightarrow> ('e, 'r) usecase) \<Rightarrow> ('e, 'r) usecase" where
  "answer m h f = m_bind (m_try m) (\<lambda>r. case r of Inl e \<Rightarrow> m_return (h e) | Inr x \<Rightarrow> f x)"

definition bot_workspace :: "'e bot_deps \<Rightarrow> string \<Rightarrow> string \<Rightarrow> ('e, workspace) usecase" where
  "bot_workspace d workspace_id external_id =
     workspace_resolve (bd_deps d)
       \<lparr>wr_workspace_id = workspace_id, wr_external_id = external_id\<rparr>"

definition chat_actor :: "string \<Rightarrow> actor" where
  "chat_actor user_id = \<lparr>ac_chat_user_id = user_id, ac_console = False\<rparr>"

subsection \<open>Creating and editing from commands\<close>

definition create_input ::
  "workspace \<Rightarrow> string \<Rightarrow> string \<Rightarrow> event_form_input \<Rightarrow> create_event_input" where
  "create_input ws user_id origin_channel_id inp =
     \<lparr>ce_workspace_id = ws_id ws, ce_title = fi_title inp, ce_description = fi_description inp,
      ce_location = [], ce_starts_at = fi_starts_at inp, ce_ends_at = fi_ends_at inp,
      ce_organizer = \<lparr>cu_user_id = user_id, cu_display_name = []\<rparr>,
      ce_origin_channel_id = origin_channel_id, ce_reminder_policy = fi_reminder_policy inp,
      ce_created_via = CreatedViaChat, ce_created_by = user_id\<rparr>"

text \<open>A form sends every field, so an empty end clears it.\<close>

definition form_update :: "event_form_input \<Rightarrow> event_update" where
  "form_update inp =
     \<lparr>eu_title = Some (fi_title inp), eu_description = Some (fi_description inp),
      eu_location = None, eu_starts_at = Some (fi_starts_at inp), eu_ends_at = fi_ends_at inp,
      eu_clear_ends_at = (fi_ends_at inp = None), eu_reminder_policy = fi_reminder_policy inp\<rparr>"

definition settings_zone :: "'e bot_deps \<Rightarrow> workspace \<Rightarrow> location" where
  "settings_zone d ws =
     (case settings_location (dp_load_location (bd_deps d)) (ws_settings ws) of
        Inl _ \<Rightarrow> utc | Inr loc \<Rightarrow> loc)"

definition parse_event_args ::
  "'e bot_deps \<Rightarrow> workspace \<Rightarrow> command \<Rightarrow> time \<Rightarrow> message + event_form_input" where
  "parse_event_args d ws cmd now =
     (let loc = settings_zone d ws; u = bd_unicode d
      in case parse_start_time u (cmd_arg cmd arg_when) now loc
             (wss_default_start_time (ws_settings ws)) of
           Inl _ \<Rightarrow> Inl (error_message msg_invalid_when)
         | Inr starts_at \<Rightarrow>
             let ends = cmd_arg cmd arg_ends; remind = cmd_arg cmd arg_remind;
                 inp = \<lparr>fi_title = trim_space (cmd_arg cmd arg_title),
                   fi_description = trim_space (cmd_arg cmd arg_description),
                   fi_starts_at = starts_at, fi_ends_at = None, fi_reminder_policy = None\<rparr>
             in (case (if ends = [] then Inr None
                       else map_sum id Some (parse_end_time u (bd_beyond d) ends starts_at loc)) of
                   Inl _ \<Rightarrow> Inl (error_message msg_invalid_ends)
                 | Inr ends_at \<Rightarrow>
                     (case (if remind = [] then Inr None
                            else map_sum id Some (parse_reminder_pace u (bd_beyond d) remind)) of
                        Inl _ \<Rightarrow> Inl (error_message msg_invalid_pace)
                      | Inr policy \<Rightarrow>
                          Inr (inp\<lparr>fi_ends_at := ends_at, fi_reminder_policy := policy\<rparr>))))"

text \<open>Only the arguments that were given are changed.\<close>

definition parse_edit_args ::
  "'e bot_deps \<Rightarrow> workspace \<Rightarrow> command \<Rightarrow> time \<Rightarrow> message + event_update" where
  "parse_edit_args d ws cmd now =
     (let loc = settings_zone d ws; u = bd_unicode d;
          title = trim_space (cmd_arg cmd arg_title);
          description = trim_space (cmd_arg cmd arg_description);
          starts = cmd_arg cmd arg_when; ends = cmd_arg cmd arg_ends;
          update = \<lparr>eu_title = (if title = [] then None else Some title),
            eu_description = (if description = [] then None else Some description),
            eu_location = None, eu_starts_at = None, eu_ends_at = None,
            eu_clear_ends_at = False, eu_reminder_policy = None\<rparr>
      in case (if starts = [] then Inr None
               else map_sum id Some (parse_start_time u starts now loc
                 (wss_default_start_time (ws_settings ws)))) of
           Inl _ \<Rightarrow> Inl (error_message msg_invalid_when)
         | Inr given \<Rightarrow>
             let starts_at = (case given of None \<Rightarrow> now | Some t \<Rightarrow> t)
             in (case (if ends = [] then Inr None
                       else map_sum id Some (parse_end_time u (bd_beyond d) ends starts_at loc)) of
                   Inl _ \<Rightarrow> Inl (error_message msg_invalid_ends)
                 | Inr ends_at \<Rightarrow> Inr (update\<lparr>eu_starts_at := given, eu_ends_at := ends_at\<rparr>)))"

definition has_edit_args :: "command \<Rightarrow> bool" where
  "has_edit_args cmd \<longleftrightarrow>
     list_ex (\<lambda>key. cmd_arg cmd key \<noteq> []) [arg_title, arg_when, arg_ends, arg_description]"

definition new_event_command ::
  "'e bot_deps \<Rightarrow> workspace \<Rightarrow> command \<Rightarrow> ('e, reply) usecase" where
  "new_event_command d ws cmd =
     m_bind (now_of (bd_deps d)) (\<lambda>now.
     if cmd_arg cmd arg_title = [] \<or> cmd_arg cmd arg_when = [] then
       m_return (case new_event_form (dp_load_location (bd_deps d)) now (ws_settings ws)
                        (cmd_channel_id cmd) of
                   Inl e \<Rightarrow> reply_for_error d e
                 | Inr form \<Rightarrow> open_form form)
     else case parse_event_args d ws cmd now of
         Inl msg \<Rightarrow> m_return (ephemeral msg)
       | Inr inp \<Rightarrow>
           answer (event_create (bd_deps d)
               (create_input ws (cmd_user_id cmd) (cmd_channel_id cmd) inp)) (reply_for_error d)
             (\<lambda>ev. m_return (ephemeral (created_message ev))))"

definition edit_event_command ::
  "'e bot_deps \<Rightarrow> workspace \<Rightarrow> event \<Rightarrow> command \<Rightarrow> ('e, reply) usecase" where
  "edit_event_command d ws ev cmd =
     (if \<not> has_edit_args cmd then
        m_return (case edit_event_form (dp_load_location (bd_deps d)) ev (ws_settings ws) of
                    Inl e \<Rightarrow> reply_for_error d e
                  | Inr form \<Rightarrow> open_form form)
      else
        m_bind (now_of (bd_deps d)) (\<lambda>now.
        case parse_edit_args d ws cmd now of
          Inl msg \<Rightarrow> m_return (ephemeral msg)
        | Inr update \<Rightarrow>
            answer (event_update_with (bd_deps d)
                \<lparr>ue_event_id = ev_id ev, ue_update = update,
                 ue_actor = chat_actor (cmd_user_id cmd)\<rparr>) (reply_for_error d)
              (\<lambda>_. m_return (notice msg_event_updated))))"

subsection \<open>The other subcommands\<close>

text \<open>"Reminders were set to ..."\<close>

definition set_pace_command :: "'e bot_deps \<Rightarrow> event \<Rightarrow> command \<Rightarrow> ('e, reply) usecase" where
  "set_pace_command d ev cmd =
     (let raw = cmd_arg cmd arg_pace
      in if raw = [] then m_return (notice msg_invalid_pace)
         else case parse_reminder_pace (bd_unicode d) (bd_beyond d) raw of
           Inl _ \<Rightarrow> m_return (notice msg_invalid_pace)
         | Inr policy \<Rightarrow>
             answer (event_set_reminder_policy (bd_deps d) (ev_id ev) policy
                 (chat_actor (cmd_user_id cmd))) (reply_for_error d)
               (\<lambda>_. m_return (notice (jp [12522, 12510, 12452, 12531, 12489, 12434,
                 12300] @ format_reminder_pace policy @
                  jp [12301, 12395, 35373, 23450, 12375, 12414, 12375, 12383]))))"

text \<open>"The event was canceled", "The event has ended"\<close>

definition close_event_command ::
  "'e bot_deps \<Rightarrow> event \<Rightarrow> command \<Rightarrow> end_reason \<Rightarrow> ('e, reply) usecase" where
  "close_event_command d ev cmd reason =
     answer (event_close_with (bd_deps d)
         \<lparr>cl_event_id = ev_id ev, cl_reason = reason, cl_actor = chat_actor (cmd_user_id cmd)\<rparr>)
       (reply_for_error d)
       (\<lambda>closed. m_return (notice
          (if ev_status closed = EventStatusCanceled then jp [12452, 12505, 12531, 12488, 12434,
            20013, 27490, 12375, 12414, 12375, 12383]
           else jp [12452, 12505, 12531, 12488, 12434, 32066, 20102, 12375, 12414, 12375, 12383])))"

text \<open>"You left the event"\<close>

definition leave_command :: "'e bot_deps \<Rightarrow> event \<Rightarrow> command \<Rightarrow> ('e, reply) usecase" where
  "leave_command d ev cmd =
     answer (participation_leave (bd_deps d) (ev_id ev) (cmd_user_id cmd))
       (\<lambda>e. if errors_is e ErrNotFound then notice msg_not_participant else reply_for_error d e)
       (\<lambda>_. m_return (notice (jp [12452, 12505, 12531, 12488, 12363, 12425, 25244, 12369,
         12414, 12375, 12383])))"

definition info_command :: "'e bot_deps \<Rightarrow> event \<Rightarrow> ('e, reply) usecase" where
  "info_command d ev =
     answer (active_members (ev_id ev)) (reply_for_error d)
       (\<lambda>(participants, peekers). m_return (ephemeral (event_info ev participants peekers)))"

definition list_command :: "'e bot_deps \<Rightarrow> workspace \<Rightarrow> ('e, reply) usecase" where
  "list_command d ws =
     m_bind (now_of (bd_deps d)) (\<lambda>now.
       answer (event_list \<lparr>ef_workspace_id = ws_id ws, ef_statuses = [EventStatusOpen],
           ef_ids = [], ef_starts_after = Some now, ef_limit = 0, ef_cursor = []\<rparr>)
         (reply_for_error d)
         (\<lambda>page. m_return (ephemeral (event_list_message (ep_events page) now))))"

text \<open>"This is the recruiting channel now", "Say `recruit set` or `recruit clear`"\<close>

definition recruit_command ::
  "'e bot_deps \<Rightarrow> workspace \<Rightarrow> command \<Rightarrow> ('e, reply) usecase" where
  "recruit_command d ws cmd =
     (let action = un_to_lower (bd_unicode d) (trim_space (cmd_arg cmd arg_action))
      in if action = ''set'' then
           answer (set_recruit_channel (bd_deps d) (ws_id ws) (cmd_channel_id cmd))
             (reply_for_error d)
             (\<lambda>_. m_return (notice (jp [12371, 12398, 12481, 12515, 12531, 12493, 12523,
               12434, 21215, 38598, 12481, 12515, 12531, 12493, 12523, 12395, 35373, 23450,
               12375, 12414, 12375, 12383])))
         else if action = ''clear'' then
           answer (clear_recruit_channel (bd_deps d) (ws_id ws)) (reply_for_error d)
             (\<lambda>_. m_return (notice msg_recruit_cleared))
         else m_return (notice
           (jp [96, 47, 97, 115, 111, 98, 101, 108, 108, 32, 114, 101, 99, 114, 117, 105, 116,
             32, 115, 101, 116, 96, 32, 12414, 12383, 12399, 32, 96, 47, 97, 115, 111, 98, 101,
             108, 108, 32, 114, 101, 99, 114, 117, 105, 116, 32, 99, 108, 101, 97, 114, 96, 32,
             12434, 25351, 23450, 12375, 12390, 12367, 12384, 12373, 12356])))"

text \<open>\<open>strings.TrimRight(s, "/")\<close>\<close>

definition trim_slashes :: "string \<Rightarrow> string" where
  "trim_slashes s = rev (dropWhile (\<lambda>c. c = CHR ''/'') (rev s))"

definition link_url :: "'e bot_deps \<Rightarrow> string \<Rightarrow> string" where
  "link_url d token = trim_slashes (bd_console_url d) @ ''/link/'' @ token"

definition login_command :: "'e bot_deps \<Rightarrow> workspace \<Rightarrow> command \<Rightarrow> ('e, reply) usecase" where
  "login_command d ws cmd =
     m_bind (m_try (resolve_console_user (ws_id ws) (cmd_user_id cmd))) (\<lambda>r.
     case r of
       Inr user \<Rightarrow> m_return (ephemeral (already_linked (us_email user) (bd_console_url d)))
     | Inl e \<Rightarrow>
         if \<not> errors_is e ErrNotFound then m_return (reply_for_error d e)
         else
           answer (issue_link_token (bd_deps d) (ws_id ws) (cmd_user_id cmd) []) (reply_for_error d)
             (\<lambda>token. m_return (ephemeral (link_invitation (link_url d token)))))"

definition unlink_command ::
  "'e bot_deps \<Rightarrow> workspace \<Rightarrow> command \<Rightarrow> ('e, reply) usecase" where
  "unlink_command d ws cmd =
     answer (unlink_chat_user (ws_id ws) (cmd_user_id cmd))
       (\<lambda>e. if errors_is e ErrNotFound then notice msg_not_linked else reply_for_error d e)
       (\<lambda>_. m_return (notice msg_unlinked))"

subsection \<open>Command, Action and FormSubmit\<close>

definition workspace_command ::
  "'e bot_deps \<Rightarrow> workspace \<Rightarrow> command \<Rightarrow> ('e, reply) usecase" where
  "workspace_command d ws cmd =
     (let sub = cmd_sub cmd
      in if sub = sub_new then new_event_command d ws cmd
         else if sub = sub_list then list_command d ws
         else if sub = sub_recruit then recruit_command d ws cmd
         else if sub = sub_login then login_command d ws cmd
         else if sub = sub_unlink then unlink_command d ws cmd
         else if sub_valid sub then m_return (ephemeral help_message)
         else m_return (notice msg_unknown_command))"

definition event_command ::
  "'e bot_deps \<Rightarrow> workspace \<Rightarrow> command \<Rightarrow> ('e, reply) usecase" where
  "event_command d ws cmd =
     answer (event_get_by_channel (cmd_channel_id cmd))
       (\<lambda>e. if errors_is e ErrNotFound then notice msg_not_event_channel else reply_for_error d e)
       (\<lambda>ev.
          let sub = cmd_sub cmd
          in if sub = sub_edit then edit_event_command d ws ev cmd
             else if sub = sub_remind then set_pace_command d ev cmd
             else if sub = sub_end then close_event_command d ev cmd EndReasonManual
             else if sub = sub_cancel then close_event_command d ev cmd EndReasonCanceled
             else if sub = sub_leave then leave_command d ev cmd
             else if sub = sub_info then info_command d ev
             else if sub_valid sub then m_return (ephemeral help_message)
             else m_return (notice msg_unknown_command))"

definition bot_command :: "'e bot_deps \<Rightarrow> wire_command \<Rightarrow> ('e, reply) usecase" where
  "bot_command d raw =
     (case parse_command (bd_unicode d) raw of
        Inl _ \<Rightarrow> m_return (notice msg_unknown_command)
      | Inr cmd \<Rightarrow>
          answer (bot_workspace d (cmd_workspace_id cmd) (cmd_external_id cmd)) (reply_for_error d)
            (\<lambda>ws. if cmd_sub cmd = sub_help then m_return (ephemeral help_message)
                   else if needs_event_channel (cmd_sub cmd) then event_command d ws cmd
                   else workspace_command d ws cmd))"

definition bot_action :: "'e bot_deps \<Rightarrow> wire_action \<Rightarrow> ('e, reply) usecase" where
  "bot_action d raw =
     (case parse_action_id (wa_action_id raw) of
        Inl _ \<Rightarrow> m_return (notice msg_unknown_command)
      | Inr (action, event_id) \<Rightarrow>
          answer (bot_workspace d (wa_workspace_id raw) (wa_external_id raw)) (reply_for_error d)
            (\<lambda>ws.
               answer (participation_apply (bd_deps d)
                   \<lparr>in_event_id = event_id, in_chat_user_id = wa_user_id raw,
                    in_display_name = [], in_action = action\<rparr>) (reply_for_error d)
                 (\<lambda>res. m_return (ephemeral (action_reply (tr_kind (po_transition res))
                    (ch_channel_id (ev_channel (po_event res))) (po_expires_at res)
                    (wss_peek_duration (ws_settings ws)))))))"

text \<open>A form is checked at once; creating the event is left to a task.\<close>

definition submit_new_event ::
  "workspace \<Rightarrow> form_submission \<Rightarrow> event_form_input \<Rightarrow> reply \<times> create_task option" where
  "submit_new_event ws sub inp =
     (notice msg_event_creating,
      Some \<lparr>ct_workspace = ws, ct_origin = fs_metadata sub, ct_user_id = fs_user_id sub,
        ct_input = create_input ws (fs_user_id sub) (fs_metadata sub) inp\<rparr>)"

definition submit_edit_event ::
  "'e bot_deps \<Rightarrow> form_submission \<Rightarrow> event_form_input \<Rightarrow> ('e, reply) usecase" where
  "submit_edit_event d sub inp =
     answer (event_update_with (bd_deps d)
         \<lparr>ue_event_id = fs_metadata sub, ue_update = form_update inp,
          ue_actor = chat_actor (fs_user_id sub)\<rparr>) (reply_for_error d)
       (\<lambda>_. m_return (notice msg_event_updated))"

definition bot_form_submit ::
  "'e bot_deps \<Rightarrow> form_submission \<Rightarrow> ('e, reply \<times> create_task option) usecase" where
  "bot_form_submit d sub =
     answer (bot_workspace d (fs_workspace_id sub) (fs_external_id sub))
       (\<lambda>e. (reply_for_error d e, None))
       (\<lambda>ws. m_bind (now_of (bd_deps d)) (\<lambda>now.
          case parse_event_form (bd_unicode d) (bd_beyond d) (dp_load_location (bd_deps d))
              (fs_values sub) now (ws_settings ws) of (inp, errs) \<Rightarrow>
            if errs \<noteq> [] then
              m_return (\<lparr>ry_message = None, ry_visibility = VisibilityUnspecified,
                         ry_open_form = None, ry_form_errors = errs\<rparr>, None)
            else if fs_form_id sub = form_event_new then m_return (submit_new_event ws sub inp)
            else if fs_form_id sub = form_event_edit then
              m_bind (submit_edit_event d sub inp) (\<lambda>r. m_return (r, None))
            else m_return (notice msg_unknown_command, None)))"

text \<open>The user is told how it went; that may fail and is not repeated.\<close>

definition notify ::
  "'e bot_deps \<Rightarrow> workspace \<Rightarrow> string \<Rightarrow> string \<Rightarrow> message \<Rightarrow> ('e, unit) usecase" where
  "notify d ws channel_id user_id msg =
     (if channel_id = [] then m_return ()
      else m_bind (m_try (port (bd_post_ephemeral d (workspace_ref_of ws) channel_id user_id msg)))
             (\<lambda>_. m_return ()))"

definition run_create_task :: "'e bot_deps \<Rightarrow> create_task \<Rightarrow> ('e, unit) usecase" where
  "run_create_task d t =
     m_bind (m_try (event_create (bd_deps d) (ct_input t))) (\<lambda>r.
     case r of
       Inl e \<Rightarrow> notify d (ct_workspace t) (ct_origin t) (ct_user_id t)
                  (message_for_error (bd_texts d) e)
     | Inr ev \<Rightarrow> notify d (ct_workspace t) (ct_origin t) (ct_user_id t) (created_message ev))"

end
