(* ===== verification/Form_Facts.thy ===== *)
theory Form_Facts
  imports Bot_Forms Pace_Facts Times_Facts
begin

section \<open>Facts about forms\<close>

text \<open>
  What the edit form shows is read back when it is submitted unchanged, in a zone whose offset does
  not change: title, description and start as they are, and the end as the first instant after
  the start with its time of day.
\<close>

subsection \<open>Numbers padded with zeros\<close>

lemma atoi_digits:
  assumes "s \<noteq> []" and "list_all is_digit s" and "dec_value s < 2 ^ 63"
  shows "atoi s = Some (int (dec_value s))"
proof -
  obtain c r where s: "s = c # r" using assms(1) by (cases s) auto
  then have "c \<noteq> CHR ''-''" "c \<noteq> CHR ''+''" using assms(2) by (auto simp: is_digit_def byte_def)
  moreover have "int (dec_value s) < 2 ^ 63" using assms(3) by (simp only: of_nat_less_numeral_power_cancel_iff)
  ultimately show ?thesis using assms(2) s by (simp add: atoi_def Let_def not_le)
qed

lemma padded_number:
  assumes "n < 10 ^ w" and "0 < w"
  defines "s \<equiv> pad_left w (CHR ''0'') (dec_of_nat n)"
  shows "length s = w" and "list_all is_digit s" and "dec_value s = n"
proof -
  have "length (dec_of_nat n) \<le> w"
    using length_digits_le [of 10 w n] assms(1,2) by (simp add: dec_of_nat_def)
  then show "length s = w" by (simp add: s_def pad_left_def)
  show "list_all is_digit s"
    using dec_of_nat_digits(1) [of n] by (auto simp: s_def pad_left_def list_all_iff is_digit_def byte_def)
  have "dec_value (replicate k (CHR ''0'') @ t) = dec_value t" for k t
    by (induction k) (simp_all add: dec_value_def byte_def)
  then show "dec_value s = n" by (simp add: s_def pad_left_def dec_value_of_nat)
qed

lemma two_digit_text:
  assumes "0 \<le> i" and "i < 100"
  obtains a b where "pad2 i = [a, b]" "is_digit a" "is_digit b" "atoi [a, b] = Some i"
proof -
  have n: "nat i < 10 ^ 2" using assms by simp
  have p: "pad2 i = pad_left 2 (CHR ''0'') (dec_of_nat (nat i))"
    using assms by (simp add: pad2_def dec_of_int_def)
  note facts = padded_number [OF n, folded p]
  obtain a b where ab: "pad2 i = [a, b]"
    using facts(1) by (auto simp: length_Suc_conv numeral_2_eq_2)
  with facts assms atoi_digits [of "pad2 i"] that show thesis by simp
qed

lemma four_digit_text:
  assumes "0 \<le> y" and "y < 10000"
  obtains a b c d where "pad_year y = [a, b, c, d]" "is_digit a" "is_digit b" "is_digit c" "is_digit d"
    "atoi [a, b, c, d] = Some y"
proof -
  have n: "nat y < 10 ^ 4" using assms by simp
  have p: "pad_year y = pad_left 4 (CHR ''0'') (dec_of_nat (nat y))"
    using assms by (simp add: pad_year_def dec_of_int_def)
  note facts = padded_number [OF n, folded p]
  obtain a b c d where ab: "pad_year y = [a, b, c, d]"
    using facts(1) by (auto simp: length_Suc_conv eval_nat_numeral)
  with facts assms atoi_digits [of "pad_year y"] that show thesis by simp
qed

lemma civil_day_range: "snd (snd (civil_from_days n)) \<in> {1..99}"
proof -
  define z where "z = n + epoch_days"
  define y where "y = year_of_days z"
  define r where "r = z - days_before_year y"
  have "0 \<le> r" using year_of_days_correct [of z] by (simp add: r_def y_def)
  moreover have "r < 370"
    using year_of_days_correct [of z] days_before_year_bounds [of "y - 1"] days_before_year_bounds [of y]
    by (simp add: r_def y_def)
  ultimately have search: "month_search leap r [12,11,10,9,8,7,6,5,4,3,2,1] = m \<Longrightarrow>
      0 \<le> r - days_before_month leap m \<and> r - days_before_month leap m < 99" for leap m
    by (cases leap) (simp_all add: days_before_month_def split: if_splits)
  have "civil_from_days n = (y, month_search (is_leap y) r [12,11,10,9,8,7,6,5,4,3,2,1],
      r - days_before_month (is_leap y) (month_search (is_leap y) r [12,11,10,9,8,7,6,5,4,3,2,1]) + 1)"
    unfolding civil_from_days_def Let_def z_def [symmetric] y_def [symmetric] r_def [symmetric] by simp
  then show ?thesis using search [OF refl, of "is_leap y"] by (simp only: snd_conv) simp
qed

subsection \<open>No word for a day\<close>

lemma cut_prefix_fold_none:
  assumes "unicode_documented u" and "ascii s"
    and "ascii w \<and> map ascii_lower (take (length w) s) \<noteq> map ascii_lower w \<or> rune_count w \<noteq> length w"
  shows "cut_prefix_fold u s w = None"
proof -
  have a: "ascii (take (length w) s)" using assms(2) by (metis append_take_drop_id ascii_simps(3))
  have "length s < length w" if f: "un_equal_fold u (take (length w) s) w"
  proof (cases "ascii w \<and> map ascii_lower (take (length w) s) \<noteq> map ascii_lower w")
    case True
    then show ?thesis using assms(1) a f unfolding unicode_documented_def by blast
  next
    case False
    then have "rune_count w \<noteq> length w" using assms(3) by blast
    moreover have "rune_count (take (length w) s) = rune_count w"
      using assms(1) f unfolding unicode_documented_def by blast
    ultimately show ?thesis using rune_chunks_of_ascii [OF a] by (simp add: rune_count_def)
  qed
  then show ?thesis unfolding cut_prefix_fold_def by auto
qed

lemma relative_days_digit:
  assumes "unicode_documented u" and "ascii (c # r)" and "is_digit c"
  shows "relative_days u (c # r) = None"
proof -
  have jp: "cut_prefix_fold u (c # r) (jp rs) = None"
    if "rs \<noteq> []" "\<forall>x \<in> set rs. valid_rune x \<and> 2048 \<le> x" for rs
  proof (rule cut_prefix_fold_none [OF assms(1,2)])
    have "rune_count (jp rs) = length rs"
      using runes_of_string_of_runes [of rs] that(2) by (simp add: rune_count_def runes_of_def)
        (metis length_map)
    moreover have "2 * length rs \<le> length (jp rs)"
      using that(2) by (induction rs) (auto simp: string_of_runes_def rune_bytes_def Let_def)
    ultimately show "ascii (jp rs) \<and> map ascii_lower (take (length (jp rs)) (c # r)) \<noteq> map ascii_lower (jp rs) \<or>
        rune_count (jp rs) \<noteq> length (jp rs)" using that(1) by (cases rs) auto
  qed
  have en: "cut_prefix_fold u (c # r) (x # w) = None" if "ascii (x # w)" "ascii_lower x \<noteq> c" for x w
    by (rule cut_prefix_fold_none [OF assms(1,2)]) (use that lower_digit [OF assms(3)] in auto)
  have "ascii_lower x \<noteq> c" if "ascii_lower x = x" "\<not> is_digit x" for x using that assms(3) by auto
  then show ?thesis
    unfolding relative_days_def relative_words_def
    by (simp add: jp valid_rune_def en ascii_def byte_def ascii_lower_def is_digit_def)
qed

subsection \<open>Dates and times as the form shows them\<close>

definition on_minute :: "int \<Rightarrow> time \<Rightarrow> bool" where
  "on_minute off t \<longleftrightarrow> (t + off * second) mod minute = 0"

definition clock_of :: "int \<Rightarrow> time \<Rightarrow> time_of_day" where
  "clock_of off t = \<lparr>tod_hour = (t + off * second) mod day div hour,
                     tod_minute = (t + off * second) mod day mod hour div minute\<rparr>"

lemma clock_ranges:
  fixes r :: int
  assumes "0 \<le> r" and "r < day"
  shows "0 \<le> r div hour" "r div hour < 24" "0 \<le> r mod hour div minute" "r mod hour div minute < 60"
proof -
  show "0 \<le> r div hour" using assms by (simp add: pos_imp_zdiv_nonneg_iff)
  show "r div hour < 24" using assms(2) div_bounds [of hour r] by linarith
  have r: "r mod hour < hour" "0 \<le> r mod hour" by simp_all
  then show "0 \<le> r mod hour div minute" "r mod hour div minute < 60"
    using div_bounds [of minute "r mod hour"] by linarith+
qed

lemma clock_of_valid: "tod_valid (clock_of off t)"
proof -
  have r: "0 \<le> (t + off * second) mod day" "(t + off * second) mod day < day" by simp_all
  note range = clock_ranges [OF r]
  then show ?thesis
    by (simp only: tod_valid_def clock_of_def max_hour_def max_minute_def time_of_day.select_convs)
      (intro conjI TrueI, linarith+)
qed

lemma clock_of_total:
  assumes "on_minute off t"
  shows "tod_hour (clock_of off t) * hour + tod_minute (clock_of off t) * minute = (t + off * second) mod day"
proof -
  let ?r = "(t + off * second) mod day"
  have "?r mod minute = 0" using assms by (simp add: on_minute_def mod_mod_cancel)
  then have "?r mod hour mod minute = 0" by (simp add: mod_mod_cancel)
  then have "?r mod hour div minute * minute = ?r mod hour"
    using div_mult_mod_eq [of "?r mod hour" minute] by linarith
  then show ?thesis using div_mult_mod_eq [of ?r hour] by (simp add: clock_of_def)
qed

lemma clock_text:
  obtains i j k l where "format_clock (fixed_zone off) t = [i, j, CHR '':'', k, l]"
    "is_digit i" "is_digit j" "is_digit k" "is_digit l"
    "bot_parse_time_of_day [i, j, CHR '':'', k, l] = Some (clock_of off t)"
proof -
  let ?r = "(t + off * second) mod day"
  have r: "0 \<le> ?r" "?r < day" by simp_all
  note range = clock_ranges [OF r]
  obtain i j where h: "pad2 (?r div hour) = [i, j]" "is_digit i" "is_digit j" "atoi [i, j] = Some (?r div hour)"
    by (rule two_digit_text [of "?r div hour"]) (use range in linarith)+
  obtain k l where m: "pad2 (?r mod hour div minute) = [k, l]" "is_digit k" "is_digit l"
    "atoi [k, l] = Some (?r mod hour div minute)"
    by (rule two_digit_text [of "?r mod hour div minute"]) (use range in linarith)+
  have colon: "\<not> is_digit (CHR '':'')" by (simp add: is_digit_def byte_def)
  have "match_time [i, j, CHR '':'', k, l] = Some ([i, j], [k, l])"
    using h m colon by (simp add: match_time_def)
  moreover have "tod_valid \<lparr>tod_hour = ?r div hour, tod_minute = ?r mod hour div minute\<rparr>"
    using clock_of_valid [of off t] by (simp add: clock_of_def)
  ultimately have "bot_parse_time_of_day [i, j, CHR '':'', k, l] = Some (clock_of off t)"
    using h(4) m(4) by (simp add: bot_parse_time_of_day_def clock_of_def)
  moreover have "format_clock (fixed_zone off) t = [i, j, CHR '':'', k, l]"
    using h(1) m(1) by (simp add: format_clock_def wall_fixed Let_def)
  ultimately show thesis using that h(2,3) m(2,3) by blast
qed

lemma date_text:
  assumes "0 \<le> time_year loc t" and "time_year loc t < 10000"
  obtains y m d where "format_date loc t = y @ ''-'' @ m @ ''-'' @ d"
    "length y = 4" "length m = 2" "length d = 2"
    "list_all is_digit y" "list_all is_digit m" "list_all is_digit d"
    "atoi y = Some (time_year loc t)" "atoi m = Some (time_month loc t)" "atoi d = Some (time_day loc t)"
proof -
  have "0 \<le> time_month loc t" "time_month loc t < 100" "0 \<le> time_day loc t" "time_day loc t < 100"
    using civil_month_range [of "wall loc t div day"] civil_day_range [of "wall loc t div day"]
    by (simp_all add: time_month_def time_day_def)
  then obtain a b c e where "pad2 (time_month loc t) = [a, b]" "is_digit a" "is_digit b"
    "atoi [a, b] = Some (time_month loc t)" "pad2 (time_day loc t) = [c, e]" "is_digit c" "is_digit e"
    "atoi [c, e] = Some (time_day loc t)"
    by (metis two_digit_text)
  then show thesis
    by (rule_tac four_digit_text [OF assms], rule_tac that [of "pad_year (time_year loc t)" "[a, b]" "[c, e]"])
      (simp_all add: format_date_def)
qed

lemma match_date_text:
  assumes "length y = 4" and "length m = 2" and "length d = 2"
    and "list_all is_digit y" and "list_all is_digit m" and "list_all is_digit d"
  shows "match_date (y @ ''-'' @ m @ ''-'' @ d) = Some (y, m, d)"
proof -
  have dash: "\<not> is_digit (CHR ''-'')" by (simp add: is_digit_def byte_def)
  have split: "takeWhile is_digit (s @ CHR ''-'' # r) = s" "dropWhile is_digit (s @ CHR ''-'' # r) = CHR ''-'' # r"
    if "list_all is_digit s" for s r
    using that dash by (simp_all add: list_all_iff takeWhile_append2 dropWhile_append2)
  have "match_month_day (m @ ''-'' @ d) = Some (m, d)"
    using assms split [of m d] by (simp add: match_month_day_def Let_def is_date_sep_def)
  then show ?thesis
    using assms split [of y "m @ ''-'' @ d"] by (simp add: match_date_def Let_def is_date_sep_def)
qed

text \<open>The date of an instant with its time of day is the instant.\<close>

lemma date_at_shown:
  assumes "on_minute off t"
  shows "date_at (time_year (fixed_zone off) t) (time_month (fixed_zone off) t)
     (time_day (fixed_zone off) t) (clock_of off t) (fixed_zone off) = Some t"
proof -
  let ?z = "fixed_zone off" and ?w = "t + off * second"
  have "days_from_civil (time_year ?z t) (time_month ?z t) (time_day ?z t) = ?w div day"
    by (rule civil_back) (simp add: time_year_def time_month_def time_day_def wall_fixed)
  then have "go_date ?z (time_year ?z t) (time_month ?z t) (time_day ?z t) (tod_hour (clock_of off t))
      (tod_minute (clock_of off t)) 0 0 = ?w div day * day + ?w mod day - off * second"
    using clock_of_total [OF assms] by (simp only: go_date_fixed add.assoc)
  also have "\<dots> = t" using div_mult_mod_eq [of ?w day] by linarith
  finally show ?thesis by (simp add: date_at_def Let_def)
qed

lemma form_digit_visible: "is_digit c \<Longrightarrow> visible c"
  by (simp add: is_digit_def visible_def)

lemma shown_words:
  assumes "0 \<le> time_year (fixed_zone off) t" and "time_year (fixed_zone off) t < 10000"
  shows "word is_space (format_date (fixed_zone off) t)" "list_all visible (format_date (fixed_zone off) t)"
    "is_digit (hd (format_date (fixed_zone off) t))" "CHR '' '' \<notin> set (format_date (fixed_zone off) t)"
    "word is_space (format_clock (fixed_zone off) t)" "list_all visible (format_clock (fixed_zone off) t)"
    "is_digit (hd (format_clock (fixed_zone off) t))"
proof -
  obtain y m d where d: "format_date (fixed_zone off) t = y @ ''-'' @ m @ ''-'' @ d" "length y = 4"
    "list_all is_digit y" "list_all is_digit m" "list_all is_digit d"
    by (rule date_text [OF assms]) blast
  have dash: "visible (CHR ''-'')" "visible (CHR '':'')" by (simp_all add: visible_def byte_def)
  have vis: "list_all is_digit s \<Longrightarrow> list_all visible s" for s
    by (simp add: list_all_iff form_digit_visible)
  show v: "list_all visible (format_date (fixed_zone off) t)"
    using d(3-5) dash vis unfolding d(1) by simp
  have "y \<noteq> []" using d(2) by auto
  then show "is_digit (hd (format_date (fixed_zone off) t))"
    using d(3) unfolding d(1) by (cases y) auto
  show "word is_space (format_date (fixed_zone off) t)"
    using v \<open>y \<noteq> []\<close> by (intro visible_word) (simp_all add: d(1))
  show "CHR '' '' \<notin> set (format_date (fixed_zone off) t)"
    using v by (auto simp: list_all_iff visible_def byte_def)
  obtain i j k l where c: "format_clock (fixed_zone off) t = [i, j, CHR '':'', k, l]"
    "is_digit i" "is_digit j" "is_digit k" "is_digit l"
    by (rule clock_text [of off t]) blast
  show v: "list_all visible (format_clock (fixed_zone off) t)"
    using c(2-) dash form_digit_visible unfolding c(1) by simp
  then show "word is_space (format_clock (fixed_zone off) t)" by (intro visible_word) (simp_all add: c(1))
  show "is_digit (hd (format_clock (fixed_zone off) t))" using c by simp
qed

lemma shown_start_parsed:
  assumes "unicode_documented u" and "on_minute off t"
    and "0 \<le> time_year (fixed_zone off) t" and "time_year (fixed_zone off) t < 10000"
  shows "parse_start_time u (format_date (fixed_zone off) t @ '' '' @ format_clock (fixed_zone off) t)
     now (fixed_zone off) dt = Inr t"
proof -
  let ?z = "fixed_zone off"
  let ?d = "format_date ?z t" and ?c = "format_clock ?z t"
  note w = shown_words [OF assms(3,4)]
  have n: "normalize_input u (?d @ '' '' @ ?c) = ?d @ '' '' @ ?c"
    using normalize_words [OF assms(1), of "[?d, ?c]"] w(1,5) by simp
  have "?d \<noteq> []" using w(1) by (simp add: word_def)
  then obtain h r where h: "?d @ '' '' @ ?c = h # r" "is_digit h" using w(3) by (cases ?d) auto
  have "ascii (?d @ '' '' @ ?c)" using w(1,5) by (simp add: word_def byte_def)
  then have rel: "relative_days u (?d @ '' '' @ ?c) = None"
    unfolding h(1) by (rule relative_days_digit [OF assms(1) _ h(2)])
  obtain y m d where d: "?d = y @ ''-'' @ m @ ''-'' @ d" "length y = 4" "length m = 2" "length d = 2"
    "list_all is_digit y" "list_all is_digit m" "list_all is_digit d"
    "atoi y = Some (time_year ?z t)" "atoi m = Some (time_month ?z t)" "atoi d = Some (time_day ?z t)"
    by (rule date_text [OF assms(3,4)]) blast
  have md: "match_date ?d = Some (y, m, d)" unfolding d(1) by (rule match_date_text [OF d(2-7)])
  obtain i j k l where c: "?c = [i, j, CHR '':'', k, l]"
    "bot_parse_time_of_day [i, j, CHR '':'', k, l] = Some (clock_of off t)"
    by (rule clock_text [of off t]) blast
  have tod: "time_or_default ?c dt = Some (clock_of off t)"
    unfolding time_or_default_def c(1) using c(2) by simp
  have "split_space (?d @ '' '' @ ?c) = (?d, ?c)"
    using cut_at_char [OF w(4), of ?c] by (simp add: split_space_def)
  moreover have "y \<noteq> []" using d(2) by auto
  ultimately have "parse_absolute (?d @ '' '' @ ?c) now ?z dt = Some t"
    using md tod d(8-10) date_at_shown [OF assms(2)] by (simp add: parse_absolute_def)
  then show ?thesis
    using rel \<open>?d \<noteq> []\<close> unfolding parse_start_time_def n Let_def by simp
qed

text \<open>The end is the first instant after the start with the time of day that is shown.\<close>

definition next_clock :: "time \<Rightarrow> time \<Rightarrow> time" where
  "next_clock start t = start + 1 + (t - start - 1) mod day"

lemma next_clock_window:
  assumes "start < t" and "t \<le> start + day"
  shows "next_clock start t = t"
  using assms by (simp add: next_clock_def)

lemma next_clock_unique:
  assumes "start < x" and "x \<le> start + day" and "(x - t) mod day = 0"
  shows "x = next_clock start t"
proof -
  have "(x - start - 1) mod day = (t - start - 1) mod day"
    using assms(3) mod_eq_dvd_iff [of "x - start - 1" day "t - start - 1"] by (simp add: dvd_eq_mod_eq_0)
  moreover have "(x - start - 1) mod day = x - start - 1" using assms(1,2) by simp
  ultimately show ?thesis by (simp add: next_clock_def)
qed

lemma tod_on_shown:
  assumes "on_minute off t"
  shows "(tod_on (clock_of off t) start (fixed_zone off) - t) mod day = 0"
proof -
  have "tod_on (clock_of off t) start (fixed_zone off) - t =
      ((start + off * second) div day - (t + off * second) div day) * day"
    using clock_of_total [OF assms] div_mult_mod_eq [of "t + off * second" day]
    unfolding tod_on_fixed left_diff_distrib by linarith
  then show ?thesis by simp
qed

lemma shown_end_parsed:
  assumes "unicode_documented u" and "on_minute off t"
    and "0 \<le> time_year (fixed_zone off) t" and "time_year (fixed_zone off) t < 10000"
  shows "parse_end_time u beyond (format_clock (fixed_zone off) t) start (fixed_zone off) =
     Inr (next_clock start t)"
proof -
  let ?z = "fixed_zone off"
  note w = shown_words [OF assms(3,4)]
  obtain i j k l where c: "format_clock ?z t = [i, j, CHR '':'', k, l]" "is_digit i"
    "bot_parse_time_of_day [i, j, CHR '':'', k, l] = Some (clock_of off t)"
    by (rule clock_text [of off t]) blast
  have "normalize_input u (format_clock ?z t) = format_clock ?z t"
    using w(5) by (rule normalize_word [OF assms(1)])
  moreover have "match_delta [i, j, CHR '':'', k, l] = None"
    using c(2) by (auto simp: match_delta_def is_digit_def byte_def)
  moreover define stop where "stop = tod_on (clock_of off t) start ?z"
  ultimately have p: "parse_end_time u beyond (format_clock ?z t) start ?z =
      Inr (if stop \<le> start then stop + day else stop)"
    using c(3) by (simp add: parse_end_time_def c(1) tod_on_next_day)
  have "start - day < stop" "stop < start + day"
    using tod_on_window [OF clock_of_valid] by (simp_all add: stop_def)
  moreover have "(stop - t) mod day = 0" using tod_on_shown [OF assms(2)] by (simp add: stop_def)
  moreover have "(stop + day - t) mod day = (stop - t) mod day"
    using mod_add_self2 [of "stop - t" day] by (simp add: algebra_simps)
  ultimately have "(if stop \<le> start then stop + day else stop) = next_clock start t"
    by (intro next_clock_unique) (auto split: if_splits)
  then show ?thesis using p by simp
qed

subsection \<open>The edit form\<close>

definition unchanged :: "form \<Rightarrow> string \<Rightarrow> string option" where
  "unchanged form = map_of (map (\<lambda>f. (ff_id f, ff_initial_value f)) (fm_fields form))"

lemma trim_visible: "s \<noteq> [] \<Longrightarrow> list_all visible s \<Longrightarrow> trim_space s = s"
  using visible_space [of "hd s"] visible_space [of "last s"]
  by (intro trim_space_ascii) (auto simp: list_all_iff visible_def)

lemma edit_form_values:
  assumes "edit_event_form load ev settings = Inr form"
    and "settings_location load settings = Inr loc"
  shows "form_value (unchanged form) field_title = ev_title ev"
    "form_value (unchanged form) field_date = format_date loc (ev_starts_at ev)"
    "form_value (unchanged form) field_time = format_clock loc (ev_starts_at ev)"
    "form_value (unchanged form) field_ends =
       (case ev_ends_at ev of None \<Rightarrow> [] | Some t \<Rightarrow> format_clock loc t)"
    "form_value (unchanged form) field_description = ev_description ev"
    "form_value (unchanged form) field_remind = preset_custom"
  using assms
  by (auto simp: edit_event_form_def form_location_def unchanged_def form_value_def title_field_def
      date_field_def time_field_def ends_field_def description_field_def remind_field_def plain_field_def)

definition shown_well :: "int \<Rightarrow> time \<Rightarrow> bool" where
  "shown_well off t \<longleftrightarrow> on_minute off t \<and> 0 \<le> time_year (fixed_zone off) t \<and>
     time_year (fixed_zone off) t < 10000"

lemma edit_form_unchanged:
  assumes "unicode_documented u" and "settings_location load settings = Inr (fixed_zone off)"
    and "edit_event_form load ev settings = Inr form"
    and "ev_title ev \<noteq> []" and "trim_space (ev_title ev) = ev_title ev"
    and "trim_space (ev_description ev) = ev_description ev"
    and "shown_well off (ev_starts_at ev)" and "now < ev_starts_at ev"
    and "\<And>t. ev_ends_at ev = Some t \<Longrightarrow> shown_well off t"
  shows "parse_event_form u beyond load (unchanged form) now settings =
    (\<lparr>fi_title = ev_title ev, fi_description = ev_description ev, fi_starts_at = ev_starts_at ev,
      fi_ends_at = map_option (next_clock (ev_starts_at ev)) (ev_ends_at ev),
      fi_reminder_policy = None\<rparr>, [])"
proof -
  let ?z = "fixed_zone off" and ?t = "ev_starts_at ev"
  note v = edit_form_values [OF assms(3,2)]
  have st: "on_minute off ?t" "0 \<le> time_year ?z ?t" "time_year ?z ?t < 10000"
    using assms(7) by (simp_all add: shown_well_def)
  note w = shown_words [OF st(2,3)]
  have trim: "trim_space (format_date ?z ?t) = format_date ?z ?t"
    "trim_space (format_clock ?z ?t) = format_clock ?z ?t" "format_date ?z ?t \<noteq> []" "format_clock ?z ?t \<noteq> []"
    using w by (simp_all add: trim_visible word_def)
  have start: "parse_form_start u (unchanged form) now ?z settings = Inr ?t"
    using shown_start_parsed [OF assms(1) st, of now "wss_default_start_time settings"] assms(8)
    by (simp add: parse_form_start_def v trim Let_def)
  have ends: "parse_form_ends u beyond (unchanged form) ?t ?z =
      Inr (map_option (next_clock ?t) (ev_ends_at ev))"
  proof (cases "ev_ends_at ev")
    case None
    then show ?thesis by (simp add: parse_form_ends_def v trim_space_def trim_chunks_def)
  next
    case (Some t)
    then have e: "on_minute off t" "0 \<le> time_year ?z t" "time_year ?z t < 10000"
      using assms(9) by (simp_all add: shown_well_def)
    note w' = shown_words [OF e(2,3)]
    have "trim_space (format_clock ?z t) = format_clock ?z t" "format_clock ?z t \<noteq> []"
      using w' by (simp_all add: trim_visible word_def)
    then show ?thesis
      using shown_end_parsed [OF assms(1) e, of beyond ?t] Some by (simp add: parse_form_ends_def v Let_def)
  qed
  have preset: "parse_remind_preset preset_custom settings = Some None"
    by (simp add: parse_remind_preset_def trim_visible visible_def byte_def)
  show ?thesis
    using start ends preset assms(4-6) by (simp add: parse_event_form_def v assms(2) Let_def)
qed

end
