(* ===== verification/Dispatch_Facts.thy ===== *)
theory Dispatch_Facts
  imports Bot_Dispatch Form_Facts Manager_Reachable
begin

section \<open>Facts about the dispatcher\<close>

text \<open>
  Every call of the dispatcher is a run of steps of the services (\<open>manager_step\<close>), a reply comes
  back whatever the services report, and commands that are the organizer's change nothing for
  anyone else.
\<close>

subsection \<open>A call is a run of service steps\<close>

definition reaches :: "('e, 'm) deps \<Rightarrow> 'e world \<Rightarrow> 'e world \<Rightarrow> bool" where
  "reaches d w w' \<longleftrightarrow> (manager_step d)\<^sup>*\<^sup>* w w'"

lemma reaches_refl [simp]: "reaches d w w"
  by (simp add: reaches_def)

lemma reaches_reachable: "reaches d w w' \<Longrightarrow> reachable d w \<Longrightarrow> reachable d w'"
  unfolding reaches_def by (induction rule: rtranclp_induct) (auto intro: next_step)

lemma step_reaches: "(\<And>w. manager_step d w (snd (m w))) \<Longrightarrow> preserves (reaches d w0) m"
  unfolding preserves_def reaches_def by (meson rtranclp.rtrancl_into_rtrancl)

lemma read_reaches: "(\<And>w. snd (m w) = w) \<Longrightarrow> preserves (reaches d w0) m"
  by (simp add: preserves_def)

lemma services_reach [preserves_intros]:
  "preserves (reaches d w0) (event_create d ci)" "preserves (reaches d w0) (event_update_with d ui)"
  "preserves (reaches d w0) (event_close_with d li)" "preserves (reaches d w0) (participation_leave d i u)"
  "preserves (reaches d w0) (issue_link_token d wi u dn)" "preserves (reaches d w0) (unlink_chat_user wi u)"
  "preserves (reaches d w0) (update_recruit_channel d i c)"
  by (rule step_reaches, rule manager_step.intros, rule surjective_pairing)+

lemma outside_reaches [preserves_intros]: "preserves (reaches d w0) (port m)"
  by (rule step_reaches) (simp add: run_port manager_step.outside)

lemma repo_read: "(\<And>s. snd (m s) = s) \<Longrightarrow> snd (repo m w) = w"
  by (simp add: run_repo)

lemma bind_read: "snd (m w) = w \<Longrightarrow> (\<And>x. snd (f x w) = w) \<Longrightarrow> snd (m_bind m f w) = w"
  by (simp add: run_bind split: sum.split)

lemma reads_unmoved:
  "snd (event_get_by_channel c w) = w" "snd (event_list ef w) = w" "snd (active_members i w) = w"
  "snd (resolve_console_user wi u w) = w" "snd (bot_workspace bd wi xi w) = w"
  "snd (get_event i w) = w" "snd (now_of d w) = w"
  unfolding event_get_by_channel_def event_list_def active_members_def resolve_console_user_def
    bot_workspace_def workspace_resolve_def get_event_def get_workspace_def
  by (auto intro!: repo_read bind_read simp: events_get_by_channel_id_def events_list_def
      participations_list_by_event_def chat_identities_get_def console_users_get_def events_get_def
      workspaces_get_def workspaces_get_by_external_id_def)

lemma reads_reach [preserves_intros]:
  "preserves (reaches d w0) (event_get_by_channel c)" "preserves (reaches d w0) (event_list ef)"
  "preserves (reaches d w0) (active_members i)" "preserves (reaches d w0) (resolve_console_user wi u)"
  "preserves (reaches d w0) (bot_workspace bd wi xi)" "preserves (reaches d w0) (now_of d')"
  by (rule read_reaches, rule reads_unmoved)+

lemma preserves_answer [preserves_intros]:
  "preserves I m \<Longrightarrow> (\<And>x. preserves I (f x)) \<Longrightarrow> preserves I (answer m h f)"
  unfolding answer_def by (intro preserves_intros)

lemmas command_defs = event_command_def workspace_command_def new_event_command_def
  edit_event_command_def set_pace_command_def close_event_command_def leave_command_def
  info_command_def list_command_def recruit_command_def login_command_def unlink_command_def
  event_set_reminder_policy_def set_recruit_channel_def clear_recruit_channel_def

lemma command_reaches: "preserves (reaches (bd_deps d) w0) (bot_command d raw)"
  unfolding bot_command_def command_defs Let_def by (intro preserves_intros)

lemma form_reaches: "preserves (reaches (bd_deps d) w0) (bot_form_submit d sub)"
  unfolding bot_form_submit_def submit_edit_event_def by (intro preserves_intros)

lemma task_reaches: "preserves (reaches (bd_deps d) w0) (run_create_task d t)"
  unfolding run_create_task_def notify_def by (intro preserves_intros)

definition action_input :: "wire_action \<Rightarrow> participation_action \<Rightarrow> string \<Rightarrow> participation_input" where
  "action_input raw action event_id =
     \<lparr>in_event_id = event_id, in_chat_user_id = wa_user_id raw, in_display_name = [],
      in_action = action\<rparr>"

text \<open>A button is a step unless \<open>Apply\<close> fails; then the reply is the one for its error.\<close>

lemma action_reaches:
  "reaches (bd_deps d) w (snd (bot_action d raw w)) \<or>
   (\<exists>action event_id e. parse_action_id (wa_action_id raw) = Inr (action, event_id) \<and>
      participation_apply (bd_deps d) (action_input raw action event_id) w =
        (Inl e, snd (bot_action d raw w)) \<and>
      fst (bot_action d raw w) = Inr (reply_for_error d e))"
proof (cases "parse_action_id (wa_action_id raw)")
  case (Inl e)
  then show ?thesis by (simp add: bot_action_def)
next
  case (Inr p)
  then obtain action event_id where p: "parse_action_id (wa_action_id raw) = Inr (action, event_id)"
    by (cases p) auto
  let ?ws = "bot_workspace d (wa_workspace_id raw) (wa_external_id raw)"
  let ?apply = "participation_apply (bd_deps d) (action_input raw action event_id)"
  have read: "?ws w = (fst (?ws w), w)"
    using reads_unmoved(5) [of d "wa_workspace_id raw" "wa_external_id raw" w] by (simp add: prod_eq_iff)
  show ?thesis
  proof (cases "fst (?ws w)")
    case (Inl e)
    then show ?thesis using p read by (simp add: bot_action_def answer_def run_bind)
  next
    case (Inr ws)
    show ?thesis
    proof (cases "fst (?apply w)")
      case (Inl e)
      then obtain w' where "?apply w = (Inl e, w')" by (cases "?apply w") simp
      then show ?thesis using p read Inr
        by (simp add: bot_action_def answer_def run_bind action_input_def)
    next
      case (Inr out)
      then obtain w' where a: "?apply w = (Inr out, w')" by (cases "?apply w") simp
      then have "reaches (bd_deps d) w w'"
        unfolding reaches_def by (intro r_into_rtranclp manager_step.join)
      then show ?thesis using p read a \<open>fst (?ws w) = Inr ws\<close>
        by (simp add: bot_action_def answer_def run_bind action_input_def)
    qed
  qed
qed

subsection \<open>Every call is answered\<close>

definition answers :: "('r \<Rightarrow> bool) \<Rightarrow> ('e, 'r) usecase \<Rightarrow> bool" where
  "answers P m \<longleftrightarrow> (\<forall>w. \<exists>r. fst (m w) = Inr r \<and> P r)"

named_theorems answer_intros \<open>rules for calls that always answer\<close>

lemma answers_return [answer_intros]: "P r \<Longrightarrow> answers P (m_return r)"
  by (simp add: answers_def)

lemma answers_answer [answer_intros]:
  "(\<And>e. P (h e)) \<Longrightarrow> (\<And>x. answers P (f x)) \<Longrightarrow> answers P (answer m h f)"
  unfolding answers_def answer_def by (simp add: run_bind split: sum.split)

lemma answers_try [answer_intros]: "(\<And>r. answers P (f r)) \<Longrightarrow> answers P (m_bind (m_try m) f)"
  unfolding answers_def by (simp add: run_bind)

lemma answers_now [answer_intros]: "(\<And>t. answers P (f t)) \<Longrightarrow> answers P (m_bind (now_of d) f)"
  unfolding answers_def by (simp add: run_bind)

lemma answers_then:
  "answers (\<lambda>x. P (g x)) m \<Longrightarrow> answers P (m_bind m (\<lambda>x. m_return (g x)))"
  unfolding answers_def run_bind
proof
  fix w assume "\<forall>w. \<exists>r. fst (m w) = Inr r \<and> P (g r)"
  then obtain r where "fst (m w) = Inr r" "P (g r)" by blast
  then show "\<exists>r. fst (case fst (m w) of Inl e \<Rightarrow> (Inl e, snd (m w))
      | Inr x \<Rightarrow> m_return (g x) (snd (m w))) = Inr r \<and> P r" by simp
qed

lemma answers_if [answer_intros]:
  "(c \<Longrightarrow> answers P m) \<Longrightarrow> (\<not> c \<Longrightarrow> answers P n) \<Longrightarrow> answers P (if c then m else n)"
  by simp

lemma answers_case [answer_intros]:
  "(\<And>y. x = Inl y \<Longrightarrow> answers P (f y)) \<Longrightarrow> (\<And>y. x = Inr y \<Longrightarrow> answers P (g y)) \<Longrightarrow>
   answers P (case x of Inl y \<Rightarrow> f y | Inr y \<Rightarrow> g y)"
  "(\<And>a b. y = (a, b) \<Longrightarrow> answers P (k a b)) \<Longrightarrow> answers P (case y of (a, b) \<Rightarrow> k a b)"
  by (cases x; simp) (cases y; simp)

text \<open>A reply for the user alone: a message or a form, and no errors.\<close>

definition private_reply :: "reply \<Rightarrow> bool" where
  "private_reply r \<longleftrightarrow> ry_visibility r = VisibilityEphemeral \<and> ry_form_errors r = [] \<and>
     (ry_message r = None \<longleftrightarrow> ry_open_form r \<noteq> None)"

lemma private_replies [answer_intros]:
  "private_reply (ephemeral m)" "private_reply (open_form f)" "private_reply (notice s)"
  "private_reply (reply_for_error d e)"
  "private_reply (if c then notice s else reply_for_error d e)"
  "private_reply (case x of Inl e \<Rightarrow> reply_for_error d e | Inr f \<Rightarrow> open_form f)"
  by (simp_all add: private_reply_def ephemeral_def open_form_def notice_def reply_for_error_def
      split: sum.split)

lemma command_answers: "answers private_reply (bot_command d raw)"
  unfolding bot_command_def command_defs Let_def by (intro answer_intros)

lemma action_answers: "answers (\<lambda>r. private_reply r \<and> ry_open_form r = None) (bot_action d raw)"
  unfolding bot_action_def
  by (intro answer_intros conjI)
    (simp_all add: ephemeral_def notice_def reply_for_error_def)

definition form_answer :: "reply \<times> create_task option \<Rightarrow> bool" where
  "form_answer x \<longleftrightarrow> (case x of (r, t) \<Rightarrow>
     (ry_form_errors r \<noteq> [] \<and> ry_message r = None \<and> t = None) \<or>
     (private_reply r \<and> ry_open_form r = None))"

lemma form_answers: "answers form_answer (bot_form_submit d sub)"
proof -
  have "answers (\<lambda>r. form_answer (r, None)) (submit_edit_event d sub inp)" for inp
    unfolding submit_edit_event_def
    by (intro answer_intros)
      (simp_all add: form_answer_def private_reply_def ephemeral_def notice_def reply_for_error_def)
  then show ?thesis
    unfolding bot_form_submit_def
    by (intro answer_intros answers_then)
      (simp_all add: form_answer_def submit_new_event_def private_reply_def ephemeral_def notice_def
        reply_for_error_def)
qed

subsection \<open>Commands that are the organizer's\<close>

lemma event_by_channel:
  assumes "events_ok (wd_store w)" and "event_get_by_channel c w = (Inr ev, w')"
  shows "w' = w" and "get_event (ev_id ev) w = (Inr ev, w)"
proof -
  show "w' = w" using assms(2) reads_unmoved(1) [of c w] by simp
  have "fst (event_get_by_channel c w) = Inr ev" using assms(2) by simp
  then have "List.find (\<lambda>e. ch_channel_id (ev_channel e) = c) (st_events (wd_store w)) = Some ev"
    by (simp add: event_get_by_channel_def run_repo events_get_by_channel_id_def found_def
        split: option.splits)
  then have "ev \<in> set (st_events (wd_store w))" by (auto dest: find_SomeD)
  then have "find_event (wd_store w) (ev_id ev) = Some ev"
    using assms(1) find_cong_key [of ev_id "st_events (wd_store w)" ev] by (simp add: events_ok_def ids_ok_def find_event_def)
  then show "get_event (ev_id ev) w = (Inr ev, w)"
    by (simp add: get_event_def run_repo events_get_def)
qed

lemma refused_management:
  assumes "get_event (ev_id ev) w = (Inr ev, w)" and "u \<noteq> cu_user_id (ev_organizer ev)"
  shows "event_update_with d \<lparr>ue_event_id = ev_id ev, ue_update = upd, ue_actor = chat_actor u\<rparr> w =
      (Inl ErrForbidden, w)"
    and "event_close_with d \<lparr>cl_event_id = ev_id ev, cl_reason = reason, cl_actor = chat_actor u\<rparr> w =
      (Inl ErrForbidden, w)"
  using assms by (simp_all add: event_update_with_def event_close_with_def authorize_manage_def
      chat_actor_def)

lemma forbidden_reply: "reply_for_error d ErrForbidden = notice msg_organizer_only"
  by (simp add: reply_for_error_def message_for_error_def notice_def)

lemma organizer_guard:
  assumes "events_ok (wd_store w)" and "event_get_by_channel (cmd_channel_id cmd) w = (Inr ev, w')"
    and "organizer_only (cmd_sub cmd)" and "cmd_user_id cmd \<noteq> cu_user_id (ev_organizer ev)"
  shows "snd (event_command d ws cmd w) = w"
    and "cmd_sub cmd \<in> {sub_end, sub_cancel} \<Longrightarrow>
      fst (event_command d ws cmd w) = Inr (notice msg_organizer_only)"
proof -
  note ev = event_by_channel [OF assms(1,2)]
  note no = refused_management [OF ev(2) assms(4), where d = "bd_deps d"]
  have by_channel: "event_get_by_channel (cmd_channel_id cmd) w = (Inr ev, w)" using assms(2) ev(1) by simp
  have sub: "cmd_sub cmd \<in> {sub_edit, sub_remind, sub_end, sub_cancel}"
    using assms(3) by (simp add: organizer_only_def)
  then show "snd (event_command d ws cmd w) = w"
    using no by (auto simp: event_command_def answer_def run_bind by_channel edit_event_command_def
        set_pace_command_def close_event_command_def event_set_reminder_policy_def Let_def
        split: sum.split)
  show "fst (event_command d ws cmd w) = Inr (notice msg_organizer_only)"
    if "cmd_sub cmd \<in> {sub_end, sub_cancel}"
    using that no(2) by (auto simp: event_command_def answer_def run_bind by_channel
        close_event_command_def forbidden_reply)
qed

lemma guarded_command:
  assumes "parse_command (bd_unicode d) raw = Inr cmd" and "organizer_only (cmd_sub cmd)"
    and "bot_workspace d (cmd_workspace_id cmd) (cmd_external_id cmd) w = (Inr ws, w)"
  shows "bot_command d raw w = event_command d ws cmd w"
proof -
  have "cmd_sub cmd \<noteq> sub_help" "needs_event_channel (cmd_sub cmd)"
    using assms(2) by (auto simp: organizer_only_def needs_event_channel_def)
  then show ?thesis using assms(1,3) by (simp add: bot_command_def answer_def run_bind)
qed

subsection \<open>The end of an edit\<close>

text \<open>
  An edit that gives an end but no start counts a delay from now, not from the start of the event
  as its documentation says: the end then lies before a start further away, and is refused.
\<close>

lemma delay_from_base:
  assumes "unicode_documented u" and "word is_space v" and "parse_duration beyond v = Some k" and "0 < k"
  shows "parse_end_time u beyond (CHR ''+'' # v) base loc = Inr (base + k)"
proof -
  have "word is_space (CHR ''+'' # v)" using assms(2) by (simp add: word_def is_space_def byte_def)
  then have n: "normalize_input u (CHR ''+'' # v) = CHR ''+'' # v" by (rule normalize_word [OF assms(1)])
  have "CHR 0x0A \<notin> set v"
    using assms(2) by (auto simp: word_def list_all_iff is_space_def byte_def)
  then have "match_delta (CHR ''+'' # v) = Some v"
    using assms(2) by (simp add: match_delta_def word_def)
  then show ?thesis using assms(3,4) by (simp add: parse_end_time_def n)
qed

lemma edit_delay_refused:
  assumes "unicode_documented (bd_unicode d)" and "word is_space v" and "parse_duration (bd_beyond d) v = Some k"
    and "0 < k" and "cmd_arg cmd arg_ends = CHR ''+'' # v"
    and "cmd_arg cmd arg_title = []" "cmd_arg cmd arg_when = []" "cmd_arg cmd arg_description = []"
    and "get_event (ev_id ev) w = (Inr ev, w)" and "ev_is_open ev"
    and "cmd_user_id cmd = cu_user_id (ev_organizer ev)"
    and "get_workspace (ev_workspace_id ev) w = (Inr evws, w)"
    and "dp_now (bd_deps d) (wd_env w) + k \<le> ev_starts_at ev"
  shows "edit_event_command d ws ev cmd w =
    (Inr (notice (validation_text (bd_texts d) [FieldError ''ends_at'' MustBeAfterStartsAt])), w)"
proof -
  let ?now = "dp_now (bd_deps d) (wd_env w)"
  have end_at: "parse_end_time (bd_unicode d) (bd_beyond d) (CHR ''+'' # v) ?now loc = Inr (?now + k)" for loc
    by (rule delay_from_base [OF assms(1-4)])
  have trim: "trim_space [] = []" by (simp add: trim_space_def trim_chunks_def)
  have p: "parse_edit_args d ws cmd ?now = Inr \<lparr>eu_title = None, eu_description = None,
      eu_location = None, eu_starts_at = None, eu_ends_at = Some (?now + k), eu_clear_ends_at = False,
      eu_reminder_policy = None\<rparr>" (is "_ = Inr ?upd")
    using assms(5-8) by (simp add: parse_edit_args_def Let_def end_at trim)
  have refused: "event_apply ev ?upd ?now = Inl (ErrValidation [FieldError ''ends_at'' MustBeAfterStartsAt])"
    using assms(10,13)
    by (simp add: event_apply_def edit_errors_def edited_def Let_def validate_ends_at_def addf_def
        verr_err_def)
  have "event_update_with (bd_deps d) \<lparr>ue_event_id = ev_id ev, ue_update = ?upd,
      ue_actor = chat_actor (cmd_user_id cmd)\<rparr> w =
      (Inl (ErrValidation [FieldError ''ends_at'' MustBeAfterStartsAt]), w)"
    using assms(9,11,12) refused
    by (simp add: event_update_with_def authorize_manage_def chat_actor_def)
  moreover have "has_edit_args cmd" using assms(5) by (simp add: has_edit_args_def)
  ultimately show ?thesis
    using p by (simp add: edit_event_command_def answer_def run_bind reply_for_error_def
        message_for_error_def notice_def)
qed

end
