(* ===== verification/Message_Facts.thy ===== *)
theory Message_Facts
  imports Bot_Messages Markup_Facts
begin

section \<open>Whom a message mentions\<close>

text \<open>
  The users a body mentions are those of the tokens that start at one of its places. A piece is
  \<open>sealed\<close> for a set of users when putting it before any text adds mentions of them only; it is
  \<open>shut\<close> when the text must not go on with an opening brace. Lines and messages are built from
  such pieces.
\<close>

definition users_of :: "token list \<Rightarrow> string set" where
  "users_of toks = tk_id ` {t \<in> set toks. tk_kind t = KindUser}"

fun users_at :: "string \<Rightarrow> string set" where
  "users_at [] = {}"
| "users_at (c # s) =
     (if prefix open_token (c # s)
      then (case parse_token (c # s) of
              None \<Rightarrow> {}
            | Some (tok, _) \<Rightarrow> if tk_kind tok = KindUser then {tk_id tok} else {})
      else {}) \<union> users_at s"

lemma users_at_drop: "users_at (drop n s) \<subseteq> users_at s"
proof (induction s arbitrary: n)
  case (Cons c s)
  then show ?case by (cases n) auto
qed simp

lemma parse_bold_kind: "tk_kind ((empty_token KindBold)\<lparr>tk_text := b\<rparr>) = KindBold"
  by (simp add: empty_token_def)

lemma users_of_simps [simp]:
  "users_of [] = {}" "users_of (t # ts) = (if tk_kind t = KindUser then {tk_id t} else {}) \<union> users_of ts"
  "users_of (ts @ ts') = users_of ts \<union> users_of ts'" "users_of (flush buf) = {}"
  by (auto simp: users_of_def dest: flush_kind)

lemma parsed_users: "users_of (parse_from buf s) \<subseteq> users_at s"
proof (induction buf s rule: parse_from.induct)
  case (2 buf c s)
  show ?case
  proof (cases "prefix open_token (c # s)")
    case True
    show ?thesis
    proof (cases "parse_token (c # s)")
      case None
      then show ?thesis using "2.IH"(1) True by auto
    next
      case (Some p)
      then obtain tok w where p: "parse_token (c # s) = Some (tok, w)" by (cases p) auto
      then have "users_of (parse_from [] (drop w (c # s))) \<subseteq> users_at (drop w (c # s))"
        using "2.IH"(2) True by blast
      moreover have "users_at (drop w (c # s)) \<subseteq> users_at s"
        using users_at_drop [of "w - 1" s] parse_token_width [OF p] by (cases w) auto
      ultimately show ?thesis using True p by auto
    qed
  next
    case open_no: False
    show ?thesis
    proof (cases "prefix bold_token (c # s) \<and> parse_bold (c # s) \<noteq> None")
      case True
      then obtain b w where p: "parse_bold (c # s) = Some (b, w)" by auto
      then have "users_of (parse_from [] (drop w (c # s))) \<subseteq> users_at (drop w (c # s))"
        using "2.IH"(4) True open_no by blast
      moreover have "users_at (drop w (c # s)) \<subseteq> users_at s"
        using users_at_drop [of "w - 1" s] parse_bold_width [OF p] by (cases w) auto
      ultimately show ?thesis using True open_no p by (auto simp: parse_bold_kind)
    next
      case False
      then have "parse_from buf (c # s) = parse_from (buf @ [c]) s"
        using open_no by (simp only: parse_from.simps if_False) (auto split: option.splits)
      moreover have "users_of (parse_from (buf @ [c]) s) \<subseteq> users_at s"
        using "2.IH"(3,5) False open_no by blast
      moreover have "users_at (c # s) = users_at s"
        using open_no by (simp only: users_at.simps if_False Un_empty_left)
      ultimately show ?thesis by simp
    qed
  qed
qed simp

definition mentions :: "message \<Rightarrow> string set" where
  "mentions m = users_of (parse_markup (mg_text m))"

subsection \<open>Pieces\<close>

definition sealed :: "string set \<Rightarrow> string \<Rightarrow> bool" where
  "sealed U s \<longleftrightarrow> (\<forall>b. users_at (s @ b) \<subseteq> U \<union> users_at b)"

definition shut :: "string set \<Rightarrow> string \<Rightarrow> bool" where
  "shut U s \<longleftrightarrow> (\<forall>b. b = [] \<or> hd b \<noteq> CHR ''{'' \<longrightarrow> users_at (s @ b) \<subseteq> U \<union> users_at b)"

named_theorems piece_intros \<open>how sealed pieces of text are put together\<close>

lemma sealed_shut: "sealed U s \<Longrightarrow> shut U s"
  by (simp add: sealed_def shut_def)

lemma subset_through: "A \<subseteq> U \<union> B \<Longrightarrow> B \<subseteq> U \<union> C \<Longrightarrow> A \<subseteq> U \<union> (C :: 'a set)"
  by blast

lemma sealed_append [piece_intros]: "sealed U s \<Longrightarrow> sealed U t \<Longrightarrow> sealed U (s @ t)"
  unfolding sealed_def append_assoc by (intro allI, rule subset_through) (erule spec)+

lemma shut_append [piece_intros]: "sealed U s \<Longrightarrow> shut U t \<Longrightarrow> shut U (s @ t)"
  unfolding sealed_def shut_def append_assoc
  by (intro allI impI, rule subset_through) (erule spec, blast)

lemma shut_sealed:
  "shut U s \<Longrightarrow> sealed U t \<Longrightarrow> t \<noteq> [] \<Longrightarrow> hd t \<noteq> CHR ''{'' \<Longrightarrow> sealed U (s @ t)"
proof -
  assume "shut U s" "sealed U t" "t \<noteq> []" "hd t \<noteq> CHR ''{''"
  then have "users_at (s @ t @ b) \<subseteq> U \<union> users_at (t @ b)" "users_at (t @ b) \<subseteq> U \<union> users_at b" for b
    by (simp_all add: sealed_def shut_def)
  then show "sealed U (s @ t)" unfolding sealed_def append_assoc by (blast intro: subset_through)
qed

lemma sealed_Nil [piece_intros]: "sealed U []" "shut U []"
  by (simp_all add: sealed_def shut_def)

lemma no_brace_sealed: "CHR ''{'' \<notin> set s \<Longrightarrow> sealed U s"
proof -
  assume "CHR ''{'' \<notin> set s"
  then have "users_at (s @ b) = users_at b" for b by (induction s) auto
  then show ?thesis by (simp add: sealed_def)
qed

lemma without_open_shut: "\<not> contains open_token s \<Longrightarrow> shut U s"
proof -
  assume a: "\<not> contains open_token s"
  have "users_at (s @ b) = users_at b" if "b = [] \<or> hd b \<noteq> CHR ''{''" for b
    using a
  proof (induction s)
    case (Cons c s)
    note prems = Cons.prems and IH = Cons.IH
    have "\<not> prefix open_token (c # s @ b)"
    proof (cases s)
      case Nil
      then show ?thesis using that by (cases b) auto
    next
      case (Cons x xs)
      then show ?thesis using prems by (auto simp: contains_Cons)
    qed
    moreover have "users_at (s @ b) = users_at b" using IH prems by (simp add: contains_Cons)
    ultimately show ?case by (simp only: append_Cons users_at.simps if_False Un_empty_left)
  qed simp
  then show ?thesis by (simp add: shut_def)
qed

lemma escape_shut: "\<not> contains ''{{{'' s \<Longrightarrow> shut U (escape s)"
  by (rule without_open_shut [OF escape_breaks_open])

lemma phrase_sealed [piece_intros]:
  assumes "123 \<notin> set rs"
  shows "sealed U (jp rs)"
proof (rule no_brace_sealed)
  have "r = 123" if "b = 123" "b \<in> set (rune_bytes r)" for r b
    using that by (auto simp: rune_bytes_def Let_def split: if_splits)
  moreover have "byte (char_of b) = b" if "b \<in> set (rune_bytes r)" for r b
    using rune_bytes_bounds that by (simp add: byte_char_of)
  ultimately have "byte c \<noteq> 123" if "c \<in> set (jp rs)" for c
    using assms that by (auto simp: string_of_runes_def) metis
  then show "CHR ''{'' \<notin> set (jp rs)" by (force simp: byte_def)
qed

text \<open>A token from a builder mentions the user it names, or nobody.\<close>

lemma user_token:
  assumes "index_of close_token s = Some stop" and "cut_at '':'' (drop 2 (take stop s)) = (name, arg, f)"
    and "parse_token s = Some (tok, w)" and "tk_kind tok = KindUser"
  shows "name = ''user'' \<and> tk_id tok = arg"
proof -
  have l: "length open_token = 2" by simp
  show ?thesis using assms unfolding parse_token_def l
    by (auto simp: Let_def empty_token_def split: if_splits option.splits prod.splits)
qed

lemma token_sealed:
  assumes "CHR ''{'' \<notin> set name" and "CHR ''}'' \<notin> set name" and "CHR '':'' \<notin> set name"
    and "CHR ''{'' \<notin> set arg" and "CHR ''}'' \<notin> set arg"
    and "name = ''user'' \<Longrightarrow> arg \<in> U" and "name \<noteq> []"
  shows "sealed U (token_text name arg)"
proof -
  have "users_at (token_text name arg @ b) \<subseteq> U \<union> users_at b" for b
  proof -
    let ?r = "name @ '':'' @ arg @ close_token @ b"
    have "sealed {} (name @ '':'' @ arg @ close_token)"
      using assms(1,4) by (intro no_brace_sealed) simp
    then have tail: "users_at (CHR ''{'' # ?r) \<subseteq> users_at b"
      using assms(1,7) by (cases name) (auto simp: sealed_def)
    have "(case parse_token (token_text name arg @ b) of None \<Rightarrow> {}
        | Some (tok, _) \<Rightarrow> if tk_kind tok = KindUser then {tk_id tok} else {}) \<subseteq> U"
      using user_token [OF token_text_facts [OF assms(2,5,3), of b]] assms(6)
      by (auto split: option.splits)
    then show ?thesis using tail by (auto simp: token_text_def)
  qed
  then show ?thesis by (simp add: sealed_def)
qed

subsection \<open>Lines and messages\<close>

definition braceless :: "string \<Rightarrow> bool" where
  "braceless s \<longleftrightarrow> CHR ''{'' \<notin> set s \<and> CHR ''}'' \<notin> set s"

definition tame :: "string \<Rightarrow> bool" where
  "tame s \<longleftrightarrow> \<not> contains ''{{{'' s"

definition tame_event :: "event \<Rightarrow> bool" where
  "tame_event ev \<longleftrightarrow> tame (ev_title ev) \<and> tame (ev_description ev) \<and> tame (ev_location ev) \<and>
     braceless (cu_user_id (ev_organizer ev)) \<and> braceless (ch_channel_id (ev_channel ev))"

lemma dec_of_int_braceless: "braceless (dec_of_int i)"
  using dec_of_nat_chars [of "nat i"] dec_of_nat_chars [of "nat (- i)"]
  by (auto simp: dec_of_int_def braceless_def)

lemma builders_sealed [piece_intros]:
  "braceless u \<Longrightarrow> u \<in> U \<Longrightarrow> sealed U (markup_user u)"
  "braceless c \<Longrightarrow> sealed U (markup_channel c)" "sealed U (markup_time t)" "sealed U (dec_of_int i)"
  using token_sealed [of "''user''" u U] token_sealed [of "''channel''" c U]
    token_sealed [of "''time''" "dec_of_int (unix_seconds t)" U] dec_of_int_braceless [of "unix_seconds t"]
    dec_of_int_braceless [of i] no_brace_sealed [of "dec_of_int i" U]
  by (simp_all add: markup_user_def markup_channel_def markup_time_def token_text_def braceless_def)

lemma escape_shut_tame [piece_intros]: "tame s \<Longrightarrow> shut U (escape s)"
  by (simp add: tame_def escape_shut)

lemma bold_title_sealed [piece_intros]: "tame_event ev \<Longrightarrow> sealed U (bold_title ev)"
proof -
  assume "tame_event ev"
  then have "shut U (escape (ev_title ev))" by (intro piece_intros) (simp add: tame_event_def)
  moreover have "sealed U bold_token" by (rule no_brace_sealed) simp
  ultimately show ?thesis
    unfolding bold_title_def markup_bold_def by (intro sealed_append shut_sealed) simp_all
qed

lemma lines_shut: "(\<And>l. l \<in> set ls \<Longrightarrow> shut U l) \<Longrightarrow> shut U (of_lines ls)"
  unfolding of_lines_def
proof (induction newline ls rule: join_with.induct)
  case (3 p q ps)
  have "sealed U newline" by (rule no_brace_sealed) (simp add: newline_def)
  then have "sealed U (p @ newline)" using 3 by (intro shut_sealed) (simp_all add: newline_def)
  then have "shut U ((p @ newline) @ join_with newline (q # ps))" using 3 by (intro shut_append) simp_all
  then show ?case by simp
qed (auto intro: piece_intros)

lemma mentions_lines:
  "(\<And>l. l \<in> set ls \<Longrightarrow> shut U l) \<Longrightarrow> mg_text m = of_lines ls \<Longrightarrow> mentions m \<subseteq> U"
proof -
  assume "\<And>l. l \<in> set ls \<Longrightarrow> shut U l" and m: "mg_text m = of_lines ls"
  then have "users_at (of_lines ls @ []) \<subseteq> U \<union> users_at []"
    using lines_shut [of ls U] unfolding shut_def by blast
  then show ?thesis
    using parsed_users [of "[]" "of_lines ls"] m by (simp add: mentions_def parse_markup_def)
qed

lemma spans_sealed [piece_intros]: "sealed U (format_remaining d)" "sealed U (format_span d)"
  unfolding format_remaining_def format_span_def by (auto intro!: piece_intros)

lemma lines_sealed [piece_intros]:
  "tame_event ev \<Longrightarrow> sealed U (announcement_header ev)" "sealed U (schedule_line ev)"
  "tame_event ev \<Longrightarrow> cu_user_id (ev_organizer ev) \<in> U \<Longrightarrow> sealed U (organizer_line ev)"
  "tame_event ev \<Longrightarrow> shut U (location_line ev)"
  "tame_event ev \<Longrightarrow> shut U (start_line_with_location ev)"
  unfolding announcement_header_def schedule_line_def organizer_line_def location_line_def
    start_line_with_location_def
  by (auto intro!: piece_intros intro: sealed_shut simp: tame_event_def split: event_status.split option.split)

lemma append_if_not_empty_set: "l \<in> set (append_if_not_empty ls x) \<Longrightarrow> l \<in> set ls \<or> l = x"
  by (auto simp: append_if_not_empty_def split: if_splits)

lemma mention_list_sealed:
  "(\<And>u. u \<in> set us \<Longrightarrow> braceless u \<and> u \<in> U) \<Longrightarrow> sealed U (mention_list us)"
proof -
  have *: "sealed U (join_with '' '' ts)" if "\<And>t. t \<in> set ts \<Longrightarrow> sealed U t" for ts
    using that
  proof (induction "'' ''" ts rule: join_with.induct)
    case (3 p q ps)
    moreover have "sealed U '' ''" by (rule no_brace_sealed) simp
    ultimately show ?case unfolding join_with.simps by (intro sealed_append) simp_all
  qed (auto intro: piece_intros)
  show "(\<And>u. u \<in> set us \<Longrightarrow> braceless u \<and> u \<in> U) \<Longrightarrow> sealed U (mention_list us)"
    unfolding mention_list_def by (intro *) (auto intro: piece_intros)
qed

lemma tame_parts:
  "tame_event ev \<Longrightarrow> tame (ev_description ev)" "tame_event ev \<Longrightarrow> braceless (ch_channel_id (ev_channel ev))"
  by (simp_all add: tame_event_def)

lemma bang_sealed [piece_intros]: "sealed U ''!''"
  by (rule no_brace_sealed) simp

lemmas message_pieces = piece_intros tame_parts mention_list_sealed
  phrase_sealed [THEN sealed_shut] bang_sealed [THEN sealed_shut] builders_sealed [THEN sealed_shut]
  bold_title_sealed [THEN sealed_shut] lines_sealed(1-3) [THEN sealed_shut]
  mention_list_sealed [THEN sealed_shut]

lemma mentions_line: "shut U s \<Longrightarrow> mg_text m = s \<Longrightarrow> mentions m \<subseteq> U"
  using mentions_lines [of "[s]" U m] by (simp add: of_lines_def)

lemma mg_text_of [simp]: "mg_text (text_message s) = s"
  by (simp add: text_message_def)

lemma announcement_mentions:
  assumes "tame_event ev"
  shows "mentions (announcement ev peek) \<subseteq> {cu_user_id (ev_organizer ev)}"
  by (rule mentions_lines)
    (use assms in \<open>auto simp: announcement_def Let_def intro!: message_pieces
      dest!: append_if_not_empty_set split: if_splits\<close>)

lemma summary_mentions:
  assumes "tame_event ev"
  shows "mentions (summary ev) \<subseteq> {cu_user_id (ev_organizer ev)}"
  unfolding summary_def Let_def
  by (rule mentions_lines [OF _ mg_text_of])
    (use assms in \<open>auto intro!: message_pieces dest!: append_if_not_empty_set
      split: if_splits\<close>)

lemma reminder_mentions:
  assumes "tame_event ev" and "\<And>u. u \<in> set us \<Longrightarrow> braceless u"
  shows "mentions (reminder ev now us) \<subseteq> set us"
  unfolding reminder_def Let_def
  by (rule mentions_lines [OF _ mg_text_of])
    (use assms in \<open>auto intro!: message_pieces split: if_splits\<close>)

lemma recruit_reminder_mentions:
  assumes "tame_event ev"
  shows "mentions (recruit_reminder ev now peek) \<subseteq> {cu_user_id (ev_organizer ev)}"
  by (rule mentions_lines)
    (use assms in \<open>auto simp: recruit_reminder_def intro!: message_pieces\<close>)

lemma closing_mentions: "tame_event ev \<Longrightarrow> mentions (closing ev) = {}"
proof -
  assume "tame_event ev"
  then have "shut {} (mg_text (closing ev))"
    by (auto simp: closing_def intro!: message_pieces)
  then show ?thesis using mentions_line [OF _ refl] by blast
qed

lemma event_info_mentions:
  assumes "tame_event ev" and "\<And>u. u \<in> set us \<Longrightarrow> braceless u"
  shows "mentions (event_info ev us peekers) \<subseteq> insert (cu_user_id (ev_organizer ev)) (set us)"
  unfolding event_info_def Let_def
  by (rule mentions_lines [OF _ mg_text_of])
    (use assms in \<open>auto intro!: message_pieces
      dest!: append_if_not_empty_set split: if_splits\<close>)

end
