(* ===== verification/Rpc_Errors.thy ===== *)
theory Rpc_Errors
  imports Domain_Errors
begin

section \<open>The error contract of the RPC boundary\<close>

text \<open>
  \<open>internal/shared/rpcerr/rpcerr.go\<close> and the mapping back in
  \<open>internal/manager/providerclient/client.go\<close>. The functions of \<open>google.golang.org/grpc/status\<close>
  that the code calls are the record \<open>grpc_lib\<close>, an argument of the definitions; what their
  documentation promises is \<open>grpc_documented\<close>.
\<close>

definition rpc_domain :: string where "rpc_domain = ''asobell.dev''"

definition reason_channel_not_found :: string where "reason_channel_not_found = ''CHANNEL_NOT_FOUND''"
definition reason_message_not_found :: string where "reason_message_not_found = ''MESSAGE_NOT_FOUND''"
definition reason_user_not_found :: string where "reason_user_not_found = ''USER_NOT_FOUND''"
definition reason_name_taken :: string where "reason_name_taken = ''NAME_TAKEN''"
definition reason_bot_permission :: string where "reason_bot_permission = ''BOT_PERMISSION''"
definition reason_rate_limited :: string where "reason_rate_limited = ''RATE_LIMITED''"
definition reason_pin_limit :: string where "reason_pin_limit = ''PIN_LIMIT''"
definition reason_dm_blocked :: string where "reason_dm_blocked = ''DM_BLOCKED''"
definition reason_unsupported :: string where "reason_unsupported = ''UNSUPPORTED''"
definition reason_platform_unavailable :: string where
  "reason_platform_unavailable = ''PLATFORM_UNAVAILABLE''"
definition reason_invalid_input :: string where "reason_invalid_input = ''INVALID_INPUT''"

lemmas reason_defs =
  reason_channel_not_found_def reason_message_not_found_def reason_user_not_found_def
  reason_name_taken_def reason_bot_permission_def reason_rate_limited_def reason_pin_limit_def
  reason_dm_blocked_def reason_unsupported_def reason_platform_unavailable_def
  reason_invalid_input_def

text \<open>
  \<open>gl_err c\<close> is \<open>status.New(c, _).Err()\<close> and \<open>gl_with_details c i\<close> is
  \<open>status.New(c, _).WithDetails(i)\<close> with \<open>Err()\<close> taken (\<open>None\<close> outside: \<open>WithDetails\<close> fails;
  \<open>None\<close> inside: the nil error); \<open>gl_from_error\<close> is \<open>status.FromError\<close> with the details
  that are \<open>ErrorInfo\<close>, \<open>gl_code\<close> is \<open>status.Code\<close>.
\<close>

record grpc_lib =
  gl_err :: "grpc_code \<Rightarrow> err option"
  gl_with_details :: "grpc_code \<Rightarrow> error_info \<Rightarrow> err option option"
  gl_from_error :: "err \<Rightarrow> (grpc_code \<times> error_info list) option"
  gl_code :: "err \<Rightarrow> grpc_code"

definition rpc_new ::
  "grpc_lib \<Rightarrow> grpc_code \<Rightarrow> string \<Rightarrow> (string \<times> string) list \<Rightarrow> err option" where
  "rpc_new L code reason metadata =
     (case gl_with_details L code
             \<lparr>ei_reason = reason, ei_domain = rpc_domain, ei_metadata = metadata\<rparr> of
        None \<Rightarrow> gl_err L code
      | Some e \<Rightarrow> e)"

definition rpc_info :: "grpc_lib \<Rightarrow> err option \<Rightarrow> error_info option" where
  "rpc_info L e =
     (case e of
        None \<Rightarrow> None
      | Some er \<Rightarrow> (case gl_from_error L er of
            None \<Rightarrow> None
          | Some (_, infos) \<Rightarrow> List.find (\<lambda>i. ei_domain i = rpc_domain) infos))"

definition rpc_reason :: "grpc_lib \<Rightarrow> err option \<Rightarrow> string" where
  "rpc_reason L e = (case rpc_info L e of None \<Rightarrow> '''' | Some i \<Rightarrow> ei_reason i)"

definition rpc_metadata :: "grpc_lib \<Rightarrow> err option \<Rightarrow> (string \<times> string) list option" where
  "rpc_metadata L e = map_option ei_metadata (rpc_info L e)"

definition rpc_code :: "grpc_lib \<Rightarrow> err option \<Rightarrow> grpc_code" where
  "rpc_code L e =
     (case e of
        None \<Rightarrow> OK
      | Some er \<Rightarrow>
          if errors_is er ErrContextCanceled then Canceled
          else if errors_is er ErrContextDeadline then DeadlineExceeded
          else gl_code L er)"

subsection \<open>Mapping back to the errors of the ports\<close>

definition by_reason :: "string \<Rightarrow> err option" where
  "by_reason reason =
     (if reason \<in> {reason_channel_not_found, reason_message_not_found, reason_user_not_found}
      then Some ErrNotFound
      else if reason = reason_name_taken then Some ErrNameTaken
      else if reason = reason_bot_permission then Some ErrBotPermission
      else if reason = reason_rate_limited then Some ErrRateLimited
      else if reason = reason_pin_limit then Some ErrPinLimit
      else if reason = reason_dm_blocked then Some ErrDMBlocked
      else if reason = reason_unsupported then Some ErrUnsupported
      else if reason = reason_platform_unavailable then Some ErrProviderUnavailable
      else None)"

definition by_code :: "grpc_code \<Rightarrow> err option" where
  "by_code code =
     (case code of
        NotFound \<Rightarrow> Some ErrNotFound
      | AlreadyExists \<Rightarrow> Some ErrAlreadyExists
      | PermissionDenied \<Rightarrow> Some ErrBotPermission
      | ResourceExhausted \<Rightarrow> Some ErrRateLimited
      | Unimplemented \<Rightarrow> Some ErrUnsupported
      | Unavailable \<Rightarrow> Some ErrProviderUnavailable
      | _ \<Rightarrow> None)"

definition map_error :: "grpc_lib \<Rightarrow> err \<Rightarrow> string \<Rightarrow> err" where
  "map_error L e op =
     (case by_reason (rpc_reason L (Some e)) of
        Some mapped \<Rightarrow> ErrWrapped op mapped
      | None \<Rightarrow> (case by_code (rpc_code L (Some e)) of
            Some mapped \<Rightarrow> ErrWrapped op mapped
          | None \<Rightarrow> ErrWrapped op e))"

subsection \<open>The documented behaviour of the status package\<close>

definition grpc_documented :: "grpc_lib \<Rightarrow> bool" where
  "grpc_documented L \<longleftrightarrow>
     (\<forall>c. gl_err L c = (if c = OK then None else Some (ErrStatus c []))) \<and>
     (\<forall>c i. gl_with_details L c i = (if c = OK then None else Some (Some (ErrStatus c [i])))) \<and>
     (\<forall>c is. gl_from_error L (ErrStatus c is) = Some (c, is)) \<and>
     (\<forall>s e. gl_from_error L (ErrWrapped s e) = gl_from_error L e) \<and>
     (\<forall>c is. gl_code L (ErrStatus c is) = c)"

text \<open>An instance, for evaluation.\<close>

fun sample_from_error :: "err \<Rightarrow> (grpc_code \<times> error_info list) option" where
  "sample_from_error (ErrStatus c is) = Some (c, is)"
| "sample_from_error (ErrWrapped s e) = sample_from_error e"
| "sample_from_error _ = None"

definition sample_grpc :: grpc_lib where
  "sample_grpc =
     \<lparr>gl_err = (\<lambda>c. if c = OK then None else Some (ErrStatus c [])),
      gl_with_details = (\<lambda>c i. if c = OK then None else Some (Some (ErrStatus c [i]))),
      gl_from_error = sample_from_error,
      gl_code = (\<lambda>e. case sample_from_error e of None \<Rightarrow> Unknown | Some (c, _) \<Rightarrow> c)\<rparr>"

lemma sample_grpc_documented: "grpc_documented sample_grpc"
  by (simp add: grpc_documented_def sample_grpc_def)

lemma rpc_new_documented:
  "grpc_documented L \<Longrightarrow> code \<noteq> OK \<Longrightarrow> rpc_new L code reason md =
     Some (ErrStatus code [\<lparr>ei_reason = reason, ei_domain = rpc_domain, ei_metadata = md\<rparr>])"
  by (simp add: rpc_new_def grpc_documented_def)

lemma rpc_info_new:
  "grpc_documented L \<Longrightarrow> code \<noteq> OK \<Longrightarrow> rpc_info L (rpc_new L code reason md) =
     Some \<lparr>ei_reason = reason, ei_domain = rpc_domain, ei_metadata = md\<rparr>"
  by (simp add: rpc_new_documented rpc_info_def grpc_documented_def)

lemma map_error_reason:
  assumes "grpc_documented L" and "code \<noteq> OK" and "rpc_new L code reason md = Some e"
  shows "map_error L e op =
    (case by_reason reason of
       Some m \<Rightarrow> ErrWrapped op m
     | None \<Rightarrow> (case by_code code of Some m \<Rightarrow> ErrWrapped op m | None \<Rightarrow> ErrWrapped op e))"
proof -
  have "rpc_reason L (Some e) = reason"
    using rpc_info_new [OF assms(1,2), of reason md] assms(3) by (simp add: rpc_reason_def)
  moreover have "rpc_code L (Some e) = code"
    using assms rpc_new_documented [OF assms(1,2), of reason md]
    by (auto simp: rpc_code_def grpc_documented_def)
  ultimately show ?thesis by (simp add: map_error_def cong: option.case_cong)
qed

end
