(* ===== verification/Manager_Service.thy ===== *)
theory Manager_Service
  imports Bot_Dispatch Rpc_Errors
begin

section \<open>The service the provider calls\<close>

text \<open>
  \<open>internal/manager/rpc/manager.go\<close>: the calls that arrive from the provider, passed on to the
  dispatcher and the workspace service, and the status of an error. \<open>status.Error\<close> is a
  parameter, as in \<open>Rpc_Errors\<close>; a request and a response are the values they wrap.
\<close>

definition code_of :: "err \<Rightarrow> grpc_code" where
  "code_of e =
     (if errors_is e ErrNotFound then NotFound
      else if errors_is e ErrForbidden then PermissionDenied
      else if errors_is e ErrProviderUnavailable then Unavailable
      else if as_validation e \<noteq> None then InvalidArgument
      else Internal)"

text \<open>\<open>return nil, s.fail(err)\<close>; a nil error would be a nil response without an error.\<close>

definition fail_with :: "grpc_lib \<Rightarrow> err \<Rightarrow> ('e, 'a option) usecase" where
  "fail_with L e =
     (case gl_err L (code_of e) of None \<Rightarrow> m_return None | Some e' \<Rightarrow> m_throw e')"

definition served :: "grpc_lib \<Rightarrow> ('e, 'a) usecase \<Rightarrow> ('e, 'a option) usecase" where
  "served L m = m_bind (m_try m) (\<lambda>r.
     case r of Inl e \<Rightarrow> fail_with L e | Inr x \<Rightarrow> m_return (Some x))"

definition report_workspaces ::
  "grpc_lib \<Rightarrow> 'e bot_deps \<Rightarrow> provider_workspace list \<Rightarrow> ('e, workspace_ref list option) usecase" where
  "report_workspaces L d reported =
     m_bind (m_gets (\<lambda>w. Inr (ps_kind (dp_state (bd_deps d) (wd_env w))))) (\<lambda>kind.
     m_bind (served L (workspace_sync (bd_deps d) kind reported)) (\<lambda>synced.
       m_return (map_option (map workspace_ref_of) synced)))"

definition handle_command ::
  "grpc_lib \<Rightarrow> 'e bot_deps \<Rightarrow> wire_command \<Rightarrow> ('e, reply option) usecase" where
  "handle_command L d c = served L (bot_command d c)"

definition handle_action ::
  "grpc_lib \<Rightarrow> 'e bot_deps \<Rightarrow> wire_action \<Rightarrow> ('e, reply option) usecase" where
  "handle_action L d a = served L (bot_action d a)"

definition handle_form_submit ::
  "grpc_lib \<Rightarrow> 'e bot_deps \<Rightarrow> form_submission \<Rightarrow> ('e, (reply \<times> create_task option) option) usecase" where
  "handle_form_submit L d sub = served L (bot_form_submit d sub)"

lemma served_Inr: "m w = (Inr x, w') \<Longrightarrow> served L m w = (Inr (Some x), w')"
  by (simp add: served_def run_bind)

end
