(* ===== verification/Dispatch_Properties.thy ===== *)
theory Dispatch_Properties
  imports Dispatch_Facts Message_Facts Manager_Service Sample_World Bot_Properties
begin

section \<open>Properties of the dispatcher, the forms and the messages\<close>

text \<open>
  The properties of \<open>dispatch.go\<close>, \<open>form.go\<close> and \<open>messages.go\<close>, each with the claim it settles,
  and a dispatcher over the small world to which those with hypotheses are applied.
\<close>

subsection \<open>A small dispatcher\<close>

definition chat_deps :: "(time, message) deps" where
  "chat_deps = with_renderer \<lparr>dp_now = (\<lambda>now. now), dp_state = (\<lambda>_. sample_state),
     dp_get_info = m_throw ErrProviderUnavailable, dp_list_workspaces = m_return [],
     dp_create_channel = (\<lambda>_ _. m_return sample_channel),
     dp_add_member = (\<lambda>_ _ _. m_return False), dp_remove_member = (\<lambda>_ _ _. m_return False),
     dp_archive_channel = (\<lambda>_ _ _. m_return (sample_channel\<lparr>cf_archived := True\<rparr>)),
     dp_post_message = (\<lambda>_ c _. m_return \<lparr>mr_channel_id = c, mr_message_id = ''M1''\<rparr>),
     dp_update_message = (\<lambda>_ _ _. m_return ()), dp_pin_message = (\<lambda>_ _. m_return ()),
     dp_unpin_message = (\<lambda>_ _. m_return ()),
     dp_announcement = (\<lambda>_ _. None), dp_summary = (\<lambda>_. None), dp_reminder = (\<lambda>_ _ _. None),
     dp_recruit_reminder = (\<lambda>_ _ _. None), dp_closing = (\<lambda>_. None),
     dp_transition = (\<lambda>_ _ _ _. None), dp_left = (\<lambda>_ _. None),
     dp_removed_by_organizer = (\<lambda>_. None),
     dp_load_location = (\<lambda>_. Some utc), dp_channel_name = (\<lambda>_ _ _ _ _. ''ev-0105-lunch''),
     dp_with_suffix = (\<lambda>name _ _. name), dp_random = m_return (replicate 32 7),
     dp_sha256 = (\<lambda>_. replicate 32 9)\<rparr>"

definition chat_bot :: "time bot_deps" where
  "chat_bot = \<lparr>bd_deps = chat_deps, bd_unicode = ascii_unicode, bd_beyond = 0,
     bd_texts = \<lparr>et_is_print = (\<lambda>r. 32 \<le> r \<and> r < 127), et_error = (\<lambda>_. [])\<rparr>,
     bd_console_url = ''https://console'', bd_post_ephemeral = (\<lambda>_ _ _ _. m_return ())\<rparr>"

definition chat_command :: "string \<Rightarrow> string \<Rightarrow> wire_command" where
  "chat_command name user_id = \<lparr>wc_name = name, wc_args = [], wc_raw_text = [],
     wc_workspace_id = id_of_seq 1, wc_external_id = [], wc_channel_id = ''C9'',
     wc_user_id = user_id\<rparr>"

lemma chat_simps [simp]:
  "bd_deps chat_bot = chat_deps" "bd_unicode chat_bot = ascii_unicode" "bd_beyond chat_bot = 0"
  "dp_now chat_deps now = now" "dp_load_location chat_deps tz = Some utc"
  by (simp_all add: chat_bot_def chat_deps_def with_renderer_def)


subsection \<open>Commands, buttons and forms\<close>

lemma answered:
  assumes "answers P m"
  shows "\<exists>r. fst (served L m w) = Inr (Some r) \<and> P r"
proof -
  obtain r where r: "fst (m w) = Inr r" "P r" using assms unfolding answers_def by blast
  then have "m w = (Inr r, snd (m w))" by (simp add: prod_eq_iff)
  then show ?thesis using r(2) by (simp add: served_Inr)
qed


text \<open>
  C11. Whatever the services report, the provider gets an answer without an error to a
  command, a button and a form. The answer to a command or a button is for its user alone (it may
  hold a link token) and has a message or a form; a form gets either its errors, and nothing is
  created, or a message.
\<close>
theorem every_call_answered:
  "(\<exists>r. fst (handle_command L d raw w) = Inr (Some r) \<and> private_reply r) \<and>
   (\<exists>r. fst (handle_action L d press w) = Inr (Some r) \<and> private_reply r \<and> ry_open_form r = None) \<and>
   (\<exists>x. fst (handle_form_submit L d sub w) = Inr (Some x) \<and> form_answer x)"
  using answered [OF command_answers [of d raw], of L w] answered [OF action_answers [of d press], of L w]
    answered [OF form_answers [of d sub], of L w]
  by (simp add: handle_command_def handle_action_def handle_form_submit_def)

text \<open>
  C5. \<open>edit\<close>, \<open>remind\<close>, \<open>end\<close> and \<open>cancel\<close> by anyone but the organizer of the event of
  the channel change nothing, inside or outside; \<open>end\<close> and \<open>cancel\<close> answer that only the
  organizer may do this.
\<close>
theorem organizer_commands_guarded:
  assumes "events_ok (wd_store w)" and "parse_command (bd_unicode d) raw = Inr cmd"
    and "organizer_only (cmd_sub cmd)"
    and "bot_workspace d (cmd_workspace_id cmd) (cmd_external_id cmd) w = (Inr ws, w)"
    and "event_get_by_channel (cmd_channel_id cmd) w = (Inr ev, w)"
    and "cmd_user_id cmd \<noteq> cu_user_id (ev_organizer ev)"
  shows "snd (bot_command d raw w) = w \<and>
    (cmd_sub cmd \<notin> {sub_end, sub_cancel} \<or>
     fst (bot_command d raw w) = Inr (notice msg_organizer_only))"
  using organizer_guard [OF assms(1,5,3,6)] guarded_command [OF assms(2,3,4)] by auto

theorem organizer_commands_guarded_witness:
  "bot_command chat_bot (chat_command ''cancel'' ''U2'') sample_world =
     (Inr (notice msg_organizer_only), sample_world)"
proof -
  have trim: "trim_space ''cancel'' = ''cancel''"
    by (rule trim_visible) (simp_all add: visible_def byte_def)
  have "normalize_input ascii_unicode [] = []"
    by (simp add: normalize_input_def ascii_unicode_def split_fields_def)
  then have p: "parse_command ascii_unicode (chat_command ''cancel'' ''U2'') = Inr
      \<lparr>cmd_sub = sub_cancel, cmd_args = Map.empty, cmd_workspace_id = id_of_seq 1, cmd_external_id = [],
       cmd_channel_id = ''C9'', cmd_user_id = ''U2'', cmd_raw_text = []\<rparr>" (is "_ = Inr ?cmd")
    by (simp add: parse_command_def chat_command_def trim ascii_unicode_def ascii_lower_def byte_def
        sub_valid_def)
  have "store_inv sample_store" using sample_manager_ok by (rule manager_ok_parts)
  then have "events_ok (wd_store sample_world)" by (simp add: sample_world_def store_inv_def)
  moreover have "id_of_seq 1 \<noteq> []" by code_simp
  then have "bot_workspace chat_bot (id_of_seq 1) [] sample_world = (Inr sample_workspace, sample_world)"
    by (simp add: bot_workspace_def workspace_resolve_def get_workspace_def run_repo workspaces_get_def
        sample_world_def sample_store_def found_def find_workspace_def sample_workspace_def)
  moreover have "event_get_by_channel ''C9'' sample_world = (Inr sample_event, sample_world)"
    by (simp add: event_get_by_channel_def run_repo events_get_by_channel_id_def found_def
        sample_world_def sample_store_def sample_event_def)
  ultimately show ?thesis
    using organizer_commands_guarded [of sample_world chat_bot _ ?cmd] p
    by (simp add: organizer_only_def sample_event_def prod_eq_iff)
qed

subsection \<open>Editing\<close>



text \<open>
  C40. \<open>edit\<close> with an end as a delay and no start counts the delay from now and not
  from the start of the event: whenever now plus the delay is not after the start, the organizer
  is told that the end must be after the start, and nothing changes.
\<close>
theorem edit_delay_counts_from_now:
  assumes "unicode_documented (bd_unicode d)" and "word is_space v"
    and "parse_duration (bd_beyond d) v = Some k" and "0 < k"
    and "cmd_arg cmd arg_ends = CHR ''+'' # v"
    and "cmd_arg cmd arg_title = []" "cmd_arg cmd arg_when = []" "cmd_arg cmd arg_description = []"
    and "get_event (ev_id ev) w = (Inr ev, w)" and "ev_is_open ev"
    and "cmd_user_id cmd = cu_user_id (ev_organizer ev)"
    and "get_workspace (ev_workspace_id ev) w = (Inr evws, w)"
    and "dp_now (bd_deps d) (wd_env w) + k \<le> ev_starts_at ev"
  shows "edit_event_command d ws ev cmd w =
    (Inr (notice (validation_text (bd_texts d) [FieldError ''ends_at'' MustBeAfterStartsAt])), w)"
  using assms by (rule edit_delay_refused)

theorem edit_delay_counts_from_now_witness:
  "edit_event_command chat_bot sample_workspace sample_event
     \<lparr>cmd_sub = sub_edit, cmd_args = [arg_ends \<mapsto> ''+3h''], cmd_workspace_id = id_of_seq 1,
      cmd_external_id = [], cmd_channel_id = ''C9'', cmd_user_id = ''U1'', cmd_raw_text = []\<rparr>
     sample_world =
   (Inr (notice ''validation failed: ends_at: must be after starts_at''), sample_world)"
proof -
  let ?cmd = "\<lparr>cmd_sub = sub_edit, cmd_args = [arg_ends \<mapsto> ''+3h''], cmd_workspace_id = id_of_seq 1,
      cmd_external_id = [], cmd_channel_id = ''C9'', cmd_user_id = ''U1'', cmd_raw_text = []\<rparr>"
  have w: "word is_space ''3h''" by (simp add: word_def is_space_def byte_def)
  have "format_offset (3 * hour) = ''3h''" by code_simp
  then have k: "parse_duration 0 ''3h'' = Some (3 * hour)"
    using parse_format_offset [of "3 * hour" 0] by simp
  have g: "get_event (ev_id sample_event) sample_world = (Inr sample_event, sample_world)"
    "get_workspace (ev_workspace_id sample_event) sample_world = (Inr sample_workspace, sample_world)"
    by (simp_all add: get_event_def get_workspace_def run_repo events_get_def workspaces_get_def found_def
        find_event_def find_workspace_def sample_world_def sample_store_def sample_event_def
        sample_workspace_def)
  have "validation_text (bd_texts chat_bot) [FieldError ''ends_at'' MustBeAfterStartsAt] =
      ''validation failed: ends_at: must be after starts_at''"
    by (simp add: validation_text_def)
  moreover have "edit_event_command chat_bot sample_workspace sample_event ?cmd sample_world =
    (Inr (notice (validation_text (bd_texts chat_bot) [FieldError ''ends_at'' MustBeAfterStartsAt])),
      sample_world)"
    by (rule edit_delay_counts_from_now [where v = "''3h''" and k = "3 * hour", OF _ _ _ _ _ _ _ _ g(1) _ _ g(2)])
      (simp_all add: ascii_unicode_documented w k cmd_arg_def sample_event_def ev_is_open_def sample_world_def)
  ultimately show ?thesis by simp
qed

subsection \<open>Messages\<close>



end
