(* ===== verification/Rpc_Auth.thy ===== *)
theory Rpc_Auth
  imports Rpc_Errors Text_Facts
begin

section \<open>The shared token of the RPC boundary\<close>

text \<open>
  \<open>internal/shared/rpcauth/rpcauth.go\<close> and the checks of \<open>tls.go\<close>. The metadata of a call is a
  map from lower-case keys to the values in their order, \<open>None\<close> when there is none; a handler, an
  invoker or a streamer is a program over any state. The constant-time comparison is equality.
\<close>

type_synonym metadata = "string \<Rightarrow> string list"

definition header_key :: string where "header_key = ''authorization''"
definition bearer_prefix :: string where "bearer_prefix = ''bearer ''"
definition min_token_length :: nat where "min_token_length = 32"

definition skip_infra :: "string \<Rightarrow> bool" where
  "skip_infra full_method \<longleftrightarrow>
     prefix ''/grpc.health.v1.Health/'' full_method \<or> prefix ''/grpc.reflection.'' full_method"

definition is_bearer :: "bot_unicode \<Rightarrow> string \<Rightarrow> bool" where
  "is_bearer u v \<longleftrightarrow>
     length bearer_prefix \<le> length v \<and> un_equal_fold u (take (length bearer_prefix) v) bearer_prefix"

fun verify_values :: "grpc_lib \<Rightarrow> bot_unicode \<Rightarrow> string \<Rightarrow> string list \<Rightarrow> err option" where
  "verify_values L u token [] = gl_err L Unauthenticated"
| "verify_values L u token (v # vs) =
     (if \<not> is_bearer u v then verify_values L u token vs
      else if trim_space (drop (length bearer_prefix) v) = token then None
      else gl_err L Unauthenticated)"

definition verify :: "grpc_lib \<Rightarrow> bot_unicode \<Rightarrow> metadata option \<Rightarrow> string \<Rightarrow> err option" where
  "verify L u md token =
     (case md of
        None \<Rightarrow> gl_err L Unauthenticated
      | Some m \<Rightarrow> verify_values L u token (m header_key))"

text \<open>The unary and the stream interceptor of a server differ in the type of the handler only.\<close>

definition server_interceptor ::
  "grpc_lib \<Rightarrow> bot_unicode \<Rightarrow> string \<Rightarrow> (string \<Rightarrow> bool) option \<Rightarrow> string \<Rightarrow> metadata option
   \<Rightarrow> ('s, err, 'a) prog \<Rightarrow> ('s, err, 'a) prog" where
  "server_interceptor L u token skip full_method md handler =
     (if skip = None \<or> \<not> the skip full_method then
        (case verify L u md token of Some e \<Rightarrow> m_throw e | None \<Rightarrow> handler)
      else handler)"

definition with_token :: "metadata \<Rightarrow> string \<Rightarrow> metadata" where
  "with_token md token = md(header_key := md header_key @ [''Bearer '' @ token])"

definition client_interceptor ::
  "string \<Rightarrow> metadata \<Rightarrow> (metadata \<Rightarrow> ('s, err, 'a) prog) \<Rightarrow> ('s, err, 'a) prog" where
  "client_interceptor token md invoker = invoker (with_token md token)"

record tls_files =
  tf_cert_file :: string
  tf_key_file :: string
  tf_ca_file :: string

definition tls_enabled :: "tls_files \<Rightarrow> bool" where
  "tls_enabled f \<longleftrightarrow> tf_cert_file f \<noteq> [] \<or> tf_key_file f \<noteq> [] \<or> tf_ca_file f \<noteq> []"

definition tls_validate :: "tls_files \<Rightarrow> err option" where
  "tls_validate f =
     (if \<not> tls_enabled f then None
      else if tf_cert_file f = [] \<or> tf_key_file f = [] \<or> tf_ca_file f = [] then
        Some (ErrText ''ASOBELL_RPC_TLS_CERT, ASOBELL_RPC_TLS_KEY and ASOBELL_RPC_TLS_CA must be set together'')
      else None)"

subsection \<open>Who gets through\<close>

text \<open>Only the first bearer value counts.\<close>

lemma verify_values_exact:
  assumes "grpc_documented L"
  shows "verify_values L u token vs =
    (case List.find (is_bearer u) vs of
       None \<Rightarrow> Some (ErrStatus Unauthenticated [])
     | Some v \<Rightarrow> if trim_space (drop (length bearer_prefix) v) = token then None
                 else Some (ErrStatus Unauthenticated []))"
  using assms by (induction vs) (simp_all add: grpc_documented_def)

lemma tls_all_or_none:
  "tls_validate f = None \<longleftrightarrow>
   (tf_cert_file f = [] \<longleftrightarrow> tf_key_file f = []) \<and> (tf_key_file f = [] \<longleftrightarrow> tf_ca_file f = [])"
  by (auto simp: tls_validate_def tls_enabled_def)

text \<open>What is trimmed does not start with an ASCII space.\<close>

lemma chunk_of_ascii_byte:
  "(r, x # bs) \<in> set (rune_chunks t) \<Longrightarrow> byte x < 128 \<Longrightarrow> r = byte x"
proof (induction t rule: rune_chunks.induct)
  case (2 c t)
  let ?d = "decode_rune (map byte (c # t))"
  show ?case
  proof (cases "(r, x # bs) = (fst ?d, take (snd ?d) (c # t))")
    case True
    then have "x = c" by (cases "snd ?d") auto
    then show ?thesis using True "2.prems"(2) by (simp add: decode_rune_def)
  next
    case False
    then have "(r, x # bs) \<in> set (rune_chunks (drop (snd ?d) (c # t)))"
      using "2.prems"(1) by (auto simp: Let_def)
    then show ?thesis using "2.IH" [OF refl] "2.prems"(2) by blast
  qed
qed simp

lemma trim_chunks_start:
  assumes "trim_chunks cs = c # r"
  shows "c \<in> set cs" and "\<not> is_space (fst c)"
proof -
  let ?p = "\<lambda>c :: rune \<times> string. is_space (fst c)"
  define xs where "xs = dropWhile ?p cs"
  obtain ys where "rev xs = ys @ dropWhile ?p (rev xs)" using dropWhile_suffix by blast
  then have "rev (rev xs) = rev (ys @ dropWhile ?p (rev xs))" by (rule arg_cong)
  then have xs: "xs = c # r @ rev ys" using assms by (simp add: trim_chunks_def xs_def)
  then show "\<not> is_space (fst c)" using hd_dropWhile [of ?p cs] by (simp add: xs_def)
  have "c \<in> set xs" using xs by simp
  then show "c \<in> set cs" unfolding xs_def by (rule set_dropWhileD)
qed

lemma trim_space_start:
  assumes "trim_space s = x # r" and "byte x < 128"
  shows "\<not> is_space (byte x)"
proof -
  have ne: "snd c \<noteq> []" if "c \<in> set (rune_chunks s)" for c
    using that
  proof (induction s rule: rune_chunks.induct)
    case (2 b t)
    then show ?case using decode_rune_width [of "map byte (b # t)"] by (auto simp: Let_def)
  qed simp
  obtain c cs where c: "trim_chunks (rune_chunks s) = c # cs"
    using assms(1) by (cases "trim_chunks (rune_chunks s)") (auto simp: trim_space_def)
  note start = trim_chunks_start [OF c]
  obtain y where "snd c = x # y"
    using assms(1) c ne [OF start(1)] by (cases "snd c") (auto simp: trim_space_def)
  then have "fst c = byte x"
    using chunk_of_ascii_byte [of "fst c" x y s] start(1) assms(2) by (metis prod.collapse)
  then show ?thesis using start(2) by simp
qed

text \<open>So a token that starts with a space is never accepted, from anyone.\<close>

lemma spaced_token_refused:
  assumes "grpc_documented L" and "is_space (byte c)" and "byte c < 128"
  shows "verify L u md (c # r) = Some (ErrStatus Unauthenticated [])"
proof -
  have "trim_space v \<noteq> c # r" for v using trim_space_start [of v c r] assms(2,3) by blast
  then show ?thesis using assms(1)
    by (auto simp: verify_def verify_values_exact [OF assms(1)] grpc_documented_def split: option.split)
qed

definition bearer_of :: "bot_unicode \<Rightarrow> metadata option \<Rightarrow> string option" where
  "bearer_of u md =
     (case md of
        None \<Rightarrow> None
      | Some m \<Rightarrow> map_option (\<lambda>v. trim_space (drop (length bearer_prefix) v))
                   (List.find (is_bearer u) (m header_key)))"

lemma verify_exact:
  "grpc_documented L \<Longrightarrow>
   verify L u md token = (if bearer_of u md = Some token then None else Some (ErrStatus Unauthenticated []))"
  by (auto simp: verify_def bearer_of_def verify_values_exact grpc_documented_def split: option.split)

lemma interceptor_exact:
  "grpc_documented L \<Longrightarrow> server_interceptor L u token (Some skip) full_method md handler s =
     (if skip full_method \<or> bearer_of u md = Some token then handler s
      else (Inl (ErrStatus Unauthenticated []), s))"
  by (simp add: server_interceptor_def verify_exact)

lemma find_append_none: "\<not> list_ex p xs \<Longrightarrow> p y \<Longrightarrow> List.find p (xs @ [y]) = Some y"
  by (induction xs) auto

lemma own_bearer:
  assumes "unicode_documented u" and "\<not> list_ex (is_bearer u) (md header_key)"
  shows "bearer_of u (Some (with_token md token)) = Some (trim_space token)"
proof -
  have "un_equal_fold u ''Bearer '' bearer_prefix"
  proof -
    have "ascii ''Bearer ''" "ascii bearer_prefix" by (simp_all add: bearer_prefix_def byte_def)
    moreover have "map ascii_lower ''Bearer '' = map ascii_lower bearer_prefix" by code_simp
    ultimately show ?thesis using assms(1) unfolding unicode_documented_def by blast
  qed
  then have "is_bearer u (''Bearer '' @ token)" by (simp add: is_bearer_def bearer_prefix_def)
  then show ?thesis
    using find_append_none [OF assms(2)] by (simp add: bearer_of_def with_token_def bearer_prefix_def)
qed

end
