(* ===== verification/Process_Config.thy ===== *)
theory Process_Config
  imports Rpc_Auth
begin

section \<open>The configuration of the processes\<close>

text \<open>
  \<open>internal/provider/config\<close> (\<open>args.go\<close>, the checks of \<open>config.go\<close>), the lists of permitted
  addresses of \<open>internal/manager/config\<close> and the settings of \<open>internal/shared/logging\<close>. The
  environment is a map from names to values; the names the structure of a process has are
  a list, as reflection finds them. Reading a file and \<open>strings.ToUpper\<close> are parameters. A
  \<open>problem\<close> is the message with its arguments; a list of them is \<open>errors.Join\<close>, nil when empty.
\<close>

datatype problem =
    TokenTooShort nat
  | TlsFiles err
  | EmptyListenAddr
  | BadCommandName string
  | TimeoutNotPositive
  | BadLogLevel string
  | BadLogFormat string
  | NotSlackBotToken
  | NotSlackAppToken
  | EmptyDiscordToken
  | SnowflakeLength
  | SnowflakeDigits
  | UnexpectedArgument string
  | FlagWithoutValue string
  | UnknownFlag string
  | FileUnreadable string err

subsection \<open>logging.go\<close>

datatype log_level = LevelDebug | LevelInfo | LevelWarn | LevelError

definition parse_level :: "bot_unicode \<Rightarrow> string \<Rightarrow> log_level option" where
  "parse_level u s =
     (let l = un_to_lower u (trim_space s)
      in if l = ''debug'' then Some LevelDebug
         else if l = ''info'' then Some LevelInfo
         else if l = ''warn'' \<or> l = ''warning'' then Some LevelWarn
         else if l = ''error'' then Some LevelError
         else None)"

definition format_valid :: "bot_unicode \<Rightarrow> string \<Rightarrow> bool" where
  "format_valid u s \<longleftrightarrow> un_to_lower u (trim_space s) \<in> {''json'', ''text''}"

subsection \<open>The provider: config.go\<close>

record common_config =
  co_manager_addr :: string
  co_rpc_token :: string
  co_rpc_tls :: tls_files
  co_listen_addr :: string
  co_command_name :: string
  co_manager_timeout :: duration
  co_log_level :: string
  co_log_format :: string

record slack_config = common_config +
  sl_bot_token :: string
  sl_app_token :: string

record discord_config = common_config +
  di_bot_token :: string
  di_application_id :: string

text \<open>\<open>^[a-z0-9_-]{1,32}$\<close>\<close>

definition command_name_char :: "char \<Rightarrow> bool" where
  "command_name_char c \<longleftrightarrow>
     (97 \<le> byte c \<and> byte c \<le> 122) \<or> is_digit c \<or> c = CHR ''_'' \<or> c = CHR ''-''"

definition command_name_valid :: "string \<Rightarrow> bool" where
  "command_name_valid s \<longleftrightarrow> 1 \<le> length s \<and> length s \<le> 32 \<and> list_all command_name_char s"

definition common_problems :: "bot_unicode \<Rightarrow> 'a common_config_scheme \<Rightarrow> problem list" where
  "common_problems u c =
     (if length (co_rpc_token c) < min_token_length then [TokenTooShort min_token_length] else []) @
     (case tls_validate (co_rpc_tls c) of None \<Rightarrow> [] | Some e \<Rightarrow> [TlsFiles e]) @
     (if co_listen_addr c = [] then [EmptyListenAddr] else []) @
     (if \<not> command_name_valid (co_command_name c) then [BadCommandName (co_command_name c)] else []) @
     (if co_manager_timeout c \<le> 0 then [TimeoutNotPositive] else []) @
     (if parse_level u (co_log_level c) = None then [BadLogLevel (co_log_level c)] else []) @
     (if \<not> format_valid u (co_log_format c) then [BadLogFormat (co_log_format c)] else [])"

definition parse_snowflake :: "string \<Rightarrow> problem + string" where
  "parse_snowflake raw =
     (let s = trim_space raw
      in if length s < 15 \<or> 22 < length s then Inl SnowflakeLength
         else if \<not> list_all (\<lambda>r. 48 \<le> r \<and> r \<le> 57) (runes_of s) then Inl SnowflakeDigits
         else Inr s)"

definition slack_problems :: "bot_unicode \<Rightarrow> slack_config \<Rightarrow> problem list" where
  "slack_problems u c =
     common_problems u c @
     (if \<not> prefix ''xoxb-'' (sl_bot_token c) then [NotSlackBotToken] else []) @
     (if \<not> prefix ''xapp-'' (sl_app_token c) then [NotSlackAppToken] else [])"

definition discord_problems :: "bot_unicode \<Rightarrow> discord_config \<Rightarrow> problem list" where
  "discord_problems u c =
     common_problems u c @
     (if trim_space (di_bot_token c) = [] then [EmptyDiscordToken] else []) @
     (case parse_snowflake (di_application_id c) of Inl p \<Rightarrow> [p] | Inr _ \<Rightarrow> [])"

subsection \<open>The provider: args.go\<close>

definition env_prefix :: string where "env_prefix = ''ASOBELL_''"

definition flag_to_env :: "(string \<Rightarrow> string) \<Rightarrow> string \<Rightarrow> string" where
  "flag_to_env upper flag = env_prefix @ upper (replace_all ''-'' ''_'' flag)"

text \<open>The argument at hand and those after it: key, value, and how many of those were used.\<close>

definition split_arg :: "string \<Rightarrow> string list \<Rightarrow> problem + (string \<times> string \<times> nat)" where
  "split_arg arg rest =
     (if \<not> prefix ''--'' arg then Inl (UnexpectedArgument arg)
      else case cut_at ''='' (drop 2 arg) of (key, v, has_value) \<Rightarrow>
        if key = [] then Inl (UnexpectedArgument arg)
        else if has_value then Inr (key, v, 0)
        else case rest of
          [] \<Rightarrow> Inl (FlagWithoutValue key)
        | v' # _ \<Rightarrow> Inr (key, v', 1))"

text \<open>\<open>strings.CutSuffix(key, "-file")\<close>\<close>

definition cut_file_suffix :: "string \<Rightarrow> string option" where
  "cut_file_suffix key =
     (if suffix ''-file'' key then Some (take (length key - 5) key) else None)"

definition resolve_flag ::
  "(string \<Rightarrow> string) \<Rightarrow> string list \<Rightarrow> string \<Rightarrow> problem + (string \<times> bool)" where
  "resolve_flag upper allowed key =
     (if flag_to_env upper key \<in> set allowed then Inr (flag_to_env upper key, False)
      else case cut_file_suffix key of
        Some base \<Rightarrow>
          if flag_to_env upper base \<in> set allowed then Inr (flag_to_env upper base, True)
          else Inl (UnknownFlag key)
      | None \<Rightarrow> Inl (UnknownFlag key))"

function apply_args ::
  "(string \<Rightarrow> string) \<Rightarrow> (string \<Rightarrow> err + string) \<Rightarrow> string list \<Rightarrow> (string \<Rightarrow> string option)
   \<Rightarrow> string list \<Rightarrow> problem + (string \<Rightarrow> string option)" where
  "apply_args upper read_file allowed environ [] = Inr environ"
| "apply_args upper read_file allowed environ (arg # rest) =
     (case split_arg arg rest of
        Inl p \<Rightarrow> Inl p
      | Inr (key, v, used) \<Rightarrow>
          (case resolve_flag upper allowed key of
             Inl p \<Rightarrow> Inl p
           | Inr (name, from_file) \<Rightarrow>
               (case (if from_file then read_file v else Inr v) of
                  Inl e \<Rightarrow> Inl (FileUnreadable key e)
                | Inr content \<Rightarrow>
                    apply_args upper read_file allowed
                      (environ(name \<mapsto> if from_file then trim_space content else content))
                      (drop used rest))))"
  by pat_completeness auto
termination
  by (relation "measure (\<lambda>(_, _, _, _, args). length args)") auto

subsection \<open>The manager: who may log in\<close>

text \<open>\<open>strings.TrimPrefix\<close>\<close>

definition trim_prefix :: "string \<Rightarrow> string \<Rightarrow> string" where
  "trim_prefix p s = (if prefix p s then drop (length p) s else s)"

definition normalize_list :: "bot_unicode \<Rightarrow> string list \<Rightarrow> string \<Rightarrow> string list" where
  "normalize_list u vs p =
     filter (\<lambda>v. v \<noteq> []) (map (\<lambda>v. trim_prefix p (un_to_lower u (trim_space v))) vs)"

text \<open>What follows the last at sign.\<close>

definition after_last_at :: "string \<Rightarrow> string option" where
  "after_last_at s =
     (if CHR ''@'' \<in> set s then Some (rev (takeWhile (\<lambda>c. c \<noteq> CHR ''@'') (rev s))) else None)"

definition allows_email :: "bot_unicode \<Rightarrow> string list \<Rightarrow> string list \<Rightarrow> string \<Rightarrow> bool" where
  "allows_email u allowed_emails allowed_domains raw =
     (let email = un_to_lower u (trim_space raw)
      in email \<in> set allowed_emails \<or>
         (case after_last_at email of None \<Rightarrow> False | Some d \<Rightarrow> d \<in> set allowed_domains))"

subsection \<open>Facts\<close>

text \<open>A value after an equals sign and one that is the next argument are the same.\<close>

lemma split_arg_forms:
  assumes "k \<noteq> []" and "CHR ''='' \<notin> set k"
  shows "split_arg (''--'' @ k @ ''='' @ v) rest = Inr (k, v, 0)"
    and "split_arg (''--'' @ k) (v # rest) = Inr (k, v, 1)"
proof -
  have "cut_at ''='' (k @ ''='' @ v) = (k, v, True)" using cut_at_char [OF assms(2), of v] by simp
  then show "split_arg (''--'' @ k @ ''='' @ v) rest = Inr (k, v, 0)"
    using assms(1) by (simp add: split_arg_def)
  have "cut_at ''='' k = (k, [], False)"
    using assms(2) by (simp add: cut_at_def index_of_char_None [THEN iffD2])
  then show "split_arg (''--'' @ k) (v # rest) = Inr (k, v, 1)"
    using assms(1) by (simp add: split_arg_def)
qed

lemma apply_args_forms:
  assumes "k \<noteq> []" and "CHR ''='' \<notin> set k"
  shows "apply_args upper rf allowed environ ((''--'' @ k @ ''='' @ v) # rest) =
     apply_args upper rf allowed environ ((''--'' @ k) # v # rest)"
  using split_arg_forms [OF assms] by (simp split: sum.split prod.split)

lemma resolve_flag_allowed: "resolve_flag upper allowed key = Inr (name, f) \<Longrightarrow> name \<in> set allowed"
  by (auto simp: resolve_flag_def split: if_splits option.splits)

text \<open>Arguments set names of the process only, and leave every other name alone.\<close>

lemma apply_args_allowed:
  "apply_args upper rf allowed environ args = Inr environ' \<Longrightarrow> n \<notin> set allowed \<Longrightarrow> environ' n = environ n"
proof (induction upper rf allowed environ args arbitrary: environ' rule: apply_args.induct)
  case (2 upper rf allowed environ arg rest)
  obtain key v used where s: "split_arg arg rest = Inr (key, v, used)"
    using "2.prems"(1) by (auto split: sum.splits)
  obtain name f where r: "resolve_flag upper allowed key = Inr (name, f)"
    using "2.prems"(1) s by (auto split: sum.splits)
  obtain content where c: "(if f then rf v else Inr v) = Inr content"
    using "2.prems"(1) s r by (auto split: sum.splits if_splits)
  have "apply_args upper rf allowed (environ(name \<mapsto> if f then trim_space content else content))
      (drop used rest) = Inr environ'"
    using "2.prems"(1) s r c by (simp split: if_splits)
  then have "environ' n = (environ(name \<mapsto> if f then trim_space content else content)) n"
    using "2.IH" [OF s refl refl r refl c] "2.prems"(2) by blast
  then show ?case using resolve_flag_allowed [OF r] "2.prems"(2) by auto
qed simp

lemma snowflake_exact:
  "parse_snowflake raw = Inr s \<longleftrightarrow>
   s = trim_space raw \<and> 15 \<le> length s \<and> length s \<le> 22 \<and> list_all (\<lambda>r. 48 \<le> r \<and> r \<le> 57) (runes_of s)"
  by (auto simp: parse_snowflake_def Let_def)

end
