(* ===== verification/Process_Properties.thy ===== *)
theory Process_Properties
  imports Process_Config Bot_Properties
begin

section \<open>Properties of authentication and configuration\<close>

text \<open>
  The properties of \<open>internal/shared/rpcauth\<close> and \<open>internal/provider/config\<close>, each with the claim
  it settles.
\<close>



text \<open>
  An argument \<open>--key=value\<close> means the same as \<open>--key value\<close>, and the arguments of a
  process change the settings it has and nothing else in its environment.
\<close>
theorem arguments_bounded:
  assumes "k \<noteq> []" and "CHR ''='' \<notin> set k"
  shows "apply_args upper rf allowed environ ((''--'' @ k @ ''='' @ v) # rest) =
      apply_args upper rf allowed environ ((''--'' @ k) # v # rest) \<and>
    (case apply_args upper rf allowed environ args of
       Inl _ \<Rightarrow> True | Inr environ' \<Rightarrow> n \<in> set allowed \<or> environ' n = environ n)"
  using apply_args_allowed [of upper rf allowed environ args _ n]
  by (auto simp only: apply_args_forms [OF assms] split: sum.split)

theorem arguments_bounded_witness:
  "apply_args (map ascii_lower) (\<lambda>_. Inr []) [''ASOBELL_log_level''] Map.empty [''--log-level=debug''] =
   apply_args (map ascii_lower) (\<lambda>_. Inr []) [''ASOBELL_log_level''] Map.empty [''--log-level'', ''debug'']"
  using arguments_bounded [of "''log-level''" "map ascii_lower" "\<lambda>_. Inr []" "[''ASOBELL_log_level'']"
      Map.empty "''debug''" "[]"]
  by simp

end
