(* ===== verification/Service_Facts.thy ===== *)
theory Service_Facts
  imports Event_Facts Concurrent_Joins
begin

section \<open>What joining, a failing edit and the worker do\<close>

text \<open>
  A press of the join button makes its user a participant and nobody else; a promotion cancels
  the pending expiry jobs of the whole event; a refused channel member leaves the participation
  behind. An edit is stored before its reminders are rescheduled, so it stays when that fails.
  The worker always returns, and its verdict on a job changes that job alone.
\<close>

subsection \<open>Applying\<close>

lemma has_effect_prev: "has_effect (decide_transition prev a) \<Longrightarrow> \<not> was_counted prev"
  by (auto simp: has_effect_def decide_transition_def counted_def split: option.splits)

lemma apply_paths:
  assumes "participation_apply d inp w = (Inr r, w')"
  obtains ev ws tr where "find_event (wd_store w) (in_event_id inp) = Some ev" "ev_id ev = in_event_id inp"
    "tr = decide_transition
       (find_participation (wd_store w) (in_event_id inp) (in_chat_user_id inp)) (in_action inp)"
    "if has_effect tr then apply_commit d inp ev ws tr w = (Inr r, w')
     else w' = w \<and> po_transition r = tr"
proof -
  obtain p w1 where rd: "apply_read inp w = (Inr p, w1)"
    and rest: "(case p of (ev, ws, prev, tr) \<Rightarrow>
       if \<not> has_effect tr
       then m_return \<lparr>po_event = ev, po_participation = prev, po_transition = tr,
                      po_expires_at = expires_at_of prev\<rparr>
       else apply_commit d inp ev ws tr) w1 = (Inr r, w')"
    using assms unfolding participation_apply_def by (rule bind_InrE)
  obtain ev ws prev tr where p: "p = (ev, ws, prev, tr)" by (metis prod_cases4)
  note rd' = apply_read_Inr [OF rd [unfolded p]]
  show ?thesis
    using that [of ev tr ws] rest p rd' by (cases "has_effect tr") auto
qed

text \<open>The upsert of a commit that is decided on the stored participation.\<close>

lemma commit_decided:
  assumes ok: "manager_ok (wd_store w)"
    and tr: "tr = decide_transition (find_participation (wd_store w) (ev_id ev) (in_chat_user_id inp)) (in_action inp)"
    and run: "apply_commit d inp ev ws tr w = (Inr r, w')"
  obtains c s1 where
    "participations_upsert (upsert_of inp ev ws tr (dp_now d (wd_env w))) (wd_store w) = (Inr c, s1)"
    "pc_before c = find_participation (wd_store w) (ev_id ev) (in_chat_user_id inp)"
    "po_transition r = tr" "st_participations (wd_store w') = st_participations s1"
proof -
  note po = manager_ok_parts(5) [OF ok]
  obtain c s1 where up:
    "participations_upsert (upsert_of inp ev ws tr (dp_now d (wd_env w))) (wd_store w) = (Inr c, s1)"
    using parts.upsert_returns [OF po TrueI] by blast
  have before: "pc_before c = find_participation (wd_store w) (ev_id ev) (in_chat_user_id inp)"
    using parts.upsert_before [OF po TrueI up] by simp
  then show ?thesis using that up commit_cases [OF up run] tr by simp
qed

lemma find_participation_cong:
  "st_participations s' = st_participations s \<Longrightarrow> find_participation s' e v = find_participation s e v"
  by (simp add: find_participation_def)

lemma join_applied:
  assumes ok: "manager_ok (wd_store w)" and act: "in_action inp = ActionJoin"
    and run: "participation_apply d inp w = (Inr r, w')"
  defines "e \<equiv> in_event_id inp" and "u \<equiv> in_chat_user_id inp"
  shows "was_counted (find_participation (wd_store w') e u) \<and>
    (\<forall>i v. (i, v) \<noteq> (e, u) \<longrightarrow>
       find_participation (wd_store w') i v = find_participation (wd_store w) i v) \<and>
    (if was_counted (find_participation (wd_store w) e u)
     then w' = w \<and> tr_kind (po_transition r) = TransitionAlreadyParticipant
     else participant_count (wd_store w') e = participant_count (wd_store w) e + 1 \<and>
       tr_kind (po_transition r) \<in> {TransitionJoined, TransitionPromoted})"
proof -
  let ?prev = "find_participation (wd_store w) e u"
  obtain ev ws tr where p: "ev_id ev = e" "tr = decide_transition ?prev ActionJoin"
    "if has_effect tr then apply_commit d inp ev ws tr w = (Inr r, w') else w' = w \<and> po_transition r = tr"
    using apply_paths [OF run] act unfolding e_def u_def by metis
  note po = manager_ok_parts(5) [OF ok]
  show ?thesis
  proof (cases "was_counted ?prev")
    case True
    then have "\<not> has_effect tr" using has_effect_prev p(2) by blast
    with p(3) have "w' = w" "po_transition r = tr" by auto
    moreover have "tr_kind tr = TransitionAlreadyParticipant"
      using True p(2) by (cases ?prev) (auto simp: decide_counted)
    ultimately show ?thesis using True by simp
  next
    case False
    note j = join_decision [OF False]
    have run1: "apply_commit d inp ev ws tr w = (Inr r, w')" using p(2,3) j(1) by simp
    obtain c s1 where c: "participations_upsert (upsert_of inp ev ws tr (dp_now d (wd_env w))) (wd_store w) = (Inr c, s1)"
      "pc_before c = ?prev" "po_transition r = tr" "st_participations (wd_store w') = st_participations s1"
      using commit_decided [OF ok _ run1] p(1,2) act unfolding u_def by auto
    have counted: "counted (pc_after c)"
      using parts.upsert_counted [OF po TrueI c(1)] j(2) p(2) by simp
    have "find_participation (wd_store w') i v = (if i = e \<and> v = u then Some (pc_after c)
        else find_participation (wd_store w) i v)" for i v
      using parts.upsert_lookup [OF po TrueI c(1), of i v] find_participation_cong [OF c(4), of i v] p(1)
      by (simp add: u_def)
    moreover have "participant_count (wd_store w') e = participant_count (wd_store w) e + 1"
      using parts.upsert_count [OF po TrueI c(1), of e] participant_count_cong [OF c(4)] counted c(2) False p(1)
      by simp
    moreover have "tr_kind tr \<in> {TransitionJoined, TransitionPromoted}"
      using effective_transition(1) [OF p(2)] j(1,2) p(2) by (simp add: has_effect_def)
    ultimately show ?thesis using False counted c(3) by auto
  qed
qed

subsection \<open>Promotions and expiry jobs\<close>

definition no_pending_expiry :: "string \<Rightarrow> store \<Rightarrow> bool" where
  "no_pending_expiry e s \<longleftrightarrow> filter (cancels e [JobPeekExpire]) (st_jobs s) = []"

lemma after_promotion:
  assumes "after_transition d ws ev p tr w = (Inr ev', w')" and "tr_cancel_peek_job tr"
    and "tr_role tr = RoleParticipant"
  shows "no_pending_expiry (ev_id ev) (wd_store w')"
proof -
  obtain ev1 w1 where a: "add_count d ev 1 w = (Inr ev1, w1)"
    and r: "m_bind (m_bind (now_of d) (\<lambda>now.
        m_bind (repo (jobs_cancel_by_event (ev_id ev1) [JobPeekExpire] now)) (\<lambda>_. m_return ()))) (\<lambda>_.
      m_bind (m_return ()) (\<lambda>_.
      m_bind (post d ws (ch_channel_id (ev_channel ev1))
        (dp_transition d (tr_kind tr) (pt_chat_user_id p) (ev_participant_count ev1)
          (expires_at_of (Some p)))) (\<lambda>_.
      m_bind (refresh_messages d ws ev1) (\<lambda>_. m_return ev1)))) w1 = (Inr ev', w')"
    using assms unfolding after_transition_def
    by (auto elim!: bind_InrE [of "add_count d ev 1"] split: option.splits)
  have id1: "ev_id ev1 = ev_id ev" using a by (auto simp: add_count_def run_bind run_repo split: sum.splits)
  let ?s2 = "snd (jobs_cancel_by_event (ev_id ev1) [JobPeekExpire] (dp_now d (wd_env w1)) (wd_store w1))"
  have "wd_store w' = ?s2"
  proof -
    have tail: "silent (m_bind (post d ws (ch_channel_id (ev_channel ev1))
        (dp_transition d (tr_kind tr) (pt_chat_user_id p) (ev_participant_count ev1)
          (expires_at_of (Some p)))) (\<lambda>_.
      m_bind (refresh_messages d ws ev1) (\<lambda>_. m_return ev1)))"
      by (intro silent_bind silent_post silent_refresh_messages silent_return)
    show ?thesis
      using r silent_store [OF tail, of "w1\<lparr>wd_store := ?s2\<rparr>"]
      by (simp add: run_bind [of "now_of d"] run_bind [of "repo m" for m] run_repo
          run_bind [of "m_bind m f" for m f] jobs_cancel_by_event_def)
  qed
  then show ?thesis
    using cancel_clears [of "ev_id ev1"] id1 by (simp add: no_pending_expiry_def)
qed

lemma promoted_transition:
  "tr_kind (decide_transition prev a) = TransitionPromoted \<Longrightarrow>
   tr_cancel_peek_job (decide_transition prev a) \<and> \<not> tr_add_to_channel (decide_transition prev a) \<and>
   tr_role (decide_transition prev a) = RoleParticipant"
  by (auto simp: decide_transition_def new_entry_transition_def
      split: option.splits participation_role.splits if_splits)

lemma promotion_applied:
  assumes ok: "manager_ok (wd_store w)" and run: "participation_apply d inp w = (Inr r, w')"
    and prom: "tr_kind (po_transition r) = TransitionPromoted"
  shows "no_pending_expiry (in_event_id inp) (wd_store w')"
proof -
  let ?prev = "find_participation (wd_store w) (in_event_id inp) (in_chat_user_id inp)"
  obtain ev ws tr where p: "ev_id ev = in_event_id inp" "tr = decide_transition ?prev (in_action inp)"
    "if has_effect tr then apply_commit d inp ev ws tr w = (Inr r, w') else w' = w \<and> po_transition r = tr"
    using apply_paths [OF run] by metis
  have "po_transition r = tr"
    using p(3) commit_decided [OF ok, of tr ev inp d ws r w'] p(1,2) by (auto split: if_splits)
  then have t: "tr_cancel_peek_job tr" "\<not> tr_add_to_channel tr" "tr_role tr = RoleParticipant"
    using promoted_transition prom p(2) by simp_all
  have run1: "apply_commit d inp ev ws tr w = (Inr r, w')" using p(3) t(1) by (simp add: has_effect_def)
  obtain c s1 where c: "participations_upsert (upsert_of inp ev ws tr (dp_now d (wd_env w))) (wd_store w) = (Inr c, s1)"
    "pc_before c = ?prev"
    using commit_decided [OF ok _ run1] p(1,2) by metis
  have "m_bind (after_transition d ws ev (pc_after c) tr) (\<lambda>ev'.
      m_return \<lparr>po_event = ev', po_participation = Some (pc_after c), po_transition = tr,
                po_expires_at = expires_at_of (Some (pc_after c))\<rparr>) (w\<lparr>wd_store := s1\<rparr>) = (Inr r, w')"
    using run1 c p(2) t(2) unfolding apply_commit_def
    by (simp add: run_bind [of "now_of d"] run_bind [of "repo m" for m] run_repo upsert_of_def Let_def)
  then obtain ev' w2 where "after_transition d ws ev (pc_after c) tr (w\<lparr>wd_store := s1\<rparr>) = (Inr ev', w2)"
    "wd_store w2 = wd_store w'" by (auto elim!: bind_InrE)
  then show ?thesis using after_promotion [OF _ t(1,3)] p(1) by metis
qed

subsection \<open>A member the platform refuses\<close>

lemma join_channel_refused:
  assumes "ch_channel_id (ev_channel ev) \<noteq> ''''"
    and "fst (dp_add_member d (workspace_ref_of ws) (ch_channel_id (ev_channel ev)) u (wd_env w)) = Inl e"
    and "\<not> errors_is e ErrNotFound"
  shows "\<exists>w'. join_channel d ws ev u w = (Inl e, w') \<and> wd_store w' = wd_store w"
  using assms by (simp add: join_channel_def handle_channel_error_def run_port)

lemma refused_apply:
  assumes ok: "participations_ok (wd_store w)"
    and ev: "find_event (wd_store w) (in_event_id inp) = Some ev" "ev_is_open ev"
    and ws: "get_workspace (ev_workspace_id ev) w = (Inr ws, w)"
    and ch: "ch_channel_id (ev_channel ev) \<noteq> ''''"
    and tr: "tr = decide_transition
       (find_participation (wd_store w) (in_event_id inp) (in_chat_user_id inp)) (in_action inp)"
      "tr_add_to_channel tr"
    and refused: "fst (dp_add_member d (workspace_ref_of ws) (ch_channel_id (ev_channel ev))
       (in_chat_user_id inp) (wd_env w)) = Inl e" "\<not> errors_is e ErrNotFound"
  shows "\<exists>w' p. participation_apply d inp w = (Inl e, w') \<and>
    find_participation (wd_store w') (in_event_id inp) (in_chat_user_id inp) = Some p \<and>
    pt_is_active p \<and> (counted p \<longleftrightarrow> tr_role tr = RoleParticipant) \<and>
    st_events (wd_store w') = st_events (wd_store w)"
proof -
  let ?prev = "find_participation (wd_store w) (in_event_id inp) (in_chat_user_id inp)"
  let ?u = "upsert_of inp ev ws tr (dp_now d (wd_env w))"
  have i: "ev_id ev = in_event_id inp" using find_event_id [OF ev(1)] .
  have read: "apply_read inp w = (Inr (ev, ws, ?prev, tr), w)"
  proof -
    have "get_event (in_event_id inp) w = (Inr ev, w)"
      using ev(1) by (simp add: get_event_def run_repo events_get_def)
    moreover have "current_participation (in_event_id inp) (in_chat_user_id inp) w = (Inr ?prev, w)"
      by (cases ?prev) (simp_all add: current_participation_def run_repo participations_get_by_user_def)
    ultimately show ?thesis using ev(2) ws tr(1) by (simp add: apply_read_def open_event_def)
  qed
  obtain c s1 where up: "participations_upsert ?u (wd_store w) = (Inr c, s1)"
    using parts.upsert_returns [OF ok TrueI] by blast
  have before: "pc_before c = ?prev" using parts.upsert_before [OF ok TrueI up] i by simp
  have prev: "\<not> was_counted ?prev" using has_effect_prev tr by (auto simp: has_effect_def)
  have "find_participation s1 (in_event_id inp) (in_chat_user_id inp) = Some (pc_after c)"
    using parts.upsert_lookup [OF ok TrueI up] i by simp
  moreover have "counted (pc_after c) \<longleftrightarrow> tr_role tr = RoleParticipant"
    using parts.upsert_counted [OF ok TrueI up] before prev by simp
  moreover have "pt_is_active (pc_after c)"
    using up by (auto simp: participations_upsert_def created_participation_def pt_is_active_def
        next_id_def Let_def split: option.splits)
  moreover have "st_events s1 = st_events (wd_store w)"
    using up by (auto simp: participations_upsert_def next_id_def Let_def split: option.splits)
  moreover obtain w2 where "join_channel d ws ev (in_chat_user_id inp) (w\<lparr>wd_store := s1\<rparr>) = (Inl e, w2)"
    "wd_store w2 = s1"
    using join_channel_refused [OF ch, of d ws "in_chat_user_id inp" "w\<lparr>wd_store := s1\<rparr>" e] refused by auto
  moreover have "participation_apply d inp w = apply_commit d inp ev ws tr w"
    using read tr(2) by (simp add: participation_apply_def has_effect_def)
  moreover have "apply_commit d inp ev ws tr w =
      m_bind (join_channel d ws ev (in_chat_user_id inp)) (\<lambda>_.
      m_bind (after_transition d ws ev (pc_after c) tr) (\<lambda>ev'.
        m_return \<lparr>po_event = ev', po_participation = Some (pc_after c), po_transition = tr,
                  po_expires_at = expires_at_of (Some (pc_after c))\<rparr>)) (w\<lparr>wd_store := s1\<rparr>)"
    using up before tr
    by (simp add: apply_commit_def run_bind [of "now_of d"] run_bind [of "repo m" for m] run_repo
        upsert_of_def Let_def)
  ultimately show ?thesis by auto
qed

subsection \<open>An edit whose reminders cannot be scheduled\<close>

lemma enqueue_returns: "\<exists>w'. enqueue d j w = (Inr (), w')"
  using enqueue_run [of d j w] by blast

lemma enqueue_reminders_returns: "\<exists>w'. enqueue_reminders d i ts n w = (Inr (), w')"
proof (induction ts arbitrary: n w)
  case (Cons t ts)
  obtain w1 where "enqueue d (new_reminder_job i n t) w = (Inr (), w1)" using enqueue_returns by blast
  then show ?case using Cons.IH by (simp add: run_bind run_repo reminder_logs_sent_at_def)
qed simp

lemma schedule_reminders_Inl:
  assumes "schedule_reminders d ws ev w = (Inl e, w')"
  shows "filter (pending_reminder (ev_id ev)) (st_jobs (wd_store w')) = []"
proof -
  let ?now = "dp_now d (wd_env w)"
  obtain n s1 where c: "repo (jobs_cancel_by_event (ev_id ev) [JobReminder] ?now) w = (Inr n, w\<lparr>wd_store := s1\<rparr>)"
    "filter (pending_reminder (ev_id ev)) (st_jobs s1) = []"
    using cancel_reminders [of "ev_id ev" ?now w] by blast
  obtain k where k: "next_reminder_sequence (ev_id ev) (w\<lparr>wd_store := s1\<rparr>) = (Inr k, w\<lparr>wd_store := s1\<rparr>)"
    using next_sequence_run by blast
  have loop: "enqueue_reminders d (ev_id ev) ts k (w\<lparr>wd_store := s1\<rparr>) \<noteq> (Inl e, w')" for ts
    using enqueue_reminders_returns [of d "ev_id ev" ts k "w\<lparr>wd_store := s1\<rparr>"] by auto
  have "w' = w\<lparr>wd_store := s1\<rparr>"
    using assms c(1) k loop
    by (auto simp: schedule_reminders_def run_bind [of "m_lift r" for r] split: if_splits sum.splits)
  then show ?thesis using c(2) by simp
qed

lemma update_stored:
  assumes ev: "find_event (wd_store w) (ue_event_id inp) = Some ev"
    and auth: "authorize_manage ev (ue_actor inp) = Inr ()"
    and ws: "get_workspace (ev_workspace_id ev) w = (Inr ws, w)"
    and edit: "event_apply ev (ue_update inp) (dp_now d (wd_env w)) = Inr ev'"
    and run: "event_update_with d inp w = (r, w')"
  shows "find_event (wd_store w') (ue_event_id inp) = Some ev' \<and>
    (case r of Inr x \<Rightarrow> x = ev'
     | Inl e \<Rightarrow> filter (pending_reminder (ue_event_id inp)) (st_jobs (wd_store w')) = [])"
proof -
  let ?s1 = "snd (events_update ev' (wd_store w))"
  note fr = event_apply_frame [OF edit] and i = find_event_id [OF ev]
  have orig: "ev_origin_channel_id ev' = ev_origin_channel_id ev"
    "ev_created_via ev' = ev_created_via ev" "ev_created_by ev' = ev_created_by ev"
    "ev_created_at ev' = ev_created_at ev"
    unfolding event_apply_InrD(3) [OF edit] by (simp_all add: edited_def)
  have up: "fst (events_update ev' (wd_store w)) = Inr ()" "find_event ?s1 (ue_event_id inp) = Some ev'"
    using events_update_run [of "wd_store w" ev ev'] ev i fr orig by simp_all
  obtain w2 where rm: "refresh_messages d ws ev' (w\<lparr>wd_store := ?s1\<rparr>) = (Inr (), w2)" "wd_store w2 = ?s1"
    using silentD [OF silent_refresh_messages, of d ws ev' "w\<lparr>wd_store := ?s1\<rparr>"] by auto
  have ge: "get_event (ue_event_id inp) w = (Inr ev, w)"
    using ev by (simp add: get_event_def run_repo events_get_def)
  have upw: "repo (events_update ev') w = (Inr (), w\<lparr>wd_store := ?s1\<rparr>)"
    using up(1) by (simp add: run_repo)
  have path: "event_update_with d inp w =
      m_bind (schedule_reminders d ws ev') (\<lambda>_. m_return ev') w2"
    unfolding event_update_with_def using ge auth ws edit upw rm(1) by simp
  have stored: "find_event (wd_store (snd (schedule_reminders d ws ev' w2))) (ue_event_id inp) = Some ev'"
    using up(2) unfolding rm(2) [symmetric] by (simp add: find_event_cong [OF schedule_reminders_events])
  obtain q w3 where q: "schedule_reminders d ws ev' w2 = (q, w3)" by fastforce
  have "ev_id ev' = ue_event_id inp" using fr(1) i by simp
  then show ?thesis
    using run path stored q schedule_reminders_Inl [of d ws ev' w2] by (cases q) auto
qed

subsection \<open>The worker\<close>

lemma worker_run_returns: "\<exists>w'. worker_run d j w = (Inr (), w')"
  by (auto simp: worker_run_def worker_fail_def worker_verdict_def worker_complete_def worker_retry_def
      run_bind split: sum.split)

lemma run_batch_bounds: "\<exists>m w'. run_batch d cfg k n w = (Inr m, w') \<and> n \<le> m \<and> m \<le> n + int k"
proof (induction k arbitrary: n w)
  case (Suc k)
  show ?case
  proof (cases "fst (jobs_claim (dp_now d (wd_env w)) (wc_lease cfg) (wd_store w))")
    case (Inl e)
    then show ?thesis by (simp add: run_repo)
  next
    case (Inr j)
    let ?w1 = "w\<lparr>wd_store := snd (jobs_claim (dp_now d (wd_env w)) (wc_lease cfg) (wd_store w))\<rparr>"
    obtain w2 where "worker_run d j ?w1 = (Inr (), w2)" using worker_run_returns by blast
    moreover obtain m w' where "run_batch d cfg k (n + 1) w2 = (Inr m, w')" "n + 1 \<le> m" "m \<le> n + 1 + int k"
      using Suc.IH by blast
    ultimately show ?thesis using Inr by (simp add: run_repo)
  qed
qed simp

end
