(* ===== verification/Findings.thy ===== *)
theory Findings
  imports Sample_World Service_Facts Domain_Properties
begin

section \<open>Behaviours worth knowing\<close>

text \<open>
  Runs of the model on the small world that show what the code does where a reader, a comment
  or a document expects something else.
\<close>

text \<open>
  Promoting one peeker cancels the expiry jobs of all peekers of the event: the other peeker
  stays in the channel with an end nobody will enforce.
\<close>

lemma promotion_cancels_every_expiry:
  "(case participation_apply quiet_deps (sample_join ''U2'' ActionJoin) sample_world of (r, w) \<Rightarrow>
      (case r of Inl _ \<Rightarrow> False | Inr out \<Rightarrow> tr_kind (po_transition out) = TransitionPromoted) \<and>
      find_participation (wd_store w) (id_of_seq 2) ''U3'' =
        Some (sample_participation 5 ''U3'' RolePeeker (Some (24 * hour))) \<and>
      list_all (\<lambda>j. jb_kind j = JobPeekExpire \<longrightarrow> jb_status j = JobCanceled) (st_jobs (wd_store w)))"
  by code_simp

text \<open>
  When the platform refuses the new member, \<open>Apply\<close> reports the error but the participation it
  wrote stays active and is not in the count of the event.
\<close>

lemma refused_join_stays_active:
  "(case participation_apply refusing_deps (sample_join ''U9'' ActionJoin) sample_world of (r, w) \<Rightarrow>
      r = Inl ErrBotPermission \<and>
      was_counted (find_participation (wd_store w) (id_of_seq 2) ''U9'') \<and>
      map ev_participant_count (st_events (wd_store w)) = [1] \<and>
      participant_count (wd_store w) (id_of_seq 2) = 2)"
  by code_simp

text \<open>
  A peek and a join of one user, both decided while the user was not in the event: when the
  peek is written first, the join is reported as a promotion that nobody carries out.
\<close>

definition race_world :: "time world" where
  "race_world = snd (apply_commit quiet_deps (sample_join ''U9'' ActionPeek) sample_event
     sample_workspace (decide_transition None ActionPeek) sample_world)"

lemma late_join_not_counted:
  "(case apply_commit quiet_deps (sample_join ''U9'' ActionJoin) sample_event sample_workspace
      (decide_transition None ActionJoin) race_world of (r, w) \<Rightarrow>
      (case r of Inl _ \<Rightarrow> False | Inr out \<Rightarrow> tr_kind (po_transition out) = TransitionPromoted) \<and>
      was_counted (find_participation (wd_store w) (id_of_seq 2) ''U9'') \<and>
      map ev_participant_count (st_events (wd_store w)) = [1] \<and>
      participant_count (wd_store w) (id_of_seq 2) = 2)"
  by code_simp

text \<open>
  An edit to a pace of more than 30 reminders is rejected after it has been stored and after
  the pending reminders have been canceled.
\<close>

definition hourly :: reminder_policy where
  "hourly = \<lparr>rp_mode = ModeInterval, rp_offsets = [], rp_every = hour,
             rp_at = \<lparr>tod_hour = 9, tod_minute = 0\<rparr>, rp_final_offset = 0\<rparr>"

definition hourly_event :: event where
  "hourly_event = sample_event\<lparr>ev_reminder_policy := hourly, ev_updated_at := hour\<rparr>"

definition hourly_world :: "time world" where
  "hourly_world = sample_world\<lparr>wd_store := sample_store\<lparr>st_events := [hourly_event]\<rparr>\<rparr>"

lemma hourly_steps:
  "get_event (id_of_seq 2) sample_world = (Inr sample_event, sample_world)"
  "get_workspace (ev_workspace_id sample_event) sample_world = (Inr sample_workspace, sample_world)"
  "repo (events_update hourly_event) sample_world = (Inr (), hourly_world)"
  "refresh_messages quiet_deps sample_workspace hourly_event hourly_world = (Inr (), hourly_world)"
  "settings_location (dp_load_location quiet_deps) (ws_settings sample_workspace) = Inr utc"
  "(case policy_times hourly hour (100 * hour) utc of Inl e \<Rightarrow> as_validation e \<noteq> None | Inr _ \<Rightarrow> False)"
proof -
  show "get_event (id_of_seq 2) sample_world = (Inr sample_event, sample_world)"
    by (simp add: get_event_def run_repo events_get_def find_event_def found_def sample_defs)
  show "get_workspace (ev_workspace_id sample_event) sample_world = (Inr sample_workspace, sample_world)"
    by (simp add: get_workspace_def run_repo workspaces_get_def found_def sample_defs)
  show "repo (events_update hourly_event) sample_world = (Inr (), hourly_world)"
    by (simp add: run_repo events_update_def change_event_def find_event_def hourly_event_def
        hourly_world_def sample_defs)
  show "refresh_messages quiet_deps sample_workspace hourly_event hourly_world = (Inr (), hourly_world)"
    by (simp add: refresh_messages_def update_message_def hourly_event_def sample_event_def
        no_messages_def Let_def)
  show "settings_location (dp_load_location quiet_deps) (ws_settings sample_workspace) = Inr utc"
    by (simp add: settings_location_def sample_workspace_def)
  show "(case policy_times hourly hour (100 * hour) utc of Inl e \<Rightarrow> as_validation e \<noteq> None | Inr _ \<Rightarrow> False)"
    by code_simp
qed

lemma rejected_pace_is_stored:
  "(case event_set_reminder_policy quiet_deps (id_of_seq 2) hourly console_actor sample_world of (r, w) \<Rightarrow>
      (case r of Inl e \<Rightarrow> as_validation e \<noteq> None | Inr _ \<Rightarrow> False) \<and>
      map ev_reminder_policy (st_events (wd_store w)) = [hourly] \<and>
      filter (pending_reminder (id_of_seq 2)) (st_jobs (wd_store w)) = [])"
proof -
  obtain e where e: "policy_times hourly hour (100 * hour) utc = Inl e" "as_validation e \<noteq> None"
    using hourly_steps(6) by (auto split: sum.splits)
  let ?last = "schedule_reminders quiet_deps sample_workspace hourly_event hourly_world"
  have fields: "ev_id hourly_event = id_of_seq 2" "ev_status hourly_event = EventStatusOpen"
    "ev_reminder_policy hourly_event = hourly" "ev_starts_at hourly_event = 100 * hour"
    "wd_env hourly_world = hour"
    by (simp_all add: hourly_event_def hourly_world_def sample_event_def sample_world_def)
  have rejected: "fst ?last = Inl e" "filter (pending_reminder (id_of_seq 2)) (st_jobs (wd_store (snd ?last))) = []"
    using schedule_reminders_rejected [of hourly_event quiet_deps sample_workspace utc hourly_world e]
      hourly_steps(5) e(1) fields by simp_all
  have "st_events (wd_store (snd ?last)) = [hourly_event]"
    by (simp add: schedule_reminders_events) (simp add: hourly_world_def)
  moreover have "event_set_reminder_policy quiet_deps (id_of_seq 2) hourly console_actor sample_world =
      m_bind (schedule_reminders quiet_deps sample_workspace hourly_event) (\<lambda>_. m_return hourly_event)
        hourly_world"
  proof -
    have "event_apply sample_event
        \<lparr>eu_title = None, eu_description = None, eu_location = None, eu_starts_at = None,
         eu_ends_at = None, eu_clear_ends_at = False, eu_reminder_policy = Some hourly\<rparr> hour =
        Inr hourly_event"
      unfolding hourly_event_def by code_simp
    moreover have "dp_now quiet_deps (wd_env sample_world) = hour" by (simp add: sample_world_def)
    ultimately show ?thesis
      using hourly_steps(1-4)
      by (simp add: event_set_reminder_policy_def event_update_with_def authorize_manage_def
          console_actor_def)
  qed
  ultimately show ?thesis using rejected e(2) fields(3) by (simp add: run_bind)
qed

text \<open>Moving the start does not move the auto-end job.\<close>

definition move_start :: "time \<Rightarrow> update_event_input" where
  "move_start t = \<lparr>ue_event_id = id_of_seq 2,
     ue_update = \<lparr>eu_title = None, eu_description = None, eu_location = None,
                  eu_starts_at = Some t, eu_ends_at = None, eu_clear_ends_at = False,
                  eu_reminder_policy = None\<rparr>,
     ue_actor = console_actor\<rparr>"

lemma auto_end_job_stays:
  "(case event_update_with quiet_deps (move_start (50 * hour)) sample_world of (r, w) \<Rightarrow>
      (case r of Inl _ \<Rightarrow> False
       | Inr ev \<Rightarrow> auto_end_at ev (wss_auto_end_grace (ws_settings sample_workspace)) = 74 * hour) \<and>
      map jb_run_at (filter (\<lambda>j. jb_kind j = JobEventAutoEnd) (st_jobs (wd_store w))) = [106 * hour])"
  by code_simp

text \<open>\<open>ParseTimeOfDay\<close> reads signs.\<close>

lemma time_of_day_with_signs:
  "parse_time_of_day ''+7:+5'' = Some \<lparr>tod_hour = 7, tod_minute = 5\<rparr>"
proof -
  have "trim_space ''+7:+5'' = ''+7:+5''"
    by (rule trim_space_ascii) (simp_all add: byte_def is_space_def)
  moreover have "atoi ''+7'' = Some 7" "atoi ''+5'' = Some 5" by code_simp+
  ultimately show ?thesis
    by (simp add: parse_time_of_day_def tod_valid_def max_hour_def max_minute_def)
qed

subsection \<open>The general statements behind three of them\<close>

text \<open>
  When \<open>Apply\<close> promotes one peeker of an event, no expiry job of any peeker of that
  event is left pending: the jobs are canceled by event and kind, not by participation. The
  witness has a second peeker who keeps an end that nothing will enforce.
\<close>
theorem promotion_clears_expiry_jobs:
  assumes "manager_ok (wd_store w)" and "participation_apply d inp w = (Inr r, w')"
    and "tr_kind (po_transition r) = TransitionPromoted"
  shows "no_pending_expiry (in_event_id inp) (wd_store w')"
  by (rule promotion_applied [OF assms])

theorem promotion_clears_expiry_jobs_witness:
  "\<exists>r w'. participation_apply quiet_deps (sample_join ''U2'' ActionJoin) sample_world = (Inr r, w') \<and>
     no_pending_expiry (id_of_seq 2) (wd_store w') \<and>
     find_participation (wd_store w') (id_of_seq 2) ''U3'' =
       Some (sample_participation 5 ''U3'' RolePeeker (Some (24 * hour)))"
proof -
  obtain r w' where run: "participation_apply quiet_deps (sample_join ''U2'' ActionJoin) sample_world = (Inr r, w')"
    "tr_kind (po_transition r) = TransitionPromoted"
    "find_participation (wd_store w') (id_of_seq 2) ''U3'' =
       Some (sample_participation 5 ''U3'' RolePeeker (Some (24 * hour)))"
    using promotion_cancels_every_expiry by (auto split: prod.splits sum.splits)
  have "manager_ok (wd_store sample_world)" using sample_manager_ok by (simp add: sample_world_def)
  from promotion_clears_expiry_jobs [OF this run(1,2)] run show ?thesis by (auto simp: sample_join_def)
qed

text \<open>
  C37. When the platform refuses a new member with an error that does not mean the channel is
  gone, \<open>Apply\<close> returns that error, but the participation it wrote stays active and the
  participant count of the event is not touched, so the count and the participants differ.
\<close>
theorem refused_member_stays:
  assumes "participations_ok (wd_store w)"
    and "find_event (wd_store w) (in_event_id inp) = Some ev" and "ev_is_open ev"
    and "get_workspace (ev_workspace_id ev) w = (Inr ws, w)"
    and "ch_channel_id (ev_channel ev) \<noteq> ''''"
    and "tr = decide_transition
       (find_participation (wd_store w) (in_event_id inp) (in_chat_user_id inp)) (in_action inp)"
    and "tr_add_to_channel tr"
    and "fst (dp_add_member d (workspace_ref_of ws) (ch_channel_id (ev_channel ev))
       (in_chat_user_id inp) (wd_env w)) = Inl e" and "\<not> errors_is e ErrNotFound"
  shows "\<exists>w' p. participation_apply d inp w = (Inl e, w') \<and>
    find_participation (wd_store w') (in_event_id inp) (in_chat_user_id inp) = Some p \<and>
    pt_is_active p \<and> (counted p \<longleftrightarrow> tr_role tr = RoleParticipant) \<and>
    st_events (wd_store w') = st_events (wd_store w)"
  by (rule refused_apply [OF assms])

lemma sample_lookups:
  "find_event sample_store (id_of_seq 2) = Some sample_event"
  "get_workspace (ev_workspace_id sample_event) sample_world = (Inr sample_workspace, sample_world)"
  "find_participation sample_store (id_of_seq 2) ''U9'' = None"
  "ev_is_open sample_event" "ch_channel_id (ev_channel sample_event) = ''C9''"
  by (simp_all add: find_event_def find_participation_def participation_key_def get_workspace_def
      run_repo workspaces_get_def found_def ev_is_open_def sample_defs)

theorem refused_member_stays_witness:
  "\<exists>w' p. participation_apply refusing_deps (sample_join ''U9'' ActionJoin) sample_world =
       (Inl ErrBotPermission, w') \<and>
     find_participation (wd_store w') (id_of_seq 2) ''U9'' = Some p \<and> counted p \<and>
     st_events (wd_store w') = [sample_event]"
proof -
  have "participations_ok (wd_store sample_world)"
    using manager_ok_parts(5) [OF sample_manager_ok] by (simp add: sample_world_def)
  moreover have "st_events sample_store = [sample_event]" by (simp add: sample_store_def)
  ultimately show ?thesis
    using refused_member_stays [of sample_world "sample_join ''U9'' ActionJoin" sample_event sample_workspace
        "decide_transition None ActionJoin" refusing_deps ErrBotPermission] sample_lookups
    by (auto simp: sample_join_def sample_world_def refusing_deps_def decide_transition_def
        new_entry_transition_def)
qed

text \<open>
  C35. Once an authorized edit is valid it is stored, also when \<open>Update\<close> then reports an error:
  an error at that point comes from rescheduling, and it leaves the event without pending
  reminders. The witness is an edit to an hourly pace, which is too many reminders.
\<close>
theorem edit_stored_despite_error:
  assumes "find_event (wd_store w) (ue_event_id inp) = Some ev"
    and "authorize_manage ev (ue_actor inp) = Inr ()"
    and "get_workspace (ev_workspace_id ev) w = (Inr ws, w)"
    and "event_apply ev (ue_update inp) (dp_now d (wd_env w)) = Inr ev'"
    and "event_update_with d inp w = (r, w')"
  shows "find_event (wd_store w') (ue_event_id inp) = Some ev' \<and>
    (case r of Inr x \<Rightarrow> x = ev'
     | Inl e \<Rightarrow> filter (pending_reminder (ue_event_id inp)) (st_jobs (wd_store w')) = [])"
  by (rule update_stored [OF assms])

theorem edit_stored_despite_error_witness:
  "\<exists>e w'. event_set_reminder_policy quiet_deps (id_of_seq 2) hourly console_actor sample_world = (Inl e, w') \<and>
     find_event (wd_store w') (id_of_seq 2) = Some hourly_event \<and>
     filter (pending_reminder (id_of_seq 2)) (st_jobs (wd_store w')) = []"
proof -
  let ?upd = "\<lparr>eu_title = None, eu_description = None, eu_location = None, eu_starts_at = None,
     eu_ends_at = None, eu_clear_ends_at = False, eu_reminder_policy = Some hourly\<rparr>"
  let ?inp = "\<lparr>ue_event_id = id_of_seq 2, ue_update = ?upd, ue_actor = console_actor\<rparr>"
  obtain e w' where run: "event_set_reminder_policy quiet_deps (id_of_seq 2) hourly console_actor sample_world =
      (Inl e, w')"
    using rejected_pace_is_stored by (auto split: prod.splits sum.splits)
  have "event_apply sample_event ?upd hour = Inr hourly_event"
    unfolding hourly_event_def by code_simp
  moreover have "wd_env sample_world = hour" "wd_store sample_world = sample_store"
    by (simp_all add: sample_world_def)
  ultimately show ?thesis
    using edit_stored_despite_error [of sample_world ?inp sample_event sample_workspace quiet_deps hourly_event
        "Inl e" w'] sample_lookups(1,2) run
    by (simp add: event_set_reminder_policy_def authorize_manage_def console_actor_def)
qed

end
