(* ===== verification/Sample_Run.thy ===== *)
theory Sample_Run
  imports Sample_World Domain_Properties
begin

section \<open>A reachable world\<close>

text \<open>
  The empty repository after the workspaces have been synchronised and one event has been
  created, evaluated step by step. \<open>create_rest\<close> is what \<open>Create\<close> does from the insert on.
\<close>

definition lunch_input :: create_event_input where
  "lunch_input = \<lparr>ce_workspace_id = id_of_seq 1, ce_title = ''Lunch'', ce_description = '''',
     ce_location = '''', ce_starts_at = 100 * hour, ce_ends_at = None,
     ce_organizer = \<lparr>cu_user_id = ''U1'', cu_display_name = ''Aki''\<rparr>, ce_origin_channel_id = ''C0'',
     ce_reminder_policy = None, ce_created_via = CreatedViaChat, ce_created_by = ''U1''\<rparr>"

definition empty_world :: "time world" where
  "empty_world = \<lparr>wd_store = new_store, wd_env = 0\<rparr>"

definition synced_world :: "time world" where
  "synced_world = \<lparr>wd_store = new_store\<lparr>st_seq := 1, st_workspaces := [sample_workspace]\<rparr>, wd_env = 0\<rparr>"

lemma synced: "snd (workspace_sync_from_provider quiet_deps empty_world) = synced_world"
  by (simp add: workspace_sync_from_provider_def workspace_sync_def run_bind run_port run_repo
      quiet_deps_def workspaces_upsert_def find_workspace_def new_store_def next_id_def Let_def
      empty_world_def synced_world_def sample_workspace_def)

definition lunch_event :: event where
  "lunch_event = sample_event\<lparr>ev_id := '''', ev_channel := no_channel, ev_participant_count := 0\<rparr>"

lemma new_lunch: "new_event (new_event_params_of sample_workspace lunch_input) 0 = Inr lunch_event"
proof -
  have "rune_count ''Lunch'' = 5" "rune_count '''' = 0"
    unfolding rune_count_def by (subst rune_chunks_ascii; simp add: byte_def)+
  moreover have trim: "trim_space ''Lunch'' = ''Lunch''"
    by (rule trim_space_ascii) (simp_all add: byte_def is_space_def)
  moreover have empty: "trim_space '''' = ''''" by code_simp
  moreover have "is_id (id_of_seq 1)" by code_simp
  ultimately have "new_event_errors (new_event_params_of sample_workspace lunch_input) 0 = []"
    using default_policy_ok
    by (simp add: new_event_errors_Nil new_event_params_of_def lunch_input_def sample_workspace_def
        title_max_len_def description_max_len_def location_max_len_def default_workspace_settings_def)
  then show ?thesis using trim empty
    by (simp add: new_event_def new_event_params_of_def lunch_event_def sample_event_def lunch_input_def
        sample_workspace_def verr_err_def default_workspace_settings_def)
qed

definition create_rest :: "('e, 'm) deps \<Rightarrow> workspace \<Rightarrow> time \<Rightarrow> event \<Rightarrow> ('e, event) usecase" where
  "create_rest d ws now ev =
     m_bind (repo (events_create ev)) (\<lambda>stored.
     m_bind (register_organizer ws stored now) (\<lambda>created.
     m_bind (provision d ws created) (\<lambda>(created', failure).
     case failure of
       Some e \<Rightarrow> m_bind (abort_provision d created') (\<lambda>_. m_throw e)
     | None \<Rightarrow>
         m_bind (schedule_reminders d ws created') (\<lambda>_.
         m_bind (enqueue d (new_auto_end_job (ev_id created')
             (auto_end_at created' (wss_auto_end_grace (ws_settings ws))))) (\<lambda>_.
           m_return created')))))"

lemma create_lunch:
  "event_create quiet_deps lunch_input synced_world = create_rest quiet_deps sample_workspace 0 lunch_event synced_world"
proof -
  have "get_workspace (ce_workspace_id lunch_input) synced_world = (Inr sample_workspace, synced_world)"
    by (simp add: get_workspace_def run_repo workspaces_get_def lunch_input_def synced_world_def
        sample_workspace_def)
  moreover have "require_provider_online quiet_deps synced_world = (Inr (), synced_world)"
    by (simp add: require_provider_online_def sample_state_def)
  moreover have "dp_now quiet_deps (wd_env synced_world) = 0" by (simp add: synced_world_def)
  ultimately show ?thesis using new_lunch by (simp add: event_create_def create_rest_def)
qed
definition lunch_world :: "time world" where
  "lunch_world = snd (event_create quiet_deps lunch_input
     (snd (workspace_sync_from_provider quiet_deps empty_world)))"

lemma lunch_world_reachable: "reachable quiet_deps lunch_world"
  unfolding lunch_world_def empty_world_def
  by (rule reachable.next_step [OF reachable.next_step [OF reachable.initial
        manager_step.sync [OF prod.collapse [symmetric]]] manager_step.create [OF prod.collapse [symmetric]]])

lemma lunch_world_event:
  "case find_event (wd_store lunch_world) (id_of_seq 2) of
     None \<Rightarrow> False | Some e \<Rightarrow> ev_participant_count e = 1"
  unfolding lunch_world_def synced create_lunch by code_simp

end
