(* ===== verification/Job_Life.thy ===== *)
theory Job_Life
  imports Scheduler
begin

section \<open>The life of a job in the queue\<close>

text \<open>
  The calls of the job repository as a step relation on the store, seen from one job: the
  number of a step is \<open>1\<close> when it claims that job, \<open>- 1\<close> when it reschedules it and \<open>0\<close>
  otherwise. The attempts counter of the job is the sum of its history, so that the worker,
  which hands a job to its handler only while the counter is within the limit, executes it
  at most as often as the limit allows, not counting the runs that were rescheduled.
\<close>

inductive queue_step :: "string \<Rightarrow> store \<Rightarrow> int \<Rightarrow> store \<Rightarrow> bool" for i where
  claim: "jobs_claim now lease s = (Inr j, s') \<Longrightarrow> queue_step i s (if jb_id j = i then 1 else 0) s'"
| reschedule: "jobs_reschedule k t now s = (Inr (), s') \<Longrightarrow>
    queue_step i s (if k = i then - 1 else 0) s'"
| complete: "jobs_complete k now s = (r, s') \<Longrightarrow> queue_step i s 0 s'"
| retry: "jobs_retry k t e now s = (r, s') \<Longrightarrow> queue_step i s 0 s'"
| fail: "jobs_fail k e now s = (r, s') \<Longrightarrow> queue_step i s 0 s'"
| extend: "jobs_extend_lease k t now s = (r, s') \<Longrightarrow> queue_step i s 0 s'"
| cancel: "jobs_cancel_by_event e ks now s = (r', s') \<Longrightarrow> queue_step i s 0 s'"
| enqueue: "jobs_enqueue j now s = (r'', s') \<Longrightarrow> queue_step i s 0 s'"

inductive queue_run :: "string \<Rightarrow> store \<Rightarrow> int \<Rightarrow> store \<Rightarrow> bool" for i where
  start: "queue_run i s 0 s"
| step: "queue_run i s n t \<Longrightarrow> queue_step i t m u \<Longrightarrow> queue_run i s (n + m) u"

inductive_cases queue_stepE: "queue_step i s n s'"

subsection \<open>One step\<close>

lemma update_job_lookup:
  assumes "update_job k f s = (r, s')" and "\<And>j. jb_id (f j) = jb_id j"
  shows "find_job s' i = (if i = k then map_option f (find_job s i) else find_job s i)"
  using assms find_job_change [of f k s i]
  by (auto simp: update_job_def split: option.splits)

lemma cancel_lookup:
  "find_job (snd (jobs_cancel_by_event e ks now s)) i =
   map_option (\<lambda>j. if cancels e ks j then canceled_job now j else j) (find_job s i)"
proof -
  have "List.find (\<lambda>j. jb_id j = i) (map (\<lambda>j. if cancels e ks j then canceled_job now j else j) js) =
      map_option (\<lambda>j. if cancels e ks j then canceled_job now j else j)
        (List.find (\<lambda>j. jb_id j = i) js)" for js
    by (induction js) (auto simp: canceled_job_def)
  then show ?thesis by (simp add: jobs_cancel_by_event_def find_job_def)
qed

lemma enqueue_lookup:
  "find_job s i = Some j \<Longrightarrow> find_job (snd (jobs_enqueue k now s)) i = Some j"
  by (simp add: jobs_enqueue_def next_id_def Let_def find_job_def find_append)

lemma queue_step_jobs_ok: "queue_step i s n s' \<Longrightarrow> jobs_ok s \<Longrightarrow> jobs_ok s'"
  by (erule queue_stepE)
    (use jobs_claim_ok verdict_ok jobs_extend_lease_ok jobs_cancel_by_event_ok jobs_enqueue_ok
      in \<open>metis snd_conv\<close>)+

lemma queue_step_attempts:
  assumes "queue_step i s n s'" and "jobs_ok s" and j: "find_job s i = Some j"
  shows "\<exists>j'. find_job s' i = Some j' \<and> jb_attempts j' = jb_attempts j + n \<and>
    jb_max_attempts j' = jb_max_attempts j"
  using assms(1)
proof (cases rule: queue_step.cases)
  case (claim now lease k)
  obtain t where t: "find_job s (jb_id t) = Some t" "k = claimed now lease t"
    "s' = change_job (jb_id t) (claimed now lease) s"
    using jobs_claim_cases [OF assms(2) claim(2)] by metis
  then show ?thesis
    using claim j find_job_change [of "claimed now lease" "jb_id t" s i] by (auto simp: claimed_def)
next
  case (reschedule k t now)
  then show ?thesis
    using j update_job_lookup [of k "rescheduled_job t now" s _ s' i]
    by (auto simp: jobs_reschedule_def rescheduled_job_def)
next
  case (complete k now r)
  then show ?thesis
    using j update_job_lookup [of k "completed_job now" s r s' i]
    by (auto simp: jobs_complete_def completed_job_def)
next
  case (retry k t e now r)
  then show ?thesis
    using j update_job_lookup [of k "retried_job t e now" s r s' i]
    by (auto simp: jobs_retry_def retried_job_def)
next
  case (fail k e now r)
  then show ?thesis
    using j update_job_lookup [of k "failed_job e now" s r s' i]
    by (auto simp: jobs_fail_def failed_job_def)
next
  case (extend k t now r)
  then show ?thesis
    using j find_job_change [of "\<lambda>j. j\<lparr>jb_lease_until := Some t, jb_updated_at := now\<rparr>" k s i]
    by (auto simp: jobs_extend_lease_def split: option.splits if_splits)
next
  case (cancel e ks now r)
  then show ?thesis
    using j cancel_lookup [of e ks now s i] by (auto simp: canceled_job_def)
next
  case (enqueue k now r)
  then show ?thesis using enqueue_lookup [OF j, of k now] by simp
qed

subsection \<open>Histories\<close>

lemma queue_run_attempts:
  assumes "queue_run i s n s'" and "jobs_ok s" and "find_job s i = Some j"
  shows "jobs_ok s' \<and> (\<exists>j'. find_job s' i = Some j' \<and> jb_attempts j' = jb_attempts j + n \<and>
    jb_max_attempts j' = jb_max_attempts j)"
  using assms
proof (induction rule: queue_run.induct)
  case (start s)
  then show ?case by simp
next
  case (step s n t m u)
  then obtain k where "find_job t i = Some k" "jb_attempts k = jb_attempts j + n"
    "jb_max_attempts k = jb_max_attempts j" "jobs_ok t" by blast
  with queue_step_attempts [OF step.hyps(2)] queue_step_jobs_ok [OF step.hyps(2)] show ?case
    by fastforce
qed

text \<open>The worker runs the handler of a job within its attempts, and fails it beyond them.\<close>

lemma worker_run_beyond:
  "jb_max_attempts j < jb_attempts j \<Longrightarrow>
   worker_run d j w = worker_fail j max_attempts_exceeded (dp_now d (wd_env w)) w"
  by (simp add: worker_run_def)

end
