(* ===== verification/Store_Properties.thy ===== *)
theory Store_Properties
  imports Sample_World Job_Life
begin

section \<open>Properties of the repository\<close>

text \<open>
  The properties of \<open>internal/manager/memstore\<close>: the job queue, the one-time secrets, the
  event list with its cursor and the participations. The contracts are the locales of the
  store theories; here their client lemmas are stated for the repository.
\<close>

subsection \<open>The job queue\<close>

text \<open>
  C3. However many workers claim jobs between the first claim and the end of its lease, no
  job is handed out twice: the identifiers of the claimed jobs are distinct.
\<close>
theorem claims_exclusive:
  assumes "jobs_ok s" and "\<forall>n \<in> set ns. n \<le> horizon \<and> horizon < n + lease"
    and "run_all (\<lambda>n. jobs_claim n lease) ns s = (rs, s')"
  shows "distinct (map jb_id (successes rs))"
  by (rule queue.claims_distinct [OF assms(1) _ TrueI assms(3)]) (use assms(2) in simp)

lemma sample_claims:
  "(case run_all (\<lambda>n. jobs_claim n (2 * minute)) [107 * hour, 107 * hour, 107 * hour + second] sample_store of
      (rs, s) \<Rightarrow> map jb_id (successes rs) = [id_of_seq 7, id_of_seq 8, id_of_seq 9])"
  by code_simp

theorem claims_exclusive_witness:
  "\<exists>rs s'. run_all (\<lambda>n. jobs_claim n (2 * minute)) [107 * hour, 107 * hour, 107 * hour + second]
       sample_store = (rs, s') \<and> length (successes rs) = 3 \<and> distinct (map jb_id (successes rs))"
proof -
  obtain rs s' where run: "run_all (\<lambda>n. jobs_claim n (2 * minute))
      [107 * hour, 107 * hour, 107 * hour + second] sample_store = (rs, s')" by fastforce
  have "length (map jb_id (successes rs)) = 3" using sample_claims run by auto
  moreover have "jobs_ok sample_store" using manager_ok_parts(6) [OF sample_manager_ok] .
  ultimately show ?thesis
    using claims_exclusive [OF _ _ run, of "107 * hour + second"] run
    by auto
qed

text \<open>
  C22. A claim gives out a job exactly when one can be claimed, and then one that is due, none
  due earlier being left; the stored job is running with the new lease and one more attempt,
  and no other job changes.
\<close>
theorem claim_exact:
  assumes "jobs_ok s"
  shows "((\<exists>j s'. jobs_claim now lease s = (Inr j, s')) \<longleftrightarrow>
      (\<exists>i k. find_job s i = Some k \<and> claimable k now)) \<and>
    (\<forall>j s'. jobs_claim now lease s = (Inr j, s') \<longrightarrow>
      (\<exists>t. find_job s (jb_id t) = Some t \<and> claimable t now \<and> j = claimed now lease t) \<and>
      (\<forall>i k. find_job s i = Some k \<and> claimable k now \<longrightarrow> jb_run_at j \<le> jb_run_at k) \<and>
      (\<forall>i. find_job s' i = (if i = jb_id j then Some j else find_job s i)))"
proof (intro conjI allI impI)
  show "(\<exists>j s'. jobs_claim now lease s = (Inr j, s')) \<longleftrightarrow>
      (\<exists>i k. find_job s i = Some k \<and> claimable k now)"
    using queue.claim_some [OF assms TrueI TrueI] queue.claim_taken [OF assms TrueI TrueI] by blast
  fix j s' assume c: "jobs_claim now lease s = (Inr j, s')"
  show "\<exists>t. find_job s (jb_id t) = Some t \<and> claimable t now \<and> j = claimed now lease t"
    by (rule queue.claim_taken [OF assms TrueI TrueI c])
  show "jb_run_at j \<le> jb_run_at k" if k: "find_job s i = Some k \<and> claimable k now" for i k
    using queue.claim_earliest [OF assms TrueI TrueI c] k by blast
  show "find_job s' i = (if i = jb_id j then Some j else find_job s i)" for i
    by (rule queue.claim_lookup [OF assms TrueI TrueI c])
qed

theorem claim_exact_witness: "\<exists>j s'. jobs_claim (107 * hour) minute sample_store = (Inr j, s')"
proof -
  have "case find_job sample_store (id_of_seq 6) of None \<Rightarrow> False | Some k \<Rightarrow> claimable k (107 * hour)"
    by code_simp
  then show ?thesis
    using claim_exact [OF manager_ok_parts(6) [OF sample_manager_ok], of "107 * hour" minute]
    by (auto split: option.splits)
qed

text \<open>
  However often a job is queued under one deduplication key, the queue takes it
  once, and not at all when the key was used before.
\<close>
theorem enqueue_deduplicates:
  assumes "jobs_ok s" and "\<forall>j \<in> set js. jb_dedupe_key j = key" and "key \<noteq> ''''"
    and "run_all (\<lambda>j. jobs_enqueue j now) js s = (rs, s')"
  shows "length (successes rs) = (if js = [] \<or> has_key key s then 0 else 1)"
  by (rule queue.enqueue_once [OF assms(1) _ assms(3,4)]) (use assms(2) in simp)

theorem enqueue_deduplicates_witness:
  "length (successes (fst (run_all (\<lambda>j. jobs_enqueue j 0)
     [new_archive_channel_job ''e'' 5, new_archive_channel_job ''e'' 9] new_store))) = 1"
proof -
  let ?run = "run_all (\<lambda>j. jobs_enqueue j 0)
     [new_archive_channel_job ''e'' 5, new_archive_channel_job ''e'' 9] new_store"
  have "jobs_ok new_store" "\<not> has_key ''archive:e'' new_store"
    using store_inv_parts(4) [OF store_inv_new] by (simp_all add: has_key_def new_store_def)
  then show ?thesis
    using enqueue_deduplicates [of new_store "[new_archive_channel_job ''e'' 5, new_archive_channel_job ''e'' 9]"
        "''archive:e''" 0 "fst ?run" "snd ?run"]
    by (simp add: job_constructor_defs)
qed

text \<open>
  C21. Through any history of the queue the attempts counter of a job is its value at the
  start plus its claims less its reschedules; once it is past the job's limit, the worker
  fails the job without running its handler.
\<close>
theorem attempts_bounded:
  assumes "queue_run i s n s'" and "jobs_ok s" and "find_job s i = Some j"
  shows "\<exists>j'. find_job s' i = Some j' \<and> jb_attempts j' = jb_attempts j + n \<and>
    (jb_max_attempts j < jb_attempts j + n \<longrightarrow>
       worker_run d j' w = worker_fail j' max_attempts_exceeded (dp_now d (wd_env w)) w)"
  using queue_run_attempts [OF assms] worker_run_beyond [of _ d w] by force

theorem attempts_bounded_witness:
  "\<exists>s' j'. queue_run (id_of_seq 7) sample_store 1 s' \<and> find_job s' (id_of_seq 7) = Some j' \<and>
     jb_attempts j' = 1"
proof -
  have "case jobs_claim (107 * hour) minute sample_store of
      (Inl e, s') \<Rightarrow> False | (Inr j, s') \<Rightarrow> jb_id j = id_of_seq 7"
    by code_simp
  then obtain k s' where "jobs_claim (107 * hour) minute sample_store = (Inr k, s')" "jb_id k = id_of_seq 7"
    by (auto split: prod.splits sum.splits)
  then have run: "queue_run (id_of_seq 7) sample_store 1 s'"
    using queue_run.step [OF queue_run.start queue_step.claim, of "107 * hour" minute sample_store k s'
        "id_of_seq 7"] by simp
  have "case find_job sample_store (id_of_seq 7) of None \<Rightarrow> False | Some j \<Rightarrow> jb_attempts j = 0"
    by code_simp
  then obtain j where "find_job sample_store (id_of_seq 7) = Some j" "jb_attempts j = 0"
    by (auto split: option.splits)
  with attempts_bounded [OF run manager_ok_parts(6) [OF sample_manager_ok]] run show ?thesis by fastforce
qed

subsection \<open>One-time secrets\<close>

text \<open>
  C23. Of all the requests that present one link token or one login state, at whatever times
  and in whatever order, exactly one gets it if it is still usable for one of them, and none
  otherwise.
\<close>
theorem secrets_used_once:
  "length (successes (fst (run_all (link_tokens_consume h) ns s))) =
     (if list_ex (link_token_usable s h) ns then 1 else 0) \<and>
   length (successes (fst (run_all (oauth_states_consume h) ns s))) =
     (if list_ex (oauth_state_usable s h) ns then 1 else 0)"
  using link.consumed_once [OF TrueI, of h ns s] oauth.consumed_once [OF TrueI, of h ns s]
  by (simp add: list_ex_iff prod_eq_iff)

subsection \<open>The event list\<close>

text \<open>The client's loop: ask for the next page until there is none, at most \<open>k\<close> times.\<close>

fun list_pages :: "nat \<Rightarrow> event_filter \<Rightarrow> store \<Rightarrow> event list option" where
  "list_pages 0 f s = None"
| "list_pages (Suc k) f s =
     (case fst (events_list f s) of
        Inl _ \<Rightarrow> None
      | Inr page \<Rightarrow>
          if ep_next_cursor page = '''' then Some (ep_events page)
          else map_option ((@) (ep_events page))
                 (list_pages k (f\<lparr>ef_cursor := ep_next_cursor page\<rparr>) s))"

lemma list_pages_from:
  assumes "events_ok s" and "\<forall>e \<in> set (st_events s). whole_millis (ev_starts_at e)"
    and xs: "xs = keep_events f (\<lambda>e. True) s"
    and "filter_events (f\<lparr>ef_cursor := c\<rparr>) s = Inr (drop n xs)" and "length xs - n \<le> k"
  shows "list_pages (Suc k) (f\<lparr>ef_cursor := c\<rparr>) s = Some (drop n xs)"
  using assms(4,5)
proof (induction k arbitrary: c n)
  case 0
  then show ?case by (simp add: events_list_def page_of_def)
next
  case (Suc k)
  let ?l = "page_limit f"
  have l: "page_limit (f\<lparr>ef_cursor := c\<rparr>) = ?l" by (simp add: page_limit_def)
  show ?case
  proof (cases "?l < length xs - n")
    case False
    then show ?thesis using Suc.prems(1) l by (simp add: events_list_def page_of_def)
  next
    case True
    let ?m = "n + ?l - 1"
    let ?c = "encode_mem_cursor (ev_starts_at (xs ! ?m)) (ev_id (xs ! ?m))"
    have m: "drop n xs ! (?l - 1) = xs ! ?m" "?m < length xs" "Suc ?m = n + ?l"
      using True page_limit_positive [of f] by auto
    have "filter_events (f\<lparr>ef_cursor := ?c\<rparr>) s = Inr (drop (n + ?l) xs)"
      using after_cursor [OF assms(1,2) xs m(2)] m(3) by simp
    then have "list_pages (Suc k) (f\<lparr>ef_cursor := ?c\<rparr>) s = Some (drop (n + ?l) xs)"
      using Suc.prems(2) page_limit_positive [of f] by (intro Suc.IH) auto
    moreover have "take ?l (drop n xs) @ drop (n + ?l) xs = drop n xs"
      by (metis append_take_drop_id drop_drop add.commute)
    ultimately show ?thesis
      using True Suc.prems(1) l m(1) by (subst list_pages.simps) (simp add: events_list_def page_of_def del: list_pages.simps)
  qed
qed

text \<open>
  C24. Following the cursor from page to page ends and lists every event the filter selects once,
  in order: nothing is skipped or repeated at a page boundary, whatever the page size, as long
  as the start times are whole milliseconds.
\<close>
theorem pages_complete:
  assumes "events_ok s" and "\<forall>e \<in> set (st_events s). whole_millis (ev_starts_at e)"
    and "ef_cursor f = ''''"
  shows "list_pages (Suc (length (st_events s))) f s = Some (keep_events f (\<lambda>e. True) s) \<and>
    set (keep_events f (\<lambda>e. True) s) = {e \<in> set (st_events s). matches_event_filter e f} \<and>
    sorted_wrt (\<lambda>a b. event_order b < event_order a) (keep_events f (\<lambda>e. True) s)"
proof -
  have f: "f\<lparr>ef_cursor := ''''\<rparr> = f" using assms(3) by simp
  have "length (keep_events f (\<lambda>e. True) s) \<le> length (st_events s)"
    by (simp add: keep_events_def)
  then have "list_pages (Suc (length (st_events s))) f s = Some (drop 0 (keep_events f (\<lambda>e. True) s))"
    using list_pages_from [OF assms(1,2) refl, where f = f and c = "''''" and n = 0] assms(3) f
    by (simp add: filter_events_def del: list_pages.simps)
  moreover have "set (keep_events f (\<lambda>e. True) s) = {e \<in> set (st_events s). matches_event_filter e f}"
    by (auto simp: keep_events_def)
  ultimately show ?thesis using keep_events_strict [OF assms(1)] by simp
qed

definition everything :: event_filter where
  "everything = \<lparr>ef_workspace_id = '''', ef_statuses = [], ef_ids = [], ef_starts_after = None,
                 ef_limit = 1, ef_cursor = ''''\<rparr>"

theorem pages_complete_witness: "list_pages 2 everything sample_store = Some [sample_event]"
proof -
  have "whole_millis (ev_starts_at sample_event)" "matches_event_filter sample_event everything"
    by code_simp+
  moreover have "st_events sample_store = [sample_event]" by (simp add: sample_store_def)
  ultimately show ?thesis
    using pages_complete [OF manager_ok_parts(4) [OF sample_manager_ok], of everything]
    by (simp add: everything_def keep_events_def numeral_2_eq_2 del: list_pages.simps)
qed

subsection \<open>Identifiers and participations\<close>

text \<open>
  A created event gets a well-formed identifier no event had, is found under it, and
  changes what no other identifier finds.
\<close>
theorem fresh_identifiers:
  assumes "events_ok s" and "Suc (st_seq s) < 16 ^ 24"
    and "events_create ev s = (Inr e, s')"
  shows "is_id (ev_id e) \<and> e = ev\<lparr>ev_id := ev_id e\<rparr> \<and> find_event s (ev_id e) = None \<and>
    find_event s' = (find_event s)(ev_id e \<mapsto> e)"
proof -
  let ?i = "id_of_seq (Suc (st_seq s))"
  have e: "e = ev\<lparr>ev_id := ?i\<rparr>" "s' = snd (events_create ev s)"
    using assms(3) by (auto simp: events_create_def next_id_def Let_def)
  have "find_event s ?i = None"
    using assms(1) by (simp add: find_event_def events_ok_def ids_ok_find_fresh)
  then show ?thesis
    using e find_event_create [OF assms(1), of ev] id_of_seq_is_id [OF assms(2)]
    by (auto simp: fun_eq_iff)
qed

theorem fresh_identifiers_witness:
  "\<exists>e s'. events_create sample_event sample_store = (Inr e, s') \<and> is_id (ev_id e)"
proof -
  obtain e s' where c: "events_create sample_event sample_store = (Inr e, s')"
    by (simp add: events_create_def next_id_def Let_def)
  have "Suc (st_seq sample_store) < 16 ^ 24" by (simp add: sample_store_def)
  from fresh_identifiers [OF manager_ok_parts(4) [OF sample_manager_ok] this c] c show ?thesis by blast
qed

text \<open>
  C32. An upsert never fails: it keeps one record per event and user, reports the record
  before and after, leaves every other record alone, and an active participant stays one
  whatever the upsert asks for.
\<close>
theorem participant_never_demoted:
  assumes "participations_ok s"
  shows "\<exists>c s'. participations_upsert u s = (Inr c, s') \<and> participations_ok s' \<and>
    pc_before c = find_participation s (pu_event_id u) (pu_chat_user_id u) \<and>
    (\<forall>e v. find_participation s' e v =
       (if e = pu_event_id u \<and> v = pu_chat_user_id u then Some (pc_after c)
        else find_participation s e v)) \<and>
    (counted (pc_after c) \<longleftrightarrow> was_counted (pc_before c) \<or> pu_role u = RoleParticipant)"
proof -
  obtain c s' where u: "participations_upsert u s = (Inr c, s')" using parts.upsert_returns [OF assms TrueI] by blast
  note facts = parts.upsert_inv [OF assms TrueI u] parts.upsert_before [OF assms TrueI u]
    parts.upsert_lookup [OF assms TrueI u] parts.upsert_counted [OF assms TrueI u]
  show ?thesis using u facts by (intro exI [of _ c] exI [of _ s']) blast
qed

theorem participant_never_demoted_witness:
  "\<exists>c s'. participations_upsert
     \<lparr>pu_event_id = id_of_seq 2, pu_workspace_id = id_of_seq 1, pu_chat_user_id = ''U1'',
      pu_display_name = ''Aki'', pu_role = RolePeeker, pu_expires_at = Some 5, pu_now = 1\<rparr>
     sample_store = (Inr c, s') \<and> counted (pc_after c)"
proof -
  have "was_counted (find_participation sample_store (id_of_seq 2) ''U1'')" by code_simp
  then show ?thesis
    using participant_never_demoted [OF manager_ok_parts(5) [OF sample_manager_ok],
      of "\<lparr>pu_event_id = id_of_seq 2, pu_workspace_id = id_of_seq 1, pu_chat_user_id = ''U1'',
        pu_display_name = ''Aki'', pu_role = RolePeeker, pu_expires_at = Some 5, pu_now = 1\<rparr>"]
    by fastforce
qed

end
