(* ===== verification/Fake_Provider.thy ===== *)
theory Fake_Provider
  imports Rpc_Errors Manager_Ports
begin

section \<open>The in-memory provider\<close>

text \<open>
  \<open>internal/provider/fake/provider_server.go\<close>: the provider service the tests run the manager
  against, with the idempotence and error contract every provider has. The Go maps of
  channels and users are lists of their values in insertion order (Go leaves the order of
  iteration open; the code only searches them or returns them all). \<open>FailNext\<close> queues errors
  per method. \<open>rpcerr.New\<close> needs the status package, the argument \<open>L\<close>.
\<close>

datatype proto_kind = ProtoKindUnspecified | ProtoKindSlack | ProtoKindDiscord | ProtoKindOther int

record fake_channel =
  fc_id :: string
  fc_name :: string
  fc_workspace_id :: string
  fc_topic :: string
  fc_is_private :: bool
  fc_archived :: bool
  fc_members :: "string list"

record 'm fake_post =
  fo_ref :: message_ref
  fo_message :: "'m option"
  fo_pinned :: bool
  fo_ephemeral :: bool
  fo_direct_to :: string
  fo_user_id :: string

record fake_call =
  fl_method :: string
  fl_workspace_id :: string
  fl_channel_id :: string
  fl_user_id :: string
  fl_message_id :: string

record user_info =
  ui_id :: string
  ui_display_name :: string
  ui_is_bot :: bool

record 'm fake =
  fk_kind :: proto_kind
  fk_capabilities :: capabilities
  fk_version :: string
  fk_bot_user_id :: string
  fk_connected :: bool
  fk_workspaces :: "provider_workspace list"
  fk_channels :: "fake_channel list"
  fk_posts :: "'m fake_post list"
  fk_users :: "user_info list"
  fk_calls :: "fake_call list"
  fk_failures :: "string \<Rightarrow> err list"
  fk_seq :: int

type_synonym ('m, 'a) fake_op = "('m fake, err, 'a) prog"

definition new_fake :: "'m fake" where
  "new_fake = \<lparr>fk_kind = ProtoKindSlack,
     fk_capabilities = \<lparr>cap_forms = True, cap_ephemeral = True, cap_direct_message = True\<rparr>,
     fk_version = ''fake'', fk_bot_user_id = ''UBOT'', fk_connected = True, fk_workspaces = [],
     fk_channels = [], fk_posts = [], fk_users = [], fk_calls = [], fk_failures = (\<lambda>_. []),
     fk_seq = 0\<rparr>"

definition fake_fail_next :: "string \<Rightarrow> err \<Rightarrow> 'm fake \<Rightarrow> 'm fake" where
  "fake_fail_next method e s =
     s\<lparr>fk_failures := (fk_failures s)(method := fk_failures s method @ [e])\<rparr>"

definition fake_set_connected :: "bool \<Rightarrow> 'm fake \<Rightarrow> 'm fake" where
  "fake_set_connected connected s = s\<lparr>fk_connected := connected\<rparr>"

definition fake_set_user :: "user_info \<Rightarrow> 'm fake \<Rightarrow> 'm fake" where
  "fake_set_user user s =
     s\<lparr>fk_users := delete_first (\<lambda>u. ui_id u = ui_id user) (fk_users s) @ [user]\<rparr>"

definition fake_set_workspaces :: "provider_workspace list \<Rightarrow> 'm fake \<Rightarrow> 'm fake" where
  "fake_set_workspaces ws s = s\<lparr>fk_workspaces := ws\<rparr>"

subsection \<open>Helpers\<close>

definition the_call :: "string \<Rightarrow> string \<Rightarrow> string \<Rightarrow> string \<Rightarrow> string \<Rightarrow> fake_call" where
  "the_call method workspace_id channel_id user_id message_id =
     \<lparr>fl_method = method, fl_workspace_id = workspace_id, fl_channel_id = channel_id,
      fl_user_id = user_id, fl_message_id = message_id\<rparr>"

definition fail_locked :: "fake_call \<Rightarrow> ('m, unit) fake_op" where
  "fail_locked call = (\<lambda>s.
     let s1 = s\<lparr>fk_calls := fk_calls s @ [call]\<rparr>
     in (case fk_failures s (fl_method call) of
           [] \<Rightarrow> (Inr (), s1)
         | e # queued \<Rightarrow>
             (Inl e, s1\<lparr>fk_failures := (fk_failures s)(fl_method call := queued)\<rparr>)))"

text \<open>A nil error of \<open>rpcerr.New\<close> would be returned as success without a response.\<close>

definition throw_new :: "grpc_lib \<Rightarrow> grpc_code \<Rightarrow> string \<Rightarrow> 'a \<Rightarrow> ('m, 'a) fake_op" where
  "throw_new L code reason no_response =
     (case rpc_new L code reason [] of Some e \<Rightarrow> m_throw e | None \<Rightarrow> m_return no_response)"

definition find_channel :: "'m fake \<Rightarrow> string \<Rightarrow> fake_channel option" where
  "find_channel s i = List.find (\<lambda>c. fc_id c = i) (fk_channels s)"

definition change_channel :: "string \<Rightarrow> (fake_channel \<Rightarrow> fake_channel) \<Rightarrow> 'm fake \<Rightarrow> 'm fake" where
  "change_channel i f s = s\<lparr>fk_channels := update_first (\<lambda>c. fc_id c = i) f (fk_channels s)\<rparr>"

definition is_ref :: "message_ref \<Rightarrow> 'm fake_post \<Rightarrow> bool" where
  "is_ref ref p \<longleftrightarrow> mr_channel_id (fo_ref p) = mr_channel_id ref \<and>
     mr_message_id (fo_ref p) = mr_message_id ref"

definition change_post :: "message_ref \<Rightarrow> ('m fake_post \<Rightarrow> 'm fake_post) \<Rightarrow> 'm fake \<Rightarrow> 'm fake" where
  "change_post ref f s = s\<lparr>fk_posts := update_first (is_ref ref) f (fk_posts s)\<rparr>"

text \<open>\<open>%03d\<close>\<close>

definition pad3 :: "int \<Rightarrow> string" where
  "pad3 n = pad_left 3 (CHR ''0'') (dec_of_int n)"

definition new_post :: "string \<Rightarrow> (message_ref \<Rightarrow> 'm fake_post) \<Rightarrow> ('m, message_ref) fake_op" where
  "new_post channel_id mk = (\<lambda>s.
     let n = fk_seq s + 1;
         ref = \<lparr>mr_channel_id = channel_id, mr_message_id = ''M'' @ pad3 n\<rparr>
     in (Inr ref, s\<lparr>fk_seq := n, fk_posts := fk_posts s @ [mk ref]\<rparr>))"

definition channel_info_of :: "fake_channel \<Rightarrow> channel_info" where
  "channel_info_of c = \<lparr>cf_id = fc_id c, cf_name = fc_name c, cf_is_private = fc_is_private c,
                        cf_archived = fc_archived c\<rparr>"

definition no_channel_info :: channel_info where
  "no_channel_info = \<lparr>cf_id = '''', cf_name = '''', cf_is_private = False, cf_archived = False\<rparr>"

subsection \<open>The service\<close>

definition fake_get_info ::
  "('m, proto_kind \<times> capabilities \<times> string \<times> string \<times> bool) fake_op" where
  "fake_get_info =
     m_bind (fail_locked (the_call ''GetInfo'' '''' '''' '''' '''')) (\<lambda>_.
       m_gets (\<lambda>s. Inr (fk_kind s, fk_capabilities s, fk_version s, fk_bot_user_id s, fk_connected s)))"

definition fake_list_workspaces :: "('m, provider_workspace list) fake_op" where
  "fake_list_workspaces =
     m_bind (fail_locked (the_call ''ListConnectedWorkspaces'' '''' '''' '''' '''')) (\<lambda>_.
       m_gets (\<lambda>s. Inr (fk_workspaces s)))"

definition fake_create_channel ::
  "grpc_lib \<Rightarrow> string \<Rightarrow> create_channel_input \<Rightarrow> ('m, channel_info) fake_op" where
  "fake_create_channel L ws inp =
     m_bind (fail_locked (the_call ''CreatePrivateChannel'' ws '''' '''' '''')) (\<lambda>_.
     m_bind (m_gets (\<lambda>s. Inr (list_ex (\<lambda>c. fc_name c = cc_name inp \<and> \<not> fc_archived c)
         (fk_channels s)))) (\<lambda>taken.
     if taken then throw_new L AlreadyExists reason_name_taken no_channel_info
     else (\<lambda>s.
       let n = fk_seq s + 1;
           c = \<lparr>fc_id = ''C'' @ pad3 n, fc_name = cc_name inp, fc_workspace_id = ws,
                fc_topic = cc_topic inp, fc_is_private = True, fc_archived = False,
                fc_members = fk_bot_user_id s # cc_member_ids inp\<rparr>
       in (Inr (channel_info_of c), s\<lparr>fk_seq := n, fk_channels := fk_channels s @ [c]\<rparr>))))"

definition with_channel ::
  "grpc_lib \<Rightarrow> string \<Rightarrow> 'a \<Rightarrow> (fake_channel \<Rightarrow> ('m, 'a) fake_op) \<Rightarrow> ('m, 'a) fake_op" where
  "with_channel L i no_response f =
     (\<lambda>s. case find_channel s i of
        None \<Rightarrow> throw_new L NotFound reason_channel_not_found no_response s
      | Some c \<Rightarrow> f c s)"

definition fake_add_member ::
  "grpc_lib \<Rightarrow> string \<Rightarrow> string \<Rightarrow> string \<Rightarrow> ('m, bool) fake_op" where
  "fake_add_member L ws channel_id user_id =
     m_bind (fail_locked (the_call ''AddMember'' ws channel_id user_id '''')) (\<lambda>_.
     with_channel L channel_id False (\<lambda>c.
       if user_id \<in> set (fc_members c) then m_return True
       else m_bind (m_modify (change_channel channel_id
                     (\<lambda>c. c\<lparr>fc_members := fc_members c @ [user_id]\<rparr>))) (\<lambda>_. m_return False)))"

definition fake_remove_member ::
  "grpc_lib \<Rightarrow> string \<Rightarrow> string \<Rightarrow> string \<Rightarrow> ('m, bool) fake_op" where
  "fake_remove_member L ws channel_id user_id =
     m_bind (fail_locked (the_call ''RemoveMember'' ws channel_id user_id '''')) (\<lambda>_.
     with_channel L channel_id False (\<lambda>c.
       if user_id \<in> set (fc_members c)
       then m_bind (m_modify (change_channel channel_id
                     (\<lambda>c. c\<lparr>fc_members := delete_first (\<lambda>m. m = user_id) (fc_members c)\<rparr>)))
              (\<lambda>_. m_return True)
       else m_return False))"

definition fake_archive_channel ::
  "grpc_lib \<Rightarrow> string \<Rightarrow> string \<Rightarrow> ('m, channel_info) fake_op" where
  "fake_archive_channel L ws channel_id =
     m_bind (fail_locked (the_call ''ArchiveChannel'' ws channel_id '''' '''')) (\<lambda>_.
     with_channel L channel_id no_channel_info (\<lambda>c.
       m_bind (m_modify (change_channel channel_id (\<lambda>c. c\<lparr>fc_archived := True\<rparr>))) (\<lambda>_.
         m_return (channel_info_of (c\<lparr>fc_archived := True\<rparr>)))))"

definition fake_list_channels :: "string \<Rightarrow> ('m, channel_info list) fake_op" where
  "fake_list_channels ws =
     m_bind (fail_locked (the_call ''ListChannels'' ws '''' '''' '''')) (\<lambda>_.
       m_gets (\<lambda>s. Inr (map channel_info_of
         (filter (\<lambda>c. fc_workspace_id c = ws) (fk_channels s)))))"

definition fake_post_message ::
  "string \<Rightarrow> string \<Rightarrow> 'm option \<Rightarrow> ('m, message_ref) fake_op" where
  "fake_post_message ws channel_id msg =
     m_bind (fail_locked (the_call ''PostMessage'' ws channel_id '''' '''')) (\<lambda>_.
       new_post channel_id (\<lambda>ref.
         \<lparr>fo_ref = ref, fo_message = msg, fo_pinned = False, fo_ephemeral = False,
          fo_direct_to = '''', fo_user_id = ''''\<rparr>))"

definition with_post ::
  "grpc_lib \<Rightarrow> message_ref \<Rightarrow> ('m fake_post \<Rightarrow> 'm fake_post) \<Rightarrow> ('m, unit) fake_op" where
  "with_post L ref f = (\<lambda>s.
     case List.find (is_ref ref) (fk_posts s) of
       None \<Rightarrow> throw_new L NotFound reason_message_not_found () s
     | Some _ \<Rightarrow> (Inr (), change_post ref f s))"

definition fake_update_message ::
  "grpc_lib \<Rightarrow> string \<Rightarrow> message_ref \<Rightarrow> 'm option \<Rightarrow> ('m, unit) fake_op" where
  "fake_update_message L ws ref msg =
     m_bind (fail_locked (the_call ''UpdateMessage'' ws (mr_channel_id ref) '''' (mr_message_id ref)))
       (\<lambda>_. with_post L ref (\<lambda>p. p\<lparr>fo_message := msg\<rparr>))"

definition fake_post_ephemeral ::
  "grpc_lib \<Rightarrow> string \<Rightarrow> string \<Rightarrow> string \<Rightarrow> 'm option \<Rightarrow> ('m, unit) fake_op" where
  "fake_post_ephemeral L ws channel_id user_id msg =
     m_bind (fail_locked (the_call ''PostEphemeral'' ws channel_id user_id '''')) (\<lambda>_.
     m_bind (m_gets (\<lambda>s. Inr (cap_ephemeral (fk_capabilities s)))) (\<lambda>able.
     if \<not> able then throw_new L Unimplemented reason_unsupported ()
     else m_bind (new_post channel_id (\<lambda>ref.
            \<lparr>fo_ref = ref, fo_message = msg, fo_pinned = False, fo_ephemeral = True,
             fo_direct_to = '''', fo_user_id = user_id\<rparr>)) (\<lambda>_. m_return ())))"

definition fake_send_direct_message ::
  "grpc_lib \<Rightarrow> string \<Rightarrow> string \<Rightarrow> 'm option \<Rightarrow> ('m, message_ref) fake_op" where
  "fake_send_direct_message L ws user_id msg =
     m_bind (fail_locked (the_call ''SendDirectMessage'' ws '''' user_id '''')) (\<lambda>_.
     m_bind (m_gets (\<lambda>s. Inr (cap_direct_message (fk_capabilities s)))) (\<lambda>able.
     if \<not> able then throw_new L FailedPrecondition reason_dm_blocked
                       \<lparr>mr_channel_id = '''', mr_message_id = ''''\<rparr>
     else new_post (CHR ''D'' # user_id) (\<lambda>ref.
            \<lparr>fo_ref = ref, fo_message = msg, fo_pinned = False, fo_ephemeral = False,
             fo_direct_to = user_id, fo_user_id = ''''\<rparr>)))"

definition fake_pin_message :: "grpc_lib \<Rightarrow> string \<Rightarrow> message_ref \<Rightarrow> ('m, unit) fake_op" where
  "fake_pin_message L ws ref =
     m_bind (fail_locked (the_call ''PinMessage'' ws (mr_channel_id ref) '''' (mr_message_id ref)))
       (\<lambda>_. with_post L ref (\<lambda>p. p\<lparr>fo_pinned := True\<rparr>))"

definition fake_unpin_message :: "string \<Rightarrow> message_ref \<Rightarrow> ('m, unit) fake_op" where
  "fake_unpin_message ws ref =
     m_bind (fail_locked (the_call ''UnpinMessage'' ws (mr_channel_id ref) '''' (mr_message_id ref)))
       (\<lambda>_. m_modify (change_post ref (\<lambda>p. p\<lparr>fo_pinned := False\<rparr>)))"

definition fake_resolve_user :: "string \<Rightarrow> string \<Rightarrow> ('m, user_info) fake_op" where
  "fake_resolve_user ws user_id =
     m_bind (fail_locked (the_call ''ResolveUser'' ws '''' user_id '''')) (\<lambda>_.
       m_gets (\<lambda>s. Inr (case List.find (\<lambda>u. ui_id u = user_id) (fk_users s) of
           Some u \<Rightarrow> u
         | None \<Rightarrow> \<lparr>ui_id = user_id, ui_display_name = user_id, ui_is_bot = False\<rparr>)))"

end
