(* ===== verification/Provider_Client.thy ===== *)
theory Provider_Client
  imports Fake_Provider Channel_Name
begin

section \<open>The client side of the provider port\<close>

text \<open>
  \<open>internal/manager/providerclient/client.go\<close>, \<open>channel.go\<close> and \<open>message.go\<close>: each port call
  is a stub call whose error is mapped. A stub is an argument (generated code); deadlines are
  left out. The locale \<open>provider_port\<close> is the contract of \<open>usecase.ProviderPort\<close> on channel
  members: adding and removing say whether anything changed and do not fail when it did not.
  It is interpreted on the client in front of the in-memory provider.
\<close>

definition client_call :: "grpc_lib \<Rightarrow> string \<Rightarrow> ('e, err, 'a) prog \<Rightarrow> ('e, err, 'a) prog" where
  "client_call L op stub = (\<lambda>s. case stub s of
     (Inl e, s') \<Rightarrow> (Inl (map_error L e op), s')
   | (Inr x, s') \<Rightarrow> (Inr x, s'))"

definition provider_kind_of :: "proto_kind \<Rightarrow> provider_kind" where
  "provider_kind_of k =
     (case k of
        ProtoKindSlack \<Rightarrow> ProviderKindSlack
      | ProtoKindDiscord \<Rightarrow> ProviderKindDiscord
      | _ \<Rightarrow> ProviderKindOther '''')"

definition client_get_info ::
  "grpc_lib \<Rightarrow> ('e, err, proto_kind \<times> capabilities \<times> string \<times> string \<times> bool) prog
   \<Rightarrow> ('e, err, provider_info) prog" where
  "client_get_info L stub =
     m_bind (client_call L ''get info'' stub) (\<lambda>(kind, caps, version, bot, connected).
       m_return \<lparr>pi_kind = provider_kind_of kind, pi_capabilities = caps, pi_version = version,
                 pi_bot_user_id = bot, pi_connected = connected\<rparr>)"

definition client_list_workspaces ::
  "grpc_lib \<Rightarrow> ('e, err, provider_workspace list) prog \<Rightarrow> ('e, err, provider_workspace list) prog" where
  "client_list_workspaces L stub = client_call L ''list connected workspaces'' stub"

definition client_create_channel ::
  "grpc_lib \<Rightarrow> (workspace_ref \<Rightarrow> create_channel_input \<Rightarrow> ('e, err, channel_info) prog)
   \<Rightarrow> workspace_ref \<Rightarrow> create_channel_input \<Rightarrow> ('e, err, channel_info) prog" where
  "client_create_channel L stub ws inp =
     client_call L ''create private channel'' (stub ws inp)"

definition client_add_member ::
  "grpc_lib \<Rightarrow> (workspace_ref \<Rightarrow> string \<Rightarrow> string \<Rightarrow> ('e, err, bool) prog)
   \<Rightarrow> workspace_ref \<Rightarrow> string \<Rightarrow> string \<Rightarrow> ('e, err, bool) prog" where
  "client_add_member L stub ws channel_id user_id =
     client_call L ''add member'' (stub ws channel_id user_id)"

definition client_remove_member ::
  "grpc_lib \<Rightarrow> (workspace_ref \<Rightarrow> string \<Rightarrow> string \<Rightarrow> ('e, err, bool) prog)
   \<Rightarrow> workspace_ref \<Rightarrow> string \<Rightarrow> string \<Rightarrow> ('e, err, bool) prog" where
  "client_remove_member L stub ws channel_id user_id =
     client_call L ''remove member'' (stub ws channel_id user_id)"

definition client_archive_channel ::
  "grpc_lib \<Rightarrow> (workspace_ref \<Rightarrow> string \<Rightarrow> ('e, err, channel_info) prog)
   \<Rightarrow> workspace_ref \<Rightarrow> string \<Rightarrow> string \<Rightarrow> ('e, err, channel_info) prog" where
  "client_archive_channel L stub ws channel_id archive_category_id =
     client_call L ''archive channel'' (stub ws channel_id)"

text \<open>\<open>int32(pageSize)\<close>\<close>

definition to_int32 :: "int \<Rightarrow> int" where
  "to_int32 n = (n + 2 ^ 31) mod 2 ^ 32 - 2 ^ 31"

definition client_list_channels ::
  "grpc_lib \<Rightarrow> (workspace_ref \<Rightarrow> int \<Rightarrow> string \<Rightarrow> ('e, err, channel_info list \<times> string) prog)
   \<Rightarrow> workspace_ref \<Rightarrow> string \<Rightarrow> int \<Rightarrow> ('e, err, channel_info list \<times> string) prog" where
  "client_list_channels L stub ws page_token page_size =
     client_call L ''list channels'' (stub ws (to_int32 page_size) page_token)"

definition client_post_message ::
  "grpc_lib \<Rightarrow> (workspace_ref \<Rightarrow> string \<Rightarrow> 'm option \<Rightarrow> ('e, err, message_ref) prog)
   \<Rightarrow> workspace_ref \<Rightarrow> string \<Rightarrow> 'm option \<Rightarrow> ('e, err, message_ref) prog" where
  "client_post_message L stub ws channel_id msg =
     client_call L ''post message'' (stub ws channel_id msg)"

definition client_update_message ::
  "grpc_lib \<Rightarrow> (workspace_ref \<Rightarrow> message_ref \<Rightarrow> 'm option \<Rightarrow> ('e, err, unit) prog)
   \<Rightarrow> workspace_ref \<Rightarrow> message_ref \<Rightarrow> 'm option \<Rightarrow> ('e, err, unit) prog" where
  "client_update_message L stub ws ref msg =
     client_call L ''update message'' (stub ws ref msg)"

definition client_post_ephemeral ::
  "grpc_lib \<Rightarrow> (workspace_ref \<Rightarrow> string \<Rightarrow> string \<Rightarrow> 'm option \<Rightarrow> ('e, err, unit) prog)
   \<Rightarrow> workspace_ref \<Rightarrow> string \<Rightarrow> string \<Rightarrow> 'm option \<Rightarrow> ('e, err, unit) prog" where
  "client_post_ephemeral L stub ws channel_id user_id msg =
     client_call L ''post ephemeral'' (stub ws channel_id user_id msg)"

definition client_send_direct_message ::
  "grpc_lib \<Rightarrow> (workspace_ref \<Rightarrow> string \<Rightarrow> 'm option \<Rightarrow> ('e, err, message_ref) prog)
   \<Rightarrow> workspace_ref \<Rightarrow> string \<Rightarrow> 'm option \<Rightarrow> ('e, err, message_ref) prog" where
  "client_send_direct_message L stub ws user_id msg =
     client_call L ''send direct message'' (stub ws user_id msg)"

definition client_pin_message ::
  "grpc_lib \<Rightarrow> (workspace_ref \<Rightarrow> message_ref \<Rightarrow> ('e, err, unit) prog)
   \<Rightarrow> workspace_ref \<Rightarrow> message_ref \<Rightarrow> ('e, err, unit) prog" where
  "client_pin_message L stub ws ref = client_call L ''pin message'' (stub ws ref)"

definition client_unpin_message ::
  "grpc_lib \<Rightarrow> (workspace_ref \<Rightarrow> message_ref \<Rightarrow> ('e, err, unit) prog)
   \<Rightarrow> workspace_ref \<Rightarrow> message_ref \<Rightarrow> ('e, err, unit) prog" where
  "client_unpin_message L stub ws ref = client_call L ''unpin message'' (stub ws ref)"

definition client_resolve_user ::
  "grpc_lib \<Rightarrow> (workspace_ref \<Rightarrow> string \<Rightarrow> ('e, err, user_info) prog)
   \<Rightarrow> workspace_ref \<Rightarrow> string \<Rightarrow> ('e, err, user_info) prog" where
  "client_resolve_user L stub ws user_id =
     client_call L ''resolve user'' (stub ws user_id)"

subsection \<open>The contract on channel members\<close>

locale provider_port =
  fixes members :: "'e \<Rightarrow> string \<Rightarrow> string list option"
    and add_member :: "string \<Rightarrow> string \<Rightarrow> ('e, err, bool) prog"
    and remove_member :: "string \<Rightarrow> string \<Rightarrow> ('e, err, bool) prog"
  assumes add_Inr: "add_member c u s = (Inr already, s') \<Longrightarrow>
      \<exists>ms. members s c = Some ms \<and> already = (u \<in> set ms) \<and>
        members s' = (members s)(c \<mapsto> (if u \<in> set ms then ms else ms @ [u]))"
    and add_Inl: "add_member c u s = (Inl e, s') \<Longrightarrow> members s' = members s"
    and remove_Inr: "remove_member c u s = (Inr was, s') \<Longrightarrow>
      \<exists>ms. members s c = Some ms \<and> was = (u \<in> set ms) \<and>
        members s' = (members s)(c \<mapsto> delete_first (\<lambda>m. m = u) ms)"
    and remove_Inl: "remove_member c u s = (Inl e, s') \<Longrightarrow> members s' = members s"
begin

definition is_member :: "'e \<Rightarrow> string \<Rightarrow> string \<Rightarrow> bool" where
  "is_member s c u \<longleftrightarrow> (\<exists>ms. members s c = Some ms \<and> u \<in> set ms)"

definition members_distinct :: "'e \<Rightarrow> bool" where
  "members_distinct s \<longleftrightarrow> (\<forall>c ms. members s c = Some ms \<longrightarrow> distinct ms)"

lemma add_distinct: "members_distinct s \<Longrightarrow> add_member c u s = (r, s') \<Longrightarrow> members_distinct s'"
proof (cases r)
  case (Inl e)
  then show "members_distinct s \<Longrightarrow> add_member c u s = (r, s') \<Longrightarrow> members_distinct s'"
    using add_Inl by (auto simp: members_distinct_def)
next
  case (Inr x)
  then show "members_distinct s \<Longrightarrow> add_member c u s = (r, s') \<Longrightarrow> members_distinct s'"
    using add_Inr by (fastforce simp: members_distinct_def)
qed

text \<open>Adding twice is adding once, and says so.\<close>

lemma add_twice:
  assumes "add_member c u s = (Inr a, s1)" and "add_member c u s1 = (Inr b, s2)"
  shows "b \<and> members s2 = members s1"
proof -
  from add_Inr [OF assms(1)] obtain ms where ms: "members s1 c = Some ms" "u \<in> set ms"
    by fastforce
  with add_Inr [OF assms(2)] show ?thesis by (auto simp: fun_upd_idem)
qed

lemma after_add: "add_member c u s = (Inr a, s') \<Longrightarrow> is_member s' c u"
  by (drule add_Inr) (auto simp: is_member_def)

lemma after_remove:
  assumes "members_distinct s" and "remove_member c u s = (Inr was, s')"
  shows "\<not> is_member s' c u" and "was \<longleftrightarrow> is_member s c u"
    and "v \<noteq> u \<or> c' \<noteq> c \<Longrightarrow> is_member s' c' v \<longleftrightarrow> is_member s c' v"
proof -
  obtain ms where ms: "members s c = Some ms" "was = (u \<in> set ms)"
    "members s' = (members s)(c \<mapsto> delete_first (\<lambda>m. m = u) ms)"
    using remove_Inr [OF assms(2)] by blast
  have "distinct ms" using assms(1) ms(1) by (auto simp: members_distinct_def)
  then have "set (delete_first (\<lambda>m. m = u) ms) = set ms - {u}"
    by (induction ms) auto
  with ms show "\<not> is_member s' c u" "was \<longleftrightarrow> is_member s c u"
    "v \<noteq> u \<or> c' \<noteq> c \<Longrightarrow> is_member s' c' v \<longleftrightarrow> is_member s c' v"
    by (auto simp: is_member_def)
qed

end

text \<open>The client in front of the in-memory provider.\<close>

definition channel_members :: "'m fake \<Rightarrow> string \<Rightarrow> string list option" where
  "channel_members s i = map_option fc_members (find_channel s i)"

definition fake_client_add :: "grpc_lib \<Rightarrow> workspace_ref \<Rightarrow> string \<Rightarrow> string \<Rightarrow> ('m, bool) fake_op" where
  "fake_client_add L = client_add_member L (\<lambda>ws. fake_add_member L (wr_external_id ws))"

definition fake_client_remove :: "grpc_lib \<Rightarrow> workspace_ref \<Rightarrow> string \<Rightarrow> string \<Rightarrow> ('m, bool) fake_op" where
  "fake_client_remove L = client_remove_member L (\<lambda>ws. fake_remove_member L (wr_external_id ws))"

lemma fail_locked_channels [simp]: "fk_channels (snd (fail_locked call s)) = fk_channels s"
  by (simp add: fail_locked_def Let_def split: list.split)

lemma find_channel_change:
  assumes "\<And>c. fc_id (f c) = fc_id c"
  shows "find_channel (change_channel i f s) j =
    (if j = i then map_option f (find_channel s i) else find_channel s j)"
  using assms
  by (auto simp: find_channel_def change_channel_def find_update_first find_update_first_other)

lemma fake_add_run:
  "grpc_documented L \<Longrightarrow> fake_client_add L ws c u s =
     (case fail_locked (the_call ''AddMember'' (wr_external_id ws) c u '''') s of
        (Inl e, s1) \<Rightarrow> (Inl (map_error L e ''add member''), s1)
      | (Inr _, s1) \<Rightarrow>
          (case find_channel s1 c of
             None \<Rightarrow> (Inl (map_error L (ErrStatus NotFound
               [\<lparr>ei_reason = reason_channel_not_found, ei_domain = rpc_domain, ei_metadata = []\<rparr>])
               ''add member''), s1)
           | Some ch \<Rightarrow>
               if u \<in> set (fc_members ch) then (Inr True, s1)
               else (Inr False,
                 change_channel c (\<lambda>ch. ch\<lparr>fc_members := fc_members ch @ [u]\<rparr>) s1)))"
  by (auto simp: fake_client_add_def client_add_member_def client_call_def fake_add_member_def
      run_bind with_channel_def throw_new_def rpc_new_documented
      split: prod.split sum.split option.split)

lemma fake_remove_run:
  "grpc_documented L \<Longrightarrow> fake_client_remove L ws c u s =
     (case fail_locked (the_call ''RemoveMember'' (wr_external_id ws) c u '''') s of
        (Inl e, s1) \<Rightarrow> (Inl (map_error L e ''remove member''), s1)
      | (Inr _, s1) \<Rightarrow>
          (case find_channel s1 c of
             None \<Rightarrow> (Inl (map_error L (ErrStatus NotFound
               [\<lparr>ei_reason = reason_channel_not_found, ei_domain = rpc_domain, ei_metadata = []\<rparr>])
               ''remove member''), s1)
           | Some ch \<Rightarrow>
               if u \<in> set (fc_members ch)
               then (Inr True, change_channel c
                 (\<lambda>ch. ch\<lparr>fc_members := delete_first (\<lambda>m. m = u) (fc_members ch)\<rparr>) s1)
               else (Inr False, s1)))"
  by (auto simp: fake_client_remove_def client_remove_member_def client_call_def
      fake_remove_member_def run_bind with_channel_def throw_new_def
      rpc_new_documented
      split: prod.split sum.split option.split)

lemma channel_members_fail [simp]:
  "fail_locked call s = (r, s1) \<Longrightarrow> channel_members s1 = channel_members s"
  using fail_locked_channels [of call s] by (simp add: channel_members_def find_channel_def fun_eq_iff)

lemma channel_members_change:
  assumes "find_channel s c = Some ch" and "\<And>x. fc_id (f x) = fc_id x"
  shows "channel_members (change_channel c f s) = (channel_members s)(c \<mapsto> fc_members (f ch))"
  using assms by (auto simp: channel_members_def find_channel_change fun_eq_iff)

lemma fake_provider_port:
  assumes documented: "grpc_documented L"
  shows "provider_port channel_members (fake_client_add L ws) (fake_client_remove L ws)"
proof unfold_locales
  note fake_add_run = fake_add_run [OF documented]
  note fake_remove_run = fake_remove_run [OF documented]
  fix c u :: string and s s' :: "'m fake" and already was e
  show "\<exists>ms. channel_members s c = Some ms \<and> already = (u \<in> set ms) \<and>
      channel_members s' = (channel_members s)(c \<mapsto> (if u \<in> set ms then ms else ms @ [u]))"
    if run: "fake_client_add L ws c u s = (Inr already, s')"
  proof -
    obtain s1 ch where f: "fail_locked (the_call ''AddMember'' (wr_external_id ws) c u '''') s = (Inr (), s1)"
      and ch: "find_channel s1 c = Some ch"
      and r: "already = (u \<in> set (fc_members ch))" "s' = (if u \<in> set (fc_members ch) then s1
        else change_channel c (\<lambda>ch. ch\<lparr>fc_members := fc_members ch @ [u]\<rparr>) s1)"
      using run by (auto simp: fake_add_run split: prod.splits sum.splits option.splits if_splits)
    have "channel_members s c = Some (fc_members ch)"
      using fun_cong [OF channel_members_fail [OF f], of c] ch by (simp add: channel_members_def)
    then show ?thesis
      using r channel_members_fail [OF f] channel_members_change [OF ch] ch
      by (auto simp: fun_upd_idem)
  qed
  show "channel_members s' = channel_members s"
    if "fake_client_add L ws c u s = (Inl e, s')"
    using that by (auto simp: fake_add_run split: prod.splits sum.splits option.splits if_splits)
  show "\<exists>ms. channel_members s c = Some ms \<and> was = (u \<in> set ms) \<and>
      channel_members s' = (channel_members s)(c \<mapsto> delete_first (\<lambda>m. m = u) ms)"
    if run: "fake_client_remove L ws c u s = (Inr was, s')"
  proof -
    obtain s1 ch where f: "fail_locked (the_call ''RemoveMember'' (wr_external_id ws) c u '''') s = (Inr (), s1)"
      and ch: "find_channel s1 c = Some ch"
      and r: "was = (u \<in> set (fc_members ch))" "s' = (if u \<in> set (fc_members ch)
        then change_channel c (\<lambda>ch. ch\<lparr>fc_members := delete_first (\<lambda>m. m = u) (fc_members ch)\<rparr>) s1
        else s1)"
      using run by (auto simp: fake_remove_run split: prod.splits sum.splits option.splits if_splits)
    have mem: "channel_members s c = Some (fc_members ch)"
      using fun_cong [OF channel_members_fail [OF f], of c] ch by (simp add: channel_members_def)
    have "u \<notin> set xs \<Longrightarrow> delete_first (\<lambda>m. m = u) xs = xs" for xs :: "string list"
      by (induction xs) auto
    with mem show ?thesis
      using r channel_members_fail [OF f] channel_members_change [OF ch] ch
      by (auto simp: fun_upd_idem)
  qed
  show "channel_members s' = channel_members s"
    if "fake_client_remove L ws c u s = (Inl e, s')"
    using that by (auto simp: fake_remove_run split: prod.splits sum.splits option.splits if_splits)
qed

interpretation fake_port: provider_port channel_members "fake_client_add sample_grpc ws"
  "fake_client_remove sample_grpc ws" for ws
  by (rule fake_provider_port [OF sample_grpc_documented])

end
