(* ===== verification/Provider_Properties.thy ===== *)
theory Provider_Properties
  imports Sample_World Provider_Client
begin

section \<open>Properties of the provider boundary\<close>

text \<open>
  The properties of \<open>internal/shared/rpcerr\<close>, \<open>internal/manager/providerclient\<close> and the
  in-memory provider. The status package of gRPC is a parameter; where a property needs its
  documented behaviour, \<open>grpc_documented\<close> is a hypothesis.
\<close>

text \<open>
  C33. The reason, the metadata and the code a provider puts into an error are what the
  manager reads out of it, and the manager maps the error by its reason first, then by its
  code; an error neither names is passed on.
\<close>
theorem errors_cross_the_wire:
  assumes "grpc_documented L" and "code \<noteq> OK"
  shows "\<exists>e. rpc_new L code reason md = Some e \<and> rpc_reason L (Some e) = reason \<and>
    rpc_metadata L (Some e) = Some md \<and> rpc_code L (Some e) = code \<and>
    map_error L e op =
      (case by_reason reason of
         Some m \<Rightarrow> ErrWrapped op m
       | None \<Rightarrow> (case by_code code of Some m \<Rightarrow> ErrWrapped op m | None \<Rightarrow> ErrWrapped op e))"
proof -
  obtain e where e: "rpc_new L code reason md = Some e"
    using rpc_new_documented [OF assms] by blast
  have "rpc_info L (Some e) = Some \<lparr>ei_reason = reason, ei_domain = rpc_domain, ei_metadata = md\<rparr>"
    using rpc_info_new [OF assms, of reason md] e by simp
  moreover have "rpc_code L (Some e) = code"
    using assms rpc_new_documented [OF assms, of reason md] e
    by (auto simp: rpc_code_def grpc_documented_def)
  ultimately show ?thesis
    using map_error_reason [OF assms e] e by (auto simp: rpc_reason_def rpc_metadata_def)
qed

theorem errors_cross_the_wire_witness:
  "\<exists>e. rpc_new sample_grpc FailedPrecondition reason_dm_blocked [] = Some e \<and>
     map_error sample_grpc e ''send'' = ErrWrapped ''send'' ErrDMBlocked"
  using errors_cross_the_wire [OF sample_grpc_documented, of FailedPrecondition reason_dm_blocked "[]" "''send''"]
  by (auto simp: by_reason_def reason_defs)

text \<open>The members of a channel as a set.\<close>

definition member_set :: "'m fake \<Rightarrow> string \<Rightarrow> string set option" where
  "member_set s c = map_option set (channel_members s c)"

definition no_duplicates :: "'m fake \<Rightarrow> bool" where
  "no_duplicates s \<longleftrightarrow> (\<forall>c \<in> set (fk_channels s). distinct (fc_members c))"

lemma no_duplicates_members:
  "no_duplicates s \<Longrightarrow> channel_members s c = Some ms \<Longrightarrow> distinct ms"
  by (auto simp: no_duplicates_def channel_members_def find_channel_def dest: find_SomeD)

text \<open>
  C25. The manager's client in front of the in-memory provider implements sets of members:
  adding inserts, removing deletes, the answer says whether the user was in before, and a call
  that fails changes no membership. So repeating a call is harmless, which the retries of the
  manager rely on.
\<close>
theorem membership_refines_sets:
  assumes "grpc_documented L" and "no_duplicates s"
  shows "(case fake_client_add L ws c u s of
       (Inr already, s') \<Rightarrow> (\<exists>ms. member_set s c = Some ms \<and> already = (u \<in> ms) \<and>
          member_set s' = (member_set s)(c \<mapsto> insert u ms))
     | (Inl _, s') \<Rightarrow> member_set s' = member_set s) \<and>
    (case fake_client_remove L ws c u s of
       (Inr was, s') \<Rightarrow> (\<exists>ms. member_set s c = Some ms \<and> was = (u \<in> ms) \<and>
          member_set s' = (member_set s)(c \<mapsto> ms - {u}))
     | (Inl _, s') \<Rightarrow> member_set s' = member_set s)"
  (is "?add \<and> ?remove")
proof
  note add = provider_port.add_Inr [OF fake_provider_port [OF assms(1)]]
    provider_port.add_Inl [OF fake_provider_port [OF assms(1)]]
  note remove = provider_port.remove_Inr [OF fake_provider_port [OF assms(1)]]
    provider_port.remove_Inl [OF fake_provider_port [OF assms(1)]]
  show ?add
  proof (cases "fake_client_add L ws c u s")
    case (Pair r s')
    then show ?thesis
    proof (cases r)
      case (Inl e)
      then show ?thesis using Pair add(2) [of ws c u s e s'] by (simp add: member_set_def fun_eq_iff)
    next
      case (Inr b)
      then obtain ms where "channel_members s c = Some ms" "b = (u \<in> set ms)"
        "channel_members s' = (channel_members s)(c \<mapsto> (if u \<in> set ms then ms else ms @ [u]))"
        using add(1) [of ws c u s b s'] Pair by blast
      then show ?thesis using Pair Inr by (auto simp: member_set_def fun_eq_iff)
    qed
  qed
  show ?remove
  proof (cases "fake_client_remove L ws c u s")
    case (Pair r s')
    then show ?thesis
    proof (cases r)
      case (Inl e)
      then show ?thesis using Pair remove(2) [of ws c u s e s'] by (simp add: member_set_def fun_eq_iff)
    next
      case (Inr b)
      then obtain ms where ms: "channel_members s c = Some ms" "b = (u \<in> set ms)"
        "channel_members s' = (channel_members s)(c \<mapsto> delete_first (\<lambda>m. m = u) ms)"
        using remove(1) [of ws c u s b s'] Pair by blast
      have "distinct ms" using no_duplicates_members [OF assms(2) ms(1)] .
      then have "set (delete_first (\<lambda>m. m = u) ms) = set ms - {u}" by (induction ms) auto
      then show ?thesis using Pair Inr ms by (auto simp: member_set_def fun_eq_iff)
    qed
  qed
qed

definition sample_fake :: "unit fake" where
  "sample_fake = new_fake\<lparr>fk_channels := [\<lparr>fc_id = ''C1'', fc_name = ''ev'', fc_workspace_id = ''T1'',
     fc_topic = '''', fc_is_private = True, fc_archived = False, fc_members = [''UBOT'']\<rparr>]\<rparr>"

theorem membership_refines_sets_witness:
  "\<exists>s'. fake_client_add sample_grpc \<lparr>wr_workspace_id = '''', wr_external_id = ''T1''\<rparr> ''C1'' ''U'' sample_fake =
      (Inr False, s') \<and> member_set s' ''C1'' = Some {''U'', ''UBOT''}"
proof -
  have nd: "no_duplicates sample_fake" by (simp add: no_duplicates_def sample_fake_def)
  let ?ws = "\<lparr>wr_workspace_id = '''', wr_external_id = ''T1''\<rparr>"
  have ms: "member_set sample_fake ''C1'' = Some {''UBOT''}"
    by (simp add: member_set_def channel_members_def find_channel_def sample_fake_def)
  have "\<exists>s'. fake_client_add sample_grpc ?ws ''C1'' ''U'' sample_fake = (Inr False, s')"
    by (simp add: fake_add_run [OF sample_grpc_documented] fail_locked_def find_channel_def
        sample_fake_def new_fake_def Let_def)
  then obtain s' where run: "fake_client_add sample_grpc ?ws ''C1'' ''U'' sample_fake = (Inr False, s')" by blast
  then show ?thesis
    using membership_refines_sets [OF sample_grpc_documented nd, where ws = ?ws and c = "''C1''" and u = "''U''"] ms by auto
qed

definition sample_monitor :: monitor_config where
  "sample_monitor = monitor_defaults \<lparr>mc_address = ''p'', mc_interval = 0, mc_offline_after = 0,
     mc_min_backoff = 0, mc_max_backoff = 0\<rparr>"

text \<open>
  C34. After a provider has answered, failures in a row leave it online until their number
  reaches the threshold (three by default) and offline from then on, unless it said it was not
  connected to its platform; the next answer of a connected provider brings it back.
\<close>
theorem offline_after_failures:
  assumes "nows \<noteq> []" and "failed = failures_from c nows (observe c now info st)"
  shows "(ps_status failed = ProviderStatusOnline \<longleftrightarrow>
      pi_connected info \<and> int (length nows) < mc_offline_after c) \<and>
    ps_failures failed = int (length nows) \<and>
    (ps_status (observe c later info' failed) = ProviderStatusOnline \<longleftrightarrow>
      pi_connected info' \<and> 0 < mc_offline_after c)"
  using failures_from_status [OF assms(1), of c "observe c now info st"]
    failures_from_count [of c nows "observe c now info st"]
  by (auto simp: assms(2) observe_def decide_provider_status_def)

theorem offline_after_failures_witness:
  "\<exists>info st. ps_status (failures_from sample_monitor [1, 2] (observe sample_monitor 0 info st)) =
       ProviderStatusOnline \<and>
     ps_status (failures_from sample_monitor [1, 2, 3] (observe sample_monitor 0 info st)) =
       ProviderStatusOffline"
proof -
  define info where "info = \<lparr>pi_kind = ProviderKindSlack,
    pi_capabilities = ps_capabilities sample_state, pi_version = ''1'', pi_bot_user_id = ''B'',
    pi_connected = True\<rparr>"
  have "mc_offline_after sample_monitor = 3" by code_simp
  moreover have "s \<noteq> ProviderStatusOnline \<Longrightarrow> s = ProviderStatusOffline" for s by (cases s) auto
  ultimately show ?thesis
    using offline_after_failures [OF _ refl, of "[1, 2]" sample_monitor 0 info sample_state]
      offline_after_failures [OF _ refl, of "[1, 2, 3]" sample_monitor 0 info sample_state]
    by (intro exI [of _ info] exI [of _ sample_state]) (simp add: info_def)
qed




end
