(* ===== verification/Spec2Isabelle.thy ===== *)
theory Spec2Isabelle
  imports Mongo_Properties Bot_Properties Dispatch_Properties Process_Properties Findings Sample_Run Store_Properties Provider_Properties Domain_Properties
begin

text \<open>
  A model of aso-bell, a bot that plans outings in Slack or Discord: the manager keeps events,
  participants and a job queue in a repository and drives a chat platform through a provider
  process, over gRPC. Modelled is the Go code of the manager's core: its domain, its use
  cases, its scheduler, its repositories in memory and in MongoDB, the client of the provider and
  the in-memory provider, the rules for channel names, the error contract of the RPC boundary, the
  markup of messages, the bot that answers commands, buttons and forms, the service the provider
  calls, the authentication of calls and the settings of the processes.

  How the parts interact. A use case (\<open>internal/manager/usecase\<close>) reads and writes the
  repository and calls ports: the provider, the clock, the message renderer, time zones, random
  bytes. Here it is a program over a \<open>world\<close>, the repository \<open>wd_store\<close> with an environment
  \<open>wd_env\<close> of any type; the ports are the functions of the record \<open>deps\<close>, so a port may fail,
  take time or change anything outside, but not the repository. Programs are in the state and
  exception monad of \<open>Manager_Prelude\<close>: the Go convention \<open>(value, error)\<close> is a sum, an early
  return is \<open>m_bind\<close> or \<open>m_throw\<close>, an error that is looked at is \<open>m_try\<close>, and what was written before
  an error stays written. The worker claims jobs from the repository and runs the use cases; the
  dispatcher (\<open>internal/manager/bot\<close>) turns what arrives from the provider into calls of the use
  cases and every result, errors included, into an answer.

  The theories, from the bottom up.
  \<^item> \<open>Manager_Prelude\<close>: the monad, the rules \<open>preserves_intros\<close> that carry an invariant through a
    program, slices of records, decimal and hexadecimal text. \<open>Go_Strings\<close>, \<open>Go_Time\<close>: what the
    code uses of the packages strings, strconv, unicode and time; instants are nanoseconds as
    \<open>int\<close>, and a time zone is a function from the instant to the offset.
  \<^item> \<open>Domain_Errors\<close>, \<open>Domain_Reminder\<close>, \<open>Domain_Job\<close>, \<open>Domain_Participation\<close>, \<open>Domain_Event\<close>,
    \<open>Domain_Workspace\<close>, \<open>Domain_Account\<close>: the files of \<open>internal/manager/domain\<close> of these names
    (\<open>timeofday.go\<close> is with reminders, \<open>provider.go\<close> with workspaces, \<open>ids.go\<close> with errors).
    \<open>Channel_Name\<close>: \<open>internal/shared/channelname\<close>. \<open>Rpc_Errors\<close>: \<open>internal/shared/rpcerr\<close> and the
    error mapping of \<open>providerclient/client.go\<close>.
  \<^item> \<open>Store\<close>, \<open>Store_Events\<close>, \<open>Store_Participations\<close>, \<open>Store_Jobs\<close>, \<open>Store_Accounts\<close>: every method of
    \<open>internal/manager/memstore/memstore.go\<close> on the record \<open>store\<close>, one list for each slice; each
    collection has its condition, and the contracts its callers rely on are the locales
    \<open>participation_repo\<close>, \<open>job_queue\<close> and \<open>one_shot\<close>, interpreted on the methods.
    \<open>Store_Invariant\<close> puts the conditions together and shows that every method keeps them.
  \<^item> \<open>Mongo_Documents\<close> (\<open>docs.go\<close>, \<open>convert.go\<close>), \<open>Mongo_Driver\<close> (\<open>store.go\<close>, \<open>indexes.go\<close>), \<open>Mongo_Jobs\<close>, \<open>Mongo_Events\<close>
    (with \<open>workspaces.go\<close>, \<open>meta.go\<close> and \<open>app/migrate.go\<close>), \<open>Mongo_People\<close> (\<open>participations.go\<close>,
    \<open>reminderlogs.go\<close>, \<open>accounts.go\<close>): every method of \<open>internal/manager/store/mongo\<close>, with the filters,
    updates and the pipeline it sends, over the record \<open>mongo_driver\<close>. \<open>Mongo_Codec\<close>: documents are read
    as they were written. \<open>Mongo_Queue\<close>, \<open>Mongo_Secrets\<close>, \<open>Mongo_Members\<close>: interpretations of the contracts
    \<open>job_queue\<close>, \<open>one_shot\<close> and \<open>participation_repo\<close> on these methods; \<open>Mongo_Pages\<close>, \<open>Mongo_Event_Facts\<close>:
    the event list and the events. \<open>Mongo_Reference\<close> and \<open>Mongo_Model\<close> give a driver that does as documented,
    and \<open>Mongo_Properties\<close> applies the properties to it.
  \<^item> \<open>Manager_Ports\<close> (\<open>ports.go\<close>, \<open>deps.go\<close>), \<open>Usecase_Events\<close> (\<open>event.go\<close>, scheduling of reminders),
    \<open>Usecase_Reminder\<close> (sending), \<open>Usecase_Participation\<close>, \<open>Usecase_Identity\<close> (\<open>identity.go\<close>,
    \<open>workspace.go\<close>, \<open>providerstatus.go\<close>), \<open>Scheduler\<close> (\<open>internal/manager/scheduler\<close>): the services,
    handlers and the worker, statement by statement.
  \<^item> \<open>Fake_Provider\<close>, \<open>Provider_Client\<close>, \<open>Monitor\<close>: \<open>internal/provider/fake/provider_server.go\<close> and
    \<open>internal/manager/providerclient\<close>; the locale \<open>provider_port\<close> is the contract on the members of
    a channel, which the client in front of the in-memory provider meets.
  \<^item> \<open>Go_Text\<close>, \<open>Go_Duration\<close>: searching and cutting strings, \<open>time.ParseDuration\<close> and \<open>Duration.String\<close>
    with the float64 arithmetic of fractions, and \<open>domain/duration.go\<close> on top. \<open>Markup\<close>:
    \<open>internal/shared/markup\<close>. \<open>Bot_Input\<close>, \<open>Bot_Times\<close>: \<open>action.go\<close>, \<open>command.go\<close>, \<open>datetime.go\<close> and \<open>pace.go\<close>
    of \<open>internal/manager/bot\<close>. \<open>Markup_Facts\<close>, \<open>Duration_Facts\<close>, \<open>Text_Facts\<close>, \<open>Input_Facts\<close>, \<open>Times_Facts\<close>
    and \<open>Pace_Facts\<close> carry their properties, which are in \<open>Bot_Properties\<close>.
  \<^item> \<open>Error_Text\<close> (texts of errors, \<open>domain/errors.go\<close>), \<open>Bot_Messages\<close> (\<open>messages.go\<close>, \<open>renderer.go\<close>),
    \<open>Bot_Forms\<close> (\<open>form.go\<close>), \<open>Bot_Dispatch\<close> (\<open>dispatch.go\<close>), \<open>Manager_Service\<close> (\<open>internal/manager/rpc\<close>): from
    a call of the provider to its answer; Japanese text is a list of code points (\<open>jp\<close>), and the
    messages are the texts of the source byte for byte. \<open>Message_Facts\<close> (whom a body mentions),
    \<open>Form_Facts\<close> (a form read as it was shown), \<open>Dispatch_Facts\<close> (\<open>reaches\<close>: a run made of steps of the
    services; \<open>answers\<close>: a run without an error) carry \<open>Dispatch_Properties\<close>.
  \<^item> \<open>Rpc_Auth\<close> (\<open>internal/shared/rpcauth\<close>), \<open>Process_Config\<close> (\<open>internal/provider/config\<close>, the lists of
    \<open>internal/manager/config\<close>, the settings of \<open>internal/shared/logging\<close>), with \<open>Process_Properties\<close>.
  \<^item> \<open>Manager_Invariant\<close>, \<open>Manager_Counts\<close>: the locales \<open>queue_invariant\<close>, \<open>edit_invariant\<close>,
    \<open>event_invariant\<close> and \<open>manager_invariant\<close> list the repository calls a service makes; whatever
    those calls keep, the service keeps. They are interpreted on the store invariant, on the shape
    of jobs, on participant counts and on several frame conditions. \<open>Usecase_Identity\<close> does the same
    with \<open>account_invariant\<close>. \<open>Manager_Reachable\<close>: steps of the whole manager and reachable states.
  \<^item> \<open>Reminder_Facts\<close>, \<open>Event_Facts\<close>, \<open>Service_Facts\<close>, \<open>Concurrent_Joins\<close>, \<open>Job_Life\<close>: what the services
    do, as lemmas about their runs; the last two order overlapping calls explicitly, as a run of
    commits decided on one state and as a history of queue operations.
  \<^item> \<open>Sample_World\<close>, \<open>Sample_Run\<close>: the small worlds the properties are applied to. \<open>Findings\<close>: where
    the code does something a reader may not expect. \<open>Domain_Properties\<close>, \<open>Store_Properties\<close>,
    \<open>Provider_Properties\<close> and this theory: the properties.

  Bounds and fuel. The loop of the interval mode of \<open>Policy.Schedule\<close> takes fuel 64 and \<open>None\<close>
  means that it is still running: each round moves the instant a day or at least an hour on, and
  the loop stops at 31 collected instants or past the start, so in a time zone whose offsets differ
  by less than twelve hours 64 rounds are enough (\<open>schedule_returns\<close>). Polling for the provider has
  no bound in the code either; it takes fuel and \<open>bootstrap_reaches_provider\<close> says how much is enough
  when the provider comes up. Counters and durations are \<open>int\<close>: the values the code keeps in
  \<open>int\<close> and \<open>int64\<close> are bounded far below the width by the checks that produce them, and where
  the width is visible it is written out (cursors in milliseconds, \<open>int32\<close> page sizes, \<open>Atoi\<close>).

  Parameters. SHA-256, random bytes, the time zone database, the classes of characters of the
  unicode package, NFKC, case mapping and case folding, the conversion of a float64 out of range, the gRPC status package, the message builders and the provider are arguments;
  what is needed of the status package is the hypothesis \<open>grpc_documented\<close>, of the Unicode
  functions on ASCII \<open>unicode_documented\<close>, and of the MongoDB driver and server \<open>mongo_documented\<close>: filters,
  update operators and pipeline expressions the code uses are written out, one call is atomic, and
  which of several matching documents a call picks is left open. The properties of MongoDB are
  about instants in whole milliseconds where an instant is compared, as a BSON date has no more.

  Not modelled, and why: \<open>Config.Validate\<close> of the manager (addresses are parsed by \<open>net/url\<close>); the
  loading of certificates; \<open>internal/manager/app\<close> but for the migration, \<open>cmd\<close>, \<open>rpcsrv\<close>, \<open>dial.go\<close> (wiring,
  signals, servers); \<open>gen\<close> (generated); \<open>storetest\<close> and \<open>testutil\<close> (test code). Of what is modelled, logging,
  contexts that are canceled, call deadlines, the timing of the heartbeat and the purges of the
  TTL indexes are left out: they need a model of concurrent runs cut short at any call.
\<close>

section \<open>Properties of the services\<close>

subsection \<open>Reachable states\<close>



subsection \<open>Concurrent joins\<close>





text \<open>
  C20. A press of the join button that succeeds makes its user an active participant, raises the
  number of participants by one unless the user was one, says which of the two it was, and
  leaves the participation of everybody else as it is.
\<close>
theorem join_makes_participant:
  assumes "manager_ok (wd_store w)" and "in_action inp = ActionJoin"
    and "participation_apply d inp w = (Inr r, w')"
  shows "was_counted (find_participation (wd_store w') (in_event_id inp) (in_chat_user_id inp)) \<and>
    (\<forall>i v. (i, v) \<noteq> (in_event_id inp, in_chat_user_id inp) \<longrightarrow>
       find_participation (wd_store w') i v = find_participation (wd_store w) i v) \<and>
    (if was_counted (find_participation (wd_store w) (in_event_id inp) (in_chat_user_id inp))
     then w' = w \<and> tr_kind (po_transition r) = TransitionAlreadyParticipant
     else participant_count (wd_store w') (in_event_id inp) =
         participant_count (wd_store w) (in_event_id inp) + 1 \<and>
       tr_kind (po_transition r) \<in> {TransitionJoined, TransitionPromoted})"
  by (rule join_applied [OF assms])

theorem join_makes_participant_witness:
  "\<exists>r w'. participation_apply quiet_deps (sample_join ''U2'' ActionJoin) sample_world = (Inr r, w') \<and>
     was_counted (find_participation (wd_store w') (id_of_seq 2) ''U2'') \<and>
     participant_count (wd_store w') (id_of_seq 2) = participant_count sample_store (id_of_seq 2) + 1"
proof -
  obtain r w' where run: "participation_apply quiet_deps (sample_join ''U2'' ActionJoin) sample_world = (Inr r, w')"
    using promotion_cancels_every_expiry by (auto split: prod.splits sum.splits)
  have "\<not> was_counted (find_participation sample_store (id_of_seq 2) ''U2'')" by code_simp
  moreover have "wd_store sample_world = sample_store" by (simp add: sample_world_def)
  ultimately show ?thesis
    using join_makes_participant [OF _ _ run] sample_manager_ok run by (simp add: sample_join_def)
qed

subsection \<open>The life cycle of an event\<close>




text \<open>
  C7. Closing an open event stores it as closed, leaves none of its reminder, auto-end and
  peek-expiry jobs pending and queues the archive of its channel; closing it again, by anyone
  who may and for any reason, returns the stored event and changes nothing.
\<close>
theorem close_once:
  assumes "find_event (wd_store w) (cl_event_id inp) = Some ev" and "ev_is_open ev"
    and "authorize_manage ev (cl_actor inp) = Inr ()"
    and "List.find (\<lambda>x. ws_id x = ev_workspace_id ev) (st_workspaces (wd_store w)) = Some ws"
  shows "\<exists>closed w'. event_close_with d inp w = (Inr closed, w') \<and> \<not> ev_is_open closed \<and>
     find_event (wd_store w') (cl_event_id inp) = Some closed \<and>
     filter (cancels (cl_event_id inp) close_kinds) (st_jobs (wd_store w')) = [] \<and>
     (ch_channel_id (ev_channel ev) \<noteq> '''' \<longrightarrow> has_key (''archive:'' @ cl_event_id inp) (wd_store w')) \<and>
     (\<forall>again. cl_event_id again = cl_event_id inp \<longrightarrow> authorize_manage ev (cl_actor again) = Inr () \<longrightarrow>
        event_close_with d again w' = (Inr closed, w'))"
proof -
  let ?closed = "closed_by (cl_reason inp) (dp_now d (wd_env w)) ev"
  obtain w' where w': "event_close_with d inp w = (Inr ?closed, w')"
    "find_event (wd_store w') (ev_id ev) = Some ?closed"
    "filter (cancels (ev_id ev) close_kinds) (st_jobs (wd_store w')) = []"
    "ch_channel_id (ev_channel ev) \<noteq> '''' \<longrightarrow> has_key (''archive:'' @ ev_id ev) (wd_store w')"
    using close_run [OF assms] by blast
  have i: "ev_id ev = cl_event_id inp" using find_event_id [OF assms(1)] .
  have shut: "\<not> ev_is_open ?closed" using assms(2) by simp
  have "event_close_with d again w' = (Inr ?closed, w')"
    if "cl_event_id again = cl_event_id inp" "authorize_manage ev (cl_actor again) = Inr ()" for again
    using that w'(2) i shut by (intro close_closed) simp_all
  then show ?thesis using w' i shut by (intro exI [of _ ?closed] exI [of _ w']) simp
qed

definition close_lunch :: close_event_input where
  "close_lunch = \<lparr>cl_event_id = id_of_seq 2, cl_reason = EndReasonCanceled, cl_actor = console_actor\<rparr>"

theorem close_once_witness:
  "\<exists>closed w'. event_close_with quiet_deps close_lunch sample_world = (Inr closed, w') \<and>
     \<not> ev_is_open closed \<and> has_key (''archive:'' @ id_of_seq 2) (wd_store w') \<and>
     event_close_with quiet_deps close_lunch w' = (Inr closed, w')"
proof -
  have "List.find (\<lambda>x. ws_id x = ev_workspace_id sample_event) (st_workspaces (wd_store sample_world)) =
      Some sample_workspace"
    by (simp add: sample_defs)
  moreover have "wd_store sample_world = sample_store" by (simp add: sample_world_def)
  ultimately show ?thesis
    using close_once [of sample_world close_lunch sample_event sample_workspace quiet_deps]
      sample_lookups by (auto simp: close_lunch_def authorize_manage_def console_actor_def)
qed

text \<open>
  A successful archive leaves the stored event with its channel marked archived, and
  archiving again returns without a call to the platform or a change.
\<close>
theorem archive_once:
  assumes "event_archive_channel d i w = (Inr (), w')" and "find_event (wd_store w) i = Some ev"
    and "ch_channel_id (ev_channel ev) \<noteq> ''''"
  shows "(\<exists>ev'. find_event (wd_store w') i = Some ev' \<and> ch_archived (ev_channel ev') \<and>
      ch_channel_id (ev_channel ev') = ch_channel_id (ev_channel ev)) \<and>
    event_archive_channel d i w' = (Inr (), w')"
  using archive_archives [OF assms] archive_again by blast

theorem archive_once_witness:
  "\<exists>w'. event_archive_channel quiet_deps (id_of_seq 2) sample_world = (Inr (), w') \<and>
     event_archive_channel quiet_deps (id_of_seq 2) w' = (Inr (), w')"
proof -
  have "case event_archive_channel quiet_deps (id_of_seq 2) sample_world of (r, w) \<Rightarrow> r = Inr ()"
    by code_simp
  then obtain w' where run: "event_archive_channel quiet_deps (id_of_seq 2) sample_world = (Inr (), w')"
    by (auto split: prod.splits)
  have "wd_store sample_world = sample_store" by (simp add: sample_world_def)
  then show ?thesis using archive_once [OF run] sample_lookups run by simp
qed

subsection \<open>Reminders\<close>





subsection \<open>Refusals\<close>

text \<open>
  C28. Nobody but the organizer and the console may edit or close an event: anyone else gets
  \<open>ErrForbidden\<close>, and nothing changes, inside or outside.
\<close>
theorem only_managers_manage:
  assumes "find_event (wd_store w) i = Some ev" and "\<not> ac_console actor"
    and "ac_chat_user_id actor \<noteq> cu_user_id (ev_organizer ev)"
  shows "event_update_with d \<lparr>ue_event_id = i, ue_update = upd, ue_actor = actor\<rparr> w = (Inl ErrForbidden, w) \<and>
    event_close_with d \<lparr>cl_event_id = i, cl_reason = reason, cl_actor = actor\<rparr> w = (Inl ErrForbidden, w)"
proof -
  have "get_event i w = (Inr ev, w)" using assms(1) by (simp add: get_event_def run_repo events_get_def)
  moreover have "authorize_manage ev actor = Inl ErrForbidden" using assms(2,3) by (simp add: authorize_manage_def)
  ultimately show ?thesis by (simp add: event_update_with_def event_close_with_def)
qed

theorem only_managers_manage_witness:
  "event_close_with quiet_deps \<lparr>cl_event_id = id_of_seq 2, cl_reason = EndReasonManual,
     cl_actor = \<lparr>ac_chat_user_id = ''U2'', ac_console = False\<rparr>\<rparr> sample_world = (Inl ErrForbidden, sample_world)"
proof -
  have "wd_store sample_world = sample_store" by (simp add: sample_world_def)
  then show ?thesis
    using only_managers_manage [of sample_world "id_of_seq 2" sample_event
        "\<lparr>ac_chat_user_id = ''U2'', ac_console = False\<rparr>" quiet_deps _ EndReasonManual] sample_lookups
    by (simp add: sample_event_def)
qed



subsection \<open>The worker\<close>

text \<open>
  A batch of the worker always returns, whatever the handlers and the platform do, and has
  then run at most as many jobs as its size.
\<close>
theorem batch_bounded:
  "\<exists>n w'. run_once d cfg w = (Inr n, w') \<and> 0 \<le> n \<and> n \<le> max 0 (wc_batch_size cfg)"
  using run_batch_bounds [of d cfg "nat (wc_batch_size cfg)" 0 w] 
  by (auto simp: run_once_def split: if_splits)

text \<open>
  The verdict on a job that ran follows from its result alone: done when the handler
  returned, left to the reschedule it asked for, failed for good on a permanent or a validation
  error, and otherwise pending again after the backoff of its attempts. No other job changes.
\<close>
theorem verdict_exact:
  assumes "find_job (wd_store w) (jb_id j) = Some k"
  shows "\<exists>w'. worker_verdict j r now w = (Inr (), w') \<and>
    find_job (wd_store w') = (find_job (wd_store w))(jb_id j \<mapsto>
      (case r of
         Inr _ \<Rightarrow> completed_job now k
       | Inl e \<Rightarrow>
           if errors_is e ErrRescheduled then k
           else if errors_is e ErrPermanent \<or> is_validation e then failed_job e now k
           else retried_job (now + backoff (jb_attempts j)) e now k))"
proof -
  have id: "jb_id (completed_job now x) = jb_id x" "jb_id (failed_job e now x) = jb_id x"
    "jb_id (retried_job t e now x) = jb_id x" for e t x
    by (simp_all add: verdict_defs)
  show ?thesis
    using assms
    by (cases r)
      (auto simp: worker_verdict_def worker_complete_def worker_fail_def worker_retry_def run_repo
        jobs_complete_def jobs_fail_def jobs_retry_def update_job_def find_job_change id fun_eq_iff)
qed

theorem verdict_exact_witness:
  "\<exists>j w'. find_job sample_store (id_of_seq 6) = Some j \<and>
     worker_verdict j (Inl ErrRateLimited) hour sample_world = (Inr (), w') \<and>
     find_job (wd_store w') (id_of_seq 6) = Some (retried_job (hour + base_backoff) ErrRateLimited hour j)"
proof -
  obtain j where j: "find_job sample_store (id_of_seq 6) = Some j" "jb_attempts j = 0" "jb_id j = id_of_seq 6"
    by (simp add: find_job_def sample_defs enqueued_def)
  have "backoff 0 = base_backoff" by code_simp
  moreover have "\<not> errors_is ErrRateLimited ErrRescheduled" "\<not> errors_is ErrRateLimited ErrPermanent"
    "\<not> is_validation ErrRateLimited" by code_simp+
  moreover have "wd_store sample_world = sample_store" by (simp add: sample_world_def)
  ultimately show ?thesis
    using verdict_exact [of sample_world j j "Inl ErrRateLimited" hour] j by auto
qed

end
